(* ===== verification/Prelude.thy ===== *)
theory Prelude
  imports Main
begin

text \<open>
  Generic material of the development: Go's 64-bit integers, the decimal rendering of
  integers used by \<open>fmt\<close> and \<open>strconv\<close>, byte strings, sums over table rows, and the
  collections of simplification rules the component theories fill. Nothing here is
  specific to the program.
\<close>

named_theorems row_simps "effect of a statement on the fields of the database"
named_theorems wf_intros "preservation of a well-formedness predicate"

section \<open>Go's int64\<close>

text \<open>
  A Go \<open>int64\<close> is an \<open>int\<close> between \<open>- 2 ^ 63\<close> and \<open>2 ^ 63 - 1\<close>. Arithmetic in Go code
  wraps around (\<open>wrap64\<close>); arithmetic in SQL on a BIGINT column raises an error instead,
  which the statement's model tests with \<open>in_i64\<close>.
\<close>

definition in_i64 :: "int \<Rightarrow> bool" where
  "in_i64 x \<longleftrightarrow> - 9223372036854775808 \<le> x \<and> x < 9223372036854775808"

definition wrap64 :: "int \<Rightarrow> int" where
  "wrap64 x = (x + 9223372036854775808) mod 18446744073709551616 - 9223372036854775808"

lemma in_i64_wrap64 [simp, intro]: "in_i64 (wrap64 x)"
  by (simp add: in_i64_def wrap64_def)

lemma wrap64_id: "in_i64 x \<Longrightarrow> wrap64 x = x"
  by (simp add: in_i64_def wrap64_def)

lemma wrap64_in_range [simp]: "- 9223372036854775808 \<le> x \<Longrightarrow> x < 9223372036854775808 \<Longrightarrow> wrap64 x = x"
  by (simp add: wrap64_def)

lemma in_i64_between: "0 \<le> x \<Longrightarrow> x \<le> p \<Longrightarrow> in_i64 p \<Longrightarrow> in_i64 x"
  by (simp add: in_i64_def)

lemma in_i64_diff: "0 \<le> x \<Longrightarrow> 0 \<le> y \<Longrightarrow> in_i64 x \<Longrightarrow> in_i64 y \<Longrightarrow> in_i64 (x - y)"
  by (simp add: in_i64_def)

lemma wrap64_idem [simp]: "wrap64 (wrap64 x) = wrap64 x"
  by (rule wrap64_id) simp

lemma wrap64_cong_mod: "wrap64 x mod 18446744073709551616 = x mod 18446744073709551616"
proof -
  have "wrap64 x mod 18446744073709551616
      = ((x + 9223372036854775808) mod 18446744073709551616 - 9223372036854775808) mod 18446744073709551616"
    by (simp add: wrap64_def)
  also have "\<dots> = (x + 9223372036854775808 - 9223372036854775808) mod 18446744073709551616"
    by (rule mod_diff_left_eq)
  finally show ?thesis by simp
qed

section \<open>Decimal rendering of integers\<close>

text \<open>
  \<open>show_int\<close> is what \<open>fmt\<close>'s \<open>%d\<close> verb and \<open>strconv.FormatInt(n, 10)\<close> print;
  \<open>parse_int\<close> is \<open>strconv.ParseInt(s, 10, 64)\<close>: an optional sign, at least one digit, only
  digits, a value in range.
\<close>

definition digit_char :: "nat \<Rightarrow> char" where
  "digit_char d = char_of (48 + d)"

definition is_digit :: "char \<Rightarrow> bool" where
  "is_digit c \<longleftrightarrow> 48 \<le> (of_char c :: nat) \<and> (of_char c :: nat) \<le> 57"

definition digit_val :: "char \<Rightarrow> nat" where
  "digit_val c = of_char c - 48"

lemma of_digit_char: "d < 10 \<Longrightarrow> (of_char (digit_char d) :: nat) = 48 + d"
  by (simp add: digit_char_def)

lemma is_digit_digit_char [simp]: "d < 10 \<Longrightarrow> is_digit (digit_char d)"
  by (simp add: is_digit_def of_digit_char)

lemma digit_val_digit_char [simp]: "d < 10 \<Longrightarrow> digit_val (digit_char d) = d"
  by (simp add: digit_val_def of_digit_char)

fun show_nat :: "nat \<Rightarrow> string" where
  "show_nat n = (if n < 10 then [digit_char n] else show_nat (n div 10) @ [digit_char (n mod 10)])"

declare show_nat.simps [simp del]

definition show_int :: "int \<Rightarrow> string" where
  "show_int i = (if i < 0 then CHR ''-'' # show_nat (nat (- i)) else show_nat (nat i))"

definition digits_val :: "string \<Rightarrow> nat" where
  "digits_val s = foldl (\<lambda>a c. 10 * a + digit_val c) 0 s"

definition parse_int :: "string \<Rightarrow> int option" where
  "parse_int s =
     (let (neg, ds) = (case s of [] \<Rightarrow> (False, [])
                       | c # cs \<Rightarrow> if c = CHR ''-'' then (True, cs)
                                   else if c = CHR ''+'' then (False, cs) else (False, s));
          v = (if neg then - int (digits_val ds) else int (digits_val ds))
      in if ds \<noteq> [] \<and> list_all is_digit ds \<and> in_i64 v then Some v else None)"

lemma show_nat_digits: "list_all is_digit (show_nat n)"
proof (induction n rule: show_nat.induct)
  case (1 n)
  then show ?case by (subst show_nat.simps) auto
qed

lemma show_nat_not_Nil [simp]: "show_nat n \<noteq> []"
  by (subst show_nat.simps) simp

lemma digits_val_show_nat [simp]: "digits_val (show_nat n) = n"
proof (induction n rule: show_nat.induct)
  case (1 n)
  show ?case
  proof (cases "n < 10")
    case True
    then show ?thesis by (subst show_nat.simps) (simp add: digits_val_def)
  next
    case False
    with 1 have "digits_val (show_nat (n div 10)) = n div 10" by simp
    with False show ?thesis by (subst show_nat.simps) (simp add: digits_val_def)
  qed
qed

lemma show_nat_hd: "\<exists>c cs. show_nat n = c # cs \<and> is_digit c"
  using show_nat_digits [of n] by (cases "show_nat n") simp_all

lemma not_digit_sign [simp]: "\<not> is_digit (CHR ''-'')" "\<not> is_digit (CHR ''+'')"
  "\<not> is_digit (CHR '';'')" "\<not> is_digit (CHR '':'')" "\<not> is_digit (CHR ''_'')"
  "\<not> is_digit (CHR ''i'')" "\<not> is_digit (CHR ''.'')"
  by (simp_all add: is_digit_def)

theorem parse_show_int: "in_i64 i \<Longrightarrow> parse_int (show_int i) = Some i"
proof (cases "i < 0")
  case True
  moreover assume "in_i64 i"
  ultimately show ?thesis
    using show_nat_digits [of "nat (- i)"] by (simp add: parse_int_def show_int_def)
next
  case False
  moreover assume "in_i64 i"
  moreover obtain c cs where "show_nat (nat i) = c # cs" "is_digit c"
    using show_nat_hd by blast
  ultimately show ?thesis
    using show_nat_digits [of "nat i"] digits_val_show_nat [of "nat i"]
    by (auto simp: parse_int_def show_int_def)
qed

lemma parse_int_range: "parse_int s = Some i \<Longrightarrow> in_i64 i"
  by (auto simp: parse_int_def Let_def split: list.splits if_splits)

lemma show_nat_inject [simp]: "show_nat m = show_nat n \<longleftrightarrow> m = n"
  by (metis digits_val_show_nat)

lemma show_int_inject [simp]: "show_int i = show_int j \<longleftrightarrow> i = j"
proof -
  have "\<And>n m. show_nat n \<noteq> CHR ''-'' # show_nat m"
    using show_nat_hd not_digit_sign by (metis list.inject)
  then have "\<And>n m. CHR ''-'' # show_nat m \<noteq> show_nat n"
    by metis
  with \<open>\<And>n m. show_nat n \<noteq> CHR ''-'' # show_nat m\<close> show ?thesis
    by (auto simp: show_int_def)
qed

lemma show_int_chars: "c \<in> set (show_int i) \<Longrightarrow> is_digit c \<or> c = CHR ''-''"
  using show_nat_digits by (auto simp: show_int_def list_all_iff split: if_splits)

lemma show_int_hd: "\<exists>c cs. show_int i = c # cs \<and> (is_digit c \<or> c = CHR ''-'')"
  using show_nat_hd [of "nat i"] by (auto simp: show_int_def)

section \<open>Hexadecimal digits\<close>

text \<open>\<open>hex.EncodeToString\<close> on a list of bytes.\<close>

definition hex_lower :: "nat \<Rightarrow> char" where
  "hex_lower d = ''0123456789abcdef'' ! (d mod 16)"

definition EncodeToString :: "nat list \<Rightarrow> string" where
  "EncodeToString bs = concat (map (\<lambda>b. [hex_lower (b div 16), hex_lower (b mod 16)]) bs)"

lemma length_EncodeToString: "length (EncodeToString bs) = 2 * length bs"
  by (induction bs) (simp_all add: EncodeToString_def)

section \<open>Splitting at a separator\<close>

text \<open>
  Where a rendered prefix cannot contain the separator that follows it, the rendering is
  uniquely decodable; the fingerprints, dedupe keys and cursors of the program all have
  this shape.
\<close>

lemma append_sep_inject:
  assumes "c \<notin> set xs" "c \<notin> set ys"
  shows "xs @ c # us = ys @ c # vs \<longleftrightarrow> xs = ys \<and> us = vs"
  using assms
proof (induction xs arbitrary: ys)
  case Nil
  then show ?case by (cases ys) auto
next
  case (Cons x xs)
  then show ?case by (cases ys) auto
qed

lemma append_sep_Nil: "c \<notin> set xs \<Longrightarrow> xs \<noteq> ys @ c # vs"
  by auto

section \<open>Byte strings\<close>

text \<open>
  A Go string is a sequence of bytes, here a list of \<open>char\<close>. Cyrillic literals of the
  source are written as their UTF-8 bytes.
\<close>

definition bytes :: "nat list \<Rightarrow> string" where
  "bytes ns = map char_of ns"

lemma length_bytes [simp]: "length (bytes ns) = length ns"
  by (simp add: bytes_def)

definition has_prefix :: "string \<Rightarrow> string \<Rightarrow> bool" where
  "has_prefix s p \<longleftrightarrow> take (length p) s = p"

definition trim_prefix :: "string \<Rightarrow> string \<Rightarrow> string" where
  "trim_prefix s p = (if has_prefix s p then drop (length p) s else s)"

lemma has_prefix_append [simp]: "has_prefix (p @ s) p"
  by (simp add: has_prefix_def)

lemma has_prefixD: "has_prefix s p \<Longrightarrow> \<exists>r. s = p @ r"
  unfolding has_prefix_def by (metis append_take_drop_id)

section \<open>Sums over the rows of a table\<close>

definition sum_rows :: "('r \<Rightarrow> bool) \<Rightarrow> ('r \<Rightarrow> int) \<Rightarrow> 'r list \<Rightarrow> int" where
  "sum_rows P f rs = sum_list (map f (filter P rs))"

lemma sum_rows_Nil [simp]: "sum_rows P f [] = 0"
  by (simp add: sum_rows_def)

lemma sum_rows_Cons [simp]:
  "sum_rows P f (r # rs) = (if P r then f r else 0) + sum_rows P f rs"
  by (simp add: sum_rows_def)

lemma sum_rows_append [simp]: "sum_rows P f (rs @ ss) = sum_rows P f rs + sum_rows P f ss"
  by (simp add: sum_rows_def)

lemma sum_rows_map_cong:
  "(\<And>r. r \<in> set rs \<Longrightarrow> P (g r) = P r \<and> (P r \<longrightarrow> f (g r) = f r)) \<Longrightarrow>
   sum_rows P f (map g rs) = sum_rows P f rs"
  by (induction rs) auto

lemma sum_rows_cong:
  "(\<And>r. r \<in> set rs \<Longrightarrow> P r = Q r \<and> (P r \<longrightarrow> f r = g r)) \<Longrightarrow>
   sum_rows P f rs = sum_rows Q g rs"
  by (induction rs) auto

lemma sum_rows_nonneg: "(\<And>r. r \<in> set rs \<Longrightarrow> P r \<Longrightarrow> 0 \<le> f r) \<Longrightarrow> 0 \<le> sum_rows P f rs"
  by (induction rs) auto

lemma sum_rows_mono_filter:
  "(\<And>r. r \<in> set rs \<Longrightarrow> P r \<Longrightarrow> Q r) \<Longrightarrow> (\<And>r. r \<in> set rs \<Longrightarrow> Q r \<Longrightarrow> 0 \<le> f r) \<Longrightarrow>
   sum_rows P f rs \<le> sum_rows Q f rs"
  by (induction rs) force+

lemma sum_rows_none: "(\<And>r. r \<in> set rs \<Longrightarrow> \<not> P r) \<Longrightarrow> sum_rows P f rs = 0"
  by (induction rs) auto

section \<open>First match in a list\<close>

lemma find_append: "find P (xs @ ys) = (case find P xs of None \<Rightarrow> find P ys | Some x \<Rightarrow> Some x)"
  by (induction xs) auto

lemma find_map_same:
  "(\<And>x. x \<in> set xs \<Longrightarrow> P (g x) = P x) \<Longrightarrow> find P (map g xs) = map_option g (find P xs)"
  by (induction xs) auto

lemma find_SomeD: "find P xs = Some x \<Longrightarrow> x \<in> set xs \<and> P x"
  by (induction xs) (auto split: if_splits)

lemma find_None: "find P xs = None \<longleftrightarrow> (\<forall>x\<in>set xs. \<not> P x)"
  by (induction xs) auto

lemma find_unique:
  assumes "x \<in> set xs" "P x" "\<And>y. y \<in> set xs \<Longrightarrow> P y \<Longrightarrow> y = x"
  shows "find P xs = Some x"
proof (cases "find P xs")
  case None
  with assms(1,2) show ?thesis by (simp add: find_None)
next
  case (Some y)
  then have "y \<in> set xs \<and> P y" by (rule find_SomeD)
  with assms(3) Some show ?thesis by simp
qed

lemma distinct_map_inj: "distinct (map f xs) \<Longrightarrow> x \<in> set xs \<Longrightarrow> y \<in> set xs \<Longrightarrow> f x = f y \<Longrightarrow> x = y"
  by (meson distinct_map inj_onD)

lemma find_key:
  assumes "distinct (map k xs)" "x \<in> set xs"
  shows "find (\<lambda>y. k y = k x) xs = Some x"
  using assms by (auto intro: find_unique dest: distinct_map_inj)

end
