(* ===== verification/Decimal.thy ===== *)
theory Decimal
  imports Complex_Main Prelude
begin

text \<open>
  Money. The code keeps amounts in \<open>decimal.Decimal\<close> of the third-party package
  \<open>shopspring/decimal\<close>. A decimal denotes a rational, and its exact operations (addition,
  multiplication, comparison, \<open>Floor\<close>) are those of \<open>rat\<close>. The operations that lose
  information are not under src/, so they are a parameter: a \<open>decimal_lib\<close>, of which the
  proofs use only what the package documents (locale \<open>decimal_laws\<close>). \<open>go_decimal\<close> is a
  concrete instance used by the witnesses.
\<close>

record decimal_lib =
  dec_Div :: "rat \<Rightarrow> rat \<Rightarrow> rat"
  dec_IntPart :: "rat \<Rightarrow> int"
  dec_StringFixed :: "nat \<Rightarrow> rat \<Rightarrow> string"

lemma floor_rat_numeral [simp]: "\<lfloor>numeral a / numeral b :: rat\<rfloor> = numeral a div numeral b"
  using floor_divide_of_int_eq [where ?'a = rat, of "numeral a" "numeral b"] by simp

lemma floor_rat_neg_numeral [simp]: "\<lfloor>- numeral a / numeral b :: rat\<rfloor> = - numeral a div numeral b"
  using floor_divide_of_int_eq [where ?'a = rat, of "- numeral a" "numeral b"] by simp

lemma floor_rat_one [simp]: "\<lfloor>1 / numeral b :: rat\<rfloor> = 1 div numeral b"
  using floor_divide_of_int_eq [where ?'a = rat, of 1 "numeral b"] by simp

section \<open>Rounding half away from zero\<close>

definition round_at :: "nat \<Rightarrow> rat \<Rightarrow> rat" where
  "round_at k x = sgn x * of_int \<lfloor>\<bar>x\<bar> * 10 ^ k + 1 / 2\<rfloor> / 10 ^ k"

definition whole_at :: "nat \<Rightarrow> rat \<Rightarrow> bool" where
  "whole_at k x \<longleftrightarrow> of_int \<lfloor>x * 10 ^ k\<rfloor> = x * 10 ^ k"

lemma whole_atI: "x = of_int n / 10 ^ k \<Longrightarrow> whole_at k x"
  by (simp add: whole_at_def)

lemma whole_atE:
  assumes "whole_at k x"
  obtains n where "x = of_int n / 10 ^ k"
proof
  from assms have "of_int \<lfloor>x * 10 ^ k\<rfloor> = x * 10 ^ k"
    unfolding whole_at_def .
  then show "x = of_int \<lfloor>x * 10 ^ k\<rfloor> / 10 ^ k"
    by (simp only: nonzero_mult_div_cancel_right power_not_zero zero_neq_numeral [symmetric] not_False_eq_True)
qed

lemma round_at_nonneg: "0 \<le> x \<Longrightarrow> round_at k x = of_int \<lfloor>x * 10 ^ k + 1 / 2\<rfloor> / 10 ^ k"
  by (cases "x = 0") (simp_all add: round_at_def floor_eq_iff)

lemma round_at_minus: "round_at k (- x) = - round_at k x"
  by (simp add: round_at_def sgn_if)

lemma round_at_whole_nonneg:
  assumes "0 \<le> n"
  shows "round_at k (of_int n / 10 ^ k) = of_int n / 10 ^ k"
proof -
  have "\<lfloor>of_int n + 1 / 2 :: rat\<rfloor> = n" by (simp add: floor_eq_iff)
  with assms show ?thesis by (simp add: round_at_nonneg)
qed

lemma round_at_whole: "whole_at k x \<Longrightarrow> round_at k x = x"
proof (elim whole_atE)
  fix n assume x: "x = of_int n / 10 ^ k"
  show "round_at k x = x"
  proof (cases "0 \<le> n")
    case True
    then show ?thesis by (simp add: x round_at_whole_nonneg)
  next
    case False
    then have "round_at k (- (of_int (- n) / 10 ^ k)) = - (of_int (- n) / 10 ^ k)"
      by (simp only: round_at_minus round_at_whole_nonneg)
    then show ?thesis by (simp add: x)
  qed
qed

lemma whole_at_round [simp]: "whole_at k (round_at k x)"
proof -
  let ?n = "\<lfloor>\<bar>x\<bar> * 10 ^ k + 1 / 2\<rfloor>"
  have "round_at k x = of_int ?n / 10 ^ k \<or> round_at k x = of_int (- ?n) / 10 ^ k
      \<or> round_at k x = of_int 0 / 10 ^ k"
    by (simp add: round_at_def sgn_if)
  then show ?thesis by (elim disjE) (erule whole_atI)+
qed

lemma whole_at_add: "whole_at k x \<Longrightarrow> whole_at k y \<Longrightarrow> whole_at k (x + y)"
  by (elim whole_atE) (auto intro: whole_atI [where n = "_ + _"] simp: add_divide_distrib)

lemma whole_at_mult: "whole_at j x \<Longrightarrow> whole_at k y \<Longrightarrow> whole_at (j + k) (x * y)"
  by (elim whole_atE) (auto intro: whole_atI [where n = "_ * _"] simp: power_add)

lemma whole_at_0 [simp]: "whole_at k 0"
  by (simp add: whole_at_def)

lemma round_at_error: "\<bar>round_at k x - x\<bar> \<le> 1 / (2 * 10 ^ k)"
proof -
  have pos: "\<bar>round_at k y - y\<bar> \<le> 1 / (2 * 10 ^ k)" if "0 \<le> y" for y :: rat
  proof -
    let ?n = "of_int \<lfloor>y * 10 ^ k + 1 / 2\<rfloor> :: rat"
    have le: "?n \<le> y * 10 ^ k + 1 / 2" and gt: "y * 10 ^ k + 1 / 2 < ?n + 1"
      by linarith+
    have "\<bar>?n - y * 10 ^ k\<bar> \<le> 1 / 2"
      using le gt by linarith
    moreover have "round_at k y - y = (?n - y * 10 ^ k) / 10 ^ k"
      using that by (simp add: round_at_nonneg diff_divide_distrib)
    ultimately show ?thesis
      by (simp add: abs_divide divide_le_eq)
  qed
  show ?thesis
  proof (cases "0 \<le> x")
    case True then show ?thesis by (rule pos)
  next
    case False
    then have "\<bar>round_at k (- x) - (- x)\<bar> \<le> 1 / (2 * 10 ^ k)" by (intro pos) simp
    then show ?thesis by (simp add: round_at_minus abs_minus_commute)
  qed
qed

lemma round_at_mono:
  assumes "0 \<le> x" "x \<le> y"
  shows "round_at k x \<le> round_at k y"
proof -
  have "\<lfloor>x * 10 ^ k + 1 / 2\<rfloor> \<le> \<lfloor>y * 10 ^ k + 1 / 2\<rfloor>"
    using assms by (intro floor_mono) simp
  moreover have "0 \<le> y" using assms by simp
  ultimately show ?thesis
    using assms by (simp add: round_at_nonneg divide_right_mono)
qed

lemma round_at_le_whole: "0 \<le> x \<Longrightarrow> x \<le> y \<Longrightarrow> whole_at k y \<Longrightarrow> round_at k x \<le> y"
  using round_at_mono [of x y k] by (simp add: round_at_whole)

lemma round_at_nonneg_ge0: "0 \<le> x \<Longrightarrow> 0 \<le> round_at k x"
  by (simp add: round_at_nonneg)

section \<open>What the package documents\<close>

text \<open>
  \<open>Div\<close>: the quotient, rounded to \<open>DivisionPrecision\<close> = 16 digits after the point if it does
  not divide exactly. \<open>IntPart\<close>: the integer component, as an int64. \<open>StringFixed\<close>: the
  rounded fixed-point rendering, digits and a point only.
\<close>

locale decimal_laws =
  fixes D :: decimal_lib
  assumes Div_whole: "b \<noteq> 0 \<Longrightarrow> whole_at 16 (dec_Div D a b)"
    and Div_near: "b \<noteq> 0 \<Longrightarrow> \<bar>dec_Div D a b - a / b\<bar> \<le> 1 / (2 * 10 ^ 16)"
    and IntPart_int: "in_i64 n \<Longrightarrow> dec_IntPart D (of_int n) = n"
    and IntPart_range: "in_i64 (dec_IntPart D x)"
    and StringFixed_chars: "CHR '';'' \<notin> set (dec_StringFixed D k x)"
    and StringFixed_eq: "dec_StringFixed D 2 x = dec_StringFixed D 2 y \<longleftrightarrow> round_at 2 x = round_at 2 y"
begin

lemma Div_ge_int:
  assumes "b \<noteq> 0" "of_int m \<le> a / b"
  shows "of_int m \<le> dec_Div D a b"
proof -
  obtain n where n: "dec_Div D a b = of_int n / 10 ^ 16"
    using Div_whole [OF assms(1)] by (rule whole_atE)
  have "of_int m - 1 / (2 * 10 ^ 16) \<le> dec_Div D a b"
    using Div_near [OF assms(1), of a] assms(2) by linarith
  then have "of_int (m * 10 ^ 16) - 1 / 2 \<le> (of_int n :: rat)"
    by (simp add: n field_simps)
  then have "of_int (m * 10 ^ 16) < (of_int (n + 1) :: rat)"
    by simp
  then have "m * 10 ^ 16 \<le> n" by (simp only: of_int_less_iff zless_add1_eq) linarith
  then have "of_int (m * 10 ^ 16) \<le> (of_int n :: rat)" by (simp only: of_int_le_iff)
  then show ?thesis by (simp add: n field_simps)
qed

lemma Div_le_int:
  assumes "b \<noteq> 0" "a / b \<le> of_int m"
  shows "dec_Div D a b \<le> of_int m"
proof -
  obtain n where n: "dec_Div D a b = of_int n / 10 ^ 16"
    using Div_whole [OF assms(1)] by (rule whole_atE)
  have "dec_Div D a b \<le> of_int m + 1 / (2 * 10 ^ 16)"
    using Div_near [OF assms(1), of a] assms(2) by linarith
  then have "of_int n \<le> (of_int (m * 10 ^ 16) :: rat) + 1 / 2"
    by (simp add: n field_simps)
  then have "of_int n < (of_int (m * 10 ^ 16 + 1) :: rat)"
    by simp
  then have "n \<le> m * 10 ^ 16" by (simp only: of_int_less_iff zless_add1_eq) linarith
  then have "of_int n \<le> (of_int (m * 10 ^ 16) :: rat)" by (simp only: of_int_le_iff)
  then show ?thesis by (simp add: n field_simps)
qed

text \<open>
  The rounding of \<open>Div\<close> never carries a quotient with a small enough denominator across an
  integer, so the floor of the rounded quotient is the floor of the exact one.
\<close>

lemma floor_Div:
  assumes q: "0 < q" "q < 2 * 10 ^ 16" and ab: "b \<noteq> 0" "a / b = of_int p / of_int q"
  shows "\<lfloor>dec_Div D a b\<rfloor> = p div q"
proof -
  have p: "p = q * (p div q) + p mod q" by simp
  have r: "0 \<le> p mod q" "p mod q \<le> q - 1" using q by (simp_all add: pos_mod_bound zle_diff1_eq)
  have quot: "(of_int p :: rat) / of_int q = of_int (p div q) + of_int (p mod q) / of_int q"
    using q by (simp add: field_simps flip: of_int_mult of_int_add)
  have lo: "(of_int (p div q) :: rat) \<le> a / b"
    using r q by (simp add: ab quot)
  have "(of_int (p mod q) :: rat) \<le> of_int (q - 1)"
    using r by (simp only: of_int_le_iff)
  then have "(of_int (p mod q) :: rat) / of_int q \<le> 1 - 1 / of_int q"
    using q by (simp add: field_simps)
  then have hi: "a / b \<le> of_int (p div q) + 1 - 1 / of_int q"
    by (simp add: ab quot)
  have "(of_int q :: rat) < of_int (2 * 10 ^ 16)"
    using q(2) by (simp only: of_int_less_iff)
  then have "1 / (2 * 10 ^ 16) < (1 :: rat) / of_int q"
    using q(1) by (intro divide_strict_left_mono) simp_all
  with hi have "a / b + 1 / (2 * 10 ^ 16) < of_int (p div q) + 1" by simp
  then have "dec_Div D a b < of_int (p div q) + 1"
    using Div_near [OF ab(1), of a] by linarith
  moreover have "of_int (p div q) \<le> dec_Div D a b"
    using ab(1) lo by (rule Div_ge_int)
  ultimately show ?thesis by (simp add: floor_eq_iff)
qed

lemma Div_exact:
  assumes "b \<noteq> 0" "whole_at 16 (a / b)"
  shows "dec_Div D a b = a / b"
proof -
  obtain m where m: "dec_Div D a b = of_int m / 10 ^ 16"
    using Div_whole [OF assms(1)] by (rule whole_atE)
  obtain n where n: "a / b = of_int n / 10 ^ 16"
    using assms(2) by (rule whole_atE)
  have "\<bar>(of_int m :: rat) - of_int n\<bar> \<le> 1 / 2"
    using Div_near [OF assms(1), of a]
    by (simp add: m n diff_divide_distrib [symmetric] abs_divide field_simps)
  then have "\<bar>(of_int (m - n) :: rat)\<bar> < of_int 1" by simp
  then have "\<bar>m - n\<bar> < 1" by (simp only: of_int_abs [symmetric] of_int_less_iff)
  then show ?thesis by (simp add: m n)
qed

lemma Div_100_exact:
  assumes "whole_at 14 a"
  shows "dec_Div D a 100 = a / 100"
proof (rule Div_exact)
  obtain n where "a = of_int n / 10 ^ 14" using assms by (rule whole_atE)
  then have "a / 100 = of_int n / 10 ^ 16" by simp
  then show "whole_at 16 (a / 100)" by (rule whole_atI)
qed simp

lemma IntPart_floor: "in_i64 \<lfloor>x\<rfloor> \<Longrightarrow> dec_IntPart D (of_int \<lfloor>x\<rfloor>) = \<lfloor>x\<rfloor>"
  by (rule IntPart_int)

end

lemma whole_at_up: "whole_at j x \<Longrightarrow> j \<le> k \<Longrightarrow> whole_at k x"
proof (elim whole_atE)
  fix n assume "x = of_int n / 10 ^ j" "j \<le> k"
  moreover from this have "(10 :: rat) ^ k = 10 ^ j * 10 ^ (k - j)"
    by (simp flip: power_add)
  ultimately have "x = of_int (n * 10 ^ (k - j)) / 10 ^ k"
    by simp
  then show "whole_at k x" by (rule whole_atI)
qed

section \<open>A concrete instance\<close>

definition cents_string :: "int \<Rightarrow> string" where
  "cents_string n =
     (let m = nat \<bar>n\<bar>
      in (if n < 0 then [CHR ''-''] else []) @ show_nat (m div 100) @ CHR ''.'' #
         [digit_char (m div 10 mod 10), digit_char (m mod 10)])"

definition fixed2 :: "rat \<Rightarrow> string" where
  "fixed2 x = cents_string \<lfloor>round_at 2 x * 100\<rfloor>"

definition go_decimal :: decimal_lib where
  "go_decimal = \<lparr>dec_Div = (\<lambda>a b. round_at 16 (a / b)),
     dec_IntPart = (\<lambda>x. wrap64 (sgn \<lfloor>x\<rfloor> * \<lfloor>\<bar>x\<bar>\<rfloor>)),
     dec_StringFixed = (\<lambda>k. fixed2)\<rparr>"

lemma digit_char_inject: "a < 10 \<Longrightarrow> b < 10 \<Longrightarrow> digit_char a = digit_char b \<longleftrightarrow> a = b"
  by (metis digit_val_digit_char)

lemma digit_char_not_semicolon: "d < 10 \<Longrightarrow> digit_char d \<noteq> CHR '';''"
  using is_digit_digit_char not_digit_sign(3) by metis

lemma show_nat_no_sep:
  "CHR ''.'' \<notin> set (show_nat n)" "CHR '';'' \<notin> set (show_nat n)" "CHR ''-'' \<notin> set (show_nat n)"
  using show_nat_digits [of n] by (auto simp: list_all_iff)

lemma cents_string_chars: "CHR '';'' \<notin> set (cents_string n)"
  using digit_char_not_semicolon [of "nat \<bar>n\<bar> div 10 mod 10"] digit_char_not_semicolon [of "nat \<bar>n\<bar> mod 10"]
  by (auto simp: cents_string_def Let_def show_nat_no_sep split: if_splits)

lemma two_digits_inject:
  fixes m n :: nat
  assumes "digit_char (m div 10 mod 10) = digit_char (n div 10 mod 10)"
    and "digit_char (m mod 10) = digit_char (n mod 10)" and "m div 100 = n div 100"
  shows "m = n"
proof -
  have "m div 10 mod 10 < 10" "n div 10 mod 10 < 10" "m mod 10 < 10" "n mod 10 < 10" by auto
  with assms have "m div 10 mod 10 = n div 10 mod 10" "m mod 10 = n mod 10"
    by (simp_all add: digit_char_inject)
  moreover have "k = 100 * (k div 100) + 10 * (k div 10 mod 10) + k mod 10" for k :: nat
  proof -
    have "k div 100 = k div 10 div 10" by (simp add: div_mult2_eq [of k 10 10, simplified])
    then show ?thesis using mult_div_mod_eq [of 10 k] mult_div_mod_eq [of 10 "k div 10"] by linarith
  qed
  ultimately show ?thesis using assms(3) by metis
qed

lemma minus_not_show_nat:
  "CHR ''-'' # xs \<noteq> show_nat n @ ys" "show_nat n @ ys \<noteq> CHR ''-'' # xs"
  "CHR ''-'' # xs \<noteq> show_nat n" "show_nat n \<noteq> CHR ''-'' # xs"
proof -
  obtain c cs where "show_nat n = c # cs" "is_digit c" using show_nat_hd by blast
  then show "CHR ''-'' # xs \<noteq> show_nat n @ ys" "show_nat n @ ys \<noteq> CHR ''-'' # xs"
    "CHR ''-'' # xs \<noteq> show_nat n" "show_nat n \<noteq> CHR ''-'' # xs" by auto
qed

lemma cents_digits_inject:
  "show_nat (m div 100) @ CHR ''.'' # [digit_char (m div 10 mod 10), digit_char (m mod 10)]
   = show_nat (n div 100) @ CHR ''.'' # [digit_char (n div 10 mod 10), digit_char (n mod 10)]
   \<longleftrightarrow> m = n"
  by (auto simp only: append_sep_inject [OF show_nat_no_sep(1) show_nat_no_sep(1)] list.inject
    show_nat_inject intro: two_digits_inject)

lemma cents_string_inject: "cents_string m = cents_string n \<longleftrightarrow> m = n"
proof (cases "m < 0"; cases "n < 0")
  assume "m < 0" "n < 0"
  then show ?thesis by (auto simp: cents_string_def Let_def cents_digits_inject [simplified])
next
  assume "m < 0" "\<not> n < 0"
  then show ?thesis by (auto simp: cents_string_def Let_def minus_not_show_nat)
next
  assume "\<not> m < 0" "n < 0"
  then show ?thesis by (auto simp: cents_string_def Let_def minus_not_show_nat)
next
  assume "\<not> m < 0" "\<not> n < 0"
  then show ?thesis by (auto simp: cents_string_def Let_def cents_digits_inject)
qed

lemma fixed2_eq: "fixed2 x = fixed2 y \<longleftrightarrow> round_at 2 x = round_at 2 y"
proof -
  have "of_int \<lfloor>round_at 2 z * 100\<rfloor> = round_at 2 z * 100" for z
    using whole_at_round [of 2 z] by (simp add: whole_at_def)
  then show ?thesis unfolding fixed2_def cents_string_inject by (metis mult_right_cancel zero_neq_numeral)
qed

interpretation go_dec: decimal_laws go_decimal
proof (unfold_locales, goal_cases)
  case (1 b a) show ?case by (simp add: go_decimal_def)
next
  case (2 b a) show ?case using round_at_error [of 16 "a / b"] by (simp add: go_decimal_def)
next
  case (3 n) then show ?case by (auto simp: go_decimal_def sgn_if wrap64_id)
next
  case 4 show ?case by (simp add: go_decimal_def)
next
  case 5 show ?case by (simp add: go_decimal_def fixed2_def cents_string_chars)
next
  case 6 show ?case by (simp add: go_decimal_def fixed2_eq)
qed

end
