(* ===== verification/Domain.thy ===== *)
theory Domain
  imports Complex_Main Prelude
begin

text \<open>
  \<open>internal/domain\<close>: the entities every other component works on, the sentinel errors, and
  the domain's own pure checks (\<open>LoyaltyConfig.Validate\<close>, \<open>HasPermission\<close>,
  \<open>StoreAPIKey.Active\<close> and \<open>HasScope\<close>). A Go struct is a record whose fields carry a short
  prefix and the source's name; a pointer that may be nil is an \<open>option\<close>; a \<open>time.Time\<close> or a
  \<open>time.Duration\<close> is an \<open>int\<close> of nanoseconds; a \<open>decimal.Decimal\<close> is the rational it
  denotes; a fixed set of string constants is a datatype, and a \<open>CHECK (... IN ...)\<close> of the
  schema keeps the column inside it.
\<close>

type_synonym time = int
type_synonym duration = int

section \<open>Errors\<close>

text \<open>
  The sentinel errors of \<open>errors.go\<close> and of the services. Wrapping with \<open>%w\<close> keeps the class
  \<open>errors.Is\<close> tests, so a wrapped error is its sentinel. \<open>ErrInternal\<close> stands for every error
  that is none of them (a driver, network or database error).
\<close>

datatype err =
    ErrNotFound
  | ErrConflict
  | ErrInsufficientBalance
  | ErrIdempotencyConflict
  | ErrCannotRefundRefund
  | ErrOverRefund
  | ErrAmbiguousOriginalTransaction
  | ErrDailyRedeemLimitExceeded
  | ErrSessionReused
  | ErrInvalidLoyaltyConfig
  | ErrInvalidPhone
  | ErrInvalidToken
  | ErrOTPCooldown | errOTPCooldown
  | ErrOTPRateLimited | errOTPRateLimited
  | ErrOTPInvalid | errOTPNotFound
  | ErrOTPLocked | errOTPLocked
  | ErrSessionInvalid
  | ErrAccountBlocked
  | ErrQRIssueCooldown | errQRIssueCooldown
  | ErrQRConsumeCooldown | errQRConsumeCooldown
  | ErrQRGone | errQRGone
  | ErrQRMalformed | errQRMalformed
  | ErrStaffDisabled
  | ErrNoActiveMembership
  | ErrOIDCVerification
  | ErrInternal

section \<open>Clients, balances and stores\<close>

record client =
  cl_ID :: int
  cl_StoreID :: int
  cl_Phone :: string
  cl_CustomerAccountID :: "int option"
  cl_CreatedAt :: time

record balance =
  bal_ClientID :: int
  bal_Points :: int

record store =
  st_ID :: int
  st_OrganizationID :: int
  st_Name :: string
  st_Address :: string
  st_ExternalCode :: "string option"
  st_SMSInviteEnabled :: bool
  st_APIKeyHash :: string

record organization =
  org_ID :: int
  org_Name :: string
  org_CreatedAt :: time

section \<open>Transactions\<close>

datatype transaction_type = TransactionAccrual | TransactionRedeem | TransactionRefund

definition DefaultCurrency :: string where
  "DefaultCurrency = ''RUB''"

record transaction =
  tx_ID :: int
  tx_StoreID :: int
  tx_ClientID :: int
  tx_ExternalTxID :: string
  tx_Amount :: rat
  tx_Currency :: string
  tx_Type :: transaction_type
  tx_PointsDelta :: int
  tx_BalanceAfter :: int
  tx_RequestFingerprint :: string
  tx_CreatedAt :: time
  tx_RuleVersion :: "int option"
  tx_OriginalTransactionID :: "int option"
  tx_RefundedAmount :: rat
  tx_RefundedPoints :: int
  tx_RefundCumulativeAmount :: rat
  tx_RefundFullyRefunded :: bool

record transaction_cursor =
  cur_CreatedAt :: time
  cur_ID :: int

section \<open>Loyalty configuration\<close>

record loyalty_config =
  cfg_StoreID :: int
  cfg_Mechanic :: string
  cfg_AccrualPercent :: rat
  cfg_MinPurchaseAmount :: rat
  cfg_MinBalanceToRedeem :: int
  cfg_MaxRedeemPercent :: rat
  cfg_PointsExchangeRate :: rat
  cfg_Version :: int
  cfg_ExpectedVersion :: "int option"

record loyalty_config_version =
  ver_StoreID :: int
  ver_Version :: int
  ver_Mechanic :: string
  ver_AccrualPercent :: rat
  ver_MinPurchaseAmount :: rat
  ver_MinBalanceToRedeem :: int
  ver_MaxRedeemPercent :: rat
  ver_PointsExchangeRate :: rat
  ver_ChangedByStaffUserID :: "int option"
  ver_CreatedAt :: time

definition Validate :: "loyalty_config \<Rightarrow> err option" where
  "Validate c =
     (if cfg_Mechanic c = [] then Some ErrInvalidLoyaltyConfig
      else if cfg_AccrualPercent c < 0 \<or> cfg_AccrualPercent c > 100 then Some ErrInvalidLoyaltyConfig
      else if cfg_MinPurchaseAmount c < 0 then Some ErrInvalidLoyaltyConfig
      else if cfg_MinBalanceToRedeem c < 0 then Some ErrInvalidLoyaltyConfig
      else if cfg_MaxRedeemPercent c < 0 \<or> cfg_MaxRedeemPercent c > 100 then Some ErrInvalidLoyaltyConfig
      else if \<not> cfg_PointsExchangeRate c > 0 then Some ErrInvalidLoyaltyConfig
      else None)"

section \<open>Notification outbox\<close>

datatype outbox_status = OutboxPending | OutboxProcessing | OutboxDelivered | OutboxDeadLetter

datatype outbox_channel = ChannelUnset | OutboxChannelPush | OutboxChannelSMS

record outbox_entry =
  out_ID :: int
  out_ClientID :: int
  out_Channel :: outbox_channel
  out_TemplateID :: string
  out_TemplateVersion :: int
  out_Message :: string
  out_DedupeKey :: string
  out_Status :: outbox_status
  out_Attempts :: int
  out_NextAttemptAt :: time
  out_LastError :: string
  out_CreatedAt :: time
  out_DeliveredAt :: "time option"

section \<open>Customers\<close>

datatype customer_account_status = CustomerAccountActive | CustomerAccountBlocked | CustomerAccountDeleted

record customer_account =
  acc_ID :: int
  acc_Phone :: string
  acc_PhoneVerifiedAt :: time
  acc_Status :: customer_account_status
  acc_CreatedAt :: time
  acc_UpdatedAt :: time

record customer_session =
  ses_ID :: int
  ses_CustomerAccountID :: int
  ses_RefreshTokenHash :: string
  ses_ReplacedByID :: "int option"
  ses_IssuedAt :: time
  ses_ExpiresAt :: time
  ses_RevokedAt :: "time option"
  ses_UserAgent :: string
  ses_IP :: string

record customer_consent =
  con_ID :: int
  con_CustomerAccountID :: int
  con_DocumentVersion :: string
  con_GrantedAt :: time
  con_Source :: string
  con_IP :: string
  con_UserAgent :: string

record customer_device =
  dev_ID :: int
  dev_CustomerAccountID :: int
  dev_Platform :: string
  dev_PushToken :: string
  dev_CreatedAt :: time
  dev_UpdatedAt :: time
  dev_RevokedAt :: "time option"

section \<open>Staff and permissions\<close>

datatype staff_status = StaffActive | StaffDisabled

datatype role = RolePlatformAdmin | RoleRetailerAdmin | RoleStoreManager | RoleSupportViewer

datatype permission =
    PermOrganizationsManage | PermStoresRead | PermStoresManage | PermStaffManage
  | PermClientsRead | PermTransactionsRead | PermLoyaltyConfigRead | PermLoyaltyConfigWrite
  | PermAPIKeysRead | PermAPIKeysRotate | PermAuditRead

record staff_user =
  su_ID :: int
  su_ExternalSubject :: string
  su_Email :: string
  su_DisplayName :: string
  su_Status :: staff_status
  su_CreatedAt :: time

record staff_membership =
  mem_ID :: int
  mem_StaffUserID :: int
  mem_OrganizationID :: int
  mem_StoreID :: "int option"
  mem_Role :: role
  mem_Status :: staff_status
  mem_CreatedAt :: time
  mem_UpdatedAt :: time

fun RolePermissions :: "role \<Rightarrow> permission list" where
  "RolePermissions RolePlatformAdmin =
     [PermOrganizationsManage, PermStoresRead, PermStoresManage,
      PermStaffManage, PermClientsRead, PermTransactionsRead,
      PermLoyaltyConfigRead, PermLoyaltyConfigWrite,
      PermAPIKeysRead, PermAPIKeysRotate, PermAuditRead]"
| "RolePermissions RoleRetailerAdmin =
     [PermStoresRead, PermStoresManage, PermStaffManage,
      PermClientsRead, PermTransactionsRead,
      PermLoyaltyConfigRead, PermLoyaltyConfigWrite,
      PermAPIKeysRead, PermAPIKeysRotate, PermAuditRead]"
| "RolePermissions RoleStoreManager =
     [PermStoresRead, PermClientsRead, PermTransactionsRead,
      PermLoyaltyConfigRead, PermLoyaltyConfigWrite]"
| "RolePermissions RoleSupportViewer =
     [PermStoresRead, PermClientsRead, PermTransactionsRead,
      PermLoyaltyConfigRead, PermAPIKeysRead, PermAuditRead]"

definition HasPermission :: "role \<Rightarrow> permission \<Rightarrow> bool" where
  "HasPermission r perm = list_ex (\<lambda>p. p = perm) (RolePermissions r)"

section \<open>Store API keys\<close>

record store_api_key =
  key_ID :: int
  key_StoreID :: int
  key_KeyID :: string
  key_KeyHash :: string
  key_Name :: string
  key_Scopes :: "string list"
  key_CreatedAt :: time
  key_ExpiresAt :: "time option"
  key_RevokedAt :: "time option"
  key_LastUsedAt :: "time option"
  key_CreatedBy :: "int option"

definition ScopeTransactionsWrite :: string where
  "ScopeTransactionsWrite = ''transactions.write''"

definition ScopeClientsLookup :: string where
  "ScopeClientsLookup = ''clients.lookup''"

definition ScopeBalancesRead :: string where
  "ScopeBalancesRead = ''balances.read''"

definition HasScope :: "store_api_key \<Rightarrow> string \<Rightarrow> bool" where
  "HasScope k scope = list_ex (\<lambda>s. s = scope) (key_Scopes k)"

definition Active :: "store_api_key \<Rightarrow> time \<Rightarrow> bool" where
  "Active k now =
     (if key_RevokedAt k \<noteq> None then False
      else case key_ExpiresAt k of
             Some e \<Rightarrow> \<not> now > e
           | None \<Rightarrow> True)"

section \<open>Audit trail\<close>

datatype audit_actor_type = AuditActorCustomer | AuditActorStaff | AuditActorStoreAPIKey | AuditActorSystem

record audit_event =
  aud_ID :: int
  aud_OccurredAt :: time
  aud_ActorType :: audit_actor_type
  aud_ActorID :: "int option"
  aud_OrganizationID :: "int option"
  aud_StoreID :: "int option"
  aud_Action :: string
  aud_TargetType :: string
  aud_TargetID :: "int option"
  aud_IP :: string
  aud_UserAgent :: string

record audit_list_query =
  alq_Limit :: nat
  alq_BeforeOccurredAt :: time
  alq_BeforeID :: int
  alq_ActionPrefix :: string

section \<open>Lemmas\<close>

lemma Validate_None:
  "Validate c = None \<longleftrightarrow>
     cfg_Mechanic c \<noteq> [] \<and> 0 \<le> cfg_AccrualPercent c \<and> cfg_AccrualPercent c \<le> 100
     \<and> 0 \<le> cfg_MinPurchaseAmount c \<and> 0 \<le> cfg_MinBalanceToRedeem c
     \<and> 0 \<le> cfg_MaxRedeemPercent c \<and> cfg_MaxRedeemPercent c \<le> 100 \<and> 0 < cfg_PointsExchangeRate c"
  by (auto simp: Validate_def)

lemma HasPermission_iff: "HasPermission r p \<longleftrightarrow> p \<in> set (RolePermissions r)"
  by (auto simp: HasPermission_def list_ex_iff)

lemma HasScope_iff: "HasScope k s \<longleftrightarrow> s \<in> set (key_Scopes k)"
  by (auto simp: HasScope_def list_ex_iff)

lemma Active_iff: "Active k now \<longleftrightarrow> key_RevokedAt k = None \<and> (\<forall>e. key_ExpiresAt k = Some e \<longrightarrow> now \<le> e)"
  by (auto simp: Active_def split: option.splits)

end
