(* ===== verification/Database.thy ===== *)
theory Database
  imports Domain Decimal "HOL-Library.State_Monad"
begin

text \<open>
  The PostgreSQL database of the program (schema: \<open>migrations/sql\<close>), the environment a request
  runs in, and the sequencing of repository calls.

  A table is the list of its rows in insertion order; \<open>balances\<close> and \<open>loyalty_configs\<close>, whose
  primary key is the column they are looked up by, are maps. \<open>db_seq\<close> holds the last value of
  each \<open>BIGSERIAL\<close> sequence; as in PostgreSQL it is not rolled back.
\<close>

datatype table =
    T_clients | T_transactions | T_outbox | T_stores | T_organizations | T_accounts
  | T_sessions | T_consents | T_devices | T_staff_users | T_memberships | T_api_keys | T_audit

record db =
  db_seq :: "table \<Rightarrow> int"
  db_organizations :: "organization list"
  db_stores :: "store list"
  db_clients :: "client list"
  db_balances :: "int \<rightharpoonup> int"
  db_transactions :: "transaction list"
  db_loyalty_configs :: "int \<rightharpoonup> loyalty_config"
  db_config_history :: "loyalty_config_version list"
  db_outbox :: "outbox_entry list"
  db_accounts :: "customer_account list"
  db_sessions :: "customer_session list"
  db_consents :: "customer_consent list"
  db_devices :: "customer_device list"
  db_staff_users :: "staff_user list"
  db_memberships :: "staff_membership list"
  db_api_keys :: "store_api_key list"
  db_audit :: "audit_event list"

definition empty_db :: db where
  "empty_db = \<lparr>db_seq = (\<lambda>_. 0), db_organizations = [], db_stores = [], db_clients = [],
     db_balances = Map.empty, db_transactions = [], db_loyalty_configs = Map.empty,
     db_config_history = [], db_outbox = [], db_accounts = [], db_sessions = [],
     db_consents = [], db_devices = [], db_staff_users = [], db_memberships = [],
     db_api_keys = [], db_audit = []\<rparr>"

section \<open>Operations that may fail\<close>

text \<open>
  An operation takes the state and returns an error or a result and the new state.
  \<open>andThen\<close> is Go's \<open>if err != nil { return err }\<close> between two operations; where the code
  inspects the error, the model uses the monad's own \<open>bind\<close> and a \<open>case\<close>.
\<close>

type_synonym ('s, 'a) op = "('s, err + 'a) state"

definition ok :: "'a \<Rightarrow> ('s, 'a) op" where
  "ok x = State_Monad.return (Inr x)"

definition fail :: "err \<Rightarrow> ('s, 'a) op" where
  "fail e = State_Monad.return (Inl e)"

definition andThen :: "('s, 'a) op \<Rightarrow> ('a \<Rightarrow> ('s, 'b) op) \<Rightarrow> ('s, 'b) op" where
  "andThen m f = State_Monad.bind m (\<lambda>r. case r of Inl e \<Rightarrow> fail e | Inr x \<Rightarrow> f x)"

definition gets :: "('s \<Rightarrow> err + 'a) \<Rightarrow> ('s, 'a) op" where
  "gets f = State (\<lambda>s. (f s, s))"

definition modify :: "('s \<Rightarrow> 's) \<Rightarrow> ('s, unit) op" where
  "modify f = State (\<lambda>s. (Inr (), f s))"

lemma run_ok [simp]: "run_state (ok x) s = (Inr x, s)"
  by (simp add: ok_def)

lemma run_fail [simp]: "run_state (fail e) s = (Inl e, s)"
  by (simp add: fail_def)

lemma run_gets [simp]: "run_state (gets f) s = (f s, s)"
  by (simp add: gets_def)

lemma run_modify [simp]: "run_state (modify f) s = (Inr (), f s)"
  by (simp add: modify_def)

lemma run_andThen:
  "run_state (andThen m f) s =
     (case run_state m s of (Inl e, s') \<Rightarrow> (Inl e, s') | (Inr x, s') \<Rightarrow> run_state (f x) s')"
  by (auto simp: andThen_def split: prod.splits sum.splits)

section \<open>Statements and transactions\<close>

text \<open>
  Inside an explicit database transaction every statement can fail for a reason of the
  connection (\<open>tf k\<close>: the \<open>k\<close>-th does). \<open>transaction_of\<close> is \<open>Begin\<close>, the body, and the deferred
  \<open>Rollback\<close>, which undoes everything but the sequences when the body returns an error.
\<close>

definition stmt :: "(nat \<Rightarrow> bool) \<Rightarrow> nat \<Rightarrow> ('s, 'a) op \<Rightarrow> ('s, 'a) op" where
  "stmt tf k m = (if tf k then fail ErrInternal else m)"

definition rollback :: "db \<Rightarrow> db \<Rightarrow> db" where
  "rollback before after = before\<lparr>db_seq := db_seq after\<rparr>"

definition transaction_of :: "(db, 'a) op \<Rightarrow> (db, 'a) op" where
  "transaction_of body =
     State (\<lambda>d. case run_state body d of
                  (Inl e, d') \<Rightarrow> (Inl e, rollback d d')
                | (Inr x, d') \<Rightarrow> (Inr x, d'))"

definition nextval :: "table \<Rightarrow> (db, int) op" where
  "nextval t = State (\<lambda>d. (Inr (db_seq d t + 1), d\<lparr>db_seq := (db_seq d)(t := db_seq d t + 1)\<rparr>))"

lemma run_stmt [simp]: "run_state (stmt tf k m) s = (if tf k then (Inl ErrInternal, s) else run_state m s)"
  by (simp add: stmt_def)

lemma run_transaction_of:
  "run_state (transaction_of body) d =
     (case run_state body d of (Inl e, d') \<Rightarrow> (Inl e, rollback d d') | (Inr x, d') \<Rightarrow> (Inr x, d'))"
  by (simp add: transaction_of_def)

lemma run_nextval [simp]:
  "run_state (nextval t) d = (Inr (db_seq d t + 1), d\<lparr>db_seq := (db_seq d)(t := db_seq d t + 1)\<rparr>)"
  by (simp add: nextval_def)

section \<open>The environment of a request\<close>

text \<open>
  A request issues its repository calls one after the other, each from a call site. At a
  site the environment decides what other requests did to the state since the previous call
  (\<open>env_other\<close>), the time \<open>now()\<close> reads, whether the call fails, and if so whether before it
  took effect or after (\<open>AckLost\<close>: the server committed and the reply was lost), and which
  statement of an explicit transaction fails.
\<close>

type_synonym site = "string \<times> nat"

datatype fault = NoFault | FailBefore | AckLost

record 's env =
  env_fault :: "site \<Rightarrow> fault"
  env_stmt :: "site \<Rightarrow> nat \<Rightarrow> bool"
  env_other :: "site \<Rightarrow> 's \<Rightarrow> 's"
  env_now :: "site \<Rightarrow> time"

definition call :: "'s env \<Rightarrow> site \<Rightarrow> ('s, 'a) op \<Rightarrow> ('s, 'a) op" where
  "call E l m =
     State (\<lambda>s. let s1 = env_other E l s
                in case env_fault E l of
                     NoFault \<Rightarrow> run_state m s1
                   | FailBefore \<Rightarrow> (Inl ErrInternal, s1)
                   | AckLost \<Rightarrow> (Inl ErrInternal, snd (run_state m s1)))"

lemma run_call:
  "run_state (call E l m) s =
     (case env_fault E l of
        NoFault \<Rightarrow> run_state m (env_other E l s)
      | FailBefore \<Rightarrow> (Inl ErrInternal, env_other E l s)
      | AckLost \<Rightarrow> (Inl ErrInternal, snd (run_state m (env_other E l s))))"
  by (simp add: call_def Let_def)

text \<open>The quiet environment: no faults and no other request.\<close>

definition quiet :: "time \<Rightarrow> 's env" where
  "quiet t = \<lparr>env_fault = (\<lambda>_. NoFault), env_stmt = (\<lambda>_ _. False), env_other = (\<lambda>_ s. s), env_now = (\<lambda>_. t)\<rparr>"

lemma quiet_sel [simp]:
  "env_fault (quiet t) l = NoFault" "env_stmt (quiet t) l k = False"
  "env_other (quiet t) l s = s" "env_now (quiet t) l = t"
  by (simp_all add: quiet_def)

section \<open>Preservation\<close>

text \<open>
  \<open>keeps R m\<close>: whatever the operation returns, the state it leaves is related by \<open>R\<close> to the
  one it started from. For a reflexive and transitive \<open>R\<close> the predicate composes along the
  code, which is how every service is shown to move the database only by steps of the ledger.
\<close>

definition keeps :: "('s \<Rightarrow> 's \<Rightarrow> bool) \<Rightarrow> ('s, 'a) state \<Rightarrow> bool" where
  "keeps R m \<longleftrightarrow> (\<forall>s. R s (snd (run_state m s)))"

lemma keepsI [intro?]: "(\<And>s. R s (snd (run_state m s))) \<Longrightarrow> keeps R m"
  by (simp add: keeps_def)

lemma keepsD: "keeps R m \<Longrightarrow> R s (snd (run_state m s))"
  by (simp add: keeps_def)

lemma keeps_return [wf_intros]: "reflp R \<Longrightarrow> keeps R (State_Monad.return x)"
  by (simp add: keeps_def reflp_def)

lemma keeps_ok [wf_intros]: "reflp R \<Longrightarrow> keeps R (ok x)"
  by (simp add: keeps_def reflp_def)

lemma keeps_fail [wf_intros]: "reflp R \<Longrightarrow> keeps R (fail e)"
  by (simp add: keeps_def reflp_def)

lemma keeps_gets [wf_intros]: "reflp R \<Longrightarrow> keeps R (gets f)"
  by (simp add: keeps_def reflp_def)

lemma keeps_bind:
  assumes "transp R" "keeps R m" "\<And>x. keeps R (f x)"
  shows "keeps R (State_Monad.bind m f)"
proof
  fix s
  obtain x s' where m: "run_state m s = (x, s')" by (cases "run_state m s")
  have "R s s'" using keepsD [OF assms(2), of s] m by simp
  moreover have "R s' (snd (run_state (f x) s'))" using assms(3) by (rule keepsD)
  ultimately show "R s (snd (run_state (State_Monad.bind m f) s))"
    using assms(1) by (simp add: m) (meson transpD)
qed

lemma keeps_andThen:
  assumes "reflp R" "transp R" "keeps R m" "\<And>x. keeps R (f x)"
  shows "keeps R (andThen m f)"
  unfolding andThen_def
  using assms by (intro keeps_bind) (auto split: sum.split intro: keeps_fail)

lemma keeps_call:
  assumes "reflp R" "transp R" "\<And>s. R s (env_other E l s)" "keeps R m"
  shows "keeps R (call E l m)"
proof
  fix s
  have "R (env_other E l s) (snd (run_state m (env_other E l s)))" using assms(4) by (rule keepsD)
  then have "R s (snd (run_state m (env_other E l s)))" using assms(2,3) by (meson transpD)
  with assms(3) show "R s (snd (run_state (call E l m) s))"
    by (auto simp: run_call split: fault.split)
qed

section \<open>Columns and constraints\<close>

text \<open>
  A \<open>NUMERIC(20, 2)\<close> column rounds half away from zero to two places and rejects what does
  not fit; \<open>NUMERIC(5, 2)\<close> and \<open>NUMERIC(10, 4)\<close> likewise.
\<close>

definition numeric :: "nat \<Rightarrow> nat \<Rightarrow> rat \<Rightarrow> rat option" where
  "numeric p k x = (let y = round_at k x in if \<bar>y\<bar> < 10 ^ (p - k) then Some y else None)"

lemma numeric_SomeD: "numeric p k x = Some y \<Longrightarrow> y = round_at k x \<and> whole_at k y \<and> \<bar>y\<bar> < 10 ^ (p - k)"
  by (auto simp: numeric_def Let_def split: if_splits)

end
