(* ===== verification/Phone.thy ===== *)
theory Phone
  imports Domain
begin

text \<open>
  \<open>internal/auth/phone.go\<close>: canonical phone numbers and their masked form. Ranging over the
  runes of a string and keeping the ASCII digits is keeping the digit bytes, because every
  byte of a multi-byte rune is above 127.
\<close>

definition NormalizePhone :: "string \<Rightarrow> string option" where
  "NormalizePhone raw =
     (let d0 = List.filter is_digit raw;
          d = (if length d0 = 11 \<and> (hd d0 = CHR ''8'' \<or> hd d0 = CHR ''7'') then CHR ''7'' # tl d0
               else if length d0 = 10 \<and> hd d0 = CHR ''9'' then CHR ''7'' # d0
               else d0)
      in if length d < 10 \<or> length d > 15 then None else Some (CHR ''+'' # d))"

definition MaskPhone :: "string \<Rightarrow> string" where
  "MaskPhone phone =
     (if length phone \<le> 4 then replicate (length phone) CHR ''*''
      else replicate (length phone - 4) CHR ''*'' @ drop (length phone - 4) phone)"

text \<open>What a normalised number looks like.\<close>

definition e164 :: "string \<Rightarrow> bool" where
  "e164 p \<longleftrightarrow> (\<exists>d. p = CHR ''+'' # d \<and> list_all is_digit d \<and> 10 \<le> length d \<and> length d \<le> 15
     \<and> \<not> (length d = 10 \<and> hd d = CHR ''9'') \<and> \<not> (length d = 11 \<and> hd d = CHR ''8''))"

lemma is_digit_789 [simp]: "is_digit CHR ''7''" "is_digit CHR ''8''" "is_digit CHR ''9''"
  by (simp_all add: is_digit_def)

lemma filter_digits: "list_all is_digit d \<Longrightarrow> List.filter is_digit d = d"
  by (induction d) auto

lemma NormalizePhone_fixed: "e164 p \<Longrightarrow> NormalizePhone p = Some p"
proof -
  assume "e164 p"
  then obtain d where d: "p = CHR ''+'' # d" "list_all is_digit d" "10 \<le> length d" "length d \<le> 15"
     "\<not> (length d = 10 \<and> hd d = CHR ''9'')" "\<not> (length d = 11 \<and> hd d = CHR ''8'')"
    by (auto simp: e164_def)
  have "d = CHR ''7'' # tl d" if "length d = 11" "hd d = CHR ''7''"
    using that by (cases d) auto
  with d show ?thesis by (auto simp: NormalizePhone_def filter_digits Let_def)
qed

lemma NormalizePhone_e164: "NormalizePhone raw = Some p \<Longrightarrow> e164 p"
proof -
  assume n: "NormalizePhone raw = Some p"
  have all: "list_all is_digit (List.filter is_digit raw)" by (simp add: list_all_iff)
  then have "list_all is_digit (tl (List.filter is_digit raw))"
    by (cases "List.filter is_digit raw") auto
  with n all show ?thesis
    by (auto simp: NormalizePhone_def e164_def Let_def split: if_splits)
qed

lemma length_MaskPhone: "length (MaskPhone phone) = length phone"
  by (simp add: MaskPhone_def)

end
