(* ===== verification/Mechanic.thy ===== *)
theory Mechanic
  imports Domain Decimal
begin

text \<open>
  The pure decision code of an accrual: the points mechanic
  (\<open>internal/mechanic/points/points.go\<close>), its lookup by name
  (\<open>internal/mechanicbuild/mechanicbuild.go\<close>), and the notification texts
  (\<open>internal/notifytemplates/notifytemplates.go\<close>).
\<close>

section \<open>The mechanics\<close>

datatype mechanic = PointsMechanic

definition Build :: "string \<Rightarrow> mechanic option" where
  "Build name = (if name = ''points'' then Some PointsMechanic else None)"

fun mechanic_Accrue :: "decimal_lib \<Rightarrow> mechanic \<Rightarrow> transaction \<Rightarrow> loyalty_config \<Rightarrow> int" where
  "mechanic_Accrue D PointsMechanic tx cfg =
     (if tx_Amount tx < cfg_MinPurchaseAmount cfg then 0
      else dec_IntPart D (of_int \<lfloor>dec_Div D (tx_Amount tx * cfg_AccrualPercent cfg) 100\<rfloor>))"

section \<open>Notification texts\<close>

record rendered =
  rnd_TemplateID :: string
  rnd_Version :: int
  rnd_Message :: string

definition AppInviteID :: string where
  "AppInviteID = ''app_invite''"

definition AccrualCredited :: "int \<Rightarrow> rendered" where
  "AccrualCredited points = \<lparr>rnd_TemplateID = ''accrual_credited'', rnd_Version = 1,
     rnd_Message =
       bytes [208, 146, 208, 176, 208, 188, 32, 208, 189, 208, 176, 209, 135, 208, 184, 209, 129,
              208, 187, 208, 181, 208, 189, 208, 190, 32]
       @ show_int points @ bytes [32, 208, 177, 208, 176, 208, 187, 208, 187, 208, 190, 208, 178]\<rparr>"

definition RedeemDebited :: "int \<Rightarrow> rendered" where
  "RedeemDebited points = \<lparr>rnd_TemplateID = ''redeem_debited'', rnd_Version = 1,
     rnd_Message =
       bytes [208, 161, 208, 191, 208, 184, 209, 129, 208, 176, 208, 189, 208, 190, 32]
       @ show_int points @ bytes [32, 208, 177, 208, 176, 208, 187, 208, 187, 208, 190, 208, 178]\<rparr>"

definition RefundAdjusted :: "int \<Rightarrow> rendered" where
  "RefundAdjusted pointsDelta = \<lparr>rnd_TemplateID = ''refund_adjusted'', rnd_Version = 1,
     rnd_Message =
       bytes [208, 146, 208, 190, 208, 183, 208, 178, 209, 128, 208, 176, 209, 130, 58, 32,
              209, 129, 208, 186, 208, 190, 209, 128, 209, 128, 208, 181, 208, 186, 209, 130,
              208, 184, 209, 128, 208, 190, 208, 178, 208, 176, 208, 189, 208, 190, 32]
       @ show_int pointsDelta @ bytes [32, 208, 177, 208, 176, 208, 187, 208, 187, 208, 190, 208, 178]\<rparr>"

definition AppInvite :: "string \<Rightarrow> string \<Rightarrow> rendered" where
  "AppInvite storeName appURL = \<lparr>rnd_TemplateID = AppInviteID, rnd_Version = 1,
     rnd_Message = storeName @
       bytes [58, 32, 208, 178, 208, 176, 209, 136, 208, 184, 32, 208, 177, 208, 176, 208,
              187, 208, 187, 209, 139, 32, 226, 128, 148, 32, 208, 178, 32, 208, 191, 209,
              128, 208, 184, 208, 187, 208, 190, 208, 182, 208, 181, 208, 189, 208, 184, 208,
              184, 32]
       @ appURL\<rparr>"

section \<open>Lemmas\<close>

lemma Build_points: "Build name = Some m \<longleftrightarrow> name = ''points'' \<and> m = PointsMechanic"
  by (auto simp: Build_def)

text \<open>
  On amounts and percentages of the precision of their columns the division is exact, so the
  mechanic computes \<open>floor(amount * accrual_percent / 100)\<close>.
\<close>

lemma mechanic_floor:
  assumes "decimal_laws D" "whole_at k (tx_Amount tx)" "k \<le> 12" "whole_at 2 (cfg_AccrualPercent cfg)"
    and "in_i64 \<lfloor>tx_Amount tx * cfg_AccrualPercent cfg / 100\<rfloor>" "cfg_MinPurchaseAmount cfg \<le> tx_Amount tx"
  shows "mechanic_Accrue D m tx cfg = \<lfloor>tx_Amount tx * cfg_AccrualPercent cfg / 100\<rfloor>"
proof (cases m)
  case PointsMechanic
  have "whole_at 14 (tx_Amount tx * cfg_AccrualPercent cfg)"
    using whole_at_up [OF whole_at_mult [OF assms(2,4)], of 14] assms(3) by simp
  then show ?thesis
    using assms(1,5,6)
    by (simp add: PointsMechanic decimal_laws.Div_100_exact decimal_laws.IntPart_floor)
qed

end
