(* ===== verification/Ledger.thy ===== *)
theory Ledger
  imports Database
begin

text \<open>
  \<open>internal/repository/postgres/ledger_repository.go\<close>: the three operations that write the
  ledger. Each is one database transaction, modelled statement by statement: the SQL
  statements are the operations of the first section, with the constraints of the schema, and
  \<open>Post\<close>, \<open>PostRefund\<close> and \<open>PostRedeemChecked\<close> issue them in the order the code does. The rest
  gives, for each operation, what a successful run did to the database and that a failed one
  did nothing to its rows.
\<close>

section \<open>Statements\<close>

definition insert_outbox :: "time \<Rightarrow> outbox_entry \<Rightarrow> (db, unit) op" where
  "insert_outbox now n =
     State (\<lambda>d.
       let i = db_seq d T_outbox + 1;
           d1 = d\<lparr>db_seq := (db_seq d)(T_outbox := i)\<rparr>;
           row = n\<lparr>out_ID := i, out_Status := OutboxPending, out_Attempts := 0,
                   out_NextAttemptAt := now, out_LastError := [], out_CreatedAt := now,
                   out_DeliveredAt := None\<rparr>
       in if list_ex (\<lambda>r. out_DedupeKey r = out_DedupeKey n) (db_outbox d) then (Inr (), d1)
          else if \<not> list_ex (\<lambda>c. cl_ID c = out_ClientID n) (db_clients d) then (Inl ErrInternal, d1)
          else (Inr (), d1\<lparr>db_outbox := db_outbox d @ [row]\<rparr>))"

definition insertOutboxEntry :: "(nat \<Rightarrow> bool) \<Rightarrow> nat \<Rightarrow> time \<Rightarrow> outbox_entry option \<Rightarrow> (db, unit) op" where
  "insertOutboxEntry tf k now notify =
     (case notify of
        None \<Rightarrow> ok ()
      | Some n \<Rightarrow>
          let channel = (if out_Channel n = ChannelUnset then OutboxChannelPush else out_Channel n)
          in stmt tf k (insert_outbox now (n\<lparr>out_Channel := channel\<rparr>)))"

fun insertOutboxEntries :: "(nat \<Rightarrow> bool) \<Rightarrow> nat \<Rightarrow> time \<Rightarrow> outbox_entry option list \<Rightarrow> (db, unit) op" where
  "insertOutboxEntries tf k now [] = ok ()"
| "insertOutboxEntries tf k now (n # ns) =
     andThen (insertOutboxEntry tf k now n) (\<lambda>_. insertOutboxEntries tf (Suc k) now ns)"

definition ensureBalanceRow :: "int \<Rightarrow> (db, unit) op" where
  "ensureBalanceRow c =
     State (\<lambda>d. case db_balances d c of
                  Some _ \<Rightarrow> (Inr (), d)
                | None \<Rightarrow>
                    if list_ex (\<lambda>r. cl_ID r = c) (db_clients d)
                    then (Inr (), d\<lparr>db_balances := (db_balances d)(c \<mapsto> 0)\<rparr>)
                    else (Inl ErrInternal, d))"

text \<open>\<open>None\<close> is the empty result that makes the driver return \<open>ErrNoRows\<close>.\<close>

definition adjustBalance :: "bool \<Rightarrow> int \<Rightarrow> int \<Rightarrow> (db, int option) op" where
  "adjustBalance guarded c delta =
     State (\<lambda>d. case db_balances d c of
                  None \<Rightarrow> (Inr None, d)
                | Some p \<Rightarrow>
                    if \<not> in_i64 (p + delta) then (Inl ErrInternal, d)
                    else if guarded \<and> \<not> p + delta \<ge> 0 then (Inr None, d)
                    else (Inr (Some (p + delta)), d\<lparr>db_balances := (db_balances d)(c \<mapsto> p + delta)\<rparr>))"

definition transaction_checks :: "transaction \<Rightarrow> bool" where
  "transaction_checks t \<longleftrightarrow>
     tx_Amount t \<ge> 0 \<and>
     (case tx_Type t of
        TransactionAccrual \<Rightarrow> tx_PointsDelta t \<ge> 0 \<and> tx_OriginalTransactionID t = None
      | TransactionRedeem \<Rightarrow> tx_PointsDelta t \<le> 0 \<and> tx_OriginalTransactionID t = None
      | TransactionRefund \<Rightarrow> tx_OriginalTransactionID t \<noteq> None)"

definition same_key :: "int \<Rightarrow> transaction_type \<Rightarrow> string \<Rightarrow> transaction \<Rightarrow> bool" where
  "same_key s ty x t \<longleftrightarrow> tx_StoreID t = s \<and> tx_Type t = ty \<and> tx_ExternalTxID t = x"

definition insertTransaction :: "time \<Rightarrow> transaction \<Rightarrow> (db, int) op" where
  "insertTransaction now t =
     State (\<lambda>d.
       case numeric 20 2 (tx_Amount t) of
         None \<Rightarrow> (Inl ErrInternal, d)
       | Some a \<Rightarrow>
         (case numeric 20 2 (tx_RefundCumulativeAmount t) of
            None \<Rightarrow> (Inl ErrInternal, d)
          | Some ca \<Rightarrow>
            (let i = db_seq d T_transactions + 1;
                 d1 = d\<lparr>db_seq := (db_seq d)(T_transactions := i)\<rparr>;
                 row = t\<lparr>tx_ID := i, tx_Amount := a, tx_CreatedAt := now, tx_RefundedAmount := 0,
                         tx_RefundedPoints := 0, tx_RefundCumulativeAmount := ca\<rparr>
             in if \<not> transaction_checks row then (Inl ErrInternal, d1)
                else if list_ex (same_key (tx_StoreID t) (tx_Type t) (tx_ExternalTxID t)) (db_transactions d)
                then (Inl ErrConflict, d1)
                else if \<not> list_ex (\<lambda>c. cl_ID c = tx_ClientID t \<and> cl_StoreID c = tx_StoreID t) (db_clients d)
                then (Inl ErrInternal, d1)
                else (Inr i, d1\<lparr>db_transactions := db_transactions d @ [row]\<rparr>))))"

definition lockOriginal :: "int \<Rightarrow> int \<Rightarrow> (db, transaction) op" where
  "lockOriginal i s =
     gets (\<lambda>d. case find (\<lambda>t. tx_ID t = i \<and> tx_StoreID t = s) (db_transactions d) of
                 None \<Rightarrow> Inl ErrNotFound
               | Some t \<Rightarrow> Inr t)"

definition updateOriginal :: "int \<Rightarrow> rat \<Rightarrow> int \<Rightarrow> (db, unit) op" where
  "updateOriginal i amount points =
     State (\<lambda>d. case numeric 20 2 amount of
                  None \<Rightarrow> (Inl ErrInternal, d)
                | Some a \<Rightarrow>
                    (Inr (), d\<lparr>db_transactions :=
                       map (\<lambda>t. if tx_ID t = i then t\<lparr>tx_RefundedAmount := a, tx_RefundedPoints := points\<rparr> else t)
                         (db_transactions d)\<rparr>))"

definition lockBalance :: "int \<Rightarrow> (db, int) op" where
  "lockBalance c =
     gets (\<lambda>d. case db_balances d c of None \<Rightarrow> Inl ErrInternal | Some p \<Rightarrow> Inr p)"

definition window_redeemed :: "int \<Rightarrow> time \<Rightarrow> transaction list \<Rightarrow> int" where
  "window_redeemed c since ts =
     sum_rows (\<lambda>t. tx_ClientID t = c \<and> tx_Type t = TransactionRedeem \<and> tx_CreatedAt t > since)
       (\<lambda>t. - tx_PointsDelta t) ts"

definition windowRedeemed :: "int \<Rightarrow> time \<Rightarrow> (db, int) op" where
  "windowRedeemed c since =
     gets (\<lambda>d. let n = window_redeemed c since (db_transactions d)
               in if in_i64 n then Inr n else Inl ErrInternal)"

section \<open>The operations\<close>

definition Post :: "(nat \<Rightarrow> bool) \<Rightarrow> time \<Rightarrow> transaction \<Rightarrow> outbox_entry option list \<Rightarrow>
    (db, transaction \<times> balance) op" where
  "Post tf now tx notify =
     transaction_of (
       andThen (stmt tf 0 (ok ())) (\<lambda>_.
       andThen (stmt tf 1 (ensureBalanceRow (tx_ClientID tx))) (\<lambda>_.
       andThen (stmt tf 2 (adjustBalance True (tx_ClientID tx) (tx_PointsDelta tx))) (\<lambda>r.
       case r of
         None \<Rightarrow> fail ErrInsufficientBalance
       | Some points \<Rightarrow>
         let currency = (if tx_Currency tx = [] then DefaultCurrency else tx_Currency tx);
             row = tx\<lparr>tx_Currency := currency, tx_BalanceAfter := points,
                      tx_OriginalTransactionID := None, tx_RefundCumulativeAmount := 0,
                      tx_RefundFullyRefunded := False\<rparr>
         in andThen (stmt tf 3 (insertTransaction now row)) (\<lambda>i.
            andThen (insertOutboxEntries tf 5 now notify) (\<lambda>_.
            andThen (stmt tf 4 (ok ())) (\<lambda>_.
            ok (tx\<lparr>tx_ID := i, tx_Currency := currency, tx_BalanceAfter := points, tx_CreatedAt := now\<rparr>,
                \<lparr>bal_ClientID = tx_ClientID tx, bal_Points = points\<rparr>))))))))"

text \<open>
  The point arithmetic of \<open>PostRefund\<close>: the points taken back by the refunds so far, once the
  cumulative refunded amount is \<open>cumAmount\<close>.
\<close>

definition refund_cumulative_points :: "decimal_lib \<Rightarrow> transaction \<Rightarrow> rat \<Rightarrow> int" where
  "refund_cumulative_points D original cumAmount =
     (let originalPoints = (if tx_PointsDelta original < 0 then wrap64 (- tx_PointsDelta original)
                            else tx_PointsDelta original)
      in if cumAmount = tx_Amount original then originalPoints
         else if tx_Amount original > 0
         then dec_IntPart D (of_int \<lfloor>dec_Div D (of_int originalPoints * cumAmount) (tx_Amount original)\<rfloor>)
         else 0)"

definition PostRefund :: "decimal_lib \<Rightarrow> (nat \<Rightarrow> bool) \<Rightarrow> time \<Rightarrow> transaction \<Rightarrow>
    (int \<Rightarrow> outbox_entry option) option \<Rightarrow> (db, transaction \<times> transaction \<times> balance) op" where
  "PostRefund D tf now refund buildNotify =
     transaction_of (
       andThen (stmt tf 0 (ok ())) (\<lambda>_.
       case tx_OriginalTransactionID refund of
         None \<Rightarrow> fail ErrInternal
       | Some oid \<Rightarrow>
       andThen (stmt tf 1 (lockOriginal oid (tx_StoreID refund))) (\<lambda>original.
       if tx_Type original = TransactionRefund then fail ErrCannotRefundRefund
       else
       let newRefundedAmount = tx_RefundedAmount original + tx_Amount refund
       in if newRefundedAmount > tx_Amount original then fail ErrOverRefund
       else
       let cumulativePoints = refund_cumulative_points D original newRefundedAmount;
           thisRefundPoints = wrap64 (cumulativePoints - tx_RefundedPoints original);
           pointsDelta = (if tx_Type original = TransactionAccrual then wrap64 (- thisRefundPoints)
                          else thisRefundPoints);
           allowNegativeBalance = (tx_Type original = TransactionAccrual);
           client = tx_ClientID original
       in
       andThen (stmt tf 2 (updateOriginal (tx_ID original) newRefundedAmount cumulativePoints)) (\<lambda>_.
       andThen (stmt tf 3 (ensureBalanceRow client)) (\<lambda>_.
       andThen (stmt tf 4 (adjustBalance (\<not> allowNegativeBalance) client pointsDelta)) (\<lambda>r.
       case r of
         None \<Rightarrow> fail (if allowNegativeBalance then ErrInternal else ErrInsufficientBalance)
       | Some points \<Rightarrow>
         let fullyRefunded = (newRefundedAmount = tx_Amount original);
             row = refund\<lparr>tx_ClientID := client, tx_Currency := tx_Currency original,
                      tx_Type := TransactionRefund, tx_PointsDelta := pointsDelta,
                      tx_BalanceAfter := points, tx_RuleVersion := None,
                      tx_OriginalTransactionID := Some (tx_ID original),
                      tx_RefundCumulativeAmount := newRefundedAmount,
                      tx_RefundFullyRefunded := fullyRefunded\<rparr>
         in andThen (stmt tf 5 (insertTransaction now row)) (\<lambda>i.
            andThen (insertOutboxEntry tf 7 now
                       (case buildNotify of None \<Rightarrow> None | Some b \<Rightarrow> b pointsDelta)) (\<lambda>_.
            andThen (stmt tf 6 (ok ())) (\<lambda>_.
            ok (row\<lparr>tx_ID := i, tx_CreatedAt := now, tx_RuleVersion := tx_RuleVersion refund\<rparr>,
                original\<lparr>tx_RefundedAmount := newRefundedAmount, tx_RefundedPoints := cumulativePoints\<rparr>,
                \<lparr>bal_ClientID = client, bal_Points = points\<rparr>))))))))))"

definition PostRedeemChecked :: "(nat \<Rightarrow> bool) \<Rightarrow> time \<Rightarrow> transaction \<Rightarrow> int \<Rightarrow> int \<Rightarrow> duration \<Rightarrow>
    outbox_entry option \<Rightarrow> (db, transaction \<times> balance) op" where
  "PostRedeemChecked tf now tx minBalance dailyLimit window notify =
     transaction_of (
       andThen (stmt tf 0 (ok ())) (\<lambda>_.
       andThen (stmt tf 1 (ensureBalanceRow (tx_ClientID tx))) (\<lambda>_.
       andThen (stmt tf 2 (lockBalance (tx_ClientID tx))) (\<lambda>currentPoints.
       if currentPoints < minBalance then fail ErrInsufficientBalance
       else
       andThen
         (if dailyLimit > 0
          then andThen (stmt tf 3 (windowRedeemed (tx_ClientID tx) (now - window))) (\<lambda>redeemedInWindow.
               if wrap64 (redeemedInWindow - tx_PointsDelta tx) > dailyLimit
               then fail ErrDailyRedeemLimitExceeded else ok ())
          else ok ()) (\<lambda>_.
       andThen (stmt tf 4 (adjustBalance True (tx_ClientID tx) (tx_PointsDelta tx))) (\<lambda>r.
       case r of
         None \<Rightarrow> fail ErrInsufficientBalance
       | Some points \<Rightarrow>
         let currency = (if tx_Currency tx = [] then DefaultCurrency else tx_Currency tx);
             row = tx\<lparr>tx_Currency := currency, tx_BalanceAfter := points,
                      tx_OriginalTransactionID := None, tx_RefundCumulativeAmount := 0,
                      tx_RefundFullyRefunded := False\<rparr>
         in andThen (stmt tf 5 (insertTransaction now row)) (\<lambda>i.
            andThen (insertOutboxEntry tf 7 now notify) (\<lambda>_.
            andThen (stmt tf 6 (ok ())) (\<lambda>_.
            ok (tx\<lparr>tx_ID := i, tx_Currency := currency, tx_BalanceAfter := points, tx_CreatedAt := now\<rparr>,
                \<lparr>bal_ClientID = tx_ClientID tx, bal_Points = points\<rparr>))))))))))"

section \<open>What the statements do\<close>

definition points_of :: "db \<Rightarrow> int \<Rightarrow> int" where
  "points_of d c = (case db_balances d c of None \<Rightarrow> 0 | Some p \<Rightarrow> p)"

text \<open>
  \<open>enqueued ns old new\<close>: \<open>new\<close> are the rows that queueing the entries \<open>ns\<close> behind \<open>old\<close>
  appends: one per dedupe key not yet present, all pending.
\<close>

definition queued_from :: "time \<Rightarrow> outbox_entry \<Rightarrow> outbox_entry \<Rightarrow> bool" where
  "queued_from now n e \<longleftrightarrow>
     out_ClientID e = out_ClientID n \<and> out_TemplateID e = out_TemplateID n \<and>
     out_TemplateVersion e = out_TemplateVersion n \<and> out_Message e = out_Message n \<and>
     out_DedupeKey e = out_DedupeKey n \<and> out_Status e = OutboxPending \<and> out_Attempts e = 0 \<and>
     out_NextAttemptAt e = now \<and> out_CreatedAt e = now \<and> out_DeliveredAt e = None \<and>
     out_Channel e = (if out_Channel n = ChannelUnset then OutboxChannelPush else out_Channel n)"

definition enqueued :: "time \<Rightarrow> outbox_entry option list \<Rightarrow> outbox_entry list \<Rightarrow> outbox_entry list \<Rightarrow> bool" where
  "enqueued now ns old new \<longleftrightarrow>
     out_DedupeKey ` set new = {out_DedupeKey n | n. Some n \<in> set ns} - out_DedupeKey ` set old \<and>
     distinct (map out_DedupeKey new) \<and>
     (\<forall>e\<in>set new. \<exists>n. Some n \<in> set ns \<and> queued_from now n e)"

lemma insertOutboxEntry_effect:
  assumes "run_state (insertOutboxEntry tf k now n) d = (r, d')"
  shows "\<exists>q es. d' = d\<lparr>db_seq := (db_seq d)(T_outbox := q), db_outbox := db_outbox d @ es\<rparr> \<and>
           (r = Inr () \<longrightarrow> enqueued now [n] (db_outbox d) es)"
proof (cases n)
  case None
  with assms have "d' = d\<lparr>db_seq := (db_seq d)(T_outbox := db_seq d T_outbox), db_outbox := db_outbox d @ []\<rparr>"
    by (simp add: insertOutboxEntry_def)
  moreover have "enqueued now [n] (db_outbox d) []" using None by (simp add: enqueued_def)
  ultimately show ?thesis by blast
next
  case (Some m)
  show ?thesis
  proof (cases "tf k \<or> list_ex (\<lambda>r. out_DedupeKey r = out_DedupeKey m) (db_outbox d)
      \<or> \<not> list_ex (\<lambda>c. cl_ID c = out_ClientID m) (db_clients d)")
    case True
    with assms Some have "d' = d\<lparr>db_seq := (db_seq d)(T_outbox := db_seq d T_outbox), db_outbox := db_outbox d @ []\<rparr>
        \<or> (\<exists>q. d' = d\<lparr>db_seq := (db_seq d)(T_outbox := q), db_outbox := db_outbox d @ []\<rparr>)"
      by (auto simp: insertOutboxEntry_def insert_outbox_def Let_def split: if_splits)
    moreover have "r = Inr () \<Longrightarrow> enqueued now [n] (db_outbox d) []"
      using True assms Some
      by (auto simp: insertOutboxEntry_def insert_outbox_def Let_def enqueued_def list_ex_iff image_iff
        split: if_splits) metis+
    ultimately show ?thesis by blast
  next
    case False
    let ?ch = "if out_Channel m = ChannelUnset then OutboxChannelPush else out_Channel m"
    let ?e = "m\<lparr>out_Channel := ?ch, out_ID := db_seq d T_outbox + 1, out_Status := OutboxPending, out_Attempts := 0,
                out_NextAttemptAt := now, out_LastError := [], out_CreatedAt := now, out_DeliveredAt := None\<rparr>"
    from False assms Some have "d' = d\<lparr>db_seq := (db_seq d)(T_outbox := db_seq d T_outbox + 1), db_outbox := db_outbox d @ [?e]\<rparr>"
      by (auto simp: insertOutboxEntry_def insert_outbox_def Let_def)
    moreover have "enqueued now [n] (db_outbox d) [?e]"
      using False Some by (auto simp: enqueued_def queued_from_def list_ex_iff)
    ultimately show ?thesis by blast
  qed
qed

lemma enqueued_append:
  assumes "enqueued now [n] old es" "enqueued now ns (old @ es) fs"
  shows "enqueued now (n # ns) old (es @ fs)"
proof -
  have "out_DedupeKey ` set es \<inter> out_DedupeKey ` set fs = {}"
    using assms(2) by (auto simp: enqueued_def)
  moreover have "out_DedupeKey ` set (es @ fs) = {out_DedupeKey m |m. Some m \<in> set (n # ns)} - out_DedupeKey ` set old"
    using assms by (auto simp: enqueued_def image_Un)
  moreover have "\<forall>e\<in>set (es @ fs). \<exists>m. Some m \<in> set (n # ns) \<and> queued_from now m e"
    using assms by (auto simp: enqueued_def)
  ultimately show ?thesis using assms by (simp add: enqueued_def)
qed

lemma insertOutboxEntries_effect:
  assumes "run_state (insertOutboxEntries tf k now ns) d = (r, d')"
  shows "\<exists>q es. d' = d\<lparr>db_seq := (db_seq d)(T_outbox := q), db_outbox := db_outbox d @ es\<rparr> \<and>
           (r = Inr () \<longrightarrow> enqueued now ns (db_outbox d) es)"
  using assms
proof (induction ns arbitrary: k d)
  case Nil
  then have "d' = d\<lparr>db_seq := (db_seq d)(T_outbox := db_seq d T_outbox), db_outbox := db_outbox d @ []\<rparr>" by simp
  moreover have "enqueued now [] (db_outbox d) []" by (simp add: enqueued_def)
  ultimately show ?case by blast
next
  case (Cons n ns)
  obtain r1 d1 where s1: "run_state (insertOutboxEntry tf k now n) d = (r1, d1)"
    by (cases "run_state (insertOutboxEntry tf k now n) d")
  obtain q es where d1: "d1 = d\<lparr>db_seq := (db_seq d)(T_outbox := q), db_outbox := db_outbox d @ es\<rparr>"
    and es: "r1 = Inr () \<longrightarrow> enqueued now [n] (db_outbox d) es"
    using insertOutboxEntry_effect [OF s1] by blast
  show ?case
  proof (cases r1)
    case (Inl e)
    with Cons.prems s1 have "d' = d1" "r = Inl e" by (auto simp: run_andThen)
    with d1 show ?thesis by blast
  next
    case (Inr u)
    with Cons.prems s1 have "run_state (insertOutboxEntries tf (Suc k) now ns) d1 = (r, d')"
      by (simp add: run_andThen)
    from Cons.IH [OF this] obtain q' fs where
      d': "d' = d1\<lparr>db_seq := (db_seq d1)(T_outbox := q'), db_outbox := db_outbox d1 @ fs\<rparr>"
      and fs: "r = Inr () \<longrightarrow> enqueued now ns (db_outbox d1) fs" by blast
    from d1 d' have "d' = d\<lparr>db_seq := (db_seq d)(T_outbox := q'), db_outbox := db_outbox d @ (es @ fs)\<rparr>" by simp
    moreover from es fs Inr d1 have "r = Inr () \<longrightarrow> enqueued now (n # ns) (db_outbox d) (es @ fs)"
      by (auto intro: enqueued_append)
    ultimately show ?thesis by blast
  qed
qed

lemma ensureBalanceRow_Inr:
  assumes "run_state (ensureBalanceRow c) d = (Inr u, d')"
  shows "d' = d\<lparr>db_balances := (db_balances d)(c \<mapsto> points_of d c)\<rparr>"
  using assms by (auto simp: ensureBalanceRow_def points_of_def fun_upd_idem split: option.splits if_splits)

lemma numeric_0 [simp]: "numeric p k 0 = Some 0"
  by (simp add: numeric_def round_at_def)

text \<open>The row an accrual or a redemption leaves in the table.\<close>

definition ledger_row :: "int \<Rightarrow> time \<Rightarrow> int \<Rightarrow> rat \<Rightarrow> transaction \<Rightarrow> transaction" where
  "ledger_row i now points a tx =
     tx\<lparr>tx_ID := i, tx_Amount := a,
        tx_Currency := (if tx_Currency tx = [] then DefaultCurrency else tx_Currency tx),
        tx_BalanceAfter := points, tx_CreatedAt := now, tx_OriginalTransactionID := None,
        tx_RefundedAmount := 0, tx_RefundedPoints := 0, tx_RefundCumulativeAmount := 0,
        tx_RefundFullyRefunded := False\<rparr>"

text \<open>What a successful insert leaves: \<open>appends d row d'\<close> holds of the rows of \<open>d\<close> and \<open>d'\<close>.\<close>

definition insertable :: "db \<Rightarrow> transaction \<Rightarrow> bool" where
  "insertable d row \<longleftrightarrow>
     transaction_checks row \<and> tx_ID row = db_seq d T_transactions + 1 \<and>
     (\<forall>t\<in>set (db_transactions d). \<not> same_key (tx_StoreID row) (tx_Type row) (tx_ExternalTxID row) t) \<and>
     (\<exists>c\<in>set (db_clients d). cl_ID c = tx_ClientID row \<and> cl_StoreID c = tx_StoreID row)"

lemma insertTransaction_Inr:
  assumes "run_state (insertTransaction now t) d = (Inr i, d')"
  obtains a ca where "numeric 20 2 (tx_Amount t) = Some a"
    "numeric 20 2 (tx_RefundCumulativeAmount t) = Some ca"
    "insertable d (t\<lparr>tx_ID := i, tx_Amount := a, tx_CreatedAt := now, tx_RefundedAmount := 0,
                     tx_RefundedPoints := 0, tx_RefundCumulativeAmount := ca\<rparr>)"
    "d' = d\<lparr>db_seq := (db_seq d)(T_transactions := i),
            db_transactions := db_transactions d @ [t\<lparr>tx_ID := i, tx_Amount := a, tx_CreatedAt := now,
              tx_RefundedAmount := 0, tx_RefundedPoints := 0, tx_RefundCumulativeAmount := ca\<rparr>]\<rparr>"
  using assms
  by (auto simp: insertTransaction_def Let_def insertable_def list_ex_iff split: option.splits if_splits)

lemma insertTransaction_Conflict:
  assumes "run_state (insertTransaction now t) d = (Inl ErrConflict, d')"
  shows "\<exists>x\<in>set (db_transactions d). same_key (tx_StoreID t) (tx_Type t) (tx_ExternalTxID t) x"
  using assms by (auto simp: insertTransaction_def Let_def list_ex_iff split: option.splits if_splits)

section \<open>What the operations do\<close>

text \<open>A transaction that fails leaves every row as it was; only the sequences may move on.\<close>

lemma transaction_of_Inl:
  assumes "run_state (transaction_of b) d = (Inl e, d')"
  shows "\<exists>q. d' = d\<lparr>db_seq := q\<rparr>"
  using assms by (auto simp: run_transaction_of rollback_def split: prod.splits sum.splits)

text \<open>Sequences only move forward.\<close>

definition seq_le :: "db \<Rightarrow> db \<Rightarrow> bool" where
  "seq_le d d' \<longleftrightarrow> (\<forall>t. db_seq d t \<le> db_seq d' t)"

lemma seq_le_refl [simp]: "reflp seq_le" and seq_le_trans [simp]: "transp seq_le"
  by (auto simp: reflp_def transp_def seq_le_def intro: order_trans)

lemmas seq_andThen = keeps_andThen [OF seq_le_refl seq_le_trans]

lemma seq_le_statements [wf_intros]:
  "keeps seq_le (ensureBalanceRow c)" "keeps seq_le (adjustBalance g c delta)"
  "keeps seq_le (insertTransaction now t)" "keeps seq_le (insert_outbox now n)"
  "keeps seq_le (lockOriginal i s)" "keeps seq_le (updateOriginal i a p)"
  "keeps seq_le (lockBalance c)" "keeps seq_le (windowRedeemed c since)"
  by (auto simp: keeps_def seq_le_def ensureBalanceRow_def adjustBalance_def insertTransaction_def
    insert_outbox_def lockOriginal_def updateOriginal_def lockBalance_def windowRedeemed_def Let_def
    split: option.split)

lemma seq_le_stmt [wf_intros]: "keeps seq_le m \<Longrightarrow> keeps seq_le (stmt tf k m)"
  by (simp add: stmt_def keeps_fail)

lemma seq_le_insertOutboxEntry [wf_intros]: "keeps seq_le (insertOutboxEntry tf k now n)"
  by (auto simp: insertOutboxEntry_def Let_def split: option.split intro!: wf_intros)

lemma seq_le_insertOutboxEntries [wf_intros]: "keeps seq_le (insertOutboxEntries tf k now ns)"
  by (induction ns arbitrary: k) (auto intro!: wf_intros seq_andThen)

lemma transaction_of_failed:
  assumes "run_state (transaction_of b) d = (Inl e, d')" "keeps seq_le b"
  shows "\<exists>q. d' = d\<lparr>db_seq := q\<rparr> \<and> (\<forall>t. db_seq d t \<le> q t)"
  using assms(1) keepsD [OF assms(2), of d]
  by (auto simp: run_transaction_of rollback_def seq_le_def split: prod.splits sum.splits)

lemma Post_Inl:
  "run_state (Post tf now tx ns) d = (Inl e, d') \<Longrightarrow> \<exists>q. d' = d\<lparr>db_seq := q\<rparr> \<and> (\<forall>t. db_seq d t \<le> q t)"
  unfolding Post_def Let_def
  by (erule transaction_of_failed) (auto intro!: wf_intros seq_andThen split: option.split)

lemma PostRedeemChecked_Inl:
  "run_state (PostRedeemChecked tf now tx mb dl w n) d = (Inl e, d') \<Longrightarrow>
     \<exists>q. d' = d\<lparr>db_seq := q\<rparr> \<and> (\<forall>t. db_seq d t \<le> q t)"
  unfolding PostRedeemChecked_def Let_def
  by (erule transaction_of_failed) (auto intro!: wf_intros seq_andThen split: option.split)

lemma PostRefund_Inl:
  "run_state (PostRefund D tf now tx bn) d = (Inl e, d') \<Longrightarrow>
     \<exists>q. d' = d\<lparr>db_seq := q\<rparr> \<and> (\<forall>t. db_seq d t \<le> q t)"
  unfolding PostRefund_def Let_def
  by (erule transaction_of_failed) (auto intro!: wf_intros seq_andThen split: option.split)

lemma adjustBalance_Some:
  assumes "run_state (adjustBalance g c delta) d = (Inr (Some p), d')"
  shows "p = points_of d c + delta \<and> in_i64 p \<and> (g \<longrightarrow> 0 \<le> p)
    \<and> d' = d\<lparr>db_balances := (db_balances d)(c \<mapsto> p)\<rparr>"
  using assms by (auto simp: adjustBalance_def points_of_def split: option.splits if_splits)

lemma Inr_andThenE:
  assumes "run_state (andThen m f) s = (Inr y, s2)"
  obtains x s1 where "run_state m s = (Inr x, s1)" "run_state (f x) s1 = (Inr y, s2)"
  using assms by (auto simp: run_andThen split: prod.splits sum.splits)

lemma Inr_stmtE:
  assumes "run_state (stmt tf k m) s = (Inr y, s2)"
  obtains "\<not> tf k" "run_state m s = (Inr y, s2)"
  using assms by (auto split: if_splits)

lemma Inr_transactionE:
  assumes "run_state (transaction_of m) s = (Inr y, s2)"
  obtains "run_state m s = (Inr y, s2)"
  using assms by (auto simp: run_transaction_of split: prod.splits sum.splits)

lemmas run_elims = Inr_andThenE Inr_stmtE Inr_transactionE

text \<open>What a committed accrual or redemption did.\<close>

definition post_effect :: "time \<Rightarrow> transaction \<Rightarrow> outbox_entry option list \<Rightarrow> db \<Rightarrow> transaction \<times> balance \<Rightarrow> db \<Rightarrow> bool" where
  "post_effect now tx ns d r d' \<longleftrightarrow>
     (\<exists>a q es. let points = points_of d (tx_ClientID tx) + tx_PointsDelta tx;
                  row = ledger_row (db_seq d T_transactions + 1) now points a tx
               in numeric 20 2 (tx_Amount tx) = Some a \<and> insertable d row \<and> 0 \<le> points \<and> in_i64 points \<and>
                  enqueued now ns (db_outbox d) es \<and>
                  d' = d\<lparr>db_seq := (db_seq d)(T_transactions := db_seq d T_transactions + 1, T_outbox := q), db_balances := (db_balances d)(tx_ClientID tx \<mapsto> points),
                         db_transactions := db_transactions d @ [row],
                         db_outbox := db_outbox d @ es\<rparr> \<and>
                  r = (tx\<lparr>tx_ID := tx_ID row, tx_Currency := tx_Currency row, tx_BalanceAfter := points,
                          tx_CreatedAt := now\<rparr>,
                       \<lparr>bal_ClientID = tx_ClientID tx, bal_Points = points\<rparr>))"

lemma post_committed:
  assumes ens: "run_state (ensureBalanceRow (tx_ClientID tx)) d = (Inr u, d1)"
    and adj: "run_state (adjustBalance True (tx_ClientID tx) (tx_PointsDelta tx)) d1 = (Inr (Some points), d2)"
    and ins: "run_state (insertTransaction now
        (tx\<lparr>tx_Currency := (if tx_Currency tx = [] then DefaultCurrency else tx_Currency tx),
            tx_BalanceAfter := points, tx_OriginalTransactionID := None, tx_RefundCumulativeAmount := 0,
            tx_RefundFullyRefunded := False\<rparr>)) d2 = (Inr i, d3)"
    and outb: "run_state (insertOutboxEntries tf k now ns) d3 = (Inr v, d')"
  shows "post_effect now tx ns d
    (tx\<lparr>tx_ID := i, tx_Currency := (if tx_Currency tx = [] then DefaultCurrency else tx_Currency tx),
        tx_BalanceAfter := points, tx_CreatedAt := now\<rparr>,
     \<lparr>bal_ClientID = tx_ClientID tx, bal_Points = points\<rparr>) d'"
proof -
  have d1: "d1 = d\<lparr>db_balances := (db_balances d)(tx_ClientID tx \<mapsto> points_of d (tx_ClientID tx))\<rparr>"
    using ens by (rule ensureBalanceRow_Inr)
  have points: "points = points_of d (tx_ClientID tx) + tx_PointsDelta tx" "in_i64 points" "0 \<le> points"
    and d2: "d2 = d\<lparr>db_balances := (db_balances d)(tx_ClientID tx \<mapsto> points)\<rparr>"
    using adjustBalance_Some [OF adj] d1 by (auto simp: points_of_def)
  let ?row = "tx\<lparr>tx_Currency := (if tx_Currency tx = [] then DefaultCurrency else tx_Currency tx),
            tx_BalanceAfter := points, tx_OriginalTransactionID := None, tx_RefundCumulativeAmount := 0,
            tx_RefundFullyRefunded := False\<rparr>"
  obtain a ca where a: "numeric 20 2 (tx_Amount ?row) = Some a"
    and ca: "numeric 20 2 (tx_RefundCumulativeAmount ?row) = Some ca"
    and wf0: "insertable d2 (?row\<lparr>tx_ID := i, tx_Amount := a, tx_CreatedAt := now, tx_RefundedAmount := 0,
                     tx_RefundedPoints := 0, tx_RefundCumulativeAmount := ca\<rparr>)"
    and d30: "d3 = d2\<lparr>db_seq := (db_seq d2)(T_transactions := i), db_transactions := db_transactions d2 @
          [?row\<lparr>tx_ID := i, tx_Amount := a, tx_CreatedAt := now, tx_RefundedAmount := 0,
                tx_RefundedPoints := 0, tx_RefundCumulativeAmount := ca\<rparr>]\<rparr>"
    using ins by (rule insertTransaction_Inr)
  have "ca = 0" using ca by simp
  then have row: "?row\<lparr>tx_ID := i, tx_Amount := a, tx_CreatedAt := now, tx_RefundedAmount := 0,
       tx_RefundedPoints := 0, tx_RefundCumulativeAmount := ca\<rparr> = ledger_row i now points a tx"
    by (cases tx) (simp add: ledger_row_def)
  note wf = wf0 [unfolded row] and d3 = d30 [unfolded row]
  have i: "i = db_seq d T_transactions + 1" and wf': "insertable d (ledger_row i now points a tx)"
    using wf by (simp_all add: insertable_def d2) (simp add: ledger_row_def)
  obtain q es where d': "d' = d3\<lparr>db_seq := (db_seq d3)(T_outbox := q), db_outbox := db_outbox d3 @ es\<rparr>"
    and es: "enqueued now ns (db_outbox d3) es"
    using insertOutboxEntries_effect [OF outb] by auto
  show ?thesis
    unfolding post_effect_def Let_def points(1) [symmetric] i [symmetric]
    using a [simplified] es points(2,3) wf'
    by (intro exI [of _ a] exI [of _ q] exI [of _ es])
      (simp add: d' d3 d2; simp add: ledger_row_def)
qed

lemma Inr_caseE:
  assumes "run_state (case r of None \<Rightarrow> fail e | Some x \<Rightarrow> f x) s = (Inr y, s2)"
  obtains x where "r = Some x" "run_state (f x) s = (Inr y, s2)"
  using assms by (cases r) auto

lemma Inr_ifE:
  assumes "run_state (if c then fail e else m) s = (Inr y, s2)"
  obtains "\<not> c" "run_state m s = (Inr y, s2)"
  using assms by (auto split: if_splits)

lemma Inr_okE:
  assumes "run_state (ok x) s = (Inr y, s2)"
  obtains "y = x" "s2 = s"
  using assms by simp

lemmas op_elims = run_elims Inr_caseE Inr_ifE Inr_okE

lemma Post_Inr:
  assumes "run_state (Post tf now tx ns) d = (Inr r, d')"
  shows "post_effect now tx ns d r d'"
  using assms unfolding Post_def Let_def
  by (elim op_elims) (simp only: post_committed)

text \<open>A committed redemption passed both checks made under the lock of the balance row.\<close>

lemma post_committed1:
  assumes "run_state (ensureBalanceRow (tx_ClientID tx)) d = (Inr u, d1)"
    and "run_state (adjustBalance True (tx_ClientID tx) (tx_PointsDelta tx)) d1 = (Inr (Some points), d2)"
    and "run_state (insertTransaction now
        (tx\<lparr>tx_Currency := (if tx_Currency tx = [] then DefaultCurrency else tx_Currency tx),
            tx_BalanceAfter := points, tx_OriginalTransactionID := None, tx_RefundCumulativeAmount := 0,
            tx_RefundFullyRefunded := False\<rparr>)) d2 = (Inr i, d3)"
    and "run_state (insertOutboxEntry tf k now n) d3 = (Inr v, d')"
  shows "post_effect now tx [n] d
    (tx\<lparr>tx_ID := i, tx_Currency := (if tx_Currency tx = [] then DefaultCurrency else tx_Currency tx),
        tx_BalanceAfter := points, tx_CreatedAt := now\<rparr>,
     \<lparr>bal_ClientID = tx_ClientID tx, bal_Points = points\<rparr>) d'"
  using post_committed [OF assms(1-3), where tf = tf and k = k and ns = "[n]"] assms(4)
  by (simp add: run_andThen)

lemma daily_checkE:
  assumes "run_state (if 0 < dailyLimit
      then andThen (stmt tf k (windowRedeemed c since)) (\<lambda>w. if dailyLimit < wrap64 (w - p) then fail e else ok ())
      else ok ()) d = (Inr u, d')"
  obtains "d' = d" "0 < dailyLimit \<Longrightarrow> in_i64 (window_redeemed c since (db_transactions d))
      \<and> wrap64 (window_redeemed c since (db_transactions d) - p) \<le> dailyLimit"
  using assms by (auto simp: windowRedeemed_def Let_def elim!: op_elims split: if_splits)

lemma redeem_pre:
  assumes "run_state (ensureBalanceRow c) d = (Inr u, d1)" "run_state (lockBalance c) d1 = (Inr p, d2)"
  shows "d2 = d1 \<and> p = points_of d c \<and> db_transactions d1 = db_transactions d"
  using assms(2) ensureBalanceRow_Inr [OF assms(1)]
  by (auto simp: lockBalance_def points_of_def split: option.splits)

lemma PostRedeemChecked_effect:
  assumes "run_state (PostRedeemChecked tf now tx minBalance dailyLimit window n) d = (Inr r, d')"
  shows "post_effect now tx [n] d r d' \<and> minBalance \<le> points_of d (tx_ClientID tx) \<and>
     (0 < dailyLimit \<longrightarrow> in_i64 (window_redeemed (tx_ClientID tx) (now - window) (db_transactions d))
       \<and> wrap64 (window_redeemed (tx_ClientID tx) (now - window) (db_transactions d) - tx_PointsDelta tx) \<le> dailyLimit)"
  using assms unfolding PostRedeemChecked_def Let_def
  apply (elim op_elims daily_checkE)
  apply (frule (1) redeem_pre)
  apply (elim conjE)
  apply (intro conjI)
    apply (simp only: post_committed1)
   apply simp_all
  done

section \<open>Refunds\<close>

text \<open>What a committed refund did.\<close>

definition refund_delta :: "decimal_lib \<Rightarrow> transaction \<Rightarrow> rat \<Rightarrow> int" where
  "refund_delta D original cum =
     (let this = wrap64 (refund_cumulative_points D original cum - tx_RefundedPoints original)
      in if tx_Type original = TransactionAccrual then wrap64 (- this) else this)"

definition mark_refunded :: "int \<Rightarrow> rat \<Rightarrow> int \<Rightarrow> transaction \<Rightarrow> transaction" where
  "mark_refunded i a p t = (if tx_ID t = i then t\<lparr>tx_RefundedAmount := a, tx_RefundedPoints := p\<rparr> else t)"

definition refund_row :: "int \<Rightarrow> time \<Rightarrow> transaction \<Rightarrow> int \<Rightarrow> int \<Rightarrow> rat \<Rightarrow> rat \<Rightarrow> bool \<Rightarrow> transaction \<Rightarrow> transaction" where
  "refund_row i now original delta points a ca full refund =
     refund\<lparr>tx_ID := i, tx_ClientID := tx_ClientID original, tx_Amount := a,
        tx_Currency := tx_Currency original, tx_Type := TransactionRefund, tx_PointsDelta := delta,
        tx_BalanceAfter := points, tx_CreatedAt := now, tx_RuleVersion := None,
        tx_OriginalTransactionID := Some (tx_ID original), tx_RefundedAmount := 0,
        tx_RefundedPoints := 0, tx_RefundCumulativeAmount := ca, tx_RefundFullyRefunded := full\<rparr>"

definition refund_effect :: "decimal_lib \<Rightarrow> time \<Rightarrow> transaction \<Rightarrow> (int \<Rightarrow> outbox_entry option) option \<Rightarrow> db \<Rightarrow>
    transaction \<times> transaction \<times> balance \<Rightarrow> db \<Rightarrow> bool" where
  "refund_effect D now refund bn d r d' \<longleftrightarrow>
     (\<exists>original a ca q es.
        let cum = tx_RefundedAmount original + tx_Amount refund;
            cp = refund_cumulative_points D original cum;
            delta = refund_delta D original cum;
            points = points_of d (tx_ClientID original) + delta;
            full = (cum = tx_Amount original);
            row = refund_row (db_seq d T_transactions + 1) now original delta points a ca full refund
        in find (\<lambda>t. tx_OriginalTransactionID refund = Some (tx_ID t) \<and> tx_StoreID t = tx_StoreID refund)
             (db_transactions d) = Some original \<and>
           tx_Type original \<noteq> TransactionRefund \<and> cum \<le> tx_Amount original \<and>
           numeric 20 2 (tx_Amount refund) = Some a \<and> numeric 20 2 cum = Some ca \<and>
           insertable d row \<and> in_i64 points \<and> (tx_Type original = TransactionRedeem \<longrightarrow> 0 \<le> points) \<and>
           enqueued now [case bn of None \<Rightarrow> None | Some b \<Rightarrow> b delta] (db_outbox d) es \<and>
           d' = d\<lparr>db_seq := (db_seq d)(T_transactions := db_seq d T_transactions + 1, T_outbox := q), db_balances := (db_balances d)(tx_ClientID original \<mapsto> points),
                  db_transactions := map (mark_refunded (tx_ID original) ca cp) (db_transactions d) @ [row],
                  db_outbox := db_outbox d @ es\<rparr> \<and>
           r = (row\<lparr>tx_Amount := tx_Amount refund, tx_RefundCumulativeAmount := cum,
                    tx_RuleVersion := tx_RuleVersion refund, tx_RefundedAmount := tx_RefundedAmount refund,
                    tx_RefundedPoints := tx_RefundedPoints refund\<rparr>,
                original\<lparr>tx_RefundedAmount := cum, tx_RefundedPoints := cp\<rparr>,
                \<lparr>bal_ClientID = tx_ClientID original, bal_Points = points\<rparr>))"

lemma updateOriginal_Inr:
  assumes "run_state (updateOriginal i amount p) d = (Inr u, d')"
  obtains ca where "numeric 20 2 amount = Some ca"
    "d' = d\<lparr>db_transactions := map (mark_refunded i ca p) (db_transactions d)\<rparr>"
  using assms by (auto simp: updateOriginal_def mark_refunded_def [abs_def] split: option.splits)

lemma mark_refunded_sel [simp]:
  "tx_ID (mark_refunded i a p t) = tx_ID t" "tx_StoreID (mark_refunded i a p t) = tx_StoreID t"
  "tx_ClientID (mark_refunded i a p t) = tx_ClientID t" "tx_ExternalTxID (mark_refunded i a p t) = tx_ExternalTxID t"
  "tx_Amount (mark_refunded i a p t) = tx_Amount t" "tx_Type (mark_refunded i a p t) = tx_Type t"
  "tx_PointsDelta (mark_refunded i a p t) = tx_PointsDelta t" "tx_CreatedAt (mark_refunded i a p t) = tx_CreatedAt t"
  "tx_OriginalTransactionID (mark_refunded i a p t) = tx_OriginalTransactionID t"
  "tx_BalanceAfter (mark_refunded i a p t) = tx_BalanceAfter t"
  "tx_RequestFingerprint (mark_refunded i a p t) = tx_RequestFingerprint t"
  "tx_Currency (mark_refunded i a p t) = tx_Currency t" "tx_RuleVersion (mark_refunded i a p t) = tx_RuleVersion t"
  "tx_RefundCumulativeAmount (mark_refunded i a p t) = tx_RefundCumulativeAmount t"
  "tx_RefundFullyRefunded (mark_refunded i a p t) = tx_RefundFullyRefunded t"
  by (simp_all add: mark_refunded_def)

lemma same_key_mark_refunded [simp]: "same_key s ty x (mark_refunded i a p t) = same_key s ty x t"
  by (simp add: same_key_def)

lemma lockOriginal_Inr:
  assumes "run_state (lockOriginal i s) d = (Inr t, d')"
  shows "d' = d \<and> find (\<lambda>t. Some i = Some (tx_ID t) \<and> tx_StoreID t = s) (db_transactions d) = Some t"
  using assms by (auto simp: lockOriginal_def eq_commute [of i] split: option.splits)

lemma refund_committed:
  fixes original refund D
  defines "cum \<equiv> tx_RefundedAmount original + tx_Amount refund"
  defines "cp \<equiv> refund_cumulative_points D original cum"
  defines "delta \<equiv> refund_delta D original cum"
  defines "row0 points \<equiv> refund\<lparr>tx_ClientID := tx_ClientID original, tx_Currency := tx_Currency original,
                      tx_Type := TransactionRefund, tx_PointsDelta := delta,
                      tx_BalanceAfter := points, tx_RuleVersion := None,
                      tx_OriginalTransactionID := Some (tx_ID original),
                      tx_RefundCumulativeAmount := cum,
                      tx_RefundFullyRefunded := (cum = tx_Amount original)\<rparr>"
  assumes orig: "tx_OriginalTransactionID refund = Some oid"
      "run_state (lockOriginal oid (tx_StoreID refund)) d = (Inr original, d0)"
    and checks: "tx_Type original \<noteq> TransactionRefund" "\<not> tx_Amount original < cum"
    and upd: "run_state (updateOriginal (tx_ID original) cum cp) d0 = (Inr u, d1)"
    and ens: "run_state (ensureBalanceRow (tx_ClientID original)) d1 = (Inr v, d2)"
    and adj: "run_state (adjustBalance (tx_Type original \<noteq> TransactionAccrual) (tx_ClientID original) delta) d2
        = (Inr (Some points), d3)"
    and ins: "run_state (insertTransaction now (row0 points)) d3 = (Inr i, d4)"
    and outb: "run_state (insertOutboxEntry tf k now (case bn of None \<Rightarrow> None | Some b \<Rightarrow> b delta)) d4 = (Inr w, d')"
  shows "refund_effect D now refund bn d
    ((row0 points)\<lparr>tx_ID := i, tx_CreatedAt := now, tx_RuleVersion := tx_RuleVersion refund\<rparr>,
     original\<lparr>tx_RefundedAmount := cum, tx_RefundedPoints := cp\<rparr>,
     \<lparr>bal_ClientID = tx_ClientID original, bal_Points = points\<rparr>) d'"
proof -
  let ?c = "tx_ClientID original"
  have d0: "d0 = d" and find: "find (\<lambda>t. tx_OriginalTransactionID refund = Some (tx_ID t) \<and> tx_StoreID t = tx_StoreID refund)
      (db_transactions d) = Some original"
    using lockOriginal_Inr [OF orig(2)] orig(1) by simp_all
  obtain ca where ca: "numeric 20 2 cum = Some ca"
    and d1: "d1 = d\<lparr>db_transactions := map (mark_refunded (tx_ID original) ca cp) (db_transactions d)\<rparr>"
    using upd by (rule updateOriginal_Inr) (simp add: d0)
  have d2: "d2 = d1\<lparr>db_balances := (db_balances d)(?c \<mapsto> points_of d ?c)\<rparr>"
    using ensureBalanceRow_Inr [OF ens] by (simp add: d1 points_of_def)
  have points: "points = points_of d ?c + delta" "in_i64 points" "tx_Type original = TransactionRedeem \<longrightarrow> 0 \<le> points"
    and d3: "d3 = d1\<lparr>db_balances := (db_balances d)(?c \<mapsto> points)\<rparr>"
    using adjustBalance_Some [OF adj] by (auto simp: d2 points_of_def)
  obtain a ca' where a: "numeric 20 2 (tx_Amount (row0 points)) = Some a"
    and ca': "numeric 20 2 (tx_RefundCumulativeAmount (row0 points)) = Some ca'"
    and wf: "insertable d3 ((row0 points)\<lparr>tx_ID := i, tx_Amount := a, tx_CreatedAt := now, tx_RefundedAmount := 0,
                     tx_RefundedPoints := 0, tx_RefundCumulativeAmount := ca'\<rparr>)"
    and d4: "d4 = d3\<lparr>db_seq := (db_seq d3)(T_transactions := i), db_transactions := db_transactions d3 @
        [(row0 points)\<lparr>tx_ID := i, tx_Amount := a, tx_CreatedAt := now, tx_RefundedAmount := 0,
                     tx_RefundedPoints := 0, tx_RefundCumulativeAmount := ca'\<rparr>]\<rparr>"
    using ins by (rule insertTransaction_Inr)
  let ?row = "refund_row i now original delta points a ca (cum = tx_Amount original) refund"
  have "ca' = ca" using ca ca' by (simp add: row0_def)
  then have row: "(row0 points)\<lparr>tx_ID := i, tx_Amount := a, tx_CreatedAt := now, tx_RefundedAmount := 0,
                     tx_RefundedPoints := 0, tx_RefundCumulativeAmount := ca'\<rparr> = ?row"
    by (cases refund) (simp add: row0_def refund_row_def)
  have i: "i = db_seq d T_transactions + 1" and wf': "insertable d ?row"
    using wf unfolding row by (auto simp: insertable_def d3 d1 refund_row_def)
  obtain q es where d': "d' = d4\<lparr>db_seq := (db_seq d4)(T_outbox := q), db_outbox := db_outbox d4 @ es\<rparr>"
    and es: "enqueued now [case bn of None \<Rightarrow> None | Some b \<Rightarrow> b delta] (db_outbox d4) es"
    using insertOutboxEntry_effect [OF outb] by auto
  have res: "(row0 points)\<lparr>tx_ID := i, tx_CreatedAt := now, tx_RuleVersion := tx_RuleVersion refund\<rparr>
     = ?row\<lparr>tx_Amount := tx_Amount refund, tx_RefundCumulativeAmount := cum,
            tx_RuleVersion := tx_RuleVersion refund, tx_RefundedAmount := tx_RefundedAmount refund,
            tx_RefundedPoints := tx_RefundedPoints refund\<rparr>"
    by (cases refund) (simp add: row0_def refund_row_def)
  have d'_eq: "d' = d\<lparr>db_seq := (db_seq d)(T_transactions := i, T_outbox := q), db_balances := (db_balances d)(?c \<mapsto> points),
                  db_transactions := map (mark_refunded (tx_ID original) ca cp) (db_transactions d) @ [?row],
                  db_outbox := db_outbox d @ es\<rparr>"
    by (simp add: d' d4 [unfolded row] d3 d1)
  show ?thesis
    unfolding refund_effect_def Let_def cum_def [symmetric] cp_def [symmetric] delta_def [symmetric]
    apply (rule exI [of _ original], rule exI [of _ a], rule exI [of _ ca], rule exI [of _ q], rule exI [of _ es])
    unfolding cum_def [symmetric] cp_def [symmetric] delta_def [symmetric] points(1) [symmetric] i [symmetric]
    using find checks ca a [unfolded row0_def] es points(2,3) wf' d'_eq res
    by (simp add: d4 d3 d1 not_less)
qed

lemma PostRefund_effect:
  assumes "run_state (PostRefund D tf now refund bn) d = (Inr r, d')"
  shows "refund_effect D now refund bn d r d'"
  using assms unfolding PostRefund_def Let_def refund_delta_def [unfolded Let_def, symmetric]
  apply (elim op_elims)
  apply clarify
  apply (rule refund_committed; assumption)
  done

end
