(* ===== verification/Repositories.thy ===== *)
theory Repositories
  imports Ledger "HOL-Library.Product_Lexorder"
begin

text \<open>
  The repositories of \<open>internal/repository/postgres\<close> that the loyalty service reads and
  writes beside the ledger: clients, transactions, balances, loyalty configurations, the
  worker's side of the notification outbox, stores and customer accounts. Each method is one
  SQL statement, or (\<open>config_Upsert\<close>) one database transaction. \<open>now\<close> is the database's
  \<open>now()\<close>. Where a query has no \<open>ORDER BY\<close>, or one with ties, the rows come in table order.
\<close>

text \<open>A single-row \<open>SELECT\<close>: no row is \<open>ErrNotFound\<close>.\<close>

definition select_one :: "('r \<Rightarrow> bool) \<Rightarrow> (db \<Rightarrow> 'r list) \<Rightarrow> (db, 'r) op" where
  "select_one P tbl = gets (\<lambda>d. case find P (tbl d) of None \<Rightarrow> Inl ErrNotFound | Some r \<Rightarrow> Inr r)"

definition select_all :: "('r \<Rightarrow> bool) \<Rightarrow> (db \<Rightarrow> 'r list) \<Rightarrow> (db, 'r list) op" where
  "select_all P tbl = gets (\<lambda>d. Inr (List.filter P (tbl d)))"

lemma run_select_one [simp]:
  "run_state (select_one P tbl) d = (case find P (tbl d) of None \<Rightarrow> Inl ErrNotFound | Some r \<Rightarrow> Inr r, d)"
  by (simp add: select_one_def)

lemma run_select_all [simp]: "run_state (select_all P tbl) d = (Inr (List.filter P (tbl d)), d)"
  by (simp add: select_all_def)

section \<open>Transactions\<close>

text \<open>
  \<open>transactionColumns\<close> lists neither \<open>currency\<close>, \<open>rule_version\<close> nor the refund snapshot, so the
  fields of those columns keep their zero values.
\<close>

definition scanTransaction :: "transaction \<Rightarrow> transaction" where
  "scanTransaction row = row\<lparr>tx_Currency := [], tx_RuleVersion := None,
     tx_RefundCumulativeAmount := 0, tx_RefundFullyRefunded := False\<rparr>"

definition tx_GetByExternalID :: "int \<Rightarrow> transaction_type \<Rightarrow> string \<Rightarrow> (db, transaction) op" where
  "tx_GetByExternalID s ty x =
     andThen (select_one (same_key s ty x) db_transactions) (\<lambda>row. ok (scanTransaction row))"

definition tx_GetByID :: "int \<Rightarrow> (db, transaction) op" where
  "tx_GetByID i = andThen (select_one (\<lambda>t. tx_ID t = i) db_transactions) (\<lambda>row. ok (scanTransaction row))"

definition tx_ListByClient :: "int \<Rightarrow> (db, transaction list) op" where
  "tx_ListByClient c =
     gets (\<lambda>d. Inr (map scanTransaction
       (sort_key (\<lambda>t. - tx_CreatedAt t) (List.filter (\<lambda>t. tx_ClientID t = c) (db_transactions d)))))"

definition tx_ListByClientIDs :: "int list \<Rightarrow> nat \<Rightarrow> transaction_cursor option \<Rightarrow> (db, transaction list) op" where
  "tx_ListByClientIDs cs limit before =
     gets (\<lambda>d. let older = (\<lambda>t. case before of
                               None \<Rightarrow> True
                             | Some b \<Rightarrow> (tx_CreatedAt t, tx_ID t) < (cur_CreatedAt b, cur_ID b));
                   rows = List.filter (\<lambda>t. tx_ClientID t \<in> set cs \<and> older t) (db_transactions d)
               in Inr (map scanTransaction (take limit (sort_key (\<lambda>t. (- tx_CreatedAt t, - tx_ID t)) rows))))"

section \<open>Clients\<close>

definition client_GetByPhone :: "int \<Rightarrow> string \<Rightarrow> (db, client) op" where
  "client_GetByPhone s phone = select_one (\<lambda>c. cl_StoreID c = s \<and> cl_Phone c = phone) db_clients"

definition client_GetByID :: "int \<Rightarrow> (db, client) op" where
  "client_GetByID i = select_one (\<lambda>c. cl_ID c = i) db_clients"

definition client_Create :: "time \<Rightarrow> client \<Rightarrow> (db, client) op" where
  "client_Create now c =
     andThen (nextval T_clients) (\<lambda>i.
     State (\<lambda>d.
       let row = \<lparr>cl_ID = i, cl_StoreID = cl_StoreID c, cl_Phone = cl_Phone c,
                  cl_CustomerAccountID = None, cl_CreatedAt = now\<rparr>
       in if list_ex (\<lambda>r. cl_StoreID r = cl_StoreID c \<and> cl_Phone r = cl_Phone c) (db_clients d)
          then (Inl ErrConflict, d)
          else if \<not> list_ex (\<lambda>s. st_ID s = cl_StoreID c) (db_stores d) then (Inl ErrInternal, d)
          else (Inr (c\<lparr>cl_ID := i, cl_CreatedAt := now\<rparr>), d\<lparr>db_clients := db_clients d @ [row]\<rparr>)))"

definition client_ListUnlinkedByPhone :: "string \<Rightarrow> (db, client list) op" where
  "client_ListUnlinkedByPhone phone =
     select_all (\<lambda>c. cl_Phone c = phone \<and> cl_CustomerAccountID c = None) db_clients"

definition client_ListByStore :: "int \<Rightarrow> nat \<Rightarrow> int \<Rightarrow> (db, client list) op" where
  "client_ListByStore s limit afterID =
     gets (\<lambda>d. Inr (take limit (sort_key cl_ID
       (List.filter (\<lambda>c. cl_StoreID c = s \<and> cl_ID c > afterID) (db_clients d)))))"

definition client_LinkCustomerAccount :: "int \<Rightarrow> int \<Rightarrow> (db, unit) op" where
  "client_LinkCustomerAccount i acc =
     State (\<lambda>d. if list_ex (\<lambda>c. cl_ID c = i) (db_clients d) \<and> \<not> list_ex (\<lambda>a. acc_ID a = acc) (db_accounts d)
                then (Inl ErrInternal, d)
                else (Inr (), d\<lparr>db_clients :=
                       map (\<lambda>c. if cl_ID c = i then c\<lparr>cl_CustomerAccountID := Some acc\<rparr> else c) (db_clients d)\<rparr>))"

definition client_ListByCustomerAccount :: "int \<Rightarrow> (db, client list) op" where
  "client_ListByCustomerAccount acc = select_all (\<lambda>c. cl_CustomerAccountID c = Some acc) db_clients"

section \<open>Balances\<close>

definition balance_Get :: "int \<Rightarrow> (db, balance) op" where
  "balance_Get c = gets (\<lambda>d. Inr \<lparr>bal_ClientID = c, bal_Points = points_of d c\<rparr>)"

section \<open>Loyalty configurations\<close>

definition config_GetByStore :: "int \<Rightarrow> (db, loyalty_config) op" where
  "config_GetByStore s =
     gets (\<lambda>d. case db_loyalty_configs d s of None \<Rightarrow> Inl ErrNotFound | Some cfg \<Rightarrow> Inr cfg)"

text \<open>The row the columns of \<open>loyalty_configs\<close> hold for \<open>cfg\<close>, if they accept it.\<close>

definition config_row :: "loyalty_config \<Rightarrow> loyalty_config option" where
  "config_row cfg =
     (case numeric 5 2 (cfg_AccrualPercent cfg) of None \<Rightarrow> None | Some ap \<Rightarrow>
      case numeric 20 2 (cfg_MinPurchaseAmount cfg) of None \<Rightarrow> None | Some mp \<Rightarrow>
      case numeric 5 2 (cfg_MaxRedeemPercent cfg) of None \<Rightarrow> None | Some mr \<Rightarrow>
      case numeric 10 4 (cfg_PointsExchangeRate cfg) of None \<Rightarrow> None | Some er \<Rightarrow>
      if 0 \<le> ap \<and> ap \<le> 100 \<and> 0 \<le> mp \<and> 0 \<le> cfg_MinBalanceToRedeem cfg \<and> 0 \<le> mr \<and> mr \<le> 100 \<and> 0 < er
      then Some (cfg\<lparr>cfg_AccrualPercent := ap, cfg_MinPurchaseAmount := mp, cfg_MaxRedeemPercent := mr,
                     cfg_PointsExchangeRate := er, cfg_ExpectedVersion := None\<rparr>)
      else None)"

definition upsertConfig :: "loyalty_config \<Rightarrow> (db, unit) op" where
  "upsertConfig cfg =
     State (\<lambda>d. case config_row cfg of
                  None \<Rightarrow> (Inl ErrInternal, d)
                | Some row \<Rightarrow>
                    if \<not> list_ex (\<lambda>s. st_ID s = cfg_StoreID cfg) (db_stores d) then (Inl ErrInternal, d)
                    else (Inr (), d\<lparr>db_loyalty_configs := (db_loyalty_configs d)(cfg_StoreID cfg \<mapsto> row)\<rparr>))"

definition insertHistory :: "time \<Rightarrow> loyalty_config \<Rightarrow> int option \<Rightarrow> (db, unit) op" where
  "insertHistory now cfg changedBy =
     State (\<lambda>d. case config_row cfg of
                  None \<Rightarrow> (Inl ErrInternal, d)
                | Some row \<Rightarrow>
                    if list_ex (\<lambda>h. ver_StoreID h = cfg_StoreID cfg \<and> ver_Version h = cfg_Version cfg) (db_config_history d)
                       \<or> \<not> list_ex (\<lambda>s. st_ID s = cfg_StoreID cfg) (db_stores d)
                       \<or> (case changedBy of None \<Rightarrow> False
                          | Some u \<Rightarrow> \<not> list_ex (\<lambda>su. su_ID su = u) (db_staff_users d))
                    then (Inl ErrInternal, d)
                    else (Inr (), d\<lparr>db_config_history := db_config_history d @
                       [\<lparr>ver_StoreID = cfg_StoreID row, ver_Version = cfg_Version row, ver_Mechanic = cfg_Mechanic row,
                         ver_AccrualPercent = cfg_AccrualPercent row, ver_MinPurchaseAmount = cfg_MinPurchaseAmount row,
                         ver_MinBalanceToRedeem = cfg_MinBalanceToRedeem row,
                         ver_MaxRedeemPercent = cfg_MaxRedeemPercent row,
                         ver_PointsExchangeRate = cfg_PointsExchangeRate row,
                         ver_ChangedByStaffUserID = changedBy, ver_CreatedAt = now\<rparr>]\<rparr>))"

definition config_Upsert :: "(nat \<Rightarrow> bool) \<Rightarrow> time \<Rightarrow> loyalty_config \<Rightarrow> int option \<Rightarrow> (db, loyalty_config) op" where
  "config_Upsert tf now cfg changedBy =
     transaction_of (
       andThen (stmt tf 0 (ok ())) (\<lambda>_.
       andThen (stmt tf 1 (gets (\<lambda>d. Inr (case db_loyalty_configs d (cfg_StoreID cfg) of
                                           None \<Rightarrow> 0 | Some c \<Rightarrow> cfg_Version c)))) (\<lambda>currentVersion.
       if (case cfg_ExpectedVersion cfg of None \<Rightarrow> False | Some v \<Rightarrow> v \<noteq> currentVersion)
       then fail ErrConflict
       else
       let cfg' = cfg\<lparr>cfg_Version := wrap64 (currentVersion + 1)\<rparr>
       in andThen (stmt tf 2 (upsertConfig cfg')) (\<lambda>_.
          andThen (stmt tf 3 (insertHistory now cfg' changedBy)) (\<lambda>_.
          andThen (stmt tf 4 (ok ())) (\<lambda>_.
          ok cfg'))))))"

definition config_ListHistory :: "int \<Rightarrow> (db, loyalty_config_version list) op" where
  "config_ListHistory s =
     gets (\<lambda>d. Inr (sort_key (\<lambda>v. - ver_Version v)
       (List.filter (\<lambda>v. ver_StoreID v = s) (db_config_history d))))"

section \<open>The outbox, from the worker's side\<close>

definition claimLease :: duration where
  "claimLease = 60000000000"

definition claimable :: "time \<Rightarrow> outbox_entry \<Rightarrow> bool" where
  "claimable now e \<longleftrightarrow>
     (out_Status e = OutboxPending \<or> out_Status e = OutboxProcessing) \<and> out_NextAttemptAt e \<le> now"

definition outbox_ClaimBatch :: "time \<Rightarrow> nat \<Rightarrow> (db, outbox_entry list) op" where
  "outbox_ClaimBatch now limit =
     State (\<lambda>d. let ids = map out_ID (take limit (sort_key out_NextAttemptAt (List.filter (claimable now) (db_outbox d))));
                    claim = (\<lambda>e. if out_ID e \<in> set ids
                                 then e\<lparr>out_Status := OutboxProcessing, out_NextAttemptAt := now + claimLease\<rparr>
                                 else e)
                in (Inr (List.filter (\<lambda>e. out_ID e \<in> set ids) (map claim (db_outbox d))),
                    d\<lparr>db_outbox := map claim (db_outbox d)\<rparr>))"

definition update_outbox :: "int \<Rightarrow> (outbox_entry \<Rightarrow> outbox_entry) \<Rightarrow> (db, unit) op" where
  "update_outbox i f = modify (\<lambda>d. d\<lparr>db_outbox := map (\<lambda>e. if out_ID e = i then f e else e) (db_outbox d)\<rparr>)"

definition outbox_MarkDelivered :: "time \<Rightarrow> int \<Rightarrow> (db, unit) op" where
  "outbox_MarkDelivered now i =
     update_outbox i (\<lambda>e. e\<lparr>out_Status := OutboxDelivered, out_DeliveredAt := Some now\<rparr>)"

definition outbox_MarkFailed :: "int \<Rightarrow> string \<Rightarrow> time \<Rightarrow> (db, unit) op" where
  "outbox_MarkFailed i lastErr nextAttemptAt =
     update_outbox i (\<lambda>e. e\<lparr>out_Status := OutboxPending, out_Attempts := out_Attempts e + 1,
                            out_LastError := lastErr, out_NextAttemptAt := nextAttemptAt\<rparr>)"

definition outbox_MarkDeadLetter :: "int \<Rightarrow> string \<Rightarrow> (db, unit) op" where
  "outbox_MarkDeadLetter i lastErr =
     update_outbox i (\<lambda>e. e\<lparr>out_Status := OutboxDeadLetter, out_Attempts := out_Attempts e + 1,
                            out_LastError := lastErr\<rparr>)"

definition outbox_CountPending :: "(db, int) op" where
  "outbox_CountPending =
     gets (\<lambda>d. Inr (int (length (List.filter (\<lambda>e. out_Status e = OutboxPending \<or> out_Status e = OutboxProcessing)
       (db_outbox d)))))"

definition outbox_CountByStoreTemplateSince :: "int \<Rightarrow> string \<Rightarrow> time \<Rightarrow> (db, int) op" where
  "outbox_CountByStoreTemplateSince s templateID since =
     gets (\<lambda>d. Inr (int (length (List.filter
       (\<lambda>e. out_TemplateID e = templateID \<and> out_CreatedAt e \<ge> since \<and>
            list_ex (\<lambda>c. cl_ID c = out_ClientID e \<and> cl_StoreID c = s) (db_clients d))
       (db_outbox d)))))"

section \<open>Stores and customer accounts\<close>

definition store_GetByID :: "int \<Rightarrow> (db, store) op" where
  "store_GetByID i = select_one (\<lambda>s. st_ID s = i) db_stores"

text \<open>A NULL \<open>api_key_hash\<close> is the empty string of the row; it equals no parameter in SQL.\<close>

definition store_GetByAPIKeyHash :: "string \<Rightarrow> (db, store) op" where
  "store_GetByAPIKeyHash h = select_one (\<lambda>s. st_APIKeyHash s \<noteq> [] \<and> st_APIKeyHash s = h) db_stores"

definition store_ListByOrganization :: "int \<Rightarrow> (db, store list) op" where
  "store_ListByOrganization org =
     gets (\<lambda>d. Inr (sort_key st_ID (List.filter (\<lambda>s. st_OrganizationID s = org) (db_stores d))))"

definition external_code_taken :: "int option \<Rightarrow> int \<Rightarrow> string option \<Rightarrow> store list \<Rightarrow> bool" where
  "external_code_taken self org code ss =
     list_ex (\<lambda>s. self \<noteq> Some (st_ID s) \<and> code \<noteq> None \<and> st_OrganizationID s = org \<and> st_ExternalCode s = code) ss"

definition store_Create :: "store \<Rightarrow> (db, store) op" where
  "store_Create s =
     andThen (nextval T_stores) (\<lambda>i.
     State (\<lambda>d.
       if (st_APIKeyHash s \<noteq> [] \<and> list_ex (\<lambda>r. st_APIKeyHash r = st_APIKeyHash s) (db_stores d))
          \<or> external_code_taken None (st_OrganizationID s) (st_ExternalCode s) (db_stores d)
       then (Inl ErrConflict, d)
       else if \<not> list_ex (\<lambda>g. org_ID g = st_OrganizationID s) (db_organizations d) then (Inl ErrInternal, d)
       else (Inr (s\<lparr>st_ID := i\<rparr>), d\<lparr>db_stores := db_stores d @ [s\<lparr>st_ID := i\<rparr>]\<rparr>)))"

definition store_UpdateProfile :: "store \<Rightarrow> (db, unit) op" where
  "store_UpdateProfile s =
     State (\<lambda>d.
       case find (\<lambda>r. st_ID r = st_ID s) (db_stores d) of
         None \<Rightarrow> (Inl ErrNotFound, d)
       | Some old \<Rightarrow>
           if external_code_taken (Some (st_ID s)) (st_OrganizationID old) (st_ExternalCode s) (db_stores d)
           then (Inl ErrConflict, d)
           else (Inr (), d\<lparr>db_stores := map (\<lambda>r. if st_ID r = st_ID s
                   then r\<lparr>st_Name := st_Name s, st_Address := st_Address s, st_ExternalCode := st_ExternalCode s,
                          st_SMSInviteEnabled := st_SMSInviteEnabled s\<rparr> else r) (db_stores d)\<rparr>))"

definition account_GetByPhone :: "string \<Rightarrow> (db, customer_account) op" where
  "account_GetByPhone phone = select_one (\<lambda>a. acc_Phone a = phone) db_accounts"

definition account_GetByID :: "int \<Rightarrow> (db, customer_account) op" where
  "account_GetByID i = select_one (\<lambda>a. acc_ID a = i) db_accounts"

definition account_Create :: "time \<Rightarrow> customer_account \<Rightarrow> (db, customer_account) op" where
  "account_Create now a =
     andThen (nextval T_accounts) (\<lambda>i.
     State (\<lambda>d.
       let row = a\<lparr>acc_ID := i, acc_CreatedAt := now, acc_UpdatedAt := now\<rparr>
       in if list_ex (\<lambda>r. acc_Phone r = acc_Phone a) (db_accounts d) then (Inl ErrConflict, d)
          else (Inr row, d\<lparr>db_accounts := db_accounts d @ [row]\<rparr>)))"

end
