(* ===== verification/Refund_Split.thy ===== *)
theory Refund_Split
  imports Ledger
begin

text \<open>
  The arithmetic of partial refunds. \<open>PostRefund\<close> splits the points of an original transaction
  over its refunds: after refunds for a total of \<open>R\<close> out of \<open>A\<close>, \<open>share P A R\<close> of its \<open>P\<close> points
  are taken back, and each refund moves the difference. The locale states what the ledger
  relies on; every decimal package that keeps its documented contract provides it, through the
  code's own formula (\<open>cumulative_share\<close>).
\<close>

definition cumulative_share :: "decimal_lib \<Rightarrow> int \<Rightarrow> rat \<Rightarrow> rat \<Rightarrow> int" where
  "cumulative_share D P A R =
     (if R = A then P else if A > 0 then dec_IntPart D (of_int \<lfloor>dec_Div D (of_int P * R) A\<rfloor>) else 0)"

lemma refund_cumulative_points_share:
  assumes "in_i64 (tx_PointsDelta t)" "tx_PointsDelta t \<noteq> - 9223372036854775808"
  shows "refund_cumulative_points D t R = cumulative_share D \<bar>tx_PointsDelta t\<bar> (tx_Amount t) R"
proof -
  have "wrap64 (- tx_PointsDelta t) = - tx_PointsDelta t" using assms by (simp add: in_i64_def)
  then show ?thesis by (simp add: refund_cumulative_points_def cumulative_share_def Let_def)
qed

locale point_split =
  fixes share :: "int \<Rightarrow> rat \<Rightarrow> rat \<Rightarrow> int"
  assumes share_all: "share P A A = P"
    and share_none: "0 \<le> P \<Longrightarrow> in_i64 P \<Longrightarrow> 0 < A \<Longrightarrow> share P A 0 = 0"
    and share_bounds: "0 \<le> P \<Longrightarrow> in_i64 P \<Longrightarrow> 0 \<le> R \<Longrightarrow> R \<le> A \<Longrightarrow> 0 \<le> share P A R \<and> share P A R \<le> P"
    and share_floor: "0 \<le> P \<Longrightarrow> in_i64 P \<Longrightarrow> whole_at 2 R \<Longrightarrow> whole_at 2 A \<Longrightarrow> 0 \<le> R \<Longrightarrow> R \<le> A \<Longrightarrow> 0 < A \<Longrightarrow>
      A < 2 * 10 ^ 14 \<Longrightarrow> share P A R = \<lfloor>of_int P * R / A\<rfloor>"
begin

lemma share_mono:
  assumes "0 \<le> P" "in_i64 P" "whole_at 2 R" "whole_at 2 R'" "whole_at 2 A" "0 \<le> R" "R \<le> R'" "R' \<le> A"
    "0 < A" "A < 2 * 10 ^ 14"
  shows "share P A R \<le> share P A R'"
proof -
  have "of_int P * R / A \<le> of_int P * R' / A"
    using assms by (intro divide_right_mono mult_left_mono) auto
  then have "\<lfloor>of_int P * R / A\<rfloor> \<le> \<lfloor>of_int P * R' / A\<rfloor>" by (rule floor_mono)
  moreover have "R \<le> A" "0 \<le> R'" using assms by linarith+
  ultimately show ?thesis using assms by (simp add: share_floor)
qed

text \<open>
  The points moved by a sequence of refunds of amounts \<open>rs\<close>, starting from a cumulative
  amount \<open>R\<close>: the parts add up to the share of the total, whatever the amounts.
\<close>

fun parts :: "int \<Rightarrow> rat \<Rightarrow> rat \<Rightarrow> rat list \<Rightarrow> int list" where
  "parts P A R [] = []"
| "parts P A R (r # rs) = (share P A (R + r) - share P A R) # parts P A (R + r) rs"

lemma parts_sum: "sum_list (parts P A R rs) = share P A (R + sum_list rs) - share P A R"
  by (induction rs arbitrary: R) (simp_all add: add.assoc)

lemma parts_exhaust:
  "0 \<le> P \<Longrightarrow> in_i64 P \<Longrightarrow> 0 < A \<Longrightarrow> sum_list rs = A \<Longrightarrow> sum_list (parts P A 0 rs) = P"
  by (simp add: parts_sum share_all share_none)

end

sublocale decimal_laws \<subseteq> split: point_split "cumulative_share D"
proof (unfold_locales, goal_cases)
  case (1 P A)
  show ?case by (simp add: cumulative_share_def)
next
  case (2 P A)
  have "\<lfloor>dec_Div D 0 A\<rfloor> = 0" using floor_Div [of 1 A 0 0] 2 by simp
  with 2 show ?case using IntPart_int [of 0] by (simp add: cumulative_share_def in_i64_def)
next
  case (3 P R A)
  show ?case
  proof (cases "R = A \<or> A \<le> 0")
    case True
    with 3 show ?thesis by (auto simp: cumulative_share_def)
  next
    case False
    then have A: "0 < A" "R \<noteq> A" by auto
    have "0 \<le> of_int P * R / A" using 3 A by simp
    then have lo: "0 \<le> dec_Div D (of_int P * R) A" using A Div_ge_int [of A 0] by simp
    have "of_int P * R \<le> of_int P * A" using 3 by (intro mult_left_mono) auto
    then have "of_int P * R / A \<le> of_int P" using A by (simp add: divide_le_eq)
    then have hi: "dec_Div D (of_int P * R) A \<le> of_int P" using A by (intro Div_le_int) auto
    have fl: "0 \<le> \<lfloor>dec_Div D (of_int P * R) A\<rfloor>" "\<lfloor>dec_Div D (of_int P * R) A\<rfloor> \<le> P"
      using lo hi by (simp_all add: floor_le_iff le_floor_iff)
    then have "in_i64 \<lfloor>dec_Div D (of_int P * R) A\<rfloor>" using 3(2) by (rule in_i64_between)
    with A fl show ?thesis by (simp add: cumulative_share_def IntPart_int)
  qed
next
  case (4 P R A)
  obtain r where r: "R = of_int r / 10 ^ 2" using 4(3) by (rule whole_atE)
  obtain a where a: "A = of_int a / 10 ^ 2" using 4(4) by (rule whole_atE)
  have pos: "0 < a" using 4(7) by (simp add: a zero_less_divide_iff)
  have "(of_int a :: rat) < of_int (2 * 10 ^ 16)" using 4(8) by (simp add: a)
  then have small: "a < 2 * 10 ^ 16" by (simp only: of_int_less_iff)
  have quot: "of_int P * R / A = of_int (P * r) / of_int a" using pos by (simp add: r a)
  have fl: "\<lfloor>dec_Div D (of_int P * R) A\<rfloor> = \<lfloor>of_int P * R / A\<rfloor>"
    using floor_Div [OF pos small _ quot] 4(7) by (simp only: quot floor_divide_of_int_eq)
  show ?case
  proof (cases "R = A")
    case True
    with 4(7) show ?thesis by (simp add: cumulative_share_def)
  next
    case False
    have "of_int P * R \<le> of_int P * A" using 4 by (intro mult_left_mono) auto
    then have "of_int P * R / A \<le> of_int P" using 4(7) by (simp add: divide_le_eq)
    then have hi: "\<lfloor>of_int P * R / A\<rfloor> \<le> P" by (simp add: floor_le_iff)
    have lo: "0 \<le> \<lfloor>of_int P * R / A\<rfloor>" using 4 by simp
    have "in_i64 \<lfloor>of_int P * R / A\<rfloor>" using lo hi 4(2) by (rule in_i64_between)
    with False 4(7) show ?thesis by (simp add: cumulative_share_def IntPart_int fl)
  qed
qed

context decimal_laws
begin

lemmas code_share_bounds = split.share_bounds

lemmas code_share_floor = split.share_floor

lemmas code_share_mono = split.share_mono

end

end
