(* ===== verification/Loyalty.thy ===== *)
theory Loyalty
  imports Repositories Mechanic Phone
begin

text \<open>
  \<open>internal/service/loyalty.go\<close>: accrual, redemption and refund. A request is a program over
  the database that issues repository calls through the environment \<open>E\<close> (\<open>call\<close>); logging and
  metrics are left out. A result that is a nil pointer with a nil error is \<open>None\<close>.
\<close>

section \<open>Configuration, requests and results\<close>

record anti_fraud_config =
  af_DailyRedeemPointsLimit :: int
  af_DailyRedeemWindow :: duration

definition inviteLimitWindow :: duration where
  "inviteLimitWindow = 24 * 3600000000000"

text \<open>The three repositories of \<open>Invites\<close> only matter by being nil or not.\<close>

record invites =
  inv_AppURL :: string
  inv_DailyStoreLimit :: int
  inv_Stores :: bool
  inv_CustomerAccounts :: bool
  inv_Outbox :: bool

definition invites_enabled :: "invites \<Rightarrow> bool" where
  "invites_enabled i \<longleftrightarrow> inv_AppURL i \<noteq> [] \<and> inv_DailyStoreLimit i > 0 \<and> inv_Stores i
     \<and> inv_CustomerAccounts i \<and> inv_Outbox i"

record loyalty_service =
  svc_antiFraud :: anti_fraud_config
  svc_invites :: invites

record accrue_request =
  ar_StoreID :: int
  ar_ExternalTxID :: string
  ar_Phone :: string
  ar_Amount :: rat

record accrue_result =
  ares_ClientID :: int
  ares_PointsEarned :: int
  ares_Balance :: int
  ares_Replayed :: bool

record redeem_request =
  rr_StoreID :: int
  rr_ExternalTxID :: string
  rr_ClientID :: int
  rr_Points :: int
  rr_Amount :: rat

record redeem_result =
  rres_PointsRedeemed :: int
  rres_Balance :: int
  rres_Replayed :: bool

record refund_request =
  fr_StoreID :: int
  fr_ExternalTxID :: string
  fr_OriginalExternalTxID :: string
  fr_OriginalType :: "transaction_type option"
  fr_Amount :: rat

record refund_result =
  fres_ClientID :: int
  fres_PointsReversed :: int
  fres_Balance :: int
  fres_RefundedAmountTotal :: rat
  fres_FullyRefunded :: bool
  fres_Replayed :: bool

section \<open>Keys and fingerprints\<close>

fun show_type :: "transaction_type \<Rightarrow> string" where
  "show_type TransactionAccrual = ''accrual''"
| "show_type TransactionRedeem = ''redeem''"
| "show_type TransactionRefund = ''refund''"

definition outboxDedupeKey :: "int \<Rightarrow> transaction_type \<Rightarrow> string \<Rightarrow> string" where
  "outboxDedupeKey storeID txType externalTxID =
     show_int storeID @ '':'' @ show_type txType @ '':'' @ externalTxID"

definition accrualFingerprint :: "decimal_lib \<Rightarrow> int \<Rightarrow> rat \<Rightarrow> string" where
  "accrualFingerprint D clientID amount =
     ''client='' @ show_int clientID @ '';amount='' @ dec_StringFixed D 2 amount"

definition redeemFingerprint :: "decimal_lib \<Rightarrow> int \<Rightarrow> rat \<Rightarrow> int \<Rightarrow> string" where
  "redeemFingerprint D clientID amount points =
     ''client='' @ show_int clientID @ '';amount='' @ dec_StringFixed D 2 amount
       @ '';points='' @ show_int points"

definition refundFingerprint :: "decimal_lib \<Rightarrow> int \<Rightarrow> rat \<Rightarrow> string" where
  "refundFingerprint D originalTransactionID amount =
     ''original='' @ show_int originalTransactionID @ '';amount='' @ dec_StringFixed D 2 amount"

section \<open>Values the code builds\<close>

text \<open>A \<open>Transaction\<close> or \<open>NotificationOutboxEntry\<close> literal: the fields not named are zero.\<close>

definition zero_transaction :: "transaction_type \<Rightarrow> transaction" where
  "zero_transaction ty = \<lparr>tx_ID = 0, tx_StoreID = 0, tx_ClientID = 0, tx_ExternalTxID = [], tx_Amount = 0,
     tx_Currency = [], tx_Type = ty, tx_PointsDelta = 0, tx_BalanceAfter = 0, tx_RequestFingerprint = [],
     tx_CreatedAt = 0, tx_RuleVersion = None, tx_OriginalTransactionID = None, tx_RefundedAmount = 0,
     tx_RefundedPoints = 0, tx_RefundCumulativeAmount = 0, tx_RefundFullyRefunded = False\<rparr>"

definition notification :: "int \<Rightarrow> outbox_channel \<Rightarrow> rendered \<Rightarrow> string \<Rightarrow> outbox_entry" where
  "notification clientID channel r key = \<lparr>out_ID = 0, out_ClientID = clientID, out_Channel = channel,
     out_TemplateID = rnd_TemplateID r, out_TemplateVersion = rnd_Version r, out_Message = rnd_Message r,
     out_DedupeKey = key, out_Status = OutboxPending, out_Attempts = 0, out_NextAttemptAt = 0,
     out_LastError = [], out_CreatedAt = 0, out_DeliveredAt = None\<rparr>"

section \<open>Calls with a clock\<close>

definition call_at :: "'s env \<Rightarrow> site \<Rightarrow> (time \<Rightarrow> ('s, 'a) op) \<Rightarrow> ('s, 'a) op" where
  "call_at E l m = call E l (m (env_now E l))"

definition call_tx :: "'s env \<Rightarrow> site \<Rightarrow> ((nat \<Rightarrow> bool) \<Rightarrow> time \<Rightarrow> ('s, 'a) op) \<Rightarrow> ('s, 'a) op" where
  "call_tx E l m = call E l (m (env_stmt E l) (env_now E l))"

section \<open>Accrual\<close>

definition replayedAccrue :: "decimal_lib \<Rightarrow> db env \<Rightarrow> nat \<Rightarrow> int \<Rightarrow> string \<Rightarrow> string \<Rightarrow> rat \<Rightarrow>
    (db, accrue_result option) op" where
  "replayedAccrue D E k storeID externalTxID phone amount = do {
     r1 \<leftarrow> call E (''accrue.GetByExternalID'', k) (tx_GetByExternalID storeID TransactionAccrual externalTxID);
     case r1 of
       Inl e \<Rightarrow> if e = ErrNotFound then ok None else fail e
     | Inr existing \<Rightarrow> do {
         r2 \<leftarrow> call E (''accrue.replay.GetByPhone'', k) (client_GetByPhone storeID phone);
         case r2 of
           Inl e \<Rightarrow> if e = ErrNotFound then fail ErrIdempotencyConflict else fail e
         | Inr client \<Rightarrow>
             if tx_RequestFingerprint existing \<noteq> accrualFingerprint D (cl_ID client) amount
             then fail ErrIdempotencyConflict
             else ok (Some \<lparr>ares_ClientID = tx_ClientID existing, ares_PointsEarned = tx_PointsDelta existing,
                            ares_Balance = tx_BalanceAfter existing, ares_Replayed = True\<rparr>)
       }
   }"

definition resolveOrCreateClient :: "db env \<Rightarrow> int \<Rightarrow> string \<Rightarrow> (db, client \<times> bool) op" where
  "resolveOrCreateClient E storeID phone = do {
     r1 \<leftarrow> call E (''accrue.GetByPhone'', 0) (client_GetByPhone storeID phone);
     case r1 of
       Inr client \<Rightarrow> ok (client, False)
     | Inl e \<Rightarrow>
         if e \<noteq> ErrNotFound then fail e
         else let client = \<lparr>cl_ID = 0, cl_StoreID = storeID, cl_Phone = phone, cl_CustomerAccountID = None,
                            cl_CreatedAt = env_now E (''time.Now'', 0)\<rparr>
              in do {
                r2 \<leftarrow> call_at E (''accrue.CreateClient'', 0) (\<lambda>now. client_Create now client);
                case r2 of
                  Inr client' \<Rightarrow> ok (client', True)
                | Inl e \<Rightarrow>
                    if e = ErrConflict
                    then andThen (call E (''accrue.GetByPhone'', 1) (client_GetByPhone storeID phone))
                           (\<lambda>client. ok (client, False))
                    else fail e
              }
   }"

definition appInvite :: "invites \<Rightarrow> db env \<Rightarrow> client \<Rightarrow> (db, outbox_entry option) op" where
  "appInvite cfg E client =
     (if \<not> invites_enabled cfg then ok None
      else do {
        r1 \<leftarrow> call E (''invite.GetStore'', 0) (store_GetByID (cl_StoreID client));
        case r1 of
          Inl e \<Rightarrow> ok None
        | Inr store \<Rightarrow>
            if \<not> st_SMSInviteEnabled store then ok None
            else do {
              r2 \<leftarrow> call E (''invite.GetAccount'', 0) (account_GetByPhone (cl_Phone client));
              case r2 of
                Inr _ \<Rightarrow> ok None
              | Inl e \<Rightarrow>
                  if e \<noteq> ErrNotFound then ok None
                  else do {
                    r3 \<leftarrow> call E (''invite.Count'', 0)
                            (outbox_CountByStoreTemplateSince (cl_StoreID client) AppInviteID
                               (env_now E (''time.Now'', 1) - inviteLimitWindow));
                    case r3 of
                      Inl e \<Rightarrow> ok None
                    | Inr sent \<Rightarrow>
                        if sent \<ge> inv_DailyStoreLimit cfg then ok None
                        else ok (Some (notification (cl_ID client) OutboxChannelSMS
                               (AppInvite (st_Name store) (inv_AppURL cfg)) (''invite:'' @ cl_Phone client)))
                  }
            }
      })"

definition accrualNotify :: "int \<Rightarrow> string \<Rightarrow> int \<Rightarrow> int \<Rightarrow> outbox_entry option" where
  "accrualNotify storeID externalTxID clientID pointsDelta =
     (if pointsDelta > 0
      then Some (notification clientID ChannelUnset (AccrualCredited pointsDelta)
             (outboxDedupeKey storeID TransactionAccrual externalTxID))
      else None)"

text \<open>The points and rule version of an accrual: the part of \<open>Accrue\<close> that consults the store's rules.\<close>

definition accrualPoints :: "decimal_lib \<Rightarrow> db env \<Rightarrow> int \<Rightarrow> transaction \<Rightarrow> (db, transaction) op" where
  "accrualPoints D E storeID tx = do {
     r \<leftarrow> call E (''accrue.GetConfig'', 0) (config_GetByStore storeID);
     case r of
       Inl e \<Rightarrow> if e = ErrNotFound then ok tx else fail e
     | Inr cfg \<Rightarrow>
         (case Build (cfg_Mechanic cfg) of
            None \<Rightarrow> fail ErrInternal
          | Some mechanic \<Rightarrow>
              andThen (call E (''accrue.GetBalance'', 0) (balance_Get (tx_ClientID tx))) (\<lambda>balanceBefore.
              let tx' = tx\<lparr>tx_RuleVersion := Some (cfg_Version cfg)\<rparr>
              in ok (tx'\<lparr>tx_PointsDelta := mechanic_Accrue D mechanic tx' cfg\<rparr>)))
   }"

definition Accrue :: "decimal_lib \<Rightarrow> loyalty_service \<Rightarrow> db env \<Rightarrow> accrue_request \<Rightarrow> (db, accrue_result option) op" where
  "Accrue D svc E req =
     (let normalized = NormalizePhone (ar_Phone req);
          phoneNormalized = (normalized \<noteq> None);
          phone = (case normalized of Some p \<Rightarrow> p | None \<Rightarrow> ar_Phone req)
      in
      andThen (replayedAccrue D E 0 (ar_StoreID req) (ar_ExternalTxID req) phone (ar_Amount req)) (\<lambda>result.
      if result \<noteq> None then ok result
      else
      andThen (resolveOrCreateClient E (ar_StoreID req) phone) (\<lambda>(client, created).
      andThen (if created \<and> phoneNormalized then appInvite (svc_invites svc) E client else ok None) (\<lambda>invite.
      let tx0 = (zero_transaction TransactionAccrual)\<lparr>tx_StoreID := ar_StoreID req, tx_ClientID := cl_ID client,
                  tx_ExternalTxID := ar_ExternalTxID req, tx_Amount := ar_Amount req,
                  tx_RequestFingerprint := accrualFingerprint D (cl_ID client) (ar_Amount req)\<rparr>
      in
      andThen (accrualPoints D E (ar_StoreID req) tx0) (\<lambda>tx.
      let notify = accrualNotify (ar_StoreID req) (ar_ExternalTxID req) (cl_ID client) (tx_PointsDelta tx)
      in do {
        r \<leftarrow> call_tx E (''accrue.Post'', 0) (\<lambda>tf now. Post tf now tx [notify, invite]);
        case r of
          Inl e \<Rightarrow>
            if e = ErrConflict
            then replayedAccrue D E 1 (ar_StoreID req) (ar_ExternalTxID req) phone (ar_Amount req)
            else fail e
        | Inr (posted, balance) \<Rightarrow>
            ok (Some \<lparr>ares_ClientID = cl_ID client, ares_PointsEarned = tx_PointsDelta posted,
                      ares_Balance = bal_Points balance, ares_Replayed = False\<rparr>)
      })))))"

section \<open>Redemption\<close>

definition replayedRedeem :: "decimal_lib \<Rightarrow> db env \<Rightarrow> nat \<Rightarrow> int \<Rightarrow> string \<Rightarrow> int \<Rightarrow> rat \<Rightarrow> int \<Rightarrow>
    (db, redeem_result option) op" where
  "replayedRedeem D E k storeID externalTxID clientID amount points = do {
     r \<leftarrow> call E (''redeem.GetByExternalID'', k) (tx_GetByExternalID storeID TransactionRedeem externalTxID);
     case r of
       Inl e \<Rightarrow> if e = ErrNotFound then ok None else fail e
     | Inr existing \<Rightarrow>
         if tx_RequestFingerprint existing \<noteq> redeemFingerprint D clientID amount points
         then fail ErrIdempotencyConflict
         else ok (Some \<lparr>rres_PointsRedeemed = wrap64 (- tx_PointsDelta existing),
                        rres_Balance = tx_BalanceAfter existing, rres_Replayed = True\<rparr>)
   }"

definition cappedPoints :: "decimal_lib \<Rightarrow> loyalty_config \<Rightarrow> rat \<Rightarrow> int \<Rightarrow> int" where
  "cappedPoints D cfg amount requested =
     (if cfg_MaxRedeemPercent cfg > 0 \<and> cfg_PointsExchangeRate cfg > 0
      then let maxPoints = dec_IntPart D (of_int \<lfloor>dec_Div D (dec_Div D (amount * cfg_MaxRedeemPercent cfg) 100)
                             (cfg_PointsExchangeRate cfg)\<rfloor>)
           in if requested > maxPoints then maxPoints else requested
      else requested)"

definition Redeem :: "decimal_lib \<Rightarrow> loyalty_service \<Rightarrow> db env \<Rightarrow> redeem_request \<Rightarrow> (db, redeem_result option) op" where
  "Redeem D svc E req =
     andThen (call E (''redeem.GetClient'', 0) (client_GetByID (rr_ClientID req))) (\<lambda>client.
     if cl_StoreID client \<noteq> rr_StoreID req then fail ErrNotFound
     else
     andThen (replayedRedeem D E 0 (rr_StoreID req) (rr_ExternalTxID req) (rr_ClientID req) (rr_Amount req)
               (rr_Points req)) (\<lambda>result.
     if result \<noteq> None then ok result
     else do {
       r \<leftarrow> call E (''redeem.GetConfig'', 0) (config_GetByStore (rr_StoreID req));
       case r of
         Inl e \<Rightarrow> if e = ErrNotFound then fail ErrInsufficientBalance else fail e
       | Inr cfg \<Rightarrow>
           andThen (call E (''redeem.GetBalance'', 0) (balance_Get (rr_ClientID req))) (\<lambda>balance.
           if bal_Points balance < cfg_MinBalanceToRedeem cfg then fail ErrInsufficientBalance
           else
           let points = cappedPoints D cfg (rr_Amount req) (rr_Points req)
           in if points \<le> 0 \<or> bal_Points balance < points then fail ErrInsufficientBalance
           else
           let tx = (zero_transaction TransactionRedeem)\<lparr>tx_StoreID := rr_StoreID req, tx_ClientID := rr_ClientID req,
                      tx_ExternalTxID := rr_ExternalTxID req, tx_Amount := rr_Amount req, tx_PointsDelta := - points,
                      tx_RequestFingerprint := redeemFingerprint D (rr_ClientID req) (rr_Amount req) (rr_Points req),
                      tx_RuleVersion := Some (cfg_Version cfg)\<rparr>;
               notify = notification (rr_ClientID req) ChannelUnset (RedeemDebited points)
                          (outboxDedupeKey (rr_StoreID req) TransactionRedeem (rr_ExternalTxID req))
           in do {
             r \<leftarrow> call_tx E (''redeem.Post'', 0) (\<lambda>tf now.
                    PostRedeemChecked tf now tx (cfg_MinBalanceToRedeem cfg)
                      (af_DailyRedeemPointsLimit (svc_antiFraud svc)) (af_DailyRedeemWindow (svc_antiFraud svc))
                      (Some notify));
             case r of
               Inl e \<Rightarrow>
                 if e = ErrConflict
                 then replayedRedeem D E 1 (rr_StoreID req) (rr_ExternalTxID req) (rr_ClientID req) (rr_Amount req)
                        (rr_Points req)
                 else fail e
             | Inr (posted, newBalance) \<Rightarrow>
                 ok (Some \<lparr>rres_PointsRedeemed = wrap64 (- tx_PointsDelta posted),
                           rres_Balance = bal_Points newBalance, rres_Replayed = False\<rparr>)
           })
     }))"

section \<open>Refund\<close>

definition resolveOriginalTransaction :: "db env \<Rightarrow> int \<Rightarrow> string \<Rightarrow> transaction_type option \<Rightarrow> (db, transaction) op" where
  "resolveOriginalTransaction E storeID originalExternalTxID originalType =
     (case originalType of
        Some ty \<Rightarrow> call E (''refund.GetOriginal'', 0) (tx_GetByExternalID storeID ty originalExternalTxID)
      | None \<Rightarrow> do {
          accrual \<leftarrow> call E (''refund.GetOriginal'', 1)
                       (tx_GetByExternalID storeID TransactionAccrual originalExternalTxID);
          case accrual of
            Inl e1 \<Rightarrow>
              if e1 \<noteq> ErrNotFound then fail e1
              else call E (''refund.GetOriginal'', 2)
                     (tx_GetByExternalID storeID TransactionRedeem originalExternalTxID)
          | Inr a \<Rightarrow> do {
              redeem \<leftarrow> call E (''refund.GetOriginal'', 2)
                          (tx_GetByExternalID storeID TransactionRedeem originalExternalTxID);
              case redeem of
                Inl e2 \<Rightarrow> if e2 \<noteq> ErrNotFound then fail e2 else ok a
              | Inr _ \<Rightarrow> fail ErrAmbiguousOriginalTransaction
            }
        })"

definition replayedRefund :: "decimal_lib \<Rightarrow> db env \<Rightarrow> nat \<Rightarrow> int \<Rightarrow> string \<Rightarrow> int \<Rightarrow> rat \<Rightarrow>
    (db, refund_result option) op" where
  "replayedRefund D E k storeID externalTxID originalTransactionID amount = do {
     r \<leftarrow> call E (''refund.GetByExternalID'', k) (tx_GetByExternalID storeID TransactionRefund externalTxID);
     case r of
       Inl e \<Rightarrow> if e = ErrNotFound then ok None else fail e
     | Inr existing \<Rightarrow>
         if tx_RequestFingerprint existing \<noteq> refundFingerprint D originalTransactionID amount
         then fail ErrIdempotencyConflict
         else ok (Some \<lparr>fres_ClientID = tx_ClientID existing, fres_PointsReversed = tx_PointsDelta existing,
                        fres_Balance = tx_BalanceAfter existing,
                        fres_RefundedAmountTotal = tx_RefundCumulativeAmount existing,
                        fres_FullyRefunded = tx_RefundFullyRefunded existing, fres_Replayed = True\<rparr>)
   }"

definition Refund :: "decimal_lib \<Rightarrow> db env \<Rightarrow> refund_request \<Rightarrow> (db, refund_result option) op" where
  "Refund D E req =
     andThen (resolveOriginalTransaction E (fr_StoreID req) (fr_OriginalExternalTxID req) (fr_OriginalType req))
       (\<lambda>original.
     andThen (replayedRefund D E 0 (fr_StoreID req) (fr_ExternalTxID req) (tx_ID original) (fr_Amount req)) (\<lambda>result.
     if result \<noteq> None then ok result
     else
     let refundTx = (zero_transaction TransactionRefund)\<lparr>tx_StoreID := fr_StoreID req,
                      tx_ExternalTxID := fr_ExternalTxID req, tx_Amount := fr_Amount req,
                      tx_RequestFingerprint := refundFingerprint D (tx_ID original) (fr_Amount req),
                      tx_OriginalTransactionID := Some (tx_ID original)\<rparr>;
         buildNotify = (\<lambda>pointsDelta. Some (notification (tx_ClientID original) ChannelUnset
                          (RefundAdjusted pointsDelta)
                          (outboxDedupeKey (fr_StoreID req) TransactionRefund (fr_ExternalTxID req))))
     in do {
       r \<leftarrow> call_tx E (''refund.Post'', 0) (\<lambda>tf now. PostRefund D tf now refundTx (Some buildNotify));
       case r of
         Inl e \<Rightarrow>
           if e = ErrConflict
           then replayedRefund D E 1 (fr_StoreID req) (fr_ExternalTxID req) (tx_ID original) (fr_Amount req)
           else fail e
       | Inr (posted, updatedOriginal, balance) \<Rightarrow>
           ok (Some \<lparr>fres_ClientID = tx_ClientID posted, fres_PointsReversed = tx_PointsDelta posted,
                     fres_Balance = bal_Points balance,
                     fres_RefundedAmountTotal = tx_RefundedAmount updatedOriginal,
                     fres_FullyRefunded = (tx_RefundedAmount updatedOriginal = tx_Amount updatedOriginal),
                     fres_Replayed = False\<rparr>)
     }))"

end
