(* ===== verification/Ledger_Steps.thy ===== *)
theory Ledger_Steps
  imports Refund_Split Loyalty
begin

text \<open>
  The database as a state machine. A step is one committed or failed repository call: an
  accrual, redemption or refund posted to the ledger, or anything that leaves the balances and
  the transactions alone. The invariants of the ledger are proved by rule induction over the
  steps, and every loyalty request is shown to be a sequence of steps, whatever the other
  requests do between its calls and whichever calls fail.
\<close>

section \<open>Steps\<close>

text \<open>
  What the statements on other tables do: the ledger's rows stay, and clients are only
  appended, keeping their id, store and phone.
\<close>

definition client_key :: "client \<Rightarrow> int \<times> int \<times> string" where
  "client_key c = (cl_ID c, cl_StoreID c, cl_Phone c)"

definition clients_grow :: "db \<Rightarrow> db \<Rightarrow> bool" where
  "clients_grow d d' \<longleftrightarrow> (\<exists>new. map client_key (db_clients d') = map client_key (db_clients d) @ new)"

definition unledgered :: "db \<Rightarrow> db \<Rightarrow> bool" where
  "unledgered d d' \<longleftrightarrow>
     db_balances d' = db_balances d \<and> db_transactions d' = db_transactions d \<and>
     db_seq d T_transactions \<le> db_seq d' T_transactions \<and> clients_grow d d'"

text \<open>
  \<open>Q\<close> restricts the amounts of refund requests; the HTTP handler admits the positive ones
  (\<open>refund.go\<close>). The point delta of a transaction is a Go \<open>int64\<close>.
\<close>

inductive ledger_step :: "decimal_lib \<Rightarrow> anti_fraud_config \<Rightarrow> (rat \<Rightarrow> bool) \<Rightarrow> db \<Rightarrow> db \<Rightarrow> bool"
  for D af Q where
  accrual: "run_state (Post tf now tx ns) d = (r, d') \<Longrightarrow> tx_Type tx = TransactionAccrual \<Longrightarrow>
    in_i64 (tx_PointsDelta tx) \<Longrightarrow> ledger_step D af Q d d'"
| redeem: "run_state (PostRedeemChecked tf now tx mb (af_DailyRedeemPointsLimit af) (af_DailyRedeemWindow af) n) d
      = (r, d') \<Longrightarrow> tx_Type tx = TransactionRedeem \<Longrightarrow> in_i64 (tx_PointsDelta tx) \<Longrightarrow> ledger_step D af Q d d'"
| refund: "run_state (PostRefund D tf now tx bn) d = (r, d') \<Longrightarrow> Q (tx_Amount tx) \<Longrightarrow> ledger_step D af Q d d'"
| other: "unledgered d d' \<Longrightarrow> ledger_step D af Q d d'"

definition reachable :: "decimal_lib \<Rightarrow> anti_fraud_config \<Rightarrow> (rat \<Rightarrow> bool) \<Rightarrow> db \<Rightarrow> bool" where
  "reachable D af Q d \<longleftrightarrow> (ledger_step D af Q)\<^sup>*\<^sup>* empty_db d"

lemma clients_grow_same: "db_clients d' = db_clients d \<Longrightarrow> clients_grow d d'"
  unfolding clients_grow_def by (rule exI [of _ "[]"]) simp

lemma clients_grow_trans: "clients_grow d1 d2 \<Longrightarrow> clients_grow d2 d3 \<Longrightarrow> clients_grow d1 d3"
  unfolding clients_grow_def by force

lemma clients_grow_member:
  assumes "clients_grow d d'" "c \<in> set (db_clients d)"
  shows "\<exists>c'\<in>set (db_clients d'). client_key c' = client_key c"
proof -
  obtain new where "map client_key (db_clients d') = map client_key (db_clients d) @ new"
    using assms(1) by (auto simp: clients_grow_def)
  then have "client_key c \<in> set (map client_key (db_clients d'))" using assms(2) by simp
  then show ?thesis by auto
qed

lemma unledgered_refl [simp]: "unledgered d d"
  by (simp add: unledgered_def clients_grow_same)

lemma unledgered_seq: "db_seq d T_transactions \<le> q T_transactions \<Longrightarrow> unledgered d (d\<lparr>db_seq := q\<rparr>)"
  by (simp add: unledgered_def clients_grow_same)

section \<open>Well-formed ledgers\<close>

definition tx_key :: "transaction \<Rightarrow> int \<times> transaction_type \<times> string" where
  "tx_key t = (tx_StoreID t, tx_Type t, tx_ExternalTxID t)"

definition refund_of :: "transaction \<Rightarrow> transaction \<Rightarrow> bool" where
  "refund_of orig t \<longleftrightarrow> tx_OriginalTransactionID t = Some (tx_ID orig)"

definition row_ok :: "db \<Rightarrow> transaction \<Rightarrow> bool" where
  "row_ok d t \<longleftrightarrow> transaction_checks t \<and> whole_at 2 (tx_Amount t) \<and>
     tx_ID t \<le> db_seq d T_transactions \<and>
     (\<exists>c\<in>set (db_clients d). cl_ID c = tx_ClientID t \<and> cl_StoreID c = tx_StoreID t) \<and>
     (tx_Type t \<noteq> TransactionRefund \<longrightarrow> in_i64 (tx_PointsDelta t) \<and> tx_PointsDelta t \<noteq> - 9223372036854775808) \<and>
     (\<forall>i. tx_OriginalTransactionID t = Some i \<longrightarrow>
        (\<exists>u\<in>set (db_transactions d). tx_ID u = i \<and> tx_Type u \<noteq> TransactionRefund
           \<and> tx_ClientID u = tx_ClientID t \<and> tx_StoreID u = tx_StoreID t))"

definition refunds_ok :: "transaction list \<Rightarrow> transaction \<Rightarrow> bool" where
  "refunds_ok ts orig \<longleftrightarrow>
     0 \<le> tx_RefundedAmount orig \<and> tx_RefundedAmount orig \<le> tx_Amount orig \<and>
     0 \<le> tx_RefundedPoints orig \<and> tx_RefundedPoints orig \<le> \<bar>tx_PointsDelta orig\<bar> \<and>
     sum_rows (refund_of orig) tx_PointsDelta ts =
       (if tx_Type orig = TransactionAccrual then - tx_RefundedPoints orig else tx_RefundedPoints orig)"

definition ledger_wf :: "db \<Rightarrow> bool" where
  "ledger_wf d \<longleftrightarrow>
     (\<forall>c. points_of d c = sum_rows (\<lambda>t. tx_ClientID t = c) tx_PointsDelta (db_transactions d)) \<and>
     (\<forall>c. in_i64 (points_of d c)) \<and>
     distinct (map tx_ID (db_transactions d)) \<and>
     distinct (map tx_key (db_transactions d)) \<and>
     (\<forall>t\<in>set (db_transactions d). row_ok d t) \<and>
     (\<forall>t\<in>set (db_transactions d). tx_Type t \<noteq> TransactionRefund \<longrightarrow> refunds_ok (db_transactions d) t)"

lemma ledger_wf_empty: "ledger_wf empty_db"
  by (simp add: ledger_wf_def empty_db_def points_of_def in_i64_def)

lemma ledger_wfD:
  assumes "ledger_wf d"
  shows "points_of d c = sum_rows (\<lambda>t. tx_ClientID t = c) tx_PointsDelta (db_transactions d)"
    and "in_i64 (points_of d c)"
    and "distinct (map tx_ID (db_transactions d))" and "distinct (map tx_key (db_transactions d))"
    and "t \<in> set (db_transactions d) \<Longrightarrow> row_ok d t"
    and "t \<in> set (db_transactions d) \<Longrightarrow> tx_Type t \<noteq> TransactionRefund \<Longrightarrow> refunds_ok (db_transactions d) t"
  using assms unfolding ledger_wf_def by blast+

lemma row_ok_unledgered: "row_ok d t \<Longrightarrow> unledgered d d' \<Longrightarrow> row_ok d' t"
  using clients_grow_member [of d d']
  by (fastforce simp: row_ok_def unledgered_def client_key_def)

lemma ledger_wf_unledgered: "ledger_wf d \<Longrightarrow> unledgered d d' \<Longrightarrow> ledger_wf d'"
proof -
  assume wf: "ledger_wf d" and un: "unledgered d d'"
  have eq: "points_of d' = points_of d" "db_transactions d' = db_transactions d"
    using un by (simp_all add: unledgered_def points_of_def [abs_def])
  show ?thesis
    using wf row_ok_unledgered [OF _ un] unfolding ledger_wf_def eq by blast
qed

section \<open>Posting keeps the ledger well-formed\<close>

lemma same_key_tx_key: "same_key (tx_StoreID r) (tx_Type r) (tx_ExternalTxID r) t \<longleftrightarrow> tx_key t = tx_key r"
  by (auto simp: same_key_def tx_key_def)

lemma row_ok_original:
  "row_ok d t \<Longrightarrow> tx_OriginalTransactionID t = Some i \<Longrightarrow>
   \<exists>u\<in>set (db_transactions d). tx_ID u = i \<and> tx_Type u \<noteq> TransactionRefund
     \<and> tx_ClientID u = tx_ClientID t \<and> tx_StoreID u = tx_StoreID t"
  by (simp add: row_ok_def)

lemma insertable_fresh:
  assumes "insertable d row" "\<forall>t\<in>set (db_transactions d). tx_ID t \<le> db_seq d T_transactions"
  shows "tx_ID row \<notin> tx_ID ` set (db_transactions d)" "tx_key row \<notin> tx_key ` set (db_transactions d)"
proof -
  show "tx_ID row \<notin> tx_ID ` set (db_transactions d)"
    using assms by (force simp: insertable_def)
  have "tx_key t \<noteq> tx_key row" if "t \<in> set (db_transactions d)" for t
    using assms(1) that by (simp add: insertable_def same_key_tx_key)
  then show "tx_key row \<notin> tx_key ` set (db_transactions d)" by (metis imageE)
qed

text \<open>
  Appending a fresh row for client \<open>c\<close> and moving its balance by the row's delta. \<open>mark\<close> is
  what happens to the rows already there: nothing, or the mark of a refund.
\<close>

text \<open>A transaction keeps being a row of the table when its counters are marked and rows are appended.\<close>

lemma row_ok_marked:
  assumes ok: "row_ok d t"
    and mark: "\<And>t. tx_ID (mark t) = tx_ID t" "\<And>t. tx_key (mark t) = tx_key t"
        "\<And>t. tx_ClientID (mark t) = tx_ClientID t" "\<And>t. tx_PointsDelta (mark t) = tx_PointsDelta t"
        "\<And>t. tx_OriginalTransactionID (mark t) = tx_OriginalTransactionID t" "\<And>t. tx_Amount (mark t) = tx_Amount t"
    and d': "mark ` set (db_transactions d) \<subseteq> set (db_transactions d')" "db_clients d' = db_clients d"
      "db_seq d' T_transactions = db_seq d T_transactions + 1"
  shows "row_ok d' (mark t)"
proof -
  have type: "tx_Type (mark t) = tx_Type t" "tx_StoreID (mark t) = tx_StoreID t" for t
    using mark(2) [of t] by (auto simp: tx_key_def)
  have "transaction_checks (mark t) = transaction_checks t"
    using mark type by (simp add: transaction_checks_def split: transaction_type.split)
  moreover have "\<exists>v\<in>set (db_transactions d'). tx_ID v = i \<and> tx_Type v \<noteq> TransactionRefund
      \<and> tx_ClientID v = tx_ClientID (mark t) \<and> tx_StoreID v = tx_StoreID (mark t)"
    if orig: "tx_OriginalTransactionID (mark t) = Some i" for i
  proof -
    obtain u where "u \<in> set (db_transactions d)" "tx_ID u = i" "tx_Type u \<noteq> TransactionRefund"
      "tx_ClientID u = tx_ClientID t" "tx_StoreID u = tx_StoreID t"
      using row_ok_original [OF ok orig [unfolded mark]] by blast
    then show ?thesis using d'(1) mark type by (intro bexI [of _ "mark u"]) auto
  qed
  ultimately show ?thesis
    using ok mark type by (simp add: row_ok_def d'(2,3))
qed

text \<open>No transaction refunds a row whose id is new.\<close>

lemma new_row_not_refunded:
  assumes wf: "ledger_wf d" and fresh: "tx_ID row \<notin> tx_ID ` set (db_transactions d)"
    and row: "row_ok d' row" "tx_Type row \<noteq> TransactionRefund" "tx_RefundedAmount row = 0" "tx_RefundedPoints row = 0"
    and mark: "\<And>t. tx_OriginalTransactionID (mark t) = tx_OriginalTransactionID t"
  shows "refunds_ok (map mark (db_transactions d) @ [row]) row"
proof -
  have "\<not> refund_of row t" if t: "t \<in> set (db_transactions d)" for t
  proof
    assume "refund_of row t"
    moreover have "row_ok d t" using wf t by (simp add: ledger_wf_def)
    ultimately obtain u where "u \<in> set (db_transactions d)" "tx_ID u = tx_ID row"
      using row_ok_original unfolding refund_of_def by blast
    with fresh show False by (metis imageI)
  qed
  moreover have "\<not> refund_of row row"
    using row(1,2) by (auto simp: row_ok_def transaction_checks_def refund_of_def split: transaction_type.splits)
  ultimately have "sum_rows (refund_of row) tx_PointsDelta (map mark (db_transactions d) @ [row]) = 0"
    using mark by (intro sum_rows_none) (auto simp: refund_of_def)
  with row show ?thesis by (simp add: refunds_ok_def row_ok_def transaction_checks_def)
qed

lemma ledger_wf_append:
  assumes wf: "ledger_wf d" and ins: "insertable d row"
    and mark: "\<And>t. tx_ID (mark t) = tx_ID t" "\<And>t. tx_key (mark t) = tx_key t"
        "\<And>t. tx_ClientID (mark t) = tx_ClientID t" "\<And>t. tx_PointsDelta (mark t) = tx_PointsDelta t"
        "\<And>t. tx_OriginalTransactionID (mark t) = tx_OriginalTransactionID t" "\<And>t. tx_Amount (mark t) = tx_Amount t"
    and d': "db_balances d' = (db_balances d)(tx_ClientID row \<mapsto> points)"
      "db_transactions d' = map mark (db_transactions d) @ [row]" "db_clients d' = db_clients d"
      "db_seq d' T_transactions = db_seq d T_transactions + 1"
    and points: "points = points_of d (tx_ClientID row) + tx_PointsDelta row" "in_i64 points"
    and row: "row_ok d' row" "tx_Type row \<noteq> TransactionRefund \<Longrightarrow> tx_RefundedAmount row = 0 \<and> tx_RefundedPoints row = 0"
    and marked: "\<And>t. t \<in> set (db_transactions d) \<Longrightarrow> tx_Type t \<noteq> TransactionRefund \<Longrightarrow>
        refunds_ok (map mark (db_transactions d) @ [row]) (mark t)"
  shows "ledger_wf d'"
proof -
  let ?ts = "db_transactions d"
  have ids: "\<forall>t\<in>set ?ts. tx_ID t \<le> db_seq d T_transactions"
    using wf by (auto simp: ledger_wf_def row_ok_def)
  note fresh = insertable_fresh [OF ins ids]
  have type: "tx_Type (mark t) = tx_Type t" "tx_StoreID (mark t) = tx_StoreID t" for t
    using mark(2) [of t] by (auto simp: tx_key_def)
  have sums: "sum_rows P f (map mark ?ts) = sum_rows P f ?ts"
    if "\<And>t. P (mark t) = P t" "\<And>t. f (mark t) = f t" for P :: "transaction \<Rightarrow> bool" and f :: "transaction \<Rightarrow> int"
    using that by (intro sum_rows_map_cong) simp
  have 1: "points_of d' c = sum_rows (\<lambda>t. tx_ClientID t = c) tx_PointsDelta (db_transactions d')" for c
    using wf by (auto simp: ledger_wf_def d' points points_of_def sums mark)
  have 2: "in_i64 (points_of d' c)" for c
    using wf points(2) by (auto simp: ledger_wf_def d' points_of_def)
  have 3: "distinct (map tx_ID (db_transactions d'))"
    using wf fresh(1) by (auto simp: ledger_wf_def d' mark comp_def)
  have 4: "distinct (map tx_key (db_transactions d'))"
    using wf fresh(2) by (auto simp: ledger_wf_def d' mark comp_def)
  have 5: "row_ok d' (mark t)" if "t \<in> set ?ts" for t
    using wf that by (intro row_ok_marked [OF _ mark]) (auto simp: ledger_wf_def d')
  have 6: "refunds_ok (db_transactions d') row" if "tx_Type row \<noteq> TransactionRefund"
    using row that unfolding d'(2) by (intro new_row_not_refunded [OF wf fresh(1) row(1) that] mark(5)) simp_all
  show ?thesis
    unfolding ledger_wf_def
    using 1 2 3 4 5 6 row(1) marked type by (auto simp: d'(2))
qed

lemma ledger_row_sel [simp]:
  "tx_ID (ledger_row i now p a tx) = i" "tx_ClientID (ledger_row i now p a tx) = tx_ClientID tx"
  "tx_StoreID (ledger_row i now p a tx) = tx_StoreID tx" "tx_Type (ledger_row i now p a tx) = tx_Type tx"
  "tx_ExternalTxID (ledger_row i now p a tx) = tx_ExternalTxID tx" "tx_Amount (ledger_row i now p a tx) = a"
  "tx_PointsDelta (ledger_row i now p a tx) = tx_PointsDelta tx" "tx_CreatedAt (ledger_row i now p a tx) = now"
  "tx_BalanceAfter (ledger_row i now p a tx) = p" "tx_OriginalTransactionID (ledger_row i now p a tx) = None"
  "tx_RequestFingerprint (ledger_row i now p a tx) = tx_RequestFingerprint tx"
  "tx_RuleVersion (ledger_row i now p a tx) = tx_RuleVersion tx"
  "tx_RefundedAmount (ledger_row i now p a tx) = 0" "tx_RefundedPoints (ledger_row i now p a tx) = 0"
  by (simp_all add: ledger_row_def)

lemma refund_row_sel [simp]:
  "tx_ID (refund_row i now orig delta p a ca full r) = i"
  "tx_ClientID (refund_row i now orig delta p a ca full r) = tx_ClientID orig"
  "tx_StoreID (refund_row i now orig delta p a ca full r) = tx_StoreID r"
  "tx_Type (refund_row i now orig delta p a ca full r) = TransactionRefund"
  "tx_ExternalTxID (refund_row i now orig delta p a ca full r) = tx_ExternalTxID r"
  "tx_Amount (refund_row i now orig delta p a ca full r) = a"
  "tx_PointsDelta (refund_row i now orig delta p a ca full r) = delta"
  "tx_BalanceAfter (refund_row i now orig delta p a ca full r) = p"
  "tx_CreatedAt (refund_row i now orig delta p a ca full r) = now"
  "tx_OriginalTransactionID (refund_row i now orig delta p a ca full r) = Some (tx_ID orig)"
  "tx_RequestFingerprint (refund_row i now orig delta p a ca full r) = tx_RequestFingerprint r"
  "tx_RefundCumulativeAmount (refund_row i now orig delta p a ca full r) = ca"
  "tx_RefundFullyRefunded (refund_row i now orig delta p a ca full r) = full"
  by (simp_all add: refund_row_def)

lemma refunds_ok_append:
  "refunds_ok ts t \<Longrightarrow> \<not> refund_of t row \<Longrightarrow> refunds_ok (ts @ [row]) t"
  by (simp add: refunds_ok_def)

lemma post_wf:
  assumes wf: "ledger_wf d" and eff: "post_effect now tx ns d r d'"
    and tx: "tx_Type tx \<noteq> TransactionRefund" "in_i64 (tx_PointsDelta tx)"
  shows "ledger_wf d'"
proof -
  define points where "points = points_of d (tx_ClientID tx) + tx_PointsDelta tx"
  obtain a q es where
    a: "numeric 20 2 (tx_Amount tx) = Some a" and
    ins: "insertable d (ledger_row (db_seq d T_transactions + 1) now points a tx)" and
    points: "0 \<le> points" "in_i64 points" and
    d'0: "d' = d\<lparr>db_seq := (db_seq d)(T_transactions := db_seq d T_transactions + 1, T_outbox := q),
        db_balances := (db_balances d)(tx_ClientID tx \<mapsto> points),
        db_transactions := db_transactions d @ [ledger_row (db_seq d T_transactions + 1) now points a tx],
        db_outbox := db_outbox d @ es\<rparr>"
    using eff unfolding post_effect_def Let_def points_def by blast
  let ?row = "ledger_row (db_seq d T_transactions + 1) now points a tx"
  note d' = d'0
  have "in_i64 (points_of d (tx_ClientID tx))" using wf by (rule ledger_wfD)
  then have delta: "tx_PointsDelta tx \<noteq> - 9223372036854775808" using points(1) by (auto simp: in_i64_def points_def)
  have "row_ok d' ?row"
    using ins numeric_SomeD [OF a] tx delta by (auto simp: row_ok_def insertable_def d')
  moreover have "refunds_ok (map (\<lambda>t. t) (db_transactions d) @ [?row]) t"
    if "t \<in> set (db_transactions d)" "tx_Type t \<noteq> TransactionRefund" for t
    using wf that by (auto simp: ledger_wf_def refund_of_def intro!: refunds_ok_append)
  ultimately show ?thesis
    using points(2) by (intro ledger_wf_append [OF wf ins, where mark = "\<lambda>t. t"]) (simp_all add: d' points_def)
qed

lemma refund_delta_split:
  assumes "decimal_laws D" "in_i64 (tx_PointsDelta orig)" "tx_PointsDelta orig \<noteq> - 9223372036854775808"
    "0 \<le> cum" "cum \<le> tx_Amount orig" "0 \<le> tx_RefundedPoints orig" "tx_RefundedPoints orig \<le> \<bar>tx_PointsDelta orig\<bar>"
  defines "cp \<equiv> refund_cumulative_points D orig cum"
  shows "0 \<le> cp \<and> cp \<le> \<bar>tx_PointsDelta orig\<bar> \<and> refund_delta D orig cum =
    (if tx_Type orig = TransactionAccrual then tx_RefundedPoints orig - cp else cp - tx_RefundedPoints orig)"
proof -
  have P: "in_i64 \<bar>tx_PointsDelta orig\<bar>" using assms(2,3) by (auto simp: in_i64_def)
  have cp: "0 \<le> cp" "cp \<le> \<bar>tx_PointsDelta orig\<bar>"
    using decimal_laws.code_share_bounds [OF assms(1) _ P assms(4,5)] assms(2,3)
    by (simp_all add: cp_def refund_cumulative_points_share)
  have "in_i64 cp" "in_i64 (tx_RefundedPoints orig)"
    using cp assms(6,7) P by (blast intro: in_i64_between)+
  then have "in_i64 (cp - tx_RefundedPoints orig)" "in_i64 (tx_RefundedPoints orig - cp)"
    using cp(1) assms(6) by (simp_all add: in_i64_diff)
  with cp show ?thesis
    by (simp add: refund_delta_def cp_def [symmetric] Let_def wrap64_id)
qed

lemma find_original:
  assumes "find (\<lambda>t. Some i = Some (tx_ID t) \<and> P t) ts = Some orig"
  shows "orig \<in> set ts \<and> tx_ID orig = i \<and> P orig"
  using find_SomeD [OF assms] by auto

lemma refund_of_mark_refunded [simp]: "refund_of (mark_refunded i a p t) = refund_of t"
  by (simp add: refund_of_def [abs_def])

lemma refund_of_refund_row [simp]:
  "refund_of t (refund_row i now orig delta p a ca full r) \<longleftrightarrow> tx_ID t = tx_ID orig"
  by (auto simp: refund_of_def)

lemma mark_refunded_self [simp]:
  "tx_RefundedAmount (mark_refunded (tx_ID t) a p t) = a" "tx_RefundedPoints (mark_refunded (tx_ID t) a p t) = p"
  by (simp_all add: mark_refunded_def)

lemma mark_refunded_other: "tx_ID t \<noteq> i \<Longrightarrow> mark_refunded i a p t = t"
  by (simp add: mark_refunded_def)

text \<open>What a refund's effect says, with its quantities named.\<close>

lemma refund_effect_parts:
  assumes "refund_effect D now refund bn d r d'"
  obtains orig a ca q es cum cp delta points row where
    "find (\<lambda>t. tx_OriginalTransactionID refund = Some (tx_ID t) \<and> tx_StoreID t = tx_StoreID refund) (db_transactions d) = Some orig"
    "tx_Type orig \<noteq> TransactionRefund" "cum = tx_RefundedAmount orig + tx_Amount refund" "cum \<le> tx_Amount orig"
    "numeric 20 2 (tx_Amount refund) = Some a" "numeric 20 2 cum = Some ca"
    "cp = refund_cumulative_points D orig cum" "delta = refund_delta D orig cum"
    "points = points_of d (tx_ClientID orig) + delta" "in_i64 points"
    "row = refund_row (db_seq d T_transactions + 1) now orig delta points a ca (cum = tx_Amount orig) refund" "insertable d row"
    "d' = d\<lparr>db_seq := (db_seq d)(T_transactions := db_seq d T_transactions + 1, T_outbox := q),
                  db_balances := (db_balances d)(tx_ClientID orig \<mapsto> points),
                  db_transactions := map (mark_refunded (tx_ID orig) ca cp) (db_transactions d) @ [row],
                  db_outbox := db_outbox d @ es\<rparr>"
  using assms unfolding refund_effect_def Let_def by blast

text \<open>The counters of an original after a refund of it, and of any other transaction.\<close>

lemma refund_marks:
  assumes wf: "ledger_wf d" and mem: "orig \<in> set (db_transactions d)" "tx_Type orig \<noteq> TransactionRefund"
    and cp: "0 \<le> cp" "cp \<le> \<bar>tx_PointsDelta orig\<bar>" "delta = (if tx_Type orig = TransactionAccrual
      then tx_RefundedPoints orig - cp else cp - tx_RefundedPoints orig)"
    and ca: "0 \<le> ca" "ca \<le> tx_Amount orig"
    and t: "t \<in> set (db_transactions d)" "tx_Type t \<noteq> TransactionRefund"
  shows "refunds_ok (map (mark_refunded (tx_ID orig) ca cp) (db_transactions d) @
    [refund_row i now orig delta points a ca full refund]) (mark_refunded (tx_ID orig) ca cp t)"
proof -
  have ok: "refunds_ok (db_transactions d) t" "refunds_ok (db_transactions d) orig" using wf mem t by (auto simp: ledger_wf_def)
  have sum: "sum_rows (refund_of t) tx_PointsDelta (map (mark_refunded (tx_ID orig) ca cp) (db_transactions d))
      = sum_rows (refund_of t) tx_PointsDelta (db_transactions d)"
    by (rule sum_rows_map_cong) (simp add: refund_of_def)
  show ?thesis
  proof (cases "tx_ID t = tx_ID orig")
    case True
    have "distinct (map tx_ID (db_transactions d))" using wf by (simp add: ledger_wf_def)
    then have "t = orig" using t(1) mem(1) True by (rule distinct_map_inj)
    then show ?thesis using ok sum cp ca by (auto simp: refunds_ok_def split: if_splits)
  next
    case False
    then show ?thesis using ok sum by (simp add: refunds_ok_def mark_refunded_other)
  qed
qed

lemma refund_wf:
  assumes wf: "ledger_wf d" and D: "decimal_laws D" and eff: "refund_effect D now refund bn d r d'"
    and pos: "0 < tx_Amount refund"
  shows "ledger_wf d'"
  using eff
proof (cases rule: refund_effect_parts)
  case (1 orig a ca q es cum cp delta points row)
  note ins = 1(12) and d' = 1(13)
  have mem: "orig \<in> set (db_transactions d)" and store: "tx_StoreID orig = tx_StoreID refund"
    using find_SomeD [OF 1(1)] by auto
  have row_ok: "row_ok d orig" and ref_ok: "refunds_ok (db_transactions d) orig"
    using wf mem 1(2) by (auto simp: ledger_wf_def)
  have orig_pts: "in_i64 (tx_PointsDelta orig)" "tx_PointsDelta orig \<noteq> - 9223372036854775808"
    using row_ok 1(2) by (auto simp: row_ok_def)
  have cum: "0 \<le> cum" "cum \<le> tx_Amount orig" using ref_ok pos 1(3,4) by (auto simp: refunds_ok_def)
  have cp: "0 \<le> cp" "cp \<le> \<bar>tx_PointsDelta orig\<bar>" "delta = (if tx_Type orig = TransactionAccrual
      then tx_RefundedPoints orig - cp else cp - tx_RefundedPoints orig)"
    using refund_delta_split [OF D orig_pts cum] ref_ok by (auto simp: refunds_ok_def 1(7,8))
  have ca: "0 \<le> ca" "ca \<le> tx_Amount orig"
    using numeric_SomeD [OF 1(6)] cum row_ok by (auto simp: row_ok_def intro: round_at_le_whole round_at_nonneg_ge0)
  have "\<exists>c\<in>set (db_clients d). cl_ID c = tx_ClientID orig \<and> cl_StoreID c = tx_StoreID orig"
    using row_ok by (simp add: row_ok_def)
  moreover have "mark_refunded (tx_ID orig) ca cp orig \<in> set (db_transactions d')"
    using mem by (simp add: d')
  ultimately have "row_ok d' row"
    using mem ins numeric_SomeD [OF 1(5)] 1(2) store unfolding row_ok_def
    apply (intro conjI)
         apply (simp_all add: insertable_def d' 1(11))
    apply blast
    done
  with 1(10) ins show ?thesis
    by (intro ledger_wf_append [OF wf ins, where mark = "mark_refunded (tx_ID orig) ca cp" and points = points])
      (simp_all add: d' tx_key_def 1(11) 1(9) refund_marks [OF wf mem 1(2) cp ca])
qed

section \<open>Every step keeps the ledger well-formed\<close>

definition positive_only :: "(rat \<Rightarrow> bool) \<Rightarrow> bool" where
  "positive_only Q \<longleftrightarrow> (\<forall>x. Q x \<longrightarrow> 0 < x)"

lemma seq_step_unledgered:
  "\<exists>q. d' = d\<lparr>db_seq := q\<rparr> \<and> (\<forall>t. db_seq d t \<le> q t) \<Longrightarrow> unledgered d d'"
  by (auto intro: unledgered_seq)

lemma ledger_step_wf:
  assumes D: "decimal_laws D" and Q: "positive_only Q" and step: "ledger_step D af Q d d'" and wf: "ledger_wf d"
  shows "ledger_wf d'"
  using step
proof cases
  case (accrual tf now tx ns r)
  show ?thesis
  proof (cases r)
    case (Inl e)
    with accrual have "unledgered d d'" by (auto intro: seq_step_unledgered dest: Post_Inl)
    with wf show ?thesis by (rule ledger_wf_unledgered)
  next
    case (Inr x)
    with accrual have "post_effect now tx ns d x d'" by (auto dest: Post_Inr)
    with accrual wf show ?thesis by (auto intro: post_wf)
  qed
next
  case (redeem tf now tx mb n r)
  show ?thesis
  proof (cases r)
    case (Inl e)
    with redeem have "unledgered d d'" by (auto intro: seq_step_unledgered dest: PostRedeemChecked_Inl)
    with wf show ?thesis by (rule ledger_wf_unledgered)
  next
    case (Inr x)
    with redeem have "post_effect now tx [n] d x d'" by (auto dest: PostRedeemChecked_effect)
    with redeem wf show ?thesis by (auto intro: post_wf)
  qed
next
  case (refund tf now tx bn r)
  show ?thesis
  proof (cases r)
    case (Inl e)
    with refund have "unledgered d d'" by (auto intro: seq_step_unledgered dest: PostRefund_Inl)
    with wf show ?thesis by (rule ledger_wf_unledgered)
  next
    case (Inr x)
    with refund have "refund_effect D now tx bn d x d'" by (auto dest: PostRefund_effect)
    with refund wf D Q show ?thesis by (auto simp: positive_only_def intro: refund_wf)
  qed
next
  case other
  with wf show ?thesis by (auto intro: ledger_wf_unledgered)
qed

lemma ledger_steps_wf:
  assumes "decimal_laws D" "positive_only Q" "(ledger_step D af Q)\<^sup>*\<^sup>* d d'" "ledger_wf d"
  shows "ledger_wf d'"
  using assms(3,4) by (induction rule: rtranclp_induct) (auto intro: ledger_step_wf [OF assms(1,2)])

lemma reachable_wf:
  "decimal_laws D \<Longrightarrow> positive_only Q \<Longrightarrow> reachable D af Q d \<Longrightarrow> ledger_wf d"
  unfolding reachable_def by (rule ledger_steps_wf) (auto simp: ledger_wf_empty)

lemma reachable_steps: "reachable D af Q d \<Longrightarrow> (ledger_step D af Q)\<^sup>*\<^sup>* d d' \<Longrightarrow> reachable D af Q d'"
  unfolding reachable_def by (rule rtranclp_trans)

section \<open>Requests are sequences of steps\<close>

abbreviation steps :: "decimal_lib \<Rightarrow> anti_fraud_config \<Rightarrow> (rat \<Rightarrow> bool) \<Rightarrow> db \<Rightarrow> db \<Rightarrow> bool" where
  "steps D af Q \<equiv> (ledger_step D af Q)\<^sup>*\<^sup>*"

text \<open>An environment whose other requests also move by steps.\<close>

definition fair_env :: "decimal_lib \<Rightarrow> anti_fraud_config \<Rightarrow> (rat \<Rightarrow> bool) \<Rightarrow> db env \<Rightarrow> bool" where
  "fair_env D af Q E \<longleftrightarrow> (\<forall>l s. steps D af Q s (env_other E l s))"

lemma steps_refl [simp]: "reflp (steps D af Q)" and steps_trans [simp]: "transp (steps D af Q)"
  by (auto simp: reflp_def transp_def)

lemma keeps_andThen_result:
  assumes "transp R" "keeps R m" "\<And>s x s'. run_state m s = (Inr x, s') \<Longrightarrow> P x"
    "\<And>x. P x \<Longrightarrow> keeps R (f x)"
  shows "keeps R (andThen m f)"
proof
  fix s
  obtain r s' where m: "run_state m s = (r, s')" by (cases "run_state m s")
  have R: "R s s'" using keepsD [OF assms(2), of s] m by simp
  show "R s (snd (run_state (andThen m f) s))"
  proof (cases r)
    case (Inl e)
    with R m show ?thesis by (simp add: run_andThen)
  next
    case (Inr x)
    have "run_state m s = (Inr x, s')" using m Inr by simp
    then have "P x" by (rule assms(3))
    then have "R s' (snd (run_state (f x) s'))" by (rule keepsD [OF assms(4)])
    with R have "R s (snd (run_state (f x) s'))" by (rule transpD [OF assms(1)])
    with m Inr show ?thesis by (simp add: run_andThen)
  qed
qed

lemmas steps_andThen = keeps_andThen [OF steps_refl steps_trans]
lemmas steps_bind = keeps_bind [OF steps_trans]

lemma steps_call: "fair_env D af Q E \<Longrightarrow> keeps (steps D af Q) m \<Longrightarrow> keeps (steps D af Q) (call E l m)"
  using keeps_call [OF steps_refl steps_trans, where E = E and l = l] unfolding fair_env_def by blast

lemma steps_call_tx:
  "fair_env D af Q E \<Longrightarrow> (\<And>tf now. keeps (steps D af Q) (m tf now)) \<Longrightarrow> keeps (steps D af Q) (call_tx E l m)"
  unfolding call_tx_def by (rule steps_call)

lemma steps_call_at:
  "fair_env D af Q E \<Longrightarrow> (\<And>now. keeps (steps D af Q) (m now)) \<Longrightarrow> keeps (steps D af Q) (call_at E l m)"
  unfolding call_at_def by (rule steps_call)

lemma keeps_reads [wf_intros]:
  assumes "reflp R"
  shows "keeps R (select_one P tbl)" "keeps R (tx_GetByExternalID s ty x)" "keeps R (client_GetByPhone s ph)"
    "keeps R (client_GetByID i)" "keeps R (balance_Get i)" "keeps R (config_GetByStore s)"
    "keeps R (outbox_CountByStoreTemplateSince s tid t)" "keeps R (store_GetByID i)" "keeps R (account_GetByPhone ph)"
  using assms
  by (auto simp: keeps_def reflp_def select_one_def tx_GetByExternalID_def client_GetByPhone_def client_GetByID_def
    balance_Get_def config_GetByStore_def outbox_CountByStoreTemplateSince_def store_GetByID_def
    account_GetByPhone_def run_andThen split: option.split)

lemma unledgered_client_Create: "unledgered d (snd (run_state (client_Create now c) d))"
  by (auto simp: client_Create_def run_andThen Let_def unledgered_def clients_grow_def)

lemma steps_client_Create [wf_intros]: "keeps (steps D af Q) (client_Create now c)"
  by (auto simp: keeps_def intro!: r_into_rtranclp ledger_step.other unledgered_client_Create)

lemma steps_Post [wf_intros]:
  "tx_Type tx = TransactionAccrual \<Longrightarrow> in_i64 (tx_PointsDelta tx) \<Longrightarrow> keeps (steps D af Q) (Post tf now tx ns)"
  by (auto simp: keeps_def intro!: r_into_rtranclp ledger_step.accrual prod.collapse [symmetric])

lemma steps_PostRedeemChecked [wf_intros]:
  "tx_Type tx = TransactionRedeem \<Longrightarrow> in_i64 (tx_PointsDelta tx) \<Longrightarrow>
   keeps (steps D af Q) (PostRedeemChecked tf now tx mb (af_DailyRedeemPointsLimit af) (af_DailyRedeemWindow af) n)"
  by (auto simp: keeps_def intro!: r_into_rtranclp ledger_step.redeem prod.collapse [symmetric])

lemma steps_PostRefund [wf_intros]: "Q (tx_Amount tx) \<Longrightarrow> keeps (steps D af Q) (PostRefund D tf now tx bn)"
  by (auto simp: keeps_def intro!: r_into_rtranclp ledger_step.refund prod.collapse [symmetric])

lemmas steps_intros = steps_andThen steps_bind steps_call steps_call_tx steps_call_at
  keeps_reads [OF steps_refl] keeps_ok [OF steps_refl] keeps_fail [OF steps_refl]
  steps_client_Create steps_Post steps_PostRedeemChecked steps_PostRefund

lemma steps_replayedAccrue: "fair_env D af Q E \<Longrightarrow> keeps (steps D af Q) (replayedAccrue D E k s x ph a)"
  unfolding replayedAccrue_def by (auto intro!: steps_intros split: sum.split)

lemma steps_resolveOrCreateClient: "fair_env D af Q E \<Longrightarrow> keeps (steps D af Q) (resolveOrCreateClient E s ph)"
  unfolding resolveOrCreateClient_def Let_def by (auto intro!: steps_intros split: sum.split)

lemma steps_appInvite: "fair_env D af Q E \<Longrightarrow> keeps (steps D af Q) (appInvite i E c)"
  unfolding appInvite_def by (auto intro!: steps_intros split: sum.split)

lemma steps_accrualPoints: "fair_env D af Q E \<Longrightarrow> keeps (steps D af Q) (accrualPoints D E s tx)"
  unfolding accrualPoints_def Let_def by (auto intro!: steps_intros split: sum.split option.split)

lemma steps_replayedRedeem: "fair_env D af Q E \<Longrightarrow> keeps (steps D af Q) (replayedRedeem D E k s x c a p)"
  unfolding replayedRedeem_def by (auto intro!: steps_intros split: sum.split)

lemma steps_replayedRefund: "fair_env D af Q E \<Longrightarrow> keeps (steps D af Q) (replayedRefund D E k s x o' a)"
  unfolding replayedRefund_def by (auto intro!: steps_intros split: sum.split)

lemma steps_resolveOriginal: "fair_env D af Q E \<Longrightarrow> keeps (steps D af Q) (resolveOriginalTransaction E s x ty)"
  unfolding resolveOriginalTransaction_def by (auto intro!: steps_intros split: sum.split option.split)

text \<open>The transaction an accrual posts.\<close>

definition accrual_tx :: "decimal_lib \<Rightarrow> int \<Rightarrow> int \<Rightarrow> string \<Rightarrow> rat \<Rightarrow> transaction" where
  "accrual_tx D s c x a = (zero_transaction TransactionAccrual)\<lparr>tx_StoreID := s, tx_ClientID := c,
     tx_ExternalTxID := x, tx_Amount := a, tx_RequestFingerprint := accrualFingerprint D c a\<rparr>"

lemma mechanic_range: "decimal_laws D \<Longrightarrow> in_i64 (mechanic_Accrue D m tx cfg)"
proof (cases m)
  case PointsMechanic
  have "in_i64 0" by (simp add: in_i64_def)
  moreover assume "decimal_laws D"
  ultimately show ?thesis using PointsMechanic by (simp add: decimal_laws.IntPart_range)
qed

lemma accrualPoints_Inr:
  assumes "run_state (accrualPoints D E s tx0) d = (Inr tx, d')"
  obtains "tx = tx0"
  | cfg m where "Build (cfg_Mechanic cfg) = Some m"
      "tx = tx0\<lparr>tx_RuleVersion := Some (cfg_Version cfg),
       tx_PointsDelta := mechanic_Accrue D m (tx0\<lparr>tx_RuleVersion := Some (cfg_Version cfg)\<rparr>) cfg\<rparr>"
proof -
  obtain r d1 where r: "run_state (call E (''accrue.GetConfig'', 0) (config_GetByStore s)) d = (r, d1)"
    by (cases "run_state (call E (''accrue.GetConfig'', 0) (config_GetByStore s)) d")
  show thesis
  proof (cases r)
    case (Inl e)
    with assms r that(1) show thesis by (auto simp: accrualPoints_def split: if_splits)
  next
    case (Inr cfg)
    with assms r that(2) show thesis
      by (auto simp: accrualPoints_def Let_def elim!: op_elims)
  qed
qed

lemma accrualPoints_result:
  assumes "decimal_laws D" "run_state (accrualPoints D E s tx0) d = (Inr tx, d')"
    "tx_Type tx0 = TransactionAccrual" "in_i64 (tx_PointsDelta tx0)"
  shows "tx_Type tx = TransactionAccrual \<and> in_i64 (tx_PointsDelta tx)"
  using assms(2) by (rule accrualPoints_Inr) (use assms in \<open>simp_all add: mechanic_range\<close>)

lemma steps_Accrue:
  assumes "decimal_laws D" "fair_env D (svc_antiFraud svc) Q E"
  shows "keeps (steps D (svc_antiFraud svc) Q) (Accrue D svc E req)"
  unfolding Accrue_def Let_def
  apply (rule steps_andThen [OF steps_replayedAccrue [OF assms(2)]])
  apply (split if_split, intro conjI impI, rule keeps_ok [OF steps_refl])
  apply (rule steps_andThen [OF steps_resolveOrCreateClient [OF assms(2)]])
  apply (simp only: split_beta)
  apply (rule steps_andThen)
   apply (simp add: steps_appInvite [OF assms(2)] keeps_ok)
  apply (rule keeps_andThen_result [OF steps_trans steps_accrualPoints [OF assms(2)],
      where P = "\<lambda>tx. tx_Type tx = TransactionAccrual \<and> in_i64 (tx_PointsDelta tx)"])
   apply (erule accrualPoints_result [OF assms(1)])
    apply (simp add: zero_transaction_def)
   apply (simp add: zero_transaction_def in_i64_def)
  apply (rule steps_bind [OF steps_call_tx [OF assms(2)]])
   apply (simp add: steps_Post)
  apply (auto intro!: steps_replayedAccrue assms keeps_ok keeps_fail split: sum.split prod.split)
  done

lemma steps_Redeem:
  assumes "fair_env D (svc_antiFraud svc) Q E" "in_i64 (rr_Points req)"
  shows "keeps (steps D (svc_antiFraud svc) Q) (Redeem D svc E req)"
proof -
  have pts: "in_i64 (- cappedPoints D cfg a (rr_Points req))" if "\<not> cappedPoints D cfg a (rr_Points req) \<le> 0" for cfg a
  proof -
    have "cappedPoints D cfg a (rr_Points req) \<le> rr_Points req" by (simp add: cappedPoints_def Let_def)
    with that assms(2) show ?thesis by (simp add: in_i64_def)
  qed
  show ?thesis
    unfolding Redeem_def Let_def
    by (auto intro!: steps_intros steps_replayedRedeem assms(1) pts split: sum.split prod.split
        simp: zero_transaction_def)
qed

lemma steps_Refund:
  assumes "fair_env D af Q E" "Q (fr_Amount req)"
  shows "keeps (steps D af Q) (Refund D E req)"
  unfolding Refund_def Let_def
  by (auto intro!: steps_intros steps_replayedRefund steps_resolveOriginal assms split: sum.split prod.split
      simp: zero_transaction_def)

section \<open>Rows persist\<close>

text \<open>
  Along the steps a transaction row only ever changes its two refund counters, and the
  first-match lookups of the repositories keep finding the same row.
\<close>

definition core :: "transaction \<Rightarrow> transaction" where
  "core t = t\<lparr>tx_RefundedAmount := 0, tx_RefundedPoints := 0\<rparr>"

definition extends :: "db \<Rightarrow> db \<Rightarrow> bool" where
  "extends d d' \<longleftrightarrow>
     (\<exists>new. map core (db_transactions d') = map core (db_transactions d) @ new) \<and> clients_grow d d'"

lemma core_mark_refunded [simp]: "core (mark_refunded i a p t) = core t"
  by (simp add: core_def mark_refunded_def)

lemma core_sel:
  assumes "core t = core u"
  shows "tx_ID t = tx_ID u" "tx_StoreID t = tx_StoreID u" "tx_ClientID t = tx_ClientID u" "tx_Type t = tx_Type u"
    "tx_ExternalTxID t = tx_ExternalTxID u" "tx_PointsDelta t = tx_PointsDelta u" "tx_BalanceAfter t = tx_BalanceAfter u"
    "tx_RequestFingerprint t = tx_RequestFingerprint u" "tx_CreatedAt t = tx_CreatedAt u"
    "tx_OriginalTransactionID t = tx_OriginalTransactionID u" "tx_Amount t = tx_Amount u"
proof -
  have "tx_ID (core t) = tx_ID (core u)" "tx_StoreID (core t) = tx_StoreID (core u)"
    "tx_ClientID (core t) = tx_ClientID (core u)" "tx_Type (core t) = tx_Type (core u)"
    "tx_ExternalTxID (core t) = tx_ExternalTxID (core u)" "tx_PointsDelta (core t) = tx_PointsDelta (core u)"
    "tx_BalanceAfter (core t) = tx_BalanceAfter (core u)" "tx_Amount (core t) = tx_Amount (core u)"
    "tx_RequestFingerprint (core t) = tx_RequestFingerprint (core u)" "tx_CreatedAt (core t) = tx_CreatedAt (core u)"
    "tx_OriginalTransactionID (core t) = tx_OriginalTransactionID (core u)"
    using assms by simp_all
  then show "tx_ID t = tx_ID u" "tx_StoreID t = tx_StoreID u" "tx_ClientID t = tx_ClientID u" "tx_Type t = tx_Type u"
    "tx_ExternalTxID t = tx_ExternalTxID u" "tx_PointsDelta t = tx_PointsDelta u" "tx_BalanceAfter t = tx_BalanceAfter u"
    "tx_RequestFingerprint t = tx_RequestFingerprint u" "tx_CreatedAt t = tx_CreatedAt u"
    "tx_OriginalTransactionID t = tx_OriginalTransactionID u" "tx_Amount t = tx_Amount u"
    by (simp_all add: core_def)
qed

lemma extends_refl: "extends d d"
  by (auto simp: extends_def intro: clients_grow_same)

lemma extends_trans: "extends d1 d2 \<Longrightarrow> extends d2 d3 \<Longrightarrow> extends d1 d3"
  unfolding extends_def using clients_grow_trans by force

lemma extends_same:
  "db_transactions d' = db_transactions d \<Longrightarrow> db_clients d' = db_clients d \<Longrightarrow> extends d d'"
  by (simp add: extends_def clients_grow_same)

lemma unledgered_extends: "unledgered d d' \<Longrightarrow> extends d d'"
  by (simp add: unledgered_def extends_def)

lemma post_effect_extends: "post_effect now tx ns d r d' \<Longrightarrow> extends d d'"
  by (auto simp: post_effect_def Let_def extends_def intro: clients_grow_same)

lemma refund_effect_extends: "refund_effect D now tx bn d r d' \<Longrightarrow> extends d d'"
  by (auto simp: refund_effect_def Let_def extends_def comp_def intro: clients_grow_same)

lemma ledger_step_extends: "ledger_step D af Q d d' \<Longrightarrow> extends d d'"
proof (induction rule: ledger_step.induct)
  case (accrual tf now tx ns d r d')
  then show ?case
    by (cases r) (auto dest!: Post_Inl Post_Inr intro: post_effect_extends extends_same)
next
  case (redeem tf now tx mb n d r d')
  then show ?case
    by (cases r) (auto dest!: PostRedeemChecked_Inl PostRedeemChecked_effect intro: post_effect_extends extends_same)
next
  case (refund tf now tx bn d r d')
  then show ?case
    by (cases r) (auto dest!: PostRefund_Inl PostRefund_effect intro: refund_effect_extends extends_same)
next
  case (other d d')
  then show ?case by (rule unledgered_extends)
qed

lemma steps_extends: "steps D af Q d d' \<Longrightarrow> extends d d'"
  by (induction rule: rtranclp_induct) (auto intro: extends_refl extends_trans ledger_step_extends)

lemma find_map_eq:
  assumes "map f ys = map f xs @ zs" "find P xs = Some x" "\<And>x y. f x = f y \<Longrightarrow> P x = P y"
  shows "\<exists>y. find P ys = Some y \<and> f y = f x"
  using assms(1,2)
proof (induction xs arbitrary: ys)
  case (Cons a xs)
  then obtain b bs where ys: "ys = b # bs" "f b = f a" "map f bs = map f xs @ zs" by (cases ys) auto
  then have P: "P b = P a" using assms(3) by blast
  show ?case
  proof (cases "P a")
    case True
    with Cons.prems(2) ys P show ?thesis by simp
  next
    case False
    with Cons.prems(2) have "find P xs = Some x" by simp
    with ys(3) have "\<exists>y. find P bs = Some y \<and> f y = f x" by (rule Cons.IH)
    with False ys P show ?thesis by simp
  qed
qed simp

lemma extends_transaction:
  assumes "extends d d'" "find (same_key s ty x) (db_transactions d) = Some t"
  shows "\<exists>t'. find (same_key s ty x) (db_transactions d') = Some t' \<and> core t' = core t"
proof -
  obtain new where "map core (db_transactions d') = map core (db_transactions d) @ new"
    using assms(1) by (auto simp: extends_def)
  then show ?thesis
    using assms(2) by (rule find_map_eq) (auto simp: same_key_def dest: core_sel)
qed

lemma extends_client:
  assumes "extends d d'" "find (\<lambda>c. cl_StoreID c = s \<and> cl_Phone c = ph) (db_clients d) = Some c"
  shows "\<exists>c'. find (\<lambda>c. cl_StoreID c = s \<and> cl_Phone c = ph) (db_clients d') = Some c' \<and> cl_ID c' = cl_ID c"
proof -
  obtain new where "map client_key (db_clients d') = map client_key (db_clients d) @ new"
    using assms(1) by (auto simp: extends_def clients_grow_def)
  then have "\<exists>c'. find (\<lambda>c. cl_StoreID c = s \<and> cl_Phone c = ph) (db_clients d') = Some c' \<and> client_key c' = client_key c"
    using assms(2) by (rule find_map_eq) (auto simp: client_key_def)
  then show ?thesis by (auto simp: client_key_def)
qed

section \<open>Exact shares\<close>

text \<open>
  When every refund is in whole kopecks, the points taken back from an original are exactly
  the floor of their proportional share.
\<close>

definition whole_kopecks :: "rat \<Rightarrow> bool" where
  "whole_kopecks x \<longleftrightarrow> 0 < x \<and> whole_at 2 x"

definition exact_share :: "transaction \<Rightarrow> bool" where
  "exact_share t \<longleftrightarrow> whole_at 2 (tx_RefundedAmount t) \<and>
     (0 < tx_Amount t \<and> tx_Amount t < 2 * 10 ^ 14 \<longrightarrow>
      tx_RefundedPoints t = \<lfloor>of_int \<bar>tx_PointsDelta t\<bar> * tx_RefundedAmount t / tx_Amount t\<rfloor>)"

definition exact_ledger :: "db \<Rightarrow> bool" where
  "exact_ledger d \<longleftrightarrow> (\<forall>t\<in>set (db_transactions d). tx_Type t \<noteq> TransactionRefund \<longrightarrow> exact_share t)"

lemma positive_whole_kopecks: "positive_only whole_kopecks"
  by (simp add: positive_only_def whole_kopecks_def)

lemma refund_effectE:
  assumes "refund_effect D now refund bn d r d'"
  obtains orig a ca where
    "orig \<in> set (db_transactions d)" "tx_OriginalTransactionID refund = Some (tx_ID orig)"
    "tx_StoreID orig = tx_StoreID refund" "tx_Type orig \<noteq> TransactionRefund"
    "tx_RefundedAmount orig + tx_Amount refund \<le> tx_Amount orig"
    "numeric 20 2 (tx_RefundedAmount orig + tx_Amount refund) = Some ca"
    "db_transactions d' = map (mark_refunded (tx_ID orig) ca
        (refund_cumulative_points D orig (tx_RefundedAmount orig + tx_Amount refund))) (db_transactions d) @
       [refund_row (db_seq d T_transactions + 1) now orig
          (refund_delta D orig (tx_RefundedAmount orig + tx_Amount refund))
          (points_of d (tx_ClientID orig) + refund_delta D orig (tx_RefundedAmount orig + tx_Amount refund)) a ca
          (tx_RefundedAmount orig + tx_Amount refund = tx_Amount orig) refund]"
    "tx_RefundFullyRefunded (fst r) = (tx_RefundedAmount orig + tx_Amount refund = tx_Amount orig)"
    "fst (snd r) = orig\<lparr>tx_RefundedAmount := tx_RefundedAmount orig + tx_Amount refund,
        tx_RefundedPoints := refund_cumulative_points D orig (tx_RefundedAmount orig + tx_Amount refund)\<rparr>"
proof -
  obtain orig a ca q es where *: "find (\<lambda>t. tx_OriginalTransactionID refund = Some (tx_ID t) \<and> tx_StoreID t = tx_StoreID refund)
             (db_transactions d) = Some orig"
     "let cum = tx_RefundedAmount orig + tx_Amount refund;
            cp = refund_cumulative_points D orig cum;
            delta = refund_delta D orig cum;
            points = points_of d (tx_ClientID orig) + delta;
            full = (cum = tx_Amount orig);
            row = refund_row (db_seq d T_transactions + 1) now orig delta points a ca full refund
        in tx_Type orig \<noteq> TransactionRefund \<and> cum \<le> tx_Amount orig \<and> numeric 20 2 cum = Some ca \<and>
           d' = d\<lparr>db_seq := (db_seq d)(T_transactions := db_seq d T_transactions + 1, T_outbox := q),
                  db_balances := (db_balances d)(tx_ClientID orig \<mapsto> points),
                  db_transactions := map (mark_refunded (tx_ID orig) ca cp) (db_transactions d) @ [row],
                  db_outbox := db_outbox d @ es\<rparr> \<and>
           r = (row\<lparr>tx_Amount := tx_Amount refund, tx_RefundCumulativeAmount := cum,
                    tx_RuleVersion := tx_RuleVersion refund, tx_RefundedAmount := tx_RefundedAmount refund,
                    tx_RefundedPoints := tx_RefundedPoints refund\<rparr>,
                orig\<lparr>tx_RefundedAmount := cum, tx_RefundedPoints := cp\<rparr>,
                \<lparr>bal_ClientID = tx_ClientID orig, bal_Points = points\<rparr>)"
    using assms unfolding refund_effect_def Let_def by blast
  show thesis
    using find_SomeD [OF *(1)] *(2) by (intro that [of orig ca a]) (simp_all add: Let_def)
qed

lemma exact_mark:
  assumes D: "decimal_laws D" and ok: "row_ok d orig" "refunds_ok ts orig" "exact_share orig" "tx_Type orig \<noteq> TransactionRefund"
    and x: "whole_kopecks x" "tx_RefundedAmount orig + x \<le> tx_Amount orig"
    and ca: "numeric 20 2 (tx_RefundedAmount orig + x) = Some ca"
  shows "exact_share (mark_refunded (tx_ID orig) ca (refund_cumulative_points D orig (tx_RefundedAmount orig + x)) orig)"
proof -
  let ?cum = "tx_RefundedAmount orig + x"
  have w: "whole_at 2 ?cum" "whole_at 2 (tx_Amount orig)"
    using ok x by (auto simp: exact_share_def whole_kopecks_def row_ok_def intro: whole_at_add)
  have cum: "0 \<le> ?cum" using ok(2) x by (auto simp: refunds_ok_def whole_kopecks_def)
  have ca': "ca = ?cum" using numeric_SomeD [OF ca] w(1) by (simp add: round_at_whole)
  have pts: "in_i64 (tx_PointsDelta orig)" "tx_PointsDelta orig \<noteq> - 9223372036854775808" "in_i64 \<bar>tx_PointsDelta orig\<bar>"
    using ok by (auto simp: row_ok_def in_i64_def)
  show ?thesis
    using decimal_laws.code_share_floor [OF D _ pts(3) w cum x(2)] w(1)
    by (simp add: exact_share_def ca' refund_cumulative_points_share [OF pts(1,2)])
qed

lemma exact_share_fresh: "tx_RefundedAmount t = 0 \<Longrightarrow> tx_RefundedPoints t = 0 \<Longrightarrow> exact_share t"
  by (simp add: exact_share_def)

lemma exact_ledger_same: "exact_ledger d \<Longrightarrow> db_transactions d' = db_transactions d \<Longrightarrow> exact_ledger d'"
  by (simp add: exact_ledger_def)

lemma post_effect_exact:
  assumes "post_effect now tx ns d r d'" "exact_ledger d"
  shows "exact_ledger d'"
proof -
  obtain i p a where "db_transactions d' = db_transactions d @ [ledger_row i now p a tx]"
    using assms(1) by (auto simp: post_effect_def Let_def)
  with assms(2) show ?thesis by (auto simp: exact_ledger_def intro: exact_share_fresh)
qed

lemma refund_effect_exact:
  assumes D: "decimal_laws D" and wf: "ledger_wf d" and eff: "refund_effect D now refund bn d r d'"
    and x: "whole_kopecks (tx_Amount refund)" and ex: "exact_ledger d"
  shows "exact_ledger d'"
  using eff
proof (rule refund_effectE)
  fix orig :: transaction and a ca :: rat
  let ?cum = "tx_RefundedAmount orig + tx_Amount refund"
  let ?mark = "mark_refunded (tx_ID orig) ca (refund_cumulative_points D orig ?cum)"
  assume mem: "orig \<in> set (db_transactions d)" and orig: "tx_Type orig \<noteq> TransactionRefund" "?cum \<le> tx_Amount orig"
    "numeric 20 2 ?cum = Some ca"
    and txs: "db_transactions d' = map ?mark (db_transactions d) @
       [refund_row (db_seq d T_transactions + 1) now orig (refund_delta D orig ?cum)
          (points_of d (tx_ClientID orig) + refund_delta D orig ?cum) a ca (?cum = tx_Amount orig) refund]"
  have orig_ok: "row_ok d orig" "refunds_ok (db_transactions d) orig" "exact_share orig"
    using wf mem orig(1) ex by (auto dest: ledger_wfD simp: exact_ledger_def)
  have marked: "exact_share (?mark orig)"
    using D orig_ok orig(1) x orig(2,3) by (rule exact_mark)
  have "exact_share (?mark t)" if t: "t \<in> set (db_transactions d)" "tx_Type t \<noteq> TransactionRefund" for t
  proof (cases "tx_ID t = tx_ID orig")
    case True
    have "t = orig" using ledger_wfD(3) [OF wf] t(1) mem True by (rule distinct_map_inj)
    with marked show ?thesis by simp
  next
    case False
    with ex t show ?thesis by (simp add: mark_refunded_other exact_ledger_def)
  qed
  then show ?thesis by (auto simp: exact_ledger_def txs)
qed

lemma ledger_step_exact:
  assumes D: "decimal_laws D" and step: "ledger_step D af whole_kopecks d d'" and wf: "ledger_wf d" and ex: "exact_ledger d"
  shows "exact_ledger d'"
  using step
proof cases
  case (accrual tf now tx ns r)
  with ex show ?thesis
    by (cases r) (auto dest!: Post_Inl Post_Inr intro: post_effect_exact exact_ledger_same)
next
  case (redeem tf now tx mb n r)
  with ex show ?thesis
    by (cases r) (auto dest!: PostRedeemChecked_Inl PostRedeemChecked_effect intro: post_effect_exact exact_ledger_same)
next
  case (refund tf now tx bn r)
  show ?thesis
  proof (cases r)
    case (Inl e)
    with refund ex show ?thesis by (auto dest!: PostRefund_Inl intro: exact_ledger_same)
  next
    case (Inr y)
    with refund have "refund_effect D now tx bn d y d'" by (auto dest: PostRefund_effect)
    with D wf refund ex show ?thesis by (auto intro: refund_effect_exact)
  qed
next
  case other
  with ex show ?thesis by (auto simp: unledgered_def intro: exact_ledger_same)
qed

lemma reachable_exact:
  assumes "decimal_laws D" "reachable D af whole_kopecks d"
  shows "exact_ledger d"
proof -
  have "steps D af whole_kopecks empty_db d" using assms(2) by (simp add: reachable_def)
  then have "exact_ledger d \<and> ledger_wf d"
  proof (induction rule: rtranclp_induct)
    case base
    show ?case by (simp add: exact_ledger_def ledger_wf_empty) (simp add: empty_db_def)
  next
    case (step d1 d2)
    then show ?case
      using ledger_step_exact [OF assms(1)] ledger_step_wf [OF assms(1) positive_whole_kopecks] by blast
  qed
  then show ?thesis by simp
qed

section \<open>The rolling redemption limit\<close>

definition redeemed_between :: "int \<Rightarrow> time \<Rightarrow> time \<Rightarrow> transaction list \<Rightarrow> int" where
  "redeemed_between c lo hi ts =
     sum_rows (\<lambda>t. tx_ClientID t = c \<and> tx_Type t = TransactionRedeem \<and> lo < tx_CreatedAt t \<and> tx_CreatedAt t \<le> hi)
       (\<lambda>t. - tx_PointsDelta t) ts"

definition redeemed_ever :: "int \<Rightarrow> transaction list \<Rightarrow> int" where
  "redeemed_ever c ts =
     sum_rows (\<lambda>t. tx_ClientID t = c \<and> tx_Type t = TransactionRedeem) (\<lambda>t. - tx_PointsDelta t) ts"

lemma redeemed_core:
  assumes "map core ts' = map core ts"
  shows "redeemed_between c lo hi ts' = redeemed_between c lo hi ts" "redeemed_ever c ts' = redeemed_ever c ts"
proof -
  have "redeemed_between c lo hi (map core us) = redeemed_between c lo hi us" for us
    unfolding redeemed_between_def by (rule sum_rows_map_cong) (simp add: core_def)
  moreover have "redeemed_ever c (map core us) = redeemed_ever c us" for us
    unfolding redeemed_ever_def by (rule sum_rows_map_cong) (simp add: core_def)
  ultimately show "redeemed_between c lo hi ts' = redeemed_between c lo hi ts" "redeemed_ever c ts' = redeemed_ever c ts"
    using assms by metis+
qed

lemma redeemed_other:
  assumes "tx_Type r \<noteq> TransactionRedeem \<or> tx_ClientID r \<noteq> c"
  shows "redeemed_between c lo hi (ts @ [r]) = redeemed_between c lo hi ts" "redeemed_ever c (ts @ [r]) = redeemed_ever c ts"
  using assms by (auto simp: redeemed_between_def redeemed_ever_def)

definition within_limit :: "anti_fraud_config \<Rightarrow> int \<Rightarrow> db \<Rightarrow> bool" where
  "within_limit af c d \<longleftrightarrow>
     (in_i64 (redeemed_ever c (db_transactions d)) \<longrightarrow>
      (\<forall>t. redeemed_between c (t - af_DailyRedeemWindow af) t (db_transactions d) \<le> af_DailyRedeemPointsLimit af))"

lemma within_limit_same:
  "within_limit af c d \<Longrightarrow> map core (db_transactions d') = map core (db_transactions d) \<Longrightarrow> within_limit af c d'"
  by (simp add: within_limit_def redeemed_core [of "db_transactions d'" "db_transactions d"])

lemma within_limit_other:
  "within_limit af c d \<Longrightarrow> map core (db_transactions d') = map core (db_transactions d @ [r]) \<Longrightarrow>
   tx_Type r \<noteq> TransactionRedeem \<or> tx_ClientID r \<noteq> c \<Longrightarrow> within_limit af c d'"
  by (simp add: within_limit_def redeemed_core [of "db_transactions d'" "db_transactions d @ [r]"] redeemed_other)

lemma within_limit_append:
  "db_transactions d' = db_transactions d @ [r] \<Longrightarrow> within_limit af c d \<Longrightarrow>
   tx_Type r \<noteq> TransactionRedeem \<or> tx_ClientID r \<noteq> c \<Longrightarrow> within_limit af c d'"
  by (rule within_limit_other) simp_all

lemma within_limit_mark:
  "db_transactions d' = map (mark_refunded i a p) (db_transactions d) @ [r] \<Longrightarrow> within_limit af c d \<Longrightarrow>
   tx_Type r \<noteq> TransactionRedeem \<Longrightarrow> within_limit af c d'"
  by (rule within_limit_other [where r = r]) (simp_all add: comp_def)

lemma redeem_rows_nonneg:
  "ledger_wf d \<Longrightarrow> t \<in> set (db_transactions d) \<Longrightarrow> tx_Type t = TransactionRedeem \<Longrightarrow> 0 \<le> - tx_PointsDelta t"
  using ledger_wfD(5) [of d t] by (simp add: row_ok_def transaction_checks_def)

lemma post_effect_row:
  assumes "post_effect now tx ns d r d'"
  obtains i p a where "db_transactions d' = db_transactions d @ [ledger_row i now p a tx]"
    "transaction_checks (ledger_row i now p a tx)"
  using assms by (auto simp: post_effect_def Let_def insertable_def)

lemma within_limit_redeem:
  assumes wf: "ledger_wf d" and lim: "within_limit af c d" and eff: "post_effect now tx ns d r d'"
    and tx: "tx_Type tx = TransactionRedeem" "tx_ClientID tx = c"
    and chk: "wrap64 (window_redeemed c (now - af_DailyRedeemWindow af) (db_transactions d) - tx_PointsDelta tx)
       \<le> af_DailyRedeemPointsLimit af"
  shows "within_limit af c d'"
proof -
  let ?ts = "db_transactions d" and ?w = "af_DailyRedeemWindow af" and ?L = "af_DailyRedeemPointsLimit af"
  obtain i p a where d': "db_transactions d' = ?ts @ [ledger_row i now p a tx]"
    and row: "transaction_checks (ledger_row i now p a tx)"
    using eff by (rule post_effect_row)
  have pts: "0 \<le> - tx_PointsDelta tx" using row tx by (simp add: transaction_checks_def)
  note nonneg = redeem_rows_nonneg [OF wf]
  let ?W = "window_redeemed c (now - ?w) ?ts"
  have W: "0 \<le> ?W" "?W \<le> redeemed_ever c ?ts"
    unfolding window_redeemed_def redeemed_ever_def using nonneg
    by (auto intro!: sum_rows_nonneg sum_rows_mono_filter)
  have ever: "redeemed_ever c (db_transactions d') = redeemed_ever c ?ts - tx_PointsDelta tx"
    using tx by (simp add: d' redeemed_ever_def)
  show ?thesis
    unfolding within_limit_def
  proof (intro impI allI)
    fix t
    assume big: "in_i64 (redeemed_ever c (db_transactions d'))"
    then have "in_i64 (redeemed_ever c ?ts)" using W pts by (simp add: ever in_i64_def)
    then have old: "redeemed_between c (t - ?w) t ?ts \<le> ?L" using lim by (simp add: within_limit_def)
    have "in_i64 (?W - tx_PointsDelta tx)" using big W pts by (simp add: ever in_i64_def)
    then have new: "?W - tx_PointsDelta tx \<le> ?L" using chk by (simp add: wrap64_id)
    show "redeemed_between c (t - ?w) t (db_transactions d') \<le> ?L"
    proof (cases "t - ?w < now \<and> now \<le> t")
      case True
      then have "redeemed_between c (t - ?w) t ?ts \<le> ?W"
        unfolding redeemed_between_def window_redeemed_def using nonneg by (intro sum_rows_mono_filter) auto
      with True new tx show ?thesis by (simp add: d' redeemed_between_def)
    next
      case False
      with old show ?thesis by (auto simp: d' redeemed_between_def)
    qed
  qed
qed

lemma ledger_step_within_limit:
  assumes step: "ledger_step D af Q d d'" and wf: "ledger_wf d" and lim: "within_limit af c d"
    and L: "0 < af_DailyRedeemPointsLimit af"
  shows "within_limit af c d'"
  using step
proof cases
  case (accrual tf now tx ns r)
  show ?thesis
  proof (cases r)
    case (Inl e)
    with accrual lim show ?thesis by (auto dest!: Post_Inl intro: within_limit_same)
  next
    case (Inr y)
    with accrual have "post_effect now tx ns d y d'" by (auto dest: Post_Inr)
    then show ?thesis
      by (rule post_effect_row) (rule within_limit_append [OF _ lim], assumption, simp add: accrual)
  qed
next
  case (redeem tf now tx mb n r)
  show ?thesis
  proof (cases r)
    case (Inl e)
    with redeem lim show ?thesis by (auto dest!: PostRedeemChecked_Inl intro: within_limit_same)
  next
    case (Inr y)
    with redeem have eff: "post_effect now tx [n] d y d'" and
      chk: "wrap64 (window_redeemed (tx_ClientID tx) (now - af_DailyRedeemWindow af) (db_transactions d) - tx_PointsDelta tx)
         \<le> af_DailyRedeemPointsLimit af"
      using L by (auto dest: PostRedeemChecked_effect)
    show ?thesis
    proof (cases "tx_ClientID tx = c")
      case True
      show ?thesis
        by (rule within_limit_redeem [OF wf lim eff]) (use True redeem chk in simp_all)
    next
      case False
      from eff show ?thesis
        by (rule post_effect_row) (rule within_limit_append [OF _ lim], assumption, simp add: False)
    qed
  qed
next
  case (refund tf now tx bn r)
  show ?thesis
  proof (cases r)
    case (Inl e)
    with refund lim show ?thesis by (auto dest!: PostRefund_Inl intro: within_limit_same)
  next
    case (Inr y)
    with refund have "refund_effect D now tx bn d y d'" by (auto dest: PostRefund_effect)
    then show ?thesis
      by (rule refund_effectE) (rule within_limit_mark [OF _ lim], assumption, simp)
  qed
next
  case other
  with lim show ?thesis by (auto simp: unledgered_def intro: within_limit_same)
qed

lemma reachable_within_limit:
  assumes "decimal_laws D" "positive_only Q" "reachable D af Q d" "0 < af_DailyRedeemPointsLimit af"
  shows "within_limit af c d"
proof -
  have "steps D af Q empty_db d" using assms(3) by (simp add: reachable_def)
  then have "within_limit af c d \<and> ledger_wf d"
  proof (induction rule: rtranclp_induct)
    case base
    show ?case
      using assms(4) by (simp add: within_limit_def ledger_wf_empty) (simp add: empty_db_def redeemed_between_def)
  next
    case (step d1 d2)
    have wf: "ledger_wf d1" and lim: "within_limit af c d1" using step.IH by simp_all
    show ?case
      using ledger_step_within_limit [OF step.hyps(2) wf lim assms(4)]
        ledger_step_wf [OF assms(1,2) step.hyps(2) wf] by simp
  qed
  then show ?thesis by simp
qed

end
