(* ===== verification/Scenario.thy ===== *)
theory Scenario
  imports Loyalty
begin

text \<open>
  A small concrete database (one organisation, one store with 5 % accrual, redemption up to
  half of a purchase at one rouble a point) and the requests the witnesses run against it.
\<close>

definition demo_config :: loyalty_config where
  "demo_config = \<lparr>cfg_StoreID = 1, cfg_Mechanic = ''points'', cfg_AccrualPercent = 5, cfg_MinPurchaseAmount = 0,
     cfg_MinBalanceToRedeem = 10, cfg_MaxRedeemPercent = 50, cfg_PointsExchangeRate = 1, cfg_Version = 1,
     cfg_ExpectedVersion = None\<rparr>"

definition demo_store :: store where
  "demo_store = \<lparr>st_ID = 1, st_OrganizationID = 1, st_Name = ''Shop'', st_Address = [], st_ExternalCode = None,
     st_SMSInviteEnabled = False, st_APIKeyHash = []\<rparr>"

definition demo_db :: db where
  "demo_db = empty_db\<lparr>db_organizations := [\<lparr>org_ID = 1, org_Name = ''Org'', org_CreatedAt = 0\<rparr>],
     db_stores := [demo_store], db_loyalty_configs := [1 \<mapsto> demo_config]\<rparr>"

definition demo_service :: loyalty_service where
  "demo_service = \<lparr>svc_antiFraud = \<lparr>af_DailyRedeemPointsLimit = 60, af_DailyRedeemWindow = 86400\<rparr>,
     svc_invites = \<lparr>inv_AppURL = [], inv_DailyStoreLimit = 0, inv_Stores = True, inv_CustomerAccounts = True,
       inv_Outbox = True\<rparr>\<rparr>"

definition demo_accrue :: "string \<Rightarrow> rat \<Rightarrow> accrue_request" where
  "demo_accrue x a = \<lparr>ar_StoreID = 1, ar_ExternalTxID = x, ar_Phone = ''89001112233'', ar_Amount = a\<rparr>"

definition demo_redeem :: "string \<Rightarrow> int \<Rightarrow> rat \<Rightarrow> redeem_request" where
  "demo_redeem x p a = \<lparr>rr_StoreID = 1, rr_ExternalTxID = x, rr_ClientID = 1, rr_Points = p, rr_Amount = a\<rparr>"

definition demo_refund :: "string \<Rightarrow> string \<Rightarrow> rat \<Rightarrow> refund_request" where
  "demo_refund x y a = \<lparr>fr_StoreID = 1, fr_ExternalTxID = x, fr_OriginalExternalTxID = y, fr_OriginalType = None,
     fr_Amount = a\<rparr>"

text \<open>The database after a request that nothing disturbs.\<close>

definition after_accrue :: "string \<Rightarrow> rat \<Rightarrow> db \<Rightarrow> db" where
  "after_accrue x a d = snd (run_state (Accrue go_decimal demo_service (quiet 1000) (demo_accrue x a)) d)"

definition after_redeem :: "string \<Rightarrow> int \<Rightarrow> rat \<Rightarrow> db \<Rightarrow> db" where
  "after_redeem x p a d = snd (run_state (Redeem go_decimal demo_service (quiet 2000) (demo_redeem x p a)) d)"

definition after_refund :: "string \<Rightarrow> string \<Rightarrow> rat \<Rightarrow> db \<Rightarrow> db" where
  "after_refund x y a d = snd (run_state (Refund go_decimal (quiet 3000) (demo_refund x y a)) d)"

text \<open>What the simplifier unfolds to run a request. Fingerprints stay folded: they are compared, not printed.\<close>

lemmas demo_defs = demo_service_def demo_db_def demo_accrue_def demo_redeem_def demo_refund_def demo_config_def
  demo_store_def empty_db_def after_accrue_def after_redeem_def after_refund_def

lemmas repo_defs = tx_GetByExternalID_def tx_GetByID_def client_GetByPhone_def client_GetByID_def client_Create_def
  config_GetByStore_def balance_Get_def store_GetByID_def account_GetByPhone_def same_key_def scanTransaction_def

lemmas ledger_defs = Post_def PostRedeemChecked_def PostRefund_def run_transaction_of ensureBalanceRow_def
  adjustBalance_def insertTransaction_def insertOutboxEntry_def insert_outbox_def lockOriginal_def updateOriginal_def
  lockBalance_def windowRedeemed_def window_redeemed_def refund_cumulative_points_def points_of_def numeric_def
  round_at_def transaction_checks_def rollback_def in_i64_def wrap64_def DefaultCurrency_def

lemmas service_defs = Accrue_def replayedAccrue_def resolveOrCreateClient_def accrualPoints_def accrualNotify_def
  appInvite_def invites_enabled_def Redeem_def replayedRedeem_def cappedPoints_def Refund_def replayedRefund_def
  resolveOriginalTransaction_def call_at_def call_tx_def Build_def NormalizePhone_def zero_transaction_def

lemmas text_defs = notification_def AccrualCredited_def RedeemDebited_def RefundAdjusted_def outboxDedupeKey_def
  is_digit_def show_int_def show_nat.simps digit_char_def bytes_def char_of_def bit_Suc_0_iff

lemmas eval_simps = demo_defs repo_defs ledger_defs service_defs text_defs run_call run_andThen go_decimal_def Let_def

text \<open>
  Three states of that database: after the accrual \<open>a1\<close> of 1000 (50 points), after the
  redemption \<open>r1\<close> of 30 points, and after the full refund \<open>f1\<close> of \<open>a1\<close>, which leaves the client
  30 points in debt.
\<close>

definition demo_client :: client where
  "demo_client = \<lparr>cl_ID = 1, cl_StoreID = 1, cl_Phone = ''+79001112233'', cl_CustomerAccountID = None,
     cl_CreatedAt = 1000\<rparr>"

definition row_a1 :: transaction where
  "row_a1 = (zero_transaction TransactionAccrual)\<lparr>tx_ID := 1, tx_StoreID := 1, tx_ClientID := 1,
     tx_ExternalTxID := ''a1'', tx_Amount := 1000, tx_Currency := ''RUB'', tx_PointsDelta := 50,
     tx_BalanceAfter := 50, tx_RequestFingerprint := accrualFingerprint go_decimal 1 1000,
     tx_CreatedAt := 1000, tx_RuleVersion := Some 1\<rparr>"

definition row_r1 :: transaction where
  "row_r1 = (zero_transaction TransactionRedeem)\<lparr>tx_ID := 2, tx_StoreID := 1, tx_ClientID := 1,
     tx_ExternalTxID := ''r1'', tx_Amount := 100, tx_Currency := ''RUB'', tx_PointsDelta := - 30,
     tx_BalanceAfter := 20, tx_RequestFingerprint := redeemFingerprint go_decimal 1 100 30,
     tx_CreatedAt := 2000, tx_RuleVersion := Some 1\<rparr>"

definition row_f1 :: transaction where
  "row_f1 = (zero_transaction TransactionRefund)\<lparr>tx_ID := 3, tx_StoreID := 1, tx_ClientID := 1,
     tx_ExternalTxID := ''f1'', tx_Amount := 1000, tx_Currency := ''RUB'', tx_PointsDelta := - 50,
     tx_BalanceAfter := - 30, tx_RequestFingerprint := refundFingerprint go_decimal 1 1000,
     tx_CreatedAt := 3000, tx_OriginalTransactionID := Some 1, tx_RefundCumulativeAmount := 1000,
     tx_RefundFullyRefunded := True\<rparr>"

definition queued_row :: "int \<Rightarrow> time \<Rightarrow> rendered \<Rightarrow> string \<Rightarrow> outbox_entry" where
  "queued_row i now r key = (notification 1 OutboxChannelPush r key)\<lparr>out_ID := i, out_NextAttemptAt := now,
     out_CreatedAt := now\<rparr>"

definition demo_queue :: "outbox_entry list" where
  "demo_queue = [queued_row 1 1000 (AccrualCredited 50) ''1:accrual:a1'',
     queued_row 2 2000 (RedeemDebited 30) ''1:redeem:r1'',
     queued_row 3 3000 (RefundAdjusted (- 50)) ''1:refund:f1'']"

definition state1 :: db where
  "state1 = demo_db\<lparr>db_seq := (\<lambda>_. 0)(T_clients := 1, T_transactions := 1, T_outbox := 1),
     db_clients := [demo_client], db_balances := [1 \<mapsto> 50], db_transactions := [row_a1],
     db_outbox := take 1 demo_queue\<rparr>"

definition state2 :: db where
  "state2 = state1\<lparr>db_seq := (\<lambda>_. 0)(T_clients := 1, T_transactions := 2, T_outbox := 2),
     db_balances := [1 \<mapsto> 20], db_transactions := [row_a1, row_r1], db_outbox := take 2 demo_queue\<rparr>"

definition state3 :: db where
  "state3 = state2\<lparr>db_seq := (\<lambda>_. 0)(T_clients := 1, T_transactions := 3, T_outbox := 3),
     db_balances := [1 \<mapsto> - 30],
     db_transactions := [row_a1\<lparr>tx_RefundedAmount := 1000, tx_RefundedPoints := 50\<rparr>, row_r1, row_f1],
     db_outbox := demo_queue\<rparr>"

lemmas state_defs = state1_def state2_def state3_def demo_client_def row_a1_def row_r1_def row_f1_def
  queued_row_def demo_queue_def

lemma run_a1: "run_state (Accrue go_decimal demo_service (quiet 1000) (demo_accrue ''a1'' 1000)) demo_db =
  (Inr (Some \<lparr>ares_ClientID = 1, ares_PointsEarned = 50, ares_Balance = 50, ares_Replayed = False\<rparr>), state1)"
  by (simp add: eval_simps state_defs fun_upd_twist)

lemma run_r1: "run_state (Redeem go_decimal demo_service (quiet 2000) (demo_redeem ''r1'' 30 100)) state1 =
  (Inr (Some \<lparr>rres_PointsRedeemed = 30, rres_Balance = 20, rres_Replayed = False\<rparr>), state2)"
  by (simp add: eval_simps state_defs fun_upd_twist)

lemma run_f1: "run_state (Refund go_decimal (quiet 3000) (demo_refund ''f1'' ''a1'' 1000)) state2 =
  (Inr (Some \<lparr>fres_ClientID = 1, fres_PointsReversed = - 50, fres_Balance = - 30, fres_RefundedAmountTotal = 1000,
              fres_FullyRefunded = True, fres_Replayed = False\<rparr>), state3)"
  by (simp add: eval_simps state_defs fun_upd_twist)

end
