(* ===== verification/Requests.thy ===== *)
theory Requests
  imports Ledger_Steps
begin

text \<open>
  What the requests share: calls through the environment, environments whose other requests
  only let the tables grow, the lookups by key, and the conflicts a posting reports.
\<close>

section \<open>Environments\<close>

lemma call_Inr:
  "run_state (call E l m) d = (Inr x, d') \<Longrightarrow> run_state m (env_other E l d) = (Inr x, d')"
  by (auto simp: run_call split: fault.splits)

lemma call_Inl:
  "run_state (call E l m) d = (Inl e, d') \<Longrightarrow> e = ErrInternal \<or> run_state m (env_other E l d) = (Inl e, d')"
  by (auto simp: run_call split: fault.splits)

lemma call_nofault: "env_fault E l = NoFault \<Longrightarrow> run_state (call E l m) d = run_state m (env_other E l d)"
  by (simp add: run_call)

definition growing :: "db env \<Rightarrow> bool" where
  "growing E \<longleftrightarrow> (\<forall>l s. extends s (env_other E l s))"

definition faultless :: "'s env \<Rightarrow> bool" where
  "faultless E \<longleftrightarrow> (\<forall>l. env_fault E l = NoFault)"

lemma fair_growing: "fair_env D af Q E \<Longrightarrow> growing E"
  by (auto simp: fair_env_def growing_def intro: steps_extends)

lemma quiet_growing [simp]: "growing (quiet t)" and quiet_faultless [simp]: "faultless (quiet t)"
  by (auto simp: growing_def faultless_def extends_refl)

lemma faultless_call: "faultless E \<Longrightarrow> run_state (call E l m) d = run_state m (env_other E l d)"
  by (cases l) (simp add: faultless_def run_call)

lemma step_keeps: "keeps (steps D af Q) m \<Longrightarrow> run_state m d = (r, d') \<Longrightarrow> extends d d'"
  using keepsD [of "steps D af Q" m d] by (auto dest: steps_extends)

lemma growingD: "growing E \<Longrightarrow> extends s (env_other E l s)"
  unfolding growing_def by blast

lemma extends_reflp [simp]: "reflp extends" and extends_transp [simp]: "transp extends"
  by (auto simp: reflp_def transp_def intro: extends_refl extends_trans)

lemma growing_call: "growing E \<Longrightarrow> keeps extends m \<Longrightarrow> keeps extends (call E l m)"
  by (rule keeps_call) (auto intro: growingD)

lemma keeps_run: "keeps R m \<Longrightarrow> run_state m d = (r, d') \<Longrightarrow> R d d'"
  using keepsD [of R m d] by simp

section \<open>Lookups\<close>

lemma run_GetByExternalID:
  "run_state (tx_GetByExternalID s ty x) d =
     (case find (same_key s ty x) (db_transactions d) of
        None \<Rightarrow> Inl ErrNotFound | Some t \<Rightarrow> Inr (scanTransaction t), d)"
  by (auto simp: tx_GetByExternalID_def run_andThen select_one_def split: option.split)

lemma run_GetByPhone:
  "run_state (client_GetByPhone s ph) d =
     (case find (\<lambda>c. cl_StoreID c = s \<and> cl_Phone c = ph) (db_clients d) of
        None \<Rightarrow> Inl ErrNotFound | Some c \<Rightarrow> Inr c, d)"
  by (auto simp: client_GetByPhone_def select_one_def split: option.split)

lemma scanTransaction_sel [simp]:
  "tx_ID (scanTransaction t) = tx_ID t" "tx_StoreID (scanTransaction t) = tx_StoreID t"
  "tx_ClientID (scanTransaction t) = tx_ClientID t" "tx_Type (scanTransaction t) = tx_Type t"
  "tx_PointsDelta (scanTransaction t) = tx_PointsDelta t" "tx_BalanceAfter (scanTransaction t) = tx_BalanceAfter t"
  "tx_RequestFingerprint (scanTransaction t) = tx_RequestFingerprint t"
  "tx_RefundedAmount (scanTransaction t) = tx_RefundedAmount t" "tx_Amount (scanTransaction t) = tx_Amount t"
  by (simp_all add: scanTransaction_def)

lemma tx_GetByExternalID_gets:
  "tx_GetByExternalID s ty x =
     gets (\<lambda>d. case find (same_key s ty x) (db_transactions d) of
                 None \<Rightarrow> Inl ErrNotFound | Some t \<Rightarrow> Inr (scanTransaction t))"
  by (rule state.expand) (auto simp: run_GetByExternalID)

lemma call_find:
  assumes "run_state (call E l (gets (\<lambda>d. case find P (tbl d) of None \<Rightarrow> Inl ErrNotFound | Some y \<Rightarrow> Inr (f y)))) d
    = (Inr z, d')"
  shows "d' = env_other E l d \<and> (\<exists>y. find P (tbl d') = Some y \<and> z = f y)"
  using assms by (auto simp: run_call split: fault.splits option.splits)

lemma call_GetByPhone:
  "run_state (call E l (client_GetByPhone s ph)) d = (Inr c, d') \<Longrightarrow>
     d' = env_other E l d \<and> find (\<lambda>c. cl_StoreID c = s \<and> cl_Phone c = ph) (db_clients d') = Some c"
  by (auto simp: run_call run_GetByPhone split: fault.splits option.splits)

lemma Inl_andThenE:
  assumes "run_state (andThen m f) s = (Inl e, s2)"
  obtains "run_state m s = (Inl e, s2)"
  | x s1 where "run_state m s = (Inr x, s1)" "run_state (f x) s1 = (Inl e, s2)"
  using assms by (auto simp: run_andThen split: prod.splits sum.splits)

section \<open>Conflicts\<close>

text \<open>A posting reports a conflict only when a row under its key is already there.\<close>

definition clean :: "('s, 'a) op \<Rightarrow> bool" where
  "clean m \<longleftrightarrow> (\<forall>s s'. run_state m s \<noteq> (Inl ErrConflict, s'))"

lemma clean_ops [wf_intros]:
  "clean (ok x)" "e \<noteq> ErrConflict \<Longrightarrow> clean (fail e)" "clean (ensureBalanceRow c)" "clean (adjustBalance g c delta)"
  "clean (insert_outbox now n)" "clean (lockOriginal i s)" "clean (updateOriginal i a p)" "clean (lockBalance c)"
  "clean (windowRedeemed c since)"
  by (auto simp: clean_def ensureBalanceRow_def adjustBalance_def insert_outbox_def lockOriginal_def updateOriginal_def
    lockBalance_def windowRedeemed_def Let_def split: option.splits if_splits)

lemma clean_stmt [wf_intros]: "clean m \<Longrightarrow> clean (stmt tf k m)"
  by (simp add: stmt_def clean_ops)

lemma clean_andThen [wf_intros]: "clean m \<Longrightarrow> (\<And>x. clean (f x)) \<Longrightarrow> clean (andThen m f)"
  by (auto simp: clean_def elim!: Inl_andThenE)

lemma clean_insertOutboxEntry [wf_intros]: "clean (insertOutboxEntry tf k now n)"
  by (auto simp: insertOutboxEntry_def Let_def split: option.split intro!: wf_intros)

lemma clean_insertOutboxEntries [wf_intros]: "clean (insertOutboxEntries tf k now ns)"
  by (induction ns arbitrary: k) (auto intro!: wf_intros)

definition has_key :: "int \<Rightarrow> transaction_type \<Rightarrow> string \<Rightarrow> db \<Rightarrow> bool" where
  "has_key s ty x d \<longleftrightarrow> list_ex (same_key s ty x) (db_transactions d)"

definition key_conflicts :: "int \<Rightarrow> transaction_type \<Rightarrow> string \<Rightarrow> (db, 'a) op \<Rightarrow> bool" where
  "key_conflicts s ty x m \<longleftrightarrow> (\<forall>d d'. run_state m d = (Inl ErrConflict, d') \<longrightarrow> has_key s ty x d)"

text \<open>The statements before the insert add no row.\<close>

definition adds_no_key :: "int \<Rightarrow> transaction_type \<Rightarrow> string \<Rightarrow> (db, 'a) op \<Rightarrow> bool" where
  "adds_no_key s ty x m \<longleftrightarrow> keeps (\<lambda>d d'. has_key s ty x d' \<longrightarrow> has_key s ty x d) m"

lemma adds_no_key_ops:
  "adds_no_key s ty x (ok u)" "adds_no_key s ty x (fail e)" "adds_no_key s ty x (ensureBalanceRow c)"
  "adds_no_key s ty x (adjustBalance g c delta)" "adds_no_key s ty x (lockOriginal i st)"
  "adds_no_key s ty x (updateOriginal i a p)" "adds_no_key s ty x (lockBalance c)"
  "adds_no_key s ty x (windowRedeemed c since)"
  by (auto simp: adds_no_key_def keeps_def has_key_def ensureBalanceRow_def adjustBalance_def lockOriginal_def
    updateOriginal_def lockBalance_def windowRedeemed_def Let_def list_ex_iff same_key_def split: option.splits if_splits)

lemma adds_no_key_stmt: "adds_no_key s ty x m \<Longrightarrow> adds_no_key s ty x (stmt tf k m)"
  by (simp add: stmt_def adds_no_key_ops)

lemma adds_no_key_andThen:
  "adds_no_key s ty x m \<Longrightarrow> (\<And>y. adds_no_key s ty x (f y)) \<Longrightarrow> adds_no_key s ty x (andThen m f)"
  unfolding adds_no_key_def by (rule keeps_andThen) (auto simp: reflp_def transp_def)

lemma key_conflicts_clean: "clean m \<Longrightarrow> key_conflicts s ty x m"
  by (simp add: clean_def key_conflicts_def)

lemma key_conflicts_before:
  assumes "clean m" "adds_no_key s ty x m" "\<And>y. key_conflicts s ty x (f y)"
  shows "key_conflicts s ty x (andThen m f)"
  unfolding key_conflicts_def
proof (intro allI impI)
  fix d d'
  assume "run_state (andThen m f) d = (Inl ErrConflict, d')"
  then show "has_key s ty x d"
  proof (cases rule: Inl_andThenE)
    case 1
    with assms(1) show ?thesis by (simp add: clean_def)
  next
    case (2 y d1)
    then have "has_key s ty x d1" using assms(3) by (auto simp: key_conflicts_def)
    with keepsD [OF assms(2) [unfolded adds_no_key_def], of d] 2(1) show ?thesis by simp
  qed
qed

lemma key_conflicts_after:
  assumes "key_conflicts s ty x m" "\<And>y. clean (f y)"
  shows "key_conflicts s ty x (andThen m f)"
  using assms by (auto simp: key_conflicts_def clean_def elim!: Inl_andThenE)

lemma key_conflicts_insert:
  "tx_StoreID t = s \<Longrightarrow> tx_Type t = ty \<Longrightarrow> tx_ExternalTxID t = x \<Longrightarrow>
   key_conflicts s ty x (stmt tf k (insertTransaction now t))"
  by (auto simp: key_conflicts_def has_key_def list_ex_iff split: if_splits dest!: insertTransaction_Conflict)

lemma key_conflicts_transaction: "key_conflicts s ty x m \<Longrightarrow> key_conflicts s ty x (transaction_of m)"
  by (auto simp: key_conflicts_def run_transaction_of split: prod.splits sum.splits)

lemma key_conflicts_leaf: "e \<noteq> ErrConflict \<Longrightarrow> key_conflicts s ty x (fail e)"
  by (rule key_conflicts_clean) (rule clean_ops)

lemmas key_conflict_rules = key_conflicts_transaction key_conflicts_after [OF key_conflicts_insert]
  key_conflicts_before key_conflicts_leaf clean_stmt clean_ops clean_andThen
  clean_insertOutboxEntry clean_insertOutboxEntries adds_no_key_stmt adds_no_key_ops adds_no_key_andThen

lemma Post_key_conflicts: "key_conflicts (tx_StoreID tx) (tx_Type tx) (tx_ExternalTxID tx) (Post tf now tx ns)"
  unfolding Post_def Let_def
  by (rule key_conflict_rules | simp split: option.split | intro conjI impI allI)+

lemma PostRedeemChecked_key_conflicts:
  "key_conflicts (tx_StoreID tx) (tx_Type tx) (tx_ExternalTxID tx) (PostRedeemChecked tf now tx mb dl w n)"
  unfolding PostRedeemChecked_def Let_def
  by (rule key_conflict_rules | simp split: option.split | intro conjI impI allI)+

lemma PostRefund_key_conflicts:
  "key_conflicts (tx_StoreID tx) TransactionRefund (tx_ExternalTxID tx) (PostRefund D tf now tx bn)"
  unfolding PostRefund_def Let_def
  by (rule key_conflict_rules | simp split: option.split | intro conjI impI allI)+

lemma extends_operation:
  "(\<And>r d'. run_state m d = (r, d') \<Longrightarrow> extends d d') \<Longrightarrow> extends d (snd (run_state m d))"
  by (metis prod.collapse)

lemma extends_Post: "keeps extends (Post tf now tx ns)"
proof
  show "extends d (snd (run_state (Post tf now tx ns) d))" for d
  proof (rule extends_operation)
    fix r d' assume "run_state (Post tf now tx ns) d = (r, d')"
    then show "extends d d'"
      by (cases r) (auto dest!: Post_Inl Post_Inr intro: post_effect_extends extends_same)
  qed
qed

lemma extends_PostRedeemChecked: "keeps extends (PostRedeemChecked tf now tx mb dl w n)"
proof
  show "extends d (snd (run_state (PostRedeemChecked tf now tx mb dl w n) d))" for d
  proof (rule extends_operation)
    fix r d' assume "run_state (PostRedeemChecked tf now tx mb dl w n) d = (r, d')"
    then show "extends d d'"
      by (cases r) (auto dest!: PostRedeemChecked_Inl PostRedeemChecked_effect intro: post_effect_extends extends_same)
  qed
qed

lemma extends_PostRefund: "keeps extends (PostRefund D tf now tx bn)"
proof
  show "extends d (snd (run_state (PostRefund D tf now tx bn) d))" for d
  proof (rule extends_operation)
    fix r d' assume "run_state (PostRefund D tf now tx bn) d = (r, d')"
    then show "extends d d'"
      by (cases r) (auto dest!: PostRefund_Inl PostRefund_effect intro: refund_effect_extends extends_same)
  qed
qed

text \<open>After a conflict the row can be looked up, and stays.\<close>

lemma conflict_found:
  assumes "growing E" "\<And>tf now. key_conflicts s ty x (m tf now)"
    "run_state (call_tx E l m) d = (Inl ErrConflict, d')" "\<And>tf now. keeps extends (m tf now)"
  shows "\<exists>t. find (same_key s ty x) (db_transactions d') = Some t"
proof -
  have m: "run_state (m (env_stmt E l) (env_now E l)) (env_other E l d) = (Inl ErrConflict, d')"
    using assms(3) by (auto simp: call_tx_def run_call split: fault.splits)
  then have "has_key s ty x (env_other E l d)" using assms(2) by (auto simp: key_conflicts_def)
  then obtain t where "find (same_key s ty x) (db_transactions (env_other E l d)) = Some t"
    by (cases "find (same_key s ty x) (db_transactions (env_other E l d))") (auto simp: has_key_def find_None list_ex_iff)
  moreover have "extends (env_other E l d) d'" using keepsD [OF assms(4), of "env_other E l d"] m by (metis snd_conv)
  ultimately show ?thesis using extends_transaction by blast
qed

lemma keyed_lookup:
  assumes "growing E" "find (same_key s ty x) (db_transactions d) = Some t"
    "run_state (call E l (tx_GetByExternalID s ty x)) d = (r, d')"
  shows "r \<noteq> Inl ErrNotFound"
proof -
  have "extends d (env_other E l d)" using assms(1) by (cases l) (simp add: growing_def)
  then obtain t' where "find (same_key s ty x) (db_transactions (env_other E l d)) = Some t'"
    using assms(2) extends_transaction by blast
  with assms(3) show ?thesis by (auto simp: run_call run_GetByExternalID split: fault.splits)
qed

end
