(* ===== verification/Outcomes.thy ===== *)
theory Outcomes
  imports Requests
begin

text \<open>
  What each posting operation returns when the database does not fail: the error, in the
  order in which the statements detect it, or the effect. These are the operations'
  abstract specifications; the statement sequences of \<open>Ledger\<close> implement them.
\<close>

section \<open>Statements that succeed\<close>

definition known_client :: "db \<Rightarrow> int \<Rightarrow> bool" where
  "known_client d c \<longleftrightarrow> list_ex (\<lambda>r. cl_ID r = c) (db_clients d)"

definition notifiable :: "db \<Rightarrow> outbox_entry option list \<Rightarrow> bool" where
  "notifiable d ns \<longleftrightarrow> (\<forall>n. Some n \<in> set ns \<longrightarrow> known_client d (out_ClientID n))"

lemma insertOutboxEntry_succeeds:
  assumes "\<not> tf k" "notifiable d [n]"
  shows "\<exists>d'. run_state (insertOutboxEntry tf k now n) d = (Inr (), d') \<and> db_clients d' = db_clients d"
  using assms
  by (cases n) (auto simp: insertOutboxEntry_def insert_outbox_def Let_def notifiable_def known_client_def)

lemma insertOutboxEntries_succeed:
  assumes "\<forall>k. \<not> tf k" "notifiable d ns"
  shows "\<exists>d'. run_state (insertOutboxEntries tf k now ns) d = (Inr (), d')"
  using assms(2)
proof (induction ns arbitrary: d k)
  case (Cons n ns)
  obtain d1 where 1: "run_state (insertOutboxEntry tf k now n) d = (Inr (), d1)" "db_clients d1 = db_clients d"
    using insertOutboxEntry_succeeds [of tf k d n now] assms(1) Cons.prems by (auto simp: notifiable_def)
  have "notifiable d1 ns" using Cons.prems 1(2) by (simp add: notifiable_def known_client_def)
  from Cons.IH [OF this] 1(1) show ?case by (simp add: run_andThen)
qed simp

section \<open>Accruals\<close>

text \<open>A client whose balance row exists or can be inserted.\<close>

definition fundable :: "db \<Rightarrow> int \<Rightarrow> bool" where
  "fundable d c \<longleftrightarrow> db_balances d c \<noteq> None \<or> known_client d c"

text \<open>The first thing that stops a posting: the order of the checks is the order of the statements.\<close>

definition post_error :: "db \<Rightarrow> transaction \<Rightarrow> err option" where
  "post_error d tx =
     (let points = points_of d (tx_ClientID tx) + tx_PointsDelta tx
      in if \<not> fundable d (tx_ClientID tx) then Some ErrInternal
         else if \<not> in_i64 points then Some ErrInternal
         else if points < 0 then Some ErrInsufficientBalance
         else case numeric 20 2 (tx_Amount tx) of
                None \<Rightarrow> Some ErrInternal
              | Some a \<Rightarrow>
                  if \<not> transaction_checks (ledger_row (db_seq d T_transactions + 1) 0 points a tx) then Some ErrInternal
                  else if has_key (tx_StoreID tx) (tx_Type tx) (tx_ExternalTxID tx) d then Some ErrConflict
                  else if \<not> list_ex (\<lambda>c. cl_ID c = tx_ClientID tx \<and> cl_StoreID c = tx_StoreID tx) (db_clients d)
                  then Some ErrInternal
                  else None)"

lemma run_ensureBalanceRow:
  "run_state (ensureBalanceRow c) d =
     (if \<not> fundable d c then (Inl ErrInternal, d)
      else (Inr (), d\<lparr>db_balances := (db_balances d)(c \<mapsto> points_of d c)\<rparr>))"
  by (auto simp: ensureBalanceRow_def fundable_def known_client_def points_of_def fun_upd_idem split: option.split)

lemma run_adjustBalance:
  "db_balances d c = Some p \<Longrightarrow> run_state (adjustBalance g c delta) d =
     (if \<not> in_i64 (p + delta) then (Inl ErrInternal, d)
      else if g \<and> p + delta < 0 then (Inr None, d)
      else (Inr (Some (p + delta)), d\<lparr>db_balances := (db_balances d)(c \<mapsto> p + delta)\<rparr>))"
  by (auto simp: adjustBalance_def)

definition insert_error :: "db \<Rightarrow> transaction \<Rightarrow> err option" where
  "insert_error d t =
     (case (numeric 20 2 (tx_Amount t), numeric 20 2 (tx_RefundCumulativeAmount t)) of
        (Some a, Some ca) \<Rightarrow>
          if \<not> transaction_checks (t\<lparr>tx_Amount := a\<rparr>) then Some ErrInternal
          else if has_key (tx_StoreID t) (tx_Type t) (tx_ExternalTxID t) d then Some ErrConflict
          else if \<not> list_ex (\<lambda>c. cl_ID c = tx_ClientID t \<and> cl_StoreID c = tx_StoreID t) (db_clients d)
          then Some ErrInternal
          else None
      | _ \<Rightarrow> Some ErrInternal)"

lemma transaction_checks_amount:
  "transaction_checks t \<longleftrightarrow> 0 \<le> tx_Amount t \<and>
     (tx_Type t = TransactionAccrual \<longrightarrow> 0 \<le> tx_PointsDelta t \<and> tx_OriginalTransactionID t = None) \<and>
     (tx_Type t = TransactionRedeem \<longrightarrow> tx_PointsDelta t \<le> 0 \<and> tx_OriginalTransactionID t = None) \<and>
     (tx_Type t = TransactionRefund \<longrightarrow> tx_OriginalTransactionID t \<noteq> None)"
  by (auto simp: transaction_checks_def split: transaction_type.split)

lemma run_insertTransaction:
  "case insert_error d t of
     Some e \<Rightarrow> fst (run_state (insertTransaction now t) d) = Inl e
   | None \<Rightarrow> \<exists>i d'. run_state (insertTransaction now t) d = (Inr i, d') \<and> db_clients d' = db_clients d"
  by (auto simp: insert_error_def insertTransaction_def Let_def has_key_def transaction_checks_amount
    split: option.splits)

lemma fst_eq_iff: "fst p = x \<longleftrightarrow> (\<exists>y. p = (x, y))"
  by (cases p) simp

lemma has_key_balances [simp]: "has_key s ty x (d\<lparr>db_balances := b\<rparr>) = has_key s ty x d"
  by (simp add: has_key_def)

lemma insert_error_balances [simp]: "insert_error (d\<lparr>db_balances := b\<rparr>) t = insert_error d t"
  by (simp add: insert_error_def has_key_def)

definition outcome :: "err option \<Rightarrow> (db, 'a) op \<Rightarrow> db \<Rightarrow> bool" where
  "outcome e m d \<longleftrightarrow>
     (case e of Some x \<Rightarrow> \<exists>d'. run_state m d = (Inl x, d') | None \<Rightarrow> \<exists>r d'. run_state m d = (Inr r, d'))"

lemma outcome_transaction: "outcome e m d \<Longrightarrow> outcome e (transaction_of m) d"
  by (auto simp: outcome_def run_transaction_of split: option.splits)

lemma outcome_then: "run_state m d = (Inr x, d1) \<Longrightarrow> outcome e (f x) d1 \<Longrightarrow> outcome e (andThen m f) d"
  by (simp add: outcome_def run_andThen split: option.splits)

lemma outcome_stop: "run_state m d = (Inl x, d1) \<Longrightarrow> outcome (Some x) (andThen m f) d"
  by (simp add: outcome_def run_andThen)

lemma outcome_fail: "outcome (Some x) (fail x) d"
  by (simp add: outcome_def)

text \<open>The tail of every posting: the insert, the notifications, the commit.\<close>

lemma posting_tail:
  assumes "\<not> tf k" "\<not> tf l" "\<And>d'. db_clients d' = db_clients d \<Longrightarrow> \<exists>d''. run_state m d' = (Inr (), d'')"
  shows "outcome (insert_error d row)
    (andThen (stmt tf k (insertTransaction now row)) (\<lambda>i. andThen m (\<lambda>_. andThen (stmt tf l (ok ())) (\<lambda>_. ok (f i))))) d"
proof (cases "insert_error d row")
  case None
  then obtain i d3 where 3: "run_state (insertTransaction now row) d = (Inr i, d3)" "db_clients d3 = db_clients d"
    using run_insertTransaction [where d = d and t = row and now = now] by auto
  obtain d4 where "run_state m d3 = (Inr (), d4)" using assms(3) [OF 3(2)] by blast
  with 3 assms(1,2) show ?thesis by (simp add: None outcome_def run_andThen)
next
  case (Some e)
  then obtain d3 where "run_state (insertTransaction now row) d = (Inl e, d3)"
    using run_insertTransaction [where d = d and t = row and now = now] by (auto simp: fst_eq_iff)
  with assms(1) Some show ?thesis by (simp add: outcome_stop)
qed

lemma Post_outcome:
  assumes "\<forall>k. \<not> tf k" "notifiable d ns"
  shows "outcome (post_error d tx) (Post tf now tx ns) d"
proof -
  let ?c = "tx_ClientID tx"
  let ?points = "points_of d ?c + tx_PointsDelta tx"
  define cur where "cur = (if tx_Currency tx = [] then DefaultCurrency else tx_Currency tx)"
  let ?row = "tx\<lparr>tx_Currency := cur,
     tx_BalanceAfter := ?points, tx_OriginalTransactionID := None, tx_RefundCumulativeAmount := 0,
     tx_RefundFullyRefunded := False\<rparr>"
  let ?d2 = "d\<lparr>db_balances := (db_balances d)(?c \<mapsto> ?points)\<rparr>"
  note [simp] = assms(1) [rule_format]
  consider (unknown) "\<not> fundable d ?c"
    | (range) "fundable d ?c" "\<not> in_i64 ?points"
    | (low) "fundable d ?c" "in_i64 ?points" "?points < 0"
    | (insert) "fundable d ?c" "in_i64 ?points" "0 \<le> ?points"
    by linarith
  then show ?thesis
  proof cases
    case insert
    have err: "post_error d tx = insert_error ?d2 ?row"
      using insert by (simp add: post_error_def insert_error_def Let_def transaction_checks_amount ledger_row_def
        not_less split: option.split)
    have "notifiable d' ns" if "db_clients d' = db_clients ?d2" for d'
      using assms(2) that by (simp add: notifiable_def known_client_def)
    then have outb: "\<exists>d''. run_state (insertOutboxEntries tf 5 now ns) d' = (Inr (), d'')" if "db_clients d' = db_clients ?d2" for d'
      using insertOutboxEntries_succeed [OF assms(1)] that by blast
    have 1: "run_state (stmt tf 0 (ok ())) d = (Inr (), d)"
      "run_state (stmt tf 1 (ensureBalanceRow ?c)) d = (Inr (), d\<lparr>db_balances := (db_balances d)(?c \<mapsto> points_of d ?c)\<rparr>)"
      "run_state (stmt tf 2 (adjustBalance True ?c (tx_PointsDelta tx)))
         (d\<lparr>db_balances := (db_balances d)(?c \<mapsto> points_of d ?c)\<rparr>) = (Inr (Some ?points), ?d2)"
      using insert by (simp_all add: run_ensureBalanceRow run_adjustBalance not_less)
    show ?thesis
      unfolding err Post_def Let_def cur_def [symmetric]
      apply (rule outcome_transaction outcome_then [OF 1(1)] outcome_then [OF 1(2)] outcome_then [OF 1(3)])+
      apply (simp only: option.case)
      apply (rule posting_tail)
      using outb by simp_all
  qed (auto simp: outcome_def post_error_def Let_def Post_def run_transaction_of run_andThen run_ensureBalanceRow run_adjustBalance)
qed

section \<open>Redemptions\<close>

definition redeem_error :: "db \<Rightarrow> time \<Rightarrow> transaction \<Rightarrow> int \<Rightarrow> int \<Rightarrow> duration \<Rightarrow> err option" where
  "redeem_error d now tx minBalance dailyLimit window =
     (let c = tx_ClientID tx;
          redeemed = window_redeemed c (now - window) (db_transactions d)
      in if \<not> fundable d c then Some ErrInternal
         else if points_of d c < minBalance then Some ErrInsufficientBalance
         else if 0 < dailyLimit \<and> \<not> in_i64 redeemed then Some ErrInternal
         else if 0 < dailyLimit \<and> wrap64 (redeemed - tx_PointsDelta tx) > dailyLimit then Some ErrDailyRedeemLimitExceeded
         else post_error d tx)"

abbreviation locked :: "db \<Rightarrow> int \<Rightarrow> db" where
  "locked d c \<equiv> d\<lparr>db_balances := (db_balances d)(c \<mapsto> points_of d c)\<rparr>"

abbreviation window_check :: "(nat \<Rightarrow> bool) \<Rightarrow> time \<Rightarrow> transaction \<Rightarrow> int \<Rightarrow> duration \<Rightarrow> (db, unit) op" where
  "window_check tf now tx dl w \<equiv>
     (if dl > 0
      then andThen (stmt tf 3 (windowRedeemed (tx_ClientID tx) (now - w))) (\<lambda>redeemedInWindow.
           if wrap64 (redeemedInWindow - tx_PointsDelta tx) > dl then fail ErrDailyRedeemLimitExceeded else ok ())
      else ok ())"

lemma run_window_check:
  assumes "\<forall>k. \<not> tf k"
  shows "run_state (window_check tf now tx dl w) (locked d c) =
    (let redeemed = window_redeemed (tx_ClientID tx) (now - w) (db_transactions d) in
     (if 0 < dl \<and> \<not> in_i64 redeemed then Inl ErrInternal
      else if 0 < dl \<and> wrap64 (redeemed - tx_PointsDelta tx) > dl then Inl ErrDailyRedeemLimitExceeded else Inr (),
      locked d c))"
  using assms by (simp add: run_andThen windowRedeemed_def Let_def)

text \<open>The statements up to the lock of the balance row.\<close>

lemma redeem_locks:
  assumes "\<forall>k. \<not> tf k" "fundable d c"
  shows "run_state (stmt tf 0 (ok ())) d = (Inr (), d)"
    and "run_state (stmt tf 1 (ensureBalanceRow c)) d = (Inr (), locked d c)"
    and "run_state (stmt tf 2 (lockBalance c)) (locked d c) = (Inr (points_of d c), locked d c)"
  using assms by (simp_all add: run_ensureBalanceRow lockBalance_def)

lemma redeem_low:
  assumes "\<forall>k. \<not> tf k" "fundable d (tx_ClientID tx)" "points_of d (tx_ClientID tx) < mb"
  shows "outcome (Some ErrInsufficientBalance) (PostRedeemChecked tf now tx mb dl w n) d"
proof -
  note enter = outcome_transaction redeem_locks [OF assms(1,2), THEN outcome_then]
  show ?thesis unfolding PostRedeemChecked_def
    by (intro enter, simp only: assms(3) if_True, rule outcome_fail)
qed

lemma redeem_limited:
  assumes "\<forall>k. \<not> tf k" "fundable d (tx_ClientID tx)" "\<not> points_of d (tx_ClientID tx) < mb"
    and check: "run_state (window_check tf now tx dl w) (locked d (tx_ClientID tx)) = (Inl e, locked d (tx_ClientID tx))"
  shows "outcome (Some e) (PostRedeemChecked tf now tx mb dl w n) d"
proof -
  note enter = outcome_transaction redeem_locks [OF assms(1,2), THEN outcome_then]
  show ?thesis unfolding PostRedeemChecked_def
    by (intro enter, simp only: assms(3) if_False, rule outcome_stop [OF check])
qed

text \<open>What the lock lets through is posted like an accrual.\<close>

lemma redeem_overdrawn:
  assumes "\<forall>k. \<not> tf k" "fundable d (tx_ClientID tx)" "\<not> points_of d (tx_ClientID tx) < mb"
    and check: "run_state (window_check tf now tx dl w) (locked d (tx_ClientID tx)) = (Inr (), locked d (tx_ClientID tx))"
    and over: "\<not> (in_i64 (points_of d (tx_ClientID tx) + tx_PointsDelta tx) \<and> 0 \<le> points_of d (tx_ClientID tx) + tx_PointsDelta tx)"
  shows "outcome (post_error d tx) (PostRedeemChecked tf now tx mb dl w n) d"
proof -
  note enter = outcome_transaction redeem_locks [OF assms(1,2), THEN outcome_then] outcome_then [OF check]
  note [simp] = assms(1) [rule_format]
  let ?c = "tx_ClientID tx"
  let ?adj = "run_state (stmt tf 4 (adjustBalance True ?c (tx_PointsDelta tx))) (locked d ?c)"
  show ?thesis
  proof (cases "in_i64 (points_of d ?c + tx_PointsDelta tx)")
    case True
    with over assms(2) have adj: "?adj = (Inr None, locked d ?c)" and "post_error d tx = Some ErrInsufficientBalance"
      by (simp_all add: run_adjustBalance post_error_def Let_def)
    then show ?thesis
      unfolding PostRedeemChecked_def
      by (simp only:) (intro enter, simp only: assms(3) if_False, intro enter outcome_then [OF adj], simp only: option.case,
        rule outcome_fail)
  next
    case False
    with assms(2) have adj: "?adj = (Inl ErrInternal, locked d ?c)" and "post_error d tx = Some ErrInternal"
      by (simp_all add: run_adjustBalance post_error_def Let_def)
    then show ?thesis
      unfolding PostRedeemChecked_def
      by (simp only:) (intro enter, simp only: assms(3) if_False, intro enter, rule outcome_stop [OF adj])
  qed
qed

lemma redeem_posts:
  assumes "\<forall>k. \<not> tf k" "fundable d (tx_ClientID tx)" "\<not> points_of d (tx_ClientID tx) < mb" "notifiable d [n]"
    and check: "run_state (window_check tf now tx dl w) (locked d (tx_ClientID tx)) = (Inr (), locked d (tx_ClientID tx))"
    and enough: "in_i64 (points_of d (tx_ClientID tx) + tx_PointsDelta tx)" "0 \<le> points_of d (tx_ClientID tx) + tx_PointsDelta tx"
  shows "outcome (post_error d tx) (PostRedeemChecked tf now tx mb dl w n) d"
proof -
  note enter = outcome_transaction redeem_locks [OF assms(1,2), THEN outcome_then] outcome_then [OF check]
  note [simp] = assms(1) [rule_format]
  let ?c = "tx_ClientID tx" and ?points = "points_of d (tx_ClientID tx) + tx_PointsDelta tx"
  let ?d2 = "d\<lparr>db_balances := (db_balances d)(?c \<mapsto> ?points)\<rparr>"
  define cur where "cur = (if tx_Currency tx = [] then DefaultCurrency else tx_Currency tx)"
  let ?row = "tx\<lparr>tx_Currency := cur, tx_BalanceAfter := ?points, tx_OriginalTransactionID := None, tx_RefundCumulativeAmount := 0,
     tx_RefundFullyRefunded := False\<rparr>"
  have err: "post_error d tx = insert_error ?d2 ?row"
    using assms(2) enough by (simp add: post_error_def insert_error_def Let_def transaction_checks_amount ledger_row_def
      not_less split: option.split)
  have adj: "run_state (stmt tf 4 (adjustBalance True ?c (tx_PointsDelta tx))) (locked d ?c) = (Inr (Some ?points), ?d2)"
    using enough by (simp add: run_adjustBalance not_less)
  have outb: "\<exists>d''. run_state (insertOutboxEntry tf 7 now n) d' = (Inr (), d'')" if "db_clients d' = db_clients ?d2" for d'
    using insertOutboxEntry_succeeds [of tf 7 d' n now] assms(4) that by (auto simp: notifiable_def known_client_def)
  show ?thesis
    unfolding err PostRedeemChecked_def Let_def cur_def [symmetric]
    by (intro enter, simp only: assms(3) if_False, intro enter outcome_then [OF adj], simp only: option.case,
      rule posting_tail) (use outb in simp_all)
qed

lemma PostRedeemChecked_outcome:
  assumes "\<forall>k. \<not> tf k" "notifiable d [n]"
  shows "outcome (redeem_error d now tx mb dl w) (PostRedeemChecked tf now tx mb dl w n) d"
proof (cases "fundable d (tx_ClientID tx)")
  case False
  then show ?thesis
    using assms(1) by (simp add: outcome_def redeem_error_def Let_def PostRedeemChecked_def run_transaction_of run_andThen
      run_ensureBalanceRow)
next
  case fund: True
  let ?c = "tx_ClientID tx"
  obtain r where check: "run_state (window_check tf now tx dl w) (locked d ?c) = (r, locked d ?c)"
    by (simp only: run_window_check [OF assms(1)] Let_def)
  show ?thesis
  proof (cases "points_of d ?c < mb")
    case True
    then have "redeem_error d now tx mb dl w = Some ErrInsufficientBalance" using fund by (simp add: redeem_error_def Let_def)
    with redeem_low [OF assms(1) fund True] show ?thesis by simp
  next
    case mb: False
    show ?thesis
    proof (cases r)
      case (Inl e)
      then have "redeem_error d now tx mb dl w = Some e"
        using check fund mb unfolding run_window_check [OF assms(1)] Let_def
        by (auto simp: redeem_error_def Let_def split: if_splits)
      with redeem_limited [OF assms(1) fund mb check [unfolded Inl]] show ?thesis by simp
    next
      case (Inr u)
      then have check: "run_state (window_check tf now tx dl w) (locked d ?c) = (Inr (), locked d ?c)" using check by simp
      then have "redeem_error d now tx mb dl w = post_error d tx"
        using fund mb unfolding run_window_check [OF assms(1)] Let_def
        by (auto simp: redeem_error_def Let_def split: if_splits)
      with redeem_posts [OF assms(1) fund mb assms(2) check] redeem_overdrawn [OF assms(1) fund mb check]
      show ?thesis by (cases "in_i64 (points_of d ?c + tx_PointsDelta tx) \<and> 0 \<le> points_of d ?c + tx_PointsDelta tx") auto
    qed
  qed
qed

section \<open>Refunds\<close>

definition refund_error :: "decimal_lib \<Rightarrow> db \<Rightarrow> transaction \<Rightarrow> err option" where
  "refund_error D d refund =
     (case tx_OriginalTransactionID refund of
        None \<Rightarrow> Some ErrInternal
      | Some oid \<Rightarrow>
          (case find (\<lambda>t. tx_ID t = oid \<and> tx_StoreID t = tx_StoreID refund) (db_transactions d) of
             None \<Rightarrow> Some ErrNotFound
           | Some original \<Rightarrow>
               let cum = tx_RefundedAmount original + tx_Amount refund;
                   delta = refund_delta D original cum;
                   points = points_of d (tx_ClientID original) + delta
               in if tx_Type original = TransactionRefund then Some ErrCannotRefundRefund
                  else if cum > tx_Amount original then Some ErrOverRefund
                  else if numeric 20 2 cum = None then Some ErrInternal
                  else if \<not> fundable d (tx_ClientID original) \<or> \<not> in_i64 points then Some ErrInternal
                  else if tx_Type original = TransactionRedeem \<and> points < 0 then Some ErrInsufficientBalance
                  else insert_error d (refund\<lparr>tx_ClientID := tx_ClientID original, tx_Type := TransactionRefund,
                         tx_OriginalTransactionID := Some (tx_ID original), tx_RefundCumulativeAmount := cum\<rparr>)))"

lemma run_lockOriginal:
  "run_state (lockOriginal i s) d =
     (case find (\<lambda>t. tx_ID t = i \<and> tx_StoreID t = s) (db_transactions d) of
        None \<Rightarrow> Inl ErrNotFound | Some t \<Rightarrow> Inr t, d)"
  by (simp add: lockOriginal_def split: option.split)

lemma run_updateOriginal:
  "run_state (updateOriginal i amount p) d =
     (case numeric 20 2 amount of
        None \<Rightarrow> (Inl ErrInternal, d)
      | Some a \<Rightarrow> (Inr (), d\<lparr>db_transactions := map (mark_refunded i a p) (db_transactions d)\<rparr>))"
  by (simp add: updateOriginal_def mark_refunded_def [abs_def] split: option.split)

lemma insert_error_state:
  assumes "\<And>s ty x. has_key s ty x d' = has_key s ty x d" "db_clients d' = db_clients d"
  shows "insert_error d' t = insert_error d t"
  using assms by (simp add: insert_error_def cong: option.case_cong)

lemma has_key_marked [simp]:
  "has_key s ty x (d\<lparr>db_transactions := map (mark_refunded i a p) (db_transactions d), db_balances := b\<rparr>) = has_key s ty x d"
  by (simp add: has_key_def list_ex_iff)

lemma insert_error_cong:
  assumes "tx_Amount t = tx_Amount u" "tx_RefundCumulativeAmount t = tx_RefundCumulativeAmount u"
    "tx_Type t = TransactionRefund" "tx_Type u = TransactionRefund" "tx_StoreID t = tx_StoreID u"
    "tx_ExternalTxID t = tx_ExternalTxID u" "tx_ClientID t = tx_ClientID u"
    "tx_OriginalTransactionID t = tx_OriginalTransactionID u"
  shows "insert_error d t = insert_error d u"
proof -
  have "transaction_checks (t\<lparr>tx_Amount := a\<rparr>) = transaction_checks (u\<lparr>tx_Amount := a\<rparr>)" for a
    using assms by (simp add: transaction_checks_amount)
  then show ?thesis by (simp only: insert_error_def assms)
qed

definition refund_tail :: "decimal_lib \<Rightarrow> (nat \<Rightarrow> bool) \<Rightarrow> time \<Rightarrow> transaction \<Rightarrow> (int \<Rightarrow> outbox_entry option) option \<Rightarrow>
    transaction \<Rightarrow> rat \<Rightarrow> int \<Rightarrow> int \<Rightarrow> (db, transaction \<times> transaction \<times> balance) op" where
  "refund_tail D tf now refund bn original cum cp delta =
     andThen (stmt tf 3 (ensureBalanceRow (tx_ClientID original))) (\<lambda>_.
     andThen (stmt tf 4 (adjustBalance (tx_Type original \<noteq> TransactionAccrual) (tx_ClientID original) delta)) (\<lambda>r.
     case r of
       None \<Rightarrow> fail (if tx_Type original = TransactionAccrual then ErrInternal else ErrInsufficientBalance)
     | Some points \<Rightarrow>
         andThen (stmt tf 5 (insertTransaction now (refund\<lparr>tx_ClientID := tx_ClientID original,
                      tx_Currency := tx_Currency original, tx_Type := TransactionRefund, tx_PointsDelta := delta,
                      tx_BalanceAfter := points, tx_RuleVersion := None,
                      tx_OriginalTransactionID := Some (tx_ID original), tx_RefundCumulativeAmount := cum,
                      tx_RefundFullyRefunded := (cum = tx_Amount original)\<rparr>))) (\<lambda>i.
         andThen (insertOutboxEntry tf 7 now (case bn of None \<Rightarrow> None | Some b \<Rightarrow> b delta)) (\<lambda>_.
         andThen (stmt tf 6 (ok ())) (\<lambda>_.
           ok (refund\<lparr>tx_ClientID := tx_ClientID original, tx_Currency := tx_Currency original,
                 tx_Type := TransactionRefund, tx_PointsDelta := delta, tx_BalanceAfter := points,
                 tx_RuleVersion := None, tx_OriginalTransactionID := Some (tx_ID original),
                 tx_RefundCumulativeAmount := cum, tx_RefundFullyRefunded := (cum = tx_Amount original),
                 tx_ID := i, tx_CreatedAt := now, tx_RuleVersion := tx_RuleVersion refund\<rparr>,
               original\<lparr>tx_RefundedAmount := cum, tx_RefundedPoints := cp\<rparr>,
               \<lparr>bal_ClientID = tx_ClientID original, bal_Points = points\<rparr>))))))"

lemma PostRefund_unfold:
  "PostRefund D tf now refund bn =
     transaction_of (
       andThen (stmt tf 0 (ok ())) (\<lambda>_.
       case tx_OriginalTransactionID refund of
         None \<Rightarrow> fail ErrInternal
       | Some oid \<Rightarrow>
       andThen (stmt tf 1 (lockOriginal oid (tx_StoreID refund))) (\<lambda>original.
       let cum = tx_RefundedAmount original + tx_Amount refund
       in if tx_Type original = TransactionRefund then fail ErrCannotRefundRefund
          else if cum > tx_Amount original then fail ErrOverRefund
          else andThen (stmt tf 2 (updateOriginal (tx_ID original) cum (refund_cumulative_points D original cum)))
            (\<lambda>_. refund_tail D tf now refund bn original cum (refund_cumulative_points D original cum)
                    (refund_delta D original cum)))))"
  unfolding PostRefund_def Let_def refund_tail_def refund_delta_def by simp

lemma refund_tail_outcome:
  assumes "\<forall>k. \<not> tf k" "\<And>b. bn = Some b \<Longrightarrow> notifiable d [b delta]" "\<And>s ty x. has_key s ty x d1 = has_key s ty x d"
    "db_clients d1 = db_clients d" "db_balances d1 = db_balances d"
  shows "outcome
    (let points = points_of d (tx_ClientID original) + delta
     in if \<not> fundable d (tx_ClientID original) \<or> \<not> in_i64 points then Some ErrInternal
        else if tx_Type original \<noteq> TransactionAccrual \<and> points < 0 then Some ErrInsufficientBalance
        else insert_error d (refund\<lparr>tx_ClientID := tx_ClientID original, tx_Type := TransactionRefund,
               tx_OriginalTransactionID := Some (tx_ID original), tx_RefundCumulativeAmount := cum\<rparr>))
    (refund_tail D tf now refund bn original cum cp delta) d1"
proof -
  note [simp] = assms(1) [rule_format]
  let ?c = "tx_ClientID original"
  let ?points = "points_of d ?c + delta"
  let ?row = "refund\<lparr>tx_ClientID := ?c, tx_Currency := tx_Currency original, tx_Type := TransactionRefund,
    tx_PointsDelta := delta, tx_BalanceAfter := ?points, tx_RuleVersion := None,
    tx_OriginalTransactionID := Some (tx_ID original), tx_RefundCumulativeAmount := cum,
    tx_RefundFullyRefunded := (cum = tx_Amount original)\<rparr>"
  let ?d2 = "d1\<lparr>db_balances := (db_balances d)(?c \<mapsto> points_of d ?c)\<rparr>"
  let ?d3 = "d1\<lparr>db_balances := (db_balances d)(?c \<mapsto> ?points)\<rparr>"
  have fund: "fundable d1 ?c = fundable d ?c" and pts: "points_of d1 ?c = points_of d ?c"
    using assms(4,5) by (simp_all add: fundable_def known_client_def points_of_def)
  have 1: "run_state (stmt tf 3 (ensureBalanceRow ?c)) d1 = (Inr (), ?d2)" if "fundable d ?c"
    using that by (simp add: run_ensureBalanceRow fund pts assms(5))
  consider (stop) "\<not> fundable d ?c" | (range) "fundable d ?c" "\<not> in_i64 ?points"
    | (low) "fundable d ?c" "in_i64 ?points" "tx_Type original \<noteq> TransactionAccrual" "?points < 0"
    | (insert) "fundable d ?c" "in_i64 ?points" "\<not> (tx_Type original \<noteq> TransactionAccrual \<and> ?points < 0)" by blast
  then show ?thesis
  proof cases
    case stop
    then show ?thesis by (simp add: refund_tail_def outcome_def run_andThen run_ensureBalanceRow fund)
  next
    case range
    then show ?thesis by (simp add: refund_tail_def outcome_def run_andThen run_ensureBalanceRow fund pts assms(5) run_adjustBalance)
  next
    case low
    then show ?thesis by (simp add: refund_tail_def outcome_def run_andThen run_ensureBalanceRow fund pts assms(5) run_adjustBalance)
  next
    case insert
    have 2: "run_state (stmt tf 4 (adjustBalance (tx_Type original \<noteq> TransactionAccrual) ?c delta)) ?d2 = (Inr (Some ?points), ?d3)"
      using insert by (auto simp: run_adjustBalance)
    have "notifiable d' [case bn of None \<Rightarrow> None | Some b \<Rightarrow> b delta]" if "db_clients d' = db_clients ?d3" for d'
      using assms(2,4) that by (simp add: notifiable_def known_client_def split: option.split)
    then have outb: "\<exists>d''. run_state (insertOutboxEntry tf 7 now (case bn of None \<Rightarrow> None | Some b \<Rightarrow> b delta)) d' = (Inr (), d'')"
      if "db_clients d' = db_clients ?d3" for d'
      using insertOutboxEntry_succeeds [of tf 7 d' "case bn of None \<Rightarrow> None | Some b \<Rightarrow> b delta" now] that by auto
    have err: "insert_error ?d3 ?row = insert_error d (refund\<lparr>tx_ClientID := ?c, tx_Type := TransactionRefund,
               tx_OriginalTransactionID := Some (tx_ID original), tx_RefundCumulativeAmount := cum\<rparr>)"
      by (rule trans [OF insert_error_state insert_error_cong]) (simp_all add: assms)
    have "outcome (insert_error ?d3 ?row) (refund_tail D tf now refund bn original cum cp delta) d1"
      unfolding refund_tail_def
      apply (rule outcome_then [OF 1 [OF insert(1)]])
      apply (rule outcome_then [OF 2])
      apply (simp only: option.case)
      apply (rule posting_tail)
      using outb by simp_all
    then show ?thesis using insert unfolding err by (auto simp: Let_def)
  qed
qed

text \<open>From the locked original on.\<close>

lemma refund_of_original_outcome:
  assumes "\<forall>k. \<not> tf k" "\<And>delta b. bn = Some b \<Longrightarrow> notifiable d [b delta]"
  shows "outcome
    (if tx_Type original = TransactionRefund then Some ErrCannotRefundRefund
     else if tx_Amount original < cum then Some ErrOverRefund
     else if numeric 20 2 cum = None then Some ErrInternal
     else (let points = points_of d (tx_ClientID original) + delta
       in if \<not> fundable d (tx_ClientID original) \<or> \<not> in_i64 points then Some ErrInternal
          else if tx_Type original \<noteq> TransactionAccrual \<and> points < 0 then Some ErrInsufficientBalance
          else insert_error d (refund\<lparr>tx_ClientID := tx_ClientID original, tx_Type := TransactionRefund,
            tx_OriginalTransactionID := Some (tx_ID original), tx_RefundCumulativeAmount := cum\<rparr>)))
    (if tx_Type original = TransactionRefund then fail ErrCannotRefundRefund
     else if cum > tx_Amount original then fail ErrOverRefund
     else andThen (stmt tf 2 (updateOriginal (tx_ID original) cum cp))
       (\<lambda>_. refund_tail D tf now refund bn original cum cp delta)) d"
proof (cases "numeric 20 2 cum")
  case None
  with assms(1) have "run_state (stmt tf 2 (updateOriginal (tx_ID original) cum cp)) d = (Inl ErrInternal, d)"
    by (simp add: run_updateOriginal)
  with None show ?thesis by (simp add: outcome_fail outcome_stop)
next
  case (Some ca)
  then have "run_state (stmt tf 2 (updateOriginal (tx_ID original) cum cp)) d =
      (Inr (), d\<lparr>db_transactions := map (mark_refunded (tx_ID original) ca cp) (db_transactions d)\<rparr>)"
    using assms(1) by (simp add: run_updateOriginal)
  note tail = outcome_then [OF this refund_tail_outcome [OF assms(1)]]
  show ?thesis
  proof (cases "tx_Type original = TransactionRefund \<or> tx_Amount original < cum")
    case True
    then show ?thesis by (auto simp: outcome_fail)
  next
    case False
    then have *: "(tx_Type original = TransactionRefund) = False" "(tx_Amount original < cum) = False"
      "(numeric 20 2 cum = None) = False"
      using Some by simp_all
    show ?thesis unfolding * if_False by (rule tail) (simp_all add: assms(2) has_key_def list_ex_iff)
  qed
qed

lemma refund_error_of_original:
  assumes "tx_OriginalTransactionID refund = Some oid"
    "find (\<lambda>t. tx_ID t = oid \<and> tx_StoreID t = tx_StoreID refund) (db_transactions d) = Some original"
    "cum = tx_RefundedAmount original + tx_Amount refund" "delta = refund_delta D original cum"
  shows "refund_error D d refund =
    (if tx_Type original = TransactionRefund then Some ErrCannotRefundRefund
     else if tx_Amount original < cum then Some ErrOverRefund
     else if numeric 20 2 cum = None then Some ErrInternal
     else (let points = points_of d (tx_ClientID original) + delta
       in if \<not> fundable d (tx_ClientID original) \<or> \<not> in_i64 points then Some ErrInternal
          else if tx_Type original \<noteq> TransactionAccrual \<and> points < 0 then Some ErrInsufficientBalance
          else insert_error d (refund\<lparr>tx_ClientID := tx_ClientID original, tx_Type := TransactionRefund,
            tx_OriginalTransactionID := Some (tx_ID original), tx_RefundCumulativeAmount := cum\<rparr>)))"
  using assms by (cases "tx_Type original") (simp_all add: refund_error_def Let_def)

lemma PostRefund_outcome:
  assumes "\<forall>k. \<not> tf k" "\<And>delta b. bn = Some b \<Longrightarrow> notifiable d [b delta]"
  shows "outcome (refund_error D d refund) (PostRefund D tf now refund bn) d"
proof (cases "tx_OriginalTransactionID refund")
  case None
  then show ?thesis using assms(1) by (simp add: outcome_def refund_error_def PostRefund_def run_transaction_of run_andThen)
next
  case oid: (Some oid)
  show ?thesis
  proof (cases "find (\<lambda>t. tx_ID t = oid \<and> tx_StoreID t = tx_StoreID refund) (db_transactions d)")
    case None
    with oid show ?thesis
      using assms(1) by (simp add: outcome_def refund_error_def PostRefund_def run_transaction_of run_andThen run_lockOriginal)
  next
    case original: (Some original)
    have 0: "run_state (stmt tf 0 (ok ())) d = (Inr (), d)" using assms(1) by simp
    have 1: "run_state (stmt tf 1 (lockOriginal oid (tx_StoreID refund))) d = (Inr original, d)"
      using original assms(1) by (simp add: run_lockOriginal)
    show ?thesis
      unfolding PostRefund_unfold oid option.case Let_def refund_error_of_original [OF oid original refl refl]
      by (intro outcome_transaction outcome_then [OF 0] outcome_then [OF 1])
        (rule refund_of_original_outcome [unfolded Let_def, OF assms(1)], rule assms(2))
  qed
qed

end
