(* ===== verification/Accrual.thy ===== *)
theory Accrual
  imports Outcomes
begin

text \<open>
  How an accrual request runs: the ways it can succeed, what a success leaves in the database,
  and that this is what every later delivery of the same request reads back.
\<close>

section \<open>Successful runs\<close>

definition canonical_phone :: "string \<Rightarrow> string" where
  "canonical_phone raw = (case NormalizePhone raw of Some p \<Rightarrow> p | None \<Rightarrow> raw)"

lemma Accrue_Inr:
  assumes "run_state (Accrue D svc E req) d = (Inr res, d')"
  obtains
    (replay) r where "res = Some r"
      "run_state (replayedAccrue D E 0 (ar_StoreID req) (ar_ExternalTxID req) (canonical_phone (ar_Phone req)) (ar_Amount req)) d
         = (Inr (Some r), d')"
  | (post) d1 d2 d3 d4 client created invite tx pst bal where
      "run_state (replayedAccrue D E 0 (ar_StoreID req) (ar_ExternalTxID req) (canonical_phone (ar_Phone req)) (ar_Amount req)) d
         = (Inr None, d1)"
      "run_state (resolveOrCreateClient E (ar_StoreID req) (canonical_phone (ar_Phone req))) d1 = (Inr (client, created), d2)"
      "run_state (if created \<and> NormalizePhone (ar_Phone req) \<noteq> None then appInvite (svc_invites svc) E client else ok None) d2
         = (Inr invite, d3)"
      "run_state (accrualPoints D E (ar_StoreID req)
         (accrual_tx D (ar_StoreID req) (cl_ID client) (ar_ExternalTxID req) (ar_Amount req))) d3 = (Inr tx, d4)"
      "run_state (call_tx E (''accrue.Post'', 0) (\<lambda>tf now. Post tf now tx
         [accrualNotify (ar_StoreID req) (ar_ExternalTxID req) (cl_ID client) (tx_PointsDelta tx), invite])) d4
         = (Inr (pst, bal), d')"
      "res = Some \<lparr>ares_ClientID = cl_ID client, ares_PointsEarned = tx_PointsDelta pst,
                    ares_Balance = bal_Points bal, ares_Replayed = False\<rparr>"
  | (race) d1 d2 d3 d4 d5 client created invite tx where
      "run_state (replayedAccrue D E 0 (ar_StoreID req) (ar_ExternalTxID req) (canonical_phone (ar_Phone req)) (ar_Amount req)) d
         = (Inr None, d1)"
      "run_state (resolveOrCreateClient E (ar_StoreID req) (canonical_phone (ar_Phone req))) d1 = (Inr (client, created), d2)"
      "run_state (if created \<and> NormalizePhone (ar_Phone req) \<noteq> None then appInvite (svc_invites svc) E client else ok None) d2
         = (Inr invite, d3)"
      "run_state (accrualPoints D E (ar_StoreID req)
         (accrual_tx D (ar_StoreID req) (cl_ID client) (ar_ExternalTxID req) (ar_Amount req))) d3 = (Inr tx, d4)"
      "run_state (call_tx E (''accrue.Post'', 0) (\<lambda>tf now. Post tf now tx
         [accrualNotify (ar_StoreID req) (ar_ExternalTxID req) (cl_ID client) (tx_PointsDelta tx), invite])) d4
         = (Inl ErrConflict, d5)"
      "run_state (replayedAccrue D E 1 (ar_StoreID req) (ar_ExternalTxID req) (canonical_phone (ar_Phone req)) (ar_Amount req)) d5
         = (Inr res, d')"
proof -
  from assms obtain r0 d1 where 0: "run_state (replayedAccrue D E 0 (ar_StoreID req) (ar_ExternalTxID req)
      (canonical_phone (ar_Phone req)) (ar_Amount req)) d = (Inr r0, d1)"
    unfolding Accrue_def Let_def canonical_phone_def [symmetric] by (elim Inr_andThenE) simp
  show thesis
  proof (cases r0)
    case (Some r)
    with 0 assms have "res = Some r" "d1 = d'"
      by (simp_all add: Accrue_def Let_def canonical_phone_def [symmetric] run_andThen)
    with 0 Some show thesis by (intro replay) simp_all
  next
    case None
    from assms 0 None obtain client created d2 invite d3 tx d4 r d5 where
      1: "run_state (resolveOrCreateClient E (ar_StoreID req) (canonical_phone (ar_Phone req))) d1 = (Inr (client, created), d2)"
        "run_state (if created \<and> NormalizePhone (ar_Phone req) \<noteq> None then appInvite (svc_invites svc) E client else ok None) d2
         = (Inr invite, d3)"
        "run_state (accrualPoints D E (ar_StoreID req)
         (accrual_tx D (ar_StoreID req) (cl_ID client) (ar_ExternalTxID req) (ar_Amount req))) d3 = (Inr tx, d4)"
        "run_state (call_tx E (''accrue.Post'', 0) (\<lambda>tf now. Post tf now tx
         [accrualNotify (ar_StoreID req) (ar_ExternalTxID req) (cl_ID client) (tx_PointsDelta tx), invite])) d4 = (r, d5)"
      and 2: "run_state (case r of
          Inl e \<Rightarrow>
            if e = ErrConflict
            then replayedAccrue D E 1 (ar_StoreID req) (ar_ExternalTxID req) (canonical_phone (ar_Phone req)) (ar_Amount req)
            else fail e
        | Inr (posted, balance) \<Rightarrow>
            ok (Some \<lparr>ares_ClientID = cl_ID client, ares_PointsEarned = tx_PointsDelta posted,
                      ares_Balance = bal_Points balance, ares_Replayed = False\<rparr>)) d5 = (Inr res, d')"
      unfolding Accrue_def Let_def canonical_phone_def [symmetric] accrual_tx_def [symmetric]
      by (auto simp: run_andThen split: prod.splits sum.splits)
    show thesis
    proof (cases r)
      case (Inl e)
      with 2 have "e = ErrConflict" by (auto split: if_splits)
      with 0 1 2 None Inl race show thesis by simp
    next
      case (Inr pb)
      then obtain pst bal where "r = Inr (pst, bal)" by (cases pb) auto
      with 0 1 2 None post show thesis by simp
    qed
  qed
qed

section \<open>The answer the database holds\<close>

text \<open>
  What a delivery of the request reads back: the row under its key, if the client its phone
  resolves to and its amount give that row's fingerprint.
\<close>

definition accrue_answer :: "decimal_lib \<Rightarrow> int \<Rightarrow> string \<Rightarrow> string \<Rightarrow> rat \<Rightarrow> db \<Rightarrow> accrue_result option" where
  "accrue_answer D s x ph a d =
     (case (find (same_key s TransactionAccrual x) (db_transactions d),
            find (\<lambda>c. cl_StoreID c = s \<and> cl_Phone c = ph) (db_clients d)) of
        (Some t, Some c) \<Rightarrow>
          if tx_RequestFingerprint t = accrualFingerprint D (cl_ID c) a
          then Some \<lparr>ares_ClientID = tx_ClientID t, ares_PointsEarned = tx_PointsDelta t,
                     ares_Balance = tx_BalanceAfter t, ares_Replayed = True\<rparr>
          else None
      | _ \<Rightarrow> None)"

lemma accrue_answer_extends:
  assumes "extends d d'" "accrue_answer D s x ph a d = Some r"
  shows "accrue_answer D s x ph a d' = Some r"
proof -
  obtain t c where t: "find (same_key s TransactionAccrual x) (db_transactions d) = Some t"
    and c: "find (\<lambda>c. cl_StoreID c = s \<and> cl_Phone c = ph) (db_clients d) = Some c"
    using assms(2) by (auto simp: accrue_answer_def split: option.splits)
  obtain t' c' where t': "find (same_key s TransactionAccrual x) (db_transactions d') = Some t'" "core t' = core t"
    and c': "find (\<lambda>c. cl_StoreID c = s \<and> cl_Phone c = ph) (db_clients d') = Some c'" "cl_ID c' = cl_ID c"
    using extends_transaction [OF assms(1) t] extends_client [OF assms(1) c] by auto
  from assms(2) show ?thesis
    by (simp only: accrue_answer_def t c t'(1) c' prod.case option.case core_sel [OF t'(2)])
qed

text \<open>The second half of a replay: the row is found, the client is looked up.\<close>

definition accrue_compare :: "decimal_lib \<Rightarrow> rat \<Rightarrow> transaction \<Rightarrow> err + client \<Rightarrow> err + accrue_result option" where
  "accrue_compare D a t r =
     (case r of
        Inl e \<Rightarrow> if e = ErrNotFound then Inl ErrIdempotencyConflict else Inl e
      | Inr c \<Rightarrow>
          if tx_RequestFingerprint t \<noteq> accrualFingerprint D (cl_ID c) a then Inl ErrIdempotencyConflict
          else Inr (Some \<lparr>ares_ClientID = tx_ClientID t, ares_PointsEarned = tx_PointsDelta t,
                          ares_Balance = tx_BalanceAfter t, ares_Replayed = True\<rparr>))"

lemma run_replayedAccrue:
  "run_state (replayedAccrue D E k s x ph a) d =
     (case run_state (call E (''accrue.GetByExternalID'', k) (tx_GetByExternalID s TransactionAccrual x)) d of
        (Inl e, d1) \<Rightarrow> (if e = ErrNotFound then Inr None else Inl e, d1)
      | (Inr t, d1) \<Rightarrow>
          (case run_state (call E (''accrue.replay.GetByPhone'', k) (client_GetByPhone s ph)) d1 of
             (r, d2) \<Rightarrow> (accrue_compare D a t r, d2)))"
  by (auto simp: replayedAccrue_def accrue_compare_def split: prod.split sum.split)

text \<open>A replay is the answer in the state it leaves, and finds every answer there is.\<close>

lemma replayedAccrue_sound:
  assumes "growing E" "run_state (replayedAccrue D E k s x ph a) d = (Inr (Some r), d')"
  shows "accrue_answer D s x ph a d' = Some r"
proof -
  obtain t0 d1 rc where 1: "run_state (call E (''accrue.GetByExternalID'', k) (tx_GetByExternalID s TransactionAccrual x)) d
      = (Inr t0, d1)"
    and 2: "run_state (call E (''accrue.replay.GetByPhone'', k) (client_GetByPhone s ph)) d1 = (rc, d')"
    and r: "accrue_compare D a t0 rc = Inr (Some r)"
    using assms(2) by (auto simp: run_replayedAccrue split: prod.splits sum.splits if_splits)
  obtain t where t: "find (same_key s TransactionAccrual x) (db_transactions d1) = Some t" and t0: "t0 = scanTransaction t"
    using call_find [OF 1 [unfolded tx_GetByExternalID_gets]] by auto
  obtain c where rc: "rc = Inr c" and fp: "tx_RequestFingerprint t = accrualFingerprint D (cl_ID c) a"
    and r': "r = \<lparr>ares_ClientID = tx_ClientID t, ares_PointsEarned = tx_PointsDelta t,
                  ares_Balance = tx_BalanceAfter t, ares_Replayed = True\<rparr>"
    using r t0 by (auto simp: accrue_compare_def split: sum.splits if_splits)
  have c: "find (\<lambda>c. cl_StoreID c = s \<and> cl_Phone c = ph) (db_clients d') = Some c"
    and d': "d' = env_other E (''accrue.replay.GetByPhone'', k) d1"
    using call_GetByPhone [OF 2 [unfolded rc]] by (blast, blast)
  have "extends d1 d'" using assms(1) by (simp add: growing_def d')
  then obtain t' where t': "find (same_key s TransactionAccrual x) (db_transactions d') = Some t'" "core t' = core t"
    using t extends_transaction by blast
  show ?thesis
    by (simp add: accrue_answer_def t'(1) c core_sel [OF t'(2)] fp r')
qed

lemma replayedAccrue_complete:
  assumes "growing E" "faultless E" "accrue_answer D s x ph a d = Some r"
  shows "run_state (replayedAccrue D E k s x ph a) d =
    (Inr (Some r), env_other E (''accrue.replay.GetByPhone'', k) (env_other E (''accrue.GetByExternalID'', k) d))"
proof -
  let ?d1 = "env_other E (''accrue.GetByExternalID'', k) d"
  let ?d2 = "env_other E (''accrue.replay.GetByPhone'', k) ?d1"
  have grow: "extends d ?d1" "extends ?d1 ?d2" using assms(1) by (simp_all add: growing_def)
  have 1: "accrue_answer D s x ph a ?d1 = Some r" using grow(1) assms(3) by (rule accrue_answer_extends)
  have 2: "accrue_answer D s x ph a ?d2 = Some r" using grow(2) 1 by (rule accrue_answer_extends)
  obtain t where t: "find (same_key s TransactionAccrual x) (db_transactions ?d1) = Some t"
    using 1 by (auto simp: accrue_answer_def split: option.splits)
  obtain t' where t': "find (same_key s TransactionAccrual x) (db_transactions ?d2) = Some t'" "core t' = core t"
    using extends_transaction [OF grow(2) t] by blast
  obtain c where c: "find (\<lambda>c. cl_StoreID c = s \<and> cl_Phone c = ph) (db_clients ?d2) = Some c"
    using 2 by (auto simp: accrue_answer_def split: option.splits)
  have "accrue_compare D a (scanTransaction t) (Inr c) = Inr (Some r)"
    using 2 by (simp add: accrue_answer_def t'(1) c core_sel [OF t'(2)] accrue_compare_def split: if_splits)
  then show ?thesis
    by (simp add: run_replayedAccrue faultless_call [OF assms(2)] run_GetByExternalID t run_GetByPhone c)
qed

text \<open>The client an accrual works for is the one its phone resolves to afterwards.\<close>

lemma resolve_found:
  assumes "run_state (resolveOrCreateClient E s ph) d = (Inr (client, created), d')"
  shows "\<exists>c. find (\<lambda>c. cl_StoreID c = s \<and> cl_Phone c = ph) (db_clients d') = Some c \<and> cl_ID c = cl_ID client"
proof -
  obtain r1 d1 where 1: "run_state (call E (''accrue.GetByPhone'', 0) (client_GetByPhone s ph)) d = (r1, d1)"
    by (cases "run_state (call E (''accrue.GetByPhone'', 0) (client_GetByPhone s ph)) d")
  show ?thesis
  proof (cases r1)
    case (Inr c)
    with 1 assms have "client = c" "d' = d1" by (simp_all add: resolveOrCreateClient_def)
    with call_GetByPhone [OF 1 [unfolded Inr]] show ?thesis by blast
  next
    case (Inl e)
    define fresh where "fresh = \<lparr>cl_ID = 0, cl_StoreID = s, cl_Phone = ph, cl_CustomerAccountID = None,
       cl_CreatedAt = env_now E (''time.Now'', 0)\<rparr>"
    obtain r2 d2 where 2: "run_state (call_at E (''accrue.CreateClient'', 0) (\<lambda>now. client_Create now fresh)) d1 = (r2, d2)"
      by (cases "run_state (call_at E (''accrue.CreateClient'', 0) (\<lambda>now. client_Create now fresh)) d1")
    show ?thesis
    proof (cases r2)
      case (Inr c)
      with 1 2 Inl assms have "client = c" "d' = d2"
        by (auto simp: resolveOrCreateClient_def Let_def fresh_def split: if_splits)
      moreover have "run_state (client_Create (env_now E (''accrue.CreateClient'', 0)) fresh)
          (env_other E (''accrue.CreateClient'', 0) d1) = (Inr c, d2)"
        using 2 Inr unfolding call_at_def by (simp add: call_Inr)
      ultimately show ?thesis
        by (auto simp: client_Create_def run_andThen Let_def list_ex_iff find_append find_None fresh_def
          split: if_splits option.split dest!: find_SomeD)
    next
      case (Inl e2)
      with 1 2 \<open>r1 = Inl e\<close> assms
      have "run_state (call E (''accrue.GetByPhone'', 1) (client_GetByPhone s ph)) d2 = (Inr client, d')"
        by (auto simp: resolveOrCreateClient_def Let_def fresh_def run_andThen split: if_splits prod.splits sum.splits)
      from call_GetByPhone [OF this] show ?thesis by blast
    qed
  qed
qed

lemma posted_answer:
  assumes "post_effect now tx ns d (pst, bal) d'" "tx_Type tx = TransactionAccrual"
    "tx_RequestFingerprint tx = accrualFingerprint D i a"
    "find (\<lambda>c. cl_StoreID c = tx_StoreID tx \<and> cl_Phone c = ph) (db_clients d) = Some c" "cl_ID c = i"
  shows "accrue_answer D (tx_StoreID tx) (tx_ExternalTxID tx) ph a d' =
    Some \<lparr>ares_ClientID = tx_ClientID tx, ares_PointsEarned = tx_PointsDelta pst, ares_Balance = bal_Points bal,
          ares_Replayed = True\<rparr>"
proof -
  have "find (same_key (tx_StoreID tx) TransactionAccrual (tx_ExternalTxID tx)) (db_transactions d) = None"
    using assms(1,2) by (auto simp: post_effect_def Let_def insertable_def ledger_row_def find_None_iff)
  with assms show ?thesis
    by (auto simp: post_effect_def Let_def accrue_answer_def find_append ledger_row_def same_key_def)
qed

lemma accrualPoints_keeps_key:
  assumes "run_state (accrualPoints D E s tx0) d = (Inr tx, d')"
  shows "tx_StoreID tx = tx_StoreID tx0 \<and> tx_ClientID tx = tx_ClientID tx0 \<and> tx_Type tx = tx_Type tx0 \<and>
    tx_ExternalTxID tx = tx_ExternalTxID tx0 \<and> tx_RequestFingerprint tx = tx_RequestFingerprint tx0 \<and>
    tx_Amount tx = tx_Amount tx0"
  using assms by (rule accrualPoints_Inr) simp_all

text \<open>An accrual that succeeds has left the answer every later delivery reads back.\<close>

lemma accrued_answer:
  assumes fair: "fair_env D af Q E" and run: "run_state (Accrue D svc E req) d = (Inr (Some r), d')"
  shows "accrue_answer D (ar_StoreID req) (ar_ExternalTxID req) (canonical_phone (ar_Phone req)) (ar_Amount req) d'
    = Some (r\<lparr>ares_Replayed := True\<rparr>)"
  using run
proof (cases rule: Accrue_Inr)
  case (replay r')
  then have "accrue_answer D (ar_StoreID req) (ar_ExternalTxID req) (canonical_phone (ar_Phone req)) (ar_Amount req) d'
     = Some r"
    using replayedAccrue_sound [OF fair_growing [OF fair]] by simp
  moreover from this have "ares_Replayed r" by (auto simp: accrue_answer_def split: option.splits if_splits)
  ultimately show ?thesis by simp
next
  case (race d1 d2 d3 d4 d5 client created invite tx)
  then have "accrue_answer D (ar_StoreID req) (ar_ExternalTxID req) (canonical_phone (ar_Phone req)) (ar_Amount req) d'
     = Some r"
    using replayedAccrue_sound [OF fair_growing [OF fair]] by simp
  moreover from this have "ares_Replayed r" by (auto simp: accrue_answer_def split: option.splits if_splits)
  ultimately show ?thesis by simp
next
  case (post d1 d2 d3 d4 client created invite tx pst bal)
  let ?P = "\<lambda>c. cl_StoreID c = ar_StoreID req \<and> cl_Phone c = canonical_phone (ar_Phone req)"
  have inv: "keeps (steps D af Q) (if created \<and> NormalizePhone (ar_Phone req) \<noteq> None
      then appInvite (svc_invites svc) E client else ok None)"
    using steps_appInvite [OF fair] by (simp add: keeps_ok)
  let ?d5 = "env_other E (''accrue.Post'', 0) d4"
  have "extends d2 d3" "extends d3 d4" "extends d4 ?d5"
    using post step_keeps [OF inv] step_keeps [OF steps_accrualPoints [OF fair]] fair_growing [OF fair]
    by (auto simp: growing_def)
  then have ext: "extends d2 ?d5" by (blast intro: extends_trans)
  obtain c0 where "find ?P (db_clients d2) = Some c0" "cl_ID c0 = cl_ID client"
    using resolve_found [OF post(2)] by blast
  then obtain c where c: "find ?P (db_clients ?d5) = Some c" "cl_ID c = cl_ID client"
    using extends_client [OF ext, of "ar_StoreID req" "canonical_phone (ar_Phone req)" c0] by auto
  have eff: "post_effect (env_now E (''accrue.Post'', 0)) tx
      [accrualNotify (ar_StoreID req) (ar_ExternalTxID req) (cl_ID client) (tx_PointsDelta tx), invite] ?d5 (pst, bal) d'"
    using post(5) unfolding call_tx_def by (intro Post_Inr call_Inr)
  have tx: "tx_StoreID tx = ar_StoreID req" "tx_ClientID tx = cl_ID client" "tx_Type tx = TransactionAccrual"
    "tx_ExternalTxID tx = ar_ExternalTxID req" "tx_RequestFingerprint tx = accrualFingerprint D (cl_ID client) (ar_Amount req)"
    using accrualPoints_keeps_key [OF post(4)] by (simp_all add: accrual_tx_def zero_transaction_def)
  show ?thesis
    using posted_answer [OF eff tx(3) tx(5)] c tx(1,2,4) post(6) by simp
qed

text \<open>An answered request is replayed and changes nothing of its own.\<close>

lemma Accrue_answered:
  assumes "growing E" "faultless E"
    "accrue_answer D (ar_StoreID req) (ar_ExternalTxID req) (canonical_phone (ar_Phone req)) (ar_Amount req) d = Some r"
  shows "run_state (Accrue D svc E req) d = (Inr (Some r),
    env_other E (''accrue.replay.GetByPhone'', 0) (env_other E (''accrue.GetByExternalID'', 0) d))"
  using replayedAccrue_complete [OF assms]
  by (simp add: Accrue_def Let_def canonical_phone_def [symmetric] run_andThen)

text \<open>A conflict at the posting always leads to a replay or an error, so a result is never missing.\<close>

lemma Accrue_result:
  assumes "growing E" "run_state (Accrue D svc E req) d = (Inr res, d')"
  shows "res \<noteq> None"
  using assms(2)
proof (cases rule: Accrue_Inr)
  case (race d1 d2 d3 d4 d5 client created invite tx)
  have tx: "tx_StoreID tx = ar_StoreID req" "tx_Type tx = TransactionAccrual" "tx_ExternalTxID tx = ar_ExternalTxID req"
    using accrualPoints_keeps_key [OF race(4)] by (simp_all add: accrual_tx_def zero_transaction_def)
  obtain t where "find (same_key (ar_StoreID req) TransactionAccrual (ar_ExternalTxID req)) (db_transactions d5) = Some t"
    using conflict_found [OF assms(1) _ race(5) extends_Post] Post_key_conflicts [of tx] unfolding tx by blast
  from keyed_lookup [OF assms(1) this] race(6) show ?thesis
    by (auto simp: run_replayedAccrue accrue_compare_def split: prod.splits sum.splits if_splits)
qed simp_all

section \<open>Undisturbed accruals\<close>

text \<open>The transaction an accrual posts for a known client under the store's rule, if there is one.\<close>

definition ruled_tx :: "decimal_lib \<Rightarrow> db \<Rightarrow> transaction \<Rightarrow> transaction" where
  "ruled_tx D d tx =
     (case db_loyalty_configs d (tx_StoreID tx) of
        None \<Rightarrow> tx
      | Some cfg \<Rightarrow> tx\<lparr>tx_RuleVersion := Some (cfg_Version cfg),
          tx_PointsDelta := mechanic_Accrue D PointsMechanic (tx\<lparr>tx_RuleVersion := Some (cfg_Version cfg)\<rparr>) cfg\<rparr>)"

definition points_rule :: "db \<Rightarrow> int \<Rightarrow> bool" where
  "points_rule d s \<longleftrightarrow> (\<forall>cfg. db_loyalty_configs d s = Some cfg \<longrightarrow> cfg_Mechanic cfg = ''points'')"

lemma accrualPoints_quiet:
  assumes "points_rule d s" "tx_StoreID tx = s"
  shows "run_state (accrualPoints D (quiet now) s tx) d = (Inr (ruled_tx D d tx), d)"
  using assms
  by (auto simp: accrualPoints_def run_call config_GetByStore_def ruled_tx_def points_rule_def Build_def run_andThen
    balance_Get_def Let_def simp del: mechanic_Accrue.simps split: option.split)

lemma ruled_tx_sel [simp]:
  "tx_StoreID (ruled_tx D d tx) = tx_StoreID tx" "tx_ClientID (ruled_tx D d tx) = tx_ClientID tx"
  "tx_Type (ruled_tx D d tx) = tx_Type tx" "tx_ExternalTxID (ruled_tx D d tx) = tx_ExternalTxID tx"
  "tx_Amount (ruled_tx D d tx) = tx_Amount tx"
  by (simp_all add: ruled_tx_def split: option.split)

lemma accrual_tx_sel [simp]:
  "tx_StoreID (accrual_tx D s c x a) = s" "tx_ClientID (accrual_tx D s c x a) = c"
  "tx_Type (accrual_tx D s c x a) = TransactionAccrual" "tx_ExternalTxID (accrual_tx D s c x a) = x"
  "tx_Amount (accrual_tx D s c x a) = a" "tx_PointsDelta (accrual_tx D s c x a) = 0"
  by (simp_all add: accrual_tx_def zero_transaction_def)

lemma quiet_stmt: "env_stmt (quiet t) = (\<lambda>_ _. False)"
  by (simp add: quiet_def)

lemma Accrue_known:
  assumes new: "find (same_key (ar_StoreID req) TransactionAccrual (ar_ExternalTxID req)) (db_transactions d) = None"
    and client: "find (\<lambda>c. cl_StoreID c = ar_StoreID req \<and> cl_Phone c = canonical_phone (ar_Phone req)) (db_clients d) = Some c"
    and rule: "points_rule d (ar_StoreID req)"
    and tx: "tx = ruled_tx D d (accrual_tx D (ar_StoreID req) (cl_ID c) (ar_ExternalTxID req) (ar_Amount req))"
  shows "run_state (Accrue D svc (quiet now) req) d =
    (case run_state (Post (\<lambda>_. False) now tx
        [accrualNotify (ar_StoreID req) (ar_ExternalTxID req) (cl_ID c) (tx_PointsDelta tx), None]) d of
       (Inl e, d') \<Rightarrow> (if e = ErrConflict
          then run_state (replayedAccrue D (quiet now) 1 (ar_StoreID req) (ar_ExternalTxID req)
            (canonical_phone (ar_Phone req)) (ar_Amount req)) d' else (Inl e, d'))
     | (Inr (pst, bal), d') \<Rightarrow> (Inr (Some \<lparr>ares_ClientID = cl_ID c, ares_PointsEarned = tx_PointsDelta pst,
          ares_Balance = bal_Points bal, ares_Replayed = False\<rparr>), d'))"
proof -
  have 1: "run_state (replayedAccrue D (quiet now) 0 (ar_StoreID req) (ar_ExternalTxID req)
      (canonical_phone (ar_Phone req)) (ar_Amount req)) d = (Inr None, d)"
    by (simp add: run_replayedAccrue run_call run_GetByExternalID new)
  have 2: "run_state (resolveOrCreateClient (quiet now) (ar_StoreID req) (canonical_phone (ar_Phone req))) d
      = (Inr (c, False), d)"
    by (simp add: resolveOrCreateClient_def run_call run_GetByPhone client)
  have 3: "run_state (accrualPoints D (quiet now) (ar_StoreID req)
     (accrual_tx D (ar_StoreID req) (cl_ID c) (ar_ExternalTxID req) (ar_Amount req))) d = (Inr tx, d)"
    unfolding tx by (rule accrualPoints_quiet [OF rule]) simp
  show ?thesis
    unfolding Accrue_def Let_def canonical_phone_def [symmetric] accrual_tx_def [symmetric]
    by (simp add: run_andThen 1 2 3 call_tx_def run_call quiet_stmt split: sum.split prod.split)
qed

text \<open>
  An accrual for a known client under a new key: it fails with the error the posting
  detects, or posts the points of the rule.
\<close>

lemma Accrue_known_outcome:
  assumes new: "find (same_key (ar_StoreID req) TransactionAccrual (ar_ExternalTxID req)) (db_transactions d) = None"
    and client: "find (\<lambda>c. cl_StoreID c = ar_StoreID req \<and> cl_Phone c = canonical_phone (ar_Phone req)) (db_clients d) = Some c"
    and rule: "points_rule d (ar_StoreID req)"
    and tx: "tx = ruled_tx D d (accrual_tx D (ar_StoreID req) (cl_ID c) (ar_ExternalTxID req) (ar_Amount req))"
  shows "case post_error d tx of
     Some e \<Rightarrow> \<exists>q. run_state (Accrue D svc (quiet now) req) d = (Inl e, d\<lparr>db_seq := q\<rparr>)
   | None \<Rightarrow> \<exists>pst bal d'.
       run_state (Accrue D svc (quiet now) req) d =
         (Inr (Some \<lparr>ares_ClientID = cl_ID c, ares_PointsEarned = tx_PointsDelta tx,
            ares_Balance = points_of d (cl_ID c) + tx_PointsDelta tx, ares_Replayed = False\<rparr>), d') \<and>
       post_effect now tx
         [accrualNotify (ar_StoreID req) (ar_ExternalTxID req) (cl_ID c) (tx_PointsDelta tx), None] d (pst, bal) d'"
proof -
  let ?ns = "[accrualNotify (ar_StoreID req) (ar_ExternalTxID req) (cl_ID c) (tx_PointsDelta tx), None]"
  have "c \<in> set (db_clients d)" using find_SomeD [OF client] by blast
  then have "notifiable d ?ns"
    by (auto simp: notifiable_def known_client_def accrualNotify_def notification_def list_ex_iff)
  then have out: "outcome (post_error d tx) (Post (\<lambda>_. False) now tx ?ns) d"
    by (intro Post_outcome) simp_all
  note run = Accrue_known [OF new client rule tx, where svc = svc and now = now]
  have key: "tx_ClientID tx = cl_ID c" "tx_StoreID tx = ar_StoreID req" "tx_Type tx = TransactionAccrual"
    "tx_ExternalTxID tx = ar_ExternalTxID req"
    by (simp_all add: tx)
  show ?thesis
  proof (cases "post_error d tx")
    case None
    with out obtain r d' where r: "run_state (Post (\<lambda>_. False) now tx ?ns) d = (Inr r, d')"
      by (auto simp: outcome_def)
    obtain pst bal where pb: "r = (pst, bal)" by (cases r)
    have eff: "post_effect now tx ?ns d (pst, bal) d'" using Post_Inr [OF r] by (simp add: pb)
    then have "tx_PointsDelta pst = tx_PointsDelta tx" "bal_Points bal = points_of d (cl_ID c) + tx_PointsDelta tx"
      by (auto simp: post_effect_def Let_def key)
    with run r eff None show ?thesis by (auto simp: pb)
  next
    case (Some e)
    with out obtain d' where r: "run_state (Post (\<lambda>_. False) now tx ?ns) d = (Inl e, d')"
      by (auto simp: outcome_def)
    have "e \<noteq> ErrConflict"
      using Post_key_conflicts [of tx "\<lambda>_. False" now ?ns] r new
      by (auto simp: key_conflicts_def has_key_def list_ex_iff key find_None)
    moreover obtain q where "d' = d\<lparr>db_seq := q\<rparr>" using Post_Inl [OF r] by blast
    ultimately have "run_state (Accrue D svc (quiet now) req) d = (Inl e, d\<lparr>db_seq := q\<rparr>)" using run r by simp
    with Some show ?thesis by auto
  qed
qed

text \<open>A key that is taken by a different request is a conflict, and nothing is written.\<close>

lemma Accrue_conflict:
  assumes "find (same_key (ar_StoreID req) TransactionAccrual (ar_ExternalTxID req)) (db_transactions d) = Some t"
    "accrue_answer D (ar_StoreID req) (ar_ExternalTxID req) (canonical_phone (ar_Phone req)) (ar_Amount req) d = None"
  shows "run_state (Accrue D svc (quiet now) req) d = (Inl ErrIdempotencyConflict, d)"
proof -
  have "run_state (replayedAccrue D (quiet now) 0 (ar_StoreID req) (ar_ExternalTxID req)
      (canonical_phone (ar_Phone req)) (ar_Amount req)) d = (Inl ErrIdempotencyConflict, d)"
    using assms
    by (auto simp: run_replayedAccrue run_call run_GetByExternalID run_GetByPhone accrue_compare_def accrue_answer_def
      split: option.splits if_splits)
  then show ?thesis by (simp add: Accrue_def Let_def canonical_phone_def [symmetric] run_andThen)
qed

end
