(* ===== verification/Redemption.thy ===== *)
theory Redemption
  imports Requests
begin

text \<open>
  How a redemption request runs: its successful runs, the cap on its points, and the replay of
  an answered request.
\<close>

section \<open>Successful runs\<close>

definition redeem_tx :: "decimal_lib \<Rightarrow> redeem_request \<Rightarrow> loyalty_config \<Rightarrow> transaction" where
  "redeem_tx D req cfg = (zero_transaction TransactionRedeem)\<lparr>tx_StoreID := rr_StoreID req, tx_ClientID := rr_ClientID req,
     tx_ExternalTxID := rr_ExternalTxID req, tx_Amount := rr_Amount req,
     tx_PointsDelta := - cappedPoints D cfg (rr_Amount req) (rr_Points req),
     tx_RequestFingerprint := redeemFingerprint D (rr_ClientID req) (rr_Amount req) (rr_Points req),
     tx_RuleVersion := Some (cfg_Version cfg)\<rparr>"

definition redeem_notify :: "decimal_lib \<Rightarrow> redeem_request \<Rightarrow> loyalty_config \<Rightarrow> outbox_entry" where
  "redeem_notify D req cfg = notification (rr_ClientID req) ChannelUnset
     (RedeemDebited (cappedPoints D cfg (rr_Amount req) (rr_Points req)))
     (outboxDedupeKey (rr_StoreID req) TransactionRedeem (rr_ExternalTxID req))"

definition redeem_post :: "decimal_lib \<Rightarrow> loyalty_service \<Rightarrow> db env \<Rightarrow> redeem_request \<Rightarrow> loyalty_config \<Rightarrow>
    (db, transaction \<times> balance) op" where
  "redeem_post D svc E req cfg = call_tx E (''redeem.Post'', 0) (\<lambda>tf now.
     PostRedeemChecked tf now (redeem_tx D req cfg) (cfg_MinBalanceToRedeem cfg)
       (af_DailyRedeemPointsLimit (svc_antiFraud svc)) (af_DailyRedeemWindow (svc_antiFraud svc))
       (Some (redeem_notify D req cfg)))"

abbreviation redeem_replay :: "decimal_lib \<Rightarrow> db env \<Rightarrow> nat \<Rightarrow> redeem_request \<Rightarrow> (db, redeem_result option) op" where
  "redeem_replay D E k req \<equiv> replayedRedeem D E k (rr_StoreID req) (rr_ExternalTxID req) (rr_ClientID req)
     (rr_Amount req) (rr_Points req)"

lemma Redeem_Inr:
  assumes "run_state (Redeem D svc E req) d = (Inr res, d')"
  obtains
    (replay) r d1 where "res = Some r" "run_state (redeem_replay D E 0 req) d1 = (Inr (Some r), d')"
  | (post) client d1 d2 d3 d4 cfg balance pst bal where
      "run_state (call E (''redeem.GetClient'', 0) (client_GetByID (rr_ClientID req))) d = (Inr client, d1)"
      "cl_StoreID client = rr_StoreID req"
      "run_state (redeem_replay D E 0 req) d1 = (Inr None, d2)"
      "run_state (call E (''redeem.GetConfig'', 0) (config_GetByStore (rr_StoreID req))) d2 = (Inr cfg, d3)"
      "run_state (call E (''redeem.GetBalance'', 0) (balance_Get (rr_ClientID req))) d3 = (Inr balance, d4)"
      "cfg_MinBalanceToRedeem cfg \<le> bal_Points balance"
      "0 < cappedPoints D cfg (rr_Amount req) (rr_Points req)"
      "cappedPoints D cfg (rr_Amount req) (rr_Points req) \<le> bal_Points balance"
      "run_state (redeem_post D svc E req cfg) d4 = (Inr (pst, bal), d')"
      "res = Some \<lparr>rres_PointsRedeemed = wrap64 (- tx_PointsDelta pst), rres_Balance = bal_Points bal,
                    rres_Replayed = False\<rparr>"
  | (race) d4 d5 cfg where
      "run_state (redeem_post D svc E req cfg) d4 = (Inl ErrConflict, d5)"
      "run_state (redeem_replay D E 1 req) d5 = (Inr res, d')"
proof -
  from assms obtain client d1 r0 d2 where
    1: "run_state (call E (''redeem.GetClient'', 0) (client_GetByID (rr_ClientID req))) d = (Inr client, d1)"
      "cl_StoreID client = rr_StoreID req" "run_state (redeem_replay D E 0 req) d1 = (Inr r0, d2)"
    unfolding Redeem_def Let_def by (elim op_elims) simp
  show thesis
  proof (cases r0)
    case (Some r)
    with assms 1 have "res = Some r" "d2 = d'"
      by (simp_all add: Redeem_def Let_def run_andThen)
    with 1 Some show thesis by (intro replay) simp_all
  next
    case None
    obtain rc d3 where c: "run_state (call E (''redeem.GetConfig'', 0) (config_GetByStore (rr_StoreID req))) d2 = (rc, d3)"
      by (cases "run_state (call E (''redeem.GetConfig'', 0) (config_GetByStore (rr_StoreID req))) d2")
    obtain cfg where cfg: "rc = Inr cfg"
      using assms 1 None c by (cases rc) (auto simp: Redeem_def Let_def run_andThen split: if_splits)
    obtain rb d4 where b: "run_state (call E (''redeem.GetBalance'', 0) (balance_Get (rr_ClientID req))) d3 = (rb, d4)"
      by (cases "run_state (call E (''redeem.GetBalance'', 0) (balance_Get (rr_ClientID req))) d3")
    obtain balance where bal: "rb = Inr balance"
      using assms 1 None c cfg b by (cases rb) (auto simp: Redeem_def Let_def run_andThen split: if_splits)
    let ?p = "cappedPoints D cfg (rr_Amount req) (rr_Points req)"
    have guards: "cfg_MinBalanceToRedeem cfg \<le> bal_Points balance" "0 < ?p" "?p \<le> bal_Points balance"
      using assms 1 None c cfg b bal by (auto simp: Redeem_def Let_def run_andThen split: if_splits)
    obtain rp d5 where p: "run_state (redeem_post D svc E req cfg) d4 = (rp, d5)"
      by (cases "run_state (redeem_post D svc E req cfg) d4")
    have rest: "run_state (case rp of
             Inl e \<Rightarrow> if e = ErrConflict then redeem_replay D E 1 req else fail e
           | Inr (posted, newBalance) \<Rightarrow>
               ok (Some \<lparr>rres_PointsRedeemed = wrap64 (- tx_PointsDelta posted),
                         rres_Balance = bal_Points newBalance, rres_Replayed = False\<rparr>)) d5 = (Inr res, d')"
      using assms 1 None c cfg b bal guards p
      by (simp add: Redeem_def Let_def run_andThen redeem_post_def redeem_tx_def redeem_notify_def not_less)
    show thesis
    proof (cases rp)
      case (Inl e)
      with rest have "e = ErrConflict" by (auto split: if_splits)
      with rest p Inl show thesis by (intro race) simp_all
    next
      case (Inr pb)
      then obtain pst bl where "rp = Inr (pst, bl)" by (cases pb) auto
      with rest p 1 None c cfg b bal guards post show thesis by simp
    qed
  qed
qed

section \<open>The cap\<close>

text \<open>
  For an amount in kopecks and a rule within the precision of its columns the cap is the exact
  quotient, rounded down.
\<close>

lemma cappedPoints_min:
  assumes "decimal_laws D" "whole_at 2 a" "whole_at 2 (cfg_MaxRedeemPercent cfg)" "0 < cfg_MaxRedeemPercent cfg"
    "whole_at 4 (cfg_PointsExchangeRate cfg)" "0 < cfg_PointsExchangeRate cfg" "cfg_PointsExchangeRate cfg < 10 ^ 6"
    "in_i64 \<lfloor>a * cfg_MaxRedeemPercent cfg / 100 / cfg_PointsExchangeRate cfg\<rfloor>"
  shows "cappedPoints D cfg a p = min p \<lfloor>a * cfg_MaxRedeemPercent cfg / 100 / cfg_PointsExchangeRate cfg\<rfloor>"
proof -
  let ?m = "cfg_MaxRedeemPercent cfg" and ?r = "cfg_PointsExchangeRate cfg"
  have prod: "whole_at 4 (a * ?m)" using whole_at_mult [OF assms(2,3)] by simp
  have "whole_at 14 (a * ?m)" using prod by (rule whole_at_up) simp
  then have div: "dec_Div D (a * ?m) 100 = a * ?m / 100" by (rule decimal_laws.Div_100_exact [OF assms(1)])
  obtain n where n: "a * ?m = of_int n / 10 ^ 4" using prod by (rule whole_atE)
  obtain q where q: "?r = of_int q / 10 ^ 4" using assms(5) by (rule whole_atE)
  have "0 < q" using assms(6) q by (simp add: zero_less_divide_iff)
  have "(of_int q :: rat) < of_int (10 ^ 10)" using assms(7) q by (simp add: divide_less_eq)
  then have "q < 10 ^ 10" by (simp only: of_int_less_iff)
  have quot: "a * ?m / 100 / ?r = of_int n / of_int (100 * q)"
    using \<open>0 < q\<close> by (simp add: n q field_simps)
  have "\<lfloor>dec_Div D (a * ?m / 100) ?r\<rfloor> = n div (100 * q)"
    by (rule decimal_laws.floor_Div [OF assms(1)]) (use \<open>0 < q\<close> \<open>q < 10 ^ 10\<close> assms(6) quot in simp_all)
  also have "\<dots> = \<lfloor>a * ?m / 100 / ?r\<rfloor>"
    unfolding quot by (simp only: floor_divide_of_int_eq)
  finally have fl: "\<lfloor>dec_Div D (a * ?m / 100) ?r\<rfloor> = \<lfloor>a * ?m / 100 / ?r\<rfloor>" .
  show ?thesis
    using assms(4,6) decimal_laws.IntPart_int [OF assms(1,8)]
    by (simp add: cappedPoints_def Let_def div fl min_def)
qed

section \<open>Replays\<close>

definition redeem_answer :: "decimal_lib \<Rightarrow> redeem_request \<Rightarrow> db \<Rightarrow> redeem_result option" where
  "redeem_answer D req d =
     (case find (same_key (rr_StoreID req) TransactionRedeem (rr_ExternalTxID req)) (db_transactions d) of
        None \<Rightarrow> None
      | Some t \<Rightarrow>
          if tx_RequestFingerprint t = redeemFingerprint D (rr_ClientID req) (rr_Amount req) (rr_Points req)
          then Some \<lparr>rres_PointsRedeemed = wrap64 (- tx_PointsDelta t), rres_Balance = tx_BalanceAfter t,
                     rres_Replayed = True\<rparr>
          else None)"

definition redeem_client :: "redeem_request \<Rightarrow> db \<Rightarrow> bool" where
  "redeem_client req d \<longleftrightarrow>
     (\<exists>c. find (\<lambda>c. cl_ID c = rr_ClientID req) (db_clients d) = Some c \<and> cl_StoreID c = rr_StoreID req)"

lemma redeem_answer_extends:
  assumes "extends d d'" "redeem_answer D req d = Some r"
  shows "redeem_answer D req d' = Some r"
proof -
  obtain t where t: "find (same_key (rr_StoreID req) TransactionRedeem (rr_ExternalTxID req)) (db_transactions d) = Some t"
    using assms(2) by (auto simp: redeem_answer_def split: option.splits)
  obtain t' where t': "find (same_key (rr_StoreID req) TransactionRedeem (rr_ExternalTxID req)) (db_transactions d') = Some t'"
    "core t' = core t"
    using extends_transaction [OF assms(1) t] by blast
  from assms(2) show ?thesis
    by (simp only: redeem_answer_def t t'(1) option.case core_sel [OF t'(2)])
qed

lemma redeem_client_extends:
  assumes "extends d d'" "redeem_client req d"
  shows "redeem_client req d'"
proof -
  obtain c where c: "find (\<lambda>c. cl_ID c = rr_ClientID req) (db_clients d) = Some c" "cl_StoreID c = rr_StoreID req"
    using assms(2) by (auto simp: redeem_client_def)
  obtain new where "map client_key (db_clients d') = map client_key (db_clients d) @ new"
    using assms(1) by (auto simp: extends_def clients_grow_def)
  then have "\<exists>c'. find (\<lambda>c. cl_ID c = rr_ClientID req) (db_clients d') = Some c' \<and> client_key c' = client_key c"
    using c(1) by (rule find_map_eq) (auto simp: client_key_def)
  with c(2) show ?thesis by (auto simp: redeem_client_def client_key_def)
qed

lemma run_replayedRedeem:
  "run_state (replayedRedeem D E k s x c a p) d =
     (case run_state (call E (''redeem.GetByExternalID'', k) (tx_GetByExternalID s TransactionRedeem x)) d of
        (Inl e, d1) \<Rightarrow> (if e = ErrNotFound then Inr None else Inl e, d1)
      | (Inr t, d1) \<Rightarrow>
          (if tx_RequestFingerprint t \<noteq> redeemFingerprint D c a p then Inl ErrIdempotencyConflict
           else Inr (Some \<lparr>rres_PointsRedeemed = wrap64 (- tx_PointsDelta t), rres_Balance = tx_BalanceAfter t,
                           rres_Replayed = True\<rparr>), d1))"
  by (auto simp: replayedRedeem_def split: prod.split sum.split)

lemma redeem_replay_sound:
  assumes "run_state (redeem_replay D E k req) d = (Inr (Some r), d')"
  shows "redeem_answer D req d' = Some r"
proof -
  obtain t0 where 1: "run_state (call E (''redeem.GetByExternalID'', k)
      (tx_GetByExternalID (rr_StoreID req) TransactionRedeem (rr_ExternalTxID req))) d = (Inr t0, d')"
    and r: "tx_RequestFingerprint t0 = redeemFingerprint D (rr_ClientID req) (rr_Amount req) (rr_Points req)"
      "r = \<lparr>rres_PointsRedeemed = wrap64 (- tx_PointsDelta t0), rres_Balance = tx_BalanceAfter t0, rres_Replayed = True\<rparr>"
    using assms by (auto simp: run_replayedRedeem split: prod.splits sum.splits if_splits)
  from call_find [OF 1 [unfolded tx_GetByExternalID_gets]] obtain t where
    "find (same_key (rr_StoreID req) TransactionRedeem (rr_ExternalTxID req)) (db_transactions d') = Some t"
    "t0 = scanTransaction t" by blast
  with r show ?thesis by (simp add: redeem_answer_def)
qed

lemma redeem_replay_complete:
  assumes "growing E" "faultless E" "redeem_answer D req d = Some r"
  shows "run_state (redeem_replay D E k req) d = (Inr (Some r), env_other E (''redeem.GetByExternalID'', k) d)"
proof -
  have "extends d (env_other E (''redeem.GetByExternalID'', k) d)" using assms(1) by (simp add: growing_def)
  then have "redeem_answer D req (env_other E (''redeem.GetByExternalID'', k) d) = Some r"
    using assms(3) by (rule redeem_answer_extends)
  then show ?thesis
    by (auto simp: run_replayedRedeem faultless_call [OF assms(2)] run_GetByExternalID redeem_answer_def
      split: option.splits if_splits)
qed

lemma run_client_GetByID:
  "run_state (client_GetByID i) d =
     (case find (\<lambda>c. cl_ID c = i) (db_clients d) of None \<Rightarrow> Inl ErrNotFound | Some c \<Rightarrow> Inr c, d)"
  by (simp add: client_GetByID_def)

lemma Redeem_answered:
  assumes "growing E" "faultless E" "redeem_client req d" "redeem_answer D req d = Some r"
  shows "run_state (Redeem D svc E req) d = (Inr (Some r),
    env_other E (''redeem.GetByExternalID'', 0) (env_other E (''redeem.GetClient'', 0) d))"
proof -
  let ?d1 = "env_other E (''redeem.GetClient'', 0) d"
  have grow: "extends d ?d1" using assms(1) by (simp add: growing_def)
  obtain c where c: "find (\<lambda>c. cl_ID c = rr_ClientID req) (db_clients ?d1) = Some c" "cl_StoreID c = rr_StoreID req"
    using redeem_client_extends [OF grow assms(3)] by (auto simp: redeem_client_def)
  show ?thesis
    using redeem_replay_complete [OF assms(1,2) redeem_answer_extends [OF grow assms(4)]] c
    by (simp add: Redeem_def run_andThen faultless_call [OF assms(2)] run_client_GetByID)
qed

lemma posted_redeem_answer:
  assumes "post_effect now (redeem_tx D req cfg) ns d (pst, bal) d'"
  shows "redeem_answer D req d' = Some \<lparr>rres_PointsRedeemed = wrap64 (- tx_PointsDelta pst), rres_Balance = bal_Points bal,
    rres_Replayed = True\<rparr>"
proof -
  have "find (same_key (rr_StoreID req) TransactionRedeem (rr_ExternalTxID req)) (db_transactions d) = None"
    using assms by (auto simp: post_effect_def Let_def insertable_def ledger_row_def find_None redeem_tx_def zero_transaction_def)
  with assms show ?thesis
    by (auto simp: post_effect_def Let_def redeem_answer_def find_append ledger_row_def same_key_def redeem_tx_def
      zero_transaction_def)
qed

lemma redeem_post_effect:
  assumes "run_state (redeem_post D svc E req cfg) d = (Inr (pst, bal), d')"
  shows "post_effect (env_now E (''redeem.Post'', 0)) (redeem_tx D req cfg) [Some (redeem_notify D req cfg)]
     (env_other E (''redeem.Post'', 0) d) (pst, bal) d'"
  using PostRedeemChecked_effect [OF call_Inr [OF assms [unfolded redeem_post_def call_tx_def]]] by simp

text \<open>A redemption that succeeds has left its answer.\<close>

lemma redeemed_answer:
  assumes "run_state (Redeem D svc E req) d = (Inr (Some r), d')"
  shows "redeem_answer D req d' = Some (r\<lparr>rres_Replayed := True\<rparr>)"
  using assms
proof (cases rule: Redeem_Inr)
  case (replay r' d1)
  from redeem_replay_sound [OF replay(2)] replay(1) have "redeem_answer D req d' = Some r" by simp
  moreover from this have "rres_Replayed r" by (auto simp: redeem_answer_def split: option.splits if_splits)
  ultimately show ?thesis by simp
next
  case (race d4 d5 cfg)
  from redeem_replay_sound [OF race(2)] have "redeem_answer D req d' = Some r" .
  moreover from this have "rres_Replayed r" by (auto simp: redeem_answer_def split: option.splits if_splits)
  ultimately show ?thesis by simp
next
  case (post client d1 d2 d3 d4 cfg balance pst bal)
  from posted_redeem_answer [OF redeem_post_effect [OF post(9)]] post(10) show ?thesis by simp
qed

section \<open>Undisturbed redemptions\<close>

text \<open>What a fresh redemption did, when no other request interferes.\<close>

lemma Redeem_quiet:
  assumes "run_state (Redeem D svc (quiet now) req) d = (Inr (Some r), d')" "\<not> rres_Replayed r"
  obtains cfg pst bal where "db_loyalty_configs d (rr_StoreID req) = Some cfg"
    "0 < cappedPoints D cfg (rr_Amount req) (rr_Points req)"
    "cappedPoints D cfg (rr_Amount req) (rr_Points req) \<le> points_of d (rr_ClientID req)"
    "run_state (PostRedeemChecked (\<lambda>_. False) now (redeem_tx D req cfg) (cfg_MinBalanceToRedeem cfg)
       (af_DailyRedeemPointsLimit (svc_antiFraud svc)) (af_DailyRedeemWindow (svc_antiFraud svc))
       (Some (redeem_notify D req cfg))) d = (Inr (pst, bal), d')"
    "r = \<lparr>rres_PointsRedeemed = wrap64 (- tx_PointsDelta pst), rres_Balance = bal_Points bal, rres_Replayed = False\<rparr>"
  using assms(1)
proof (cases rule: Redeem_Inr)
  case (replay r' d1)
  with redeem_replay_sound [OF replay(2)] assms(2) show thesis
    by (auto simp: redeem_answer_def split: option.splits if_splits)
next
  case (race d4 d5 cfg)
  with redeem_replay_sound [OF race(2)] assms(2) show thesis
    by (auto simp: redeem_answer_def split: option.splits if_splits)
next
  case (post client d1 d2 d3 d4 cfg balance pst bal)
  have "d1 = d" using post(1) by (auto simp: run_call run_client_GetByID split: option.splits)
  moreover have "d2 = d1" using post(3) by (auto simp: run_replayedRedeem run_call run_GetByExternalID split: option.splits if_splits)
  moreover have "d3 = d2 \<and> db_loyalty_configs d2 (rr_StoreID req) = Some cfg"
    using post(4) by (auto simp: run_call config_GetByStore_def split: option.splits)
  moreover have "d4 = d3 \<and> bal_Points balance = points_of d3 (rr_ClientID req)"
    using post(5) by (auto simp: run_call balance_Get_def)
  ultimately show thesis
    using post(6-10) by (intro that [of cfg pst bal])
      (simp_all add: redeem_post_def call_tx_def run_call quiet_def)
qed

lemma Redeem_result:
  assumes "growing E" "run_state (Redeem D svc E req) d = (Inr res, d')"
  shows "res \<noteq> None"
  using assms(2)
proof (cases rule: Redeem_Inr)
  case (race d4 d5 cfg)
  have keys: "key_conflicts (rr_StoreID req) TransactionRedeem (rr_ExternalTxID req)
      (PostRedeemChecked tf now (redeem_tx D req cfg) mb dl w n)" for tf now mb dl w n
    using PostRedeemChecked_key_conflicts [of "redeem_tx D req cfg"] by (simp add: redeem_tx_def zero_transaction_def)
  obtain t where "find (same_key (rr_StoreID req) TransactionRedeem (rr_ExternalTxID req)) (db_transactions d5) = Some t"
    using conflict_found [OF assms(1) keys race(1) [unfolded redeem_post_def] extends_PostRedeemChecked] by blast
  from keyed_lookup [OF assms(1) this] race(2) show ?thesis
    by (auto simp: run_replayedRedeem split: prod.splits sum.splits if_splits)
qed simp_all

end
