(* ===== verification/Refunds.thy ===== *)
theory Refunds
  imports Requests
begin

text \<open>
  How a refund request runs: its successful runs, and what a replay of it reports.
\<close>

definition refund_tx :: "decimal_lib \<Rightarrow> refund_request \<Rightarrow> int \<Rightarrow> transaction" where
  "refund_tx D req oid = (zero_transaction TransactionRefund)\<lparr>tx_StoreID := fr_StoreID req,
     tx_ExternalTxID := fr_ExternalTxID req, tx_Amount := fr_Amount req,
     tx_RequestFingerprint := refundFingerprint D oid (fr_Amount req), tx_OriginalTransactionID := Some oid\<rparr>"

definition refund_notify :: "refund_request \<Rightarrow> int \<Rightarrow> int \<Rightarrow> outbox_entry option" where
  "refund_notify req client pointsDelta = Some (notification client ChannelUnset (RefundAdjusted pointsDelta)
     (outboxDedupeKey (fr_StoreID req) TransactionRefund (fr_ExternalTxID req)))"

abbreviation refund_resolve :: "db env \<Rightarrow> refund_request \<Rightarrow> (db, transaction) op" where
  "refund_resolve E req \<equiv> resolveOriginalTransaction E (fr_StoreID req) (fr_OriginalExternalTxID req) (fr_OriginalType req)"

abbreviation refund_replay :: "decimal_lib \<Rightarrow> db env \<Rightarrow> nat \<Rightarrow> refund_request \<Rightarrow> int \<Rightarrow> (db, refund_result option) op" where
  "refund_replay D E k req oid \<equiv> replayedRefund D E k (fr_StoreID req) (fr_ExternalTxID req) oid (fr_Amount req)"

definition refund_post :: "decimal_lib \<Rightarrow> db env \<Rightarrow> refund_request \<Rightarrow> transaction \<Rightarrow>
    (db, transaction \<times> transaction \<times> balance) op" where
  "refund_post D E req original = call_tx E (''refund.Post'', 0) (\<lambda>tf now.
     PostRefund D tf now (refund_tx D req (tx_ID original)) (Some (refund_notify req (tx_ClientID original))))"

lemma Refund_Inr:
  assumes "run_state (Refund D E req) d = (Inr res, d')"
  obtains
    (replay) original d1 r where "run_state (refund_resolve E req) d = (Inr original, d1)" "res = Some r"
      "run_state (refund_replay D E 0 req (tx_ID original)) d1 = (Inr (Some r), d')"
  | (post) original d1 d2 pst upd bal where "run_state (refund_resolve E req) d = (Inr original, d1)"
      "run_state (refund_replay D E 0 req (tx_ID original)) d1 = (Inr None, d2)"
      "run_state (refund_post D E req original) d2 = (Inr (pst, upd, bal), d')"
      "res = Some \<lparr>fres_ClientID = tx_ClientID pst, fres_PointsReversed = tx_PointsDelta pst,
         fres_Balance = bal_Points bal, fres_RefundedAmountTotal = tx_RefundedAmount upd,
         fres_FullyRefunded = (tx_RefundedAmount upd = tx_Amount upd), fres_Replayed = False\<rparr>"
  | (race) original d1 d2 d3 where "run_state (refund_resolve E req) d = (Inr original, d1)"
      "run_state (refund_replay D E 0 req (tx_ID original)) d1 = (Inr None, d2)"
      "run_state (refund_post D E req original) d2 = (Inl ErrConflict, d3)"
      "run_state (refund_replay D E 1 req (tx_ID original)) d3 = (Inr res, d')"
proof -
  from assms obtain original d1 r0 d2 where
    1: "run_state (refund_resolve E req) d = (Inr original, d1)"
      "run_state (refund_replay D E 0 req (tx_ID original)) d1 = (Inr r0, d2)"
    unfolding Refund_def Let_def by (elim op_elims) simp
  show thesis
  proof (cases r0)
    case (Some r)
    with assms 1 have "res = Some r" "d2 = d'" by (simp_all add: Refund_def Let_def run_andThen)
    with 1 Some show thesis by (intro replay) simp_all
  next
    case None
    obtain rp d3 where p: "run_state (refund_post D E req original) d2 = (rp, d3)"
      by (cases "run_state (refund_post D E req original) d2")
    have rest: "run_state (case rp of
             Inl e \<Rightarrow> if e = ErrConflict then refund_replay D E 1 req (tx_ID original) else fail e
           | Inr (posted, updatedOriginal, balance) \<Rightarrow>
               ok (Some \<lparr>fres_ClientID = tx_ClientID posted, fres_PointsReversed = tx_PointsDelta posted,
                     fres_Balance = bal_Points balance,
                     fres_RefundedAmountTotal = tx_RefundedAmount updatedOriginal,
                     fres_FullyRefunded = (tx_RefundedAmount updatedOriginal = tx_Amount updatedOriginal),
                     fres_Replayed = False\<rparr>)) d3 = (Inr res, d')"
      using assms 1 None p
      by (simp add: Refund_def Let_def run_andThen refund_post_def refund_tx_def refund_notify_def [abs_def])
    show thesis
    proof (cases rp)
      case (Inl e)
      with rest have "e = ErrConflict" by (auto split: if_splits)
      with rest p 1 Inl None show thesis by (intro race) simp_all
    next
      case (Inr pb)
      obtain pst upd bal where "pb = (pst, upd, bal)" by (cases pb)
      with Inr rest p 1 None post show thesis by simp
    qed
  qed
qed

section \<open>Replays\<close>

text \<open>
  What a replay reports. The columns the replay's query leaves out are those of the refund
  snapshot, so the total and the flag are always the zero values.
\<close>

definition refund_answer :: "decimal_lib \<Rightarrow> refund_request \<Rightarrow> int \<Rightarrow> db \<Rightarrow> refund_result option" where
  "refund_answer D req oid d =
     (case find (same_key (fr_StoreID req) TransactionRefund (fr_ExternalTxID req)) (db_transactions d) of
        None \<Rightarrow> None
      | Some t \<Rightarrow>
          if tx_RequestFingerprint t = refundFingerprint D oid (fr_Amount req)
          then Some \<lparr>fres_ClientID = tx_ClientID t, fres_PointsReversed = tx_PointsDelta t,
                     fres_Balance = tx_BalanceAfter t, fres_RefundedAmountTotal = 0, fres_FullyRefunded = False,
                     fres_Replayed = True\<rparr>
          else None)"

lemma refund_answer_extends:
  assumes "extends d d'" "refund_answer D req oid d = Some r"
  shows "refund_answer D req oid d' = Some r"
proof -
  obtain t where t: "find (same_key (fr_StoreID req) TransactionRefund (fr_ExternalTxID req)) (db_transactions d) = Some t"
    using assms(2) by (auto simp: refund_answer_def split: option.splits)
  obtain t' where t': "find (same_key (fr_StoreID req) TransactionRefund (fr_ExternalTxID req)) (db_transactions d') = Some t'"
    "core t' = core t"
    using extends_transaction [OF assms(1) t] by blast
  from assms(2) show ?thesis
    by (simp only: refund_answer_def t t'(1) option.case core_sel [OF t'(2)])
qed

lemma run_replayedRefund:
  "run_state (replayedRefund D E k s x oid a) d =
     (case run_state (call E (''refund.GetByExternalID'', k) (tx_GetByExternalID s TransactionRefund x)) d of
        (Inl e, d1) \<Rightarrow> (if e = ErrNotFound then Inr None else Inl e, d1)
      | (Inr t, d1) \<Rightarrow>
          (if tx_RequestFingerprint t \<noteq> refundFingerprint D oid a then Inl ErrIdempotencyConflict
           else Inr (Some \<lparr>fres_ClientID = tx_ClientID t, fres_PointsReversed = tx_PointsDelta t,
                           fres_Balance = tx_BalanceAfter t, fres_RefundedAmountTotal = tx_RefundCumulativeAmount t,
                           fres_FullyRefunded = tx_RefundFullyRefunded t, fres_Replayed = True\<rparr>), d1))"
  by (auto simp: replayedRefund_def split: prod.split sum.split)

lemma refund_replay_sound:
  assumes "run_state (refund_replay D E k req oid) d = (Inr (Some r), d')"
  shows "refund_answer D req oid d' = Some r"
proof -
  obtain t0 where 1: "run_state (call E (''refund.GetByExternalID'', k)
      (tx_GetByExternalID (fr_StoreID req) TransactionRefund (fr_ExternalTxID req))) d = (Inr t0, d')"
    and r: "tx_RequestFingerprint t0 = refundFingerprint D oid (fr_Amount req)"
      "r = \<lparr>fres_ClientID = tx_ClientID t0, fres_PointsReversed = tx_PointsDelta t0, fres_Balance = tx_BalanceAfter t0,
            fres_RefundedAmountTotal = tx_RefundCumulativeAmount t0, fres_FullyRefunded = tx_RefundFullyRefunded t0,
            fres_Replayed = True\<rparr>"
    using assms by (auto simp: run_replayedRefund split: prod.splits sum.splits if_splits)
  from call_find [OF 1 [unfolded tx_GetByExternalID_gets]] obtain t where
    "find (same_key (fr_StoreID req) TransactionRefund (fr_ExternalTxID req)) (db_transactions d') = Some t"
    "t0 = scanTransaction t" by blast
  with r show ?thesis by (simp add: refund_answer_def scanTransaction_def)
qed

lemma refund_replay_complete:
  assumes "growing E" "faultless E" "refund_answer D req oid d = Some r"
  shows "run_state (refund_replay D E k req oid) d = (Inr (Some r), env_other E (''refund.GetByExternalID'', k) d)"
proof -
  have "extends d (env_other E (''refund.GetByExternalID'', k) d)" using assms(1) by (simp add: growing_def)
  then have "refund_answer D req oid (env_other E (''refund.GetByExternalID'', k) d) = Some r"
    using assms(3) by (rule refund_answer_extends)
  then show ?thesis
    by (auto simp: run_replayedRefund faultless_call [OF assms(2)] run_GetByExternalID refund_answer_def scanTransaction_def
      split: option.splits if_splits)
qed

lemma refund_post_effect:
  assumes "run_state (refund_post D E req original) d = (Inr r, d')"
  shows "refund_effect D (env_now E (''refund.Post'', 0)) (refund_tx D req (tx_ID original))
     (Some (refund_notify req (tx_ClientID original))) (env_other E (''refund.Post'', 0) d) r d'"
  using PostRefund_effect [OF call_Inr [OF assms [unfolded refund_post_def call_tx_def]]] .

lemma posted_refund_answer:
  assumes "refund_effect D now (refund_tx D req oid) bn d (pst, upd, bal) d'"
  shows "refund_answer D req oid d' = Some \<lparr>fres_ClientID = tx_ClientID pst, fres_PointsReversed = tx_PointsDelta pst,
     fres_Balance = bal_Points bal, fres_RefundedAmountTotal = 0, fres_FullyRefunded = False, fres_Replayed = True\<rparr>"
proof -
  have none: "find (same_key (fr_StoreID req) TransactionRefund (fr_ExternalTxID req)) (db_transactions d) = None"
    using assms by (auto simp: refund_effect_def Let_def insertable_def refund_row_def find_None refund_tx_def zero_transaction_def)
  have map: "find (same_key (fr_StoreID req) TransactionRefund (fr_ExternalTxID req))
      (map (mark_refunded i ca cp) (db_transactions d)) = None" for i ca cp
    using none by (simp add: find_None)
  obtain original a ca q cp row where
    row: "row = refund_row (db_seq d T_transactions + 1) now original
      (refund_delta D original (tx_RefundedAmount original + tx_Amount (refund_tx D req oid)))
      (points_of d (tx_ClientID original) + refund_delta D original (tx_RefundedAmount original + tx_Amount (refund_tx D req oid)))
      a ca (tx_RefundedAmount original + tx_Amount (refund_tx D req oid) = tx_Amount original) (refund_tx D req oid)"
    and d': "db_transactions d' = map (mark_refunded (tx_ID original) ca cp) (db_transactions d) @ [row]"
    and r: "tx_ClientID pst = tx_ClientID row" "tx_PointsDelta pst = tx_PointsDelta row"
      "bal_Points bal = tx_BalanceAfter row"
    using assms unfolding refund_effect_def Let_def
    by (elim exE conjE) (fastforce simp: refund_row_def)
  have "same_key (fr_StoreID req) TransactionRefund (fr_ExternalTxID req) row"
    "tx_RequestFingerprint row = refundFingerprint D oid (fr_Amount req)"
    by (simp_all add: row refund_row_def refund_tx_def same_key_def zero_transaction_def)
  with map d' r show ?thesis by (simp add: refund_answer_def find_append)
qed

lemma refunded_answer:
  assumes "run_state (Refund D E req) d = (Inr (Some r), d')"
  shows "\<exists>original d1. run_state (refund_resolve E req) d = (Inr original, d1) \<and>
     refund_answer D req (tx_ID original) d' =
       Some (r\<lparr>fres_RefundedAmountTotal := 0, fres_FullyRefunded := False, fres_Replayed := True\<rparr>)"
  using assms
proof (cases rule: Refund_Inr)
  case (replay original d1 r')
  from refund_replay_sound [OF replay(3)] replay(2) have "refund_answer D req (tx_ID original) d' = Some r" by simp
  moreover from this have "fres_Replayed r" "fres_RefundedAmountTotal r = 0" "\<not> fres_FullyRefunded r"
    by (auto simp: refund_answer_def split: option.splits if_splits)
  ultimately show ?thesis using replay(1) by simp
next
  case (race original d1 d2 d3)
  from refund_replay_sound [OF race(4)] have "refund_answer D req (tx_ID original) d' = Some r" .
  moreover from this have "fres_Replayed r" "fres_RefundedAmountTotal r = 0" "\<not> fres_FullyRefunded r"
    by (auto simp: refund_answer_def split: option.splits if_splits)
  ultimately show ?thesis using race(1) by simp
next
  case (post original d1 d2 pst upd bal)
  from posted_refund_answer [OF refund_post_effect [OF post(3)]] post(1,4) show ?thesis by simp
qed

lemma Refund_result:
  assumes "growing E" "run_state (Refund D E req) d = (Inr res, d')"
  shows "res \<noteq> None"
  using assms(2)
proof (cases rule: Refund_Inr)
  case (race original d1 d2 d3)
  have keys: "key_conflicts (fr_StoreID req) TransactionRefund (fr_ExternalTxID req)
      (PostRefund D tf now (refund_tx D req (tx_ID original)) bn)" for tf now bn
    using PostRefund_key_conflicts [of "refund_tx D req (tx_ID original)"] by (simp add: refund_tx_def zero_transaction_def)
  obtain t where "find (same_key (fr_StoreID req) TransactionRefund (fr_ExternalTxID req)) (db_transactions d3) = Some t"
    using conflict_found [OF assms(1) keys race(3) [unfolded refund_post_def] extends_PostRefund] by blast
  from keyed_lookup [OF assms(1) this] race(4) show ?thesis
    by (auto simp: run_replayedRefund split: prod.splits sum.splits if_splits)
qed simp_all

text \<open>When the request names the type of its original, the original is found again.\<close>

lemma extends_replayedRefund: "growing E \<Longrightarrow> keeps extends (replayedRefund D E k s x oid a)"
  unfolding replayedRefund_def
  by (auto intro!: keeps_bind growing_call keeps_reads keeps_ok keeps_fail split: sum.split)

lemma extends_refund_post: "growing E \<Longrightarrow> keeps extends (refund_post D E req original)"
  unfolding refund_post_def call_tx_def by (intro growing_call extends_PostRefund)

lemma Refund_extends:
  assumes "growing E" "run_state (Refund D E req) d = (Inr res, d')"
  obtains original d1 where "run_state (refund_resolve E req) d = (Inr original, d1)" "extends d1 d'"
  using assms(2)
proof (cases rule: Refund_Inr)
  case (replay original d1 r)
  with that keeps_run [OF extends_replayedRefund [OF assms(1)]] show thesis by blast
next
  case (post original d1 d2 pst upd bal)
  have "extends d1 d2" using post(2) by (rule keeps_run [OF extends_replayedRefund [OF assms(1)]])
  moreover have "extends d2 d'" using post(3) by (rule keeps_run [OF extends_refund_post [OF assms(1)]])
  ultimately show thesis using that post(1) extends_trans by blast
next
  case (race original d1 d2 d3)
  have "extends d1 d2" using race(2) by (rule keeps_run [OF extends_replayedRefund [OF assms(1)]])
  moreover have "extends d2 d3" using race(3) by (rule keeps_run [OF extends_refund_post [OF assms(1)]])
  moreover have "extends d3 d'" using race(4) by (rule keeps_run [OF extends_replayedRefund [OF assms(1)]])
  ultimately show thesis using that race(1) extends_trans by blast
qed

lemma refund_resolve_Some:
  assumes "growing E" "fr_OriginalType req = Some ty" "run_state (refund_resolve E req) d = (Inr original, d1)"
  shows "\<exists>t. find (same_key (fr_StoreID req) ty (fr_OriginalExternalTxID req)) (db_transactions d1) = Some t \<and>
    original = scanTransaction t"
proof -
  have "run_state (call E (''refund.GetOriginal'', 0) (tx_GetByExternalID (fr_StoreID req) ty (fr_OriginalExternalTxID req))) d
      = (Inr original, d1)"
    using assms(2,3) by (simp add: resolveOriginalTransaction_def)
  from call_find [OF this [unfolded tx_GetByExternalID_gets]] show ?thesis by blast
qed

lemma Refund_again:
  assumes first: "growing E" "run_state (Refund D E req) d = (Inr (Some r), d')" "fr_OriginalType req = Some ty"
    and later: "extends d' d2" "growing E2" "faultless E2"
  shows "\<exists>d3. run_state (Refund D E2 req) d2 =
    (Inr (Some (r\<lparr>fres_RefundedAmountTotal := 0, fres_FullyRefunded := False, fres_Replayed := True\<rparr>)), d3)"
proof -
  obtain original d1 where 1: "run_state (refund_resolve E req) d = (Inr original, d1)" "extends d1 d'"
    using Refund_extends [OF first(1,2)] by blast
  have ans: "refund_answer D req (tx_ID original) d' =
     Some (r\<lparr>fres_RefundedAmountTotal := 0, fres_FullyRefunded := False, fres_Replayed := True\<rparr>)"
    using refunded_answer [OF first(2)] 1(1) by auto
  obtain t where t: "find (same_key (fr_StoreID req) ty (fr_OriginalExternalTxID req)) (db_transactions d1) = Some t"
    "original = scanTransaction t"
    using refund_resolve_Some [OF first(1,3) 1(1)] by blast
  let ?d3 = "env_other E2 (''refund.GetOriginal'', 0) d2"
  have grow: "extends d1 ?d3" "extends d' ?d3"
    using 1(2) later(1,2) by (auto simp: growing_def intro: extends_trans)
  obtain t' where t': "find (same_key (fr_StoreID req) ty (fr_OriginalExternalTxID req)) (db_transactions ?d3) = Some t'"
    "core t' = core t"
    using extends_transaction [OF grow(1) t(1)] by blast
  have res: "run_state (refund_resolve E2 req) d2 = (Inr (scanTransaction t'), ?d3)"
    by (simp add: resolveOriginalTransaction_def first(3) faultless_call [OF later(3)] run_GetByExternalID t'(1))
  have "tx_ID (scanTransaction t') = tx_ID original" using t(2) core_sel [OF t'(2)] by simp
  then show ?thesis
    using refund_replay_complete [OF later(2,3) refund_answer_extends [OF grow(2) ans]] res
    by (simp add: Refund_def run_andThen)
qed

end
