(* ===== verification/Ledger_Theorems.thy ===== *)
theory Ledger_Theorems
  imports Ledger_Steps Scenario
begin

text \<open>
  What the ledger guarantees, over every state that any interleaving of loyalty requests,
  other statements and faults can reach from an empty database, and operation by operation.
\<close>

section \<open>The scenario is reachable\<close>

lemma fair_quiet: "fair_env D af Q (quiet t)"
  by (simp add: fair_env_def)

lemma reach_demo: "reachable D af Q demo_db"
proof -
  have "unledgered empty_db demo_db"
    by (simp add: unledgered_def demo_db_def clients_grow_def empty_db_def)
  then show ?thesis unfolding reachable_def by (blast intro: ledger_step.other)
qed

lemma positive_amounts: "positive_only (\<lambda>x. 0 < x)"
  by (simp add: positive_only_def)

abbreviation demo_af :: anti_fraud_config where
  "demo_af \<equiv> svc_antiFraud demo_service"

lemma reach_state1: "reachable go_decimal demo_af Q state1"
proof -
  have "keeps (steps go_decimal demo_af Q) (Accrue go_decimal demo_service (quiet 1000) (demo_accrue ''a1'' 1000))"
    by (rule steps_Accrue [OF go_dec.decimal_laws_axioms fair_quiet])
  from keepsD [OF this, of demo_db] show ?thesis
    by (auto simp: run_a1 intro: reachable_steps [OF reach_demo])
qed

lemma reach_state2: "reachable go_decimal demo_af Q state2"
proof -
  have "keeps (steps go_decimal demo_af Q) (Redeem go_decimal demo_service (quiet 2000) (demo_redeem ''r1'' 30 100))"
    by (rule steps_Redeem [OF fair_quiet]) (simp add: demo_redeem_def in_i64_def)
  from keepsD [OF this, of state1] show ?thesis
    by (auto simp: run_r1 intro: reachable_steps [OF reach_state1])
qed

lemma reach_state3:
  assumes "Q 1000"
  shows "reachable go_decimal demo_af Q state3"
proof -
  have "keeps (steps go_decimal demo_af Q) (Refund go_decimal (quiet 3000) (demo_refund ''f1'' ''a1'' 1000))"
    by (rule steps_Refund [OF fair_quiet]) (simp add: demo_refund_def assms)
  from keepsD [OF this, of state2] show ?thesis
    by (auto simp: run_f1 intro: reachable_steps [OF reach_state2])
qed

section \<open>Every state\<close>

text \<open>
  C1: in every reachable state the stored balance of a client is the sum of the point deltas
  of its transactions.
\<close>

theorem ledger_conserved:
  assumes "decimal_laws D" "positive_only Q" "reachable D af Q d"
  shows "points_of d c = sum_rows (\<lambda>t. tx_ClientID t = c) tx_PointsDelta (db_transactions d)"
  using ledger_wfD(1) [OF reachable_wf [OF assms]] .

theorem ledger_conserved_witness:
  "points_of state3 1 = sum_rows (\<lambda>t. tx_ClientID t = 1) tx_PointsDelta (db_transactions state3)
   \<and> points_of state3 1 = - 30"
proof
  show "points_of state3 1 = sum_rows (\<lambda>t. tx_ClientID t = 1) tx_PointsDelta (db_transactions state3)"
    by (rule ledger_conserved [OF go_dec.decimal_laws_axioms positive_amounts reach_state3]) simp
  show "points_of state3 1 = - 30" by (simp add: points_of_def state3_def)
qed

text \<open>
  C2: an accrual, redemption or refund request, run among any other requests and with any
  faults, takes a reachable state to a reachable state.
\<close>

theorem requests_move_by_steps:
  assumes "decimal_laws D" "reachable D (svc_antiFraud svc) Q d" "fair_env D (svc_antiFraud svc) Q E"
    and "in_i64 (rr_Points rreq)" "Q (fr_Amount freq)"
  shows "reachable D (svc_antiFraud svc) Q (snd (run_state (Accrue D svc E areq) d))
    \<and> reachable D (svc_antiFraud svc) Q (snd (run_state (Redeem D svc E rreq) d))
    \<and> reachable D (svc_antiFraud svc) Q (snd (run_state (Refund D E freq) d))"
  using keepsD [OF steps_Accrue [OF assms(1,3)], of d areq] keepsD [OF steps_Redeem [OF assms(3,4)], of d]
    keepsD [OF steps_Refund [OF assms(3,5)], of d] reachable_steps [OF assms(2)] by blast

theorem requests_move_by_steps_witness:
  "reachable go_decimal demo_af (\<lambda>x. 0 < x)
     (snd (run_state (Accrue go_decimal demo_service (quiet 4000) (demo_accrue ''a2'' 50)) state2))
   \<and> reachable go_decimal demo_af (\<lambda>x. 0 < x)
     (snd (run_state (Redeem go_decimal demo_service (quiet 4000) (demo_redeem ''r2'' 5 50)) state2))
   \<and> reachable go_decimal demo_af (\<lambda>x. 0 < x)
     (snd (run_state (Refund go_decimal (quiet 4000) (demo_refund ''f2'' ''r1'' 50)) state2))"
  by (rule requests_move_by_steps [OF go_dec.decimal_laws_axioms reach_state2 fair_quiet])
    (simp_all add: demo_redeem_def demo_refund_def in_i64_def)

text \<open>
  C3: the refund counters of an accrual or redemption stay within the amount and the points
  of the original, and the points the refunds moved so far are exactly the counter.
\<close>

theorem refunds_within_original:
  assumes "decimal_laws D" "positive_only Q" "reachable D af Q d"
    and "t \<in> set (db_transactions d)" "tx_Type t \<noteq> TransactionRefund"
  shows "0 \<le> tx_RefundedAmount t \<and> tx_RefundedAmount t \<le> tx_Amount t
    \<and> 0 \<le> tx_RefundedPoints t \<and> tx_RefundedPoints t \<le> \<bar>tx_PointsDelta t\<bar>
    \<and> sum_rows (\<lambda>u. tx_OriginalTransactionID u = Some (tx_ID t)) tx_PointsDelta (db_transactions d)
       = (if tx_Type t = TransactionAccrual then - tx_RefundedPoints t else tx_RefundedPoints t)"
  using ledger_wfD(6) [OF reachable_wf [OF assms(1-3)] assms(4,5)]
  by (simp add: refunds_ok_def refund_of_def [abs_def])

theorem refunds_within_original_witness:
  "0 \<le> tx_RefundedAmount row_r1 \<and> tx_RefundedAmount row_r1 \<le> tx_Amount row_r1
    \<and> 0 \<le> tx_RefundedPoints row_r1 \<and> tx_RefundedPoints row_r1 \<le> \<bar>tx_PointsDelta row_r1\<bar>
    \<and> sum_rows (\<lambda>u. tx_OriginalTransactionID u = Some (tx_ID row_r1)) tx_PointsDelta (db_transactions state3)
       = (if tx_Type row_r1 = TransactionAccrual then - tx_RefundedPoints row_r1 else tx_RefundedPoints row_r1)"
  by (rule refunds_within_original [OF go_dec.decimal_laws_axioms positive_amounts reach_state3])
    (simp_all add: state3_def row_r1_def zero_transaction_def)

text \<open>
  C4: when the refunds of an original are in whole kopecks, the points taken back are the
  floor of the proportional share, for amounts below 200 million million roubles; in particular
  a fully refunded original has given back all its points.
\<close>

theorem refunded_points_floor:
  assumes "decimal_laws D" "reachable D af whole_kopecks d"
    and "t \<in> set (db_transactions d)" "tx_Type t \<noteq> TransactionRefund"
    and "0 < tx_Amount t" "tx_Amount t < 2 * 10 ^ 14"
  shows "tx_RefundedPoints t = \<lfloor>of_int \<bar>tx_PointsDelta t\<bar> * tx_RefundedAmount t / tx_Amount t\<rfloor>
    \<and> (tx_RefundedAmount t = tx_Amount t \<longrightarrow> tx_RefundedPoints t = \<bar>tx_PointsDelta t\<bar>)"
  using reachable_exact [OF assms(1,2)] assms(3-6)
  by (simp add: exact_ledger_def exact_share_def del: of_int_abs)

theorem refunded_points_floor_witness:
  "(50 :: int) = \<lfloor>of_int \<bar>50\<bar> * (1000 :: rat) / 1000\<rfloor>
   \<and> tx_RefundedPoints (row_a1\<lparr>tx_RefundedAmount := 1000, tx_RefundedPoints := 50\<rparr>) = 50"
proof
  have "whole_at 2 1000" by (simp add: whole_at_def)
  then have "whole_kopecks 1000" by (simp add: whole_kopecks_def)
  from refunded_points_floor [OF go_dec.decimal_laws_axioms reach_state3 [where Q = whole_kopecks, OF this],
      of "row_a1\<lparr>tx_RefundedAmount := 1000, tx_RefundedPoints := 50\<rparr>"]
  show "(50 :: int) = \<lfloor>of_int \<bar>50\<bar> * (1000 :: rat) / 1000\<rfloor>"
    by (simp add: state3_def row_a1_def zero_transaction_def)
qed simp

text \<open>
  C5: the points a client redeems within any window of the configured length never exceed the
  configured limit, in every reachable state and whatever the clock readings, as long as the
  client's total of redeemed points fits an int64.
\<close>

theorem rolling_limit_holds:
  assumes "decimal_laws D" "positive_only Q" "reachable D af Q d" "0 < af_DailyRedeemPointsLimit af"
    and "in_i64 (redeemed_ever c (db_transactions d))"
  shows "redeemed_between c (t - af_DailyRedeemWindow af) t (db_transactions d) \<le> af_DailyRedeemPointsLimit af"
  using reachable_within_limit [OF assms(1-4)] assms(5) by (simp add: within_limit_def)

theorem rolling_limit_holds_witness:
  "redeemed_between 1 (2000 - af_DailyRedeemWindow demo_af) 2000 (db_transactions state2)
     \<le> af_DailyRedeemPointsLimit demo_af
   \<and> redeemed_between 1 (2000 - af_DailyRedeemWindow demo_af) 2000 (db_transactions state2) = 30"
proof
  show "redeemed_between 1 (2000 - af_DailyRedeemWindow demo_af) 2000 (db_transactions state2)
     \<le> af_DailyRedeemPointsLimit demo_af"
    by (rule rolling_limit_holds [OF go_dec.decimal_laws_axioms positive_amounts reach_state2])
      (simp_all add: demo_service_def state2_def redeemed_ever_def row_a1_def row_r1_def zero_transaction_def in_i64_def)
  show "redeemed_between 1 (2000 - af_DailyRedeemWindow demo_af) 2000 (db_transactions state2) = 30"
    by (simp add: demo_service_def state2_def redeemed_between_def row_a1_def row_r1_def zero_transaction_def)
qed

end
