(* ===== verification/Loyalty_Theorems.thy ===== *)
theory Loyalty_Theorems
  imports Accrual Redemption Refunds Ledger_Theorems
begin

text \<open>
  What the three requests guarantee to the register: exactly-once effects under retries, the
  bounds on a redemption, and the error every refused request gets.
\<close>

section \<open>Exactly once\<close>

text \<open>
  C6: once an accrual has answered, every later delivery of the same request that is not hit by
  a fault gets the same answer, marked as replayed, whatever other requests ran before and in
  between, and adds nothing to the database itself.
\<close>

theorem accrual_exactly_once:
  assumes "fair_env D af Q E" "run_state (Accrue D svc E req) d = (Inr (Some r), d')"
    and "steps D af Q d' d2" "fair_env D af Q E2" "faultless E2"
  shows "run_state (Accrue D svc2 E2 req) d2 = (Inr (Some (r\<lparr>ares_Replayed := True\<rparr>)),
    env_other E2 (''accrue.replay.GetByPhone'', 0) (env_other E2 (''accrue.GetByExternalID'', 0) d2))"
  by (rule Accrue_answered [OF fair_growing [OF assms(4)] assms(5)
        accrue_answer_extends [OF steps_extends [OF assms(3)] accrued_answer [OF assms(1,2)]]])

lemma demo_steps: "steps go_decimal demo_af (\<lambda>x. 0 < x) state1 state2" "steps go_decimal demo_af (\<lambda>x. 0 < x) state2 state3"
proof -
  have "keeps (steps go_decimal demo_af (\<lambda>x. 0 < x)) (Redeem go_decimal demo_service (quiet 2000) (demo_redeem ''r1'' 30 100))"
    by (rule steps_Redeem [OF fair_quiet]) (simp add: demo_redeem_def in_i64_def)
  from keepsD [OF this, of state1] show "steps go_decimal demo_af (\<lambda>x. 0 < x) state1 state2" by (simp add: run_r1)
  have "keeps (steps go_decimal demo_af (\<lambda>x. 0 < x)) (Refund go_decimal (quiet 3000) (demo_refund ''f1'' ''a1'' 1000))"
    by (rule steps_Refund [OF fair_quiet]) (simp add: demo_refund_def)
  from keepsD [OF this, of state2] show "steps go_decimal demo_af (\<lambda>x. 0 < x) state2 state3" by (simp add: run_f1)
qed

theorem accrual_exactly_once_witness:
  "run_state (Accrue go_decimal demo_service (quiet 9000) (demo_accrue ''a1'' 1000)) state3 =
     (Inr (Some \<lparr>ares_ClientID = 1, ares_PointsEarned = 50, ares_Balance = 50, ares_Replayed = True\<rparr>), state3)"
  using accrual_exactly_once [OF fair_quiet run_a1 rtranclp_trans [OF demo_steps] fair_quiet quiet_faultless]
  by simp

text \<open>
  C7: likewise for a redemption of a client the store knew when the request first ran.
\<close>

theorem redemption_exactly_once:
  assumes "fair_env D (svc_antiFraud svc) Q E" "in_i64 (rr_Points req)" "redeem_client req d"
    and "run_state (Redeem D svc E req) d = (Inr (Some r), d')"
    and "steps D (svc_antiFraud svc) Q d' d2" "growing E2" "faultless E2"
  shows "run_state (Redeem D svc2 E2 req) d2 = (Inr (Some (r\<lparr>rres_Replayed := True\<rparr>)),
    env_other E2 (''redeem.GetByExternalID'', 0) (env_other E2 (''redeem.GetClient'', 0) d2))"
proof (rule Redeem_answered [OF assms(6,7)])
  have "extends d d'" using assms(4) by (rule step_keeps [OF steps_Redeem [OF assms(1,2)]])
  moreover have "extends d' d2" by (rule steps_extends [OF assms(5)])
  ultimately have "extends d d2" by (rule extends_trans)
  then show "redeem_client req d2" using assms(3) by (rule redeem_client_extends)
  show "redeem_answer D req d2 = Some (r\<lparr>rres_Replayed := True\<rparr>)"
    by (rule redeem_answer_extends [OF \<open>extends d' d2\<close> redeemed_answer [OF assms(4)]])
qed

theorem redemption_exactly_once_witness:
  "run_state (Redeem go_decimal demo_service (quiet 9000) (demo_redeem ''r1'' 30 100)) state3 =
     (Inr (Some \<lparr>rres_PointsRedeemed = 30, rres_Balance = 20, rres_Replayed = True\<rparr>), state3)"
proof -
  have "redeem_client (demo_redeem ''r1'' 30 100) state1" "in_i64 (rr_Points (demo_redeem ''r1'' 30 100))"
    by (simp_all add: redeem_client_def demo_redeem_def state1_def demo_client_def in_i64_def)
  from redemption_exactly_once [OF fair_quiet this(2,1) run_r1 demo_steps(2) quiet_growing quiet_faultless]
  show ?thesis by simp
qed

text \<open>
  A retried refund that names the type of its original gets its points and balance again,
  but never the cumulative amount or the full-refund flag it was first answered with.
\<close>

theorem refund_replay_forgets_snapshot:
  assumes "growing E" "run_state (Refund D E req) d = (Inr (Some r), d')" "fr_OriginalType req = Some ty"
    and "extends d' d2" "growing E2" "faultless E2"
  shows "\<exists>d3. run_state (Refund D E2 req) d2 =
    (Inr (Some (r\<lparr>fres_RefundedAmountTotal := 0, fres_FullyRefunded := False, fres_Replayed := True\<rparr>)), d3)"
  by (rule Refund_again [OF assms])

lemma run_f1_typed: "run_state (Refund go_decimal (quiet 3000)
    ((demo_refund ''f1'' ''a1'' 1000)\<lparr>fr_OriginalType := Some TransactionAccrual\<rparr>)) state2 =
  (Inr (Some \<lparr>fres_ClientID = 1, fres_PointsReversed = - 50, fres_Balance = - 30, fres_RefundedAmountTotal = 1000,
              fres_FullyRefunded = True, fres_Replayed = False\<rparr>), state3)"
  by (simp add: eval_simps state_defs fun_upd_twist)

theorem refund_replay_forgets_snapshot_witness:
  "\<exists>d3. run_state (Refund go_decimal (quiet 9000)
      ((demo_refund ''f1'' ''a1'' 1000)\<lparr>fr_OriginalType := Some TransactionAccrual\<rparr>)) state3 =
    (Inr (Some \<lparr>fres_ClientID = 1, fres_PointsReversed = - 50, fres_Balance = - 30, fres_RefundedAmountTotal = 0,
                fres_FullyRefunded = False, fres_Replayed = True\<rparr>), d3)"
  using refund_replay_forgets_snapshot [OF quiet_growing run_f1_typed _ extends_refl quiet_growing quiet_faultless,
      of TransactionAccrual 9000]
  by simp

text \<open>
  No request returns a missing result without an error, even when it loses the race for
  its idempotency key.
\<close>

theorem requests_never_answer_nothing:
  assumes "growing E"
  shows "fst (run_state (Accrue D svc E areq) d) \<noteq> Inr None
    \<and> fst (run_state (Redeem D svc E rreq) d) \<noteq> Inr None
    \<and> fst (run_state (Refund D E freq) d) \<noteq> Inr None"
  using Accrue_result [OF assms] Redeem_result [OF assms] Refund_result [OF assms]
  by (metis prod.collapse)

theorem requests_never_answer_nothing_witness:
  "fst (run_state (Accrue go_decimal demo_service (quiet 1) (demo_accrue ''a1'' 1000)) demo_db) \<noteq> Inr None
    \<and> fst (run_state (Redeem go_decimal demo_service (quiet 1) (demo_redeem ''r1'' 30 100)) demo_db) \<noteq> Inr None
    \<and> fst (run_state (Refund go_decimal (quiet 1) (demo_refund ''f1'' ''a1'' 1000)) demo_db) \<noteq> Inr None"
  by (rule requests_never_answer_nothing) simp

text \<open>
  An accrual whose key is taken by a different request (another amount, or another
  client's phone, known or not) is refused as an idempotency conflict and writes nothing: no
  client is created for it.
\<close>

theorem accrual_key_reuse_refused:
  assumes "find (same_key (ar_StoreID req) TransactionAccrual (ar_ExternalTxID req)) (db_transactions d) = Some t"
    and "accrue_answer D (ar_StoreID req) (ar_ExternalTxID req) (canonical_phone (ar_Phone req)) (ar_Amount req) d = None"
  shows "run_state (Accrue D svc (quiet now) req) d = (Inl ErrIdempotencyConflict, d)"
  by (rule Accrue_conflict [OF assms])

theorem accrual_key_reuse_refused_witness:
  "run_state (Accrue go_decimal demo_service (quiet 4000) ((demo_accrue ''a1'' 1000)\<lparr>ar_Phone := ''+79990000000''\<rparr>)) state1
     = (Inl ErrIdempotencyConflict, state1)"
  by (rule accrual_key_reuse_refused [where t = row_a1])
    (simp_all add: demo_accrue_def state1_def demo_client_def row_a1_def same_key_def zero_transaction_def
      accrue_answer_def canonical_phone_def NormalizePhone_def is_digit_def)

section \<open>Redemptions\<close>

text \<open>
  C8: what an undisturbed fresh redemption takes. For an amount in whole kopecks and a configuration as its
  columns hold it (percent with two decimals, exchange rate with four and below a million), whose cap, if any,
  fits an \<open>int64\<close>: it takes the points requested, cut down to the configured share of the purchase where a positive
  share and rate are configured (a share of zero sets no cap), and the points taken are then worth no more than that share. They are positive
  and no more than the client had; the client had the minimum balance; the balance falls by exactly these points and
  the answer tells both numbers.
\<close>

theorem redemption_sound:
  assumes "decimal_laws D" "run_state (Redeem D svc (quiet now) req) d = (Inr (Some r), d')" "\<not> rres_Replayed r"
    and "db_loyalty_configs d (rr_StoreID req) = Some cfg" "in_i64 (rr_Points req)" "whole_at 2 (rr_Amount req)"
    and "whole_at 2 (cfg_MaxRedeemPercent cfg)" "whole_at 4 (cfg_PointsExchangeRate cfg)" "cfg_PointsExchangeRate cfg < 10 ^ 6"
    and "in_i64 \<lfloor>rr_Amount req * cfg_MaxRedeemPercent cfg / 100 / cfg_PointsExchangeRate cfg\<rfloor>"
  shows "rres_PointsRedeemed r =
      (if 0 < cfg_MaxRedeemPercent cfg \<and> 0 < cfg_PointsExchangeRate cfg
       then min (rr_Points req) \<lfloor>rr_Amount req * cfg_MaxRedeemPercent cfg / 100 / cfg_PointsExchangeRate cfg\<rfloor>
       else rr_Points req)
    \<and> (0 < cfg_MaxRedeemPercent cfg \<and> 0 < cfg_PointsExchangeRate cfg \<longrightarrow>
         of_int (rres_PointsRedeemed r) * cfg_PointsExchangeRate cfg \<le> rr_Amount req * cfg_MaxRedeemPercent cfg / 100)
    \<and> 0 < rres_PointsRedeemed r \<and> rres_PointsRedeemed r \<le> points_of d (rr_ClientID req)
    \<and> cfg_MinBalanceToRedeem cfg \<le> points_of d (rr_ClientID req)
    \<and> rres_Balance r = points_of d' (rr_ClientID req) \<and> 0 \<le> rres_Balance r
    \<and> points_of d' (rr_ClientID req) = points_of d (rr_ClientID req) - rres_PointsRedeemed r"
proof -
  let ?cap = "rr_Amount req * cfg_MaxRedeemPercent cfg / 100 / cfg_PointsExchangeRate cfg"
  let ?capped = "0 < cfg_MaxRedeemPercent cfg \<and> 0 < cfg_PointsExchangeRate cfg"
  define p where "p = cappedPoints D cfg (rr_Amount req) (rr_Points req)"
  have p: "p = (if ?capped then min (rr_Points req) \<lfloor>?cap\<rfloor> else rr_Points req)"
  proof (cases ?capped)
    case True
    then have pos: "0 < cfg_MaxRedeemPercent cfg" "0 < cfg_PointsExchangeRate cfg" by simp_all
    show ?thesis unfolding p_def using cappedPoints_min [OF assms(1,6,7) pos(1) assms(8) pos(2) assms(9,10)] True by simp
  next
    case False
    then show ?thesis by (auto simp: p_def cappedPoints_def)
  qed
  obtain pst bal where pos: "0 < p" "p \<le> points_of d (rr_ClientID req)"
    and post: "run_state (PostRedeemChecked (\<lambda>_. False) now (redeem_tx D req cfg) (cfg_MinBalanceToRedeem cfg)
       (af_DailyRedeemPointsLimit (svc_antiFraud svc)) (af_DailyRedeemWindow (svc_antiFraud svc))
       (Some (redeem_notify D req cfg))) d = (Inr (pst, bal), d')"
    and r: "r = \<lparr>rres_PointsRedeemed = wrap64 (- tx_PointsDelta pst), rres_Balance = bal_Points bal, rres_Replayed = False\<rparr>"
    using assms(4) by (rule_tac Redeem_quiet [OF assms(2,3)]) (auto simp: p_def)
  note eff = PostRedeemChecked_effect [OF post]
  have key: "tx_ClientID (redeem_tx D req cfg) = rr_ClientID req" "tx_PointsDelta (redeem_tx D req cfg) = - p"
    by (simp_all add: redeem_tx_def p_def)
  have effs: "tx_PointsDelta pst = - p" "bal_Points bal = points_of d (rr_ClientID req) - p" "0 \<le> bal_Points bal"
    "points_of d' (rr_ClientID req) = points_of d (rr_ClientID req) - p"
    "cfg_MinBalanceToRedeem cfg \<le> points_of d (rr_ClientID req)"
    using eff by (auto simp: post_effect_def Let_def key points_of_def)
  have "p \<le> rr_Points req" using p by simp
  then have "in_i64 p" using pos(1) assms(5) by (simp add: in_i64_def)
  then have taken: "rres_PointsRedeemed r = p" using effs(1) by (simp add: r wrap64_id)
  have "of_int p * cfg_PointsExchangeRate cfg \<le> rr_Amount req * cfg_MaxRedeemPercent cfg / 100" if ?capped
  proof -
    have "p \<le> \<lfloor>?cap\<rfloor>" using p that by simp
    then have "of_int p \<le> ?cap" by (simp add: le_floor_iff)
    then show ?thesis using that by (simp add: pos_le_divide_eq)
  qed
  then have worth: "?capped \<longrightarrow> of_int p * cfg_PointsExchangeRate cfg \<le> rr_Amount req * cfg_MaxRedeemPercent cfg / 100" by blast
  have "rres_Balance r = bal_Points bal" by (simp add: r)
  then show ?thesis unfolding taken by (intro conjI) (rule p | rule worth | simp add: pos effs)+
qed

theorem redemption_sound_witness:
  "(30 :: int) = min 30 50 \<and> of_int 30 * (1 :: rat) \<le> 100 * 50 / 100 \<and> 30 \<le> points_of state1 1 \<and> 10 \<le> points_of state1 1
    \<and> 20 = points_of state2 1 \<and> points_of state2 1 = points_of state1 1 - 30"
proof -
  have "db_loyalty_configs state1 (rr_StoreID (demo_redeem ''r1'' 30 100)) = Some demo_config"
    by (simp add: state1_def demo_db_def demo_redeem_def empty_db_def)
  from redemption_sound [OF go_dec.decimal_laws_axioms run_r1 _ this]
  show ?thesis by (simp add: demo_redeem_def demo_config_def in_i64_def whole_at_def)
qed

section \<open>Accruals\<close>



text \<open>
  A client whose debt exceeds the points of a purchase cannot buy with the card: the
  accrual is refused as an insufficient balance and the purchase is not recorded, also when it
  would have earned no points.
\<close>

theorem debt_blocks_accrual:
  assumes "find (same_key (ar_StoreID req) TransactionAccrual (ar_ExternalTxID req)) (db_transactions d) = None"
    and "find (\<lambda>c. cl_StoreID c = ar_StoreID req \<and> cl_Phone c = canonical_phone (ar_Phone req)) (db_clients d) = Some c"
    and "points_rule d (ar_StoreID req)"
    and "tx = ruled_tx D d (accrual_tx D (ar_StoreID req) (cl_ID c) (ar_ExternalTxID req) (ar_Amount req))"
    and "points_of d (cl_ID c) + tx_PointsDelta tx < 0" "in_i64 (points_of d (cl_ID c) + tx_PointsDelta tx)"
  shows "\<exists>q. run_state (Accrue D svc (quiet now) req) d = (Inl ErrInsufficientBalance, d\<lparr>db_seq := q\<rparr>)"
proof -
  have "c \<in> set (db_clients d)" using find_SomeD [OF assms(2)] by blast
  then have "known_client d (cl_ID c)" by (auto simp: known_client_def list_ex_iff)
  moreover have "tx_ClientID tx = cl_ID c" by (simp add: assms(4))
  ultimately have "post_error d tx = Some ErrInsufficientBalance"
    using assms(5,6) by (simp add: post_error_def Let_def fundable_def)
  with Accrue_known_outcome [OF assms(1-4), of svc now] show ?thesis by simp
qed

theorem debt_blocks_accrual_witness:
  "\<exists>q. run_state (Accrue go_decimal demo_service (quiet 4000) (demo_accrue ''a2'' 100)) state3
     = (Inl ErrInsufficientBalance, state3\<lparr>db_seq := q\<rparr>)"
proof -
  let ?tx = "ruled_tx go_decimal state3 (accrual_tx go_decimal 1 1 ''a2'' 100)"
  have "tx_PointsDelta ?tx = 5"
    by (simp add: ruled_tx_def state3_def state2_def state1_def demo_db_def empty_db_def demo_config_def go_decimal_def
      accrual_tx_def zero_transaction_def in_i64_def wrap64_def round_at_def)
  moreover have "points_of state3 1 = - 30" by (simp add: points_of_def state3_def)
  ultimately show ?thesis
    by (intro debt_blocks_accrual [where c = demo_client and tx = ?tx])
      (simp_all add: demo_accrue_def state3_def state2_def state1_def demo_client_def row_a1_def row_r1_def row_f1_def
        same_key_def zero_transaction_def canonical_phone_def NormalizePhone_def is_digit_def points_rule_def demo_db_def
        demo_config_def empty_db_def in_i64_def)
qed

text \<open>
  Within the precision of the columns the mechanic earns exactly the floor of the
  percentage, never more than the amount itself.
\<close>

theorem accrual_points_exact:
  assumes "decimal_laws D" "whole_at 2 (tx_Amount tx)" "0 \<le> tx_Amount tx" "tx_Amount tx < 2 ^ 63"
    and "Validate cfg = None" "whole_at 2 (cfg_AccrualPercent cfg)" "cfg_MinPurchaseAmount cfg \<le> tx_Amount tx"
  shows "mechanic_Accrue D m tx cfg = \<lfloor>tx_Amount tx * cfg_AccrualPercent cfg / 100\<rfloor>
    \<and> 0 \<le> mechanic_Accrue D m tx cfg \<and> of_int (mechanic_Accrue D m tx cfg) \<le> tx_Amount tx"
proof -
  have pct: "0 \<le> cfg_AccrualPercent cfg" "cfg_AccrualPercent cfg \<le> 100"
    using assms(5) by (simp_all add: Validate_None)
  let ?x = "tx_Amount tx * cfg_AccrualPercent cfg / 100"
  have x: "0 \<le> ?x" "?x \<le> tx_Amount tx"
    using assms(3) pct mult_left_mono [OF pct(2) assms(3)] by simp_all
  then have "0 \<le> \<lfloor>?x\<rfloor>" "of_int \<lfloor>?x\<rfloor> \<le> ?x" by (simp_all only: zero_le_floor of_int_floor_le)
  moreover from this have "of_int \<lfloor>?x\<rfloor> < (of_int (2 ^ 63) :: rat)" using x(2) assms(4) by simp
  then have "\<lfloor>?x\<rfloor> < 2 ^ 63" by (simp only: of_int_less_iff)
  ultimately show ?thesis
    using mechanic_floor [OF assms(1,2) _ assms(6) _ assms(7), of m] x by (simp add: in_i64_def)
qed

theorem accrual_points_exact_witness: "mechanic_Accrue go_decimal PointsMechanic row_a1 demo_config = 50"
  using accrual_points_exact [OF go_dec.decimal_laws_axioms, of row_a1 demo_config PointsMechanic]
  by (simp add: row_a1_def zero_transaction_def demo_config_def Validate_def whole_at_def)

section \<open>Postings\<close>

text \<open>
  When no statement fails, an accrual posting commits exactly the effect of its
  specification, or returns the first error of its specification and changes no row.
\<close>

theorem post_refines_spec:
  assumes "\<forall>k. \<not> tf k" "notifiable d ns"
  shows "case post_error d tx of
     Some e \<Rightarrow> \<exists>q. run_state (Post tf now tx ns) d = (Inl e, d\<lparr>db_seq := q\<rparr>)
   | None \<Rightarrow> \<exists>r d'. run_state (Post tf now tx ns) d = (Inr r, d') \<and> post_effect now tx ns d r d'"
  using Post_outcome [OF assms, of tx now] by (auto simp: outcome_def split: option.splits dest: Post_Inl Post_Inr)

theorem post_refines_spec_witness:
  "\<exists>q. run_state (Post (\<lambda>_. False) 4000 (row_a1\<lparr>tx_PointsDelta := 7\<rparr>) []) state1 = (Inl ErrConflict, state1\<lparr>db_seq := q\<rparr>)"
proof -
  have "post_error state1 (row_a1\<lparr>tx_PointsDelta := 7\<rparr>) = Some ErrConflict"
    by (simp add: post_error_def Let_def fundable_def points_of_def state1_def in_i64_def numeric_def round_at_def
      transaction_checks_def ledger_row_def has_key_def same_key_def row_a1_def zero_transaction_def)
  with post_refines_spec [where tf = "\<lambda>_. False" and d = state1 and ns = "[]" and tx = "row_a1\<lparr>tx_PointsDelta := 7\<rparr>" and now = 4000] show ?thesis
    by (simp add: notifiable_def)
qed

text \<open>
  Likewise a redemption posting, whose specification adds the minimum balance and the
  rolling limit, checked in this order before the balance is touched.
\<close>

theorem redeem_refines_spec:
  assumes "\<forall>k. \<not> tf k" "notifiable d [n]"
  shows "case redeem_error d now tx minBalance dailyLimit window of
     Some e \<Rightarrow> \<exists>q. run_state (PostRedeemChecked tf now tx minBalance dailyLimit window n) d = (Inl e, d\<lparr>db_seq := q\<rparr>)
   | None \<Rightarrow> \<exists>r d'. run_state (PostRedeemChecked tf now tx minBalance dailyLimit window n) d = (Inr r, d') \<and>
       post_effect now tx [n] d r d'"
  using PostRedeemChecked_outcome [OF assms, of now tx minBalance dailyLimit window]
  by (auto simp: outcome_def split: option.splits dest: PostRedeemChecked_Inl PostRedeemChecked_effect)

theorem redeem_refines_spec_witness:
  "\<exists>q. run_state (PostRedeemChecked (\<lambda>_. False) 2500 (row_r1\<lparr>tx_ExternalTxID := ''r2'', tx_PointsDelta := - 15\<rparr>)
     10 40 86400 None) state2 = (Inl ErrDailyRedeemLimitExceeded, state2\<lparr>db_seq := q\<rparr>)"
proof -
  have "redeem_error state2 2500 (row_r1\<lparr>tx_ExternalTxID := ''r2'', tx_PointsDelta := - 15\<rparr>) 10 40 86400
      = Some ErrDailyRedeemLimitExceeded"
    by (simp add: redeem_error_def Let_def fundable_def points_of_def state2_def in_i64_def window_redeemed_def
      row_a1_def row_r1_def zero_transaction_def)
  with redeem_refines_spec [where tf = "\<lambda>_. False" and d = state2 and n = None and now = 2500 and
      tx = "row_r1\<lparr>tx_ExternalTxID := ''r2'', tx_PointsDelta := - 15\<rparr>" and minBalance = 10 and
      dailyLimit = 40 and window = 86400] show ?thesis
    by (simp add: notifiable_def)
qed

text \<open>
  C13: likewise a refund posting: a missing original, a refund of a refund and a refund beyond
  the original's amount are told apart and change no row; otherwise the original's counters,
  the balance and the new row move together.
\<close>

theorem refund_refines_spec:
  assumes "\<forall>k. \<not> tf k" "\<forall>delta. notifiable d [case bn of None \<Rightarrow> None | Some b \<Rightarrow> b delta]"
  shows "case refund_error D d refund of
     Some e \<Rightarrow> \<exists>q. run_state (PostRefund D tf now refund bn) d = (Inl e, d\<lparr>db_seq := q\<rparr>)
   | None \<Rightarrow> \<exists>r d'. run_state (PostRefund D tf now refund bn) d = (Inr r, d') \<and> refund_effect D now refund bn d r d'"
proof -
  have "outcome (refund_error D d refund) (PostRefund D tf now refund bn) d"
    using assms(2) by (intro PostRefund_outcome [OF assms(1)]) auto
  then show ?thesis
    by (auto simp: outcome_def split: option.splits dest: PostRefund_Inl PostRefund_effect)
qed

theorem refund_refines_spec_witness:
  "\<exists>q. run_state (PostRefund go_decimal (\<lambda>_. False) 4000
     (row_f1\<lparr>tx_ExternalTxID := ''f2'', tx_OriginalTransactionID := Some 2, tx_Amount := 101\<rparr>) None) state3
     = (Inl ErrOverRefund, state3\<lparr>db_seq := q\<rparr>)"
proof -
  have "refund_error go_decimal state3
      (row_f1\<lparr>tx_ExternalTxID := ''f2'', tx_OriginalTransactionID := Some 2, tx_Amount := 101\<rparr>) = Some ErrOverRefund"
    by (simp add: refund_error_def Let_def state3_def row_a1_def row_r1_def row_f1_def zero_transaction_def)
  with refund_refines_spec [where tf = "\<lambda>_. False" and bn = None and d = state3 and D = go_decimal and now = 4000 and
      refund = "row_f1\<lparr>tx_ExternalTxID := ''f2'', tx_OriginalTransactionID := Some 2, tx_Amount := 101\<rparr>"] show ?thesis
    by (simp add: notifiable_def)
qed

end
