(* ===== verification/Identity.thy ===== *)
theory Identity
  imports Repositories
begin

text \<open>
  The repositories of \<open>internal/repository/postgres\<close> behind the identities: customer sessions,
  consents and devices, staff users and memberships, store API keys, organizations, the audit
  trail and the store activity summary. As in \<open>Repositories\<close> a method is one statement (or one
  transaction) on the tables, \<open>now\<close> is the statement's \<open>now()\<close>, a unique violation is reported
  before a missing foreign key, and a failed insert still takes a number from its sequence.
\<close>

text \<open>The state an operation leaves.\<close>

abbreviation after :: "('s, 'a) state \<Rightarrow> 's \<Rightarrow> 's" where
  "after m d \<equiv> snd (run_state m d)"

text \<open>A failing call whose error is only logged.\<close>

definition logged :: "('s, 'a) op \<Rightarrow> ('s, unit) op" where
  "logged m = State_Monad.bind m (\<lambda>_. ok ())"

lemma run_logged [simp]: "run_state (logged m) d = (Inr (), after m d)"
  by (simp add: logged_def split: prod.split)

section \<open>Customer sessions\<close>

definition known_account :: "db \<Rightarrow> int \<Rightarrow> bool" where
  "known_account d i \<longleftrightarrow> list_ex (\<lambda>a. acc_ID a = i) (db_accounts d)"

definition session_Create :: "time \<Rightarrow> customer_session \<Rightarrow> (db, customer_session) op" where
  "session_Create now s =
     andThen (nextval T_sessions) (\<lambda>i.
     State (\<lambda>d.
       let row = s\<lparr>ses_ID := i, ses_ReplacedByID := None, ses_IssuedAt := now, ses_RevokedAt := None\<rparr>
       in if list_ex (\<lambda>r. ses_RefreshTokenHash r = ses_RefreshTokenHash s) (db_sessions d) \<or>
             \<not> known_account d (ses_CustomerAccountID s)
          then (Inl ErrInternal, d)
          else (Inr (s\<lparr>ses_ID := i, ses_IssuedAt := now\<rparr>), d\<lparr>db_sessions := db_sessions d @ [row]\<rparr>)))"

definition session_GetByRefreshTokenHash :: "string \<Rightarrow> (db, customer_session) op" where
  "session_GetByRefreshTokenHash h = select_one (\<lambda>s. ses_RefreshTokenHash s = h) db_sessions"

text \<open>
  \<open>ClaimForRotation\<close> returns the old session both with a nil error and with
  \<open>ErrSessionReused\<close>; the replacement is the argument it fills in. \<open>clock\<close> is \<open>time.Now()\<close> of the
  process, \<open>now\<close> the database's.
\<close>

datatype session_claim =
    Rotated customer_session customer_session
  | Reused customer_session

definition session_link :: "time \<Rightarrow> int \<Rightarrow> int \<Rightarrow> (db, unit) op" where
  "session_link now old new = modify (\<lambda>d. d\<lparr>db_sessions :=
     map (\<lambda>s. if ses_ID s = old then s\<lparr>ses_RevokedAt := Some now, ses_ReplacedByID := Some new\<rparr> else s)
       (db_sessions d)\<rparr>)"

definition session_ClaimForRotation ::
    "(nat \<Rightarrow> bool) \<Rightarrow> time \<Rightarrow> time \<Rightarrow> string \<Rightarrow> customer_session \<Rightarrow> (db, session_claim) op" where
  "session_ClaimForRotation tf clock now oldHash newSession =
     transaction_of (
       andThen (stmt tf 0 (ok ())) (\<lambda>_.
       andThen (stmt tf 1 (session_GetByRefreshTokenHash oldHash)) (\<lambda>old.
       if ses_RevokedAt old \<noteq> None then ok (Reused old)
       else if clock > ses_ExpiresAt old then fail ErrNotFound
       else
       andThen (stmt tf 2 (session_Create now (newSession\<lparr>ses_CustomerAccountID := ses_CustomerAccountID old\<rparr>)))
         (\<lambda>new.
       andThen (stmt tf 3 (session_link now (ses_ID old) (ses_ID new))) (\<lambda>_.
       andThen (stmt tf 4 (ok ())) (\<lambda>_.
       ok (Rotated old new)))))))"

definition revoke_sessions :: "time \<Rightarrow> (customer_session \<Rightarrow> bool) \<Rightarrow> (db, unit) op" where
  "revoke_sessions now P = modify (\<lambda>d. d\<lparr>db_sessions :=
     map (\<lambda>s. if P s \<and> ses_RevokedAt s = None then s\<lparr>ses_RevokedAt := Some now\<rparr> else s) (db_sessions d)\<rparr>)"

definition session_Revoke :: "time \<Rightarrow> int \<Rightarrow> (db, unit) op" where
  "session_Revoke now i = revoke_sessions now (\<lambda>s. ses_ID s = i)"

definition session_RevokeAllForAccount :: "time \<Rightarrow> int \<Rightarrow> (db, unit) op" where
  "session_RevokeAllForAccount now acc = revoke_sessions now (\<lambda>s. ses_CustomerAccountID s = acc)"

section \<open>Customer consents and devices\<close>

definition consent_Create :: "time \<Rightarrow> customer_consent \<Rightarrow> (db, customer_consent) op" where
  "consent_Create now c =
     andThen (nextval T_consents) (\<lambda>i.
     State (\<lambda>d.
       let row = c\<lparr>con_ID := i, con_GrantedAt := now\<rparr>
       in if \<not> known_account d (con_CustomerAccountID c) then (Inl ErrInternal, d)
          else (Inr row, d\<lparr>db_consents := db_consents d @ [row]\<rparr>)))"

definition device_active :: "string \<Rightarrow> customer_device \<Rightarrow> bool" where
  "device_active token v \<longleftrightarrow> dev_PushToken v = token \<and> dev_RevokedAt v = None"

text \<open>\<open>ON CONFLICT (push_token) WHERE revoked_at IS NULL DO UPDATE\<close>.\<close>

definition device_Upsert :: "time \<Rightarrow> customer_device \<Rightarrow> (db, customer_device) op" where
  "device_Upsert now v =
     andThen (nextval T_devices) (\<lambda>i.
     State (\<lambda>d.
       if \<not> known_account d (dev_CustomerAccountID v) then (Inl ErrInternal, d)
       else case find (device_active (dev_PushToken v)) (db_devices d) of
         Some old \<Rightarrow>
           (Inr (v\<lparr>dev_ID := dev_ID old, dev_CreatedAt := dev_CreatedAt old, dev_UpdatedAt := now\<rparr>),
            d\<lparr>db_devices := map (\<lambda>r. if device_active (dev_PushToken v) r
                then r\<lparr>dev_CustomerAccountID := dev_CustomerAccountID v, dev_Platform := dev_Platform v,
                       dev_UpdatedAt := now\<rparr> else r) (db_devices d)\<rparr>)
       | None \<Rightarrow>
           let row = v\<lparr>dev_ID := i, dev_CreatedAt := now, dev_UpdatedAt := now, dev_RevokedAt := None\<rparr>
           in (Inr (v\<lparr>dev_ID := i, dev_CreatedAt := now, dev_UpdatedAt := now\<rparr>),
               d\<lparr>db_devices := db_devices d @ [row]\<rparr>)))"

definition device_ListActiveByCustomerAccount :: "int \<Rightarrow> (db, customer_device list) op" where
  "device_ListActiveByCustomerAccount acc =
     gets (\<lambda>d. Inr (sort_key dev_CreatedAt
       (List.filter (\<lambda>v. dev_CustomerAccountID v = acc \<and> dev_RevokedAt v = None) (db_devices d))))"

definition revoke_devices :: "time \<Rightarrow> (customer_device \<Rightarrow> bool) \<Rightarrow> (db, nat) op" where
  "revoke_devices now P =
     State (\<lambda>d. (Inr (length (List.filter (\<lambda>v. P v \<and> dev_RevokedAt v = None) (db_devices d))),
                 d\<lparr>db_devices := map (\<lambda>v. if P v \<and> dev_RevokedAt v = None
                     then v\<lparr>dev_RevokedAt := Some now, dev_UpdatedAt := now\<rparr> else v) (db_devices d)\<rparr>))"

definition device_Revoke :: "time \<Rightarrow> int \<Rightarrow> int \<Rightarrow> (db, unit) op" where
  "device_Revoke now deviceID acc =
     andThen (revoke_devices now (\<lambda>v. dev_ID v = deviceID \<and> dev_CustomerAccountID v = acc)) (\<lambda>n.
     if n = 0 then fail ErrNotFound else ok ())"

definition device_RevokeByToken :: "time \<Rightarrow> string \<Rightarrow> (db, unit) op" where
  "device_RevokeByToken now token = andThen (revoke_devices now (\<lambda>v. dev_PushToken v = token)) (\<lambda>_. ok ())"

section \<open>Staff\<close>

definition staff_GetByExternalSubject :: "string \<Rightarrow> (db, staff_user) op" where
  "staff_GetByExternalSubject subject = select_one (\<lambda>u. su_ExternalSubject u = subject) db_staff_users"

definition staff_GetByID :: "int \<Rightarrow> (db, staff_user) op" where
  "staff_GetByID i = select_one (\<lambda>u. su_ID u = i) db_staff_users"

definition staff_Create :: "time \<Rightarrow> staff_user \<Rightarrow> (db, staff_user) op" where
  "staff_Create now u =
     andThen (nextval T_staff_users) (\<lambda>i.
     State (\<lambda>d.
       let row = u\<lparr>su_ID := i, su_CreatedAt := now\<rparr>
       in if list_ex (\<lambda>r. su_ExternalSubject r = su_ExternalSubject u) (db_staff_users d) then (Inl ErrConflict, d)
          else (Inr row, d\<lparr>db_staff_users := db_staff_users d @ [row]\<rparr>)))"

definition staff_UpdateProfile :: "int \<Rightarrow> string \<Rightarrow> string \<Rightarrow> (db, unit) op" where
  "staff_UpdateProfile i email name = modify (\<lambda>d. d\<lparr>db_staff_users :=
     map (\<lambda>u. if su_ID u = i then u\<lparr>su_Email := email, su_DisplayName := name\<rparr> else u) (db_staff_users d)\<rparr>)"

definition membership_ListByStaffUser :: "int \<Rightarrow> (db, staff_membership list) op" where
  "membership_ListByStaffUser i = select_all (\<lambda>m. mem_StaffUserID m = i) db_memberships"

definition membership_ListByOrganization :: "int \<Rightarrow> (db, staff_membership list) op" where
  "membership_ListByOrganization org = select_all (\<lambda>m. mem_OrganizationID m = org) db_memberships"

definition membership_GetByID :: "int \<Rightarrow> (db, staff_membership) op" where
  "membership_GetByID i = select_one (\<lambda>m. mem_ID m = i) db_memberships"

text \<open>
  The table's \<open>UNIQUE (staff_user_id, organization_id, store_id)\<close> lets NULL stores repeat; the
  partial index of migration 30 covers these, so together they compare options.
\<close>

definition same_scope :: "staff_membership \<Rightarrow> staff_membership \<Rightarrow> bool" where
  "same_scope m n \<longleftrightarrow> mem_StaffUserID m = mem_StaffUserID n \<and> mem_OrganizationID m = mem_OrganizationID n \<and>
     mem_StoreID m = mem_StoreID n"

definition membership_Create :: "time \<Rightarrow> staff_membership \<Rightarrow> (db, staff_membership) op" where
  "membership_Create now m =
     andThen (nextval T_memberships) (\<lambda>i.
     State (\<lambda>d.
       let row = m\<lparr>mem_ID := i, mem_CreatedAt := now, mem_UpdatedAt := now\<rparr>
       in if list_ex (same_scope m) (db_memberships d) then (Inl ErrConflict, d)
          else if \<not> list_ex (\<lambda>u. su_ID u = mem_StaffUserID m) (db_staff_users d) \<or>
                  \<not> list_ex (\<lambda>g. org_ID g = mem_OrganizationID m) (db_organizations d) \<or>
                  (case mem_StoreID m of None \<Rightarrow> False | Some st \<Rightarrow> \<not> list_ex (\<lambda>s. st_ID s = st) (db_stores d))
          then (Inl ErrInternal, d)
          else (Inr row, d\<lparr>db_memberships := db_memberships d @ [row]\<rparr>)))"

definition update_membership :: "int \<Rightarrow> (staff_membership \<Rightarrow> staff_membership) \<Rightarrow> (db, unit) op" where
  "update_membership i f = modify (\<lambda>d. d\<lparr>db_memberships :=
     map (\<lambda>m. if mem_ID m = i then f m else m) (db_memberships d)\<rparr>)"

definition membership_UpdateStatus :: "time \<Rightarrow> int \<Rightarrow> staff_status \<Rightarrow> (db, unit) op" where
  "membership_UpdateStatus now i st = update_membership i (\<lambda>m. m\<lparr>mem_Status := st, mem_UpdatedAt := now\<rparr>)"

definition membership_UpdateRole :: "time \<Rightarrow> int \<Rightarrow> role \<Rightarrow> (db, unit) op" where
  "membership_UpdateRole now i r = update_membership i (\<lambda>m. m\<lparr>mem_Role := r, mem_UpdatedAt := now\<rparr>)"

section \<open>Store API keys\<close>

definition key_GetByKeyID :: "string \<Rightarrow> (db, store_api_key) op" where
  "key_GetByKeyID kid = select_one (\<lambda>k. key_KeyID k = kid) db_api_keys"

definition key_ListByStore :: "int \<Rightarrow> (db, store_api_key list) op" where
  "key_ListByStore s =
     gets (\<lambda>d. Inr (sort_key (\<lambda>k. - key_CreatedAt k) (List.filter (\<lambda>k. key_StoreID k = s) (db_api_keys d))))"

definition key_Create :: "time \<Rightarrow> store_api_key \<Rightarrow> (db, store_api_key) op" where
  "key_Create now k =
     andThen (nextval T_api_keys) (\<lambda>i.
     State (\<lambda>d.
       let row = k\<lparr>key_ID := i, key_CreatedAt := now, key_RevokedAt := None, key_LastUsedAt := None\<rparr>
       in if list_ex (\<lambda>r. key_KeyID r = key_KeyID k \<or> key_KeyHash r = key_KeyHash k) (db_api_keys d)
          then (Inl ErrConflict, d)
          else if \<not> list_ex (\<lambda>s. st_ID s = key_StoreID k) (db_stores d) \<or>
                  (case key_CreatedBy k of None \<Rightarrow> False | Some u \<Rightarrow> \<not> list_ex (\<lambda>r. su_ID r = u) (db_staff_users d))
          then (Inl ErrInternal, d)
          else (Inr (k\<lparr>key_ID := i, key_CreatedAt := now\<rparr>), d\<lparr>db_api_keys := db_api_keys d @ [row]\<rparr>)))"

definition key_Revoke :: "time \<Rightarrow> int \<Rightarrow> int \<Rightarrow> (db, unit) op" where
  "key_Revoke now s i =
     State (\<lambda>d.
       let hit = (\<lambda>k. key_ID k = i \<and> key_StoreID k = s \<and> key_RevokedAt k = None)
       in if list_ex hit (db_api_keys d)
          then (Inr (), d\<lparr>db_api_keys := map (\<lambda>k. if hit k then k\<lparr>key_RevokedAt := Some now\<rparr> else k) (db_api_keys d)\<rparr>)
          else (Inl ErrNotFound, d))"

definition key_TouchLastUsed :: "int \<Rightarrow> time \<Rightarrow> (db, unit) op" where
  "key_TouchLastUsed i used = modify (\<lambda>d. d\<lparr>db_api_keys :=
     map (\<lambda>k. if key_ID k = i then k\<lparr>key_LastUsedAt := Some used\<rparr> else k) (db_api_keys d)\<rparr>)"

section \<open>Organizations\<close>

definition organization_GetByID :: "int \<Rightarrow> (db, organization) op" where
  "organization_GetByID i = select_one (\<lambda>g. org_ID g = i) db_organizations"

definition organization_GetByName :: "string \<Rightarrow> (db, organization) op" where
  "organization_GetByName name =
     gets (\<lambda>d. case sort_key org_ID (List.filter (\<lambda>g. org_Name g = name) (db_organizations d)) of
                 [] \<Rightarrow> Inl ErrNotFound
               | [g] \<Rightarrow> Inr g
               | _ \<Rightarrow> Inl ErrInternal)"

definition organization_ListAll :: "(db, organization list) op" where
  "organization_ListAll = gets (\<lambda>d. Inr (sort_key org_ID (db_organizations d)))"

definition organization_ListByIDs :: "int list \<Rightarrow> (db, organization list) op" where
  "organization_ListByIDs ids =
     (if ids = [] then ok []
      else gets (\<lambda>d. Inr (sort_key org_ID (List.filter (\<lambda>g. org_ID g \<in> set ids) (db_organizations d)))))"

definition organization_Create :: "time \<Rightarrow> organization \<Rightarrow> (db, organization) op" where
  "organization_Create now g =
     andThen (nextval T_organizations) (\<lambda>i.
     State (\<lambda>d. let row = g\<lparr>org_ID := i, org_CreatedAt := now\<rparr>
                in (Inr row, d\<lparr>db_organizations := db_organizations d @ [row]\<rparr>)))"

section \<open>The audit trail\<close>

text \<open>The metadata of an event, free-form JSON, is left out.\<close>

definition audit_Create :: "time \<Rightarrow> audit_event \<Rightarrow> (db, audit_event) op" where
  "audit_Create now e =
     andThen (nextval T_audit) (\<lambda>i.
     State (\<lambda>d.
       let row = e\<lparr>aud_ID := i, aud_OccurredAt := now\<rparr>
       in if (case aud_OrganizationID e of None \<Rightarrow> False | Some g \<Rightarrow> \<not> list_ex (\<lambda>r. org_ID r = g) (db_organizations d)) \<or>
             (case aud_StoreID e of None \<Rightarrow> False | Some s \<Rightarrow> \<not> list_ex (\<lambda>r. st_ID r = s) (db_stores d))
          then (Inl ErrInternal, d)
          else (Inr row, d\<lparr>db_audit := db_audit d @ [row]\<rparr>)))"

text \<open>SQL's \<open>LIKE\<close>: \<open>%\<close> is any sequence, \<open>_\<close> any character, a backslash makes the next one literal.\<close>

fun like_match :: "string \<Rightarrow> string \<Rightarrow> bool" where
  "like_match [] s = (s = [])"
| "like_match (p # ps) s =
     (if p = CHR ''%'' then like_match ps s \<or> (case s of [] \<Rightarrow> False | _ # cs \<Rightarrow> like_match (p # ps) cs)
      else if p = CHR ''_'' then (case s of [] \<Rightarrow> False | _ # cs \<Rightarrow> like_match ps cs)
      else if p = CHR 0x5C then
        (case ps of [] \<Rightarrow> False
         | q # qs \<Rightarrow> (case s of [] \<Rightarrow> False | c # cs \<Rightarrow> c = q \<and> like_match qs cs))
      else (case s of [] \<Rightarrow> False | c # cs \<Rightarrow> c = p \<and> like_match ps cs))"

definition audit_selected :: "int \<Rightarrow> audit_list_query \<Rightarrow> audit_event \<Rightarrow> bool" where
  "audit_selected org q e \<longleftrightarrow>
     aud_OrganizationID e = Some org \<and>
     (alq_BeforeID q = 0 \<or> (aud_OccurredAt e, aud_ID e) < (alq_BeforeOccurredAt q, alq_BeforeID q)) \<and>
     (alq_ActionPrefix q = [] \<or> like_match (alq_ActionPrefix q @ ''%'') (aud_Action e))"

definition audit_ListByOrganization :: "int \<Rightarrow> audit_list_query \<Rightarrow> (db, audit_event list) op" where
  "audit_ListByOrganization org q =
     gets (\<lambda>d. Inr (take (alq_Limit q) (sort_key (\<lambda>e. (- aud_OccurredAt e, - aud_ID e))
       (List.filter (audit_selected org q) (db_audit d)))))"

section \<open>Store activity\<close>

record activity_window =
  aw_Operations :: int
  aw_PointsAccrued :: int
  aw_PointsRedeemed :: int
  aw_SalesAmount :: rat

record store_activity =
  sa_Clients :: int
  sa_LastTransactionAt :: "time option"
  sa_Last24h :: activity_window
  sa_Last7d :: activity_window

definition activity_of :: "transaction list \<Rightarrow> activity_window" where
  "activity_of ts = \<lparr>aw_Operations = int (length ts),
     aw_PointsAccrued = sum_rows (\<lambda>t. tx_Type t = TransactionAccrual) tx_PointsDelta ts,
     aw_PointsRedeemed = - sum_rows (\<lambda>t. tx_Type t = TransactionRedeem) tx_PointsDelta ts,
     aw_SalesAmount = sum_list (map tx_Amount (List.filter (\<lambda>t. tx_Type t = TransactionAccrual) ts))\<rparr>"

definition activity_fits :: "activity_window \<Rightarrow> bool" where
  "activity_fits w \<longleftrightarrow> in_i64 (aw_PointsAccrued w) \<and> in_i64 (aw_PointsRedeemed w)"

definition hour :: duration where
  "hour = 3600000000000"

definition activity_StoreActivity :: "int \<Rightarrow> time \<Rightarrow> (db, store_activity) op" where
  "activity_StoreActivity s now =
     gets (\<lambda>d.
       let own = List.filter (\<lambda>t. tx_StoreID t = s) (db_transactions d);
           week = List.filter (\<lambda>t. tx_CreatedAt t \<ge> now - 7 * 24 * hour) own;
           day = List.filter (\<lambda>t. tx_CreatedAt t \<ge> now - 24 * hour) week
       in if activity_fits (activity_of day) \<and> activity_fits (activity_of week)
          then Inr \<lparr>sa_Clients = int (length (List.filter (\<lambda>c. cl_StoreID c = s) (db_clients d))),
                    sa_LastTransactionAt = (if own = [] then None else Some (Max (set (map tx_CreatedAt own)))),
                    sa_Last24h = activity_of day, sa_Last7d = activity_of week\<rparr>
          else Inl ErrInternal)"

end
