(* ===== verification/Identity_Steps.thy ===== *)
theory Identity_Steps
  imports Identity
begin

text \<open>
  The identity operations as steps of a transition relation, what every step preserves
  (\<open>identity_wf\<close>: the unique keys of the tables) and how a session ages (\<open>sessions_age\<close>: it keeps
  its account and hash, and once revoked stays revoked).
\<close>

definition identity_tables ::
    "db \<Rightarrow> customer_session list \<times> customer_device list \<times> staff_membership list \<times> store_api_key list" where
  "identity_tables d = (db_sessions d, db_devices d, db_memberships d, db_api_keys d)"

inductive identity_step :: "db \<Rightarrow> db \<Rightarrow> bool" where
  create_session: "identity_step d (after (session_Create now s) d)"
| claim_session: "identity_step d (after (session_ClaimForRotation tf clock now h s) d)"
| revoke_session: "identity_step d (after (session_Revoke now i) d)"
| revoke_account: "identity_step d (after (session_RevokeAllForAccount now i) d)"
| upsert_device: "identity_step d (after (device_Upsert now v) d)"
| revoke_device: "identity_step d (after (device_Revoke now i acc) d)"
| revoke_token: "identity_step d (after (device_RevokeByToken now token) d)"
| create_membership: "identity_step d (after (membership_Create now m) d)"
| update_status: "identity_step d (after (membership_UpdateStatus now i st) d)"
| update_role: "identity_step d (after (membership_UpdateRole now i r) d)"
| create_key: "identity_step d (after (key_Create now k) d)"
| revoke_key: "identity_step d (after (key_Revoke now s i) d)"
| touch_key: "identity_step d (after (key_TouchLastUsed i now) d)"
| other: "identity_tables d' = identity_tables d \<Longrightarrow> (\<And>t. db_seq d t \<le> db_seq d' t) \<Longrightarrow> identity_step d d'"

definition identity_reachable :: "db \<Rightarrow> bool" where
  "identity_reachable d \<longleftrightarrow> identity_step\<^sup>*\<^sup>* empty_db d"

section \<open>Effects on the tables\<close>

lemma run_session_Create:
  "run_state (session_Create now s) d =
     (let i = db_seq d T_sessions + 1;
          d1 = d\<lparr>db_seq := (db_seq d)(T_sessions := i)\<rparr>
      in if list_ex (\<lambda>r. ses_RefreshTokenHash r = ses_RefreshTokenHash s) (db_sessions d) \<or>
            \<not> known_account d (ses_CustomerAccountID s)
         then (Inl ErrInternal, d1)
         else (Inr (s\<lparr>ses_ID := i, ses_IssuedAt := now\<rparr>),
               d1\<lparr>db_sessions := db_sessions d @
                 [s\<lparr>ses_ID := i, ses_ReplacedByID := None, ses_IssuedAt := now, ses_RevokedAt := None\<rparr>]\<rparr>))"
  by (simp add: session_Create_def run_andThen Let_def known_account_def)

lemma run_GetByRefreshTokenHash [simp]:
  "run_state (session_GetByRefreshTokenHash h) d =
     (case find (\<lambda>s. ses_RefreshTokenHash s = h) (db_sessions d) of
        None \<Rightarrow> Inl ErrNotFound | Some r \<Rightarrow> Inr r, d)"
  by (simp add: session_GetByRefreshTokenHash_def)

text \<open>What \<open>ClaimForRotation\<close> leaves: nothing, or the replacement and the old row marked.\<close>

lemma ClaimForRotation_cases:
  obtains (failed) e d' where "run_state (session_ClaimForRotation tf clock now h n) d = (Inl e, d')"
      "identity_tables d' = identity_tables d" "\<And>t. db_seq d t \<le> db_seq d' t"
  | (reused) old where "run_state (session_ClaimForRotation tf clock now h n) d = (Inr (Reused old), d)"
      "find (\<lambda>s. ses_RefreshTokenHash s = h) (db_sessions d) = Some old" "ses_RevokedAt old \<noteq> None"
  | (rotated) old new d1 where
      "find (\<lambda>s. ses_RefreshTokenHash s = h) (db_sessions d) = Some old" "ses_RevokedAt old = None"
      "clock \<le> ses_ExpiresAt old"
      "run_state (session_Create now (n\<lparr>ses_CustomerAccountID := ses_CustomerAccountID old\<rparr>)) d = (Inr new, d1)"
      "run_state (session_ClaimForRotation tf clock now h n) d =
         (Inr (Rotated old new), after (session_link now (ses_ID old) (ses_ID new)) d1)"
proof -
  let ?c = "run_state (session_ClaimForRotation tf clock now h n) d"
  note defs = session_ClaimForRotation_def run_transaction_of run_andThen
  show thesis
  proof (cases "tf 0 \<or> tf 1 \<or> find (\<lambda>s. ses_RefreshTokenHash s = h) (db_sessions d) = None")
    case True
    then have "?c = (Inl (if tf 0 \<or> tf 1 then ErrInternal else ErrNotFound), rollback d d)"
      by (auto simp: defs)
    then show thesis by (rule failed) (simp_all add: rollback_def identity_tables_def)
  next
    case False
    then obtain old where f: "find (\<lambda>s. ses_RefreshTokenHash s = h) (db_sessions d) = Some old" "\<not> tf 0" "\<not> tf 1"
      by auto
    let ?n = "n\<lparr>ses_CustomerAccountID := ses_CustomerAccountID old\<rparr>"
    obtain r d1 where cr: "run_state (session_Create now ?n) d = (r, d1)" by fastforce
    have seq: "db_seq d t \<le> db_seq d1 t" for t
      using cr by (auto simp: run_session_Create Let_def split: if_splits)
    show thesis
    proof (cases "ses_RevokedAt old \<noteq> None")
      case True
      with f have "?c = (Inr (Reused old), d)" by (simp add: defs)
      with f True show thesis by (intro reused)
    next
      case active: False
      show thesis
      proof (cases "clock > ses_ExpiresAt old \<or> tf 2")
        case True
        with f active have "\<exists>e. ?c = (Inl e, rollback d d)" by (auto simp: defs)
        then show thesis by (auto simp: rollback_def identity_tables_def intro: failed)
      next
        case go: False
        show thesis
        proof (cases "tf 3 \<or> tf 4 \<or> isl r")
          case True
          with f active go cr have "\<exists>e d2. ?c = (Inl e, rollback d d2) \<and> db_seq d2 = db_seq d1"
            by (cases r) (auto simp: defs session_link_def)
          then show thesis using seq by (auto simp: rollback_def identity_tables_def intro: failed)
        next
          case False
          with cr obtain new where "run_state (session_Create now ?n) d = (Inr new, d1)" by (cases r) auto
          moreover from this f active go False have
            "?c = (Inr (Rotated old new), after (session_link now (ses_ID old) (ses_ID new)) d1)"
            by (auto simp: defs session_link_def)
          ultimately show thesis using f active go by (intro rotated) auto
        qed
      qed
    qed
  qed
qed

section \<open>Sessions only age\<close>

definition ages :: "customer_session \<Rightarrow> customer_session \<Rightarrow> bool" where
  "ages s s' \<longleftrightarrow> ses_ID s' = ses_ID s \<and> ses_CustomerAccountID s' = ses_CustomerAccountID s \<and>
     ses_RefreshTokenHash s' = ses_RefreshTokenHash s \<and> ses_ExpiresAt s' = ses_ExpiresAt s \<and>
     (ses_RevokedAt s \<noteq> None \<longrightarrow> ses_RevokedAt s' \<noteq> None)"

definition sessions_age :: "db \<Rightarrow> db \<Rightarrow> bool" where
  "sessions_age d d' \<longleftrightarrow> (\<exists>xs ys. db_sessions d' = xs @ ys \<and> list_all2 ages (db_sessions d) xs)"

lemma ages_refl [simp]: "ages s s"
  by (simp add: ages_def)

lemma ages_trans: "ages s t \<Longrightarrow> ages t u \<Longrightarrow> ages s u"
  by (simp add: ages_def)

lemma sessions_age_refl [simp]: "sessions_age d d"
  unfolding sessions_age_def by (metis append_Nil2 list.rel_refl ages_refl)

lemma sessions_age_trans [trans]:
  assumes "sessions_age d1 d2" "sessions_age d2 d3"
  shows "sessions_age d1 d3"
proof -
  obtain xs ys where 1: "db_sessions d2 = xs @ ys" "list_all2 ages (db_sessions d1) xs"
    using assms(1) by (auto simp: sessions_age_def)
  obtain us vs where 2: "db_sessions d3 = us @ vs" "list_all2 ages (db_sessions d2) us"
    using assms(2) by (auto simp: sessions_age_def)
  then obtain xs' ys' where "us = xs' @ ys'" "list_all2 ages xs xs'"
    using 1(1) by (auto simp: list_all2_append1)
  moreover from this have "list_all2 ages (db_sessions d1) xs'"
    using 1(2) list_all2_trans [of ages ages ages] ages_trans by blast
  ultimately show ?thesis using 2(1) by (auto simp: sessions_age_def)
qed

lemma sessions_age_same: "db_sessions d' = db_sessions d \<Longrightarrow> sessions_age d d'"
  unfolding sessions_age_def by (metis append_Nil2 list.rel_refl ages_refl)

lemma sessions_age_append: "db_sessions d' = db_sessions d @ ys \<Longrightarrow> sessions_age d d'"
  unfolding sessions_age_def by (metis list.rel_refl ages_refl)

lemma sessions_age_map:
  assumes "db_sessions d' = map f (db_sessions d)" "\<And>s. ages s (f s)"
  shows "sessions_age d d'"
proof -
  have "list_all2 ages (db_sessions d) (map f (db_sessions d))"
    using assms(2) by (simp add: list_all2_conv_all_nth)
  with assms(1) show ?thesis by (auto simp: sessions_age_def)
qed

lemma find_aged:
  assumes "list_all2 ages xs xs'" "find (\<lambda>s. ses_RefreshTokenHash s = h) xs = Some s"
  shows "\<exists>s'. find (\<lambda>s. ses_RefreshTokenHash s = h) (xs' @ ys) = Some s' \<and> ages s s'"
  using assms by (induction rule: list_all2_induct) (auto simp: ages_def)

lemma sessions_age_find:
  assumes "sessions_age d d'" "find (\<lambda>s. ses_RefreshTokenHash s = h) (db_sessions d) = Some s"
  shows "\<exists>s'. find (\<lambda>s. ses_RefreshTokenHash s = h) (db_sessions d') = Some s' \<and> ages s s'"
proof -
  obtain xs ys where "db_sessions d' = xs @ ys" "list_all2 ages (db_sessions d) xs"
    using assms(1) by (auto simp: sessions_age_def)
  with assms(2) show ?thesis using find_aged by simp
qed

lemma session_Create_age: "sessions_age d (after (session_Create now s) d)"
  by (cases "list_ex (\<lambda>r. ses_RefreshTokenHash r = ses_RefreshTokenHash s) (db_sessions d) \<or>
        \<not> known_account d (ses_CustomerAccountID s)")
     (auto simp: run_session_Create Let_def intro: sessions_age_same sessions_age_append)

lemma session_link_age: "sessions_age d (after (session_link now i j) d)"
  by (rule sessions_age_map [where f = "\<lambda>s. if ses_ID s = i
        then s\<lparr>ses_RevokedAt := Some now, ses_ReplacedByID := Some j\<rparr> else s"])
     (auto simp: session_link_def ages_def)

lemma revoke_sessions_age: "sessions_age d (after (revoke_sessions now P) d)"
  by (rule sessions_age_map [where f = "\<lambda>s. if P s \<and> ses_RevokedAt s = None
        then s\<lparr>ses_RevokedAt := Some now\<rparr> else s"])
     (auto simp: revoke_sessions_def ages_def)

lemma ClaimForRotation_age: "sessions_age d (after (session_ClaimForRotation tf clock now h n) d)"
proof (cases rule: ClaimForRotation_cases [of tf clock now h n d])
  case (failed e d')
  then show ?thesis by (auto simp: identity_tables_def intro: sessions_age_same)
next
  case (reused old)
  then show ?thesis by simp
next
  case (rotated old new d1)
  have "sessions_age d d1"
    using rotated(4) session_Create_age [of d now "n\<lparr>ses_CustomerAccountID := ses_CustomerAccountID old\<rparr>"] by simp
  also have "sessions_age d1 (after (session_link now (ses_ID old) (ses_ID new)) d1)" by (rule session_link_age)
  finally show ?thesis using rotated(5) by simp
qed

lemma identity_step_age: "identity_step d d' \<Longrightarrow> sessions_age d d'"
proof (induction rule: identity_step.induct)
  case (upsert_device d now v)
  show ?case by (rule sessions_age_same) (simp add: device_Upsert_def run_andThen Let_def split: option.splits)
next
  case (create_membership d now m)
  show ?case by (rule sessions_age_same) (simp add: membership_Create_def run_andThen Let_def)
next
  case (create_key d now k)
  show ?case by (rule sessions_age_same) (simp add: key_Create_def run_andThen Let_def)
next
  case (other d' d)
  then show ?case by (auto simp: identity_tables_def intro: sessions_age_same)
qed (auto intro!: sessions_age_same simp: session_Create_age ClaimForRotation_age revoke_sessions_age
       session_Revoke_def session_RevokeAllForAccount_def device_Revoke_def device_RevokeByToken_def
       revoke_devices_def membership_UpdateStatus_def membership_UpdateRole_def update_membership_def
       key_Revoke_def key_TouchLastUsed_def run_andThen Let_def)

lemma identity_steps_age: "identity_step\<^sup>*\<^sup>* d d' \<Longrightarrow> sessions_age d d'"
  by (induction rule: rtranclp_induct) (auto intro: identity_step_age sessions_age_trans)

text \<open>A claimed token: its row is revoked from then on, whatever else happens.\<close>

lemma rotated_row:
  assumes "run_state (session_ClaimForRotation tf clock now h n) d = (Inr (Rotated old new), d')"
  shows "\<exists>s. find (\<lambda>s. ses_RefreshTokenHash s = h) (db_sessions d') = Some s \<and> ses_RevokedAt s = Some now \<and>
             ses_ReplacedByID s = Some (ses_ID new) \<and> ses_CustomerAccountID s = ses_CustomerAccountID old \<and>
             ses_CustomerAccountID new = ses_CustomerAccountID old"
proof (cases rule: ClaimForRotation_cases [of tf clock now h n d])
  case (rotated old' new' d1)
  with assms have eq: "old' = old" "new' = new" "d' = after (session_link now (ses_ID old) (ses_ID new)) d1"
    by auto
  have d1: "find (\<lambda>s. ses_RefreshTokenHash s = h) (db_sessions d1) = Some old"
    using rotated(1,4) eq by (auto simp: run_session_Create Let_def find_append split: if_splits)
  have acc: "ses_CustomerAccountID new = ses_CustomerAccountID old"
    using rotated(4) eq by (auto simp: run_session_Create Let_def split: if_splits)
  have "find (\<lambda>s. ses_RefreshTokenHash s = h) (db_sessions d') =
     map_option (\<lambda>s. if ses_ID s = ses_ID old then s\<lparr>ses_RevokedAt := Some now, ses_ReplacedByID := Some (ses_ID new)\<rparr> else s)
       (find (\<lambda>s. ses_RefreshTokenHash s = h) (db_sessions d1))"
    unfolding eq(3) session_link_def by (simp add: find_map_same)
  with d1 acc show ?thesis by simp
qed (use assms in auto)

section \<open>The unique keys of the tables\<close>

definition scope_of :: "staff_membership \<Rightarrow> int \<times> int \<times> int option" where
  "scope_of m = (mem_StaffUserID m, mem_OrganizationID m, mem_StoreID m)"

definition one_active :: "customer_device list \<Rightarrow> bool" where
  "one_active vs \<longleftrightarrow> distinct (map dev_PushToken (List.filter (\<lambda>v. dev_RevokedAt v = None) vs))"

definition identity_wf :: "db \<Rightarrow> bool" where
  "identity_wf d \<longleftrightarrow>
     distinct (map ses_RefreshTokenHash (db_sessions d)) \<and> distinct (map ses_ID (db_sessions d)) \<and>
     (\<forall>s\<in>set (db_sessions d). ses_ID s \<le> db_seq d T_sessions) \<and>
     one_active (db_devices d) \<and>
     distinct (map scope_of (db_memberships d)) \<and>
     distinct (map key_KeyID (db_api_keys d)) \<and> distinct (map key_KeyHash (db_api_keys d))"

lemma same_scope_iff: "same_scope m n \<longleftrightarrow> scope_of m = scope_of n"
  by (auto simp: same_scope_def scope_of_def)

lemma identity_wf_same:
  "identity_tables d' = identity_tables d \<Longrightarrow> db_seq d T_sessions \<le> db_seq d' T_sessions \<Longrightarrow>
   identity_wf d \<Longrightarrow> identity_wf d'"
  by (auto simp: identity_wf_def identity_tables_def)

lemma one_active_append:
  assumes "one_active vs" "find (device_active (dev_PushToken v)) vs = None"
  shows "one_active (vs @ [v])"
  using assms by (auto simp: one_active_def find_None device_active_def)

lemma one_active_map:
  assumes "one_active vs" "\<And>v. dev_PushToken (f v) = dev_PushToken v"
    "\<And>v. dev_RevokedAt (f v) = None \<Longrightarrow> dev_RevokedAt v = None"
  shows "one_active (map f vs)"
  using assms(1)
proof (induction vs)
  case (Cons v vs)
  then have "one_active (map f vs)" by (auto simp: one_active_def split: if_splits)
  moreover have "dev_PushToken v \<notin> dev_PushToken ` {w \<in> set (map f vs). dev_RevokedAt w = None}"
    if "dev_RevokedAt v = None"
    using Cons.prems that assms(2,3) by (auto simp: one_active_def image_iff)
  ultimately show ?case using assms(2,3) by (auto simp: one_active_def)
qed (simp add: one_active_def)

lemma distinct_map_map:
  "distinct (map k xs) \<Longrightarrow> (\<And>x. k (f x) = k x) \<Longrightarrow> distinct (map k (map f xs))"
  by (simp add: comp_def)

lemma identity_wf_sessions_map:
  assumes "identity_wf d" "db_sessions d' = map f (db_sessions d)" "db_devices d' = db_devices d"
    "db_memberships d' = db_memberships d" "db_api_keys d' = db_api_keys d" "db_seq d' = db_seq d"
    "\<And>s. ses_ID (f s) = ses_ID s" "\<And>s. ses_RefreshTokenHash (f s) = ses_RefreshTokenHash s"
  shows "identity_wf d'"
  using assms by (auto simp: identity_wf_def comp_def)

lemma session_Create_wf: "identity_wf d \<Longrightarrow> identity_wf (after (session_Create now s) d)"
proof -
  assume wf: "identity_wf d"
  have "ses_ID r \<noteq> db_seq d T_sessions + 1" if "r \<in> set (db_sessions d)" for r
    using wf that by (force simp: identity_wf_def)
  then show ?thesis
    using wf by (force simp: run_session_Create Let_def identity_wf_def list_ex_iff)
qed

lemma session_link_wf: "identity_wf d \<Longrightarrow> identity_wf (after (session_link now i j) d)"
  unfolding session_link_def
  by (erule identity_wf_sessions_map [where f = "\<lambda>s. if ses_ID s = i
        then s\<lparr>ses_RevokedAt := Some now, ses_ReplacedByID := Some j\<rparr> else s"]) auto

lemma revoke_sessions_wf: "identity_wf d \<Longrightarrow> identity_wf (after (revoke_sessions now P) d)"
  unfolding revoke_sessions_def
  by (erule identity_wf_sessions_map [where f = "\<lambda>s. if P s \<and> ses_RevokedAt s = None
        then s\<lparr>ses_RevokedAt := Some now\<rparr> else s"]) auto

lemma ClaimForRotation_wf:
  "identity_wf d \<Longrightarrow> identity_wf (after (session_ClaimForRotation tf clock now h n) d)"
proof (cases rule: ClaimForRotation_cases [of tf clock now h n d])
  case (failed e d')
  moreover assume "identity_wf d"
  ultimately show ?thesis by (auto intro: identity_wf_same)
next
  case (rotated old new d1)
  moreover assume "identity_wf d"
  ultimately have "identity_wf d1"
    using session_Create_wf [of d now "n\<lparr>ses_CustomerAccountID := ses_CustomerAccountID old\<rparr>"] by simp
  with rotated(5) show ?thesis using session_link_wf by simp
qed simp

lemma revoke_devices_wf: "identity_wf d \<Longrightarrow> identity_wf (after (revoke_devices now P) d)"
  by (auto simp: revoke_devices_def identity_wf_def intro!: one_active_map split: if_splits)

lemma device_Upsert_wf: "identity_wf d \<Longrightarrow> identity_wf (after (device_Upsert now v) d)"
proof -
  assume wf: "identity_wf d"
  then have 1: "one_active (db_devices d)" by (simp add: identity_wf_def)
  define f where "f = (\<lambda>r. if device_active (dev_PushToken v) r
     then r\<lparr>dev_CustomerAccountID := dev_CustomerAccountID v, dev_Platform := dev_Platform v,
            dev_UpdatedAt := now\<rparr> else r)"
  have "one_active (map f (db_devices d))"
    by (rule one_active_map [OF 1]) (auto simp: f_def split: if_splits)
  moreover have "one_active (db_devices d @ [v\<lparr>dev_ID := i, dev_CreatedAt := now, dev_UpdatedAt := now, dev_RevokedAt := None\<rparr>])"
    if "find (device_active (dev_PushToken v)) (db_devices d) = None" for i
    using 1 that by (intro one_active_append) simp_all
  ultimately show ?thesis
    using wf by (auto simp: device_Upsert_def run_andThen Let_def identity_wf_def f_def split: option.split)
qed

lemma membership_Create_wf: "identity_wf d \<Longrightarrow> identity_wf (after (membership_Create now m) d)"
  by (auto simp: membership_Create_def run_andThen Let_def identity_wf_def list_ex_iff same_scope_iff scope_of_def)

lemma update_membership_wf:
  "identity_wf d \<Longrightarrow> (\<And>m. scope_of (f m) = scope_of m) \<Longrightarrow> identity_wf (after (update_membership i f) d)"
  by (auto simp: update_membership_def identity_wf_def intro!: distinct_map_map simp del: map_map)

lemma key_wf:
  "identity_wf d \<Longrightarrow> identity_wf (after (key_Create now k) d)"
  "identity_wf d \<Longrightarrow> identity_wf (after (key_Revoke now s i) d)"
  "identity_wf d \<Longrightarrow> identity_wf (after (key_TouchLastUsed i now) d)"
  by (auto simp: key_Create_def key_Revoke_def key_TouchLastUsed_def run_andThen Let_def identity_wf_def list_ex_iff
        intro!: distinct_map_map simp del: map_map)

lemma identity_step_wf: "identity_step d d' \<Longrightarrow> identity_wf d \<Longrightarrow> identity_wf d'"
proof (induction rule: identity_step.induct)
  case (other d' d)
  then show ?case by (auto intro: identity_wf_same)
next
  case (revoke_device d now i acc)
  then show ?case
    using revoke_devices_wf [of d now "\<lambda>v. dev_ID v = i \<and> dev_CustomerAccountID v = acc"]
    by (auto simp: device_Revoke_def run_andThen split: prod.split sum.split)
next
  case (revoke_token d now token)
  then show ?case
    using revoke_devices_wf [of d now "\<lambda>v. dev_PushToken v = token"]
    by (auto simp: device_RevokeByToken_def run_andThen split: prod.split sum.split)
qed (auto simp: session_Create_wf ClaimForRotation_wf revoke_sessions_wf session_Revoke_def
       session_RevokeAllForAccount_def device_Upsert_wf membership_Create_wf update_membership_wf
       membership_UpdateStatus_def membership_UpdateRole_def scope_of_def key_wf)

lemma identity_reachable_wf: "identity_reachable d \<Longrightarrow> identity_wf d"
proof -
  have "identity_wf empty_db" by (simp add: identity_wf_def empty_db_def one_active_def)
  moreover assume "identity_reachable d"
  ultimately show ?thesis
    unfolding identity_reachable_def by (metis (no_types) rtranclp_induct identity_step_wf)
qed

end
