(* ===== verification/Paging.thy ===== *)
theory Paging
  imports Main "HOL-Library.Product_Lexorder"
begin

text \<open>
  Keyset pagination: a page is the first \<open>n\<close> rows in the order of a key that identifies a row;
  the next page asks for the rows whose key comes after the last one seen. On an unchanged
  table the pages are the consecutive segments of the whole listing.
\<close>

definition page_of :: "('r \<Rightarrow> 'k::linorder) \<Rightarrow> ('r \<Rightarrow> bool) \<Rightarrow> nat \<Rightarrow> 'r list \<Rightarrow> 'r list" where
  "page_of f P n rows = take n (sort_key f (filter P rows))"

lemma sorted_distinct_nth_less:
  assumes "sorted (map f xs)" "distinct (map f xs)" "i < j" "j < length xs"
  shows "f (xs ! i) < f (xs ! j)"
proof -
  have "f (xs ! i) \<le> f (xs ! j)" using assms by (auto simp: sorted_iff_nth_mono)
  moreover have "f (xs ! i) \<noteq> f (xs ! j)"
    using assms by (auto simp: distinct_conv_nth)
  ultimately show ?thesis by simp
qed

lemma filter_after_sorted:
  assumes "sorted (map f xs)" "distinct (map f xs)" "n < length xs"
  shows "filter (\<lambda>x. f (xs ! n) < f x) xs = drop (Suc n) xs"
proof -
  have xs: "xs = take (Suc n) xs @ drop (Suc n) xs" by simp
  have "filter (\<lambda>x. f (xs ! n) < f x) (take (Suc n) xs) = []"
  proof -
    have "\<not> f (xs ! n) < f x" if "x \<in> set (take (Suc n) xs)" for x
    proof -
      from that obtain i where i: "i < Suc n" "x = xs ! i"
        using assms(3) by (auto simp: in_set_conv_nth)
      then show ?thesis
        using sorted_nth_mono [OF assms(1), of i n] assms(3) by (simp add: not_less)
    qed
    then show ?thesis by (simp add: filter_empty_conv)
  qed
  moreover have "filter (\<lambda>x. f (xs ! n) < f x) (drop (Suc n) xs) = drop (Suc n) xs"
  proof (rule filter_True, rule ballI)
    fix x assume "x \<in> set (drop (Suc n) xs)"
    then obtain i where "i < length xs - Suc n" "x = xs ! (Suc n + i)"
      by (auto simp: in_set_conv_nth)
    then show "f (xs ! n) < f x"
      using sorted_distinct_nth_less [OF assms(1,2), of n "Suc n + i"] by simp
  qed
  ultimately show ?thesis by (metis append_Nil filter_append xs)
qed

lemma distinct_map_sort_filter: "distinct (map f xs) \<Longrightarrow> distinct (map f (sort_key g (filter P xs)))"
  unfolding distinct_map by (auto intro: inj_on_subset)

lemma next_page:
  assumes "distinct (map f rows)" "page_of f P n rows \<noteq> []"
  shows "page_of f (\<lambda>r. P r \<and> f (last (page_of f P n rows)) < f r) m rows
         = take m (drop (length (page_of f P n rows)) (sort_key f (filter P rows)))"
proof -
  let ?s = "sort_key f (filter P rows)"
  let ?p = "page_of f P n rows"
  let ?k = "length ?p - 1"
  from assms(2) have "0 < length ?p" by simp
  moreover have "length ?p \<le> length ?s" by (simp add: page_of_def)
  ultimately have len: "?k < length ?s" "length ?p = Suc ?k" by linarith+
  have last: "last ?p = ?s ! ?k"
    using assms(2) len(2) last_conv_nth [of ?p] nth_take [of ?k n ?s] by (simp add: page_of_def)
  have d: "distinct (map f ?s)" using assms(1) by (rule distinct_map_sort_filter)
  have "sort_key f (filter (\<lambda>r. P r \<and> f (?s ! ?k) < f r) rows) = filter (\<lambda>r. f (?s ! ?k) < f r) ?s"
    by (simp add: filter_sort conj_commute)
  also have "\<dots> = drop (Suc ?k) ?s" using d len(1) by (intro filter_after_sorted) simp_all
  finally show ?thesis using last len(2) by (simp add: page_of_def)
qed

end
