(* ===== verification/Identity_Theorems.thy ===== *)
theory Identity_Theorems
  imports Identity_Steps Paging Ledger_Theorems
begin

text \<open>
  The properties of the identity repositories, of the paged listings and of the versioned
  loyalty configuration.
\<close>

definition demo_account :: customer_account where
  "demo_account = \<lparr>acc_ID = 1, acc_Phone = ''+79001112233'', acc_PhoneVerifiedAt = 0, acc_Status = CustomerAccountActive,
     acc_CreatedAt = 0, acc_UpdatedAt = 0\<rparr>"

definition demo_session :: "string \<Rightarrow> customer_session" where
  "demo_session h = \<lparr>ses_ID = 0, ses_CustomerAccountID = 1, ses_RefreshTokenHash = h, ses_ReplacedByID = None,
     ses_IssuedAt = 0, ses_ExpiresAt = 100, ses_RevokedAt = None, ses_UserAgent = [], ses_IP = []\<rparr>"

definition session_db :: db where
  "session_db = empty_db\<lparr>db_accounts := [demo_account], db_seq := (\<lambda>_. 1), db_sessions := [(demo_session ''h1'')\<lparr>ses_ID := 1\<rparr>]\<rparr>"

text \<open>
  C14: a refresh token rotates at most once. Once a claim of the token with hash \<open>h\<close> succeeded,
  every later claim of it, after any session, device, membership or key operations of any
  requests, finds the session revoked (and answers reuse, naming the same account), or fails
  without a session; none rotates again.
\<close>

theorem refresh_token_rotates_once:
  assumes "run_state (session_ClaimForRotation tf clock now h new) d = (Inr (Rotated s t), d1)"
    and "identity_step\<^sup>*\<^sup>* d1 d2"
  shows "(\<exists>e. fst (run_state (session_ClaimForRotation tf' clock' now' h new') d2) = Inl e) \<or>
         (\<exists>u. run_state (session_ClaimForRotation tf' clock' now' h new') d2 = (Inr (Reused u), d2) \<and>
              ses_CustomerAccountID u = ses_CustomerAccountID s)"
proof -
  obtain r where r: "find (\<lambda>s. ses_RefreshTokenHash s = h) (db_sessions d1) = Some r"
      "ses_RevokedAt r = Some now" "ses_CustomerAccountID r = ses_CustomerAccountID s"
    using rotated_row [OF assms(1)] by auto
  then obtain r' where r': "find (\<lambda>s. ses_RefreshTokenHash s = h) (db_sessions d2) = Some r'" "ages r r'"
    using sessions_age_find [OF identity_steps_age [OF assms(2)]] by blast
  then have "ses_RevokedAt r' \<noteq> None" "ses_CustomerAccountID r' = ses_CustomerAccountID s"
    using r by (simp_all add: ages_def)
  with r'(1) show ?thesis
    by (cases rule: ClaimForRotation_cases [of tf' clock' now' h new' d2]) auto
qed

lemmas claim_eval = session_ClaimForRotation_def session_Create_def session_link_def run_transaction_of run_andThen
  session_db_def demo_session_def demo_account_def empty_db_def known_account_def Let_def

theorem refresh_token_rotates_once_witness:
  "\<exists>s t d1. run_state (session_ClaimForRotation (\<lambda>_. False) 50 50 ''h1'' (demo_session ''h2'')) session_db = (Inr (Rotated s t), d1)
    \<and> fst (run_state (session_ClaimForRotation (\<lambda>_. False) 60 60 ''h1'' (demo_session ''h3'')) d1) \<noteq> Inr (Rotated s t)"
proof -
  obtain s t d1 where
    1: "run_state (session_ClaimForRotation (\<lambda>_. False) 50 50 ''h1'' (demo_session ''h2'')) session_db = (Inr (Rotated s t), d1)"
    by (simp add: claim_eval)
  have "fst (run_state (session_ClaimForRotation (\<lambda>_. False) 60 60 ''h1'' (demo_session ''h3'')) d1) \<noteq> Inr (Rotated s t)"
    using refresh_token_rotates_once [OF 1 rtranclp.rtrancl_refl, of "\<lambda>_. False" 60 60 "demo_session ''h3''"] by auto
  with 1 show ?thesis by blast
qed

text \<open>
  A client's history read page by page is the whole history: on an unchanged database the
  page after the cursor of the last transaction shown is exactly the next segment of the full
  listing, nothing twice and nothing left out, also where transactions share their time.
\<close>

definition older :: "transaction_cursor option \<Rightarrow> transaction \<Rightarrow> bool" where
  "older b t \<longleftrightarrow> (case b of None \<Rightarrow> True | Some c \<Rightarrow> (tx_CreatedAt t, tx_ID t) < (cur_CreatedAt c, cur_ID c))"

abbreviation history_key :: "transaction \<Rightarrow> int \<times> int" where
  "history_key t \<equiv> (- tx_CreatedAt t, - tx_ID t)"

lemma run_ListByClientIDs:
  "run_state (tx_ListByClientIDs cs n b) d =
     (Inr (map scanTransaction (page_of history_key (\<lambda>t. tx_ClientID t \<in> set cs \<and> older b t) n (db_transactions d))), d)"
  by (simp add: tx_ListByClientIDs_def page_of_def older_def Let_def)

theorem history_pages:
  assumes "decimal_laws D" "positive_only Q" "reachable D af Q d"
    and "run_state (tx_ListByClientIDs cs n before) d = (Inr page, d)" "page \<noteq> []"
    and "run_state (tx_ListByClientIDs cs (length (db_transactions d)) before) d = (Inr all, d)"
  shows "page = take n all \<and>
     run_state (tx_ListByClientIDs cs m
       (Some \<lparr>cur_CreatedAt = tx_CreatedAt (last page), cur_ID = tx_ID (last page)\<rparr>)) d
     = (Inr (take m (drop (length page) all)), d)"
proof -
  let ?P = "\<lambda>t. tx_ClientID t \<in> set cs \<and> older before t"
  let ?s = "sort_key history_key (List.filter ?P (db_transactions d))"
  let ?p = "page_of history_key ?P n (db_transactions d)"
  have ids: "distinct (map tx_ID (db_transactions d))"
    by (rule ledger_wfD(3) [OF reachable_wf [OF assms(1-3)]])
  have keys: "distinct (map history_key (db_transactions d))"
    using ids by (auto simp: distinct_map inj_on_def)
  have all: "all = map scanTransaction ?s"
    using assms(6) by (auto simp: run_ListByClientIDs page_of_def)
  have page: "page = map scanTransaction ?p" using assms(4) by (simp add: run_ListByClientIDs)
  with assms(5) have ne: "?p \<noteq> []" by simp
  then have last: "tx_CreatedAt (last page) = tx_CreatedAt (last ?p)" "tx_ID (last page) = tx_ID (last ?p)"
    by (simp_all add: page last_map scanTransaction_def)
  let ?c = "Some \<lparr>cur_CreatedAt = tx_CreatedAt (last ?p), cur_ID = tx_ID (last ?p)\<rparr>"
  have "last ?p \<in> set (List.filter ?P (db_transactions d))"
    using last_in_set [OF ne] unfolding page_of_def by (auto dest: in_set_takeD)
  then have "older before (last ?p)" by simp
  then have "(\<lambda>t. tx_ClientID t \<in> set cs \<and> older ?c t) = (\<lambda>t. ?P t \<and> history_key (last ?p) < history_key t)"
    by (auto simp: older_def fun_eq_iff less_prod_simp split: option.splits)
  then have "run_state (tx_ListByClientIDs cs m ?c) d =
      (Inr (map scanTransaction (take m (drop (length ?p) ?s))), d)"
    using next_page [OF keys ne, of m] by (simp add: run_ListByClientIDs)
  then show ?thesis
    using all page last by (simp add: page_of_def take_map drop_map)
qed

theorem history_pages_witness:
  "fst (run_state (tx_ListByClientIDs [1] 5 (Some \<lparr>cur_CreatedAt = 2000, cur_ID = 2\<rparr>)) state2) = Inr [scanTransaction row_a1]"
proof -
  have 1: "run_state (tx_ListByClientIDs [1] 1 None) state2 = (Inr [scanTransaction row_r1], state2)"
    and 2: "run_state (tx_ListByClientIDs [1] (length (db_transactions state2)) None) state2 =
            (Inr [scanTransaction row_r1, scanTransaction row_a1], state2)"
    by (simp_all add: tx_ListByClientIDs_def Let_def state2_def row_a1_def row_r1_def zero_transaction_def)
  have "last [scanTransaction row_r1] = scanTransaction row_r1" "tx_CreatedAt (scanTransaction row_r1) = 2000"
    "tx_ID (scanTransaction row_r1) = 2"
    by (simp_all add: scanTransaction_def row_r1_def zero_transaction_def)
  with history_pages [OF go_dec.decimal_laws_axioms positive_amounts reach_state2 1 _ 2, of 5]
  show ?thesis by simp
qed

text \<open>
  A loyalty configuration is never overwritten unseen. An update that names the version it
  was based on succeeds only while that version is current, and then becomes the next
  version, recorded in the history; a second update based on the same version is a conflict
  that changes no row.
\<close>

theorem stale_config_update_refused:
  assumes "run_state (config_Upsert tf now cfg by) d = (Inr cfg', d1)"
    and "cfg_ExpectedVersion cfg = Some v" "in_i64 (v + 1)"
    and "cfg_StoreID cfg2 = cfg_StoreID cfg" "cfg_ExpectedVersion cfg2 = Some v"
    and "\<not> tf' 0" "\<not> tf' 1"
  shows "cfg_Version cfg' = v + 1 \<and>
         map_option cfg_Version (db_loyalty_configs d1 (cfg_StoreID cfg)) = Some (v + 1) \<and>
         (\<exists>h\<in>set (db_config_history d1). ver_StoreID h = cfg_StoreID cfg \<and> ver_Version h = v + 1 \<and>
            ver_ChangedByStaffUserID h = by) \<and>
         run_state (config_Upsert tf' now' cfg2 by') d1 = (Inl ErrConflict, d1)"
proof -
  let ?cur = "case db_loyalty_configs d (cfg_StoreID cfg) of None \<Rightarrow> 0 | Some c \<Rightarrow> cfg_Version c"
  let ?cfg = "cfg\<lparr>cfg_Version := wrap64 (?cur + 1)\<rparr>"
  have cur: "?cur = v" and go: "\<not> tf 0" "\<not> tf 1" "\<not> tf 2" "\<not> tf 3" "\<not> tf 4"
    using assms(1,2) by (auto simp: config_Upsert_def run_transaction_of run_andThen Let_def split: if_splits prod.splits sum.splits)
  then have ver: "cfg_Version ?cfg = v + 1" using assms(3) by (simp add: wrap64_id)
  obtain row where row: "config_row ?cfg = Some row" and up: "cfg' = ?cfg"
    and d1: "cfg_Version row = v + 1" "db_loyalty_configs d1 (cfg_StoreID cfg) = Some row"
    and hist: "\<exists>h\<in>set (db_config_history d1). ver_StoreID h = cfg_StoreID row \<and> ver_Version h = cfg_Version row \<and>
      ver_ChangedByStaffUserID h = by" "cfg_StoreID row = cfg_StoreID cfg"
    using assms(1,2) go cur ver
    by (auto simp: config_Upsert_def run_transaction_of run_andThen Let_def upsertConfig_def insertHistory_def config_row_def
        split: if_splits option.splits)
  have "run_state (config_Upsert tf' now' cfg2 by') d1 = (Inl ErrConflict, rollback d1 d1)"
    using assms(4-7) d1 by (simp add: config_Upsert_def run_transaction_of run_andThen)
  then show ?thesis using up ver d1 hist by (auto simp: rollback_def)
qed

theorem stale_config_update_refused_witness:
  "\<exists>c d1. run_state (config_Upsert (\<lambda>_. False) 9 (demo_config\<lparr>cfg_ExpectedVersion := Some 1\<rparr>) None) demo_db = (Inr c, d1) \<and>
     run_state (config_Upsert (\<lambda>_. False) 10 (demo_config\<lparr>cfg_ExpectedVersion := Some 1, cfg_AccrualPercent := 7\<rparr>) None) d1
       = (Inl ErrConflict, d1)"
proof -
  obtain c d1 where 1: "run_state (config_Upsert (\<lambda>_. False) 9 (demo_config\<lparr>cfg_ExpectedVersion := Some 1\<rparr>) None) demo_db = (Inr c, d1)"
    by (simp add: config_Upsert_def run_transaction_of run_andThen Let_def upsertConfig_def insertHistory_def config_row_def
        demo_config_def demo_db_def demo_store_def empty_db_def numeric_def round_at_def)
  have "run_state (config_Upsert (\<lambda>_. False) 10 (demo_config\<lparr>cfg_ExpectedVersion := Some 1, cfg_AccrualPercent := 7\<rparr>) None) d1
       = (Inl ErrConflict, d1)"
    using stale_config_update_refused [OF 1, of 1 "demo_config\<lparr>cfg_ExpectedVersion := Some 1, cfg_AccrualPercent := 7\<rparr>"
        "\<lambda>_. False" 10 None]
    by (simp add: in_i64_def)
  with 1 show ?thesis by blast
qed

end
