(* ===== verification/Notification.thy ===== *)
theory Notification
  imports Identity
begin

text \<open>
  Delivery of notifications: the outbox worker (\<open>internal/service/outbox_worker.go\<close>), the FCM
  channel (\<open>internal/notification/fcmchannel\<close>) and the SMS gateway
  (\<open>internal/notification/httpsms\<close>). The Firebase SDK and the gateway are parameters: a function
  from a call to its answer. \<open>text\<close> is Go's \<open>err.Error()\<close>. Logging and metrics are left out.
\<close>

section \<open>The FCM channel\<close>

text \<open>
  \<open>SendEach\<close> answers every message of a batch, or fails as a whole (\<open>None\<close>); an answer is what the
  channel's \<open>isInvalidToken\<close> makes of it.
\<close>

datatype push_answer = PushSuccess | PushInvalidToken | PushError

type_synonym send_each = "nat \<Rightarrow> string list \<Rightarrow> string \<Rightarrow> push_answer list option"

definition maxMessagesPerSendEach :: nat where
  "maxMessagesPerSendEach = 500"

fun revokeInvalid :: "db env \<Rightarrow> nat \<Rightarrow> (customer_device \<times> push_answer) list \<Rightarrow> (db, unit) op" where
  "revokeInvalid E k [] = ok ()"
| "revokeInvalid E k ((v, PushInvalidToken) # rs) =
     andThen (logged (call E (''fcm.revoke'', k) (device_RevokeByToken (env_now E (''fcm.revoke'', k)) (dev_PushToken v))))
       (\<lambda>_. revokeInvalid E (Suc k) rs)"
| "revokeInvalid E k ((v, _) # rs) = revokeInvalid E (Suc k) rs"

function sendBatches :: "db env \<Rightarrow> send_each \<Rightarrow> nat \<Rightarrow> string \<Rightarrow> customer_device list \<Rightarrow> (db, unit) op" where
  "sendBatches E send start message vs =
     (if vs = [] then ok ()
      else
        let batch = take maxMessagesPerSendEach vs;
            rest = sendBatches E send (start + maxMessagesPerSendEach) message (drop maxMessagesPerSendEach vs)
        in case send start (map dev_PushToken batch) message of
             None \<Rightarrow> rest
           | Some answers \<Rightarrow> andThen (revokeInvalid E start (zip batch answers)) (\<lambda>_. rest))"
  by pat_completeness auto
termination
  by (relation "measure (\<lambda>(E, send, start, message, vs). length vs)") (auto simp: maxMessagesPerSendEach_def)

declare sendBatches.simps [simp del]

definition fcm_Send :: "db env \<Rightarrow> send_each \<Rightarrow> int \<Rightarrow> string \<Rightarrow> (db, unit) op" where
  "fcm_Send E send clientID message =
     andThen (call E (''fcm'', 0) (client_GetByID clientID)) (\<lambda>c.
     case cl_CustomerAccountID c of
       None \<Rightarrow> ok ()
     | Some acc \<Rightarrow>
         andThen (call E (''fcm'', 1) (device_ListActiveByCustomerAccount acc)) (\<lambda>vs.
         if vs = [] then ok () else sendBatches E send 0 message vs))"

section \<open>The SMS gateway\<close>

text \<open>The \<open>k\<close>-th POST ends in a transport error or a reply: a status and whether its body decodes.\<close>

datatype gateway_reply = TransportError | Reply int bool

datatype sms_error = RetryableError | FinalError

definition maxAttempts :: nat where
  "maxAttempts = 3"

definition sms_attempt :: "gateway_reply \<Rightarrow> sms_error option" where
  "sms_attempt r =
     (case r of
        TransportError \<Rightarrow> Some RetryableError
      | Reply status decodes \<Rightarrow>
          if status \<ge> 500 then Some RetryableError
          else if status \<ge> 400 then Some FinalError
          else if \<not> decodes then Some FinalError
          else None)"

text \<open>The loop of \<open>Send\<close>; it returns the last error, if any, and the number of POSTs made.\<close>

function sms_loop :: "(nat \<Rightarrow> gateway_reply) \<Rightarrow> nat \<Rightarrow> sms_error option \<Rightarrow> sms_error option \<times> nat" where
  "sms_loop replies attempt lastErr =
     (if attempt > maxAttempts then (lastErr, attempt - 1)
      else case sms_attempt (replies attempt) of
             None \<Rightarrow> (None, attempt)
           | Some e \<Rightarrow> if e = RetryableError then sms_loop replies (attempt + 1) (Some e) else (Some e, attempt))"
  by pat_completeness auto
termination
  by (relation "measure (\<lambda>(replies, attempt, lastErr). Suc maxAttempts - attempt)") auto

declare sms_loop.simps [simp del]

definition httpsms_Send :: "(nat \<Rightarrow> gateway_reply) \<Rightarrow> sms_error option \<times> nat" where
  "httpsms_Send replies = sms_loop replies 1 None"

section \<open>The outbox worker\<close>

record outbox_worker_config =
  ow_PollInterval :: duration
  ow_BatchSize :: nat
  ow_MaxConcurrency :: int
  ow_MaxAttempts :: int
  ow_BaseBackoff :: duration
  ow_MaxBackoff :: duration
  ow_DeliverTimeout :: duration

definition deliverTimeout :: "outbox_worker_config \<Rightarrow> duration" where
  "deliverTimeout cfg = (if ow_DeliverTimeout cfg > 0 then ow_DeliverTimeout cfg else 30000000000)"

text \<open>A left shift of an \<open>int64\<close>: bits shifted out are lost, 64 places or more leave zero.\<close>

definition backoffFor :: "outbox_worker_config \<Rightarrow> int \<Rightarrow> duration" where
  "backoffFor cfg attempts =
     (let backoff = wrap64 (ow_BaseBackoff cfg * 2 ^ nat (attempts - 1))
      in if backoff > ow_MaxBackoff cfg \<or> backoff \<le> 0 then ow_MaxBackoff cfg else backoff)"

text \<open>The two ways out: the notification channel and the SMS sender, as the interfaces declare them.\<close>

record channels =
  ch_notify :: "int \<Rightarrow> string \<Rightarrow> (db, unit) op"
  ch_sms :: "string \<Rightarrow> string \<Rightarrow> (db, unit) op"

definition worker_send :: "db env \<Rightarrow> nat \<Rightarrow> channels \<Rightarrow> outbox_entry \<Rightarrow> (db, unit) op" where
  "worker_send E k ch entry =
     (if out_Channel entry \<noteq> OutboxChannelSMS then ch_notify ch (out_ClientID entry) (out_Message entry)
      else andThen (call E (''send'', k) (client_GetByID (out_ClientID entry))) (\<lambda>c.
           ch_sms ch (cl_Phone c) (out_Message entry)))"

definition deliver ::
    "db env \<Rightarrow> nat \<Rightarrow> (err \<Rightarrow> string) \<Rightarrow> outbox_worker_config \<Rightarrow> channels \<Rightarrow> outbox_entry \<Rightarrow> (db, unit) op" where
  "deliver E k text cfg ch entry =
     State_Monad.bind (worker_send E k ch entry) (\<lambda>r.
     let now = env_now E (''mark'', k) in
     case r of
       Inr _ \<Rightarrow> logged (call E (''mark'', k) (outbox_MarkDelivered now (out_ID entry)))
     | Inl e \<Rightarrow>
         let attempts = out_Attempts entry + 1 in
         if attempts \<ge> ow_MaxAttempts cfg
         then logged (call E (''mark'', k) (outbox_MarkDeadLetter (out_ID entry) (text e)))
         else logged (call E (''mark'', k) (outbox_MarkFailed (out_ID entry) (text e) (now + backoffFor cfg attempts))))"

text \<open>
  The deliveries of a batch run concurrently; each of their calls is atomic, so the model runs
  them in the order of the batch and leaves what runs in between to the environment.
\<close>

fun deliverAll ::
    "db env \<Rightarrow> nat \<Rightarrow> (err \<Rightarrow> string) \<Rightarrow> outbox_worker_config \<Rightarrow> channels \<Rightarrow> outbox_entry list \<Rightarrow> (db, unit) op" where
  "deliverAll E k text cfg ch [] = ok ()"
| "deliverAll E k text cfg ch (e # es) = andThen (deliver E k text cfg ch e) (\<lambda>_. deliverAll E (Suc k) text cfg ch es)"

definition pollOnce :: "db env \<Rightarrow> (err \<Rightarrow> string) \<Rightarrow> outbox_worker_config \<Rightarrow> channels \<Rightarrow> (db, unit) op" where
  "pollOnce E text cfg ch =
     andThen (logged (call E (''poll'', 0) outbox_CountPending)) (\<lambda>_.
     State_Monad.bind (call E (''poll'', 1) (outbox_ClaimBatch (env_now E (''poll'', 1)) (ow_BatchSize cfg))) (\<lambda>r.
     case r of
       Inl _ \<Rightarrow> ok ()
     | Inr entries \<Rightarrow> if entries = [] then ok () else deliverAll E 0 text cfg ch entries))"

text \<open>\<open>Run\<close>: one poll per tick until the context is cancelled, each in an environment of its own.\<close>

fun worker_Run :: "(err \<Rightarrow> string) \<Rightarrow> outbox_worker_config \<Rightarrow> (db env \<times> channels) list \<Rightarrow> (db, unit) op" where
  "worker_Run text cfg [] = ok ()"
| "worker_Run text cfg ((E, ch) # ticks) = andThen (pollOnce E text cfg ch) (\<lambda>_. worker_Run text cfg ticks)"

end
