(* ===== verification/Delivery.thy ===== *)
theory Delivery
  imports Notification
begin

text \<open>
  What a poll of the outbox worker does to the rows of the outbox, the amount of work that is
  left (\<open>work\<close>, which every poll that finds a due entry decreases), and the bounds of the
  backoff and of the SMS gateway's retries.
\<close>

section \<open>Backoff\<close>

lemma backoffFor_le: "backoffFor cfg n \<le> ow_MaxBackoff cfg"
  by (simp add: backoffFor_def Let_def)

lemma backoffFor_pos: "0 < ow_MaxBackoff cfg \<Longrightarrow> 0 < backoffFor cfg n"
  by (simp add: backoffFor_def Let_def)

lemma backoffFor_exact:
  assumes "0 < ow_BaseBackoff cfg" "in_i64 (ow_BaseBackoff cfg * 2 ^ nat (n - 1))"
  shows "backoffFor cfg n = min (ow_BaseBackoff cfg * 2 ^ nat (n - 1)) (ow_MaxBackoff cfg)"
proof -
  have "0 < ow_BaseBackoff cfg * 2 ^ nat (n - 1)" using assms(1) by simp
  then show ?thesis using assms(2) by (simp add: backoffFor_def Let_def wrap64_id min_def not_less)
qed

section \<open>Rows under a poll\<close>

definition settled :: "outbox_entry \<Rightarrow> bool" where
  "settled r \<longleftrightarrow> out_Status r = OutboxDelivered \<or> out_Status r = OutboxDeadLetter"

text \<open>A claimed row after its delivery: settled, or pending again with one attempt more.\<close>

definition handled :: "outbox_worker_config \<Rightarrow> time \<Rightarrow> outbox_entry \<Rightarrow> outbox_entry \<Rightarrow> bool" where
  "handled cfg t r r' \<longleftrightarrow> out_ID r' = out_ID r \<and>
     (settled r' \<or>
      out_Status r' = OutboxPending \<and> out_Attempts r' = out_Attempts r + 1 \<and>
      out_Attempts r + 1 < ow_MaxAttempts cfg \<and> out_NextAttemptAt r' \<le> t + ow_MaxBackoff cfg)"

definition same_outbox :: "db \<Rightarrow> db \<Rightarrow> bool" where
  "same_outbox d d' \<longleftrightarrow> db_outbox d' = db_outbox d"

text \<open>Channels that leave the outbox to the worker.\<close>

definition outbox_safe :: "channels \<Rightarrow> bool" where
  "outbox_safe ch \<longleftrightarrow> (\<forall>c m. keeps same_outbox (ch_notify ch c m)) \<and> (\<forall>p m. keeps same_outbox (ch_sms ch p m))"

lemma worker_send_outbox:
  assumes "outbox_safe ch"
  shows "db_outbox (after (worker_send (quiet t) k ch e) d) = db_outbox d"
proof -
  have "db_outbox (after (ch_notify ch c m) d) = db_outbox d" "db_outbox (after (ch_sms ch p m) d) = db_outbox d" for c p m
    using assms by (simp_all add: outbox_safe_def keeps_def same_outbox_def)
  then show ?thesis
    by (auto simp: worker_send_def run_andThen run_call client_GetByID_def split: option.split)
qed

lemma deliver_row:
  assumes "outbox_safe ch"
  obtains f d' where "run_state (deliver (quiet t) k text cfg ch e) d = (Inr (), d')"
    "db_outbox d' = map (\<lambda>r. if out_ID r = out_ID e then f r else r) (db_outbox d)"
    "\<And>r. out_Attempts r = out_Attempts e \<Longrightarrow> handled cfg t r (f r)"
proof -
  obtain r d1 where s: "run_state (worker_send (quiet t) k ch e) d = (r, d1)" by fastforce
  then have d1: "db_outbox d1 = db_outbox d" using worker_send_outbox [OF assms, of t k e d] by simp
  note defs = deliver_def s run_call outbox_MarkDelivered_def outbox_MarkDeadLetter_def outbox_MarkFailed_def
    update_outbox_def d1 handled_def settled_def
  show thesis
  proof (cases r)
    case (Inr u)
    then show thesis
      by (intro that [of _ "\<lambda>r :: outbox_entry. r\<lparr>out_Status := OutboxDelivered, out_DeliveredAt := Some t\<rparr>"]) (simp add: defs)+
  next
    case (Inl err)
    let ?n = "out_Attempts e + 1"
    show thesis
    proof (cases "?n \<ge> ow_MaxAttempts cfg")
      case True
      with Inl show thesis
        by (intro that [of _ "\<lambda>r :: outbox_entry. r\<lparr>out_Status := OutboxDeadLetter, out_Attempts := out_Attempts r + 1, out_LastError := text err\<rparr>"])
           (simp add: defs)+
    next
      case False
      with Inl show thesis
        by (intro that [of _ "\<lambda>r :: outbox_entry. r\<lparr>out_Status := OutboxPending, out_Attempts := out_Attempts r + 1,
              out_LastError := text err, out_NextAttemptAt := t + backoffFor cfg ?n\<rparr>"])
           (simp add: defs backoffFor_le Let_def)+
    qed
  qed
qed

lemma deliverAll_rows:
  assumes "outbox_safe ch" "distinct (map out_ID es)"
    "\<And>e r. e \<in> set es \<Longrightarrow> r \<in> set (db_outbox d) \<Longrightarrow> out_ID r = out_ID e \<Longrightarrow> out_Attempts r = out_Attempts e"
  shows "\<exists>d'. run_state (deliverAll (quiet t) k text cfg ch es) d = (Inr (), d') \<and>
     list_all2 (\<lambda>r r'. if out_ID r \<in> out_ID ` set es then handled cfg t r r' else r' = r) (db_outbox d) (db_outbox d')"
  using assms(2,3)
proof (induction es arbitrary: d k)
  case Nil
  then show ?case by (simp add: list.rel_refl)
next
  case (Cons e es)
  obtain f d1 where d1: "run_state (deliver (quiet t) k text cfg ch e) d = (Inr (), d1)"
    "db_outbox d1 = map (\<lambda>r. if out_ID r = out_ID e then f r else r) (db_outbox d)"
    and f: "\<And>r. out_Attempts r = out_Attempts e \<Longrightarrow> handled cfg t r (f r)"
    by (rule deliver_row [OF assms(1), of t k "text" cfg e d]) (rule that)
  have f': "handled cfg t r (f r)" if "r \<in> set (db_outbox d)" "out_ID r = out_ID e" for r
    using Cons.prems(2) [OF _ that] by (rule f) simp
  have "out_Attempts r = out_Attempts e'" if h: "e' \<in> set es" "r \<in> set (db_outbox d1)" "out_ID r = out_ID e'" for e' r
  proof -
    have "out_ID e' \<noteq> out_ID e" using h(1) Cons.prems(1) by (metis distinct.simps(2) image_eqI list.simps(9) set_map)
    moreover obtain r0 where r0: "r0 \<in> set (db_outbox d)" "r = (if out_ID r0 = out_ID e then f r0 else r0)"
      using h(2) unfolding d1(2) set_map by (elim imageE) (rule that)
    moreover have "out_ID (f r0) = out_ID e" if "out_ID r0 = out_ID e"
      using f' [OF r0(1) that] that by (simp add: handled_def)
    ultimately have "r = r0" using h(3) by metis
    then have "out_ID r0 = out_ID e'" using h(3) by simp
    with Cons.prems(2) [OF _ r0(1), of e'] h(1) \<open>r = r0\<close> show ?thesis by simp
  qed
  then obtain d2 where d2: "run_state (deliverAll (quiet t) (Suc k) text cfg ch es) d1 = (Inr (), d2)"
    "list_all2 (\<lambda>r r'. if out_ID r \<in> out_ID ` set es then handled cfg t r r' else r' = r) (db_outbox d1) (db_outbox d2)"
    using Cons.IH [of d1 "Suc k"] Cons.prems(1) by auto
  have "list_all2 (\<lambda>r r'. if out_ID r \<in> out_ID ` set (e # es) then handled cfg t r r' else r' = r)
      (db_outbox d) (db_outbox d2)"
    unfolding list_all2_conv_all_nth
  proof (intro conjI allI impI)
    show len: "length (db_outbox d) = length (db_outbox d2)" using d2(2) d1(2) by (auto dest: list_all2_lengthD)
    fix i assume i: "i < length (db_outbox d)"
    let ?r = "db_outbox d ! i" and ?r2 = "db_outbox d2 ! i"
    have r1: "db_outbox d1 ! i = (if out_ID ?r = out_ID e then f ?r else ?r)" using d1(2) i by simp
    have step: "if out_ID (db_outbox d1 ! i) \<in> out_ID ` set es then handled cfg t (db_outbox d1 ! i) ?r2 else ?r2 = db_outbox d1 ! i"
      using list_all2_nthD [OF d2(2), of i] d1(2) i by simp
    show "if out_ID ?r \<in> out_ID ` set (e # es) then handled cfg t ?r ?r2 else ?r2 = ?r"
    proof (cases "out_ID ?r = out_ID e")
      case True
      then have h: "handled cfg t ?r (f ?r)" using i by (intro f') simp_all
      then have "out_ID (db_outbox d1 ! i) \<notin> out_ID ` set es"
        using True r1 Cons.prems(1) by (auto simp: handled_def)
      with step r1 True h show ?thesis by simp
    next
      case False
      with r1 have "db_outbox d1 ! i = ?r" by simp
      with step have "if out_ID ?r \<in> out_ID ` set es then handled cfg t ?r ?r2 else ?r2 = ?r" by metis
      with False show ?thesis by simp
    qed
  qed
  with d1(1) d2(1) show ?case by (auto simp: run_andThen)
qed

text \<open>The entries a poll claims.\<close>

definition claimed_ids :: "time \<Rightarrow> nat \<Rightarrow> db \<Rightarrow> int set" where
  "claimed_ids t n d = out_ID ` set (take n (sort_key out_NextAttemptAt (List.filter (claimable t) (db_outbox d))))"

lemma pollOnce_rows:
  assumes "outbox_safe ch" "distinct (map out_ID (db_outbox d))"
  shows "\<exists>d'. run_state (pollOnce (quiet t) text cfg ch) d = (Inr (), d') \<and>
     list_all2 (\<lambda>r r'. if out_ID r \<in> claimed_ids t (ow_BatchSize cfg) d then handled cfg t r r' else r' = r)
       (db_outbox d) (db_outbox d')"
proof -
  let ?ids = "claimed_ids t (ow_BatchSize cfg) d"
  define claim :: "outbox_entry \<Rightarrow> outbox_entry" where "claim = (\<lambda>e. if out_ID e \<in> ?ids
     then e\<lparr>out_Status := OutboxProcessing, out_NextAttemptAt := t + claimLease\<rparr> else e)"
  let ?rows = "map claim (db_outbox d)"
  let ?es = "List.filter (\<lambda>e. out_ID e \<in> ?ids) ?rows"
  let ?d1 = "d\<lparr>db_outbox := ?rows\<rparr>"
  have c: "out_ID (claim r) = out_ID r" "out_Attempts (claim r) = out_Attempts r" for r
    by (simp_all add: claim_def)
  have claim: "run_state (outbox_ClaimBatch t (ow_BatchSize cfg)) d = (Inr ?es, ?d1)"
    by (simp add: outbox_ClaimBatch_def Let_def claimed_ids_def claim_def)
  have dist: "distinct (map out_ID ?rows)" using assms(2) by (simp add: c comp_def)
  then have dist': "distinct (map out_ID ?es)" by (rule distinct_map_filter)
  have "?ids \<subseteq> out_ID ` set (db_outbox d)" by (auto simp: claimed_ids_def dest!: in_set_takeD)
  moreover have "out_ID ` set ?es = ?ids \<inter> out_ID ` set (db_outbox d)"
  proof (intro equalityI subsetI)
    fix i assume "i \<in> ?ids \<inter> out_ID ` set (db_outbox d)"
    then obtain r where "r \<in> set (db_outbox d)" "out_ID (claim r) \<in> ?ids" "i = out_ID (claim r)" by (auto simp: c)
    then show "i \<in> out_ID ` set ?es" by (auto intro!: imageI)
  qed (auto simp: c)
  ultimately have ids: "out_ID ` set ?es = ?ids" by blast
  have att: "out_Attempts r = out_Attempts e"
    if "e \<in> set ?es" "r \<in> set (db_outbox ?d1)" "out_ID r = out_ID e" for e r
  proof -
    have "r = e" using dist that by (intro distinct_map_inj [OF dist]) auto
    then show ?thesis by simp
  qed
  have "\<exists>d'. run_state (deliverAll (quiet t) 0 text cfg ch ?es) ?d1 = (Inr (), d') \<and>
      list_all2 (\<lambda>r r'. if out_ID r \<in> out_ID ` set ?es then handled cfg t r r' else r' = r) (db_outbox ?d1) (db_outbox d')"
    by (rule deliverAll_rows [OF assms(1) dist']) (rule att)
  then obtain d' where d': "run_state (deliverAll (quiet t) 0 text cfg ch ?es) ?d1 = (Inr (), d')"
    and rel: "list_all2 (\<lambda>r r'. if out_ID r \<in> ?ids then handled cfg t r r' else r' = r) ?rows (db_outbox d')"
    unfolding ids by auto
  have "list_all2 (\<lambda>r r'. if out_ID r \<in> ?ids then handled cfg t r r' else r' = r) (db_outbox d) (db_outbox d')"
  proof (rule list_all2_all_nthI)
    show "length (db_outbox d) = length (db_outbox d')" using rel by (auto dest: list_all2_lengthD)
    fix i assume "i < length (db_outbox d)"
    then have "if out_ID (claim (db_outbox d ! i)) \<in> ?ids then handled cfg t (claim (db_outbox d ! i)) (db_outbox d' ! i)
          else db_outbox d' ! i = claim (db_outbox d ! i)"
      using list_all2_nthD [OF rel, of i] unfolding length_map by (metis nth_map)
    then show "if out_ID (db_outbox d ! i) \<in> ?ids then handled cfg t (db_outbox d ! i) (db_outbox d' ! i)
          else db_outbox d' ! i = db_outbox d ! i"
      by (cases "out_ID (db_outbox d ! i) \<in> ?ids") (simp_all add: handled_def c, simp add: claim_def)
  qed
  moreover have "run_state (pollOnce (quiet t) text cfg ch) d = (Inr (), d')"
    using claim d' by (auto simp: pollOnce_def run_andThen run_call outbox_CountPending_def)
  ultimately show ?thesis by blast
qed

section \<open>The work that is left\<close>

definition entry_work :: "outbox_worker_config \<Rightarrow> outbox_entry \<Rightarrow> nat" where
  "entry_work cfg r = (if settled r then 0 else max 1 (nat (ow_MaxAttempts cfg - out_Attempts r)))"

definition work :: "outbox_worker_config \<Rightarrow> db \<Rightarrow> nat" where
  "work cfg d = sum_list (map (entry_work cfg) (db_outbox d))"

text \<open>Every entry that is not settled is due at time \<open>t\<close>.\<close>

definition all_due :: "time \<Rightarrow> db \<Rightarrow> bool" where
  "all_due t d \<longleftrightarrow> (\<forall>r\<in>set (db_outbox d). \<not> settled r \<longrightarrow> out_NextAttemptAt r \<le> t)"

lemma claimable_iff: "claimable t r \<longleftrightarrow> \<not> settled r \<and> out_NextAttemptAt r \<le> t"
  by (cases "out_Status r") (simp_all add: claimable_def settled_def)

lemma handled_work: "handled cfg t r r' \<Longrightarrow> \<not> settled r \<Longrightarrow> entry_work cfg r' < entry_work cfg r"
  by (auto simp: handled_def entry_work_def settled_def)

lemma sum_list_strict_mono:
  fixes f g :: "'a \<Rightarrow> nat"
  assumes "list_all2 (\<lambda>x y. f y \<le> f x) xs ys" "i < length xs" "f (ys ! i) < f (xs ! i)"
  shows "sum_list (map f ys) < sum_list (map f xs)"
  using assms
proof (induction arbitrary: i rule: list_all2_induct)
  case (Cons x xs y ys)
  have "sum_list (map f ys) \<le> sum_list (map f xs)"
    using Cons(2) by (induction rule: list_all2_induct) auto
  with Cons show ?case by (cases i) fastforce+
qed simp

lemma claimed_open:
  assumes "distinct (map out_ID (db_outbox d))" "r \<in> set (db_outbox d)" "out_ID r \<in> claimed_ids t n d"
  shows "\<not> settled r"
proof -
  obtain r' where "r' \<in> set (db_outbox d)" "claimable t r'" "out_ID r' = out_ID r"
    using assms(3) by (auto simp: claimed_ids_def dest!: in_set_takeD)
  moreover from this assms(1,2) have "r' = r" by (auto intro: distinct_map_inj)
  ultimately show ?thesis by (simp add: claimable_iff)
qed

text \<open>A poll as a relation of the rows before and after it.\<close>

abbreviation polled :: "outbox_worker_config \<Rightarrow> time \<Rightarrow> db \<Rightarrow> outbox_entry \<Rightarrow> outbox_entry \<Rightarrow> bool" where
  "polled cfg t d r r' \<equiv> if out_ID r \<in> claimed_ids t (ow_BatchSize cfg) d then handled cfg t r r' else r' = r"

lemma polled_ids:
  assumes "list_all2 (polled cfg t d) rs rs'"
  shows "map out_ID rs' = map out_ID rs"
  using assms by (induction rule: list_all2_induct) (auto simp: handled_def split: if_splits)

lemma polled_due:
  assumes "list_all2 (polled cfg t d) (db_outbox d) (db_outbox d')" "all_due t d" "t + ow_MaxBackoff cfg \<le> t'" "t \<le> t'"
  shows "all_due t' d'"
  unfolding all_due_def
proof (intro ballI impI)
  fix r' assume "r' \<in> set (db_outbox d')" "\<not> settled r'"
  then obtain i where i: "i < length (db_outbox d)" "r' = db_outbox d' ! i"
    using list_all2_lengthD [OF assms(1)] by (auto simp: in_set_conv_nth)
  with list_all2_nthD [OF assms(1) i(1)] \<open>\<not> settled r'\<close> assms(2-) show "out_NextAttemptAt r' \<le> t'"
    by (fastforce simp: handled_def all_due_def split: if_splits)
qed

lemma claims_some:
  assumes "\<exists>r\<in>set (db_outbox d). \<not> settled r" "all_due t d" "0 < n"
  shows "\<exists>i<length (db_outbox d). out_ID (db_outbox d ! i) \<in> claimed_ids t n d"
proof -
  let ?due = "sort_key out_NextAttemptAt (List.filter (claimable t) (db_outbox d))"
  from assms(1,2) have "List.filter (claimable t) (db_outbox d) \<noteq> []"
    by (auto simp: filter_empty_conv claimable_iff all_due_def)
  then have "set (take n ?due) \<noteq> {}"
    using assms(3) by (metis length_greater_0_conv length_sort set_empty take_eq_Nil2 less_not_refl2)
  then obtain r where r: "r \<in> set (take n ?due)" by (metis ex_in_conv)
  then have "r \<in> set (db_outbox d)" by (auto dest: in_set_takeD)
  moreover from r have "out_ID r \<in> claimed_ids t n d" unfolding claimed_ids_def by (rule imageI)
  ultimately show ?thesis by (auto simp: in_set_conv_nth)
qed

lemma polled_work:
  assumes rel: "list_all2 (polled cfg t d) (db_outbox d) (db_outbox d')" and ids: "distinct (map out_ID (db_outbox d))"
    and i: "i < length (db_outbox d)" "out_ID (db_outbox d ! i) \<in> claimed_ids t (ow_BatchSize cfg) d"
  shows "work cfg d' < work cfg d"
proof -
  have less: "entry_work cfg (db_outbox d' ! j) < entry_work cfg (db_outbox d ! j)"
    if "j < length (db_outbox d)" "out_ID (db_outbox d ! j) \<in> claimed_ids t (ow_BatchSize cfg) d" for j
    using list_all2_nthD [OF rel that(1)] that claimed_open [OF ids nth_mem [OF that(1)]] by (auto intro: handled_work)
  have "list_all2 (\<lambda>r r'. entry_work cfg r' \<le> entry_work cfg r) (db_outbox d) (db_outbox d')"
  proof (rule list_all2_all_nthI)
    fix j assume "j < length (db_outbox d)"
    with list_all2_nthD [OF rel this] less [of j] show "entry_work cfg (db_outbox d' ! j) \<le> entry_work cfg (db_outbox d ! j)"
      by (auto split: if_splits)
  qed (simp add: list_all2_lengthD [OF rel])
  from sum_list_strict_mono [OF this i(1) less [OF i]] show ?thesis by (simp add: work_def)
qed

lemma poll_progress:
  assumes "outbox_safe ch" "distinct (map out_ID (db_outbox d))" "all_due t d" "0 < ow_BatchSize cfg"
    "t + ow_MaxBackoff cfg \<le> t'" "t \<le> t'"
  shows "\<exists>d'. run_state (pollOnce (quiet t) text cfg ch) d = (Inr (), d') \<and>
     distinct (map out_ID (db_outbox d')) \<and> all_due t' d' \<and> work cfg d' \<le> work cfg d - 1"
proof -
  obtain d' where d': "run_state (pollOnce (quiet t) text cfg ch) d = (Inr (), d')"
    and rel: "list_all2 (polled cfg t d) (db_outbox d) (db_outbox d')"
    using pollOnce_rows [OF assms(1,2)] by blast
  have "work cfg d' \<le> work cfg d - 1"
  proof (cases "\<exists>r\<in>set (db_outbox d). \<not> settled r")
    case True
    from claims_some [OF True assms(3,4)] polled_work [OF rel assms(2)] show ?thesis by fastforce
  next
    case False
    then have "claimed_ids t (ow_BatchSize cfg) d = {}" by (simp add: claimed_ids_def filter_False claimable_iff)
    with rel have same: "db_outbox d' = db_outbox d" by (simp add: list_all2_eq [symmetric] list_all2_conv_all_nth nth_equalityI)
    have "entry_work cfg r = 0" if "r \<in> set (db_outbox d)" for r
      using False that by (simp add: entry_work_def)
    then have "work cfg d = 0" "work cfg d' = work cfg d" by (simp_all add: work_def same)
    then show ?thesis by simp
  qed
  with d' polled_ids [OF rel] polled_due [OF rel assms(3,5,6)] assms(2) show ?thesis by auto
qed

section \<open>The real channels leave the outbox alone\<close>

lemma same_outbox_refl [simp]: "reflp same_outbox" and same_outbox_trans [simp]: "transp same_outbox"
  by (simp_all add: same_outbox_def reflp_def transp_def)

lemma keeps_logged: "keeps R m \<Longrightarrow> keeps R (logged m)"
  by (simp add: keeps_def)

lemma keeps_quiet_call: "reflp R \<Longrightarrow> keeps R m \<Longrightarrow> keeps R (call (quiet t) l m)"
  by (simp add: keeps_def run_call)

lemma RevokeByToken_same_outbox: "keeps same_outbox (device_RevokeByToken now tk)"
  by (simp add: keeps_def same_outbox_def device_RevokeByToken_def revoke_devices_def run_andThen)

lemma revokeInvalid_same_outbox: "keeps same_outbox (revokeInvalid (quiet t) k rs)"
  by (induction "quiet t :: db env" k rs rule: revokeInvalid.induct)
     (auto intro!: keeps_andThen keeps_logged keeps_quiet_call RevokeByToken_same_outbox keeps_ok)

lemma sendBatches_same_outbox: "keeps same_outbox (sendBatches (quiet t) send k m vs)"
proof (induction "quiet t :: db env" send k m vs rule: sendBatches.induct)
  case (1 send k m vs)
  then show ?case
    by (subst sendBatches.simps)
       (auto simp: Let_def keeps_ok intro!: keeps_andThen revokeInvalid_same_outbox split: option.split)
qed

lemma fcm_channels_safe:
  "outbox_safe \<lparr>ch_notify = fcm_Send (quiet t) send, ch_sms = (\<lambda>_ _. gets (\<lambda>_. r))\<rparr>"
  unfolding outbox_safe_def fcm_Send_def client_GetByID_def device_ListActiveByCustomerAccount_def select_one_def
  by (auto intro!: keeps_andThen keeps_quiet_call keeps_gets keeps_ok sendBatches_same_outbox split: option.split)

end
