(* ===== verification/Delivery_Theorems.thy ===== *)
theory Delivery_Theorems
  imports Delivery Scenario
begin

text \<open>The properties of the notification delivery.\<close>

definition demo_worker :: outbox_worker_config where
  "demo_worker = \<lparr>ow_PollInterval = 5, ow_BatchSize = 1, ow_MaxConcurrency = 1, ow_MaxAttempts = 2, ow_BaseBackoff = 10,
     ow_MaxBackoff = 60, ow_DeliverTimeout = 0\<rparr>"

definition demo_entry :: "int \<Rightarrow> outbox_channel \<Rightarrow> outbox_entry" where
  "demo_entry i c = \<lparr>out_ID = i, out_ClientID = 1, out_Channel = c, out_TemplateID = [], out_TemplateVersion = 1,
     out_Message = ''hi'', out_DedupeKey = [], out_Status = OutboxPending, out_Attempts = 0, out_NextAttemptAt = 0,
     out_LastError = [], out_CreatedAt = 0, out_DeliveredAt = None\<rparr>"

definition outbox_db :: db where
  "outbox_db = empty_db\<lparr>db_outbox := [demo_entry 1 OutboxChannelPush, demo_entry 2 OutboxChannelSMS],
     db_clients := [demo_client]\<rparr>"

definition dead_channels :: channels where
  "dead_channels = \<lparr>ch_notify = (\<lambda>_ _. fail ErrInternal), ch_sms = (\<lambda>_ _. fail ErrInternal)\<rparr>"

lemma dead_channels_safe: "outbox_safe dead_channels"
  by (simp add: outbox_safe_def dead_channels_def keeps_def same_outbox_def)

text \<open>
  C15: the outbox drains. Polls at least the maximal backoff apart, undisturbed and with nothing
  new queued, settle every entry (delivered or dead-lettered) after at most as many polls as
  there are attempts left in the queue, whatever the channels answer each time.
\<close>

theorem outbox_drains:
  assumes "distinct (map out_ID (db_outbox d))" "0 < ow_BatchSize cfg" "0 \<le> ow_MaxBackoff cfg"
    and "all_due t d" "sorted_wrt (\<lambda>(t, _) (t', _). t + ow_MaxBackoff cfg \<le> t') ((t, ch) # ticks)"
    and "\<forall>(u, c)\<in>set ((t, ch) # ticks). outbox_safe c"
    and "work cfg d \<le> Suc (length ticks)"
  shows "\<exists>d'. run_state (worker_Run text cfg (map (\<lambda>(u, c). (quiet u, c)) ((t, ch) # ticks))) d = (Inr (), d') \<and>
              list_all settled (db_outbox d') \<and> fst (run_state outbox_CountPending d') = Inr 0"
proof -
  have settle: "list_all settled (db_outbox d)" if "work cfg d = 0" for d
  proof -
    have "entry_work cfg r = 0 \<Longrightarrow> settled r" for r by (auto simp: entry_work_def split: if_splits)
    moreover have "\<forall>r\<in>set (db_outbox d). entry_work cfg r = 0" using that by (simp add: work_def)
    ultimately show ?thesis by (simp add: list_all_iff)
  qed
  have count: "fst (run_state outbox_CountPending d) = Inr 0" if "list_all settled (db_outbox d)" for d
    using that by (auto simp: outbox_CountPending_def filter_empty_conv list_all_iff settled_def)
  have "\<exists>d'. run_state (worker_Run text cfg (map (\<lambda>(u, c). (quiet u, c)) ((t, ch) # ticks))) d = (Inr (), d') \<and>
      work cfg d' = 0"
    using assms(1,4-7)
  proof (induction ticks arbitrary: d t ch)
    case Nil
    from Nil.prems(4) have "outbox_safe ch" by simp
    from poll_progress [OF this Nil.prems(1,2) assms(2), of "t + ow_MaxBackoff cfg" "text"] Nil.prems(5) assms(3)
    show ?case by (auto simp: run_andThen)
  next
    case (Cons tick ticks)
    obtain u c where tick: "tick = (u, c)" by (cases tick)
    from Cons.prems(3,4) have "outbox_safe ch" "t + ow_MaxBackoff cfg \<le> u" by (auto simp: tick)
    with assms(3) obtain d1 where d1: "run_state (pollOnce (quiet t) text cfg ch) d = (Inr (), d1)"
      "distinct (map out_ID (db_outbox d1))" "all_due u d1" "work cfg d1 \<le> work cfg d - 1"
      using poll_progress [OF _ Cons.prems(1,2) assms(2), of ch u "text"] by auto
    have "work cfg d1 \<le> Suc (length ticks)" using Cons.prems(5) d1(4) unfolding list.size by linarith
    with Cons.IH [OF d1(2,3), of c] Cons.prems(3,4) obtain d2 where
      "run_state (worker_Run text cfg (map (\<lambda>(u, c). (quiet u, c)) ((u, c) # ticks))) d1 = (Inr (), d2)" "work cfg d2 = 0"
      by (auto simp: tick)
    with d1(1) show ?case by (auto simp: tick run_andThen)
  qed
  with settle count show ?thesis by blast
qed

theorem outbox_drains_witness:
  "\<exists>d'. run_state (worker_Run (\<lambda>_. ''down'') demo_worker (map (\<lambda>(u, c). (quiet u, c))
          ((0, dead_channels) # [(60, dead_channels), (120, dead_channels), (180, dead_channels)]))) outbox_db = (Inr (), d') \<and>
        list_all settled (db_outbox d') \<and> fst (run_state outbox_CountPending d') = Inr 0"
  by (rule outbox_drains)
     (simp_all add: outbox_db_def demo_entry_def demo_worker_def empty_db_def all_due_def work_def entry_work_def settled_def
       dead_channels_safe)

text \<open>
  The delay before a retry is the base delay doubled per attempt and capped at the maximum,
  and it stays within zero and the maximum also where the doubling leaves 64 bits.
\<close>

theorem backoff_doubles_capped:
  assumes "0 < ow_MaxBackoff cfg" "0 < ow_BaseBackoff cfg"
  shows "0 < backoffFor cfg n \<and> backoffFor cfg n \<le> ow_MaxBackoff cfg \<and>
    (if in_i64 (ow_BaseBackoff cfg * 2 ^ nat (n - 1))
     then backoffFor cfg n = min (ow_BaseBackoff cfg * 2 ^ nat (n - 1)) (ow_MaxBackoff cfg) else True)"
  using assms by (simp add: backoffFor_le backoffFor_pos backoffFor_exact)

theorem backoff_doubles_capped_witness:
  "backoffFor demo_worker 3 = 40 \<and> backoffFor demo_worker 4 = 60 \<and> 0 < backoffFor demo_worker 64"
  using backoff_doubles_capped [of demo_worker 3] backoff_doubles_capped [of demo_worker 4]
    backoff_doubles_capped [of demo_worker 64]
  by (simp add: demo_worker_def in_i64_def)

text \<open>
  Nothing is delivered that was not sent. While the send of an entry fails, its delivery
  marks no entry delivered, and dead-letters none while attempts are left, whatever calls fail
  and whatever else runs, as long as that does not settle entries itself.
\<close>

definition in_status :: "outbox_status \<Rightarrow> db \<Rightarrow> int set" where
  "in_status st d = out_ID ` {r \<in> set (db_outbox d). out_Status r = st}"

definition settles_only :: "bool \<Rightarrow> db \<Rightarrow> db \<Rightarrow> bool" where
  "settles_only dead d d' \<longleftrightarrow> in_status OutboxDelivered d' \<subseteq> in_status OutboxDelivered d \<and>
     (if dead then True else in_status OutboxDeadLetter d' \<subseteq> in_status OutboxDeadLetter d)"

lemma settles_only_refl: "reflp (settles_only b)" and settles_only_trans: "transp (settles_only b)"
  by (auto simp: settles_only_def reflp_def transp_def)

lemma settles_only_update:
  assumes "\<And>r. out_ID (f r) = out_ID r" "\<And>r. out_Status (f r) = st" "st \<noteq> OutboxDelivered"
    "st = OutboxDeadLetter \<Longrightarrow> b"
  shows "keeps (settles_only b) (update_outbox i f)"
  using assms by (force simp: keeps_def settles_only_def update_outbox_def in_status_def)

theorem unsent_never_delivered:
  assumes "\<And>s. \<exists>e. fst (run_state (worker_send E k ch entry) s) = Inl e"
    and "keeps (settles_only (out_Attempts entry + 1 \<ge> ow_MaxAttempts cfg)) (worker_send E k ch entry)"
    and "\<And>l s. settles_only (out_Attempts entry + 1 \<ge> ow_MaxAttempts cfg) s (env_other E l s)"
  shows "in_status OutboxDelivered (after (deliver E k text cfg ch entry) d) \<subseteq> in_status OutboxDelivered d \<and>
    (if out_Attempts entry + 1 \<ge> ow_MaxAttempts cfg then True
     else in_status OutboxDeadLetter (after (deliver E k text cfg ch entry) d) \<subseteq> in_status OutboxDeadLetter d)"
proof -
  let ?b = "out_Attempts entry + 1 \<ge> ow_MaxAttempts cfg"
  let ?R = "settles_only ?b"
  obtain e d1 where send: "run_state (worker_send E k ch entry) d = (Inl e, d1)"
    using assms(1) [of d] by (cases "run_state (worker_send E k ch entry) d") auto
  have d1: "?R d d1" using keepsD [OF assms(2), of d] send by simp
  have call: "?R s (after (call E l m) s)" if "keeps ?R m" for l m s
    using keepsD [OF keeps_call [OF settles_only_refl settles_only_trans assms(3) that]] .
  have "?R d1 (after (deliver E k text cfg ch entry) d)"
  proof (cases ?b)
    case True
    then have "keeps ?R (outbox_MarkDeadLetter i x)" for i x
      unfolding outbox_MarkDeadLetter_def by (intro settles_only_update [of _ OutboxDeadLetter]) simp_all
    from call [OF this] True show ?thesis by (simp add: deliver_def send Let_def)
  next
    case False
    have "keeps ?R (outbox_MarkFailed i x n)" for i x n
      unfolding outbox_MarkFailed_def by (intro settles_only_update [of _ OutboxPending]) simp_all
    from call [OF this] False show ?thesis by (simp add: deliver_def send Let_def)
  qed
  with d1 settles_only_trans have "?R d (after (deliver E k text cfg ch entry) d)" by (blast dest: transpD)
  then show ?thesis by (simp add: settles_only_def)
qed

theorem unsent_never_delivered_witness:
  "in_status OutboxDelivered (after (deliver (quiet 5) 0 (\<lambda>_. ''down'') demo_worker dead_channels
      (demo_entry 1 OutboxChannelPush)) outbox_db) \<subseteq> in_status OutboxDelivered outbox_db"
  using unsent_never_delivered [of "quiet 5" 0 dead_channels "demo_entry 1 OutboxChannelPush" demo_worker "\<lambda>_. ''down''" outbox_db]
  by (simp add: worker_send_def demo_entry_def dead_channels_def keeps_def settles_only_def)

text \<open>
  A push that Firebase fails to take is nevertheless delivered for the worker. The FCM
  channel logs a failed \<open>SendEach\<close> and returns nil, so the entry is marked delivered at its
  first attempt and the retries and the dead letter of the worker never apply to it.
\<close>

lemma sendBatches_down: "run_state (sendBatches E (\<lambda>_ _ _. None) k m vs) d = (Inr (), d)"
proof (induction E "\<lambda>(_ :: nat) (_ :: string list) (_ :: string). None :: push_answer list option" k m vs rule: sendBatches.induct)
  case (1 E k m vs)
  then show ?case by (subst sendBatches.simps) (simp add: Let_def)
qed

theorem failed_push_marked_delivered:
  assumes "find (\<lambda>c. cl_ID c = out_ClientID entry) (db_clients d) = Some c" "out_Channel entry \<noteq> OutboxChannelSMS"
  shows "list_all (\<lambda>r. out_ID r = out_ID entry \<longrightarrow> out_Status r = OutboxDelivered)
    (db_outbox (after (deliver (quiet t) k text cfg \<lparr>ch_notify = fcm_Send (quiet t) (\<lambda>_ _ _. None), ch_sms = sms\<rparr> entry) d))"
proof -
  have "run_state (fcm_Send (quiet t) (\<lambda>_ _ _. None) (out_ClientID entry) m) d = (Inr (), d)" for m
    using assms(1) sendBatches_down
    by (simp add: fcm_Send_def run_andThen run_call client_GetByID_def device_ListActiveByCustomerAccount_def split: option.split)
  then show ?thesis
    using assms(2) by (simp add: deliver_def worker_send_def Let_def run_call outbox_MarkDelivered_def update_outbox_def list.pred_map list.pred_True comp_def if_distrib)
qed

theorem failed_push_marked_delivered_witness:
  "list_all (\<lambda>r. (out_ID r = 1) = (out_Status r = OutboxDelivered))
    (db_outbox (after (deliver (quiet 5) 0 (\<lambda>_. []) demo_worker \<lparr>ch_notify = fcm_Send (quiet 5) (\<lambda>_ _ _. None), ch_sms = (\<lambda>_ _. ok ())\<rparr>
       (demo_entry 1 OutboxChannelPush)) outbox_db))"
proof -
  let ?d = "after (deliver (quiet 5) 0 (\<lambda>_. []) demo_worker \<lparr>ch_notify = fcm_Send (quiet 5) (\<lambda>_ _ _. None), ch_sms = (\<lambda>_ _. ok ())\<rparr>
       (demo_entry 1 OutboxChannelPush)) outbox_db"
  have "list_all (\<lambda>r. out_ID r = out_ID (demo_entry 1 OutboxChannelPush) \<longrightarrow> out_Status r = OutboxDelivered) (db_outbox ?d)"
    by (rule failed_push_marked_delivered [of _ _ demo_client])
       (simp_all add: outbox_db_def demo_entry_def demo_client_def)
  moreover have "list_all (\<lambda>r. out_ID r = 1 \<or> out_Status r \<noteq> OutboxDelivered) (db_outbox ?d)"
    by (simp add: deliver_def worker_send_def fcm_Send_def run_andThen run_call client_GetByID_def outbox_db_def demo_entry_def
        demo_client_def outbox_MarkDelivered_def update_outbox_def Let_def)
  ultimately show ?thesis by (auto simp: list_all_iff demo_entry_def)
qed

text \<open>
  An SMS costs at most three requests to the gateway. The sender stops at the first reply
  that is not a transport error or a 5xx, with that reply's outcome; only these are repeated.
\<close>

theorem sms_requests_bounded:
  "case httpsms_Send replies of (result, n) \<Rightarrow>
     1 \<le> n \<and> n \<le> maxAttempts \<and> result = sms_attempt (replies n) \<and>
     list_all (\<lambda>k. sms_attempt (replies k) = Some RetryableError) [1..<n] \<and>
     (if result = Some RetryableError then n = maxAttempts else True)"
  by (simp add: httpsms_Send_def maxAttempts_def sms_loop.simps numeral_2_eq_2 numeral_3_eq_3 split: option.split sms_error.split)

end
