(* ===== verification/Redis.thy ===== *)
theory Redis
  imports Database
begin

text \<open>
  The Redis server as the program uses it. The key space is a parameter: a record \<open>'k redis\<close> of
  how a key is read at a time, written with an expiry and deleted, with the documented laws
  (\<open>redis_store\<close>: a written key reads back until it expires, other keys are untouched). The
  commands the stores and Lua scripts issue are defined over it; a script is one atomic
  operation. \<open>kv\<close> is a concrete key space that satisfies the laws. Server time is in
  milliseconds.
\<close>

datatype redis_value =
    RString string
  | RHash "string \<rightharpoonup> string"

type_synonym msec = int

record 'k redis =
  rd_read :: "'k \<Rightarrow> msec \<Rightarrow> string \<Rightarrow> (redis_value \<times> msec option) option"
  rd_write :: "string \<Rightarrow> redis_value \<Rightarrow> msec option \<Rightarrow> 'k \<Rightarrow> 'k"
  rd_delete :: "string \<Rightarrow> 'k \<Rightarrow> 'k"

definition unexpired :: "msec \<Rightarrow> msec option \<Rightarrow> bool" where
  "unexpired now e = (case e of None \<Rightarrow> True | Some t \<Rightarrow> now < t)"

locale redis_store =
  fixes R :: "'k redis"
  assumes read_write: "rd_read R (rd_write R k v e s) now k' =
      (if k' = k then (if unexpired now e then Some (v, e) else None) else rd_read R s now k')"
    and read_delete: "rd_read R (rd_delete R k s) now k' = (if k' = k then None else rd_read R s now k')"
    and read_later: "now \<le> later \<Longrightarrow> rd_read R s later k =
      (case rd_read R s now k of Some (v, e) \<Rightarrow> if unexpired later e then Some (v, e) else None | None \<Rightarrow> None)"
    and read_unexpired: "rd_read R s now k = Some (v, e) \<Longrightarrow> unexpired now e"
begin

lemma read_write_same [simp]: "unexpired now e \<Longrightarrow> rd_read R (rd_write R k v e s) now k = Some (v, e)"
  by (simp add: read_write)

lemma read_write_other [simp]: "k' \<noteq> k \<Longrightarrow> rd_read R (rd_write R k v e s) now k' = rd_read R s now k'"
  by (simp add: read_write)

lemma read_delete_same [simp]: "rd_read R (rd_delete R k s) now k = None"
  by (simp add: read_delete)

lemma read_delete_other [simp]: "k' \<noteq> k \<Longrightarrow> rd_read R (rd_delete R k s) now k' = rd_read R s now k'"
  by (simp add: read_delete)

lemma absent_later: "rd_read R s now k = None \<Longrightarrow> now \<le> later \<Longrightarrow> rd_read R s later k = None"
  by (simp add: read_later)

lemma present_later:
  "rd_read R s now k = Some (v, e) \<Longrightarrow> now \<le> later \<Longrightarrow> unexpired later e \<Longrightarrow> rd_read R s later k = Some (v, e)"
  by (simp add: read_later)

lemma present_before:
  "rd_read R s later k = Some (v, e) \<Longrightarrow> now \<le> later \<Longrightarrow> rd_read R s now k = Some (v, e)"
  by (auto simp: read_later split: option.splits if_splits)

end

section \<open>A concrete key space\<close>

type_synonym keyspace = "string \<rightharpoonup> redis_value \<times> msec option"

definition kv :: "keyspace redis" where
  "kv = \<lparr>rd_read = (\<lambda>s now k. case s k of None \<Rightarrow> None | Some (v, e) \<Rightarrow> if unexpired now e then Some (v, e) else None),
         rd_write = (\<lambda>k v e s. s(k \<mapsto> (v, e))),
         rd_delete = (\<lambda>k s. s(k := None))\<rparr>"

interpretation kv: redis_store kv
  by unfold_locales (auto simp: kv_def unexpired_def split: option.splits if_splits)

section \<open>Commands\<close>

text \<open>
  An expiry given as a Go duration: zero is none, a positive one is sent in whole
  milliseconds, at least one; the server refuses a negative one.
\<close>

definition msec_of :: "duration \<Rightarrow> msec" where
  "msec_of d = d div 1000000"

definition expiry :: "msec \<Rightarrow> duration \<Rightarrow> msec option" where
  "expiry now d = (if d = 0 then None else Some (now + max 1 (msec_of d)))"

definition GET :: "'k redis \<Rightarrow> msec \<Rightarrow> string \<Rightarrow> ('k, string option) op" where
  "GET R now k = gets (\<lambda>s. case rd_read R s now k of
       None \<Rightarrow> Inr None | Some (RString v, _) \<Rightarrow> Inr (Some v) | Some (RHash _, _) \<Rightarrow> Inl ErrInternal)"

definition SET_PX :: "'k redis \<Rightarrow> msec \<Rightarrow> string \<Rightarrow> string \<Rightarrow> msec \<Rightarrow> ('k, unit) op" where
  "SET_PX R now k v px = (if px \<le> 0 then fail ErrInternal else modify (rd_write R k (RString v) (Some (now + px))))"

definition SET :: "'k redis \<Rightarrow> msec \<Rightarrow> string \<Rightarrow> string \<Rightarrow> duration \<Rightarrow> ('k, unit) op" where
  "SET R now k v d = (if d < 0 then fail ErrInternal else modify (rd_write R k (RString v) (expiry now d)))"

definition SETNX :: "'k redis \<Rightarrow> msec \<Rightarrow> string \<Rightarrow> string \<Rightarrow> duration \<Rightarrow> ('k, bool) op" where
  "SETNX R now k v d =
     State (\<lambda>s. if d < 0 then (Inl ErrInternal, s)
                else if rd_read R s now k = None then (Inr True, rd_write R k (RString v) (expiry now d) s)
                else (Inr False, s))"

definition DEL :: "'k redis \<Rightarrow> string \<Rightarrow> ('k, unit) op" where
  "DEL R k = modify (rd_delete R k)"

text \<open>\<open>INCR\<close> counts from 0 where the key is absent and keeps the expiry of a present one.\<close>

definition INCR :: "'k redis \<Rightarrow> msec \<Rightarrow> string \<Rightarrow> ('k, int) op" where
  "INCR R now k =
     State (\<lambda>s. case rd_read R s now k of
         None \<Rightarrow> (Inr 1, rd_write R k (RString (show_int 1)) None s)
       | Some (RString v, e) \<Rightarrow>
           (case parse_int v of
              Some n \<Rightarrow> if in_i64 (n + 1) then (Inr (n + 1), rd_write R k (RString (show_int (n + 1))) e s)
                        else (Inl ErrInternal, s)
            | None \<Rightarrow> (Inl ErrInternal, s))
       | Some (RHash _, _) \<Rightarrow> (Inl ErrInternal, s))"

text \<open>\<open>PTTL\<close>: what is left, -1 without an expiry, -2 without the key.\<close>

definition PTTL :: "'k redis \<Rightarrow> msec \<Rightarrow> string \<Rightarrow> ('k, msec) op" where
  "PTTL R now k = gets (\<lambda>s. case rd_read R s now k of
       None \<Rightarrow> Inr (- 2) | Some (_, None) \<Rightarrow> Inr (- 1) | Some (_, Some e) \<Rightarrow> Inr (e - now))"

text \<open>\<open>PEXPIRE\<close> (and \<open>EXPIRE\<close>, in seconds) deletes a key whose new expiry is not in the future.\<close>

definition PEXPIRE :: "'k redis \<Rightarrow> msec \<Rightarrow> string \<Rightarrow> msec \<Rightarrow> ('k, unit) op" where
  "PEXPIRE R now k px =
     modify (\<lambda>s. case rd_read R s now k of
         None \<Rightarrow> s
       | Some (v, _) \<Rightarrow> if px \<le> 0 then rd_delete R k s else rd_write R k v (Some (now + px)) s)"

definition HMGET :: "'k redis \<Rightarrow> msec \<Rightarrow> string \<Rightarrow> ('k, string \<rightharpoonup> string) op" where
  "HMGET R now k = gets (\<lambda>s. case rd_read R s now k of
       None \<Rightarrow> Inr Map.empty | Some (RHash h, _) \<Rightarrow> Inr h | Some (RString _, _) \<Rightarrow> Inl ErrInternal)"

definition HSET :: "'k redis \<Rightarrow> msec \<Rightarrow> string \<Rightarrow> (string \<rightharpoonup> string) \<Rightarrow> ('k, unit) op" where
  "HSET R now k fs =
     State (\<lambda>s. case rd_read R s now k of
         None \<Rightarrow> (Inr (), rd_write R k (RHash fs) None s)
       | Some (RHash h, e) \<Rightarrow> (Inr (), rd_write R k (RHash (h ++ fs)) e s)
       | Some (RString _, _) \<Rightarrow> (Inl ErrInternal, s))"

section \<open>What a command leaves\<close>

lemma run_SETNX:
  "run_state (SETNX R now k v d) s =
     (if d < 0 then (Inl ErrInternal, s)
      else if rd_read R s now k = None then (Inr True, rd_write R k (RString v) (expiry now d) s)
      else (Inr False, s))"
  by (simp add: SETNX_def)

lemma run_DEL [simp]: "run_state (DEL R k) s = (Inr (), rd_delete R k s)"
  by (simp add: DEL_def)

lemma unexpired_None [simp]: "unexpired now None"
  by (simp add: unexpired_def)

lemma unexpired_Some [simp]: "unexpired now (Some t) \<longleftrightarrow> now < t"
  by (simp add: unexpired_def)

lemma unexpired_expiry: "0 \<le> d \<Longrightarrow> unexpired now (expiry now d)"
  by (simp add: expiry_def less_max_iff_disj)

end
