(* ===== verification/Tokens.thy ===== *)
theory Tokens
  imports Domain
begin

text \<open>
  \<open>internal/auth\<close>: access tokens, opaque tokens, OTP codes and API keys (\<open>tokens.go\<close>, \<open>otp.go\<close>),
  and how \<open>internal/httpserver/middleware.go\<close> takes an API key apart. SHA-256 in hex is a
  parameter \<open>sha\<close>; random bytes are arguments (\<open>None\<close> where the source of randomness fails); the
  JWT library is a parameter \<open>jwt_lib\<close> with its documented behaviour \<open>jwt_laws\<close>.
\<close>

type_synonym hash = "string \<Rightarrow> string"

section \<open>Base64 URL encoding without padding\<close>

text \<open>\<open>base64.RawURLEncoding\<close>, over bytes below 256.\<close>

definition base64_char :: "nat \<Rightarrow> char" where
  "base64_char n =
     (if n < 26 then char_of (65 + n)
      else if n < 52 then char_of (97 + (n - 26))
      else if n < 62 then char_of (48 + (n - 52))
      else if n = 62 then CHR ''-'' else CHR ''_'')"

definition base64_val :: "char \<Rightarrow> nat option" where
  "base64_val c =
     (let k = of_char c :: nat in
      if 65 \<le> k \<and> k \<le> 90 then Some (k - 65)
      else if 97 \<le> k \<and> k \<le> 122 then Some (k - 97 + 26)
      else if 48 \<le> k \<and> k \<le> 57 then Some (k - 48 + 52)
      else if k = 45 then Some 62
      else if k = 95 then Some 63
      else None)"

fun base64url :: "nat list \<Rightarrow> string" where
  "base64url [] = []"
| "base64url [a] = map base64_char [a div 4, (a mod 4) * 16]"
| "base64url [a, b] = map base64_char [a div 4, (a mod 4) * 16 + b div 16, (b mod 16) * 4]"
| "base64url (a # b # c # bs) =
     map base64_char [a div 4, (a mod 4) * 16 + b div 16, (b mod 16) * 4 + c div 64, c mod 64] @ base64url bs"

text \<open>The decoder refuses foreign characters and a lone last one; like Go's it ignores the spare bits.\<close>

fun unbase64 :: "nat list \<Rightarrow> nat list option" where
  "unbase64 [] = Some []"
| "unbase64 [a] = None"
| "unbase64 [a, b] = Some [a * 4 + b div 16]"
| "unbase64 [a, b, c] = Some [a * 4 + b div 16, (b mod 16) * 16 + c div 4]"
| "unbase64 (a # b # c # d # xs) =
     map_option (\<lambda>bs. (a * 4 + b div 16) # ((b mod 16) * 16 + c div 4) # ((c mod 4) * 64 + d) # bs) (unbase64 xs)"

definition base64url_decode :: "string \<Rightarrow> nat list option" where
  "base64url_decode s =
     (let vs = map base64_val (List.filter (\<lambda>c. c \<noteq> CHR 0x0A \<and> c \<noteq> CHR 0x0D) s)
      in if list_ex (\<lambda>v. v = None) vs then None else unbase64 (map the vs))"

section \<open>Opaque tokens, OTP codes and API keys\<close>

definition HashOpaqueToken :: "hash \<Rightarrow> string \<Rightarrow> string" where
  "HashOpaqueToken sha token = sha token"

definition HashOTP :: "hash \<Rightarrow> string \<Rightarrow> string" where
  "HashOTP sha code = HashOpaqueToken sha code"

text \<open>\<open>n\<close> is what \<open>rand.Int\<close> drew below \<open>otpMax\<close>; \<open>%06d\<close> pads with zeros.\<close>

definition otpMax :: nat where
  "otpMax = 1000000"

definition GenerateOTPCode :: "nat option \<Rightarrow> string option" where
  "GenerateOTPCode drawn = map_option (\<lambda>n. replicate (6 - length (show_nat n)) CHR ''0'' @ show_nat n) drawn"

definition GenerateRefreshToken :: "hash \<Rightarrow> nat list option \<Rightarrow> (string \<times> string) option" where
  "GenerateRefreshToken sha drawn =
     map_option (\<lambda>buf. let token = base64url buf in (token, HashOpaqueToken sha token)) drawn"

text \<open>The plaintext \<open>keyID.secret\<close>, the key id and the hash of the secret.\<close>

definition GenerateAPIKey :: "hash \<Rightarrow> nat list option \<Rightarrow> nat list option \<Rightarrow> (string \<times> string \<times> string) option" where
  "GenerateAPIKey sha idBuf secretBuf =
     (case (idBuf, secretBuf) of
        (Some i, Some s) \<Rightarrow>
          let keyID = base64url i; secret = base64url s
          in Some (keyID @ ''.'' @ secret, keyID, HashOpaqueToken sha secret)
      | _ \<Rightarrow> None)"

text \<open>\<open>strings.Cut\<close> at the first dot.\<close>

fun cut :: "char \<Rightarrow> string \<Rightarrow> (string \<times> string) option" where
  "cut c [] = None"
| "cut c (x # xs) = (if x = c then Some ([], xs) else map_option (\<lambda>(a, b). (x # a, b)) (cut c xs))"

definition parseMultiKeyAPIKey :: "string \<Rightarrow> (string \<times> string) option" where
  "parseMultiKeyAPIKey key =
     (case cut CHR ''.'' key of
        None \<Rightarrow> None
      | Some (keyID, secret) \<Rightarrow> if keyID = [] \<or> secret = [] then None else Some (keyID, secret))"

definition hashAPIKey :: "hash \<Rightarrow> string \<Rightarrow> string" where
  "hashAPIKey sha key = sha key"

definition constantTimeHashEqual :: "hash \<Rightarrow> string \<Rightarrow> string \<Rightarrow> bool" where
  "constantTimeHashEqual sha secret hexHash \<longleftrightarrow> hashAPIKey sha secret = hexHash"

section \<open>Access tokens\<close>

definition tokenTypeCustomerAccess :: string where
  "tokenTypeCustomerAccess = ''customer_access''"

definition tokenTypeStaffAccess :: string where
  "tokenTypeStaffAccess = ''staff_access''"

text \<open>\<open>jwt.NumericDate\<close> is in whole seconds.\<close>

record access_claims =
  clm_Type :: string
  clm_Subject :: string
  clm_IssuedAt :: int
  clm_ExpiresAt :: int

record jwt_lib =
  jwt_sign :: "string \<Rightarrow> access_claims \<Rightarrow> string option"
  jwt_parse :: "string \<Rightarrow> time \<Rightarrow> string \<Rightarrow> access_claims option"

definition seconds :: "time \<Rightarrow> int" where
  "seconds t = t div 1000000000"

definition issueAccessToken :: "jwt_lib \<Rightarrow> time \<Rightarrow> string \<Rightarrow> string \<Rightarrow> string \<Rightarrow> duration \<Rightarrow> string option" where
  "issueAccessToken J now secret typ subject ttl =
     jwt_sign J secret \<lparr>clm_Type = typ, clm_Subject = subject, clm_IssuedAt = seconds now, clm_ExpiresAt = seconds (now + ttl)\<rparr>"

definition parseAccessToken :: "jwt_lib \<Rightarrow> time \<Rightarrow> string \<Rightarrow> string \<Rightarrow> string \<Rightarrow> err + int" where
  "parseAccessToken J now secret want raw =
     (case jwt_parse J secret now raw of
        None \<Rightarrow> Inl ErrInvalidToken
      | Some claims \<Rightarrow>
          if clm_Type claims \<noteq> want then Inl ErrInvalidToken
          else case parse_int (clm_Subject claims) of
                 None \<Rightarrow> Inl ErrInvalidToken
               | Some i \<Rightarrow> Inr i)"

definition IssueCustomerAccessToken :: "jwt_lib \<Rightarrow> time \<Rightarrow> string \<Rightarrow> int \<Rightarrow> duration \<Rightarrow> string option" where
  "IssueCustomerAccessToken J now secret customerAccountID ttl =
     issueAccessToken J now secret tokenTypeCustomerAccess (show_int customerAccountID) ttl"

definition ParseCustomerAccessToken :: "jwt_lib \<Rightarrow> time \<Rightarrow> string \<Rightarrow> string \<Rightarrow> err + int" where
  "ParseCustomerAccessToken J now secret token = parseAccessToken J now secret tokenTypeCustomerAccess token"

definition IssueStaffAccessToken :: "jwt_lib \<Rightarrow> time \<Rightarrow> string \<Rightarrow> int \<Rightarrow> duration \<Rightarrow> string option" where
  "IssueStaffAccessToken J now secret staffUserID ttl =
     issueAccessToken J now secret tokenTypeStaffAccess (show_int staffUserID) ttl"

definition ParseStaffAccessToken :: "jwt_lib \<Rightarrow> time \<Rightarrow> string \<Rightarrow> string \<Rightarrow> err + int" where
  "ParseStaffAccessToken J now secret token = parseAccessToken J now secret tokenTypeStaffAccess token"

text \<open>
  What the library promises of HS256: a token it signed parses to its claims under the same
  secret until it expires, and under no other secret.
\<close>

locale jwt_laws =
  fixes J :: jwt_lib
  assumes parse_signed: "jwt_sign J secret c = Some tok \<Longrightarrow>
      jwt_parse J key now tok = (if key = secret \<and> now < clm_ExpiresAt c * 1000000000 then Some c else None)"
begin

lemma parse_issued:
  assumes "issueAccessToken J t0 secret typ (show_int i) ttl = Some tok" "in_i64 i"
  shows "parseAccessToken J now key want tok =
    (if key = secret \<and> now < seconds (t0 + ttl) * 1000000000 \<and> want = typ then Inr i else Inl ErrInvalidToken)"
  using parse_signed [of secret _ tok key now] assms
  by (auto simp: issueAccessToken_def parseAccessToken_def parse_show_int split: option.split)

end

text \<open>A library that satisfies the laws: the token spells out its secret and claims.\<close>

definition plain_jwt :: jwt_lib where
  "plain_jwt = \<lparr>
     jwt_sign = (\<lambda>secret c. if CHR 0x0A \<in> set secret \<or> CHR 0x0A \<in> set (clm_Type c) \<or> CHR 0x0A \<in> set (clm_Subject c) then None
       else Some (secret @ [CHR 0x0A] @ clm_Type c @ [CHR 0x0A] @ clm_Subject c @ [CHR 0x0A] @ show_int (clm_IssuedAt c)
                  @ [CHR 0x0A] @ show_int (clm_ExpiresAt c))),
     jwt_parse = (\<lambda>secret now tok.
       case cut CHR 0x0A tok of Some (s, r1) \<Rightarrow>
       (case cut CHR 0x0A r1 of Some (ty, r2) \<Rightarrow>
       (case cut CHR 0x0A r2 of Some (sub, r3) \<Rightarrow>
       (case cut CHR 0x0A r3 of Some (iat, ex) \<Rightarrow>
         (let n = (\<lambda>x. case x of [] \<Rightarrow> 0 | c # cs \<Rightarrow> if c = CHR ''-'' then - int (digits_val cs) else int (digits_val x))
          in if s = secret \<and> now < n ex * 1000000000
             then Some \<lparr>clm_Type = ty, clm_Subject = sub, clm_IssuedAt = n iat, clm_ExpiresAt = n ex\<rparr> else None)
        | None \<Rightarrow> None) | None \<Rightarrow> None) | None \<Rightarrow> None) | None \<Rightarrow> None)\<rparr>"

lemma cut_append: "c \<notin> set xs \<Longrightarrow> cut c (xs @ c # ys) = Some (xs, ys)"
  by (induction xs) auto

lemma show_int_no_newline: "CHR 0x0A \<notin> set (show_int i)"
  using show_int_chars [of "CHR 0x0A" i] by (auto simp: is_digit_def)

lemma read_show_int:
  "(case show_int i of [] \<Rightarrow> 0 | c # cs \<Rightarrow> if c = CHR ''-'' then - int (digits_val cs) else int (digits_val (show_int i))) = i"
proof (cases "i < 0")
  case False
  obtain c cs where "show_nat (nat i) = c # cs" "is_digit c" using show_nat_hd by blast
  with False show ?thesis using digits_val_show_nat [of "nat i"] by (auto simp: show_int_def)
qed (simp add: show_int_def)

interpretation plain_jwt: jwt_laws plain_jwt
proof
  fix secret c tok key now
  assume "jwt_sign plain_jwt secret c = Some tok"
  then have tok: "tok = secret @ CHR 0x0A # clm_Type c @ CHR 0x0A # clm_Subject c @ CHR 0x0A # show_int (clm_IssuedAt c)
      @ CHR 0x0A # show_int (clm_ExpiresAt c)"
    and "CHR 0x0A \<notin> set secret" "CHR 0x0A \<notin> set (clm_Type c)" "CHR 0x0A \<notin> set (clm_Subject c)"
    by (auto simp: plain_jwt_def split: if_splits)
  then show "jwt_parse plain_jwt key now tok = (if key = secret \<and> now < clm_ExpiresAt c * 1000000000 then Some c else None)"
    by (simp add: plain_jwt_def cut_append show_int_no_newline read_show_int Let_def)
qed

section \<open>Round trips\<close>

lemma base64_val_char: "n < 64 \<Longrightarrow> base64_val (base64_char n) = Some n"
  by (auto simp: base64_val_def base64_char_def Let_def)

lemma base64_char_plain: "base64_char n \<noteq> CHR ''.'' \<and> base64_char n \<noteq> CHR 0x0A \<and> base64_char n \<noteq> CHR 0x0D" if "n < 64"
proof -
  have "base64_val (CHR ''.'') = None" "base64_val (CHR 0x0A) = None" "base64_val (CHR 0x0D) = None"
    by (simp_all add: base64_val_def)
  with base64_val_char [OF that] show ?thesis by force
qed

definition is_byte :: "nat \<Rightarrow> bool" where
  "is_byte b \<longleftrightarrow> b < 256"

text \<open>The six-bit groups behind the encoding.\<close>

fun sextets :: "nat list \<Rightarrow> nat list" where
  "sextets [] = []"
| "sextets [a] = [a div 4, (a mod 4) * 16]"
| "sextets [a, b] = [a div 4, (a mod 4) * 16 + b div 16, (b mod 16) * 4]"
| "sextets (a # b # c # bs) = [a div 4, (a mod 4) * 16 + b div 16, (b mod 16) * 4 + c div 64, c mod 64] @ sextets bs"

lemma base64url_sextets: "base64url bs = map base64_char (sextets bs)"
  by (induction bs rule: sextets.induct) simp_all

lemma join_div_mod: "r < m \<Longrightarrow> (q * m + r) div m = (q :: nat)" "r < m \<Longrightarrow> (q * m + r) mod m = (r :: nat)"
  by simp_all

lemma join_less: "q < n \<Longrightarrow> r < m \<Longrightarrow> q * m + r < n * (m :: nat)"
proof -
  assume "q < n" "r < m"
  then have "q * m + r < Suc q * m" by simp
  also have "\<dots> \<le> n * m" using \<open>q < n\<close> by (intro mult_le_mono1) simp
  finally show ?thesis .
qed

lemma byte_parts: "b < 256 \<Longrightarrow> b div 4 < 64" "b < 256 \<Longrightarrow> b div 16 < 16" "b < 256 \<Longrightarrow> b div 64 < (4 :: nat)"
  by (simp_all add: less_mult_imp_div_less)

lemma sextet_bounds:
  "b < 256 \<Longrightarrow> a mod 4 * 16 + b div 16 < (64 :: nat)" "c < 256 \<Longrightarrow> b mod 16 * 4 + c div 64 < (64 :: nat)"
  "a mod 4 * 16 < (64 :: nat)" "b mod 16 * 4 < (64 :: nat)"
  using join_less [of "a mod 4" 4 "b div 16" 16] join_less [of "b mod 16" 16 "c div 64" 4]
    join_less [of "a mod 4" 4 0 16] join_less [of "b mod 16" 16 0 4]
  by (simp_all add: byte_parts)

lemma sextets_bound: "list_all is_byte bs \<Longrightarrow> list_all (\<lambda>n. n < 64) (sextets bs)"
  by (induction bs rule: sextets.induct) (simp_all add: is_byte_def sextet_bounds byte_parts)

lemma unbase64_sextets: "list_all is_byte bs \<Longrightarrow> unbase64 (sextets bs) = Some bs"
proof (induction bs rule: sextets.induct)
  case (4 a b c bs)
  then have "b < 256" "c < 256" "unbase64 (sextets bs) = Some bs" by (simp_all add: is_byte_def)
  then show ?case by (simp add: join_div_mod byte_parts)
qed (simp_all add: is_byte_def join_div_mod byte_parts)

lemma base64url_roundtrip:
  assumes "list_all is_byte bs"
  shows "base64url_decode (base64url bs) = Some bs"
proof -
  have b: "n < 64" if "n \<in> set (sextets bs)" for n
    using sextets_bound [OF assms] that by (simp add: list_all_iff)
  then have "List.filter (\<lambda>c. c \<noteq> CHR 0x0A \<and> c \<noteq> CHR 0x0D) (base64url bs) = base64url bs"
    by (auto simp: base64url_sextets base64_char_plain intro!: filter_True)
  moreover have "map base64_val (base64url bs) = map Some (sextets bs)"
    using b by (simp add: base64url_sextets base64_val_char)
  ultimately show ?thesis
    using unbase64_sextets [OF assms] by (simp add: base64url_decode_def list_ex_iff comp_def)
qed

lemma base64url_no_dot: "list_all is_byte bs \<Longrightarrow> CHR ''.'' \<notin> set (base64url bs)"
  using sextets_bound [of bs] base64_char_plain by (fastforce simp: base64url_sextets list_all_iff)

lemma base64url_Nil: "base64url bs = [] \<longleftrightarrow> bs = []"
  by (cases bs rule: sextets.cases) simp_all

end
