(* ===== verification/Otp_Store.thy ===== *)
theory Otp_Store
  imports Redis Tokens
begin

text \<open>
  \<open>internal/service/otp_store.go\<close>: OTP challenges, resend cooldown and request counters in
  Redis, and the state they share with PostgreSQL (\<open>world\<close>). A Lua script is one atomic
  operation; the two counters of \<open>checkRateLimit\<close> are two round trips.
\<close>

section \<open>The two servers\<close>

record 'k world =
  w_db :: db
  w_kv :: 'k

definition on_db :: "(db, 'a) op \<Rightarrow> ('k world, 'a) op" where
  "on_db m = State (\<lambda>w. let (r, d) = run_state m (w_db w) in (r, w\<lparr>w_db := d\<rparr>))"

definition on_kv :: "('k, 'a) op \<Rightarrow> ('k world, 'a) op" where
  "on_kv m = State (\<lambda>w. let (r, s) = run_state m (w_kv w) in (r, w\<lparr>w_kv := s\<rparr>))"

lemma run_on_db: "run_state (on_db m) w = (fst (run_state m (w_db w)), w\<lparr>w_db := snd (run_state m (w_db w))\<rparr>)"
  by (simp add: on_db_def split: prod.split)

lemma run_on_kv: "run_state (on_kv m) w = (fst (run_state m (w_kv w)), w\<lparr>w_kv := snd (run_state m (w_kv w))\<rparr>)"
  by (simp add: on_kv_def split: prod.split)

text \<open>The server's clock when a site is called, in milliseconds.\<close>

definition at_ms :: "'s env \<Rightarrow> site \<Rightarrow> msec" where
  "at_ms E l = msec_of (env_now E l)"

section \<open>The store\<close>

record otp_config =
  otp_CodeTTL :: duration
  otp_ResendCooldown :: duration
  otp_MaxAttempts :: int
  otp_RateLimitWindow :: duration
  otp_MaxRequestsPerPhone :: int
  otp_MaxRequestsPerIP :: int

definition phoneKey :: "hash \<Rightarrow> string \<Rightarrow> string \<Rightarrow> string" where
  "phoneKey sha prefix phone = prefix @ '':'' @ HashOpaqueToken sha phone"

definition ipKey :: "hash \<Rightarrow> string \<Rightarrow> string \<Rightarrow> string" where
  "ipKey sha prefix ip = prefix @ '':'' @ HashOpaqueToken sha ip"

text \<open>\<open>incrWithExpiryScript\<close>: the first increment of a window also sets its expiry, in seconds.\<close>

definition incrWithExpiry :: "'k redis \<Rightarrow> msec \<Rightarrow> string \<Rightarrow> int \<Rightarrow> ('k, int) op" where
  "incrWithExpiry R now k secs =
     andThen (INCR R now k) (\<lambda>n.
     if n = 1 then andThen (PEXPIRE R now k (secs * 1000)) (\<lambda>_. ok n) else ok n)"

definition incrWithWindow :: "'k redis \<Rightarrow> 'k world env \<Rightarrow> site \<Rightarrow> string \<Rightarrow> duration \<Rightarrow> ('k world, int) op" where
  "incrWithWindow R E l k window = call E l (on_kv (incrWithExpiry R (at_ms E l) k (seconds window)))"

definition checkRateLimit :: "'k redis \<Rightarrow> hash \<Rightarrow> otp_config \<Rightarrow> 'k world env \<Rightarrow> string \<Rightarrow> string \<Rightarrow> ('k world, unit) op" where
  "checkRateLimit R sha cfg E phone ip =
     andThen (incrWithWindow R E (''otp.rl'', 0) (phoneKey sha ''otp:rl:phone'' phone) (otp_RateLimitWindow cfg)) (\<lambda>phoneCount.
     andThen (incrWithWindow R E (''otp.rl'', 1) (ipKey sha ''otp:rl:ip'' ip) (otp_RateLimitWindow cfg)) (\<lambda>ipCount.
     if phoneCount > otp_MaxRequestsPerPhone cfg \<or> ipCount > otp_MaxRequestsPerIP cfg
     then fail errOTPRateLimited else ok ()))"

definition acquireCooldown :: "'k redis \<Rightarrow> hash \<Rightarrow> otp_config \<Rightarrow> 'k world env \<Rightarrow> string \<Rightarrow> ('k world, unit) op" where
  "acquireCooldown R sha cfg E phone =
     (let l = (''otp.cooldown'', 0) in
      andThen (call E l (on_kv (SETNX R (at_ms E l) (phoneKey sha ''otp:cooldown'' phone) ''1'' (otp_ResendCooldown cfg)))) (\<lambda>acquired.
      if acquired then ok () else fail errOTPCooldown))"

definition releaseCooldown :: "'k redis \<Rightarrow> hash \<Rightarrow> 'k world env \<Rightarrow> string \<Rightarrow> ('k world, unit) op" where
  "releaseCooldown R sha E phone = call E (''otp.release'', 0) (on_kv (DEL R (phoneKey sha ''otp:cooldown'' phone)))"

text \<open>The transaction \<open>HSET\<close>, \<open>EXPIRE\<close>; \<open>EXPIRE\<close> takes whole seconds, at least one of a positive duration.\<close>

definition storeChallenge :: "'k redis \<Rightarrow> msec \<Rightarrow> string \<Rightarrow> string \<Rightarrow> duration \<Rightarrow> ('k, unit) op" where
  "storeChallenge R now k codeHash ttl =
     andThen (HSET R now k [''hash'' \<mapsto> codeHash, ''attempts'' \<mapsto> ''0'']) (\<lambda>_.
     PEXPIRE R now k (if 0 < ttl then max 1 (seconds ttl) * 1000 else 0))"

definition otp_store :: "'k redis \<Rightarrow> hash \<Rightarrow> otp_config \<Rightarrow> 'k world env \<Rightarrow> string \<Rightarrow> string \<Rightarrow> ('k world, unit) op" where
  "otp_store R sha cfg E phone code =
     (let l = (''otp.store'', 0) in
      call E l (on_kv (storeChallenge R (at_ms E l) (phoneKey sha ''otp:code'' phone) (HashOTP sha code) (otp_CodeTTL cfg))))"

datatype otp_result = OtpOk | OtpNotFound | OtpWrong | OtpLocked

text \<open>\<open>tonumber(vals[2]) or 0\<close>.\<close>

definition attempts_of :: "(string \<rightharpoonup> string) \<Rightarrow> int" where
  "attempts_of h = (case h ''attempts'' of None \<Rightarrow> 0 | Some a \<Rightarrow> (case parse_int a of None \<Rightarrow> 0 | Some n \<Rightarrow> n))"

definition verifyOTPScript :: "'k redis \<Rightarrow> msec \<Rightarrow> string \<Rightarrow> string \<Rightarrow> int \<Rightarrow> ('k, otp_result) op" where
  "verifyOTPScript R now k codeHash maxAttempts =
     andThen (HMGET R now k) (\<lambda>h.
     case h ''hash'' of
       None \<Rightarrow> ok OtpNotFound
     | Some storedHash \<Rightarrow>
         let attempts = attempts_of h in
         if attempts \<ge> maxAttempts then andThen (DEL R k) (\<lambda>_. ok OtpLocked)
         else if storedHash = codeHash then andThen (DEL R k) (\<lambda>_. ok OtpOk)
         else if attempts + 1 \<ge> maxAttempts then andThen (DEL R k) (\<lambda>_. ok OtpLocked)
         else andThen (HSET R now k [''attempts'' \<mapsto> show_int (attempts + 1)]) (\<lambda>_. ok OtpWrong))"

definition otp_verify :: "'k redis \<Rightarrow> hash \<Rightarrow> otp_config \<Rightarrow> 'k world env \<Rightarrow> string \<Rightarrow> string \<Rightarrow> ('k world, unit) op" where
  "otp_verify R sha cfg E phone code =
     (let l = (''otp.verify'', 0) in
      andThen (call E l (on_kv (verifyOTPScript R (at_ms E l) (phoneKey sha ''otp:code'' phone) (HashOTP sha code) (otp_MaxAttempts cfg))))
        (\<lambda>result. case result of OtpOk \<Rightarrow> ok () | OtpLocked \<Rightarrow> fail errOTPLocked | _ \<Rightarrow> fail errOTPNotFound))"

section \<open>Attempts against one challenge\<close>

text \<open>
  Verify attempts on a key at given times, each after whatever other requests did to the server
  in the meantime.
\<close>

type_synonym 'k attempt = "('k \<Rightarrow> 'k) \<times> msec \<times> string"

fun verify_all :: "'k redis \<Rightarrow> string \<Rightarrow> int \<Rightarrow> 'k attempt list \<Rightarrow> 'k \<Rightarrow> (err + otp_result) list" where
  "verify_all R k maxAttempts [] s = []"
| "verify_all R k maxAttempts ((other, now, h) # as) s =
     (let (r, s') = run_state (verifyOTPScript R now k h maxAttempts) (other s)
      in r # verify_all R k maxAttempts as s')"

text \<open>The others leave the key alone; the clock does not run backwards.\<close>

definition leaves :: "'k redis \<Rightarrow> string \<Rightarrow> ('k \<Rightarrow> 'k) \<Rightarrow> bool" where
  "leaves R k f \<longleftrightarrow> (\<forall>s now. rd_read R (f s) now k = rd_read R s now k)"

fun in_order :: "msec \<Rightarrow> 'k attempt list \<Rightarrow> bool" where
  "in_order t [] = True"
| "in_order t ((_, now, _) # as) = (t \<le> now \<and> in_order now as)"

text \<open>The challenge of code hash \<open>c\<close> after \<open>n\<close> wrong attempts, or already expired.\<close>

definition challenge :: "'k redis \<Rightarrow> string \<Rightarrow> string \<Rightarrow> int \<Rightarrow> msec \<Rightarrow> 'k \<Rightarrow> bool" where
  "challenge R k c n t s \<longleftrightarrow>
     rd_read R s t k = None \<or>
     (\<exists>h e. rd_read R s t k = Some (RHash h, e) \<and> h ''hash'' = Some c \<and> h ''attempts'' = Some (show_int n))"

lemma show_int_0: "show_int 0 = ''0''"
  by (simp add: show_int_def show_nat.simps digit_char_def char_of_def bit_Suc_0_iff)

lemma attempts_of_show: "h ''attempts'' = Some (show_int n) \<Longrightarrow> in_i64 n \<Longrightarrow> attempts_of h = n"
  by (simp add: attempts_of_def parse_show_int)

context redis_store
begin

lemma gone_verify:
  assumes "rd_read R s t k = None"
  shows "run_state (verifyOTPScript R t k h maxA) s = (Inr OtpNotFound, s)"
  using assms by (simp add: verifyOTPScript_def run_andThen HMGET_def)

lemma gone_all:
  assumes "rd_read R s t k = None" "in_order t as" "list_all (\<lambda>a. leaves R k (fst a)) as"
  shows "verify_all R k maxA as s = replicate (length as) (Inr OtpNotFound)"
  using assms
proof (induction as arbitrary: s t)
  case (Cons a as)
  obtain f now h where a: "a = (f, now, h)" by (cases a)
  with Cons.prems have "rd_read R (f s) now k = None"
    by (auto simp: leaves_def intro: absent_later)
  with a Cons.prems Cons.IH [of "f s" now] show ?case by (simp add: gone_verify)
qed simp

lemma verify_challenge:
  assumes "challenge R k c n t s" "0 \<le> n" "n < maxA" "in_i64 maxA"
  obtains (gone) "rd_read R s t k = None"
  | (right) "h = c" "fst (run_state (verifyOTPScript R t k h maxA) s) = Inr OtpOk"
      "rd_read R (snd (run_state (verifyOTPScript R t k h maxA) s)) t k = None"
  | (locked) "h \<noteq> c" "n + 1 \<ge> maxA" "fst (run_state (verifyOTPScript R t k h maxA) s) = Inr OtpLocked"
      "rd_read R (snd (run_state (verifyOTPScript R t k h maxA) s)) t k = None"
  | (wrong) "h \<noteq> c" "n + 1 < maxA" "fst (run_state (verifyOTPScript R t k h maxA) s) = Inr OtpWrong"
      "challenge R k c (n + 1) t (snd (run_state (verifyOTPScript R t k h maxA) s))"
proof (cases "rd_read R s t k")
  case (Some ve)
  then obtain m e where m: "rd_read R s t k = Some (RHash m, e)" "m ''hash'' = Some c" "m ''attempts'' = Some (show_int n)"
    using assms(1) by (auto simp: challenge_def)
  have e: "unexpired t e" using read_unexpired [OF m(1)] .
  have "in_i64 n" using assms(2-4) by (simp add: in_i64_def)
  then have n: "attempts_of m = n" by (rule attempts_of_show [of m n, OF m(3)])
  note defs = verifyOTPScript_def run_andThen HMGET_def HSET_def m n Let_def
  consider "h = c" | "h \<noteq> c" "n + 1 \<ge> maxA" | "h \<noteq> c" "n + 1 < maxA" by fastforce
  then show thesis
  proof cases
    case 1
    with assms(3) show thesis by (intro right) (simp_all add: defs)
  next
    case 2
    with assms(3) show thesis by (intro locked) (simp_all add: defs)
  next
    case 3
    with assms(3) e show thesis by (intro wrong) (simp_all add: defs challenge_def)
  qed
qed (rule gone)

lemma challenge_later: "challenge R k c n t s \<Longrightarrow> leaves R k f \<Longrightarrow> t \<le> t' \<Longrightarrow> challenge R k c n t' (f s)"
  unfolding challenge_def leaves_def
  by (auto simp: read_later [of t t'] split: option.split if_splits prod.split)

text \<open>How a sequence of attempts can go: wrong ones, then at most one success or a lock, then nothing.\<close>

lemma attempts_shape:
  assumes "challenge R k c n t s" "0 \<le> n" "n < maxA" "in_i64 maxA" "in_order t as"
    "list_all (\<lambda>a. leaves R k (fst a)) as"
  shows "\<exists>i rest. verify_all R k maxA as s =
       replicate i (Inr OtpWrong) @ rest @ replicate (length as - i - length rest) (Inr OtpNotFound) \<and>
     i + length rest \<le> length as \<and> n + int i < maxA \<and> (rest = [] \<or> rest = [Inr OtpLocked] \<or> rest = [Inr OtpOk] \<and> snd (snd (as ! i)) = c)"
  using assms
proof (induction as arbitrary: n t s)
  case Nil
  then show ?case by (intro exI [of _ 0] exI [of _ "[]"]) simp
next
  case (Cons a as)
  obtain f now h where a: "a = (f, now, h)" by (cases a)
  let ?r = "run_state (verifyOTPScript R now k h maxA) (f s)"
  have ch: "challenge R k c n now (f s)" using Cons.prems a by (auto intro: challenge_later)
  from Cons.prems a have ord: "in_order now as" and lv: "list_all (\<lambda>a. leaves R k (fst a)) as" by simp_all
  have run: "verify_all R k maxA (a # as) s = fst ?r # verify_all R k maxA as (snd ?r)"
    by (simp add: a split: prod.split)
  from ch Cons.prems(2-4) show ?case
  proof (cases rule: verify_challenge [where h = h])
    case gone
    then have "verify_all R k maxA (a # as) s = replicate (Suc (length as)) (Inr OtpNotFound)"
      using gone_all [OF gone ord lv] unfolding run by (simp add: gone_verify)
    with Cons.prems(3) show ?thesis by (intro exI [of _ 0] exI [of _ "[]"]) simp
  next
    case right
    with gone_all [OF right(3) ord lv] Cons.prems(3) show ?thesis
      unfolding run by (intro exI [of _ 0] exI [of _ "[Inr OtpOk]"]) (simp add: a)
  next
    case locked
    with gone_all [OF locked(4) ord lv] Cons.prems(3) show ?thesis
      unfolding run by (intro exI [of _ 0] exI [of _ "[Inr OtpLocked]"]) simp
  next
    case wrong
    have "0 \<le> n + 1" using Cons.prems(2) by simp
    from Cons.IH [OF wrong(4) this wrong(2) Cons.prems(4) ord lv] obtain i rest where
      "verify_all R k maxA as (snd ?r) =
         replicate i (Inr OtpWrong) @ rest @ replicate (length as - i - length rest) (Inr OtpNotFound)"
      "i + length rest \<le> length as" "n + 1 + int i < maxA"
      "rest = [] \<or> rest = [Inr OtpLocked] \<or> rest = [Inr OtpOk] \<and> snd (snd (as ! i)) = c"
      by blast
    with wrong show ?thesis
      unfolding run by (intro exI [of _ "Suc i"] exI [of _ rest]) auto
  qed
qed

lemma stored_challenge:
  assumes "run_state (storeChallenge R t k c ttl) s = (Inr (), s')" "0 < ttl"
  shows "challenge R k c 0 t s'"
proof -
  let ?px = "max 1 (seconds ttl) * 1000"
  have "0 < ?px" by (simp add: zero_less_mult_iff less_max_iff_disj)
  then show ?thesis
    using assms
    by (auto simp: storeChallenge_def run_andThen HSET_def PEXPIRE_def challenge_def show_int_0
        dest!: read_unexpired split: option.splits redis_value.splits prod.splits)
qed

end

end
