(* ===== verification/Qr_Store.thy ===== *)
theory Qr_Store
  imports Otp_Store
begin

text \<open>
  \<open>internal/service/qr_store.go\<close>: one-time QR tokens in Redis. A token is active under one key,
  moves to a claim key while it is being resolved, and is then finalized or released. The life
  of one token is specified as a small state machine (\<open>token_state\<close>) that the store refines.
\<close>

section \<open>The store\<close>

record qr_config =
  qr_TTL :: duration
  qr_IssueCooldown :: duration
  qr_ConsumeCooldown :: duration

definition qrClaimTTL :: duration where
  "qrClaimTTL = 30000000000"

definition qrPayloadVersion :: string where
  "qrPayloadVersion = ''v1.''"

definition qrTokenKey :: "string \<Rightarrow> string" where
  "qrTokenKey h = ''qr:token:'' @ h"

definition qrIssueCooldownKey :: "int \<Rightarrow> string" where
  "qrIssueCooldownKey acc = ''qr:issue-cooldown:'' @ show_int acc"

definition qrConsumeCooldownKey :: "hash \<Rightarrow> string \<Rightarrow> string" where
  "qrConsumeCooldownKey sha who = ''qr:consume-cooldown:'' @ HashOpaqueToken sha who"

definition qrClaimKey :: "string \<Rightarrow> string" where
  "qrClaimKey h = ''qr:claim:'' @ h"

text \<open>\<open>TTL\<close> answers in seconds, rounded; the client returns -1 and -2 as they are.\<close>

definition TTL :: "'k redis \<Rightarrow> msec \<Rightarrow> string \<Rightarrow> ('k, duration) op" where
  "TTL R now k = andThen (PTTL R now k) (\<lambda>px. ok (if px < 0 then px else (px + 500) div 1000 * 1000000000))"

text \<open>
  \<open>issue\<close> answers a payload with its expiry, or the cooldown error with the time to wait. The
  deferred release of the cooldown tests the \<open>err\<close> of the \<open>SetNX\<close> in its own block, which is nil
  there, not the function's result; so it never runs, and a failure keeps the cooldown.
\<close>

datatype qr_issued = Issued string time | IssueCooldown duration

definition qr_issue ::
    "'k redis \<Rightarrow> hash \<Rightarrow> qr_config \<Rightarrow> 'k world env \<Rightarrow> int \<Rightarrow> nat list option \<Rightarrow> ('k world, qr_issued) op" where
  "qr_issue R sha cfg E acc drawn =
     (let k = qrIssueCooldownKey acc;
          mint =
            (case GenerateRefreshToken sha drawn of
               None \<Rightarrow> fail ErrInternal
             | Some (token, h) \<Rightarrow>
                 let l = (''qr.set'', 0) in
                 andThen (call E l (on_kv (SET R (at_ms E l) (qrTokenKey h) (show_int acc) (qr_TTL cfg)))) (\<lambda>_.
                 ok (Issued (qrPayloadVersion @ token) (env_now E l + qr_TTL cfg))))
      in if qr_IssueCooldown cfg > 0 then
           andThen (call E (''qr.cooldown'', 0) (on_kv (SETNX R (at_ms E (''qr.cooldown'', 0)) k ''1'' (qr_IssueCooldown cfg))))
             (\<lambda>acquired.
           if acquired then mint
           else andThen (call E (''qr.ttl'', 0) (on_kv (TTL R (at_ms E (''qr.ttl'', 0)) k))) (\<lambda>ttl. ok (IssueCooldown ttl)))
         else mint)"

text \<open>\<open>None\<close>: go ahead; \<open>Some ttl\<close>: \<open>errQRConsumeCooldown\<close> with the time to wait.\<close>

definition checkConsumeCooldown ::
    "'k redis \<Rightarrow> hash \<Rightarrow> qr_config \<Rightarrow> 'k world env \<Rightarrow> string \<Rightarrow> ('k world, duration option) op" where
  "checkConsumeCooldown R sha cfg E who =
     (if qr_ConsumeCooldown cfg \<le> 0 then ok None
      else
        let k = qrConsumeCooldownKey sha who in
        andThen (call E (''qr.consume'', 0) (on_kv (SETNX R (at_ms E (''qr.consume'', 0)) k ''1'' (qr_ConsumeCooldown cfg))))
          (\<lambda>acquired.
        if acquired then ok None
        else andThen (call E (''qr.consume'', 1) (on_kv (TTL R (at_ms E (''qr.consume'', 1)) k))) (\<lambda>ttl. ok (Some ttl))))"

definition parseQRPayload :: "string \<Rightarrow> string option" where
  "parseQRPayload payload =
     (if length payload \<le> length qrPayloadVersion \<or> take (length qrPayloadVersion) payload \<noteq> qrPayloadVersion then None
      else Some (drop (length qrPayloadVersion) payload))"

definition qrClaimScript :: "'k redis \<Rightarrow> msec \<Rightarrow> string \<Rightarrow> string \<Rightarrow> msec \<Rightarrow> ('k, string option) op" where
  "qrClaimScript R now tokenKey claimKey px =
     andThen (GET R now tokenKey) (\<lambda>val.
     case val of
       None \<Rightarrow> ok None
     | Some v \<Rightarrow> andThen (DEL R tokenKey) (\<lambda>_. andThen (SET_PX R now claimKey v px) (\<lambda>_. ok (Some v))))"

definition qrReleaseScript :: "'k redis \<Rightarrow> msec \<Rightarrow> string \<Rightarrow> string \<Rightarrow> msec \<Rightarrow> ('k, string option) op" where
  "qrReleaseScript R now claimKey tokenKey fallback =
     andThen (GET R now claimKey) (\<lambda>val.
     case val of
       None \<Rightarrow> ok None
     | Some v \<Rightarrow>
         andThen (PTTL R now claimKey) (\<lambda>ttl.
         andThen (DEL R claimKey) (\<lambda>_.
         andThen (SET_PX R now tokenKey v (if ttl \<le> 0 then fallback else ttl)) (\<lambda>_. ok (Some v)))))"

definition qr_claim :: "'k redis \<Rightarrow> hash \<Rightarrow> 'k world env \<Rightarrow> string \<Rightarrow> ('k world, int \<times> string) op" where
  "qr_claim R sha E payload =
     (case parseQRPayload payload of
        None \<Rightarrow> fail errQRMalformed
      | Some token \<Rightarrow>
          let h = HashOpaqueToken sha token; l = (''qr.claim'', 0) in
          andThen (call E l (on_kv (qrClaimScript R (at_ms E l) (qrTokenKey h) (qrClaimKey h) (msec_of qrClaimTTL)))) (\<lambda>r.
          case r of
            None \<Rightarrow> fail errQRGone
          | Some v \<Rightarrow> (case parse_int v of None \<Rightarrow> fail ErrInternal | Some i \<Rightarrow> ok (i, h))))"

definition qr_finalize :: "'k redis \<Rightarrow> 'k world env \<Rightarrow> string \<Rightarrow> ('k world, unit) op" where
  "qr_finalize R E h = call E (''qr.finalize'', 0) (on_kv (DEL R (qrClaimKey h)))"

definition qr_release :: "'k redis \<Rightarrow> 'k world env \<Rightarrow> string \<Rightarrow> ('k world, unit) op" where
  "qr_release R E h =
     (let l = (''qr.release'', 0) in
      andThen (call E l (on_kv (qrReleaseScript R (at_ms E l) (qrClaimKey h) (qrTokenKey h) (msec_of qrClaimTTL))))
        (\<lambda>_. ok ()))"

section \<open>The life of a token\<close>

text \<open>Active or claimed until a time, or gone; a claim of an active token succeeds.\<close>

datatype token_state = Active msec | Claimed msec | Gone

datatype 'k token_event =
    Claim msec
  | Release msec
  | Finalize
  | Others "'k \<Rightarrow> 'k" msec

text \<open>The specification: what an event answers (whether it found the token) and does.\<close>

fun token_step :: "'k token_event \<Rightarrow> token_state \<Rightarrow> bool \<times> token_state" where
  "token_step (Claim now) (Active e) = (if now < e then (True, Claimed (now + 30000)) else (False, Gone))"
| "token_step (Claim now) st = (False, st)"
| "token_step (Release now) (Claimed e) = (if now < e then (True, Active e) else (False, Gone))"
| "token_step (Release now) st = (False, st)"
| "token_step Finalize (Claimed e) = (False, Gone)"
| "token_step Finalize st = (False, st)"
| "token_step (Others f now) st = (False, st)"

fun token_run :: "'k token_event list \<Rightarrow> token_state \<Rightarrow> bool list" where
  "token_run [] st = []"
| "token_run (ev # evs) st = (let (b, st') = token_step ev st in b # token_run evs st')"

text \<open>The same events on the server.\<close>

fun store_step :: "'k redis \<Rightarrow> string \<Rightarrow> 'k token_event \<Rightarrow> 'k \<Rightarrow> (err + bool) \<times> 'k" where
  "store_step R h (Claim now) s =
     run_state (andThen (qrClaimScript R now (qrTokenKey h) (qrClaimKey h) (msec_of qrClaimTTL)) (\<lambda>r. ok (r \<noteq> None))) s"
| "store_step R h (Release now) s =
     run_state (andThen (qrReleaseScript R now (qrClaimKey h) (qrTokenKey h) (msec_of qrClaimTTL)) (\<lambda>r. ok (r \<noteq> None))) s"
| "store_step R h Finalize s = run_state (andThen (DEL R (qrClaimKey h)) (\<lambda>_. ok False)) s"
| "store_step R h (Others f now) s = (Inr False, f s)"

fun store_run :: "'k redis \<Rightarrow> string \<Rightarrow> 'k token_event list \<Rightarrow> 'k \<Rightarrow> (err + bool) list" where
  "store_run R h [] s = []"
| "store_run R h (ev # evs) s = (let (r, s') = store_step R h ev s in r # store_run R h evs s')"

text \<open>Events in the order of the clock, between which others leave both keys of the token alone.\<close>

fun event_ok :: "'k redis \<Rightarrow> string \<Rightarrow> 'k token_event \<Rightarrow> bool" where
  "event_ok R h (Others f now) = (leaves R (qrTokenKey h) f \<and> leaves R (qrClaimKey h) f)"
| "event_ok R h _ = True"

fun event_time :: "msec \<Rightarrow> 'k token_event \<Rightarrow> msec" where
  "event_time t (Claim now) = now"
| "event_time t (Release now) = now"
| "event_time t Finalize = t"
| "event_time t (Others f now) = now"

fun events_ok :: "'k redis \<Rightarrow> string \<Rightarrow> msec \<Rightarrow> 'k token_event list \<Rightarrow> bool" where
  "events_ok R h t [] = True"
| "events_ok R h t (ev # evs) = (event_ok R h ev \<and> t \<le> event_time t ev \<and> events_ok R h (event_time t ev) evs)"

text \<open>The server's keys at time \<open>t\<close> that stand for a token state.\<close>

definition represents :: "'k redis \<Rightarrow> string \<Rightarrow> string \<Rightarrow> msec \<Rightarrow> token_state \<Rightarrow> 'k \<Rightarrow> bool" where
  "represents R h v t st s \<longleftrightarrow>
     rd_read R s t (qrTokenKey h) = (case st of Active e \<Rightarrow> if t < e then Some (RString v, Some e) else None | _ \<Rightarrow> None) \<and>
     rd_read R s t (qrClaimKey h) = (case st of Claimed e \<Rightarrow> if t < e then Some (RString v, Some e) else None | _ \<Rightarrow> None)"

lemma keys_distinct [simp]: "qrTokenKey h \<noteq> qrClaimKey g" "qrClaimKey g \<noteq> qrTokenKey h"
  by (simp_all add: qrTokenKey_def qrClaimKey_def)

lemma claim_msec [simp]: "msec_of qrClaimTTL = 30000"
  by (simp add: msec_of_def qrClaimTTL_def)

context redis_store
begin

lemma represents_later:
  assumes "represents R h v t st s" "t \<le> now"
  shows "represents R h v now st s"
  using assms read_later [OF assms(2), of s "qrTokenKey h"] read_later [OF assms(2), of s "qrClaimKey h"]
  by (cases st) (auto simp: represents_def)

lemma store_refines:
  assumes "represents R h v t st s" "event_ok R h ev" "t \<le> event_time t ev"
  shows "fst (store_step R h ev s) = Inr (fst (token_step ev st)) \<and>
         represents R h v (event_time t ev) (snd (token_step ev st)) (snd (store_step R h ev s))"
proof -
  have "represents R h v (event_time t ev) st s" using assms(1,3) by (rule represents_later)
  with assms(2) show ?thesis
    by (cases ev; cases st)
       (auto simp: represents_def qrClaimScript_def qrReleaseScript_def run_andThen GET_def SET_PX_def PTTL_def leaves_def
          read_write read_delete)
qed

lemma store_run_refines:
  assumes "represents R h v t st s" "events_ok R h t evs"
  shows "store_run R h evs s = map Inr (token_run evs st)"
  using assms
proof (induction evs arbitrary: t st s)
  case (Cons ev evs)
  from store_refines [OF Cons.prems(1)] Cons.prems(2)
  have "fst (store_step R h ev s) = Inr (fst (token_step ev st))"
    "represents R h v (event_time t ev) (snd (token_step ev st)) (snd (store_step R h ev s))" by auto
  with Cons.IH [OF this(2)] Cons.prems(2) show ?case by (simp split: prod.split) (metis fst_conv snd_conv)
qed simp

end

section \<open>Counting on the specification\<close>

fun is_claim :: "'k token_event \<Rightarrow> bool" where
  "is_claim (Claim _) = True"
| "is_claim _ = False"

fun is_release :: "'k token_event \<Rightarrow> bool" where
  "is_release (Release _) = True"
| "is_release _ = False"

text \<open>How many events of a kind answered that they found the token.\<close>

definition hits :: "('k token_event \<Rightarrow> bool) \<Rightarrow> 'k token_event list \<Rightarrow> bool list \<Rightarrow> nat" where
  "hits P evs bs = length (List.filter (\<lambda>(ev, b). P ev \<and> b) (zip evs bs))"

lemma hits_simps [simp]:
  "hits P [] bs = 0"
  "hits P (ev # evs) (b # bs) = (if P ev \<and> b then Suc (hits P evs bs) else hits P evs bs)"
  by (simp_all add: hits_def)

lemma claims_releases:
  "hits is_claim evs (token_run evs st) \<le> hits is_release evs (token_run evs st) + (case st of Active _ \<Rightarrow> 1 | _ \<Rightarrow> 0)"
proof (induction evs arbitrary: st)
  case (Cons ev evs)
  show ?case
    using Cons [of "snd (token_step ev st)"]
    by (cases ev; cases st) (auto simp: Let_def split: if_splits)
qed simp

lemma gone_stays: "token_run evs Gone = replicate (length evs) False"
proof (induction evs)
  case (Cons ev evs)
  then show ?case by (cases ev) (simp_all add: Let_def)
qed simp

end
