(* ===== verification/Rate_Limit.thy ===== *)
theory Rate_Limit
  imports Otp_Store
begin

text \<open>
  \<open>internal/ratelimit\<close>: the fixed-window counter in Redis (\<open>limiter.go\<close>) and the middleware that
  applies a profile's rules to a request (\<open>middleware.go\<close>).
\<close>

section \<open>The limiter\<close>

text \<open>\<open>checkAndIncrScript\<close>: the count of this request and what is left of the window.\<close>

definition checkAndIncr :: "'k redis \<Rightarrow> msec \<Rightarrow> string \<Rightarrow> msec \<Rightarrow> ('k, int \<times> msec) op" where
  "checkAndIncr R now k windowMs =
     andThen (INCR R now k) (\<lambda>n.
     andThen (PTTL R now k) (\<lambda>ttl.
     if ttl < 0 then andThen (PEXPIRE R now k windowMs) (\<lambda>_. ok (n, windowMs)) else ok (n, ttl)))"

text \<open>\<open>None\<close>: allowed; \<open>Some d\<close>: refused, retry after \<open>d\<close>.\<close>

definition Allow :: "'k redis \<Rightarrow> 'k world env \<Rightarrow> site \<Rightarrow> string \<Rightarrow> int \<Rightarrow> duration \<Rightarrow> ('k world, duration option) op" where
  "Allow R E l k limit window =
     andThen (call E l (on_kv (checkAndIncr R (at_ms E l) k (msec_of window)))) (\<lambda>(count, ttlMs).
     ok (if count > limit then Some (ttlMs * 1000000) else None))"

section \<open>The middleware\<close>

text \<open>A rule; its key function answers \<open>None\<close> where it does not apply to the request.\<close>

record 'req rule =
  rule_Name :: string
  rule_Limit :: int
  rule_Window :: duration
  rule_KeyFunc :: "'req \<Rightarrow> string option"

datatype limit_answer = Pass | TooManyRequests int | ServiceUnavailable

text \<open>\<open>int(retryAfter.Round(time.Second) / time.Second)\<close>, at least one.\<close>

definition retrySeconds :: "duration \<Rightarrow> int" where
  "retrySeconds d =
     (let s = (if d < 0 then - ((- d + 500000000) div 1000000000) else (d + 500000000) div 1000000000)
      in if s < 1 then 1 else s)"

definition rateLimitKey :: "string \<Rightarrow> 'req rule \<Rightarrow> string \<Rightarrow> string" where
  "rateLimitKey profile r raw = ''ratelimit:'' @ profile @ '':'' @ rule_Name r @ '':'' @ raw"

fun Wrap :: "'k redis \<Rightarrow> 'k world env \<Rightarrow> nat \<Rightarrow> string \<Rightarrow> 'req rule list \<Rightarrow> 'req \<Rightarrow> ('k world, limit_answer) op" where
  "Wrap R E i profile [] req = ok Pass"
| "Wrap R E i profile (r # rs) req =
     (case rule_KeyFunc r req of
        None \<Rightarrow> Wrap R E (Suc i) profile rs req
      | Some raw \<Rightarrow>
          State_Monad.bind (Allow R E (profile, i) (rateLimitKey profile r raw) (rule_Limit r) (rule_Window r)) (\<lambda>a.
          case a of
            Inl _ \<Rightarrow> ok ServiceUnavailable
          | Inr (Some retryAfter) \<Rightarrow> ok (TooManyRequests (retrySeconds retryAfter))
          | Inr None \<Rightarrow> Wrap R E (Suc i) profile rs req))"

section \<open>A window of requests on one key\<close>

text \<open>A request on the key; what ran since the one before, and its time.\<close>

type_synonym 'k arrival = "('k world \<Rightarrow> 'k world) \<times> time"

definition arriving :: "'k arrival \<Rightarrow> 'k world env" where
  "arriving a = (quiet (snd a))\<lparr>env_other := \<lambda>_. fst a\<rparr>"

fun allow_all :: "'k redis \<Rightarrow> string \<Rightarrow> int \<Rightarrow> duration \<Rightarrow> 'k arrival list \<Rightarrow> 'k world \<Rightarrow> (err + duration option) list" where
  "allow_all R k limit window [] w = []"
| "allow_all R k limit window (a # as) w =
     (case run_state (Allow R (arriving a) (''limit'', 0) k limit window) w of
        (r, w') \<Rightarrow> r # allow_all R k limit window as w')"

definition leaves_key :: "'k redis \<Rightarrow> string \<Rightarrow> ('k world \<Rightarrow> 'k world) \<Rightarrow> bool" where
  "leaves_key R k f \<longleftrightarrow> (\<forall>w now. rd_read R (w_kv (f w)) now k = rd_read R (w_kv w) now k)"

text \<open>Requests in the order of the clock, all before \<open>b\<close>, between which others leave the key alone.\<close>

fun within_window :: "'k redis \<Rightarrow> string \<Rightarrow> msec \<Rightarrow> msec \<Rightarrow> 'k arrival list \<Rightarrow> bool" where
  "within_window R k t b [] = True"
| "within_window R k t b (a # as) =
     (t \<le> msec_of (snd a) \<and> msec_of (snd a) < b \<and> leaves_key R k (fst a) \<and> within_window R k (msec_of (snd a)) b as)"

text \<open>The first \<open>limit\<close> are admitted, the others told to wait for the end of the window, \<open>b\<close>.\<close>

definition verdict :: "int \<Rightarrow> msec \<Rightarrow> nat \<Rightarrow> time \<Rightarrow> duration option" where
  "verdict limit b i now = (if int i < limit then None else Some ((b - msec_of now) * 1000000))"

definition counted :: "'k redis \<Rightarrow> string \<Rightarrow> msec \<Rightarrow> msec \<Rightarrow> int \<Rightarrow> 'k \<Rightarrow> bool" where
  "counted R k t b n s \<longleftrightarrow> rd_read R s t k = Some (RString (show_int n), Some b)"

context redis_store
begin

lemma first_count:
  assumes "rd_read R s now k = None" "0 < w"
  shows "\<exists>s'. run_state (checkAndIncr R now k w) s = (Inr (1, w), s') \<and> counted R k now (now + w) 1 s'"
  using assms by (simp add: checkAndIncr_def run_andThen INCR_def PTTL_def PEXPIRE_def counted_def)

lemma next_count:
  assumes "counted R k t b n s" "t \<le> now" "now < b" "0 \<le> n" "in_i64 (n + 1)"
  shows "\<exists>s'. run_state (checkAndIncr R now k w) s = (Inr (n + 1, b - now), s') \<and> counted R k now b (n + 1) s'"
proof -
  have "rd_read R s now k = Some (RString (show_int n), Some b)"
    using assms(1-3) present_later [of s t k "RString (show_int n)" "Some b" now] by (simp add: counted_def)
  moreover have "in_i64 n" using assms(4,5) by (simp add: in_i64_def)
  ultimately show ?thesis
    using assms(3,5) by (simp add: checkAndIncr_def run_andThen INCR_def PTTL_def counted_def parse_show_int)
qed

lemma Allow_counted:
  assumes "run_state (checkAndIncr R (msec_of (snd a)) k (msec_of window)) (w_kv (fst a w)) = (Inr (1 + int i, b - msec_of (snd a)), s')"
  shows "run_state (Allow R (arriving a) l k limit window) w = (Inr (verdict limit b i (snd a)), (fst a w)\<lparr>w_kv := s'\<rparr>)"
  using assms by (simp add: Allow_def run_andThen run_call run_on_kv arriving_def at_ms_def verdict_def)

lemma allowed_from:
  assumes "counted R k t b (int i) (w_kv w)" "within_window R k t b as" "in_i64 (int i + int (length as))"
  shows "allow_all R k limit window as w = map2 (\<lambda>j a. Inr (verdict limit b j (snd a))) [i..<i + length as] as"
  using assms
proof (induction as arbitrary: t i w)
  case (Cons a as)
  let ?now = "msec_of (snd a)"
  from Cons.prems(1,2) have "counted R k t b (int i) (w_kv (fst a w))" by (simp add: counted_def leaves_key_def)
  moreover have "in_i64 (int i + 1)" using Cons.prems(3) by (simp add: in_i64_def)
  ultimately obtain s' where s': "run_state (checkAndIncr R ?now k (msec_of window)) (w_kv (fst a w)) = (Inr (int i + 1, b - ?now), s')"
      "counted R k ?now b (int i + 1) s'"
    using next_count [of k t b "int i" "w_kv (fst a w)" ?now "msec_of window"] Cons.prems(2) by auto
  have "run_state (Allow R (arriving a) (''limit'', 0) k limit window) w = (Inr (verdict limit b i (snd a)), (fst a w)\<lparr>w_kv := s'\<rparr>)"
    by (rule Allow_counted) (use s'(1) in \<open>simp add: add.commute\<close>)
  moreover have "allow_all R k limit window as ((fst a w)\<lparr>w_kv := s'\<rparr>) =
      map2 (\<lambda>j a. Inr (verdict limit b j (snd a))) [Suc i..<Suc i + length as] as"
    using Cons.prems(2,3) s'(2) by (intro Cons.IH [of ?now]) (simp_all add: ac_simps)
  moreover have "[i..<i + length (a # as)] = i # [Suc i..<Suc i + length as]"
    by (simp add: upt_conv_Cons del: upt_Suc)
  ultimately show ?case by (simp del: upt_Suc)
qed simp

end

end
