(* ===== verification/Token_Theorems.thy ===== *)
theory Token_Theorems
  imports Qr_Store Rate_Limit
begin

text \<open>
  The properties of the short-lived tokens: OTP challenges, QR tokens and request counters in
  Redis, access tokens and API keys.
\<close>

text \<open>
  C16: an OTP code can be guessed at most as often as configured. Against one stored challenge,
  whatever sequence of codes is tried and whatever others do to other keys, at most
  \<open>MaxAttempts\<close> tries are compared with the code, at most one succeeds, and only with the
  stored code's hash; every other try finds no challenge.
\<close>

theorem otp_guesses_bounded:
  assumes "redis_store R" "run_state (storeChallenge R t k c ttl) s0 = (Inr (), s)" "0 < ttl"
    and "0 < maxA" "in_i64 maxA" "in_order t as" "list_all (\<lambda>a. leaves R k (fst a)) as"
  shows "int (length (List.filter (\<lambda>r. r \<noteq> Inr OtpNotFound) (verify_all R k maxA as s))) \<le> maxA \<and>
         length (List.filter (\<lambda>r. r = Inr OtpOk) (verify_all R k maxA as s)) \<le> 1 \<and>
         (\<forall>i<length as. verify_all R k maxA as s ! i = Inr OtpOk \<longrightarrow> snd (snd (as ! i)) = c)"
proof -
  have "challenge R k c 0 t s" by (rule redis_store.stored_challenge [OF assms(1-3)])
  from redis_store.attempts_shape [OF assms(1) this _ _ assms(5-7)] assms(4)
  obtain i rest where run: "verify_all R k maxA as s =
       replicate i (Inr OtpWrong) @ rest @ replicate (length as - i - length rest) (Inr OtpNotFound)"
    and i: "i + length rest \<le> length as" "int i < maxA"
    and rest: "rest = [] \<or> rest = [Inr OtpLocked] \<or> rest = [Inr OtpOk] \<and> snd (snd (as ! i)) = c"
    by auto
  have "j = i \<and> rest = [Inr OtpOk]" if "j < length as" "verify_all R k maxA as s ! j = Inr OtpOk" for j
    using that rest i(1) unfolding run by (auto simp: nth_append split: if_splits)
  with rest have "\<forall>j<length as. verify_all R k maxA as s ! j = Inr OtpOk \<longrightarrow> snd (snd (as ! j)) = c" by blast
  moreover have "int (length (List.filter (\<lambda>r. r \<noteq> Inr OtpNotFound) (verify_all R k maxA as s))) \<le> maxA"
    using rest i(2) unfolding run by auto
  moreover have "length (List.filter (\<lambda>r. r = Inr OtpOk) (verify_all R k maxA as s)) \<le> 1"
    using rest unfolding run by auto
  ultimately show ?thesis by blast
qed

lemmas otp_eval = storeChallenge_def verifyOTPScript_def HSET_def HMGET_def PEXPIRE_def run_andThen kv_def unexpired_def
  seconds_def attempts_of_def

theorem otp_guesses_bounded_witness:
  "\<exists>s. run_state (storeChallenge kv 0 ''otp:code:x'' ''c1'' 300000000000) Map.empty = (Inr (), s) \<and>
     int (length (List.filter (\<lambda>r. r \<noteq> Inr OtpNotFound)
       (verify_all kv ''otp:code:x'' 2 [(id, 1, ''c0''), (id, 2, ''c0''), (id, 3, ''c1'')] s))) \<le> 2"
proof -
  obtain s where 1: "run_state (storeChallenge kv 0 ''otp:code:x'' ''c1'' 300000000000) Map.empty = (Inr (), s)"
    by (simp add: otp_eval)
  have "int (length (List.filter (\<lambda>r. r \<noteq> Inr OtpNotFound)
       (verify_all kv ''otp:code:x'' 2 [(id, 1, ''c0''), (id, 2, ''c0''), (id, 3, ''c1'')] s))) \<le> 2"
    using otp_guesses_bounded [OF kv.redis_store_axioms 1, of 2 "[(id, 1, ''c0''), (id, 2, ''c0''), (id, 3, ''c1'')]"]
    by (simp add: in_i64_def leaves_def)
  with 1 show ?thesis by blast
qed

text \<open>
  C17: the QR store implements the life of a one-time token. From a stored token on, each claim,
  release and finalize in the order of the clock answers exactly as the state machine Active,
  Claimed, Gone does, whatever others do to other keys.
\<close>

theorem qr_store_refines_token:
  assumes "redis_store R" "run_state (SET R t (qrTokenKey h) v ttl) s0 = (Inr (), s)" "0 < ttl"
    and "rd_read R s0 t (qrClaimKey h) = None" "events_ok R h t evs"
  shows "store_run R h evs s = map Inr (token_run evs (Active (t + max 1 (msec_of ttl))))"
proof -
  have "s = rd_write R (qrTokenKey h) (RString v) (Some (t + max 1 (msec_of ttl))) s0"
    using assms(2,3) by (simp add: SET_def expiry_def)
  then have "represents R h v t (Active (t + max 1 (msec_of ttl))) s"
    using assms(4) by (auto simp: represents_def redis_store.read_write [OF assms(1)] less_max_iff_disj)
  then show ?thesis using assms(5) by (rule redis_store.store_run_refines [OF assms(1)])
qed

theorem qr_store_refines_token_witness:
  "\<exists>s. run_state (SET kv 0 (qrTokenKey ''h'') ''7'' 120000000000) Map.empty = (Inr (), s) \<and>
     store_run kv ''h'' [Claim 5, Claim 6, Release 7, Claim 8, Finalize, Claim 9] s =
       [Inr True, Inr False, Inr True, Inr True, Inr False, Inr False]"
proof -
  let ?evs = "[Claim 5, Claim 6, Release 7, Claim 8, Finalize, Claim 9] :: keyspace token_event list"
  obtain s where 1: "run_state (SET kv 0 (qrTokenKey ''h'') ''7'' 120000000000) Map.empty = (Inr (), s)"
    by (simp add: SET_def)
  have "store_run kv ''h'' ?evs s = map Inr (token_run ?evs (Active (0 + max 1 (msec_of 120000000000))))"
    by (rule qr_store_refines_token [OF kv.redis_store_axioms 1]) (simp_all add: kv_def)
  with 1 show ?thesis by (simp add: msec_of_def)
qed

text \<open>
  A QR token identifies its customer once. Of all claims of a stored token at most one more
  succeeds than there are successful releases, and after a claim and a finalize nothing finds
  it any more.
\<close>

theorem qr_token_used_once:
  assumes "redis_store R" "run_state (SET R t (qrTokenKey h) v ttl) s0 = (Inr (), s)" "0 < ttl"
    and "rd_read R s0 t (qrClaimKey h) = None" "events_ok R h t evs"
  shows "\<exists>bs. store_run R h evs s = map Inr bs \<and> hits is_claim evs bs \<le> Suc (hits is_release evs bs) \<and>
    (\<forall>now rest. evs = Claim now # Finalize # rest \<longrightarrow> list_all Not (tl bs))"
proof -
  let ?a = "Active (t + max 1 (msec_of ttl))"
  have "s = rd_write R (qrTokenKey h) (RString v) (Some (t + max 1 (msec_of ttl))) s0"
    using assms(2,3) by (simp add: SET_def expiry_def)
  then have "represents R h v t ?a s"
    using assms(4) by (auto simp: represents_def redis_store.read_write [OF assms(1)] less_max_iff_disj)
  then have run: "store_run R h evs s = map Inr (token_run evs ?a)"
    using assms(5) by (rule redis_store.store_run_refines [OF assms(1)])
  have "list_all Not (tl (token_run evs ?a))" if "evs = Claim now # Finalize # rest" for now rest
    using that gone_stays [of rest] by (simp add: list_all_iff)
  with run claims_releases [of evs ?a] show ?thesis by (intro exI [of _ "token_run evs ?a"]) simp
qed

theorem qr_token_used_once_witness:
  "\<exists>s bs. run_state (SET kv 0 (qrTokenKey ''h'') ''7'' 120000000000) Map.empty = (Inr (), s) \<and>
     store_run kv ''h'' [Claim 5, Claim 6] s = map Inr bs \<and> hits is_claim [Claim 5 :: keyspace token_event, Claim 6] bs \<le> 1"
proof -
  obtain s where 1: "run_state (SET kv 0 (qrTokenKey ''h'') ''7'' 120000000000) Map.empty = (Inr (), s)"
    by (simp add: SET_def)
  let ?evs = "[Claim 5, Claim 6] :: keyspace token_event list"
  have "\<exists>bs. store_run kv ''h'' ?evs s = map Inr bs \<and> hits is_claim ?evs bs \<le> Suc (hits is_release ?evs bs) \<and>
      (\<forall>now rest. ?evs = Claim now # Finalize # rest \<longrightarrow> list_all Not (tl bs))"
    by (rule qr_token_used_once [OF kv.redis_store_axioms 1]) (simp_all add: kv_def)
  then obtain bs where bs: "store_run kv ''h'' ?evs s = map Inr bs" "hits is_claim ?evs bs \<le> Suc (hits is_release ?evs bs)"
    by blast
  have "hits is_release ?evs bs = 0" by (cases bs; cases "tl bs") (auto simp: hits_def)
  with 1 bs show ?thesis by auto
qed

text \<open>
  A failed issue of a QR token locks the customer out. When the token cannot be generated,
  the call fails and the issue cooldown it acquired stays, so the next call within the
  cooldown is refused although no token was issued; the release the code defers tests a
  shadowed error and never runs.
\<close>

theorem failed_issue_keeps_cooldown:
  assumes "redis_store R" "rd_read R (w_kv w) (msec_of t) (qrIssueCooldownKey acc) = None"
    and "0 < qr_IssueCooldown cfg" "run_state (qr_issue R sha cfg (quiet t) acc None) w = (r, w')"
    and "t \<le> t'" "msec_of t' < msec_of t + max 1 (msec_of (qr_IssueCooldown cfg))"
  shows "r = Inl ErrInternal \<and>
    (\<exists>d. fst (run_state (qr_issue R sha cfg (quiet t') acc drawn) w') = Inr (IssueCooldown d))"
proof -
  let ?k = "qrIssueCooldownKey acc" and ?e = "msec_of t + max 1 (msec_of (qr_IssueCooldown cfg))"
  have w': "w' = w\<lparr>w_kv := rd_write R ?k (RString ''1'') (Some ?e) (w_kv w)\<rparr>" and r: "r = Inl ErrInternal"
    using assms(2-4)
    by (auto simp: qr_issue_def GenerateRefreshToken_def run_andThen run_call run_on_kv SETNX_def at_ms_def expiry_def Let_def)
  have "rd_read R (w_kv w') (msec_of t') ?k = Some (RString ''1'', Some ?e)"
    using assms(6) by (simp add: w' redis_store.read_write [OF assms(1)])
  then show ?thesis
    using r assms(3)
    by (simp add: qr_issue_def run_andThen run_call run_on_kv SETNX_def at_ms_def TTL_def PTTL_def Let_def)
qed

definition demo_qr :: qr_config where
  "demo_qr = \<lparr>qr_TTL = 120000000000, qr_IssueCooldown = 30000000000, qr_ConsumeCooldown = 1000000000\<rparr>"

definition empty_world :: "keyspace world" where
  "empty_world = \<lparr>w_db = empty_db, w_kv = Map.empty\<rparr>"

theorem failed_issue_keeps_cooldown_witness:
  "\<exists>d w'. run_state (qr_issue kv id demo_qr (quiet 0) 7 None) empty_world = (Inl ErrInternal, w') \<and>
     fst (run_state (qr_issue kv id demo_qr (quiet 1000000000) 7 (Some [1])) w') = Inr (IssueCooldown d)"
proof -
  obtain r w' where 1: "run_state (qr_issue kv id demo_qr (quiet 0) 7 None) empty_world = (r, w')" by fastforce
  have "r = Inl ErrInternal \<and>
    (\<exists>d. fst (run_state (qr_issue kv id demo_qr (quiet 1000000000) 7 (Some [1])) w') = Inr (IssueCooldown d))"
    by (rule failed_issue_keeps_cooldown [OF kv.redis_store_axioms _ _ 1])
       (simp_all add: empty_world_def kv_def demo_qr_def msec_of_def)
  with 1 show ?thesis by auto
qed

text \<open>
  C18: the limiter admits exactly the configured number of requests of a window. From the first
  request on, on a healthy Redis and whatever others do to other keys in between, \<open>Allow\<close> admits the request at position
  \<open>i\<close> of the window if and only if \<open>i\<close> is below the limit, and tells the others to wait until the end of the window.
\<close>

theorem rate_limit_window:
  assumes "redis_store R" "rd_read R (w_kv w) (msec_of t) k = None" "0 < msec_of window"
    and "within_window R k (msec_of t) (msec_of t + msec_of window) as" "in_i64 (1 + int (length as))"
  shows "allow_all R k limit window ((id, t) # as) w =
    map2 (\<lambda>i a. Inr (if int i < limit then None else Some ((msec_of t + msec_of window - msec_of (snd a)) * 1000000)))
      [0..<Suc (length as)] ((id, t) # as)"
proof -
  let ?b = "msec_of t + msec_of window"
  obtain s1 where s1: "run_state (checkAndIncr R (msec_of t) k (msec_of window)) (w_kv w) = (Inr (1, msec_of window), s1)"
      "counted R k (msec_of t) ?b 1 s1"
    using redis_store.first_count [OF assms(1-3)] by blast
  have "run_state (Allow R (arriving (id, t)) (''limit'', 0) k limit window) w = (Inr (verdict limit ?b 0 t), w\<lparr>w_kv := s1\<rparr>)"
    using redis_store.Allow_counted [OF assms(1), where a = "(id, t)" and w = w and i = 0 and b = ?b and k = k and window = window] s1(1)
    by auto
  moreover have "allow_all R k limit window as (w\<lparr>w_kv := s1\<rparr>) = map2 (\<lambda>j a. Inr (verdict limit ?b j (snd a))) [1..<1 + length as] as"
    by (rule redis_store.allowed_from [OF assms(1), where t = "msec_of t"]) (use s1(2) assms(4,5) in simp_all)
  moreover have "[0..<Suc (length as)] = 0 # [1..<1 + length as]" by (simp add: upt_conv_Cons del: upt_Suc)
  ultimately show ?thesis by (simp add: verdict_def del: upt_Suc)
qed

theorem rate_limit_window_witness:
  "allow_all kv ''k'' 2 1000000000 [(id, 0), (id, 10000000), (id, 999000000)] \<lparr>w_db = empty_db, w_kv = Map.empty\<rparr> =
     [Inr None, Inr None, Inr (Some 1000000)]"
  using rate_limit_window [OF kv.redis_store_axioms, of "\<lparr>w_db = empty_db, w_kv = Map.empty\<rparr>" 0 "''k''" 1000000000
      "[(id, 10000000), (id, 999000000)]" 2]
  by (simp add: kv_def leaves_key_def in_i64_def msec_of_def upt_rec)

text \<open>
  The rate limiter fails closed. A request for which the check of an applicable rule fails
  (Redis unavailable) is never let through, whatever the other rules say.
\<close>

theorem rate_limiter_fails_closed:
  assumes "j < length rs" "rule_KeyFunc (rs ! j) req \<noteq> None" "env_fault E (profile, i + j) \<noteq> NoFault"
  shows "fst (run_state (Wrap R E i profile rs req) w) \<noteq> Inr Pass"
  using assms
proof (induction rs arbitrary: i j w)
  case (Cons r rs)
  show ?case
  proof (cases j)
    case 0
    with Cons.prems show ?thesis
      by (cases "env_fault E (profile, i)") (auto simp: Allow_def run_andThen run_call)
  next
    case (Suc n)
    then have "fst (run_state (Wrap R E (Suc i) profile rs req) w) \<noteq> Inr Pass" for w
      using Cons.IH [of n "Suc i" w] Cons.prems by simp
    then show ?thesis by (auto split: option.split prod.split sum.split)
  qed
qed simp

definition demo_rule :: "string rule" where
  "demo_rule = \<lparr>rule_Name = ''ip'', rule_Limit = 10, rule_Window = 60000000000, rule_KeyFunc = Some\<rparr>"

theorem rate_limiter_fails_closed_witness:
  "fst (run_state (Wrap kv (quiet 0\<lparr>env_fault := (\<lambda>_. FailBefore)\<rparr>) 0 ''admin'' [demo_rule] ''1.2.3.4'') empty_world) \<noteq> Inr Pass"
  by (rule rate_limiter_fails_closed [of 0]) (simp_all add: demo_rule_def)

text \<open>
  C19: access tokens carry their subject and kind faithfully. A customer token parses back to
  the account it was issued for, until it expires and under its own secret only, and is never
  accepted where a staff token is required.
\<close>

theorem access_token_roundtrip:
  assumes "jwt_laws J" "IssueCustomerAccessToken J t0 secret i ttl = Some tok" "in_i64 i"
  shows "ParseCustomerAccessToken J now key tok =
      (if key = secret \<and> now < seconds (t0 + ttl) * 1000000000 then Inr i else Inl ErrInvalidToken) \<and>
    ParseStaffAccessToken J now key tok = Inl ErrInvalidToken"
  using jwt_laws.parse_issued [OF assms(1) assms(2) [unfolded IssueCustomerAccessToken_def] assms(3)]
  by (auto simp: ParseCustomerAccessToken_def ParseStaffAccessToken_def tokenTypeCustomerAccess_def tokenTypeStaffAccess_def)

theorem access_token_roundtrip_witness:
  "\<exists>tok. IssueCustomerAccessToken plain_jwt 0 ''secret'' 42 900000000000 = Some tok \<and>
     ParseCustomerAccessToken plain_jwt 5000000000 ''secret'' tok = Inr 42 \<and>
     ParseStaffAccessToken plain_jwt 5000000000 ''secret'' tok = Inl ErrInvalidToken"
proof -
  have "CHR 0x0A \<notin> set (show_int 42)" by (rule show_int_no_newline)
  then obtain tok where 1: "IssueCustomerAccessToken plain_jwt 0 ''secret'' 42 900000000000 = Some tok"
    by (simp add: IssueCustomerAccessToken_def issueAccessToken_def plain_jwt_def tokenTypeCustomerAccess_def)
  from access_token_roundtrip [OF plain_jwt.jwt_laws_axioms 1, of 5000000000 "''secret''"] 1 show ?thesis
    by (simp add: in_i64_def seconds_def)
qed

text \<open>
  An issued API key is taken apart into what was stored for it. The middleware splits the
  plaintext into the stored key id and a secret whose hash is the stored one.
\<close>

theorem api_key_roundtrip:
  assumes "GenerateAPIKey sha (Some i) (Some s) = Some (plaintext, keyID, h)"
    and "list_all is_byte i" "i \<noteq> []" "s \<noteq> []"
  shows "\<exists>secret. parseMultiKeyAPIKey plaintext = Some (keyID, secret) \<and> constantTimeHashEqual sha secret h"
proof -
  have "keyID = base64url i" "plaintext = base64url i @ CHR ''.'' # base64url s" "h = sha (base64url s)"
    using assms(1) by (auto simp: GenerateAPIKey_def HashOpaqueToken_def Let_def)
  with assms(2-4) show ?thesis
    by (simp add: parseMultiKeyAPIKey_def cut_append base64url_no_dot base64url_Nil constantTimeHashEqual_def hashAPIKey_def)
qed

theorem api_key_roundtrip_witness:
  "\<exists>p k h. GenerateAPIKey id (Some [1, 2, 3]) (Some [4, 5, 250]) = Some (p, k, h) \<and>
     (\<exists>secret. parseMultiKeyAPIKey p = Some (k, secret) \<and> constantTimeHashEqual id secret h)"
proof -
  obtain p k h where 1: "GenerateAPIKey id (Some [1, 2, 3]) (Some [4, 5, 250]) = Some (p, k, h)"
    by (simp add: GenerateAPIKey_def Let_def)
  from api_key_roundtrip [OF 1] 1 show ?thesis by (simp add: is_byte_def)
qed

end
