(* ===== verification/Customer_Auth.thy ===== *)
theory Customer_Auth
  imports Otp_Store Identity Phone
begin

text \<open>
  \<open>internal/service/customerauth.go\<close>: OTP login of the mobile app's customers, rotation of
  refresh tokens and logout. Every call to a repository, to Redis or to the SMS sender is a
  site of the environment; what the code only logs is \<open>logged\<close>. \<open>drawn\<close> are the random values of
  the request. \<open>Customer_auth\<close>'s collaborators (key space, hash, JWT library, SMS sender) are the
  fields of \<open>customer_auth\<close>.
\<close>

record customer_auth_tokens =
  cat_AccessToken :: string
  cat_AccessTokenExpiresAt :: time
  cat_RefreshToken :: string
  cat_RefreshTokenExpiresAt :: time

record customer_auth_config =
  cac_AccessTokenSecret :: string
  cac_AccessTokenTTL :: duration
  cac_RefreshTokenTTL :: duration
  cac_OTP :: otp_config

record 'k customer_auth =
  ca_redis :: "'k redis"
  ca_hash :: hash
  ca_jwt :: jwt_lib
  ca_sms :: "string \<Rightarrow> string \<Rightarrow> ('k world, unit) op"
  ca_cfg :: customer_auth_config

section \<open>The audit trail\<close>

definition AuditActionCustomerOTPRequested :: string where
  "AuditActionCustomerOTPRequested = ''customer.otp_requested''"

definition AuditActionCustomerOTPFailed :: string where
  "AuditActionCustomerOTPFailed = ''customer.otp_failed''"

definition AuditActionCustomerLogin :: string where
  "AuditActionCustomerLogin = ''customer.login''"

definition AuditActionCustomerLogout :: string where
  "AuditActionCustomerLogout = ''customer.logout''"

definition AuditActionCustomerLogoutAll :: string where
  "AuditActionCustomerLogoutAll = ''customer.logout_all''"

definition AuditActionCustomerRefreshReuse :: string where
  "AuditActionCustomerRefreshReuse = ''customer.refresh_reuse_detected''"

definition audit_of :: "audit_actor_type \<Rightarrow> int option \<Rightarrow> string \<Rightarrow> string \<Rightarrow> string \<Rightarrow> audit_event" where
  "audit_of actorType actorID action ip userAgent =
     \<lparr>aud_ID = 0, aud_OccurredAt = 0, aud_ActorType = actorType, aud_ActorID = actorID, aud_OrganizationID = None,
      aud_StoreID = None, aud_Action = action, aud_TargetType = [], aud_TargetID = None, aud_IP = ip, aud_UserAgent = userAgent\<rparr>"

definition auditLog :: "'k world env \<Rightarrow> audit_actor_type \<Rightarrow> int option \<Rightarrow> string \<Rightarrow> string \<Rightarrow> string \<Rightarrow> ('k world, unit) op" where
  "auditLog E actorType actorID action ip userAgent =
     (let l = (''audit'', 0) in
      logged (call E l (on_db (audit_Create (env_now E l) (audit_of actorType actorID action ip userAgent)))))"

section \<open>Requesting a code\<close>

definition otpMessage :: "string \<Rightarrow> string" where
  "otpMessage code = ''PromoGo: '' @ bytes [208, 178, 208, 176, 209, 136, 32, 208, 186, 208, 190, 208, 180, 32,
     208, 191, 208, 190, 208, 180, 209, 130, 208, 178, 208, 181, 209, 128, 208, 182, 208, 180, 208, 181, 208, 189, 208, 184,
     209, 143, 32] @ code"

definition RequestOTP ::
    "'k customer_auth \<Rightarrow> 'k world env \<Rightarrow> nat option \<Rightarrow> string \<Rightarrow> string \<Rightarrow> ('k world, unit) op" where
  "RequestOTP S E drawn rawPhone ip =
     (let R = ca_redis S; sha = ca_hash S; cfg = cac_OTP (ca_cfg S) in
      case NormalizePhone rawPhone of
        None \<Rightarrow> fail ErrInvalidPhone
      | Some phone \<Rightarrow>
          State_Monad.bind (acquireCooldown R sha cfg E phone) (\<lambda>r1.
          case r1 of
            Inl _ \<Rightarrow> fail ErrOTPCooldown
          | Inr _ \<Rightarrow>
              State_Monad.bind (checkRateLimit R sha cfg E phone ip) (\<lambda>r2.
              case r2 of
                Inl _ \<Rightarrow> andThen (logged (releaseCooldown R sha E phone)) (\<lambda>_. fail ErrOTPRateLimited)
              | Inr _ \<Rightarrow>
                  (case GenerateOTPCode drawn of
                     None \<Rightarrow> fail ErrInternal
                   | Some code \<Rightarrow>
                       andThen (otp_store R sha cfg E phone code) (\<lambda>_.
                       State_Monad.bind (call E (''sms'', 0) (ca_sms S phone (otpMessage code))) (\<lambda>r3.
                       case r3 of
                         Inl e \<Rightarrow> andThen (logged (releaseCooldown R sha E phone)) (\<lambda>_. fail e)
                       | Inr _ \<Rightarrow> auditLog E AuditActorSystem None AuditActionCustomerOTPRequested ip []))))))"

section \<open>Verifying a code\<close>

record verify_otp_request =
  vr_Phone :: string
  vr_Code :: string
  vr_IP :: string
  vr_UserAgent :: string
  vr_ConsentDocumentVersion :: string
  vr_ConsentSource :: string

definition resolveOrCreateAccount :: "'k world env \<Rightarrow> string \<Rightarrow> ('k world, customer_account) op" where
  "resolveOrCreateAccount E phone =
     State_Monad.bind (call E (''account'', 0) (on_db (account_GetByPhone phone))) (\<lambda>r.
     case r of
       Inr account \<Rightarrow> ok account
     | Inl e \<Rightarrow>
         if e \<noteq> ErrNotFound then fail e
         else
           let l = (''account'', 1) in
           State_Monad.bind (call E l (on_db (account_Create (env_now E l)
             \<lparr>acc_ID = 0, acc_Phone = phone, acc_PhoneVerifiedAt = env_now E l, acc_Status = CustomerAccountActive,
              acc_CreatedAt = 0, acc_UpdatedAt = 0\<rparr>))) (\<lambda>r2.
           case r2 of
             Inr account \<Rightarrow> ok account
           | Inl e2 \<Rightarrow>
               if e2 = ErrConflict then call E (''account'', 2) (on_db (account_GetByPhone phone)) else fail e2))"

fun linkClients :: "'k world env \<Rightarrow> nat \<Rightarrow> client list \<Rightarrow> int \<Rightarrow> ('k world, unit) op" where
  "linkClients E k [] accountID = ok ()"
| "linkClients E k (c # cs) accountID =
     andThen (call E (''link'', Suc k) (on_db (client_LinkCustomerAccount (cl_ID c) accountID))) (\<lambda>_.
     linkClients E (Suc k) cs accountID)"

definition linkExistingClients :: "'k world env \<Rightarrow> string \<Rightarrow> int \<Rightarrow> ('k world, unit) op" where
  "linkExistingClients E phone accountID =
     andThen (call E (''link'', 0) (on_db (client_ListUnlinkedByPhone phone))) (\<lambda>cs. linkClients E 0 cs accountID)"

definition new_session :: "int \<Rightarrow> string \<Rightarrow> time \<Rightarrow> string \<Rightarrow> string \<Rightarrow> customer_session" where
  "new_session acc h expiresAt userAgent ip =
     \<lparr>ses_ID = 0, ses_CustomerAccountID = acc, ses_RefreshTokenHash = h, ses_ReplacedByID = None, ses_IssuedAt = 0,
      ses_ExpiresAt = expiresAt, ses_RevokedAt = None, ses_UserAgent = userAgent, ses_IP = ip\<rparr>"

text \<open>\<open>issueTokensReturningID\<close>; \<open>now\<close> is its \<open>time.Now()\<close>.\<close>

definition issueTokens ::
    "'k customer_auth \<Rightarrow> 'k world env \<Rightarrow> nat list option \<Rightarrow> int \<Rightarrow> string \<Rightarrow> string \<Rightarrow> ('k world, customer_auth_tokens) op" where
  "issueTokens S E drawn customerAccountID ip userAgent =
     (let cfg = ca_cfg S; l = (''issue'', 0); now = env_now E l in
      case GenerateRefreshToken (ca_hash S) drawn of
        None \<Rightarrow> fail ErrInternal
      | Some (refreshToken, refreshHash) \<Rightarrow>
          andThen (call E l (on_db (session_Create now
            (new_session customerAccountID refreshHash (now + cac_RefreshTokenTTL cfg) userAgent ip)))) (\<lambda>session.
          case IssueCustomerAccessToken (ca_jwt S) now (cac_AccessTokenSecret cfg) customerAccountID (cac_AccessTokenTTL cfg) of
            None \<Rightarrow> fail ErrInternal
          | Some accessToken \<Rightarrow>
              ok \<lparr>cat_AccessToken = accessToken, cat_AccessTokenExpiresAt = now + cac_AccessTokenTTL cfg,
                  cat_RefreshToken = refreshToken, cat_RefreshTokenExpiresAt = ses_ExpiresAt session\<rparr>))"

definition VerifyOTP ::
    "'k customer_auth \<Rightarrow> 'k world env \<Rightarrow> nat list option \<Rightarrow> verify_otp_request
     \<Rightarrow> ('k world, customer_auth_tokens \<times> customer_account) op" where
  "VerifyOTP S E drawn req =
     (let R = ca_redis S; sha = ca_hash S; cfg = cac_OTP (ca_cfg S); ip = vr_IP req; ua = vr_UserAgent req in
      case NormalizePhone (vr_Phone req) of
        None \<Rightarrow> fail ErrInvalidPhone
      | Some phone \<Rightarrow>
          State_Monad.bind (otp_verify R sha cfg E phone (vr_Code req)) (\<lambda>r.
          case r of
            Inl e \<Rightarrow>
              andThen (auditLog E AuditActorSystem None AuditActionCustomerOTPFailed ip ua) (\<lambda>_.
              fail (if e = errOTPLocked then ErrOTPLocked else ErrOTPInvalid))
          | Inr _ \<Rightarrow>
              andThen (resolveOrCreateAccount E phone) (\<lambda>account.
              if acc_Status account \<noteq> CustomerAccountActive then fail ErrAccountBlocked
              else
              andThen (logged (linkExistingClients E phone (acc_ID account))) (\<lambda>_.
              andThen (if vr_ConsentDocumentVersion req \<noteq> []
                       then andThen (call E (''consent'', 0) (on_db (consent_Create (env_now E (''consent'', 0))
                              \<lparr>con_ID = 0, con_CustomerAccountID = acc_ID account,
                               con_DocumentVersion = vr_ConsentDocumentVersion req, con_GrantedAt = 0,
                               con_Source = vr_ConsentSource req, con_IP = ip, con_UserAgent = ua\<rparr>))) (\<lambda>_. ok ())
                       else ok ()) (\<lambda>_.
              andThen (issueTokens S E drawn (acc_ID account) ip ua) (\<lambda>tokens.
              andThen (auditLog E AuditActorCustomer (Some (acc_ID account)) AuditActionCustomerLogin ip ua) (\<lambda>_.
              ok (tokens, account))))))))"

section \<open>Refresh and logout\<close>

definition revokeAll :: "'k world env \<Rightarrow> site \<Rightarrow> int \<Rightarrow> ('k world, unit) op" where
  "revokeAll E l acc = call E l (on_db (session_RevokeAllForAccount (env_now E l) acc))"

definition Refresh ::
    "'k customer_auth \<Rightarrow> 'k world env \<Rightarrow> nat list option \<Rightarrow> string \<Rightarrow> string \<Rightarrow> string
     \<Rightarrow> ('k world, customer_auth_tokens) op" where
  "Refresh S E drawn refreshToken ip userAgent =
     (let cfg = ca_cfg S; oldHash = HashOpaqueToken (ca_hash S) refreshToken; l = (''claim'', 0); now = env_now E l in
      case GenerateRefreshToken (ca_hash S) drawn of
        None \<Rightarrow> fail ErrInternal
      | Some (newToken, newHash) \<Rightarrow>
          State_Monad.bind (call E l (on_db (session_ClaimForRotation (env_stmt E l) now now oldHash
              (new_session 0 newHash (now + cac_RefreshTokenTTL cfg) userAgent ip)))) (\<lambda>r.
          case r of
            Inr (Reused old) \<Rightarrow>
              andThen (logged (revokeAll E (''revoke'', 0) (ses_CustomerAccountID old))) (\<lambda>_.
              andThen (auditLog E AuditActorCustomer (Some (ses_CustomerAccountID old)) AuditActionCustomerRefreshReuse ip userAgent)
                (\<lambda>_. fail ErrSessionInvalid))
          | Inl e \<Rightarrow> if e = ErrNotFound then fail ErrSessionInvalid else fail e
          | Inr (Rotated old session) \<Rightarrow>
              andThen (call E (''account'', 0) (on_db (account_GetByID (ses_CustomerAccountID session)))) (\<lambda>account.
              if acc_Status account \<noteq> CustomerAccountActive
              then andThen (logged (revokeAll E (''revoke'', 1) (ses_CustomerAccountID session))) (\<lambda>_. fail ErrAccountBlocked)
              else
              let t = env_now E (''token'', 0) in
              case IssueCustomerAccessToken (ca_jwt S) t (cac_AccessTokenSecret cfg) (ses_CustomerAccountID session)
                     (cac_AccessTokenTTL cfg) of
                None \<Rightarrow> fail ErrInternal
              | Some accessToken \<Rightarrow>
                  ok \<lparr>cat_AccessToken = accessToken, cat_AccessTokenExpiresAt = t + cac_AccessTokenTTL cfg,
                      cat_RefreshToken = newToken, cat_RefreshTokenExpiresAt = ses_ExpiresAt session\<rparr>)))"

definition Logout :: "'k customer_auth \<Rightarrow> 'k world env \<Rightarrow> string \<Rightarrow> ('k world, unit) op" where
  "Logout S E refreshToken =
     State_Monad.bind (call E (''logout'', 0) (on_db (session_GetByRefreshTokenHash (HashOpaqueToken (ca_hash S) refreshToken))))
       (\<lambda>r.
     case r of
       Inl e \<Rightarrow> if e = ErrNotFound then ok () else fail e
     | Inr session \<Rightarrow>
         andThen (call E (''logout'', 1) (on_db (session_Revoke (env_now E (''logout'', 1)) (ses_ID session)))) (\<lambda>_.
         auditLog E AuditActorCustomer (Some (ses_CustomerAccountID session)) AuditActionCustomerLogout [] []))"

definition LogoutAll :: "'k world env \<Rightarrow> int \<Rightarrow> ('k world, unit) op" where
  "LogoutAll E customerAccountID =
     andThen (revokeAll E (''logout'', 2) customerAccountID) (\<lambda>_.
     auditLog E AuditActorCustomer (Some customerAccountID) AuditActionCustomerLogoutAll [] [])"

end
