(* ===== verification/Customer_Steps.thy ===== *)
theory Customer_Steps
  imports Customer_Auth Requests Identity_Steps
begin

text \<open>
  Lemmas on the runs of the customer's login: taking a successful run apart, what leaves the
  cooldown key alone, and which operations do not look at PostgreSQL.
\<close>

section \<open>Successful runs\<close>

text \<open>\<open>yields P m\<close>: every result that \<open>m\<close> returns without an error satisfies \<open>P\<close>.\<close>

definition yields :: "('a \<Rightarrow> bool) \<Rightarrow> ('s, 'a) op \<Rightarrow> bool" where
  "yields P m \<longleftrightarrow> (\<forall>s x. fst (run_state m s) = Inr x \<longrightarrow> P x)"

lemma yieldsD: "yields P m \<Longrightarrow> run_state m s = (Inr x, s') \<Longrightarrow> P x"
  by (simp add: yields_def) (metis fst_conv)

lemma yields_ok: "P x \<Longrightarrow> yields P (ok x)"
  by (simp add: yields_def)

lemma yields_fail: "yields P (fail e)"
  by (simp add: yields_def)

lemma yields_True: "yields (\<lambda>_. True) m"
  by (simp add: yields_def)

lemma yields_bind:
  assumes "yields Q m" "\<And>x. Q x \<Longrightarrow> yields P (f (Inr x))" "\<And>e. yields P (f (Inl e))"
  shows "yields P (State_Monad.bind m f)"
  unfolding yields_def
proof (intro allI impI)
  fix s x
  assume *: "fst (run_state (State_Monad.bind m f) s) = Inr x"
  obtain r s1 where m: "run_state m s = (r, s1)" by fastforce
  with * have f: "fst (run_state (f r) s1) = Inr x" by simp
  show "P x"
  proof (cases r)
    case (Inl e)
    with f assms(3) show ?thesis by (auto simp: yields_def)
  next
    case (Inr y)
    then have "Q y" using assms(1) m by (auto simp: yields_def) (metis fst_conv)
    with f Inr assms(2) show ?thesis by (auto simp: yields_def)
  qed
qed

lemma yields_andThen:
  assumes "yields Q m" "\<And>x. Q x \<Longrightarrow> yields P (f x)"
  shows "yields P (andThen m f)"
  unfolding andThen_def by (rule yields_bind [OF assms(1)]) (simp_all add: yields_fail assms(2))

lemma yields_call: "yields P m \<Longrightarrow> yields P (call E l m)"
  by (auto simp: yields_def run_call split: fault.split)

lemma yields_on_db: "yields P m \<Longrightarrow> yields P (on_db m)"
  by (auto simp: yields_def run_on_db)

lemma yields_on_kv: "yields P m \<Longrightarrow> yields P (on_kv m)"
  by (auto simp: yields_def run_on_kv)

lemma yields_GetByPhone: "yields (\<lambda>a. acc_Phone a = phone) (account_GetByPhone phone)"
  by (auto simp: yields_def account_GetByPhone_def split: option.splits dest!: find_SomeD)

lemma yields_Create: "acc_Phone a = phone \<Longrightarrow> yields (\<lambda>b. acc_Phone b = phone) (account_Create now a)"
  by (auto simp: yields_def account_Create_def run_andThen Let_def split: if_splits)

lemma yields_account: "yields (\<lambda>a. acc_Phone a = phone) (resolveOrCreateAccount E phone)"
  unfolding resolveOrCreateAccount_def Let_def
  by (rule yields_bind, rule yields_call, rule yields_on_db, rule yields_GetByPhone)
     (auto intro!: yields_ok yields_fail yields_bind [OF yields_call [OF yields_on_db [OF yields_Create]]]
        yields_call yields_on_db yields_GetByPhone)

section \<open>Operations that leave a key alone\<close>

definition same_key_at :: "'k redis \<Rightarrow> string \<Rightarrow> 'k world \<Rightarrow> 'k world \<Rightarrow> bool" where
  "same_key_at R k w w' \<longleftrightarrow> (\<forall>now. rd_read R (w_kv w') now k = rd_read R (w_kv w) now k)"

lemma same_key_refl [simp]: "reflp (same_key_at R k)" and same_key_trans [simp]: "transp (same_key_at R k)"
  by (simp_all add: same_key_at_def reflp_def transp_def)

lemma on_db_same_key: "keeps (same_key_at R k) (on_db m)"
  by (simp add: keeps_def same_key_at_def run_on_db)

lemma quiet_call_keeps: "keeps Q m \<Longrightarrow> keeps Q (call (quiet t) l m)"
  by (simp add: keeps_def run_call)

lemma logged_keeps: "keeps Q m \<Longrightarrow> keeps Q (logged m)"
  by (simp add: keeps_def)

lemma auditLog_same_key: "keeps (same_key_at R k) (auditLog (quiet t) ty i a ip ua)"
  by (simp add: auditLog_def Let_def logged_keeps quiet_call_keeps on_db_same_key)

lemma phoneKey_distinct [simp]:
  "phoneKey sha ''otp:rl:phone'' p \<noteq> phoneKey sha ''otp:cooldown'' q"
  "ipKey sha ''otp:rl:ip'' ip \<noteq> phoneKey sha ''otp:cooldown'' q"
  "phoneKey sha ''otp:code'' p \<noteq> phoneKey sha ''otp:cooldown'' q"
  by (simp_all add: phoneKey_def ipKey_def)

context redis_store
begin

lemma on_kv_same_key:
  assumes "\<And>s now. rd_read R (after m s) now k = rd_read R s now k"
  shows "keeps (same_key_at R k) (on_kv m)"
  using assms by (simp add: keeps_def same_key_at_def run_on_kv)

lemma incr_other:
  assumes "k' \<noteq> k"
  shows "rd_read R (after (incrWithExpiry R now' k' secs) s) now k = rd_read R s now k"
  using assms
  by (auto simp: incrWithExpiry_def run_andThen INCR_def PEXPIRE_def split: option.split redis_value.split prod.split sum.split)

lemma store_other:
  assumes "k' \<noteq> k"
  shows "rd_read R (after (storeChallenge R now' k' h ttl) s) now k = rd_read R s now k"
  using assms
  by (auto simp: storeChallenge_def run_andThen HSET_def PEXPIRE_def split: option.split redis_value.split prod.split sum.split)

lemma checkRateLimit_same_key:
  "keeps (same_key_at R (phoneKey sha ''otp:cooldown'' p)) (checkRateLimit R sha cfg (quiet t) phone ip)"
  unfolding checkRateLimit_def incrWithWindow_def
  by (auto intro!: keeps_andThen quiet_call_keeps on_kv_same_key keeps_ok keeps_fail simp: incr_other)

lemma otp_store_same_key:
  "keeps (same_key_at R (phoneKey sha ''otp:cooldown'' p)) (otp_store R sha cfg (quiet t) phone code)"
  unfolding otp_store_def Let_def by (auto intro!: quiet_call_keeps on_kv_same_key simp: store_other)

end

section \<open>The resend cooldown\<close>

abbreviation cooldown_key :: "'k customer_auth \<Rightarrow> string \<Rightarrow> string" where
  "cooldown_key S phone \<equiv> phoneKey (ca_hash S) ''otp:cooldown'' phone"

text \<open>While the cooldown key is there, a request ends at once and touches nothing.\<close>

lemma RequestOTP_cooling:
  assumes "NormalizePhone raw = Some phone" "0 \<le> otp_ResendCooldown (cac_OTP (ca_cfg S))"
    and "rd_read (ca_redis S) (w_kv w) (msec_of t) (cooldown_key S phone) \<noteq> None"
  shows "run_state (RequestOTP S (quiet t) drawn raw ip) w = (Inl ErrOTPCooldown, w)"
  using assms
  by (auto simp: RequestOTP_def Let_def acquireCooldown_def run_andThen run_call run_on_kv SETNX_def at_ms_def)

text \<open>
  A request that passed the cooldown and the rate limit and did not fail at the SMS gateway
  leaves the key with its expiry.
\<close>

lemma RequestOTP_acquired:
  assumes "redis_store (ca_redis S)" "NormalizePhone raw = Some phone"
    and "ca_sms S = (\<lambda>p m. gets (\<lambda>_. gateway p m))"
    and "0 \<le> otp_ResendCooldown (cac_OTP (ca_cfg S))"
    and "run_state (RequestOTP S (quiet t) drawn raw ip) w = (r, w')"
    and "r \<noteq> Inl ErrOTPCooldown" "r \<noteq> Inl ErrOTPRateLimited" "r = Inr () \<or> drawn = None"
    and "unexpired now (expiry (msec_of t) (otp_ResendCooldown (cac_OTP (ca_cfg S))))"
  shows "rd_read (ca_redis S) (w_kv w') now (cooldown_key S phone) \<noteq> None"
proof -
  let ?R = "ca_redis S" and ?k = "cooldown_key S phone" and ?c = "otp_ResendCooldown (cac_OTP (ca_cfg S))"
  let ?cfg = "cac_OTP (ca_cfg S)" and ?sha = "ca_hash S"
  obtain r1 w1 where 1: "run_state (acquireCooldown ?R ?sha ?cfg (quiet t) phone) w = (r1, w1)" by fastforce
  with assms(2,5,6) have "r1 = Inr ()" by (cases r1) (auto simp: RequestOTP_def Let_def)
  with 1 assms(4) have w1: "rd_read ?R (w_kv w1) now ?k = Some (RString ''1'', expiry (msec_of t) ?c)"
    using assms(9)
    by (auto simp: acquireCooldown_def Let_def run_andThen run_call run_on_kv SETNX_def at_ms_def
        redis_store.read_write [OF assms(1)] split: if_splits)
  obtain r2 w2 where 2: "run_state (checkRateLimit ?R ?sha ?cfg (quiet t) phone ip) w1 = (r2, w2)" by fastforce
  with 1 \<open>r1 = Inr ()\<close> assms(2,5,7) have r2: "r2 = Inr ()"
    by (cases r2) (auto simp: RequestOTP_def Let_def run_andThen)
  have w2: "same_key_at ?R ?k w1 w2"
    using 2 keepsD [OF redis_store.checkRateLimit_same_key [OF assms(1), of ?sha phone ?cfg t phone ip], of w1] by simp
  show ?thesis
  proof (cases drawn)
    case None
    with 1 2 \<open>r1 = Inr ()\<close> r2 assms(2,5) have "w' = w2"
      by (simp add: RequestOTP_def Let_def GenerateOTPCode_def)
    with w1 w2 show ?thesis by (simp add: same_key_at_def)
  next
    case (Some n)
    then obtain code where code: "GenerateOTPCode drawn = Some code" by (simp add: GenerateOTPCode_def)
    obtain r3 w3 where 3: "run_state (otp_store ?R ?sha ?cfg (quiet t) phone code) w2 = (r3, w3)" by fastforce
    have "same_key_at ?R ?k w2 w3"
      using keepsD [OF redis_store.otp_store_same_key [OF assms(1), of ?sha phone ?cfg t phone code], of w2] 3 by simp
    moreover have "r = Inr ()" using assms(8) Some by simp
    with 1 2 3 code \<open>r1 = Inr ()\<close> r2 assms(2,3,5) have "r3 = Inr ()" "gateway phone (otpMessage code) = Inr ()"
      "w' = after (auditLog (quiet t) AuditActorSystem None AuditActionCustomerOTPRequested ip []) w3"
      by (auto simp: RequestOTP_def Let_def run_andThen run_call split: sum.splits)
    moreover have "same_key_at ?R ?k w3 (after (auditLog (quiet t) AuditActorSystem None AuditActionCustomerOTPRequested ip []) w3)"
      by (rule keepsD [OF auditLog_same_key])
    ultimately show ?thesis using w1 w2 by (simp add: same_key_at_def)
  qed
qed

section \<open>Revoked sessions\<close>

lemma quiet_statements [simp]: "env_stmt (quiet t) l = (\<lambda>_. False)"
  by (simp add: fun_eq_iff)

definition no_session_left :: "int \<Rightarrow> db \<Rightarrow> bool" where
  "no_session_left acc d \<longleftrightarrow> list_all (\<lambda>s. ses_CustomerAccountID s = acc \<longrightarrow> ses_RevokedAt s \<noteq> None) (db_sessions d)"

lemma list_all_mapI: "(\<And>x. P (f x)) \<Longrightarrow> list_all P (map f xs)"
  by (simp add: list_all_iff)

lemma revokeAll_quiet: "no_session_left acc (w_db (after (revokeAll (quiet t) l acc) w))"
  by (simp add: revokeAll_def run_call run_on_db session_RevokeAllForAccount_def revoke_sessions_def no_session_left_def,
      rule list_all_mapI, auto)

lemma audit_sessions: "db_sessions (w_db (after (auditLog (quiet t) ty i a ip ua) w)) = db_sessions (w_db w)"
  by (simp add: auditLog_def Let_def run_call run_on_db audit_Create_def run_andThen)

section \<open>Operations that do not look at PostgreSQL\<close>

definition blind :: "('k world, 'a) state \<Rightarrow> bool" where
  "blind m \<longleftrightarrow> (\<forall>w1 w2. w_kv w1 = w_kv w2 \<longrightarrow>
     fst (run_state m w1) = fst (run_state m w2) \<and> w_kv (after m w1) = w_kv (after m w2))"

lemma blindI:
  assumes "\<And>w1 w2. w_kv w1 = w_kv w2 \<Longrightarrow> fst (run_state m w1) = fst (run_state m w2)"
    and "\<And>w1 w2. w_kv w1 = w_kv w2 \<Longrightarrow> w_kv (after m w1) = w_kv (after m w2)"
  shows "blind m"
  using assms unfolding blind_def by blast

lemma blindD:
  assumes "blind m" "w_kv w1 = w_kv w2"
  shows "fst (run_state m w1) = fst (run_state m w2)" and "w_kv (after m w1) = w_kv (after m w2)"
  using assms unfolding blind_def by blast+

lemma blind_return [wf_intros]: "blind (State_Monad.return x)" "blind (ok y)" "blind (fail e)"
  by (rule blindI; simp)+

lemma blind_bind [wf_intros]:
  assumes "blind m" "\<And>x. blind (f x)"
  shows "blind (State_Monad.bind m f)"
proof -
  have "fst (run_state (State_Monad.bind m f) w1) = fst (run_state (State_Monad.bind m f) w2) \<and>
        w_kv (after (State_Monad.bind m f) w1) = w_kv (after (State_Monad.bind m f) w2)" if "w_kv w1 = w_kv w2" for w1 w2
  proof -
    obtain x1 v1 x2 v2 where m: "run_state m w1 = (x1, v1)" "run_state m w2 = (x2, v2)" by fastforce
    then have "x1 = x2" "w_kv v1 = w_kv v2" using blindD [OF assms(1) that] by simp_all
    with blindD [OF assms(2), of v1 v2 x2] m show ?thesis by simp
  qed
  then show ?thesis unfolding blind_def by blast
qed

lemma blind_andThen [wf_intros]: "blind m \<Longrightarrow> (\<And>x. blind (f x)) \<Longrightarrow> blind (andThen m f)"
  unfolding andThen_def by (intro blind_bind) (auto split: sum.split intro: wf_intros)

lemma run_quiet_call [simp]: "run_state (call (quiet t) l m) w = run_state m w"
  by (simp add: run_call)

lemma blind_call [wf_intros]: "blind m \<Longrightarrow> blind (call (quiet t) l m)"
  by (rule blindI; simp; elim blindD)

lemma blind_on_kv [wf_intros]: "blind (on_kv m)"
  by (rule blindI; simp add: run_on_kv)

lemma blind_logged_db [wf_intros]: "blind (logged (call (quiet t) l (on_db m)))"
  by (rule blindI; simp add: run_on_db)

lemma blind_logged [wf_intros]: "blind m \<Longrightarrow> blind (logged m)"
  by (rule blindI; simp; elim blindD)

lemma blind_gets [wf_intros]: "blind (gets (\<lambda>_. r))"
  by (rule blindI; simp)

end
