(* ===== verification/Customer_Theorems.thy ===== *)
theory Customer_Theorems
  imports Customer_Steps
begin

text \<open>The properties of the customers' login, token rotation and logout.\<close>

definition demo_otp :: otp_config where
  "demo_otp = \<lparr>otp_CodeTTL = 300000000000, otp_ResendCooldown = 60000000000, otp_MaxAttempts = 5,
     otp_RateLimitWindow = 3600000000000, otp_MaxRequestsPerPhone = 5, otp_MaxRequestsPerIP = 20\<rparr>"

definition demo_auth :: "keyspace customer_auth" where
  "demo_auth = \<lparr>ca_redis = kv, ca_hash = id, ca_jwt = plain_jwt, ca_sms = (\<lambda>_ _. gets (\<lambda>_. Inr ())),
     ca_cfg = \<lparr>cac_AccessTokenSecret = ''secret'', cac_AccessTokenTTL = 900000000000, cac_RefreshTokenTTL = 2592000000000000,
       cac_OTP = demo_otp\<rparr>\<rparr>"

definition no_redis :: "keyspace world" where
  "no_redis = \<lparr>w_db = empty_db, w_kv = Map.empty\<rparr>"

lemma otp_verify_accepted:
  assumes "run_state (otp_verify R sha cfg E phone code) w = (Inr u, w')"
  shows "fst (run_state (verifyOTPScript R (at_ms E (''otp.verify'', 0)) (phoneKey sha ''otp:code'' phone)
    (HashOTP sha code) (otp_MaxAttempts cfg)) (w_kv (env_other E (''otp.verify'', 0) w))) = Inr OtpOk"
  using assms by (auto simp: otp_verify_def Let_def run_andThen run_call run_on_kv split: fault.splits sum.splits prod.splits otp_result.splits)

text \<open>
  C20: nobody logs in without the code. Whatever calls fail and whatever other requests run in
  between, a successful \<open>VerifyOTP\<close> returns an active account with exactly the normalised phone,
  an access token issued for that account, and the challenge stored for that phone accepted
  the submitted code in one atomic check.
\<close>

theorem login_needs_code:
  assumes "run_state (VerifyOTP S E drawn req) w = (Inr (tokens, account), w')"
  shows "\<exists>phone. NormalizePhone (vr_Phone req) = Some phone \<and> acc_Phone account = phone \<and>
    acc_Status account = CustomerAccountActive \<and>
    fst (run_state (verifyOTPScript (ca_redis S) (at_ms E (''otp.verify'', 0)) (phoneKey (ca_hash S) ''otp:code'' phone)
      (HashOTP (ca_hash S) (vr_Code req)) (otp_MaxAttempts (cac_OTP (ca_cfg S))))
      (w_kv (env_other E (''otp.verify'', 0) w))) = Inr OtpOk \<and>
    IssueCustomerAccessToken (ca_jwt S) (env_now E (''issue'', 0)) (cac_AccessTokenSecret (ca_cfg S)) (acc_ID account)
      (cac_AccessTokenTTL (ca_cfg S)) = Some (cat_AccessToken tokens)"
proof -
  obtain phone where phone: "NormalizePhone (vr_Phone req) = Some phone"
    using assms by (cases "NormalizePhone (vr_Phone req)") (auto simp: VerifyOTP_def Let_def)
  let ?verify = "otp_verify (ca_redis S) (ca_hash S) (cac_OTP (ca_cfg S)) E phone (vr_Code req)"
  let ?issued = "\<lambda>i tok. IssueCustomerAccessToken (ca_jwt S) (env_now E (''issue'', 0)) (cac_AccessTokenSecret (ca_cfg S)) i
      (cac_AccessTokenTTL (ca_cfg S)) = Some (cat_AccessToken tok)"
  let ?P = "\<lambda>(tok, a). acc_Phone a = phone \<and> acc_Status a = CustomerAccountActive \<and> ?issued (acc_ID a) tok"
  have issue: "yields (?issued i) (issueTokens S E drawn i ip ua)" for i ip ua
    by (auto simp: issueTokens_def Let_def split: option.split
        intro!: yields_ok yields_fail yields_andThen [OF yields_True])
  have "yields ?P (VerifyOTP S E drawn req)"
    unfolding VerifyOTP_def Let_def phone option.case
  proof (rule yields_bind [OF yields_True], unfold sum.case)
    show "yields ?P (andThen m (\<lambda>_. fail e))" for m :: "('a world, unit) op" and e
      by (intro yields_andThen [OF yields_True] yields_fail)
  next
    show "yields ?P (andThen (resolveOrCreateAccount E phone) (\<lambda>a. if acc_Status a \<noteq> CustomerAccountActive then fail ErrAccountBlocked
        else andThen (f a) (\<lambda>_. andThen (g a) (\<lambda>_. andThen (issueTokens S E drawn (acc_ID a) (vr_IP req) (vr_UserAgent req)) (\<lambda>tok.
          andThen (h a) (\<lambda>_. ok (tok, a)))))))" for f g h :: "customer_account \<Rightarrow> ('a world, unit) op"
      by (rule_tac yields_andThen [OF yields_account])
         (simp add: yields_fail, intro impI yields_andThen [OF yields_True] yields_andThen [OF issue] yields_ok, simp)
  qed
  moreover obtain w1 where "run_state ?verify w = (Inr (), w1)"
    using assms by (cases "run_state ?verify w"; cases "fst (run_state ?verify w)")
      (auto simp: VerifyOTP_def Let_def phone run_andThen split: prod.splits sum.splits)
  note otp_verify_accepted [OF this]
  ultimately show ?thesis using yieldsD [OF _ assms] phone by auto
qed

definition login_request :: verify_otp_request where
  "login_request = \<lparr>vr_Phone = ''89001112233'', vr_Code = ''123456'', vr_IP = [], vr_UserAgent = [],
     vr_ConsentDocumentVersion = [], vr_ConsentSource = []\<rparr>"

definition code_sent :: "keyspace world" where
  "code_sent = no_redis\<lparr>w_kv := [''otp:code:+79001112233'' \<mapsto> (RHash [''hash'' \<mapsto> ''123456'', ''attempts'' \<mapsto> ''0''], Some 300000)]\<rparr>"

lemmas login_eval = VerifyOTP_def login_request_def code_sent_def no_redis_def demo_auth_def demo_otp_def NormalizePhone_def
  is_digit_def otp_verify_def verifyOTPScript_def HMGET_def DEL_def kv_def unexpired_def phoneKey_def HashOpaqueToken_def HashOTP_def
  at_ms_def msec_of_def run_andThen run_call run_on_db run_on_kv Let_def attempts_of_def resolveOrCreateAccount_def
  account_GetByPhone_def account_Create_def linkExistingClients_def client_ListUnlinkedByPhone_def issueTokens_def
  GenerateRefreshToken_def session_Create_def known_account_def new_session_def auditLog_def audit_Create_def audit_of_def
  empty_db_def parse_int_def digits_val_def digit_val_def in_i64_def

lemma customer_token_issued: "\<exists>tok. IssueCustomerAccessToken plain_jwt t ''secret'' i ttl = Some tok"
  using show_int_no_newline [of i]
  by (simp add: IssueCustomerAccessToken_def issueAccessToken_def plain_jwt_def tokenTypeCustomerAccess_def)

theorem login_needs_code_witness:
  "\<exists>tokens account w'. run_state (VerifyOTP demo_auth (quiet 1000000000) (Some [1, 2, 3]) login_request) code_sent = (Inr (tokens, account), w') \<and>
     acc_Phone account = ''+79001112233''"
proof -
  obtain tok where "IssueCustomerAccessToken plain_jwt 1000000000 ''secret'' 1 900000000000 = Some tok"
    using customer_token_issued by blast
  then obtain tokens account w' where
    1: "run_state (VerifyOTP demo_auth (quiet 1000000000) (Some [1, 2, 3]) login_request) code_sent = (Inr (tokens, account), w')"
    by (simp add: login_eval)
  from login_needs_code [OF this] have "acc_Phone account = ''+79001112233''"
    by (auto simp: login_request_def NormalizePhone_def is_digit_def Let_def)
  with 1 show ?thesis by blast
qed

text \<open>
  C21: asking for a code reveals nothing about who is registered. Undisturbed, the answer of
  \<open>RequestOTP\<close> and everything it leaves in Redis are the same whatever PostgreSQL holds.
\<close>

theorem otp_request_reveals_nothing:
  fixes S :: "'k customer_auth" and gateway :: "string \<Rightarrow> string \<Rightarrow> err + unit"
  assumes "ca_sms S = (\<lambda>p m. gets (\<lambda>_. gateway p m))" "w_kv w1 = w_kv w2"
  shows "fst (run_state (RequestOTP S (quiet t) drawn rawPhone ip) w1) = fst (run_state (RequestOTP S (quiet t) drawn rawPhone ip) w2) \<and>
         w_kv (after (RequestOTP S (quiet t) drawn rawPhone ip) w1) = w_kv (after (RequestOTP S (quiet t) drawn rawPhone ip) w2)"
proof -
  have "blind (RequestOTP S (quiet t) drawn rawPhone ip)"
    unfolding RequestOTP_def Let_def assms(1) acquireCooldown_def checkRateLimit_def releaseCooldown_def otp_store_def
      incrWithWindow_def auditLog_def
    by (auto split: option.split sum.split intro!: wf_intros)
  from blindD [OF this assms(2)] show ?thesis by blast
qed

theorem otp_request_reveals_nothing_witness:
  "fst (run_state (RequestOTP demo_auth (quiet 0) (Some 7) ''89001112233'' ''ip'') no_redis) =
   fst (run_state (RequestOTP demo_auth (quiet 0) (Some 7) ''89001112233'' ''ip'')
     (no_redis\<lparr>w_db := empty_db\<lparr>db_accounts := [\<lparr>acc_ID = 1, acc_Phone = ''+79001112233'', acc_PhoneVerifiedAt = 0,
        acc_Status = CustomerAccountBlocked, acc_CreatedAt = 0, acc_UpdatedAt = 0\<rparr>]\<rparr>\<rparr>))"
  using otp_request_reveals_nothing [of demo_auth "\<lambda>_ _. Inr ()" no_redis
    "no_redis\<lparr>w_db := empty_db\<lparr>db_accounts := [\<lparr>acc_ID = 1, acc_Phone = ''+79001112233'', acc_PhoneVerifiedAt = 0,
        acc_Status = CustomerAccountBlocked, acc_CreatedAt = 0, acc_UpdatedAt = 0\<rparr>]\<rparr>\<rparr>"]
  by (simp add: demo_auth_def)

text \<open>
  C22: one code per cooldown. After a request for a code succeeded, another one for the same
  phone, however it is spelt, is refused while the cooldown lasts: nothing is sent, stored or
  counted.
\<close>

theorem one_code_per_cooldown:
  assumes "redis_store (ca_redis S)" "ca_sms S = (\<lambda>p m. gets (\<lambda>_. gateway p m))"
    and "NormalizePhone raw = Some phone" "NormalizePhone raw' = Some phone"
    and "0 < otp_ResendCooldown (cac_OTP (ca_cfg S))"
    and "run_state (RequestOTP S (quiet t) drawn raw ip) w = (Inr (), w')"
    and "msec_of t' < msec_of t + max 1 (msec_of (otp_ResendCooldown (cac_OTP (ca_cfg S))))"
  shows "run_state (RequestOTP S (quiet t') drawn' raw' ip') w' = (Inl ErrOTPCooldown, w')"
proof -
  have "rd_read (ca_redis S) (w_kv w') (msec_of t') (cooldown_key S phone) \<noteq> None"
    by (rule RequestOTP_acquired [OF assms(1,3,2) _ assms(6)]) (use assms(5,7) in \<open>simp_all add: expiry_def\<close>)
  then show ?thesis using assms(4,5) by (intro RequestOTP_cooling) simp_all
qed

lemmas request_eval = RequestOTP_def no_redis_def demo_auth_def demo_otp_def NormalizePhone_def is_digit_def acquireCooldown_def
  checkRateLimit_def incrWithWindow_def incrWithExpiry_def INCR_def PEXPIRE_def SETNX_def kv_def unexpired_def phoneKey_def
  ipKey_def HashOpaqueToken_def at_ms_def msec_of_def expiry_def run_andThen run_call run_on_kv run_on_db Let_def seconds_def
  GenerateOTPCode_def otp_store_def storeChallenge_def HSET_def auditLog_def

theorem one_code_per_cooldown_witness:
  "\<exists>w'. run_state (RequestOTP demo_auth (quiet 0) (Some 7) ''89001112233'' ''ip'') no_redis = (Inr (), w') \<and>
     run_state (RequestOTP demo_auth (quiet 59000000000) (Some 8) ''+7 900 111-22-33'' ''ip2'') w' = (Inl ErrOTPCooldown, w')"
proof -
  obtain w' where 1: "run_state (RequestOTP demo_auth (quiet 0) (Some 7) ''89001112233'' ''ip'') no_redis = (Inr (), w')"
    by (simp add: request_eval)
  have "run_state (RequestOTP demo_auth (quiet 59000000000) (Some 8) ''+7 900 111-22-33'' ''ip2'') w' = (Inl ErrOTPCooldown, w')"
    by (rule one_code_per_cooldown [OF _ _ _ _ _ 1, where phone = "''+79001112233''" and gateway = "\<lambda>_ _. Inr ()"])
       (simp_all add: demo_auth_def demo_otp_def kv.redis_store_axioms msec_of_def NormalizePhone_def is_digit_def Let_def)
  with 1 show ?thesis by blast
qed

text \<open>
  A code that could not be generated still locks the phone. When \<open>GenerateOTPCode\<close> fails (and
  likewise when the challenge cannot be stored), \<open>RequestOTP\<close> returns without releasing the
  cooldown it acquired, so the customer has to wait for the full cooldown although no code was
  sent.
\<close>

theorem failed_code_keeps_cooldown:
  assumes "redis_store (ca_redis S)" "ca_sms S = (\<lambda>p m. gets (\<lambda>_. gateway p m))"
    and "NormalizePhone raw = Some phone" "0 < otp_ResendCooldown (cac_OTP (ca_cfg S))"
    and "run_state (RequestOTP S (quiet t) None raw ip) w = (Inl ErrInternal, w')"
    and "msec_of t' < msec_of t + max 1 (msec_of (otp_ResendCooldown (cac_OTP (ca_cfg S))))"
  shows "run_state (RequestOTP S (quiet t') drawn raw ip) w' = (Inl ErrOTPCooldown, w')"
proof -
  have "rd_read (ca_redis S) (w_kv w') (msec_of t') (cooldown_key S phone) \<noteq> None"
    by (rule RequestOTP_acquired [OF assms(1,3,2) _ assms(5)]) (use assms(4,6) in \<open>simp_all add: expiry_def\<close>)
  then show ?thesis using assms(3,4) by (intro RequestOTP_cooling) simp_all
qed

theorem failed_code_keeps_cooldown_witness:
  "\<exists>w'. run_state (RequestOTP demo_auth (quiet 0) None ''89001112233'' ''ip'') no_redis = (Inl ErrInternal, w') \<and>
     run_state (RequestOTP demo_auth (quiet 1000000000) (Some 8) ''89001112233'' ''ip'') w' = (Inl ErrOTPCooldown, w')"
proof -
  obtain w' where 1: "run_state (RequestOTP demo_auth (quiet 0) None ''89001112233'' ''ip'') no_redis = (Inl ErrInternal, w')"
    by (simp add: request_eval)
  have "run_state (RequestOTP demo_auth (quiet 1000000000) (Some 8) ''89001112233'' ''ip'') w' = (Inl ErrOTPCooldown, w')"
    by (rule failed_code_keeps_cooldown [OF _ _ _ _ 1, where phone = "''+79001112233''" and gateway = "\<lambda>_ _. Inr ()"])
       (simp_all add: demo_auth_def demo_otp_def kv.redis_store_axioms msec_of_def NormalizePhone_def is_digit_def Let_def)
  with 1 show ?thesis by blast
qed

text \<open>
  C23: a stolen token or a blocked account leaves no session behind. Undisturbed, presenting a
  refresh token that was already rotated or revoked fails with \<open>ErrSessionInvalid\<close>, presenting a live one of
  an account that is not active with \<open>ErrAccountBlocked\<close> (provided the token drawn for the
  successor is not one in use), and either leaves every session of the account revoked.
\<close>

theorem refused_refresh_revokes_all:
  assumes "find (\<lambda>s. ses_RefreshTokenHash s = HashOpaqueToken (ca_hash S) token) (db_sessions (w_db w)) = Some s"
    and "GenerateRefreshToken (ca_hash S) drawn = Some (fresh, h)"
    and "ses_RevokedAt s \<noteq> None \<or>
      t \<le> ses_ExpiresAt s \<and> list_all (\<lambda>x. ses_RefreshTokenHash x \<noteq> h) (db_sessions (w_db w)) \<and>
      find (\<lambda>a. acc_ID a = ses_CustomerAccountID s) (db_accounts (w_db w)) = Some a \<and> acc_Status a \<noteq> CustomerAccountActive"
    and "run_state (Refresh S (quiet t) drawn token ip ua) w = (r, w')"
  shows "r = Inl (if ses_RevokedAt s \<noteq> None then ErrSessionInvalid else ErrAccountBlocked) \<and>
    list_all (\<lambda>x. ses_CustomerAccountID x = ses_CustomerAccountID s \<longrightarrow> ses_RevokedAt x \<noteq> None) (db_sessions (w_db w'))"
proof -
  let ?n = "new_session 0 h (t + cac_RefreshTokenTTL (ca_cfg S)) ua ip"
  let ?h = "HashOpaqueToken (ca_hash S) token" and ?acc = "ses_CustomerAccountID s"
  let ?claim = "run_state (session_ClaimForRotation (\<lambda>_. False) t t ?h ?n) (w_db w)"
  show ?thesis
  proof (cases "ses_RevokedAt s")
    case (Some revoked)
    with assms(1) have "?claim = (Inr (Reused s), w_db w)"
      by (simp add: session_ClaimForRotation_def run_transaction_of run_andThen)
    with assms(2,4) have "r = Inl ErrSessionInvalid"
      "w' = after (auditLog (quiet t) AuditActorCustomer (Some ?acc) AuditActionCustomerRefreshReuse ip ua)
              (after (revokeAll (quiet t) (''revoke'', 0) ?acc) w)"
      by (auto simp: Refresh_def Let_def run_call run_on_db run_andThen auditLog_def)
    then show ?thesis
      using Some revokeAll_quiet [of ?acc t "(''revoke'', 0)" w] by (simp add: no_session_left_def audit_sessions)
  next
    case None
    with assms(3) have live: "t \<le> ses_ExpiresAt s" "list_all (\<lambda>x. ses_RefreshTokenHash x \<noteq> h) (db_sessions (w_db w))"
      and blocked: "find (\<lambda>a. acc_ID a = ?acc) (db_accounts (w_db w)) = Some a" "acc_Status a \<noteq> CustomerAccountActive" by auto
    have known: "known_account (w_db w) ?acc" using find_SomeD [OF blocked(1)] by (auto simp: known_account_def list_ex_iff)
    obtain new d' where claim: "?claim = (Inr (Rotated s new), d')" "ses_CustomerAccountID new = ?acc" "db_accounts d' = db_accounts (w_db w)"
      using assms(1) None live known
      by (auto simp: session_ClaimForRotation_def run_transaction_of run_andThen run_session_Create session_link_def Let_def
          new_session_def list_ex_iff list_all_iff)
    have "r = Inl ErrAccountBlocked" "w' = after (revokeAll (quiet t) (''revoke'', 1) ?acc) (w\<lparr>w_db := d'\<rparr>)"
      using assms(2,4) claim blocked
      by (auto simp: Refresh_def Let_def run_call run_on_db run_andThen account_GetByID_def)
    then show ?thesis
      using None revokeAll_quiet [of ?acc t "(''revoke'', 1)" "w\<lparr>w_db := d'\<rparr>"] by (simp add: no_session_left_def)
  qed
qed

text \<open>A live session of a blocked account, beside another one.\<close>

definition session_of :: "int \<Rightarrow> string \<Rightarrow> customer_session" where
  "session_of i h = (new_session 1 h 100 [] [])\<lparr>ses_ID := i\<rparr>"

definition blocked_account :: customer_account where
  "blocked_account = \<lparr>acc_ID = 1, acc_Phone = ''+79001112233'', acc_PhoneVerifiedAt = 0, acc_Status = CustomerAccountBlocked,
     acc_CreatedAt = 0, acc_UpdatedAt = 0\<rparr>"

theorem refused_refresh_revokes_all_witness:
  "\<exists>w'. run_state (Refresh demo_auth (quiet 50) (Some [1, 2, 3, 4]) ''tok'' [] [])
       (no_redis\<lparr>w_db := empty_db\<lparr>db_accounts := [blocked_account], db_sessions := [session_of 1 ''tok'', session_of 2 ''tok2'']\<rparr>\<rparr>) =
       (Inl ErrAccountBlocked, w') \<and>
     list_all (\<lambda>x. (ses_CustomerAccountID x = 1) \<le> (ses_RevokedAt x \<noteq> None)) (db_sessions (w_db w'))"
proof -
  let ?w = "no_redis\<lparr>w_db := empty_db\<lparr>db_accounts := [blocked_account], db_sessions := [session_of 1 ''tok'', session_of 2 ''tok2'']\<rparr>\<rparr>"
  obtain r w' where 1: "run_state (Refresh demo_auth (quiet 50) (Some [1, 2, 3, 4]) ''tok'' [] []) ?w = (r, w')" by fastforce
  have drawn: "GenerateRefreshToken (ca_hash demo_auth) (Some [1, 2, 3, 4]) = Some (base64url [1, 2, 3, 4], base64url [1, 2, 3, 4])"
    by (simp add: GenerateRefreshToken_def demo_auth_def HashOpaqueToken_def Let_def)
  have "r = Inl (if ses_RevokedAt (session_of 1 ''tok'') \<noteq> None then ErrSessionInvalid else ErrAccountBlocked) \<and>
    list_all (\<lambda>x. ses_CustomerAccountID x = ses_CustomerAccountID (session_of 1 ''tok'') \<longrightarrow> ses_RevokedAt x \<noteq> None) (db_sessions (w_db w'))"
    by (rule refused_refresh_revokes_all [OF _ drawn _ 1, where a = blocked_account])
       (simp_all add: demo_auth_def HashOpaqueToken_def session_of_def new_session_def blocked_account_def base64_char_def)
  with 1 show ?thesis by (auto simp: session_of_def new_session_def list_all_iff)
qed

text \<open>
  C24: a refresh replaces the session. Undisturbed, a successful \<open>Refresh\<close> was presented with the
  token of a live session of an active account; afterwards that session is revoked and names
  its successor, and the returned refresh token names a live session of the same account that
  expires as announced.
\<close>

theorem refresh_replaces_session:
  assumes "run_state (Refresh S (quiet t) drawn token ip ua) w = (Inr tokens, w')" and "identity_reachable (w_db w)"
  shows "\<exists>old s' new. find (\<lambda>s. ses_RefreshTokenHash s = ca_hash S token) (db_sessions (w_db w)) = Some old \<and>
      ses_RevokedAt old = None \<and> t \<le> ses_ExpiresAt old \<and>
      list_ex (\<lambda>a. acc_ID a = ses_CustomerAccountID old \<and> acc_Status a = CustomerAccountActive) (db_accounts (w_db w)) \<and>
      find (\<lambda>s. ses_RefreshTokenHash s = ca_hash S token) (db_sessions (w_db w')) = Some s' \<and>
      ses_RevokedAt s' = Some t \<and> ses_ReplacedByID s' = Some (ses_ID new) \<and>
      find (\<lambda>s. ses_RefreshTokenHash s = ca_hash S (cat_RefreshToken tokens)) (db_sessions (w_db w')) = Some new \<and>
      ses_CustomerAccountID new = ses_CustomerAccountID old \<and> ses_RevokedAt new = None \<and>
      ses_ExpiresAt new = cat_RefreshTokenExpiresAt tokens"
proof -
  obtain tok h where gen: "GenerateRefreshToken (ca_hash S) drawn = Some (tok, h)" and h: "h = ca_hash S tok"
    using assms(1) by (cases drawn) (auto simp: Refresh_def GenerateRefreshToken_def HashOpaqueToken_def Let_def)
  let ?n = "new_session 0 h (t + cac_RefreshTokenTTL (ca_cfg S)) ua ip"
  let ?h = "HashOpaqueToken (ca_hash S) token"
  show ?thesis
  proof (cases rule: ClaimForRotation_cases [of "\<lambda>_. False" t t ?h ?n "w_db w"])
    case (failed e d')
    with assms(1) gen show ?thesis by (auto simp: Refresh_def Let_def run_call run_on_db split: if_splits)
  next
    case (reused old)
    with assms(1) gen show ?thesis by (auto simp: Refresh_def Let_def run_call run_on_db run_andThen split: prod.splits sum.splits)
  next
    case (rotated old new d1)
    let ?d2 = "after (session_link t (ses_ID old) (ses_ID new)) d1"
    have accounts: "db_accounts ?d2 = db_accounts (w_db w)" "ses_CustomerAccountID new = ses_CustomerAccountID old"
      using rotated(4) by (auto simp: run_session_Create session_link_def Let_def new_session_def split: if_splits)
    then have w': "w_db w' = ?d2" and t: "cat_RefreshToken tokens = tok" "cat_RefreshTokenExpiresAt tokens = ses_ExpiresAt new"
      and active: "list_ex (\<lambda>a. acc_ID a = ses_CustomerAccountID old \<and> acc_Status a = CustomerAccountActive) (db_accounts (w_db w))"
      using assms(1) rotated(5) gen
      by (auto simp: Refresh_def Let_def run_call run_on_db run_andThen account_GetByID_def list_ex_iff
          dest!: find_SomeD split: option.splits if_splits)
    let ?row = "?n\<lparr>ses_CustomerAccountID := ses_CustomerAccountID old, ses_ID := db_seq (w_db w) T_sessions + 1,
      ses_ReplacedByID := None, ses_IssuedAt := t, ses_RevokedAt := None\<rparr>"
    have new: "new = ?n\<lparr>ses_CustomerAccountID := ses_CustomerAccountID old, ses_ID := db_seq (w_db w) T_sessions + 1, ses_IssuedAt := t\<rparr>"
      and d1: "db_sessions d1 = db_sessions (w_db w) @ [?row]"
      and fresh: "\<not> list_ex (\<lambda>r. ses_RefreshTokenHash r = h) (db_sessions (w_db w))"
      using rotated(4) by (auto simp: run_session_Create Let_def new_session_def split: if_splits)
    obtain s' where "find (\<lambda>s. ses_RefreshTokenHash s = ?h) (db_sessions ?d2) = Some s'" "ses_RevokedAt s' = Some t"
      "ses_ReplacedByID s' = Some (ses_ID new)"
      using rotated_row [OF rotated(5)] by auto
    moreover have "\<exists>row. find (\<lambda>s. ses_RefreshTokenHash s = h) (db_sessions ?d2) = Some row \<and> ses_ID row = ses_ID new \<and>
        ses_RevokedAt row = None \<and> ses_CustomerAccountID row = ses_CustomerAccountID old \<and> ses_ExpiresAt row = ses_ExpiresAt new"
    proof -
      have "find (\<lambda>s. ses_RefreshTokenHash s = h) (db_sessions (w_db w)) = None"
        using fresh by (auto simp: find_None list_ex_iff)
      then have "find (\<lambda>s. ses_RefreshTokenHash s = h) (db_sessions d1) = Some ?row"
        by (simp add: d1 find_append new_session_def)
      moreover have "ses_ID old \<noteq> db_seq (w_db w) T_sessions + 1"
        using identity_reachable_wf [OF assms(2)] find_SomeD [OF rotated(1)] by (force simp: identity_wf_def)
      ultimately show ?thesis by (simp add: session_link_def find_map_same new new_session_def)
    qed
    ultimately show ?thesis using rotated(1-3) w' t h active unfolding HashOpaqueToken_def by auto
  qed
qed

definition session_world :: "keyspace world" where
  "session_world = no_redis\<lparr>w_db := after (session_Create 0 (new_session 1 ''tok'' 100 [] []))
     (empty_db\<lparr>db_accounts := [\<lparr>acc_ID = 1, acc_Phone = ''+79001112233'', acc_PhoneVerifiedAt = 0,
        acc_Status = CustomerAccountActive, acc_CreatedAt = 0, acc_UpdatedAt = 0\<rparr>]\<rparr>)\<rparr>"

lemma session_world_reachable: "identity_reachable (w_db session_world)"
proof -
  let ?a = "empty_db\<lparr>db_accounts := [\<lparr>acc_ID = 1, acc_Phone = ''+79001112233'', acc_PhoneVerifiedAt = 0,
        acc_Status = CustomerAccountActive, acc_CreatedAt = 0, acc_UpdatedAt = 0\<rparr>]\<rparr>"
  have "identity_step empty_db ?a" by (rule identity_step.other) (simp_all add: identity_tables_def empty_db_def)
  then have "identity_step\<^sup>*\<^sup>* empty_db ?a" ..
  then have "identity_step\<^sup>*\<^sup>* empty_db (after (session_Create 0 (new_session 1 ''tok'' 100 [] [])) ?a)"
    by (rule rtranclp.rtrancl_into_rtrancl) (rule create_session)
  then show ?thesis by (simp add: identity_reachable_def session_world_def)
qed

theorem refresh_replaces_session_witness:
  "\<exists>tokens w' new. run_state (Refresh demo_auth (quiet 50) (Some [1, 2, 3]) ''tok'' [] []) session_world = (Inr tokens, w') \<and>
     find (\<lambda>s. ses_RefreshTokenHash s = cat_RefreshToken tokens) (db_sessions (w_db w')) = Some new \<and> ses_RevokedAt new = None"
proof -
  obtain tok where "IssueCustomerAccessToken plain_jwt 50 ''secret'' 1 900000000000 = Some tok"
    using customer_token_issued by blast
  moreover have "base64url [1, 2, 3] \<noteq> ''tok''" by (simp add: base64_char_def)
  ultimately obtain tokens w' where
    1: "run_state (Refresh demo_auth (quiet 50) (Some [1, 2, 3]) ''tok'' [] []) session_world = (Inr tokens, w')"
    by (simp add: Refresh_def session_world_def demo_auth_def no_redis_def GenerateRefreshToken_def HashOpaqueToken_def
        session_ClaimForRotation_def run_transaction_of run_andThen run_call run_on_db session_Create_def session_link_def
        known_account_def new_session_def account_GetByID_def empty_db_def Let_def)
  from refresh_replaces_session [OF 1 session_world_reachable] 1 show ?thesis by (auto simp: demo_auth_def)
qed

end
