(* ===== verification/Qr_Service.thy ===== *)
theory Qr_Service
  imports Qr_Store Customer_Auth
begin

text \<open>
  \<open>internal/service/qr.go\<close>: identification of a customer by a one-time QR token. Issuing wraps
  the store; resolving claims the token, finds or creates the store's client of the account it
  names, and finalizes the claim, or releases it after a failure of the infrastructure.
\<close>

record 'k qr_service =
  qs_redis :: "'k redis"
  qs_hash :: hash
  qs_cfg :: qr_config
  qs_audit :: bool

definition AuditActionQRResolved :: string where
  "AuditActionQRResolved = ''qr.resolved''"

text \<open>\<open>Inr (IssueCooldown d)\<close> is \<open>ErrQRIssueCooldown\<close> with the time to wait.\<close>

definition IssueQR :: "'k qr_service \<Rightarrow> 'k world env \<Rightarrow> nat list option \<Rightarrow> int \<Rightarrow> ('k world, qr_issued) op" where
  "IssueQR S E drawn customerAccountID = qr_issue (qs_redis S) (qs_hash S) (qs_cfg S) E customerAccountID drawn"

definition linkTo :: "'k world env \<Rightarrow> nat \<Rightarrow> client \<Rightarrow> customer_account \<Rightarrow> ('k world, client) op" where
  "linkTo E k c account =
     andThen (call E (''qr.link'', k) (on_db (client_LinkCustomerAccount (cl_ID c) (acc_ID account)))) (\<lambda>_. ok c)"

definition resolveOrCreateClientForAccount :: "'k world env \<Rightarrow> int \<Rightarrow> customer_account \<Rightarrow> ('k world, client) op" where
  "resolveOrCreateClientForAccount E storeID account =
     andThen (call E (''qr.client'', 0) (on_db (client_ListByCustomerAccount (acc_ID account)))) (\<lambda>existing.
     case find (\<lambda>c. cl_StoreID c = storeID) existing of
       Some c \<Rightarrow> ok c
     | None \<Rightarrow>
         State_Monad.bind (call E (''qr.client'', 1) (on_db (client_GetByPhone storeID (acc_Phone account)))) (\<lambda>r.
         case r of
           Inr c \<Rightarrow> linkTo E 0 c account
         | Inl e \<Rightarrow>
             if e \<noteq> ErrNotFound then fail e
             else
               let l = (''qr.client'', 2) in
               State_Monad.bind (call E l (on_db (client_Create (env_now E l)
                 \<lparr>cl_ID = 0, cl_StoreID = storeID, cl_Phone = acc_Phone account, cl_CustomerAccountID = None,
                  cl_CreatedAt = env_now E l\<rparr>))) (\<lambda>r2.
               case r2 of
                 Inr c \<Rightarrow> linkTo E 1 c account
               | Inl e2 \<Rightarrow>
                   if e2 = ErrConflict
                   then andThen (call E (''qr.client'', 3) (on_db (client_GetByPhone storeID (acc_Phone account))))
                          (\<lambda>c. linkTo E 1 c account)
                   else fail e2)))"

definition auditResolved :: "'k qr_service \<Rightarrow> 'k world env \<Rightarrow> int \<Rightarrow> int \<Rightarrow> ('k world, unit) op" where
  "auditResolved S E storeID clientID =
     (let l = (''qr.audit'', 0) in
      if qs_audit S
      then logged (call E l (on_db (audit_Create (env_now E l)
        ((audit_of AuditActorStoreAPIKey None AuditActionQRResolved [] [])
           \<lparr>aud_OccurredAt := env_now E l, aud_StoreID := Some storeID, aud_TargetType := ''client'',
            aud_TargetID := Some clientID\<rparr>))))
      else ok ())"

text \<open>From an active account on; the deferred \<open>finalize\<close> and \<open>release\<close> of the code resolve the claim once.\<close>

definition resolveForAccount ::
    "'k qr_service \<Rightarrow> 'k world env \<Rightarrow> int \<Rightarrow> string \<Rightarrow> customer_account \<Rightarrow> ('k world, client \<times> balance) op" where
  "resolveForAccount S E storeID tokenHash account =
     (let release = logged (qr_release (qs_redis S) E tokenHash) in
      State_Monad.bind (resolveOrCreateClientForAccount E storeID account) (\<lambda>r.
      case r of
        Inl e \<Rightarrow> andThen release (\<lambda>_. fail e)
      | Inr c \<Rightarrow>
          State_Monad.bind (call E (''qr.balance'', 0) (on_db (balance_Get (cl_ID c)))) (\<lambda>r2.
          case r2 of
            Inl e \<Rightarrow> andThen release (\<lambda>_. fail e)
          | Inr b \<Rightarrow>
              andThen (logged (qr_finalize (qs_redis S) E tokenHash)) (\<lambda>_.
              andThen (auditResolved S E storeID (cl_ID c)) (\<lambda>_.
              ok (c, b))))))"

definition resolveClaimed ::
    "'k qr_service \<Rightarrow> 'k world env \<Rightarrow> int \<Rightarrow> int \<Rightarrow> string \<Rightarrow> ('k world, client \<times> balance) op" where
  "resolveClaimed S E storeID customerAccountID tokenHash =
     (let finalize = logged (qr_finalize (qs_redis S) E tokenHash); release = logged (qr_release (qs_redis S) E tokenHash) in
      State_Monad.bind (call E (''qr.account'', 0) (on_db (account_GetByID customerAccountID))) (\<lambda>r.
      case r of
        Inl e \<Rightarrow>
          if e = ErrNotFound then andThen finalize (\<lambda>_. fail ErrQRGone)
          else andThen release (\<lambda>_. fail e)
      | Inr account \<Rightarrow>
          if acc_Status account \<noteq> CustomerAccountActive then andThen finalize (\<lambda>_. fail ErrQRGone)
          else resolveForAccount S E storeID tokenHash account))"

definition ResolveQR ::
    "'k qr_service \<Rightarrow> 'k world env \<Rightarrow> int \<Rightarrow> string \<Rightarrow> string \<Rightarrow> ('k world, client \<times> balance) op" where
  "ResolveQR S E storeID payload consumePrincipal =
     andThen (checkConsumeCooldown (qs_redis S) (qs_hash S) (qs_cfg S) E consumePrincipal) (\<lambda>wait.
     if wait \<noteq> None then fail ErrQRConsumeCooldown
     else
     State_Monad.bind (qr_claim (qs_redis S) (qs_hash S) E payload) (\<lambda>claim.
     case claim of
       Inl e \<Rightarrow> fail (if e = errQRMalformed then ErrQRMalformed else if e = errQRGone then ErrQRGone else e)
     | Inr (customerAccountID, tokenHash) \<Rightarrow> resolveClaimed S E storeID customerAccountID tokenHash))"

end
