(* ===== verification/Qr_Theorems.thy ===== *)
theory Qr_Theorems
  imports Qr_Service Customer_Steps Token_Theorems
begin

text \<open>The properties of the identification of a customer by QR.\<close>

lemma yields_linkTo: "P c \<Longrightarrow> yields P (linkTo E k c account)"
  unfolding linkTo_def by (intro yields_andThen [OF yields_True] yields_ok)

lemma yields_client_GetByPhone: "yields (\<lambda>c. cl_StoreID c = s) (client_GetByPhone s phone)"
  by (auto simp: yields_def client_GetByPhone_def split: option.splits dest!: find_SomeD)

lemma yields_client_Create: "cl_StoreID c = s \<Longrightarrow> yields (\<lambda>c. cl_StoreID c = s) (client_Create now c)"
  by (auto simp: yields_def client_Create_def run_andThen Let_def split: if_splits)

lemma yields_resolveClient: "yields (\<lambda>c. cl_StoreID c = s) (resolveOrCreateClientForAccount E s account)"
  unfolding resolveOrCreateClientForAccount_def Let_def
proof (rule yields_andThen [OF yields_True])
  fix existing
  let ?P = "\<lambda>c. cl_StoreID c = s"
  have get: "yields ?P (call E l (on_db (client_GetByPhone s p)))" for l p
    by (intro yields_call yields_on_db yields_client_GetByPhone)
  have create: "yields ?P (call E l (on_db (client_Create t \<lparr>cl_ID = 0, cl_StoreID = s, cl_Phone = p, cl_CustomerAccountID = None,
      cl_CreatedAt = t\<rparr>)))" for l t p
    by (intro yields_call yields_on_db yields_client_Create) simp
  show "yields ?P (case find (\<lambda>c. cl_StoreID c = s) existing of Some c \<Rightarrow> ok c | None \<Rightarrow>
      State_Monad.bind (call E (''qr.client'', 1) (on_db (client_GetByPhone s (acc_Phone account)))) (\<lambda>r.
         case r of Inr c \<Rightarrow> linkTo E 0 c account
         | Inl e \<Rightarrow> if e \<noteq> ErrNotFound then fail e
             else State_Monad.bind (call E (''qr.client'', 2) (on_db (client_Create (env_now E (''qr.client'', 2))
                 \<lparr>cl_ID = 0, cl_StoreID = s, cl_Phone = acc_Phone account, cl_CustomerAccountID = None,
                  cl_CreatedAt = env_now E (''qr.client'', 2)\<rparr>))) (\<lambda>r2.
               case r2 of Inr c \<Rightarrow> linkTo E 1 c account
               | Inl e2 \<Rightarrow> if e2 = ErrConflict
                   then andThen (call E (''qr.client'', 3) (on_db (client_GetByPhone s (acc_Phone account)))) (\<lambda>c. linkTo E 1 c account)
                   else fail e2)))"
    by (auto split: option.split dest!: find_SomeD
        intro!: yields_ok yields_fail yields_bind [OF get] yields_bind [OF create] yields_andThen [OF get] yields_linkTo)
qed

lemma yields_resolved: "yields (\<lambda>(c, b). cl_StoreID c = storeID) (resolveClaimed S E storeID i h)"
proof -
  have failing: "yields Q (andThen m (\<lambda>_. fail e))" for Q :: "client \<times> balance \<Rightarrow> bool" and m :: "('a world, unit) op" and e
    by (intro yields_andThen [OF yields_True] yields_fail)
  have "yields (\<lambda>(c, b). cl_StoreID c = storeID) (resolveForAccount S E storeID h account)" for account
    unfolding resolveForAccount_def Let_def
    by (rule yields_bind [OF yields_resolveClient])
      (auto intro!: yields_bind [OF yields_True] failing yields_andThen [OF yields_True] yields_ok)
  then show ?thesis
    unfolding resolveClaimed_def Let_def by (auto intro!: yields_bind [OF yields_True] failing)
qed

section \<open>Runs without other requests\<close>

text \<open>No other request, a clock that stands still; calls may fail.\<close>

definition calm :: "'k world env \<Rightarrow> time \<Rightarrow> bool" where
  "calm E t \<longleftrightarrow> env_other E = (\<lambda>_ w. w) \<and> env_now E = (\<lambda>_. t)"

lemma calm_quiet [simp]: "calm (quiet t) t"
  by (simp add: calm_def fun_eq_iff)

lemma calm_keeps: "calm E t \<Longrightarrow> reflp Q \<Longrightarrow> keeps Q m \<Longrightarrow> keeps Q (call E l m)"
  by (auto simp: calm_def keeps_def run_call reflp_def split: fault.split)

lemma calm_db_keeps: "calm E t \<Longrightarrow> keeps (same_key_at R k) (call E l (on_db m))"
  by (rule calm_keeps [OF _ same_key_refl on_db_same_key])

lemma bind_keeps: "transp Q \<Longrightarrow> keeps Q m \<Longrightarrow> (\<And>x. keeps Q (f x)) \<Longrightarrow> keeps Q (State_Monad.bind m f)"
  by (rule keeps_bind)

lemma linkTo_same_key: "calm E t \<Longrightarrow> keeps (same_key_at R k) (linkTo E i c account)"
  unfolding linkTo_def by (intro keeps_andThen calm_db_keeps keeps_ok) simp_all

lemma resolveClient_same_key:
  assumes "calm E t"
  shows "keeps (same_key_at R k) (resolveOrCreateClientForAccount E storeID account)"
  unfolding resolveOrCreateClientForAccount_def Let_def
  by (auto intro!: keeps_andThen bind_keeps calm_db_keeps [OF assms] linkTo_same_key [OF assms] keeps_ok keeps_fail
      split: option.split sum.split)

lemma auditResolved_same_key: "calm E t \<Longrightarrow> keeps (same_key_at R k) (auditResolved S E storeID i)"
  unfolding auditResolved_def Let_def by (auto intro!: logged_keeps calm_db_keeps keeps_ok)

text \<open>How a resolve of a claimed token can end: finalized, or with the claim handed back.\<close>

lemma resolveForAccount_end:
  assumes "calm E t" "run_state (resolveForAccount S E storeID h account) w = (r, w')"
  obtains (finished) x w1 where "r = Inr x" "same_key_at (qs_redis S) k w w1"
      "same_key_at (qs_redis S) k (after (qr_finalize (qs_redis S) E h) w1) w'"
  | (failed) e w1 where "r = Inl e" "same_key_at (qs_redis S) k w w1" "w' = after (qr_release (qs_redis S) E h) w1"
proof -
  let ?R = "qs_redis S"
  obtain r1 w1 where 1: "run_state (resolveOrCreateClientForAccount E storeID account) w = (r1, w1)" by fastforce
  have k1: "same_key_at ?R k w w1" using keepsD [OF resolveClient_same_key [OF assms(1)], where s = w] 1 by (metis snd_conv)
  show thesis
  proof (cases r1)
    case (Inl e)
    with 1 assms(2) k1 show thesis by (intro failed) (auto simp: resolveForAccount_def Let_def run_andThen)
  next
    case (Inr c)
    obtain r2 w2 where 2: "run_state (call E (''qr.balance'', 0) (on_db (balance_Get (cl_ID c)))) w1 = (r2, w2)" by fastforce
    have "same_key_at ?R k w1 w2" using keepsD [OF calm_db_keeps [OF assms(1)], where s = w1] 2 by (metis snd_conv)
    with k1 have k2: "same_key_at ?R k w w2" by (simp add: same_key_at_def)
    show thesis
    proof (cases r2)
      case (Inl e)
      with 1 2 Inr assms(2) k2 show thesis by (intro failed) (auto simp: resolveForAccount_def Let_def run_andThen)
    next
      case (Inr b)
      let ?w3 = "after (qr_finalize ?R E h) w2"
      obtain r4 w4 where 4: "run_state (auditResolved S E storeID (cl_ID c)) ?w3 = (r4, w4)" by fastforce
      have "r4 = Inr ()" using 4 by (auto simp: auditResolved_def Let_def split: if_splits)
      with 1 2 4 \<open>r1 = Inr c\<close> Inr assms(2) have "r = Inr (c, b)" "w' = w4"
        by (auto simp: resolveForAccount_def Let_def run_andThen)
      moreover have "same_key_at ?R k ?w3 w4"
        using keepsD [OF auditResolved_same_key [OF assms(1)], where s = ?w3] 4 by (metis snd_conv)
      ultimately show thesis using k2 by (intro finished) simp_all
    qed
  qed
qed

lemma finalize_same_key:
  assumes "redis_store (qs_redis S)" "calm E t"
  shows "keeps (same_key_at (qs_redis S) (qrTokenKey h)) (qr_finalize (qs_redis S) E h)"
  unfolding qr_finalize_def
  by (rule calm_keeps [OF assms(2) same_key_refl])
     (simp add: redis_store.on_kv_same_key [OF assms(1)] redis_store.read_delete [OF assms(1)])

text \<open>A successful resolve leaves the token key as the claim left it: gone.\<close>

lemma resolveClaimed_token:
  assumes "redis_store (qs_redis S)" "calm E t" "run_state (resolveClaimed S E storeID i h) w = (Inr x, w')"
  shows "same_key_at (qs_redis S) (qrTokenKey h) w w'"
proof -
  let ?R = "qs_redis S" and ?k = "qrTokenKey h"
  obtain r1 w1 where 1: "run_state (call E (''qr.account'', 0) (on_db (account_GetByID i))) w = (r1, w1)" by fastforce
  have k1: "same_key_at ?R ?k w w1" using keepsD [OF calm_db_keeps [OF assms(2)], where s = w] 1 by (metis snd_conv)
  obtain account where "r1 = Inr account" "run_state (resolveForAccount S E storeID h account) w1 = (Inr x, w')"
    using 1 assms(3) by (auto simp: resolveClaimed_def Let_def run_andThen split: sum.splits if_splits)
  from resolveForAccount_end [OF assms(2) this(2), of ?k] obtain w2 where
    "same_key_at ?R ?k w1 w2" "same_key_at ?R ?k (after (qr_finalize ?R E h) w2) w'" by auto
  moreover have "same_key_at ?R ?k w2 (after (qr_finalize ?R E h) w2)"
    by (rule keepsD [OF finalize_same_key [OF assms(1,2)]])
  ultimately show ?thesis using k1 by (simp add: same_key_at_def)
qed

text \<open>The claim takes the token key and leaves the claim key with its deadline.\<close>

lemma claim_keys:
  assumes "redis_store R" "calm E t" "run_state (qr_claim R sha E payload) w = (Inr (i, h), w')"
    and "parseQRPayload payload = Some token"
  shows "h = HashOpaqueToken sha token" and "rd_read R (w_kv w') now (qrTokenKey h) = None"
    and "\<exists>v e. rd_read R (w_kv w) (msec_of t) (qrTokenKey h) = Some (RString v, e) \<and>
      rd_read R (w_kv w') (msec_of t) (qrClaimKey h) = Some (RString v, Some (msec_of t + 30000))"
  using assms
  by (auto simp: qr_claim_def Let_def run_andThen run_call run_on_kv calm_def qrClaimScript_def GET_def SET_PX_def at_ms_def
      redis_store.read_write redis_store.read_delete split: fault.splits option.splits if_splits sum.splits prod.splits redis_value.splits)

lemma consume_keys_distinct [simp]: "qrTokenKey h \<noteq> qrConsumeCooldownKey sha who" "qrConsumeCooldownKey sha who \<noteq> qrTokenKey h"
  by (simp_all add: qrTokenKey_def qrConsumeCooldownKey_def)

lemma SETNX_other:
  "redis_store R \<Longrightarrow> k \<noteq> k' \<Longrightarrow> rd_read R (after (SETNX R now' k' v d) s) now k = rd_read R s now k"
  by (simp add: run_SETNX redis_store.read_write)

lemma TTL_same: "after (TTL R now k) s = s"
  by (simp add: TTL_def PTTL_def run_andThen split: sum.split)

lemma consume_same_key:
  assumes "redis_store R" "calm E t"
  shows "keeps (same_key_at R (qrTokenKey h)) (checkConsumeCooldown R sha cfg E who)"
  unfolding checkConsumeCooldown_def Let_def
  by (auto intro!: keeps_andThen calm_keeps [OF assms(2)] redis_store.on_kv_same_key [OF assms(1)] keeps_ok
      simp: SETNX_other [OF assms(1)] TTL_same)

text \<open>A resolve ends in the cooldown check, in the claim, or with the claimed token.\<close>

lemma ResolveQR_cases:
  assumes "redis_store (qs_redis S)" "calm E t" "run_state (ResolveQR S E storeID payload who) w = (r, w')"
  obtains (waiting) e where "r = Inl e" "same_key_at (qs_redis S) (qrTokenKey h) w w'"
  | (unclaimed) e w1 where "r = Inl (if e = errQRMalformed then ErrQRMalformed else if e = errQRGone then ErrQRGone else e)"
      "same_key_at (qs_redis S) (qrTokenKey h) w w1" "run_state (qr_claim (qs_redis S) (qs_hash S) E payload) w1 = (Inl e, w')"
  | (claimed) i g w1 w2 where "same_key_at (qs_redis S) (qrTokenKey h) w w1"
      "run_state (qr_claim (qs_redis S) (qs_hash S) E payload) w1 = (Inr (i, g), w2)"
      "run_state (resolveClaimed S E storeID i g) w2 = (r, w')"
proof -
  let ?R = "qs_redis S"
  obtain r1 w1 where 1: "run_state (checkConsumeCooldown ?R (qs_hash S) (qs_cfg S) E who) w = (r1, w1)" by fastforce
  have k: "same_key_at ?R (qrTokenKey h) w w1"
    using keepsD [OF consume_same_key [OF assms(1,2)], where s = w] 1 by (metis snd_conv)
  show thesis
  proof (cases "r1 = Inr None")
    case True
    obtain r2 w2 where 2: "run_state (qr_claim ?R (qs_hash S) E payload) w1 = (r2, w2)" by fastforce
    show thesis
    proof (cases r2)
      case (Inl e)
      with 1 2 True assms(3) k show thesis by (intro unclaimed) (auto simp: ResolveQR_def run_andThen)
    next
      case (Inr x)
      with 1 2 True assms(3) k show thesis by (cases x, intro claimed) (auto simp: ResolveQR_def run_andThen)
    qed
  next
    case False
    with 1 assms(3) have "w' = w1 \<and> (\<exists>e. r = Inl e)"
      by (cases r1) (auto simp: ResolveQR_def run_andThen)
    with k show thesis by (auto intro: waiting)
  qed
qed

lemma gone_token_refused:
  assumes "redis_store (qs_redis S)" "parseQRPayload payload = Some token"
    and "\<And>now. rd_read (qs_redis S) (w_kv w) now (qrTokenKey (HashOpaqueToken (qs_hash S) token)) = None"
  shows "fst (run_state (ResolveQR S (quiet t) storeID payload who) w) \<in> {Inl ErrQRGone, Inl ErrQRConsumeCooldown}"
proof -
  let ?R = "qs_redis S" and ?k = "qrTokenKey (HashOpaqueToken (qs_hash S) token)"
  obtain r1 w1 where 1: "run_state (checkConsumeCooldown ?R (qs_hash S) (qs_cfg S) (quiet t) who) w = (r1, w1)" by fastforce
  have "same_key_at ?R ?k w w1"
    using keepsD [OF consume_same_key [OF assms(1) calm_quiet], where s = w] 1 by (metis snd_conv)
  with assms(3) have "rd_read ?R (w_kv w1) now ?k = None" for now by (simp add: same_key_at_def)
  then have "fst (run_state (qr_claim ?R (qs_hash S) (quiet t) payload) w1) = Inl errQRGone"
    using assms(2) by (simp add: qr_claim_def Let_def run_andThen run_on_kv qrClaimScript_def GET_def)
  then obtain w2 where 2: "run_state (qr_claim ?R (qs_hash S) (quiet t) payload) w1 = (Inl errQRGone, w2)"
    by (metis prod.collapse)
  have "\<exists>x. r1 = Inr x"
    using 1 by (auto simp: checkConsumeCooldown_def Let_def run_andThen run_on_kv run_SETNX TTL_def PTTL_def
        split: if_splits option.splits prod.splits)
  then obtain wait where "r1 = Inr wait" by blast
  with 1 2 show ?thesis by (cases wait) (simp_all add: ResolveQR_def run_andThen)
qed

section \<open>What an undisturbed resolve finds\<close>

definition store_card :: "int \<Rightarrow> int \<Rightarrow> client \<Rightarrow> db \<Rightarrow> bool" where
  "store_card s acc c d \<longleftrightarrow> list_ex (\<lambda>r. cl_ID r = cl_ID c \<and> cl_StoreID r = s \<and> cl_CustomerAccountID r = Some acc) (db_clients d)"

lemma calm_other: "calm E t \<Longrightarrow> env_other E l w = w"
  by (simp add: calm_def)

lemma calm_call:
  "calm E t \<Longrightarrow> run_state (call E l m) w =
     (case env_fault E l of NoFault \<Rightarrow> run_state m w | FailBefore \<Rightarrow> (Inl ErrInternal, w) | AckLost \<Rightarrow> (Inl ErrInternal, after m w))"
  by (simp add: calm_other run_call split: fault.split)

lemma calm_Inr: "calm E t \<Longrightarrow> run_state (call E l m) w = (Inr x, w') \<Longrightarrow> run_state m w = (Inr x, w')"
  by (simp add: calm_call split: fault.splits)

lemma linkTo_card:
  assumes "calm E t" "run_state (linkTo E k c account) w = (Inr c', w')"
    and "\<exists>r\<in>set (db_clients (w_db w)). cl_ID r = cl_ID c \<and> cl_StoreID r = s"
  shows "c' = c \<and> store_card s (acc_ID account) c (w_db w') \<and> db_balances (w_db w') = db_balances (w_db w)"
proof -
  from assms(2) obtain u where "run_state (call E (''qr.link'', k) (on_db (client_LinkCustomerAccount (cl_ID c) (acc_ID account)))) w = (Inr u, w')"
    and c: "c' = c" by (auto simp: linkTo_def run_andThen split: prod.splits sum.splits)
  from calm_Inr [OF assms(1) this(1)] have "w_db w' = (w_db w)\<lparr>db_clients :=
      map (\<lambda>r. if cl_ID r = cl_ID c then r\<lparr>cl_CustomerAccountID := Some (acc_ID account)\<rparr> else r) (db_clients (w_db w))\<rparr>"
    by (auto simp: run_on_db client_LinkCustomerAccount_def split: if_splits)
  moreover from assms(3) obtain r where "r \<in> set (db_clients (w_db w))" "cl_ID r = cl_ID c" "cl_StoreID r = s" by blast
  ultimately show ?thesis
    using c by (auto simp: store_card_def list_ex_iff intro!: bexI [of _ "r\<lparr>cl_CustomerAccountID := Some (acc_ID account)\<rparr>"])
qed

lemma resolveClient_card:
  assumes "calm E t" "run_state (resolveOrCreateClientForAccount E s account) w = (Inr c, w')"
  shows "store_card s (acc_ID account) c (w_db w') \<and> db_balances (w_db w') = db_balances (w_db w)"
proof -
  let ?get = "\<lambda>k. call E (''qr.client'', k) (on_db (client_GetByPhone s (acc_Phone account)))"
  have got: "w1 = w0 \<and> (\<exists>r\<in>set (db_clients (w_db w0)). cl_ID r = cl_ID c0 \<and> cl_StoreID r = s)"
    if "run_state (?get k) w0 = (Inr c0, w1)" for k c0 w0 w1
    using calm_Inr [OF assms(1) that] by (auto simp: run_on_db client_GetByPhone_def select_one_def split: option.splits dest!: find_SomeD)
  have kept: "w_db w1 = w_db w0" if "run_state (?get k) w0 = (Inl e, w1)" for k e w0 w1
    using that by (auto simp: calm_call [OF assms(1)] run_on_db client_GetByPhone_def select_one_def split: fault.splits option.splits)
  let ?list = "call E (''qr.client'', 0) (on_db (client_ListByCustomerAccount (acc_ID account)))"
  obtain existing where "run_state ?list w = (Inr existing, w)"
    and existing: "existing = List.filter (\<lambda>c. cl_CustomerAccountID c = Some (acc_ID account)) (db_clients (w_db w))"
    using assms by (auto simp: resolveOrCreateClientForAccount_def run_andThen calm_call run_on_db client_ListByCustomerAccount_def
        select_all_def split: fault.splits prod.splits)
  note rest = assms(2) [unfolded resolveOrCreateClientForAccount_def Let_def run_andThen this(1), simplified]
  show ?thesis
  proof (cases "find (\<lambda>c. cl_StoreID c = s) existing")
    case (Some c0)
    with rest find_SomeD [OF Some] show ?thesis by (auto simp: existing store_card_def list_ex_iff)
  next
    case None
    let ?l = "(''qr.client'', 2)"
    let ?create = "call E ?l (on_db (client_Create (env_now E ?l)
        \<lparr>cl_ID = 0, cl_StoreID = s, cl_Phone = acc_Phone account, cl_CustomerAccountID = None, cl_CreatedAt = env_now E ?l\<rparr>))"
    obtain r1 w1 where 1: "run_state (?get 1) w = (r1, w1)" by fastforce
    show ?thesis
    proof (cases r1)
      case (Inr c1)
      with 1 None rest have "run_state (linkTo E 0 c1 account) w1 = (Inr c, w')" by simp
      with linkTo_card [OF assms(1) this] got [OF 1 [unfolded Inr]] show ?thesis by blast
    next
      case (Inl e)
      obtain r2 w2 where 2: "run_state ?create w1 = (r2, w2)" by fastforce
      have bal: "db_balances (w_db w2) = db_balances (w_db w1)"
        using 2 by (auto simp: calm_call [OF assms(1)] run_on_db client_Create_def run_andThen Let_def split: fault.splits if_splits)
      show ?thesis
      proof (cases r2)
        case (Inr c2)
        with 1 2 Inl None rest have link: "run_state (linkTo E 1 c2 account) w2 = (Inr c, w')" by (auto split: if_splits)
        have "\<exists>r\<in>set (db_clients (w_db w2)). cl_ID r = cl_ID c2 \<and> cl_StoreID r = s"
          using calm_Inr [OF assms(1) 2 [unfolded Inr]]
          by (auto simp: run_on_db client_Create_def run_andThen Let_def split: if_splits)
        from linkTo_card [OF assms(1) link this] bal kept [OF 1 [unfolded Inl]] show ?thesis by simp
      next
        case (Inl e2)
        with 1 2 \<open>r1 = Inl e\<close> None rest obtain c3 w3 where 3: "run_state (?get 3) w2 = (Inr c3, w3)"
          and link: "run_state (linkTo E 1 c3 account) w3 = (Inr c, w')"
          by (auto simp: run_andThen split: if_splits prod.splits sum.splits)
        from linkTo_card [OF assms(1) link] got [OF 3] bal kept [OF 1 [unfolded \<open>r1 = Inl e\<close>]] show ?thesis by auto
      qed
    qed
  qed
qed

text \<open>An undisturbed successful resolve, call by call, from the claim on.\<close>

lemma resolveClaimed_card:
  assumes "calm E t" "run_state (resolveClaimed S E s i h) w = (Inr (c, b), w')"
  obtains account where "find (\<lambda>a. acc_ID a = i) (db_accounts (w_db w)) = Some account" "acc_Status account = CustomerAccountActive"
    "store_card s (acc_ID account) c (w_db w')" "db_balances (w_db w') = db_balances (w_db w)"
    "b = \<lparr>bal_ClientID = cl_ID c, bal_Points = points_of (w_db w) (cl_ID c)\<rparr>"
proof -
  obtain r1 w1 where 1: "run_state (call E (''qr.account'', 0) (on_db (account_GetByID i))) w = (r1, w1)" by fastforce
  from 1 assms(2) obtain account where r1: "r1 = Inr account" and active: "acc_Status account = CustomerAccountActive"
    and rest: "run_state (resolveForAccount S E s h account) w1 = (Inr (c, b), w')"
    by (auto simp: resolveClaimed_def Let_def run_andThen split: sum.splits if_splits)
  from calm_Inr [OF assms(1) 1 [unfolded r1]] have acc: "find (\<lambda>a. acc_ID a = i) (db_accounts (w_db w)) = Some account" "w_db w1 = w_db w"
    by (auto simp: run_on_db account_GetByID_def split: option.splits)
  obtain r2 w2 where 2: "run_state (resolveOrCreateClientForAccount E s account) w1 = (r2, w2)" by fastforce
  obtain r3 w3 where 3: "run_state (call E (''qr.balance'', 0) (on_db (balance_Get (cl_ID c)))) w2 = (r3, w3)" by fastforce
  from 2 3 rest have r2: "r2 = Inr c" and r3: "r3 = Inr b"
    and w': "w' = after (auditResolved S E s (cl_ID c)) (after (qr_finalize (qs_redis S) E h) w3)"
    by (auto simp: resolveForAccount_def Let_def run_andThen split: sum.splits prod.splits)
  from calm_Inr [OF assms(1) 3 [unfolded r3]] have b: "b = \<lparr>bal_ClientID = cl_ID c, bal_Points = points_of (w_db w2) (cl_ID c)\<rparr>" "w_db w3 = w_db w2"
    by (auto simp: run_on_db balance_Get_def)
  have "w_db (after (qr_finalize (qs_redis S) E h) w3) = w_db w3"
    by (simp add: qr_finalize_def calm_call [OF assms(1)] run_on_kv split: fault.split)
  moreover have "db_clients (w_db (after (auditResolved S E s j) v)) = db_clients (w_db v) \<and>
      db_balances (w_db (after (auditResolved S E s j) v)) = db_balances (w_db v)" for j v
    by (simp add: auditResolved_def Let_def calm_call [OF assms(1)] run_on_db audit_Create_def run_andThen split: fault.split)
  ultimately have "db_clients (w_db w') = db_clients (w_db w2)" "db_balances (w_db w') = db_balances (w_db w2)" using b(2) w' by simp_all
  with resolveClient_card [OF assms(1) 2 [unfolded r2]] acc active b(1) show thesis
    by (intro that [of account]) (simp_all add: store_card_def points_of_def)
qed

text \<open>
  C25: a QR never crosses a store, and names one customer. Whatever calls fail and whatever else runs, a successful
  resolve returns a client of the calling store, after the payload's token was claimed from Redis
  as it then was; the payload itself names no store. When nothing else runs, only calls may fail: the token was
  that of an active account in Redis, the client is the account's card in that store, and the balance returned is the
  one in the table, which the resolve leaves alone.
\<close>

theorem resolve_stays_in_store:
  assumes "run_state (ResolveQR S E storeID payload who) w = (Inr (c, b), w')"
  shows "cl_StoreID c = storeID \<and>
    (\<exists>token v. parseQRPayload payload = Some token \<and>
       fst (run_state (qrClaimScript (qs_redis S) (at_ms E (''qr.claim'', 0)) (qrTokenKey (qs_hash S token)) (qrClaimKey (qs_hash S token)) 30000)
         (w_kv (env_other E (''qr.claim'', 0) (after (checkConsumeCooldown (qs_redis S) (qs_hash S) (qs_cfg S) E who) w)))) = Inr (Some v) \<and>
       (calm E t \<and> redis_store (qs_redis S) \<longrightarrow>
          (\<exists>account e. rd_read (qs_redis S) (w_kv w) (msec_of t) (qrTokenKey (qs_hash S token)) = Some (RString v, e) \<and>
             find (\<lambda>a. parse_int v = Some (acc_ID a)) (db_accounts (w_db w)) = Some account \<and> acc_Status account = CustomerAccountActive \<and>
             store_card storeID (acc_ID account) c (w_db w') \<and> db_balances (w_db w') = db_balances (w_db w) \<and>
             b = \<lparr>bal_ClientID = cl_ID c, bal_Points = points_of (w_db w) (cl_ID c)\<rparr>)))"
proof -
  let ?R = "qs_redis S" and ?l = "(''qr.claim'', 0)"
  let ?w1 = "after (checkConsumeCooldown ?R (qs_hash S) (qs_cfg S) E who) w"
  obtain i h w2 where claim: "run_state (qr_claim ?R (qs_hash S) E payload) ?w1 = (Inr (i, h), w2)"
    and rest: "run_state (resolveClaimed S E storeID i h) w2 = (Inr (c, b), w')"
    using assms by (auto simp: ResolveQR_def run_andThen split: sum.splits prod.splits if_splits)
  obtain token where token: "parseQRPayload payload = Some token"
    using claim by (cases "parseQRPayload payload") (simp_all add: qr_claim_def)
  let ?h = "qs_hash S token"
  let ?script = "qrClaimScript ?R (at_ms E ?l) (qrTokenKey ?h) (qrClaimKey ?h) 30000"
  from claim token obtain v where v: "fst (run_state ?script (w_kv (env_other E ?l ?w1))) = Inr (Some v)" "parse_int v = Some i" "h = ?h"
    and db: "w_db w2 = w_db (env_other E ?l ?w1)"
    by (auto simp: qr_claim_def HashOpaqueToken_def Let_def run_andThen run_call run_on_kv qrClaimTTL_def msec_of_def
        split: fault.splits prod.splits sum.splits option.splits)
  have "cl_StoreID c = storeID" using yieldsD [OF yields_resolved rest] by simp
  moreover have "\<exists>account e. rd_read ?R (w_kv w) (msec_of t) (qrTokenKey ?h) = Some (RString v, e) \<and>
      find (\<lambda>a. parse_int v = Some (acc_ID a)) (db_accounts (w_db w)) = Some account \<and> acc_Status account = CustomerAccountActive \<and>
      store_card storeID (acc_ID account) c (w_db w') \<and> db_balances (w_db w') = db_balances (w_db w) \<and>
      b = \<lparr>bal_ClientID = cl_ID c, bal_Points = points_of (w_db w) (cl_ID c)\<rparr>" if calm: "calm E t" and R: "redis_store ?R"
  proof -
    have same: "same_key_at ?R (qrTokenKey ?h) w ?w1" by (rule keepsD [OF consume_same_key [OF R calm]])
    have "\<exists>e. rd_read ?R (w_kv ?w1) (msec_of t) (qrTokenKey ?h) = Some (RString v, e)"
      using v(1) calm
      by (auto simp: calm_def at_ms_def qrClaimScript_def run_andThen GET_def split: option.splits prod.splits redis_value.splits sum.splits)
    with same have read: "\<exists>e. rd_read ?R (w_kv w) (msec_of t) (qrTokenKey ?h) = Some (RString v, e)" by (simp add: same_key_at_def)
    have "w_db ?w1 = w_db w"
      by (simp add: checkConsumeCooldown_def Let_def run_andThen calm_call [OF calm] run_on_kv split: fault.split sum.split prod.split)
    with db calm have db2: "w_db w2 = w_db w" by (simp add: calm_def)
    obtain account where "find (\<lambda>a. acc_ID a = i) (db_accounts (w_db w2)) = Some account" "acc_Status account = CustomerAccountActive"
      "store_card storeID (acc_ID account) c (w_db w')" "db_balances (w_db w') = db_balances (w_db w2)"
      "b = \<lparr>bal_ClientID = cl_ID c, bal_Points = points_of (w_db w2) (cl_ID c)\<rparr>"
      by (rule resolveClaimed_card [OF calm rest])
    moreover have "(\<lambda>a :: customer_account. parse_int v = Some (acc_ID a)) = (\<lambda>a. acc_ID a = i)" using v(2) by auto
    ultimately show ?thesis using read db2 by auto
  qed
  ultimately show ?thesis using token v(1) by blast
qed

text \<open>
  A QR identifies a customer once. After a successful resolve, with nothing else running
  but whatever calls failing around it, the payload is refused as gone (or for the cooldown of
  the calling principal) at every time, in every store and for every caller.
\<close>

theorem resolved_qr_is_gone:
  assumes "redis_store (qs_redis S)" "calm E t" "run_state (ResolveQR S E storeID payload who) w = (Inr x, w')"
  shows "fst (run_state (ResolveQR S (quiet t') storeID' payload who') w') \<in> {Inl ErrQRGone, Inl ErrQRConsumeCooldown}"
proof -
  let ?h = "HashOpaqueToken (qs_hash S) (the (parseQRPayload payload))"
  obtain i g w1 w2 where claimed: "run_state (qr_claim (qs_redis S) (qs_hash S) E payload) w1 = (Inr (i, g), w2)"
      "run_state (resolveClaimed S E storeID i g) w2 = (Inr x, w')"
    by (rule ResolveQR_cases [OF assms, of ?h]) auto
  obtain token where token: "parseQRPayload payload = Some token"
    using claimed(1) by (cases "parseQRPayload payload") (simp_all add: qr_claim_def)
  note g = claim_keys [OF assms(1,2) claimed(1) token]
  have "same_key_at (qs_redis S) (qrTokenKey g) w2 w'" by (rule resolveClaimed_token [OF assms(1,2) claimed(2)])
  with g show ?thesis by (intro gone_token_refused [OF assms(1) token]) (simp add: same_key_at_def)
qed

text \<open>An account, a client of a store that is not linked to it yet, and an active token of the account.\<close>

definition demo_qr :: "keyspace qr_service" where
  "demo_qr = \<lparr>qs_redis = kv, qs_hash = (\<lambda>x. x),
     qs_cfg = \<lparr>qr_TTL = 60000000000, qr_IssueCooldown = 0, qr_ConsumeCooldown = 0\<rparr>, qs_audit = True\<rparr>"

definition qr_world :: "keyspace world" where
  "qr_world = \<lparr>w_db = empty_db\<lparr>db_accounts := [\<lparr>acc_ID = 7, acc_Phone = ''+79001112233'', acc_PhoneVerifiedAt = 0,
        acc_Status = CustomerAccountActive, acc_CreatedAt = 0, acc_UpdatedAt = 0\<rparr>],
        db_clients := [\<lparr>cl_ID = 5, cl_StoreID = 3, cl_Phone = ''+79001112233'', cl_CustomerAccountID = None, cl_CreatedAt = 0\<rparr>]\<rparr>,
     w_kv = [qrTokenKey ''tok'' \<mapsto> (RString ''7'', Some 60000)]\<rparr>"

lemmas resolve_defs = ResolveQR_def demo_qr_def qr_world_def checkConsumeCooldown_def qr_claim_def parseQRPayload_def qrPayloadVersion_def
      HashOpaqueToken_def Let_def run_andThen run_call run_on_kv run_on_db qrClaimScript_def GET_def SET_PX_def kv_def at_ms_def msec_of_def
      parse_int_def digits_val_def digit_val_def is_digit_def in_i64_def qrClaimTTL_def resolveClaimed_def account_GetByID_def resolveForAccount_def
      resolveOrCreateClientForAccount_def client_ListByCustomerAccount_def client_GetByPhone_def linkTo_def
      client_LinkCustomerAccount_def balance_Get_def auditResolved_def empty_db_def

lemma resolve_eval:
  "\<exists>c b w'. run_state (ResolveQR demo_qr (quiet 1000) 3 ''v1.tok'' ''key'') qr_world = (Inr (c, b), w')"
  by (simp add: resolve_defs)

theorem resolve_stays_in_store_witness:
  "\<exists>c b w'. run_state (ResolveQR demo_qr (quiet 1000) 3 ''v1.tok'' ''key'') qr_world = (Inr (c, b), w') \<and>
     cl_StoreID c = 3 \<and> store_card 3 7 c (w_db w') \<and> bal_Points b = points_of (w_db qr_world) (cl_ID c)"
proof -
  obtain c b w' where 1: "run_state (ResolveQR demo_qr (quiet 1000) 3 ''v1.tok'' ''key'') qr_world = (Inr (c, b), w')"
    using resolve_eval by blast
  have R: "redis_store (qs_redis demo_qr)" by (simp add: demo_qr_def kv.redis_store_axioms)
  have "account = hd (db_accounts (w_db qr_world))" if "find P (db_accounts (w_db qr_world)) = Some account" for P account
    using that by (auto simp: qr_world_def split: if_splits)
  moreover have "acc_ID (hd (db_accounts (w_db qr_world))) = 7" by (simp add: qr_world_def)
  ultimately show ?thesis using resolve_stays_in_store [OF 1, of 1000] R 1 by fastforce
qed

theorem resolved_qr_is_gone_witness:
  "\<exists>x w'. run_state (ResolveQR demo_qr (quiet 1000) 3 ''v1.tok'' ''key'') qr_world = (Inr x, w') \<and>
     fst (run_state (ResolveQR demo_qr (quiet 2000) 4 ''v1.tok'' ''other'') w') \<in> {Inl ErrQRGone, Inl ErrQRConsumeCooldown}"
proof -
  obtain x w' where 1: "run_state (ResolveQR demo_qr (quiet 1000) 3 ''v1.tok'' ''key'') qr_world = (Inr x, w')"
    using resolve_eval by blast
  have "fst (run_state (ResolveQR demo_qr (quiet 2000) 4 ''v1.tok'' ''other'') w') \<in> {Inl ErrQRGone, Inl ErrQRConsumeCooldown}"
    by (rule resolved_qr_is_gone [OF _ calm_quiet 1]) (simp add: demo_qr_def kv.redis_store_axioms)
  with 1 show ?thesis by blast
qed

text \<open>A resolve of a claimed token that fails without the token being gone hands the claim back.\<close>

lemma resolveClaimed_failed:
  assumes "calm E t" "run_state (resolveClaimed S E storeID i h) w = (Inl e, w')" "e \<noteq> ErrQRGone"
  obtains w1 where "same_key_at (qs_redis S) k w w1" "w' = after (qr_release (qs_redis S) E h) w1"
proof -
  let ?R = "qs_redis S"
  obtain r1 w1 where 1: "run_state (call E (''qr.account'', 0) (on_db (account_GetByID i))) w = (r1, w1)" by fastforce
  have k1: "same_key_at ?R k w w1" using keepsD [OF calm_db_keeps [OF assms(1)], where s = w] 1 by (metis snd_conv)
  show thesis
  proof (cases r1)
    case (Inl e1)
    with 1 assms(2,3) k1 show thesis
      by (cases "e1 = ErrNotFound") (auto simp: resolveClaimed_def Let_def run_andThen intro: that)
  next
    case (Inr account)
    show thesis
    proof (cases "acc_Status account = CustomerAccountActive")
      case True
      with 1 Inr assms(2) have 2: "run_state (resolveForAccount S E storeID h account) w1 = (Inl e, w')"
        by (simp add: resolveClaimed_def Let_def)
      obtain w2 where "same_key_at ?R k w1 w2" "w' = after (qr_release ?R E h) w2"
        by (rule resolveForAccount_end [OF assms(1) 2, of k]) auto
      with k1 show thesis by (intro that) (simp_all add: same_key_at_def)
    next
      case False
      with 1 Inr assms(2,3) show thesis by (simp add: resolveClaimed_def Let_def run_andThen)
    qed
  qed
qed

text \<open>
  A failure of the infrastructure does not cost the customer the QR. If a resolve of an
  active token fails with anything but \<open>ErrQRGone\<close>, and neither the claim nor the release itself
  was lost, the token is active again afterwards, for the same account.
\<close>

theorem transient_failure_keeps_qr:
  assumes "redis_store (qs_redis S)" "calm E t" "env_fault E (''qr.claim'', 0) = NoFault" "env_fault E (''qr.release'', 0) = NoFault"
    and "parseQRPayload payload = Some token" "k = qrTokenKey (HashOpaqueToken (qs_hash S) token)"
    and "rd_read (qs_redis S) (w_kv w) (msec_of t) k = Some (RString (show_int i), Some e)" "in_i64 i"
    and "run_state (ResolveQR S E storeID payload who) w = (Inl err, w')" "err \<noteq> ErrQRGone"
  shows "\<exists>e'. rd_read (qs_redis S) (w_kv w') (msec_of t) k = Some (RString (show_int i), Some e')"
proof (rule ResolveQR_cases [OF assms(1,2,9), of "HashOpaqueToken (qs_hash S) token"])
  let ?R = "qs_redis S"
  assume "same_key_at ?R (qrTokenKey (HashOpaqueToken (qs_hash S) token)) w w'"
  with assms(6,7) show ?thesis by (simp add: same_key_at_def)
next
  let ?R = "qs_redis S"
  fix e1 w1
  assume "same_key_at ?R (qrTokenKey (HashOpaqueToken (qs_hash S) token)) w w1"
    "run_state (qr_claim ?R (qs_hash S) E payload) w1 = (Inl e1, w')"
  with assms(2,3,5,6,7) have False
    by (auto simp: parse_show_int [OF assms(8)] same_key_at_def qr_claim_def Let_def run_andThen run_call run_on_kv calm_def qrClaimScript_def GET_def SET_PX_def
        at_ms_def)
  then show ?thesis ..
next
  let ?R = "qs_redis S"
  fix i' h w1 w2
  assume k: "same_key_at ?R (qrTokenKey (HashOpaqueToken (qs_hash S) token)) w w1"
    and claim: "run_state (qr_claim ?R (qs_hash S) E payload) w1 = (Inr (i', h), w2)"
    and rest: "run_state (resolveClaimed S E storeID i' h) w2 = (Inl err, w')"
  note c = claim_keys [OF assms(1,2) claim assms(5)]
  from c(1) k assms(6,7) have "rd_read ?R (w_kv w1) (msec_of t) (qrTokenKey h) = Some (RString (show_int i), Some e)"
    by (simp add: same_key_at_def)
  with c(3) have w2: "rd_read ?R (w_kv w2) (msec_of t) (qrClaimKey h) = Some (RString (show_int i), Some (msec_of t + 30000))"
    by auto
  obtain w3 where w3: "same_key_at ?R (qrClaimKey h) w2 w3" "w' = after (qr_release ?R E h) w3"
    by (rule resolveClaimed_failed [OF assms(2) rest assms(10)])
  with w2 have "rd_read ?R (w_kv w3) (msec_of t) (qrClaimKey h) = Some (RString (show_int i), Some (msec_of t + 30000))"
    by (simp add: same_key_at_def)
  with w3(2) assms(2,4) c(1) assms(6) show ?thesis
    by (simp add: qr_release_def Let_def run_andThen run_call run_on_kv calm_def at_ms_def qrReleaseScript_def GET_def PTTL_def SET_PX_def
        redis_store.read_write [OF assms(1)] redis_store.read_delete [OF assms(1)])
qed

lemma qr_world_token: "rd_read kv (w_kv qr_world) 0 (qrTokenKey ''tok'') = Some (RString ''7'', Some 60000)"
  by (simp add: kv_def qr_world_def)

lemma show_seven: "show_int 7 = ''7''"
  by code_simp

theorem transient_failure_keeps_qr_witness:
  "\<exists>w' e'. run_state (ResolveQR demo_qr ((quiet 1000)\<lparr>env_fault := (\<lambda>l. if l = (''qr.balance'', 0) then FailBefore else NoFault)\<rparr>)
       3 ''v1.tok'' ''key'') qr_world = (Inl ErrInternal, w') \<and>
     rd_read kv (w_kv w') 0 (qrTokenKey ''tok'') = Some (RString ''7'', Some e')"
proof -
  let ?E = "(quiet 1000)\<lparr>env_fault := (\<lambda>l. if l = (''qr.balance'', 0) then FailBefore else NoFault)\<rparr> :: keyspace world env"
  have "fst (run_state (ResolveQR demo_qr ?E 3 ''v1.tok'' ''key'') qr_world) = Inl ErrInternal"
    by (simp add: resolve_defs)
  then obtain w' where 1: "run_state (ResolveQR demo_qr ?E 3 ''v1.tok'' ''key'') qr_world = (Inl ErrInternal, w')"
    by (metis prod.collapse)
  have "\<exists>e'. rd_read (qs_redis demo_qr) (w_kv w') (msec_of 1000) (qrTokenKey ''tok'') = Some (RString (show_int 7), Some e')"
    by (rule transient_failure_keeps_qr [OF _ _ _ _ _ _ _ _ 1, where token = "''tok''" and e = 60000])
       (simp_all add: demo_qr_def kv.redis_store_axioms calm_def quiet_def fun_eq_iff parseQRPayload_def qrPayloadVersion_def
          HashOpaqueToken_def qr_world_token show_seven msec_of_def in_i64_def)
  with 1 show ?thesis by (simp add: demo_qr_def msec_of_def show_seven)
qed

end
