(* ===== verification/Oidc.thy ===== *)
theory Oidc
  imports Tokens Database
begin

text \<open>
  \<open>internal/auth/oidc.go\<close>: verification of the staff's OIDC ID tokens against the issuer's
  signing keys, which are fetched over HTTP and cached in the process. The cache is the state;
  every locked section is a site of the environment, so other requests may refresh the keys in
  between. The JWT library is a parameter (\<open>jose_lib\<close>); the endpoint's reply is an argument.
\<close>

section \<open>Tokens, keys and replies\<close>

record oidc_claims =
  oc_Subject :: string
  oc_Email :: string
  oc_Name :: string

record rsa_key =
  rsa_N :: nat
  rsa_E :: int

record id_token =
  idt_Subject :: string
  idt_Email :: string
  idt_Name :: string
  idt_Issuer :: string
  idt_Audience :: "string list"
  idt_ExpiresAt :: "int option"

text \<open>
  What the code asks of the library: the header of a token (its algorithm and its key id, empty
  where there is none), its claims where the RS256 signature verifies, and whether the claims
  pass the validator for an issuer and an audience with expiry required.
\<close>

record jose_lib =
  jose_header :: "string \<Rightarrow> (string \<times> string) option"
  jose_verify :: "rsa_key \<Rightarrow> string \<Rightarrow> id_token option"
  jose_valid :: "string \<Rightarrow> string \<Rightarrow> time \<Rightarrow> id_token \<Rightarrow> bool"

locale jose_laws =
  fixes J :: jose_lib
  assumes valid_claims: "jose_valid J iss aud now c \<Longrightarrow>
      idt_Issuer c = iss \<and> aud \<in> set (idt_Audience c) \<and> (\<exists>e. idt_ExpiresAt c = Some e \<and> now < e * 1000000000)"

record jwk =
  jwk_Kty :: string
  jwk_Kid :: string
  jwk_N :: string
  jwk_E :: string

text \<open>The endpoint's reply; \<open>JwksError\<close> is a transport error, \<open>JwksGarbage\<close> a body that does not decode.\<close>

datatype jwks_reply = JwksError | JwksStatus int | JwksGarbage | JwksDocument "jwk list"

record oidc_config =
  ov_issuer :: string
  ov_audience :: string
  ov_cacheTTL :: duration

text \<open>\<open>fetchedAt\<close> is \<open>None\<close> at the zero time, from which \<open>time.Since\<close> is the longest duration.\<close>

record oidc_cache =
  ov_keys :: "string \<rightharpoonup> rsa_key"
  ov_fetchedAt :: "time option"

definition NewOIDCVerifier :: oidc_cache where
  "NewOIDCVerifier = \<lparr>ov_keys = Map.empty, ov_fetchedAt = None\<rparr>"

section \<open>The keys\<close>

definition bytes_value :: "nat list \<Rightarrow> nat" where
  "bytes_value bs = foldl (\<lambda>a b. 256 * a + b) 0 bs"

text \<open>\<open>Int64\<close> of a big integer keeps its low 64 bits.\<close>

definition rsaPublicKeyFromJWK :: "string \<Rightarrow> string \<Rightarrow> rsa_key option" where
  "rsaPublicKeyFromJWK nB64 eB64 =
     (case base64url_decode nB64 of
        None \<Rightarrow> None
      | Some nBytes \<Rightarrow>
          (case base64url_decode eB64 of
             None \<Rightarrow> None
           | Some eBytes \<Rightarrow> Some \<lparr>rsa_N = bytes_value nBytes, rsa_E = wrap64 (int (bytes_value eBytes))\<rparr>))"

fun jwksKeys :: "jwk list \<Rightarrow> (string \<rightharpoonup> rsa_key) \<Rightarrow> (string \<rightharpoonup> rsa_key)" where
  "jwksKeys [] keys = keys"
| "jwksKeys (k # ks) keys =
     (if jwk_Kty k \<noteq> ''RSA'' \<or> jwk_Kid k = [] then jwksKeys ks keys
      else case rsaPublicKeyFromJWK (jwk_N k) (jwk_E k) of
             None \<Rightarrow> jwksKeys ks keys
           | Some pub \<Rightarrow> jwksKeys ks (keys(jwk_Kid k \<mapsto> pub)))"

text \<open>A section under \<open>v.mu\<close>, after whatever other requests did to the cache.\<close>

definition locked :: "'s env \<Rightarrow> site \<Rightarrow> ('s, 'a) op \<Rightarrow> ('s, 'a) op" where
  "locked E l m = State (\<lambda>s. run_state m (env_other E l s))"

definition refreshKeys :: "oidc_cache env \<Rightarrow> jwks_reply \<Rightarrow> (oidc_cache, unit) op" where
  "refreshKeys E reply =
     (case reply of
        JwksError \<Rightarrow> fail ErrInternal
      | JwksStatus c \<Rightarrow> fail ErrInternal
      | JwksGarbage \<Rightarrow> fail ErrInternal
      | JwksDocument ks \<Rightarrow>
          locked E (''oidc.store'', 0) (modify (\<lambda>v. v\<lparr>ov_keys := jwksKeys ks Map.empty,
            ov_fetchedAt := Some (env_now E (''oidc.store'', 0))\<rparr>)))"

definition oidc_key :: "oidc_config \<Rightarrow> oidc_cache env \<Rightarrow> jwks_reply \<Rightarrow> string \<Rightarrow> (oidc_cache, rsa_key) op" where
  "oidc_key C E reply kid =
     andThen (locked E (''oidc.key'', 0) (gets (\<lambda>v. Inr (ov_keys v kid,
       (case ov_fetchedAt v of None \<Rightarrow> False | Some t \<Rightarrow> env_now E (''oidc.key'', 0) - t < ov_cacheTTL C))))) (\<lambda>(key, fresh).
     if key \<noteq> None \<and> fresh then ok (the key)
     else
     andThen (refreshKeys E reply) (\<lambda>_.
     locked E (''oidc.key'', 1) (gets (\<lambda>v. case ov_keys v kid of None \<Rightarrow> Inl ErrInternal | Some key \<Rightarrow> Inr key))))"

section \<open>Verification of an ID token\<close>

definition VerifyIDToken ::
    "jose_lib \<Rightarrow> oidc_config \<Rightarrow> oidc_cache env \<Rightarrow> jwks_reply \<Rightarrow> string \<Rightarrow> (oidc_cache, oidc_claims) op" where
  "VerifyIDToken J C E reply rawToken =
     (case jose_header J rawToken of
        None \<Rightarrow> fail ErrOIDCVerification
      | Some (alg, kid) \<Rightarrow>
          if alg \<noteq> ''RS256'' then fail ErrOIDCVerification
          else if kid = [] then fail ErrOIDCVerification
          else
          State_Monad.bind (oidc_key C E reply kid) (\<lambda>r.
          case r of
            Inl _ \<Rightarrow> fail ErrOIDCVerification
          | Inr key \<Rightarrow>
              (case jose_verify J key rawToken of
                 None \<Rightarrow> fail ErrOIDCVerification
               | Some claims \<Rightarrow>
                   if \<not> jose_valid J (ov_issuer C) (ov_audience C) (env_now E (''oidc.valid'', 0)) claims
                   then fail ErrOIDCVerification
                   else if idt_Subject claims = [] then fail ErrOIDCVerification
                   else ok \<lparr>oc_Subject = idt_Subject claims, oc_Email = idt_Email claims, oc_Name = idt_Name claims\<rparr>)))"

section \<open>Where a key comes from\<close>

text \<open>
  The cache holds the keys of a document the endpoint served, no older than its stamp: the
  invariant every refresh keeps, over the documents served so far.
\<close>

definition cache_of :: "(time \<times> jwk list) set \<Rightarrow> oidc_cache \<Rightarrow> bool" where
  "cache_of served v \<longleftrightarrow>
     (case ov_fetchedAt v of
        None \<Rightarrow> ov_keys v = Map.empty
      | Some t \<Rightarrow> \<exists>ks. (t, ks) \<in> served \<and> ov_keys v = jwksKeys ks Map.empty)"

lemma cache_of_new: "cache_of {} NewOIDCVerifier"
  by (simp add: cache_of_def NewOIDCVerifier_def)

lemma run_locked [simp]: "run_state (locked E l m) s = run_state m (env_other E l s)"
  by (simp add: locked_def)

text \<open>Other requests may refresh the cache in between: it stays what the endpoint served, and never gets older.\<close>

definition refreshed :: "(time \<times> jwk list) set \<Rightarrow> oidc_cache \<Rightarrow> oidc_cache \<Rightarrow> bool" where
  "refreshed served v v' \<longleftrightarrow> (cache_of served v \<longrightarrow> cache_of served v') \<and>
     (case ov_fetchedAt v of None \<Rightarrow> True | Some t \<Rightarrow> (case ov_fetchedAt v' of None \<Rightarrow> False | Some t' \<Rightarrow> t \<le> t'))"

lemma refreshed_refl [simp]: "refreshed served v v"
  by (simp add: refreshed_def split: option.split)

lemma cached_key:
  assumes "cache_of served v" "ov_keys v kid = Some key"
  obtains t ks where "ov_fetchedAt v = Some t" "(t, ks) \<in> served" "jwksKeys ks Map.empty kid = Some key"
  using assms by (auto simp: cache_of_def split: option.splits)

text \<open>
  A key comes from a document that was served less than the cache's lifetime ago, or since this
  request looked.
\<close>

lemma oidc_key_served:
  assumes "cache_of served v" "\<And>l v. refreshed served v (env_other E l v)"
    and "\<And>ks. reply = JwksDocument ks \<Longrightarrow> (env_now E (''oidc.store'', 0), ks) \<in> served"
    and "run_state (oidc_key C E reply kid) v = (Inr key, v')"
  shows "cache_of served v' \<and> (\<exists>t ks. (t, ks) \<in> served \<and> jwksKeys ks Map.empty kid = Some key \<and>
    (env_now E (''oidc.key'', 0) - t < ov_cacheTTL C \<or> env_now E (''oidc.store'', 0) \<le> t))"
proof -
  let ?v0 = "env_other E (''oidc.key'', 0) v"
  have v0: "cache_of served ?v0" using assms(1,2) by (simp add: refreshed_def)
  show ?thesis
  proof (cases "ov_keys ?v0 kid \<noteq> None \<and>
      (case ov_fetchedAt ?v0 of None \<Rightarrow> False | Some t \<Rightarrow> env_now E (''oidc.key'', 0) - t < ov_cacheTTL C)")
    case True
    with assms(4) have key: "v' = ?v0" "ov_keys ?v0 kid = Some key" by (auto simp: oidc_key_def run_andThen)
    obtain t ks where "ov_fetchedAt ?v0 = Some t" "(t, ks) \<in> served" "jwksKeys ks Map.empty kid = Some key"
      using cached_key [OF v0 key(2)] .
    with True v0 key(1) show ?thesis by auto
  next
    case False
    with assms(4) obtain ks where ks: "reply = JwksDocument ks"
      by (cases reply) (auto simp: oidc_key_def run_andThen refreshKeys_def)
    let ?now = "env_now E (''oidc.store'', 0)"
    let ?v1 = "(env_other E (''oidc.store'', 0) ?v0)\<lparr>ov_keys := jwksKeys ks Map.empty, ov_fetchedAt := Some ?now\<rparr>"
    let ?v2 = "env_other E (''oidc.key'', 1) ?v1"
    have "cache_of served ?v1" using assms(3) [OF ks] by (auto simp: cache_of_def)
    with assms(2) [of ?v1 "(''oidc.key'', 1)"] have v2: "cache_of served ?v2" "\<And>t. ov_fetchedAt ?v2 = Some t \<Longrightarrow> ?now \<le> t"
      by (auto simp: refreshed_def split: option.splits)
    from False assms(4) ks have key: "v' = ?v2" "ov_keys ?v2 kid = Some key"
      by (auto simp: oidc_key_def run_andThen refreshKeys_def split: option.splits)
    obtain t ks where "ov_fetchedAt ?v2 = Some t" "(t, ks) \<in> served" "jwksKeys ks Map.empty kid = Some key"
      using cached_key [OF v2(1) key(2)] .
    with v2 key(1) show ?thesis by auto
  qed
qed

lemma VerifyIDToken_success:
  assumes "run_state (VerifyIDToken J C E reply tok) v = (Inr claims, v')"
  obtains kid key c where "jose_header J tok = Some (''RS256'', kid)" "run_state (oidc_key C E reply kid) v = (Inr key, v')"
    "jose_verify J key tok = Some c" "jose_valid J (ov_issuer C) (ov_audience C) (env_now E (''oidc.valid'', 0)) c"
    "idt_Subject c \<noteq> []" "claims = \<lparr>oc_Subject = idt_Subject c, oc_Email = idt_Email c, oc_Name = idt_Name c\<rparr>"
proof -
  obtain alg kid where h: "jose_header J tok = Some (alg, kid)"
    using assms by (cases "jose_header J tok") (auto simp: VerifyIDToken_def)
  with assms have "alg = ''RS256''" "kid \<noteq> []" by (auto simp: VerifyIDToken_def split: if_splits)
  obtain r v1 where r: "run_state (oidc_key C E reply kid) v = (r, v1)" by fastforce
  with assms h \<open>alg = _\<close> \<open>kid \<noteq> []\<close> obtain key where "r = Inr key" by (cases r) (auto simp: VerifyIDToken_def)
  with assms h r \<open>alg = _\<close> \<open>kid \<noteq> []\<close> show thesis
    by (auto simp: VerifyIDToken_def split: option.splits if_splits intro: that [of kid key])
qed

end
