(* ===== verification/Staff_Auth.thy ===== *)
theory Staff_Auth
  imports Oidc Customer_Auth
begin

text \<open>
  \<open>internal/service/staffauth.go\<close> and \<open>internal/service/bootstrap.go\<close>: the staff's login through
  the identity provider, the permissions their memberships give them, and the creation of the
  first platform administrator.
\<close>

section \<open>Principals\<close>

record staff_principal =
  sp_StaffUserID :: int
  sp_Memberships :: "staff_membership list"

definition IsPlatformAdmin :: "staff_principal \<Rightarrow> bool" where
  "IsPlatformAdmin p = list_ex (\<lambda>m. mem_Role m = RolePlatformAdmin \<and> mem_Status m = StaffActive) (sp_Memberships p)"

text \<open>The loop over the memberships; \<open>None\<close> is a request for the whole organization.\<close>

fun grantedBy :: "permission \<Rightarrow> int \<Rightarrow> int option \<Rightarrow> staff_membership list \<Rightarrow> bool" where
  "grantedBy perm organizationID storeID [] = False"
| "grantedBy perm organizationID storeID (m # ms) =
     (if mem_OrganizationID m \<noteq> organizationID \<or> \<not> HasPermission (mem_Role m) perm
      then grantedBy perm organizationID storeID ms
      else case storeID of
             None \<Rightarrow> if mem_StoreID m = None then True else grantedBy perm organizationID storeID ms
           | Some s \<Rightarrow> if mem_StoreID m = None \<or> mem_StoreID m = Some s then True
                       else grantedBy perm organizationID storeID ms)"

definition principal_HasPermission :: "staff_principal \<Rightarrow> permission \<Rightarrow> int \<Rightarrow> int option \<Rightarrow> bool" where
  "principal_HasPermission p perm organizationID storeID =
     (if IsPlatformAdmin p \<and> HasPermission RolePlatformAdmin perm then True
      else grantedBy perm organizationID storeID (sp_Memberships p))"

fun viewerOnly :: "int \<Rightarrow> int option \<Rightarrow> bool \<Rightarrow> staff_membership list \<Rightarrow> bool" where
  "viewerOnly organizationID storeID matched [] = matched"
| "viewerOnly organizationID storeID matched (m # ms) =
     (if mem_OrganizationID m \<noteq> organizationID then viewerOnly organizationID storeID matched ms
      else if storeID \<noteq> None \<and> mem_StoreID m \<noteq> None \<and> mem_StoreID m \<noteq> storeID
      then viewerOnly organizationID storeID matched ms
      else if mem_Role m \<noteq> RoleSupportViewer then False
      else viewerOnly organizationID storeID True ms)"

definition IsSupportViewerOnly :: "staff_principal \<Rightarrow> int \<Rightarrow> int option \<Rightarrow> bool" where
  "IsSupportViewerOnly p organizationID storeID =
     (if IsPlatformAdmin p then False else viewerOnly organizationID storeID False (sp_Memberships p))"

section \<open>The service\<close>

record staff_auth_config =
  sac_AccessTokenSecret :: string
  sac_AccessTokenTTL :: duration

record staff_auth =
  sa_jwt :: jwt_lib
  sa_jose :: jose_lib
  sa_oidc :: oidc_config
  sa_cfg :: staff_auth_config

definition AuditActionStaffLogin :: string where
  "AuditActionStaffLogin = ''staff.login''"

definition staff_auditLog :: "'k world env \<Rightarrow> int \<Rightarrow> string \<Rightarrow> string \<Rightarrow> string \<Rightarrow> ('k world, unit) op" where
  "staff_auditLog E staffUserID action ip userAgent =
     (let l = (''staff.audit'', 0) in
      logged (call E l (on_db (audit_Create (env_now E l) (audit_of AuditActorStaff (Some staffUserID) action ip userAgent)))))"

definition loadPrincipal :: "'k world env \<Rightarrow> int \<Rightarrow> ('k world, staff_principal) op" where
  "loadPrincipal E staffUserID =
     andThen (call E (''staff.memberships'', 0) (on_db (membership_ListByStaffUser staffUserID))) (\<lambda>ms.
     ok \<lparr>sp_StaffUserID = staffUserID, sp_Memberships = List.filter (\<lambda>m. mem_Status m = StaffActive) ms\<rparr>)"

definition ResolvePrincipal :: "'k world env \<Rightarrow> int \<Rightarrow> ('k world, staff_principal) op" where
  "ResolvePrincipal E staffUserID =
     andThen (call E (''staff.user'', 0) (on_db (staff_GetByID staffUserID))) (\<lambda>user.
     if su_Status user \<noteq> StaffActive then fail ErrStaffDisabled
     else loadPrincipal E staffUserID)"

definition resolveOrCreateUser :: "'k world env \<Rightarrow> oidc_claims \<Rightarrow> ('k world, staff_user) op" where
  "resolveOrCreateUser E claims =
     State_Monad.bind (call E (''staff.subject'', 0) (on_db (staff_GetByExternalSubject (oc_Subject claims)))) (\<lambda>r.
     case r of
       Inr user \<Rightarrow>
         State_Monad.bind (call E (''staff.profile'', 0) (on_db (staff_UpdateProfile (su_ID user) (oc_Email claims) (oc_Name claims))))
           (\<lambda>upd.
         case upd of
           Inl _ \<Rightarrow> ok user
         | Inr _ \<Rightarrow> ok (user\<lparr>su_Email := oc_Email claims, su_DisplayName := oc_Name claims\<rparr>))
     | Inl e \<Rightarrow>
         if e \<noteq> ErrNotFound then fail e
         else
           let l = (''staff.create'', 0) in
           State_Monad.bind (call E l (on_db (staff_Create (env_now E l)
             \<lparr>su_ID = 0, su_ExternalSubject = oc_Subject claims, su_Email = oc_Email claims, su_DisplayName = oc_Name claims,
              su_Status = StaffActive, su_CreatedAt = 0\<rparr>))) (\<lambda>r2.
           case r2 of
             Inr user \<Rightarrow> ok user
           | Inl e2 \<Rightarrow>
               if e2 = ErrConflict
               then call E (''staff.subject'', 1) (on_db (staff_GetByExternalSubject (oc_Subject claims)))
               else fail e2))"

text \<open>From verified claims on.\<close>

definition authenticateClaims ::
    "staff_auth \<Rightarrow> 'k world env \<Rightarrow> oidc_claims \<Rightarrow> string \<Rightarrow> string \<Rightarrow> ('k world, string \<times> staff_principal) op" where
  "authenticateClaims S E claims ip userAgent =
     andThen (resolveOrCreateUser E claims) (\<lambda>user.
     if su_Status user \<noteq> StaffActive then fail ErrStaffDisabled
     else
     andThen (loadPrincipal E (su_ID user)) (\<lambda>principal.
     if sp_Memberships principal = [] then fail ErrNoActiveMembership
     else
     case IssueStaffAccessToken (sa_jwt S) (env_now E (''staff.token'', 0)) (sac_AccessTokenSecret (sa_cfg S)) (su_ID user)
            (sac_AccessTokenTTL (sa_cfg S)) of
       None \<Rightarrow> fail ErrInternal
     | Some token \<Rightarrow>
         andThen (staff_auditLog E (su_ID user) AuditActionStaffLogin ip userAgent) (\<lambda>_. ok (token, principal))))"

text \<open>The whole login, over the servers and the cache of signing keys.\<close>

definition AuthenticateOIDC ::
    "staff_auth \<Rightarrow> 'k world env \<Rightarrow> oidc_cache env \<Rightarrow> jwks_reply \<Rightarrow> string \<Rightarrow> string \<Rightarrow> string
     \<Rightarrow> ('k world \<times> oidc_cache, string \<times> staff_principal) op" where
  "AuthenticateOIDC S E V reply rawIDToken ip userAgent =
     State (\<lambda>(w, v).
       case run_state (VerifyIDToken (sa_jose S) (sa_oidc S) V reply rawIDToken) v of
         (Inl e, v') \<Rightarrow> (Inl e, (w, v'))
       | (Inr claims, v') \<Rightarrow>
           (case run_state (authenticateClaims S E claims ip userAgent) w of (r, w') \<Rightarrow> (r, (w', v'))))"

section \<open>The first administrator\<close>

record bootstrap_input =
  bs_Subject :: string
  bs_Email :: string
  bs_DisplayName :: string
  bs_OrgName :: string
  bs_OrgID :: int

record bootstrap_result =
  br_Organization :: organization
  br_StaffUser :: staff_user
  br_Membership :: staff_membership
  br_UserCreated :: bool
  br_MembershipCreated :: bool

definition resolveOrganization :: "'k world env \<Rightarrow> bootstrap_input \<Rightarrow> ('k world, organization) op" where
  "resolveOrganization E i =
     (if bs_OrgID i \<noteq> 0 then call E (''boot.org'', 0) (on_db (organization_GetByID (bs_OrgID i)))
      else call E (''boot.org'', 0) (on_db (organization_GetByName (bs_OrgName i))))"

definition resolveOrCreateStaffUser :: "'k world env \<Rightarrow> bootstrap_input \<Rightarrow> ('k world, staff_user \<times> bool) op" where
  "resolveOrCreateStaffUser E i =
     State_Monad.bind (call E (''boot.user'', 0) (on_db (staff_GetByExternalSubject (bs_Subject i)))) (\<lambda>r.
     case r of
       Inr existing \<Rightarrow> ok (existing, False)
     | Inl e \<Rightarrow>
         if e \<noteq> ErrNotFound then fail e
         else
           let l = (''boot.user'', 1) in
           State_Monad.bind (call E l (on_db (staff_Create (env_now E l)
             \<lparr>su_ID = 0, su_ExternalSubject = bs_Subject i, su_Email = bs_Email i, su_DisplayName = bs_DisplayName i,
              su_Status = StaffActive, su_CreatedAt = 0\<rparr>))) (\<lambda>r2.
           case r2 of
             Inr user \<Rightarrow> ok (user, True)
           | Inl e2 \<Rightarrow>
               if e2 = ErrConflict
               then andThen (call E (''boot.user'', 2) (on_db (staff_GetByExternalSubject (bs_Subject i)))) (\<lambda>user. ok (user, False))
               else fail e2))"

definition organization_wide :: "int \<Rightarrow> staff_membership \<Rightarrow> bool" where
  "organization_wide organizationID m \<longleftrightarrow> mem_OrganizationID m = organizationID \<and> mem_StoreID m = None"

text \<open>
  The code calls itself again after a conflict, without a bound: another run is then expected
  to have created the row. \<open>n\<close> bounds the calls (\<open>None\<close>: still not done after \<open>n\<close>), \<open>k\<close> counts them.
\<close>

fun resolveOrCreatePlatformAdminMembership ::
    "nat \<Rightarrow> nat \<Rightarrow> 'k world env \<Rightarrow> int \<Rightarrow> int \<Rightarrow> ('k world, (staff_membership \<times> bool) option) op" where
  "resolveOrCreatePlatformAdminMembership 0 k E staffUserID organizationID = ok None"
| "resolveOrCreatePlatformAdminMembership (Suc n) k E staffUserID organizationID =
     andThen (call E (''boot.list'', k) (on_db (membership_ListByStaffUser staffUserID))) (\<lambda>existing.
     case find (organization_wide organizationID) existing of
       Some m \<Rightarrow>
         if mem_Role m \<noteq> RolePlatformAdmin
         then andThen (call E (''boot.promote'', k)
                (on_db (membership_UpdateRole (env_now E (''boot.promote'', k)) (mem_ID m) RolePlatformAdmin))) (\<lambda>_.
              ok (Some (m\<lparr>mem_Role := RolePlatformAdmin\<rparr>, False)))
         else ok (Some (m, False))
     | None \<Rightarrow>
         let l = (''boot.grant'', k) in
         State_Monad.bind (call E l (on_db (membership_Create (env_now E l)
           \<lparr>mem_ID = 0, mem_StaffUserID = staffUserID, mem_OrganizationID = organizationID, mem_StoreID = None,
            mem_Role = RolePlatformAdmin, mem_Status = StaffActive, mem_CreatedAt = 0, mem_UpdatedAt = 0\<rparr>))) (\<lambda>r.
         case r of
           Inr m \<Rightarrow> ok (Some (m, True))
         | Inl e \<Rightarrow>
             if e = ErrConflict then resolveOrCreatePlatformAdminMembership n (Suc k) E staffUserID organizationID
             else fail e))"

definition BootstrapPlatformAdmin :: "nat \<Rightarrow> 'k world env \<Rightarrow> bootstrap_input \<Rightarrow> ('k world, bootstrap_result option) op" where
  "BootstrapPlatformAdmin n E i =
     andThen (resolveOrganization E i) (\<lambda>org.
     andThen (resolveOrCreateStaffUser E i) (\<lambda>(user, userCreated).
     andThen (resolveOrCreatePlatformAdminMembership n 0 E (su_ID user) (org_ID org)) (\<lambda>r.
     case r of
       None \<Rightarrow> ok None
     | Some (membership, membershipCreated) \<Rightarrow>
         ok (Some \<lparr>br_Organization = org, br_StaffUser = user, br_Membership = membership,
                   br_UserCreated = userCreated, br_MembershipCreated = membershipCreated\<rparr>))))"

section \<open>What the loops decide\<close>

definition covers :: "int option \<Rightarrow> staff_membership \<Rightarrow> bool" where
  "covers storeID m \<longleftrightarrow> mem_StoreID m = None \<or> (storeID \<noteq> None \<and> mem_StoreID m = storeID)"

lemma grantedBy_iff:
  "grantedBy perm org st ms \<longleftrightarrow> (\<exists>m\<in>set ms. mem_OrganizationID m = org \<and> HasPermission (mem_Role m) perm \<and> covers st m)"
  by (induction ms) (auto simp: covers_def split: option.splits)

lemma HasPermission_admin [simp]: "HasPermission RolePlatformAdmin perm"
  by (cases perm) (simp_all add: HasPermission_def)

lemma viewerOnly_iff:
  "viewerOnly org st b ms \<longleftrightarrow>
     (b \<or> (\<exists>m\<in>set ms. mem_OrganizationID m = org \<and> (st = None \<or> covers st m))) \<and>
     (\<forall>m\<in>set ms. mem_OrganizationID m = org \<and> (st = None \<or> covers st m) \<longrightarrow> mem_Role m = RoleSupportViewer)"
  by (induction ms arbitrary: b) (auto simp: covers_def)

end
