(* ===== verification/Staff_Theorems.thy ===== *)
theory Staff_Theorems
  imports Staff_Auth Customer_Steps Identity_Steps
begin

text \<open>The properties of the staff's login, permissions and bootstrap.\<close>

section \<open>Permissions\<close>

definition grants :: "int \<Rightarrow> permission \<Rightarrow> int \<Rightarrow> int option \<Rightarrow> staff_membership \<Rightarrow> bool" where
  "grants user perm org st m \<longleftrightarrow> mem_StaffUserID m = user \<and> mem_Status m = StaffActive \<and>
     (mem_Role m = RolePlatformAdmin \<or>
      mem_OrganizationID m = org \<and> HasPermission (mem_Role m) perm \<and> covers st m)"

lemma loadPrincipal_quiet:
  "run_state (loadPrincipal (quiet t) i) w =
     (Inr \<lparr>sp_StaffUserID = i, sp_Memberships = List.filter (\<lambda>m. mem_Status m = StaffActive)
        (List.filter (\<lambda>m. mem_StaffUserID m = i) (db_memberships (w_db w)))\<rparr>, w)"
  by (simp add: loadPrincipal_def run_andThen run_on_db membership_ListByStaffUser_def)

lemma ResolvePrincipal_quiet:
  "run_state (ResolvePrincipal (quiet t) i) w =
     (case find (\<lambda>u. su_ID u = i) (db_staff_users (w_db w)) of
        None \<Rightarrow> (Inl ErrNotFound, w)
      | Some u \<Rightarrow> if su_Status u \<noteq> StaffActive then (Inl ErrStaffDisabled, w) else run_state (loadPrincipal (quiet t) i) w)"
  by (simp add: ResolvePrincipal_def run_andThen run_on_db staff_GetByID_def split: option.split)

lemma loaded_permission:
  assumes "p = \<lparr>sp_StaffUserID = i, sp_Memberships = List.filter (\<lambda>m. mem_Status m = StaffActive) (List.filter (\<lambda>m. mem_StaffUserID m = i) ms)\<rparr>"
  shows "principal_HasPermission p perm org st \<longleftrightarrow> list_ex (grants i perm org st) ms"
  unfolding assms by (auto simp: principal_HasPermission_def IsPlatformAdmin_def grantedBy_iff grants_def list_ex_iff)

text \<open>What a resolved principal tells of the tables.\<close>

lemma principal_rows:
  assumes "run_state (ResolvePrincipal (quiet t) i) w = (Inr p, w')"
  shows "w' = w" "sp_StaffUserID p = i"
    "list_ex (\<lambda>u. su_ID u = i \<and> su_Status u = StaffActive) (db_staff_users (w_db w))"
    "principal_HasPermission p perm org st = list_ex (grants i perm org st) (db_memberships (w_db w))"
proof -
  from assms obtain u where u: "find (\<lambda>u. su_ID u = i) (db_staff_users (w_db w)) = Some u" "su_Status u = StaffActive"
    by (auto simp: ResolvePrincipal_quiet split: option.splits if_splits)
  with assms have p: "w' = w" "p = \<lparr>sp_StaffUserID = i, sp_Memberships = List.filter (\<lambda>m. mem_Status m = StaffActive)
      (List.filter (\<lambda>m. mem_StaffUserID m = i) (db_memberships (w_db w)))\<rparr>"
    by (auto simp: ResolvePrincipal_quiet loadPrincipal_quiet)
  from find_SomeD [OF u(1)] u(2) show "list_ex (\<lambda>u. su_ID u = i \<and> su_Status u = StaffActive) (db_staff_users (w_db w))"
    by (auto simp: list_ex_iff)
  from p show "w' = w" "sp_StaffUserID p = i" by simp_all
  from loaded_permission [OF p(2)] show "principal_HasPermission p perm org st = list_ex (grants i perm org st) (db_memberships (w_db w))" .
qed

text \<open>
  C26: the rows decide, at every request. Undisturbed, a principal resolves only for an active
  staff user, and it has a permission in an organization or store exactly if one of the user's
  active memberships grants it there now: a platform administrator's anywhere, any other only in
  its own organization and, if it names a store, only for that store.
\<close>

theorem staff_access_by_rows:
  assumes "run_state (ResolvePrincipal (quiet t) staffUserID) w = (Inr p, w')"
  shows "w' = w \<and> sp_StaffUserID p = staffUserID \<and>
    list_ex (\<lambda>u. su_ID u = staffUserID \<and> su_Status u = StaffActive) (db_staff_users (w_db w)) \<and>
    principal_HasPermission p perm org st = list_ex (grants staffUserID perm org st) (db_memberships (w_db w))"
using principal_rows [OF assms] by simp

definition manager :: staff_membership where
  "manager = \<lparr>mem_ID = 1, mem_StaffUserID = 4, mem_OrganizationID = 2, mem_StoreID = Some 3, mem_Role = RoleStoreManager,
     mem_Status = StaffActive, mem_CreatedAt = 0, mem_UpdatedAt = 0\<rparr>"

definition staff_world :: "staff_membership list \<Rightarrow> unit world" where
  "staff_world ms = \<lparr>w_db = empty_db\<lparr>db_staff_users := [\<lparr>su_ID = 4, su_ExternalSubject = ''sub'', su_Email = [], su_DisplayName = [],
     su_Status = StaffActive, su_CreatedAt = 0\<rparr>], db_memberships := ms, db_organizations := [\<lparr>org_ID = 2, org_Name = ''Org'', org_CreatedAt = 0\<rparr>],
     db_seq := (\<lambda>_. 4)\<rparr>, w_kv = ()\<rparr>"

theorem staff_access_by_rows_witness:
  "\<exists>p. run_state (ResolvePrincipal (quiet 0) 4) (staff_world [manager]) = (Inr p, staff_world [manager]) \<and>
     principal_HasPermission p PermClientsRead 2 (Some 3) \<and> \<not> principal_HasPermission p PermClientsRead 2 (Some 5) \<and>
     \<not> principal_HasPermission p PermClientsRead 2 None \<and> \<not> principal_HasPermission p PermStaffManage 2 (Some 3)"
proof -
  obtain p where 1: "run_state (ResolvePrincipal (quiet 0) 4) (staff_world [manager]) = (Inr p, staff_world [manager])"
    by (simp add: ResolvePrincipal_quiet loadPrincipal_quiet staff_world_def)
  from staff_access_by_rows [OF 1] have "principal_HasPermission p perm org st = grants 4 perm org st manager" for perm org st
    by (simp add: staff_world_def)
  with 1 show ?thesis by (simp add: grants_def manager_def covers_def HasPermission_def)
qed

section \<open>Login\<close>

lemma yields_subject: "yields (\<lambda>u. su_ExternalSubject u = sub) (staff_GetByExternalSubject sub)"
  by (auto simp: yields_def staff_GetByExternalSubject_def split: option.splits dest!: find_SomeD)

lemma yields_staff_Create: "su_ExternalSubject u = sub \<Longrightarrow> yields (\<lambda>v. su_ExternalSubject v = sub) (staff_Create now u)"
  by (auto simp: yields_def staff_Create_def run_andThen Let_def split: if_splits)

lemma yields_user: "yields (\<lambda>u. su_ExternalSubject u = oc_Subject claims) (resolveOrCreateUser E claims)"
  unfolding resolveOrCreateUser_def Let_def
proof (rule yields_bind)
  let ?P = "\<lambda>u. su_ExternalSubject u = oc_Subject claims"
  show get: "yields ?P (call E (''staff.subject'', k) (on_db (staff_GetByExternalSubject (oc_Subject claims))))" for k
    by (intro yields_call yields_on_db yields_subject)
  have create: "yields ?P (call E l (on_db (staff_Create t \<lparr>su_ID = 0, su_ExternalSubject = oc_Subject claims, su_Email = m,
      su_DisplayName = n, su_Status = StaffActive, su_CreatedAt = 0\<rparr>)))" for l t m n
    by (intro yields_call yields_on_db yields_staff_Create) simp
  fix u e
  show "?P u \<Longrightarrow> yields ?P (case Inr u of
      Inr user \<Rightarrow> State_Monad.bind (call E (''staff.profile'', 0) (on_db (staff_UpdateProfile (su_ID user) (oc_Email claims) (oc_Name claims))))
        (\<lambda>upd. case upd of Inl _ \<Rightarrow> ok user | Inr _ \<Rightarrow> ok (user\<lparr>su_Email := oc_Email claims, su_DisplayName := oc_Name claims\<rparr>))
    | Inl e \<Rightarrow> f e)" for f
    by (auto intro!: yields_bind [OF yields_True] yields_ok)
  show "yields ?P (case Inl e of Inr user \<Rightarrow> g user | Inl e \<Rightarrow>
      if e \<noteq> ErrNotFound then fail e
      else State_Monad.bind (call E (''staff.create'', 0) (on_db (staff_Create (env_now E (''staff.create'', 0))
        \<lparr>su_ID = 0, su_ExternalSubject = oc_Subject claims, su_Email = oc_Email claims, su_DisplayName = oc_Name claims,
         su_Status = StaffActive, su_CreatedAt = 0\<rparr>))) (\<lambda>r2. case r2 of Inr user \<Rightarrow> ok user | Inl e2 \<Rightarrow>
          if e2 = ErrConflict then call E (''staff.subject'', 1) (on_db (staff_GetByExternalSubject (oc_Subject claims)))
          else fail e2))" for g
    using get [of 1] by (auto intro!: yields_bind [OF create] yields_ok yields_fail)
qed

lemma yields_principal:
  "yields (\<lambda>p. sp_StaffUserID p = i \<and> list_all (\<lambda>m. mem_StaffUserID m = i \<and> mem_Status m = StaffActive) (sp_Memberships p)) (loadPrincipal E i)"
  unfolding loadPrincipal_def
proof (rule yields_andThen)
  show "yields (list_all (\<lambda>m. mem_StaffUserID m = i)) (call E (''staff.memberships'', 0) (on_db (membership_ListByStaffUser i)))"
    by (intro yields_call yields_on_db) (auto simp: yields_def membership_ListByStaffUser_def list_all_iff)
qed (auto intro!: yields_ok simp: list_all_iff)

text \<open>A successful login, call by call.\<close>

lemma authenticateClaims_run:
  assumes "run_state (authenticateClaims S E claims ip ua) w = (Inr (token, p), w')"
  obtains user w1 w2 where "run_state (resolveOrCreateUser E claims) w = (Inr user, w1)" "su_Status user = StaffActive"
    "run_state (loadPrincipal E (su_ID user)) w1 = (Inr p, w2)" "sp_Memberships p \<noteq> []"
    "IssueStaffAccessToken (sa_jwt S) (env_now E (''staff.token'', 0)) (sac_AccessTokenSecret (sa_cfg S)) (su_ID user)
       (sac_AccessTokenTTL (sa_cfg S)) = Some token"
    "w' = after (staff_auditLog E (su_ID user) AuditActionStaffLogin ip ua) w2"
  using assms
  by (auto simp: authenticateClaims_def run_andThen split: prod.splits sum.splits if_splits option.splits)

text \<open>When nothing else runs, the user it finds or creates is a row of the table.\<close>

definition user_row :: "staff_user \<Rightarrow> db \<Rightarrow> bool" where
  "user_row u d \<longleftrightarrow> list_ex (\<lambda>r. su_ID r = su_ID u \<and> su_ExternalSubject r = su_ExternalSubject u \<and> su_Status r = su_Status u) (db_staff_users d)"

lemma alone_Inr:
  assumes "\<And>l w. env_other E l w = w" "run_state (call E l m) w = (Inr x, w')"
  shows "run_state m w = (Inr x, w')"
  using assms by (auto simp: run_call split: fault.splits)

lemma alone_after:
  assumes "\<And>l w. env_other E l w = w" "run_state (call E l m) w = (r, w')"
  shows "w' = w \<or> w' = after m w"
  using assms by (auto simp: run_call split: fault.splits)

lemma user_row_profile: "user_row u d \<Longrightarrow> user_row u (after (staff_UpdateProfile i email name) d)"
proof -
  assume "user_row u d"
  then obtain r where r: "r \<in> set (db_staff_users d)" "su_ID r = su_ID u" "su_ExternalSubject r = su_ExternalSubject u" "su_Status r = su_Status u"
    by (auto simp: user_row_def list_ex_iff)
  then show ?thesis
    unfolding user_row_def staff_UpdateProfile_def list_ex_iff
    by (intro bexI [of _ "if su_ID r = i then r\<lparr>su_Email := email, su_DisplayName := name\<rparr> else r"]) auto
qed

lemma resolveUser_row:
  assumes "\<And>l w. env_other E l w = w" "run_state (resolveOrCreateUser E claims) w = (Inr user, w')"
  shows "user_row user (w_db w') \<and> db_memberships (w_db w') = db_memberships (w_db w)"
proof -
  let ?get = "\<lambda>k. call E (''staff.subject'', k) (on_db (staff_GetByExternalSubject (oc_Subject claims)))"
  let ?put = "\<lambda>u. call E (''staff.profile'', 0) (on_db (staff_UpdateProfile (su_ID u) (oc_Email claims) (oc_Name claims)))"
  let ?l = "(''staff.create'', 0)"
  let ?new = "\<lparr>su_ID = 0, su_ExternalSubject = oc_Subject claims, su_Email = oc_Email claims, su_DisplayName = oc_Name claims,
      su_Status = StaffActive, su_CreatedAt = 0\<rparr>"
  have got: "user_row u (w_db w1) \<and> w1 = w0" if "run_state (?get k) w0 = (Inr u, w1)" for k u w0 w1
    using alone_Inr [OF assms(1) that]
    by (auto simp: run_on_db staff_GetByExternalSubject_def user_row_def list_ex_iff select_one_def split: option.splits dest!: find_SomeD)
  have kept: "w1 = w0" if "run_state (?get k) w0 = (r, w1)" for k r w0 w1
    using alone_after [OF assms(1) that] by (auto simp: run_on_db staff_GetByExternalSubject_def select_one_def split: option.splits)
  obtain r1 w1 where 1: "run_state (?get 0) w = (r1, w1)" by fastforce
  show ?thesis
  proof (cases r1)
    case (Inr u)
    obtain upd w2 where 2: "run_state (?put u) w1 = (upd, w2)" by fastforce
    from 1 2 Inr assms(2) have user: "user = u \<or> user = u\<lparr>su_Email := oc_Email claims, su_DisplayName := oc_Name claims\<rparr>" "w' = w2"
      by (auto simp: resolveOrCreateUser_def split: sum.splits)
    from alone_after [OF assms(1) 2] have "w2 = w1 \<or> w_db w2 = after (staff_UpdateProfile (su_ID u) (oc_Email claims) (oc_Name claims)) (w_db w1)"
      by (auto simp: run_on_db)
    then have "user_row u (w_db w2) \<and> db_memberships (w_db w2) = db_memberships (w_db w1)"
      using got [OF 1 [unfolded Inr]] user_row_profile [of u "w_db w1"] by (auto simp: staff_UpdateProfile_def)
    moreover have "user_row user (w_db w2) = user_row u (w_db w2)" using user(1) by (auto simp: user_row_def)
    ultimately show ?thesis using user(2) got [OF 1 [unfolded Inr]] by simp
  next
    case (Inl e)
    obtain r2 w2 where 2: "run_state (call E ?l (on_db (staff_Create (env_now E ?l) ?new))) w1 = (r2, w2)" by fastforce
    have mem: "db_memberships (w_db w2) = db_memberships (w_db w1)"
      using alone_after [OF assms(1) 2] by (auto simp: run_on_db staff_Create_def run_andThen Let_def)
    show ?thesis
    proof (cases r2)
      case (Inr u)
      with 1 2 Inl assms(2) have "user = u" "w' = w2" by (auto simp: resolveOrCreateUser_def Let_def split: if_splits)
      moreover have "user_row u (w_db w2)"
        using alone_Inr [OF assms(1) 2 [unfolded Inr]]
        by (auto simp: run_on_db staff_Create_def run_andThen Let_def user_row_def split: if_splits)
      ultimately show ?thesis using mem kept [OF 1] by simp
    next
      case (Inl e2)
      with 1 2 \<open>r1 = Inl e\<close> assms(2) have "run_state (?get 1) w2 = (Inr user, w')"
        by (auto simp: resolveOrCreateUser_def Let_def split: if_splits)
      from got [OF this] mem kept [OF 1] show ?thesis by auto
    qed
  qed
qed

lemma login_rows:
  assumes "\<And>l w. env_other E l w = w" "run_state (resolveOrCreateUser E claims) w = (Inr user, w1)"
    and "run_state (loadPrincipal E (su_ID user)) w1 = (Inr p, w2)"
  shows "user_row user (w_db (after (staff_auditLog E i act ip ua) w2)) \<and>
    sp_Memberships p = List.filter (\<lambda>m. mem_Status m = StaffActive) (List.filter (\<lambda>m. mem_StaffUserID m = su_ID user) (db_memberships (w_db w)))"
proof -
  from assms(3) obtain ms where ms: "run_state (call E (''staff.memberships'', 0) (on_db (membership_ListByStaffUser (su_ID user)))) w1 = (Inr ms, w2)"
    and p: "p = \<lparr>sp_StaffUserID = su_ID user, sp_Memberships = List.filter (\<lambda>m. mem_Status m = StaffActive) ms\<rparr>"
    by (auto simp: loadPrincipal_def run_andThen split: prod.splits sum.splits)
  from alone_Inr [OF assms(1) ms] have w2: "w_db w2 = w_db w1"
      "ms = List.filter (\<lambda>m. mem_StaffUserID m = su_ID user) (db_memberships (w_db w1))"
    by (auto simp: run_on_db membership_ListByStaffUser_def select_all_def)
  have "db_staff_users (w_db (after (staff_auditLog E i act ip ua) w2)) = db_staff_users (w_db w2)"
    by (simp add: staff_auditLog_def Let_def run_call run_on_db audit_Create_def run_andThen assms(1) split: fault.split)
  with resolveUser_row [OF assms(1,2)] w2 p show ?thesis by (simp add: user_row_def)
qed

text \<open>
  C27: only the identity provider lets staff in. Whatever calls fail and whatever else runs, a
  login succeeds only with an ID token whose RS256 signature verifies under a key that the
  issuer's endpoint served less than the cache's lifetime ago (or since the login looked), made
  out by the issuer for this audience and not expired; the staff user that the login found (or created) for
  the token's subject is active and has an active membership, and the access token returned is that
  user's. When nothing else runs in PostgreSQL, only calls may fail: that user is then an active row of the table with the token's
  subject, and the memberships of the returned principal are its active rows.
\<close>

theorem staff_login_verified:
  assumes "jose_laws (sa_jose S)"
    and "cache_of served v" "\<And>l v. refreshed served v (env_other V l v)"
    and "\<And>ks. reply = JwksDocument ks \<Longrightarrow> (env_now V (''oidc.store'', 0), ks) \<in> served"
    and "run_state (AuthenticateOIDC S E V reply rawIDToken ip ua) (w, v) = (Inr (token, p), s')"
  shows "\<exists>kid key c t ks e claims user w1. jose_header (sa_jose S) rawIDToken = Some (''RS256'', kid) \<and>
    (t, ks) \<in> served \<and> jwksKeys ks Map.empty kid = Some key \<and>
    (env_now V (''oidc.key'', 0) - t < ov_cacheTTL (sa_oidc S) \<or> env_now V (''oidc.store'', 0) \<le> t) \<and>
    jose_verify (sa_jose S) key rawIDToken = Some c \<and>
    idt_Issuer c = ov_issuer (sa_oidc S) \<and> ov_audience (sa_oidc S) \<in> set (idt_Audience c) \<and>
    idt_ExpiresAt c = Some e \<and> env_now V (''oidc.valid'', 0) < e * 1000000000 \<and>
    oc_Subject claims = idt_Subject c \<and> run_state (resolveOrCreateUser E claims) w = (Inr user, w1) \<and>
    su_ExternalSubject user = idt_Subject c \<and> su_Status user = StaffActive \<and> su_ID user = sp_StaffUserID p \<and>
    sp_Memberships p \<noteq> [] \<and> list_all (\<lambda>m. mem_StaffUserID m = su_ID user \<and> mem_Status m = StaffActive) (sp_Memberships p) \<and>
    IssueStaffAccessToken (sa_jwt S) (env_now E (''staff.token'', 0)) (sac_AccessTokenSecret (sa_cfg S)) (su_ID user)
      (sac_AccessTokenTTL (sa_cfg S)) = Some token \<and>
    ((\<forall>l w. env_other E l w = w) \<longrightarrow>
       user_row user (w_db (fst s')) \<and>
       sp_Memberships p = List.filter (\<lambda>m. mem_Status m = StaffActive)
         (List.filter (\<lambda>m. mem_StaffUserID m = su_ID user) (db_memberships (w_db w))))"
proof -
  from assms(5) obtain claims v' w' where v: "run_state (VerifyIDToken (sa_jose S) (sa_oidc S) V reply rawIDToken) v = (Inr claims, v')"
    and w: "run_state (authenticateClaims S E claims ip ua) w = (Inr (token, p), w')" and s': "s' = (w', v')"
    by (auto simp: AuthenticateOIDC_def split: prod.splits sum.splits)
  obtain kid key c where c: "jose_header (sa_jose S) rawIDToken = Some (''RS256'', kid)"
    "run_state (oidc_key (sa_oidc S) V reply kid) v = (Inr key, v')" "jose_verify (sa_jose S) key rawIDToken = Some c"
    "jose_valid (sa_jose S) (ov_issuer (sa_oidc S)) (ov_audience (sa_oidc S)) (env_now V (''oidc.valid'', 0)) c"
    "oc_Subject claims = idt_Subject c"
    by (rule VerifyIDToken_success [OF v]) auto
  from oidc_key_served [OF assms(2-4) c(2)] obtain t ks where "(t, ks) \<in> served" "jwksKeys ks Map.empty kid = Some key"
    "env_now V (''oidc.key'', 0) - t < ov_cacheTTL (sa_oidc S) \<or> env_now V (''oidc.store'', 0) \<le> t" by auto
  moreover from jose_laws.valid_claims [OF assms(1) c(4)] obtain e where "idt_Issuer c = ov_issuer (sa_oidc S)"
    "ov_audience (sa_oidc S) \<in> set (idt_Audience c)" "idt_ExpiresAt c = Some e" "env_now V (''oidc.valid'', 0) < e * 1000000000" by auto
  moreover obtain user w1 w2 where run: "run_state (resolveOrCreateUser E claims) w = (Inr user, w1)" "su_Status user = StaffActive"
    "run_state (loadPrincipal E (su_ID user)) w1 = (Inr p, w2)" "sp_Memberships p \<noteq> []"
    "IssueStaffAccessToken (sa_jwt S) (env_now E (''staff.token'', 0)) (sac_AccessTokenSecret (sa_cfg S)) (su_ID user)
       (sac_AccessTokenTTL (sa_cfg S)) = Some token"
    "w' = after (staff_auditLog E (su_ID user) AuditActionStaffLogin ip ua) w2"
    by (rule authenticateClaims_run [OF w])
  moreover have "su_ExternalSubject user = idt_Subject c" using yieldsD [OF yields_user run(1)] c(5) by simp
  moreover have "su_ID user = sp_StaffUserID p"
    "list_all (\<lambda>m. mem_StaffUserID m = su_ID user \<and> mem_Status m = StaffActive) (sp_Memberships p)"
    using yieldsD [OF yields_principal run(3)] by simp_all
  moreover have "(\<forall>l w. env_other E l w = w) \<longrightarrow> user_row user (w_db (fst s')) \<and>
      sp_Memberships p = List.filter (\<lambda>m. mem_Status m = StaffActive)
        (List.filter (\<lambda>m. mem_StaffUserID m = su_ID user) (db_memberships (w_db w)))"
  proof
    assume "\<forall>l w. env_other E l w = w"
    then have "env_other E l w = w" for l w by blast
    from login_rows [OF this run(1,3)] show "user_row user (w_db (fst s')) \<and>
        sp_Memberships p = List.filter (\<lambda>m. mem_Status m = StaffActive)
          (List.filter (\<lambda>m. mem_StaffUserID m = su_ID user) (db_memberships (w_db w)))"
      unfolding s' fst_conv run(6) .
  qed
  ultimately show ?thesis using c(1,3,5) by (intro exI conjI) assumption+
qed

text \<open>A library whose tokens are their subjects, all signed with the key whose modulus is 65537.\<close>

definition plain_jose :: jose_lib where
  "plain_jose = \<lparr>jose_header = (\<lambda>tok. Some (''RS256'', ''k1'')),
     jose_verify = (\<lambda>key tok. if rsa_N key = 65537
       then Some \<lparr>idt_Subject = tok, idt_Email = [], idt_Name = [], idt_Issuer = ''iss'', idt_Audience = [''aud''], idt_ExpiresAt = Some 100\<rparr>
       else None),
     jose_valid = (\<lambda>iss aud now c. idt_Issuer c = iss \<and> aud \<in> set (idt_Audience c) \<and>
       (case idt_ExpiresAt c of None \<Rightarrow> False | Some e \<Rightarrow> now < e * 1000000000))\<rparr>"

interpretation plain_jose: jose_laws plain_jose
  by unfold_locales (auto simp: plain_jose_def split: option.splits)

definition demo_staff :: staff_auth where
  "demo_staff = \<lparr>sa_jwt = plain_jwt, sa_jose = plain_jose, sa_oidc = \<lparr>ov_issuer = ''iss'', ov_audience = ''aud'', ov_cacheTTL = 300\<rparr>,
     sa_cfg = \<lparr>sac_AccessTokenSecret = ''secret'', sac_AccessTokenTTL = 900000000000\<rparr>\<rparr>"

definition demo_jwks :: "jwk list" where
  "demo_jwks = [\<lparr>jwk_Kty = ''RSA'', jwk_Kid = ''k1'', jwk_N = ''AQAB'', jwk_E = ''AQAB''\<rparr>]"

lemma demo_keys: "jwksKeys demo_jwks Map.empty = [''k1'' \<mapsto> \<lparr>rsa_N = 65537, rsa_E = 65537\<rparr>]"
proof -
  have "rsaPublicKeyFromJWK ''AQAB'' ''AQAB'' = Some \<lparr>rsa_N = 65537, rsa_E = 65537\<rparr>"
    by (simp add: rsaPublicKeyFromJWK_def base64url_decode_def base64_val_def bytes_value_def wrap64_def)
  then show ?thesis by (simp add: demo_jwks_def)
qed

theorem staff_login_verified_witness:
  "\<exists>token p s' u. run_state (AuthenticateOIDC demo_staff (quiet 0) (quiet 0) (JwksDocument demo_jwks) ''sub'' [] [])
       (staff_world [manager], NewOIDCVerifier) = (Inr (token, p), s') \<and>
     su_ExternalSubject u = ''sub'' \<and> su_ID u = sp_StaffUserID p \<and> user_row u (w_db (fst s'))"
proof -
  have claims: "run_state (VerifyIDToken plain_jose (sa_oidc demo_staff) (quiet 0) (JwksDocument demo_jwks) ''sub'') NewOIDCVerifier =
      (Inr \<lparr>oc_Subject = ''sub'', oc_Email = [], oc_Name = []\<rparr>, \<lparr>ov_keys = [''k1'' \<mapsto> \<lparr>rsa_N = 65537, rsa_E = 65537\<rparr>], ov_fetchedAt = Some 0\<rparr>)"
    by (simp add: VerifyIDToken_def plain_jose_def demo_staff_def oidc_key_def run_andThen refreshKeys_def demo_keys NewOIDCVerifier_def)
  obtain token where "IssueStaffAccessToken plain_jwt 0 ''secret'' 4 900000000000 = Some token"
    by (auto simp: IssueStaffAccessToken_def issueAccessToken_def plain_jwt_def tokenTypeStaffAccess_def show_int_no_newline)
  with claims obtain p s' where 1: "run_state (AuthenticateOIDC demo_staff (quiet 0) (quiet 0) (JwksDocument demo_jwks) ''sub'' [] [])
      (staff_world [manager], NewOIDCVerifier) = (Inr (token, p), s')"
    by (simp add: AuthenticateOIDC_def demo_staff_def authenticateClaims_def resolveOrCreateUser_def run_andThen run_on_db staff_world_def
        staff_GetByExternalSubject_def staff_UpdateProfile_def loadPrincipal_def membership_ListByStaffUser_def manager_def
        staff_auditLog_def Let_def)
  have laws: "jose_laws (sa_jose demo_staff)" "cache_of {(0, demo_jwks)} NewOIDCVerifier"
      "refreshed {(0, demo_jwks)} v (env_other (quiet 0) l v)"
      "JwksDocument demo_jwks = JwksDocument ks \<Longrightarrow> (env_now (quiet 0) l, ks) \<in> {(0, demo_jwks)}" for v l ks
    by (simp_all add: demo_staff_def plain_jose.jose_laws_axioms cache_of_def NewOIDCVerifier_def)
  from staff_login_verified [OF laws 1] obtain u where "su_ExternalSubject u = ''sub''" "su_ID u = sp_StaffUserID p"
      "user_row u (w_db (fst s'))"
    by (auto simp: demo_staff_def plain_jose_def split: if_splits)
  with 1 show ?thesis by blast
qed

section \<open>Bootstrap\<close>

text \<open>No identity operation removes a membership or changes its scope.\<close>

lemma update_membership_scopes:
  assumes "\<And>m. scope_of (f m) = scope_of m"
  shows "scope_of ` set (db_memberships (after (update_membership i f) d)) = scope_of ` set (db_memberships d)"
  by (simp add: update_membership_def image_image assms if_distrib [of scope_of] del: if_image_distrib cong: if_cong)

lemma scopes_persist: "identity_step d d' \<Longrightarrow> x \<in> scope_of ` set (db_memberships d) \<Longrightarrow> x \<in> scope_of ` set (db_memberships d')"
proof (induction rule: identity_step.induct)
  case (claim_session d tf clock now h s)
  then show ?case by (cases rule: ClaimForRotation_cases [of tf clock now h s d])
    (auto simp: identity_tables_def session_link_def run_session_Create Let_def split: if_splits)
next
  case (create_session d now s)
  then show ?case by (simp add: run_session_Create Let_def)
next
  case (upsert_device d now v)
  then show ?case by (simp add: device_Upsert_def run_andThen Let_def split: option.splits)
next
  case (create_membership d now m)
  then show ?case by (auto simp: membership_Create_def run_andThen Let_def)
next
  case (create_key d now k)
  then show ?case by (auto simp: key_Create_def run_andThen Let_def)
next
  case (update_status d now i st)
  then show ?case unfolding membership_UpdateStatus_def by (subst update_membership_scopes) (simp_all add: scope_of_def)
next
  case (update_role d now i r)
  then show ?case unfolding membership_UpdateRole_def by (subst update_membership_scopes) (simp_all add: scope_of_def)
qed (auto simp: session_Revoke_def session_RevokeAllForAccount_def revoke_sessions_def device_Revoke_def device_RevokeByToken_def
    revoke_devices_def run_andThen key_Revoke_def key_TouchLastUsed_def identity_tables_def Let_def split: if_splits)

lemma scopes_persist_steps:
  "identity_step\<^sup>*\<^sup>* d d' \<Longrightarrow> x \<in> scope_of ` set (db_memberships d) \<Longrightarrow> x \<in> scope_of ` set (db_memberships d')"
  by (induction rule: rtranclp_induct) (auto dest: scopes_persist)

lemma conflict_scope:
  assumes "run_state (call E l (on_db (membership_Create now m))) w = (Inl ErrConflict, w')"
  shows "scope_of m \<in> scope_of ` set (db_memberships (w_db w'))"
  using assms
  by (auto simp: run_call run_on_db membership_Create_def run_andThen Let_def list_ex_iff same_scope_iff image_iff
      split: fault.splits if_splits)

lemma known_scope_resolves:
  assumes "\<And>l w. identity_step\<^sup>*\<^sup>* (w_db w) (w_db (env_other E l w))" "(u, org, None) \<in> scope_of ` set (db_memberships (w_db w))"
  shows "fst (run_state (resolveOrCreatePlatformAdminMembership (Suc n) k E u org) w) \<noteq> Inr None"
proof -
  obtain r w1 where 1: "run_state (call E (''boot.list'', k) (on_db (membership_ListByStaffUser u))) w = (r, w1)" by fastforce
  show ?thesis
  proof (cases r)
    case (Inr existing)
    with 1 have e: "existing = List.filter (\<lambda>m. mem_StaffUserID m = u) (db_memberships (w_db (env_other E (''boot.list'', k) w)))"
      by (auto simp: run_call run_on_db membership_ListByStaffUser_def split: fault.splits)
    have "(u, org, None) \<in> scope_of ` set (db_memberships (w_db (env_other E (''boot.list'', k) w)))"
      using scopes_persist_steps [OF assms(1) assms(2)] .
    then have "find (organization_wide org) existing \<noteq> None"
      unfolding e by (auto simp: find_None_iff organization_wide_def scope_of_def)
    then obtain m where "find (organization_wide org) existing = Some m" by blast
    with 1 Inr show ?thesis by (auto simp: run_andThen split: prod.split sum.split)
  qed (use 1 in \<open>simp add: run_andThen\<close>)
qed

text \<open>
  The bootstrap ends. However other requests interleave (they only take steps of the
  identity tables) and whatever calls fail, the recursion that follows a lost race is entered
  at most once: two rounds always suffice.
\<close>

theorem bootstrap_two_rounds:
  assumes "\<And>l w. identity_step\<^sup>*\<^sup>* (w_db w) (w_db (env_other E l w))"
  shows "fst (run_state (BootstrapPlatformAdmin (Suc (Suc n)) E i) w) \<noteq> Inr None"
proof -
  have rounds: "fst (run_state (resolveOrCreatePlatformAdminMembership (Suc (Suc n)) 0 E u org) w) \<noteq> Inr None" for u org w
  proof -
    obtain r w1 where 1: "run_state (call E (''boot.list'', 0) (on_db (membership_ListByStaffUser u))) w = (r, w1)" by fastforce
    show ?thesis
    proof (cases "\<exists>existing. r = Inr existing \<and> find (organization_wide org) existing = None")
      case True
      let ?l = "(''boot.grant'', 0)"
      let ?m = "\<lparr>mem_ID = 0, mem_StaffUserID = u, mem_OrganizationID = org, mem_StoreID = None,
          mem_Role = RolePlatformAdmin, mem_Status = StaffActive, mem_CreatedAt = 0, mem_UpdatedAt = 0\<rparr>"
      obtain r2 w2 where 2: "run_state (call E ?l (on_db (membership_Create (env_now E ?l) ?m))) w1 = (r2, w2)" by fastforce
      show ?thesis
      proof (cases "r2 = Inl ErrConflict")
        case conflict: True
        with 2 have "(u, org, None) \<in> scope_of ` set (db_memberships (w_db w2))"
          using conflict_scope [of E ?l _ ?m w1 w2] by (simp add: scope_of_def)
        from known_scope_resolves [OF assms this, of n 1] True 1 2 conflict show ?thesis
          by (auto simp: run_andThen Let_def simp del: resolveOrCreatePlatformAdminMembership.simps(2))
             (simp add: resolveOrCreatePlatformAdminMembership.simps(2) [of "Suc n" 0] run_andThen Let_def
               del: resolveOrCreatePlatformAdminMembership.simps(2))
      next
        case False
        with True 1 2 show ?thesis by (cases r2) (auto simp: run_andThen Let_def)
      qed
    next
      case False
      with 1 show ?thesis by (auto simp: run_andThen split: sum.split option.split prod.split)
    qed
  qed
  show ?thesis
    using rounds by (auto simp: BootstrapPlatformAdmin_def run_andThen split: sum.split prod.split option.split
        simp del: resolveOrCreatePlatformAdminMembership.simps) (metis fst_conv)
qed

text \<open>Two bootstraps at once: the other run grants the membership between the list and the create.\<close>

definition boot_input :: bootstrap_input where
  "boot_input = \<lparr>bs_Subject = ''sub'', bs_Email = [], bs_DisplayName = [], bs_OrgName = ''Org'', bs_OrgID = 0\<rparr>"

definition admin_row :: staff_membership where
  "admin_row = \<lparr>mem_ID = 0, mem_StaffUserID = 4, mem_OrganizationID = 2, mem_StoreID = None, mem_Role = RolePlatformAdmin,
     mem_Status = StaffActive, mem_CreatedAt = 0, mem_UpdatedAt = 0\<rparr>"

definition racing :: "unit world env" where
  "racing = (quiet 0)\<lparr>env_other := (\<lambda>l w. if l = (''boot.grant'', 0) then w\<lparr>w_db := after (membership_Create 0 admin_row) (w_db w)\<rparr> else w)\<rparr>"

lemmas boot_defs = BootstrapPlatformAdmin_def resolveOrganization_def resolveOrCreateStaffUser_def boot_input_def
  run_andThen run_call run_on_db organization_GetByName_def staff_GetByExternalSubject_def staff_world_def
  membership_ListByStaffUser_def membership_Create_def membership_UpdateRole_def update_membership_def organization_wide_def
  same_scope_def Let_def

theorem bootstrap_two_rounds_witness:
  "\<exists>r w'. run_state (BootstrapPlatformAdmin 2 racing boot_input) (staff_world []) = (Inr (Some r), w') \<and>
     \<not> br_MembershipCreated r \<and> mem_Role (br_Membership r) = RolePlatformAdmin"
proof -
  obtain x w' where 1: "run_state (BootstrapPlatformAdmin 2 racing boot_input) (staff_world []) = (x, w')" by fastforce
  have "identity_step\<^sup>*\<^sup>* (w_db w) (w_db (env_other racing l w))" for l w
    by (auto simp: racing_def intro: r_into_rtranclp identity_step.create_membership)
  from bootstrap_two_rounds [OF this, of 0 boot_input "staff_world []"] 1 have "x \<noteq> Inr None" by (simp add: numeral_2_eq_2)
  then obtain y where "x = Inr (Some y) \<or> (\<exists>e. x = Inl e)" by (cases x) (auto simp: option.exhaust)
  with 1 show ?thesis by (auto simp: boot_defs racing_def numeral_2_eq_2 admin_row_def)
qed

section \<open>What the bootstrap leaves\<close>

text \<open>The primary key of the staff users.\<close>

definition staff_ids :: "db \<Rightarrow> bool" where
  "staff_ids d \<longleftrightarrow> distinct (map su_ID (db_staff_users d)) \<and> list_all (\<lambda>u. su_ID u \<le> db_seq d T_staff_users) (db_staff_users d)"

lemma find_by_id:
  assumes "distinct (map f xs)" "x \<in> set xs"
  shows "find (\<lambda>y. f y = f x) xs = Some x"
  using assms by (induction xs) (auto simp: image_iff)

lemma boot_user:
  assumes "run_state (resolveOrCreateStaffUser (quiet t) i) w = (Inr (u, c), w')" "staff_ids (w_db w)"
  shows "find (\<lambda>x. su_ExternalSubject x = bs_Subject i) (db_staff_users (w_db w')) = Some u"
    and "find (\<lambda>x. su_ID x = su_ID u) (db_staff_users (w_db w')) = Some u"
    and "db_memberships (w_db w') = db_memberships (w_db w)" "db_organizations (w_db w') = db_organizations (w_db w)"
proof -
  let ?us = "db_staff_users (w_db w)"
  show "find (\<lambda>x. su_ExternalSubject x = bs_Subject i) (db_staff_users (w_db w')) = Some u"
    "db_memberships (w_db w') = db_memberships (w_db w)" "db_organizations (w_db w') = db_organizations (w_db w)"
    using assms(1)
    by (auto simp: resolveOrCreateStaffUser_def Let_def run_andThen run_on_db staff_GetByExternalSubject_def staff_Create_def find_append
        split: option.splits if_splits)
  show "find (\<lambda>x. su_ID x = su_ID u) (db_staff_users (w_db w')) = Some u"
  proof (cases "find (\<lambda>x. su_ExternalSubject x = bs_Subject i) ?us")
    case None
    have "find (\<lambda>x. su_ID x = db_seq (w_db w) T_staff_users + 1) ?us = None"
      using assms(2) by (force simp: staff_ids_def find_None_iff list_all_iff)
    with None assms(1) show ?thesis
      by (auto simp: resolveOrCreateStaffUser_def Let_def run_andThen run_on_db staff_GetByExternalSubject_def staff_Create_def find_append
          split: if_splits)
  next
    case (Some a)
    with assms(1) have "u = a" "w' = w"
      by (auto simp: resolveOrCreateStaffUser_def Let_def run_on_db staff_GetByExternalSubject_def)
    with Some assms(2) show ?thesis by (auto simp: staff_ids_def dest!: find_SomeD intro: find_by_id)
  qed
qed

lemma boot_membership:
  assumes "run_state (resolveOrCreatePlatformAdminMembership (Suc n) k (quiet t) u org) w = (Inr (Some (m, c)), w')"
  obtains m' where "find (organization_wide org) (List.filter (\<lambda>m. mem_StaffUserID m = u) (db_memberships (w_db w'))) = Some m'"
    "mem_ID m' = mem_ID m" "mem_Role m' = RolePlatformAdmin" "mem_Status m' = mem_Status m"
    "db_staff_users (w_db w') = db_staff_users (w_db w)" "db_organizations (w_db w') = db_organizations (w_db w)"
proof (cases "find (organization_wide org) (List.filter (\<lambda>m. mem_StaffUserID m = u) (db_memberships (w_db w)))")
  case None
  then have "\<not> list_ex (\<lambda>r. mem_StaffUserID r = u \<and> mem_OrganizationID r = org \<and> mem_StoreID r = None) (db_memberships (w_db w))"
    by (auto simp: find_None_iff organization_wide_def list_ex_iff)
  with None assms show thesis
    by (intro that [of m])
       (auto simp: run_andThen run_on_db membership_ListByStaffUser_def membership_Create_def Let_def find_append organization_wide_def
        same_scope_def list_ex_iff split: if_splits)
next
  case (Some m0)
  show thesis
  proof (cases "mem_Role m0 = RolePlatformAdmin")
    case True
    with Some assms show thesis by (intro that [of m0]) (auto simp: run_andThen run_on_db membership_ListByStaffUser_def)
  next
    case False
    let ?f = "\<lambda>x. if mem_ID x = mem_ID m0 then x\<lparr>mem_Role := RolePlatformAdmin, mem_UpdatedAt := t\<rparr> else x"
    have f: "find (organization_wide org) (List.filter (\<lambda>m. mem_StaffUserID m = u) (map ?f ms)) =
        map_option ?f (find (organization_wide org) (List.filter (\<lambda>m. mem_StaffUserID m = u) ms))" for ms
      by (induction ms) (auto simp: organization_wide_def)
    from False Some assms have "w' = w\<lparr>w_db := (w_db w)\<lparr>db_memberships := map ?f (db_memberships (w_db w))\<rparr>\<rparr>"
        "m = m0\<lparr>mem_Role := RolePlatformAdmin\<rparr>"
      by (auto simp: run_andThen run_on_db membership_ListByStaffUser_def membership_UpdateRole_def update_membership_def)
    with f Some show thesis by (intro that [of "?f m0"]) simp_all
  qed
qed

lemma boot_again:
  assumes "find (organization_wide org) (List.filter (\<lambda>m. mem_StaffUserID m = u) (db_memberships (w_db w))) = Some m"
    "mem_Role m = RolePlatformAdmin"
  shows "run_state (resolveOrCreatePlatformAdminMembership (Suc n) k (quiet t) u org) w = (Inr (Some (m, False)), w)"
  using assms by (simp add: run_andThen run_on_db membership_ListByStaffUser_def)

lemma boot_organization: "run_state (resolveOrganization (quiet t) i) w = (fst (run_state (resolveOrganization (quiet t) i) w), w)"
  by (simp add: resolveOrganization_def run_on_db organization_GetByID_def organization_GetByName_def)

lemma boot_organization_cong:
  "db_organizations (w_db w) = db_organizations (w_db w') \<Longrightarrow>
   fst (run_state (resolveOrganization (quiet t) i) w) = fst (run_state (resolveOrganization (quiet t') i) w')"
  by (simp add: resolveOrganization_def run_on_db organization_GetByID_def organization_GetByName_def)

lemma BootstrapPlatformAdmin_success:
  assumes "run_state (BootstrapPlatformAdmin n (quiet t) i) w = (Inr (Some r), w')"
  obtains uc w1 where
    "fst (run_state (resolveOrganization (quiet t) i) w) = Inr (br_Organization r)"
    "run_state (resolveOrCreateStaffUser (quiet t) i) w = (Inr (br_StaffUser r, uc), w1)"
    "run_state (resolveOrCreatePlatformAdminMembership n 0 (quiet t) (su_ID (br_StaffUser r)) (org_ID (br_Organization r))) w1 =
       (Inr (Some (br_Membership r, br_MembershipCreated r)), w')"
proof -
  obtain r1 where 1: "run_state (resolveOrganization (quiet t) i) w = (r1, w)" using boot_organization by metis
  obtain r2 w1 where 2: "run_state (resolveOrCreateStaffUser (quiet t) i) w = (r2, w1)" by fastforce
  from assms 1 2 obtain org u uc where r: "r1 = Inr org" "r2 = Inr (u, uc)"
    by (auto simp: BootstrapPlatformAdmin_def run_andThen split: sum.splits)
  obtain r3 w2 where 3: "run_state (resolveOrCreatePlatformAdminMembership n 0 (quiet t) (su_ID u) (org_ID org)) w1 = (r3, w2)"
    by fastforce
  from assms 1 2 3 r obtain m mc where "r3 = Inr (Some (m, mc))" "w2 = w'" "br_Organization r = org" "br_StaffUser r = u" "br_Membership r = m"
    "br_MembershipCreated r = mc"
    by (auto simp: BootstrapPlatformAdmin_def run_andThen split: sum.splits option.splits)
  with 1 2 3 r show thesis by (intro that) auto
qed

text \<open>
  The bootstrap makes an administrator, once. Undisturbed, after a successful bootstrap whose
  user and membership are active, the user resolves at any later time to a platform
  administrator with every permission everywhere; and a repeated bootstrap finds the same user
  and membership, creates nothing and changes nothing.
\<close>

theorem bootstrap_makes_admin:
  assumes "run_state (BootstrapPlatformAdmin (Suc n) (quiet t) i) w = (Inr (Some r), w')" "staff_ids (w_db w)"
    and "su_Status (br_StaffUser r) = StaffActive" "mem_Status (br_Membership r) = StaffActive"
  shows "(\<exists>p. run_state (ResolvePrincipal (quiet t') (su_ID (br_StaffUser r))) w' = (Inr p, w') \<and>
        IsPlatformAdmin p \<and> principal_HasPermission p perm org st) \<and>
    (\<exists>m. run_state (BootstrapPlatformAdmin (Suc n') (quiet t') i) w' =
        (Inr (Some \<lparr>br_Organization = br_Organization r, br_StaffUser = br_StaffUser r, br_Membership = m,
                    br_UserCreated = False, br_MembershipCreated = False\<rparr>), w') \<and> mem_ID m = mem_ID (br_Membership r))"
proof -
  obtain uc w1 where 1: "fst (run_state (resolveOrganization (quiet t) i) w) = Inr (br_Organization r)"
    "run_state (resolveOrCreateStaffUser (quiet t) i) w = (Inr (br_StaffUser r, uc), w1)"
    "run_state (resolveOrCreatePlatformAdminMembership (Suc n) 0 (quiet t) (su_ID (br_StaffUser r)) (org_ID (br_Organization r))) w1 =
       (Inr (Some (br_Membership r, br_MembershipCreated r)), w')"
    by (rule BootstrapPlatformAdmin_success [OF assms(1)])
  let ?u = "br_StaffUser r"
  note u = boot_user [OF 1(2) assms(2)]
  obtain m where m: "find (organization_wide (org_ID (br_Organization r))) (List.filter (\<lambda>m. mem_StaffUserID m = su_ID ?u) (db_memberships (w_db w'))) = Some m"
    "mem_ID m = mem_ID (br_Membership r)" "mem_Role m = RolePlatformAdmin" "mem_Status m = mem_Status (br_Membership r)"
    "db_staff_users (w_db w') = db_staff_users (w_db w1)" "db_organizations (w_db w') = db_organizations (w_db w1)"
    by (rule boot_membership [OF 1(3)])
  let ?p = "\<lparr>sp_StaffUserID = su_ID ?u, sp_Memberships = List.filter (\<lambda>m. mem_Status m = StaffActive)
      (List.filter (\<lambda>m. mem_StaffUserID m = su_ID ?u) (db_memberships (w_db w')))\<rparr>"
  have "run_state (ResolvePrincipal (quiet t') (su_ID ?u)) w' = (Inr ?p, w')"
    using u(2) m(5) assms(3) by (simp add: ResolvePrincipal_quiet loadPrincipal_quiet)
  moreover have "IsPlatformAdmin ?p" using find_SomeD [OF m(1)] m(3,4) assms(4) by (auto simp: IsPlatformAdmin_def list_ex_iff)
  moreover from this have "principal_HasPermission ?p perm org st" by (simp add: principal_HasPermission_def)
  moreover have "run_state (BootstrapPlatformAdmin (Suc n') (quiet t') i) w' =
      (Inr (Some \<lparr>br_Organization = br_Organization r, br_StaffUser = ?u, br_Membership = m,
                  br_UserCreated = False, br_MembershipCreated = False\<rparr>), w')"
  proof -
    have "run_state (resolveOrganization (quiet t') i) w' = (Inr (br_Organization r), w')"
      using boot_organization [of t' i w'] boot_organization_cong [of w' w t' i t] 1(1) m(6) u(4) by simp
    moreover have "run_state (resolveOrCreateStaffUser (quiet t') i) w' = (Inr (?u, False), w')"
      using u(1) m(5) by (simp add: resolveOrCreateStaffUser_def run_on_db staff_GetByExternalSubject_def)
    moreover note boot_again [OF m(1,3), of n' 0 t']
    ultimately show ?thesis
      by (simp add: BootstrapPlatformAdmin_def run_andThen del: resolveOrCreatePlatformAdminMembership.simps)
  qed
  ultimately show ?thesis using m(2) by blast
qed

theorem bootstrap_makes_admin_witness:
  "\<exists>r w' p. run_state (BootstrapPlatformAdmin 1 (quiet 0) boot_input) (staff_world []) = (Inr (Some r), w') \<and>
     run_state (ResolvePrincipal (quiet 9) (su_ID (br_StaffUser r))) w' = (Inr p, w') \<and> principal_HasPermission p PermStaffManage 77 None"
proof -
  obtain r w' where 1: "run_state (BootstrapPlatformAdmin (Suc 0) (quiet 0) boot_input) (staff_world []) = (Inr (Some r), w')"
    and r: "su_Status (br_StaffUser r) = StaffActive" "mem_Status (br_Membership r) = StaffActive"
    by (simp add: boot_defs)
  have "staff_ids (w_db (staff_world []))" by (simp add: staff_ids_def staff_world_def)
  from bootstrap_makes_admin [OF 1 this r, of 9 PermStaffManage 77 None] 1 show ?thesis by auto
qed

text \<open>
  The bootstrap can report success and leave no administrator. Where the user already has an
  organization-wide membership that is disabled, the bootstrap promotes its role and succeeds,
  but the membership stays disabled, so it gives the user no permission at all.
\<close>

theorem bootstrap_keeps_disabled:
  assumes "run_state (BootstrapPlatformAdmin (Suc n) (quiet t) i) w = (Inr (Some r), w')" "staff_ids (w_db w)"
    and "find (organization_wide (org_ID (br_Organization r)))
      (List.filter (\<lambda>m. mem_StaffUserID m = su_ID (br_StaffUser r)) (db_memberships (w_db w))) = Some m"
    and "list_all (\<lambda>m. mem_StaffUserID m \<noteq> su_ID (br_StaffUser r) \<or> mem_Status m = StaffDisabled) (db_memberships (w_db w))"
  shows "\<not> br_MembershipCreated r \<and> \<not> list_ex (grants (su_ID (br_StaffUser r)) perm org st) (db_memberships (w_db w'))"
proof -
  obtain uc w1 where 1: "run_state (resolveOrCreateStaffUser (quiet t) i) w = (Inr (br_StaffUser r, uc), w1)"
    "run_state (resolveOrCreatePlatformAdminMembership (Suc n) 0 (quiet t) (su_ID (br_StaffUser r)) (org_ID (br_Organization r))) w1 =
       (Inr (Some (br_Membership r, br_MembershipCreated r)), w')"
    by (rule BootstrapPlatformAdmin_success [OF assms(1)])
  let ?off = "\<lambda>m. mem_StaffUserID m \<noteq> su_ID (br_StaffUser r) \<or> mem_Status m = StaffDisabled"
  have rows: "db_memberships (w_db w1) = db_memberships (w_db w)" by (rule boot_user(3) [OF 1(1) assms(2)])
  have mapped: "list_all ?off (map (\<lambda>x. if mem_ID x = mem_ID m then x\<lparr>mem_Role := RolePlatformAdmin, mem_UpdatedAt := t\<rparr> else x) ms)"
    if "list_all ?off ms" for ms using that by (induction ms) auto
  have "\<not> br_MembershipCreated r \<and> list_all ?off (db_memberships (w_db w'))"
  proof (cases "mem_Role m = RolePlatformAdmin")
    case True
    with rows assms(3,4) 1(2) show ?thesis by (auto simp: run_andThen run_on_db membership_ListByStaffUser_def)
  next
    case False
    with rows assms(3) 1(2) have "\<not> br_MembershipCreated r"
      "db_memberships (w_db w') = map (\<lambda>x. if mem_ID x = mem_ID m then x\<lparr>mem_Role := RolePlatformAdmin, mem_UpdatedAt := t\<rparr> else x)
         (db_memberships (w_db w))"
      by (auto simp: run_andThen run_on_db membership_ListByStaffUser_def membership_UpdateRole_def update_membership_def)
    with mapped [OF assms(4)] show ?thesis by simp
  qed
  then show ?thesis by (auto simp: list_all_iff list_ex_iff grants_def)
qed

theorem bootstrap_keeps_disabled_witness:
  "\<exists>r w'. run_state (BootstrapPlatformAdmin 1 (quiet 0) boot_input) (staff_world [admin_row\<lparr>mem_Status := StaffDisabled\<rparr>]) = (Inr (Some r), w') \<and>
     \<not> list_ex (grants 4 PermStoresRead 2 None) (db_memberships (w_db w'))"
proof -
  let ?w = "staff_world [admin_row\<lparr>mem_Status := StaffDisabled\<rparr>]"
  obtain r w' where 1: "run_state (BootstrapPlatformAdmin (Suc 0) (quiet 0) boot_input) ?w = (Inr (Some r), w')"
    and r: "su_ID (br_StaffUser r) = 4" "org_ID (br_Organization r) = 2"
    by (simp add: boot_defs admin_row_def)
  have "staff_ids (w_db ?w)" by (simp add: staff_ids_def staff_world_def)
  from bootstrap_keeps_disabled [OF 1 this, of "admin_row\<lparr>mem_Status := StaffDisabled\<rparr>" PermStoresRead 2 None] 1 r show ?thesis
    by (simp add: staff_world_def admin_row_def organization_wide_def)
qed

end
