(* ===== verification/Http.thy ===== *)
theory Http
  imports Staff_Auth
begin

text \<open>
  \<open>internal/httpserver\<close>: requests, responses and the guards in front of the handlers. A handler
  maps a request to a step of the servers that answers a response; a guard takes the next
  handler, like the code's middleware. A request carries the context the guards fill in, its
  headers, path values and query, and the body as the JSON decoder delivers it (\<open>None\<close> where it
  fails, also on an unknown field). A response is its status and its body.
\<close>

section \<open>Requests and responses\<close>

record request_context =
  cx_Store :: "store option"
  cx_APIKey :: "store_api_key option option"
  cx_Customer :: "int option"
  cx_Staff :: "staff_principal option"
  cx_ClientIP :: "string option"

record 'b request =
  rq_Context :: request_context
  rq_Authorization :: string
  rq_PathValue :: "string \<Rightarrow> string"
  rq_Query :: "string \<Rightarrow> string"
  rq_Body :: "'b option"
  rq_RemoteAddr :: string
  rq_ForwardedFor :: string
  rq_UserAgent :: string

text \<open>\<open>writeJSON\<close>, \<open>WriteHeader\<close>, \<open>writeError\<close> and \<open>writeErrorCode\<close>.\<close>

datatype 'a response =
    Reply int 'a
  | Header int
  | Refuse int string
  | RefuseCode int string string

type_synonym ('k, 'b, 'a) handler = "'b request \<Rightarrow> ('k world, 'a response) state"

definition writeJSON :: "int \<Rightarrow> 'a \<Rightarrow> ('s, 'a response) state" where
  "writeJSON status v = State_Monad.return (Reply status v)"

definition writeHeader :: "int \<Rightarrow> ('s, 'a response) state" where
  "writeHeader status = State_Monad.return (Header status)"

definition writeError :: "int \<Rightarrow> string \<Rightarrow> ('s, 'a response) state" where
  "writeError status message = State_Monad.return (Refuse status message)"

definition writeErrorCode :: "int \<Rightarrow> string \<Rightarrow> string \<Rightarrow> ('s, 'a response) state" where
  "writeErrorCode status code message = State_Monad.return (RefuseCode status code message)"

definition storeFromContext :: "'b request \<Rightarrow> store option" where
  "storeFromContext r = cx_Store (rq_Context r)"

text \<open>\<open>Some None\<close> is the typed nil of a request that authenticated with a store's legacy key.\<close>

definition storeAPIKeyFromContext :: "'b request \<Rightarrow> store_api_key option option" where
  "storeAPIKeyFromContext r = cx_APIKey (rq_Context r)"

definition customerFromContext :: "'b request \<Rightarrow> int option" where
  "customerFromContext r = cx_Customer (rq_Context r)"

definition staffFromContext :: "'b request \<Rightarrow> staff_principal option" where
  "staffFromContext r = cx_Staff (rq_Context r)"

section \<open>Strings\<close>

definition TrimPrefix :: "string \<Rightarrow> string \<Rightarrow> string" where
  "TrimPrefix prefix s = (if take (length prefix) s = prefix then drop (length prefix) s else s)"

definition bearer :: "'b request \<Rightarrow> string" where
  "bearer r = TrimPrefix ''Bearer '' (rq_Authorization r)"

text \<open>\<open>strings.TrimSpace\<close>: the encodings of Unicode's white space, off both ends.\<close>

definition space_runes :: "string list" where
  "space_runes = map bytes
     ([[9], [10], [11], [12], [13], [32], [194, 133], [194, 160], [225, 154, 128]] @
      map (\<lambda>n. [226, 128, 128 + n]) [0..<11] @
      [[226, 128, 168], [226, 128, 169], [226, 128, 175], [226, 129, 159], [227, 128, 128]])"

definition leading_space :: "string list \<Rightarrow> string \<Rightarrow> nat" where
  "leading_space runes s = (case find (\<lambda>u. take (length u) s = u) runes of None \<Rightarrow> 0 | Some u \<Rightarrow> length u)"

function trim_left :: "string list \<Rightarrow> string \<Rightarrow> string" where
  "trim_left runes s = (if leading_space runes s = 0 \<or> s = [] then s else trim_left runes (drop (leading_space runes s) s))"
  by pat_completeness auto
termination by (relation "measure (\<lambda>(_, s). length s)") auto

declare trim_left.simps [simp del]

definition TrimSpace :: "string \<Rightarrow> string" where
  "TrimSpace s = rev (trim_left (map rev space_runes) (rev (trim_left space_runes s)))"

text \<open>\<open>utf8.RuneCountInString\<close>: a well-formed sequence counts once, any other byte counts by itself.\<close>

definition within_range :: "nat \<Rightarrow> nat \<Rightarrow> nat list \<Rightarrow> nat \<Rightarrow> bool" where
  "within_range lo hi ks i \<longleftrightarrow> i < length ks \<and> lo \<le> ks ! i \<and> ks ! i \<le> hi"

definition rune_size :: "nat list \<Rightarrow> nat" where
  "rune_size ks =
     (case ks of
        [] \<Rightarrow> 0
      | k # _ \<Rightarrow>
          let c = within_range 128 191 ks in
          if 194 \<le> k \<and> k \<le> 223 \<and> c 1 then 2
          else if ((k = 224 \<and> within_range 160 191 ks 1) \<or> (225 \<le> k \<and> k \<le> 239 \<and> k \<noteq> 237 \<and> c 1) \<or>
                   (k = 237 \<and> within_range 128 159 ks 1)) \<and> c 2 then 3
          else if ((k = 240 \<and> within_range 144 191 ks 1) \<or> (241 \<le> k \<and> k \<le> 243 \<and> c 1) \<or>
                   (k = 244 \<and> within_range 128 143 ks 1)) \<and> c 2 \<and> c 3 then 4
          else 1)"

lemma rune_size_pos: "ks \<noteq> [] \<Longrightarrow> 0 < rune_size ks"
  by (cases ks) (simp_all add: rune_size_def Let_def)

function count_runes :: "nat list \<Rightarrow> nat" where
  "count_runes ks = (if ks = [] then 0 else Suc (count_runes (drop (rune_size ks) ks)))"
  by pat_completeness auto
termination by (relation "measure length") (auto simp: rune_size_pos)

declare count_runes.simps [simp del]

definition RuneCountInString :: "string \<Rightarrow> nat" where
  "RuneCountInString s = count_runes (map of_char s)"

section \<open>The register's key\<close>

definition RequireStoreAPIKey :: "hash \<Rightarrow> 'k world env \<Rightarrow> ('k, 'b, 'a) handler \<Rightarrow> ('k, 'b, 'a) handler" where
  "RequireStoreAPIKey sha E next_handler r =
     (let key = bearer r;
          pass = (\<lambda>store apiKey. next_handler (r\<lparr>rq_Context := (rq_Context r)\<lparr>cx_Store := Some store, cx_APIKey := Some apiKey\<rparr>\<rparr>));
          legacy = do {
            s \<leftarrow> call E (''key.legacy'', 0) (on_db (store_GetByAPIKeyHash (hashAPIKey sha key)));
            case s of
              Inl e \<Rightarrow> if e = ErrNotFound then writeError 401 ''invalid api key'' else writeError 500 ''resolve store''
            | Inr store \<Rightarrow> pass store None
          }
      in if key = [] then writeError 401 ''missing api key''
         else case parseMultiKeyAPIKey key of
                None \<Rightarrow> legacy
              | Some (keyID, secret) \<Rightarrow> do {
                  k \<leftarrow> call E (''key.get'', 0) (on_db (key_GetByKeyID keyID));
                  case k of
                    Inl e \<Rightarrow> if e \<noteq> ErrNotFound then writeError 500 ''resolve store'' else legacy
                  | Inr apiKey \<Rightarrow>
                      if \<not> constantTimeHashEqual sha secret (key_KeyHash apiKey) \<or> \<not> Active apiKey (env_now E (''key.check'', 0))
                      then writeError 401 ''invalid api key''
                      else do {
                        s \<leftarrow> call E (''key.store'', 0) (on_db (store_GetByID (key_StoreID apiKey)));
                        case s of
                          Inl e \<Rightarrow> writeError 500 ''resolve store''
                        | Inr store \<Rightarrow> do {
                            _ \<leftarrow> logged (call E (''key.touch'', 0) (on_db (key_TouchLastUsed (key_ID apiKey) (env_now E (''key.touch'', 0)))));
                            pass store (Some apiKey)
                          }
                      }
                })"

definition requireScope :: "string \<Rightarrow> ('k, 'b, 'a) handler \<Rightarrow> ('k, 'b, 'a) handler" where
  "requireScope scope next_handler r =
     (case storeAPIKeyFromContext r of
        None \<Rightarrow> writeError 401 ''unauthorized''
      | Some apiKey \<Rightarrow>
          if (case apiKey of None \<Rightarrow> False | Some k \<Rightarrow> \<not> HasScope k scope)
          then writeError 403 (''api key missing required scope: '' @ scope)
          else next_handler r)"

section \<open>The customer's session\<close>

definition RequireCustomerSession :: "jwt_lib \<Rightarrow> string \<Rightarrow> 'k world env \<Rightarrow> ('k, 'b, 'a) handler \<Rightarrow> ('k, 'b, 'a) handler" where
  "RequireCustomerSession J accessTokenSecret E next_handler r =
     (let token = bearer r in
      if token = [] then writeError 401 ''missing access token''
      else case ParseCustomerAccessToken J (env_now E (''session.parse'', 0)) accessTokenSecret token of
             Inl e \<Rightarrow> writeError 401 ''invalid access token''
           | Inr customerAccountID \<Rightarrow> do {
               a \<leftarrow> call E (''session.account'', 0) (on_db (account_GetByID customerAccountID));
               case a of
                 Inl e \<Rightarrow> writeError 401 ''unauthorized''
               | Inr account \<Rightarrow>
                   if acc_Status account \<noteq> CustomerAccountActive then writeError 401 ''unauthorized''
                   else next_handler (r\<lparr>rq_Context := (rq_Context r)\<lparr>cx_Customer := Some customerAccountID\<rparr>\<rparr>)
             })"

section \<open>The staff's token and permission\<close>

record staff_scope =
  sc_OrganizationID :: int
  sc_StoreID :: "int option"

definition orgScopeFromPath :: "'b request \<Rightarrow> string + staff_scope" where
  "orgScopeFromPath r =
     (case parse_int (rq_PathValue r ''orgID'') of
        None \<Rightarrow> Inl ''invalid organization id''
      | Some orgID \<Rightarrow> Inr \<lparr>sc_OrganizationID = orgID, sc_StoreID = None\<rparr>)"

definition storeScopeFromPath :: "'b request \<Rightarrow> string + staff_scope" where
  "storeScopeFromPath r =
     (case parse_int (rq_PathValue r ''orgID'') of
        None \<Rightarrow> Inl ''invalid organization id''
      | Some orgID \<Rightarrow>
          (case parse_int (rq_PathValue r ''storeID'') of
             None \<Rightarrow> Inl ''invalid store id''
           | Some storeID \<Rightarrow> Inr \<lparr>sc_OrganizationID = orgID, sc_StoreID = Some storeID\<rparr>))"

text \<open>\<open>RequireStaffIdentity\<close>: a principal, whatever its permissions.\<close>

definition RequireStaffIdentity :: "jwt_lib \<Rightarrow> string \<Rightarrow> 'k world env \<Rightarrow> ('k, 'b, 'a) handler \<Rightarrow> ('k, 'b, 'a) handler" where
  "RequireStaffIdentity J accessTokenSecret E next_handler r =
     (let token = bearer r in
      if token = [] then writeError 401 ''missing access token''
      else case ParseStaffAccessToken J (env_now E (''staff.parse'', 0)) accessTokenSecret token of
             Inl e \<Rightarrow> writeError 401 ''invalid access token''
           | Inr staffUserID \<Rightarrow> do {
               p \<leftarrow> ResolvePrincipal E staffUserID;
               case p of
                 Inl e \<Rightarrow> writeError 401 ''unauthorized''
               | Inr caller \<Rightarrow> next_handler (r\<lparr>rq_Context := (rq_Context r)\<lparr>cx_Staff := Some caller\<rparr>\<rparr>)
             })"

definition RequireStaff ::
    "jwt_lib \<Rightarrow> string \<Rightarrow> 'k world env \<Rightarrow> permission \<Rightarrow> ('b request \<Rightarrow> string + staff_scope) \<Rightarrow> ('k, 'b, 'a) handler
     \<Rightarrow> ('k, 'b, 'a) handler" where
  "RequireStaff J accessTokenSecret E perm resolveScope next_handler r =
     (let token = bearer r in
      if token = [] then writeError 401 ''missing access token''
      else case ParseStaffAccessToken J (env_now E (''staff.parse'', 0)) accessTokenSecret token of
             Inl e \<Rightarrow> writeError 401 ''invalid access token''
           | Inr staffUserID \<Rightarrow> do {
               p \<leftarrow> ResolvePrincipal E staffUserID;
               case p of
                 Inl e \<Rightarrow> writeError 401 ''unauthorized''
               | Inr caller \<Rightarrow>
                   (case resolveScope r of
                      Inl message \<Rightarrow> writeError 400 message
                    | Inr scope \<Rightarrow>
                        if \<not> principal_HasPermission caller perm (sc_OrganizationID scope) (sc_StoreID scope)
                        then writeError 403 ''forbidden''
                        else next_handler (r\<lparr>rq_Context := (rq_Context r)\<lparr>cx_Staff := Some caller\<rparr>\<rparr>))
             })"

definition RequireGlobalStaffPermission ::
    "jwt_lib \<Rightarrow> string \<Rightarrow> 'k world env \<Rightarrow> permission \<Rightarrow> ('k, 'b, 'a) handler \<Rightarrow> ('k, 'b, 'a) handler" where
  "RequireGlobalStaffPermission J accessTokenSecret E perm next_handler r =
     (let token = bearer r in
      if token = [] then writeError 401 ''missing access token''
      else case ParseStaffAccessToken J (env_now E (''staff.parse'', 0)) accessTokenSecret token of
             Inl e \<Rightarrow> writeError 401 ''invalid access token''
           | Inr staffUserID \<Rightarrow> do {
               p \<leftarrow> ResolvePrincipal E staffUserID;
               case p of
                 Inl e \<Rightarrow> writeError 401 ''unauthorized''
               | Inr caller \<Rightarrow>
                   if \<not> list_ex (\<lambda>m. HasPermission (mem_Role m) perm) (sp_Memberships caller)
                   then writeError 403 ''forbidden''
                   else next_handler (r\<lparr>rq_Context := (rq_Context r)\<lparr>cx_Staff := Some caller\<rparr>\<rparr>)
             })"

section \<open>What the handlers share\<close>

definition actorStaffUserID :: "'b request \<Rightarrow> int option" where
  "actorStaffUserID r = (case staffFromContext r of None \<Rightarrow> None | Some p \<Rightarrow> Some (sp_StaffUserID p))"

definition maskPhoneIf :: "string \<Rightarrow> bool \<Rightarrow> string" where
  "maskPhoneIf phone masked = (if masked then MaskPhone phone else phone)"

text \<open>\<open>auditCreateWithMetadata\<close>, whose metadata, free-form JSON, is left out; \<open>k\<close> counts the calls of a handler.\<close>

definition auditCreate ::
    "'k world env \<Rightarrow> nat \<Rightarrow> audit_actor_type \<Rightarrow> int option \<Rightarrow> string \<Rightarrow> int option \<Rightarrow> int option \<Rightarrow> string \<Rightarrow> int option
     \<Rightarrow> string \<Rightarrow> string \<Rightarrow> ('k world, unit) op" where
  "auditCreate E k actorType actorID action organizationID storeID targetType targetID ip userAgent =
     (let l = (''http.audit'', k) in
      logged (call E l (on_db (audit_Create (env_now E l)
        ((audit_of actorType actorID action ip userAgent)
           \<lparr>aud_OrganizationID := organizationID, aud_StoreID := storeID, aud_TargetType := targetType,
            aud_TargetID := targetID\<rparr>)))))"

text \<open>\<open>resolveScopedStore\<close>: the store and organization of the path, or the answer that refuses them.\<close>

definition resolveScopedStore :: "'k world env \<Rightarrow> (store \<Rightarrow> int \<Rightarrow> ('k world, 'a response) state) \<Rightarrow> ('k, 'b, 'a) handler" where
  "resolveScopedStore E found r =
     (case parse_int (rq_PathValue r ''orgID'') of
        None \<Rightarrow> writeError 400 ''invalid organization id''
      | Some orgID \<Rightarrow>
          (case parse_int (rq_PathValue r ''storeID'') of
             None \<Rightarrow> writeError 400 ''invalid store id''
           | Some storeID \<Rightarrow> do {
               s \<leftarrow> call E (''scoped.store'', 0) (on_db (store_GetByID storeID));
               case s of
                 Inl e \<Rightarrow> if e = ErrNotFound then writeError 404 ''store not found'' else writeError 500 ''load store''
               | Inr store \<Rightarrow>
                   if st_OrganizationID store \<noteq> orgID then writeError 404 ''store not found''
                   else found store orgID
             }))"

definition maxNameLen :: nat where
  "maxNameLen = 255"

definition normalizeName :: "string \<Rightarrow> string option" where
  "normalizeName raw =
     (let name = TrimSpace raw in if name \<noteq> [] \<and> RuneCountInString name \<le> maxNameLen then Some name else None)"

end
