(* ===== verification/Remote_Addr.thy ===== *)
theory Remote_Addr
  imports Http
begin

text \<open>
  \<open>internal/httpserver/remoteaddr.go\<close> and \<open>ParseTrustedProxies\<close>: the address a request is
  attributed to in the audit trail, the OTP limits and the rate limiter; with the parts of Go's
  \<open>net\<close> and \<open>net/netip\<close> it rests on (\<open>SplitHostPort\<close>, \<open>ParseAddr\<close>, \<open>ParsePrefix\<close>, \<open>Contains\<close>).
\<close>

section \<open>Addresses and prefixes\<close>

definition index_of :: "char \<Rightarrow> string \<Rightarrow> nat option" where
  "index_of c s = (if c \<in> set s then Some (length (takeWhile (\<lambda>x. x \<noteq> c) s)) else None)"

definition last_index_of :: "char \<Rightarrow> string \<Rightarrow> nat option" where
  "last_index_of c s = (if c \<in> set s then Some (length s - Suc (length (takeWhile (\<lambda>x. x \<noteq> c) (rev s)))) else None)"

fun split_on :: "char \<Rightarrow> string \<Rightarrow> string list" where
  "split_on c [] = [[]]"
| "split_on c (x # xs) =
     (if x = c then [] # split_on c xs
      else case split_on c xs of [] \<Rightarrow> [[x]] | y # ys \<Rightarrow> (x # y) # ys)"

text \<open>The host of \<open>host:port\<close>, or \<open>None\<close> where \<open>SplitHostPort\<close> returns an error.\<close>

definition SplitHostPort :: "string \<Rightarrow> string option" where
  "SplitHostPort hostport =
     (case last_index_of CHR '':'' hostport of
        None \<Rightarrow> None
      | Some i \<Rightarrow>
          if hd hostport = CHR ''['' then
            (case index_of CHR '']'' hostport of
               None \<Rightarrow> None
             | Some end_ \<Rightarrow>
                 if Suc end_ \<noteq> i then None
                 else if CHR ''['' \<in> set (drop 1 hostport) \<or> CHR '']'' \<in> set (drop (Suc end_) hostport) then None
                 else Some (take (end_ - 1) (drop 1 hostport)))
          else
            let host = take i hostport in
            if CHR '':'' \<in> set host \<or> CHR ''['' \<in> set hostport \<or> CHR '']'' \<in> set hostport then None
            else Some host)"

datatype addr = IPv4 nat | IPv6 nat string

definition octet :: "string \<Rightarrow> nat option" where
  "octet s = (if s \<noteq> [] \<and> list_all is_digit s \<and> (length s = 1 \<or> hd s \<noteq> CHR ''0'') \<and> digits_val s \<le> 255
              then Some (digits_val s) else None)"

definition parseIPv4 :: "string \<Rightarrow> nat option" where
  "parseIPv4 s =
     (case map octet (split_on CHR ''.'' s) of
        [Some a, Some b, Some c, Some d] \<Rightarrow> Some (((a * 256 + b) * 256 + c) * 256 + d)
      | _ \<Rightarrow> None)"

definition hex_digit :: "char \<Rightarrow> nat option" where
  "hex_digit c =
     (let k = of_char c :: nat in
      if 48 \<le> k \<and> k \<le> 57 then Some (k - 48)
      else if 97 \<le> k \<and> k \<le> 102 then Some (k - 87)
      else if 65 \<le> k \<and> k \<le> 70 then Some (k - 55)
      else None)"

definition hex_val :: "string \<Rightarrow> nat" where
  "hex_val ds = foldl (\<lambda>a c. 16 * a + (case hex_digit c of None \<Rightarrow> 0 | Some d \<Rightarrow> d)) 0 ds"

text \<open>The loop over the groups of an IPv6 address; \<open>n\<close> groups are still free, \<open>ell\<close> is where \<open>::\<close> stood.\<close>

fun groups6 :: "nat \<Rightarrow> string \<Rightarrow> nat list \<Rightarrow> nat option \<Rightarrow> (nat list \<times> nat option) option" where
  "groups6 0 s gs ell = (if s = [] then Some (gs, ell) else None)"
| "groups6 (Suc n) s gs ell =
     (let ds = takeWhile (\<lambda>c. hex_digit c \<noteq> None) s; off = length ds in
      if off = 0 \<or> off > 4 then None
      else if off < length s \<and> s ! off = CHR ''.'' then
        (if (ell = None \<and> length gs \<noteq> 6) \<or> length gs > 6 then None
         else map_option (\<lambda>v. (gs @ [v div 65536, v mod 65536], ell)) (parseIPv4 s))
      else
        let gs' = gs @ [hex_val ds] in
        case drop off s of
          [] \<Rightarrow> Some (gs', ell)
        | c # t \<Rightarrow>
            if c \<noteq> CHR '':'' \<or> t = [] then None
            else if hd t = CHR '':'' then
              (if ell \<noteq> None then None
               else if tl t = [] then Some (gs', Some (length gs'))
               else groups6 n (tl t) gs' (Some (length gs')))
            else groups6 n t gs' ell)"

definition parseIPv6 :: "string \<Rightarrow> addr option" where
  "parseIPv6 input =
     (let (s, zone) = (case index_of CHR ''%'' input of None \<Rightarrow> (input, Some []) | Some i \<Rightarrow>
            (take i input, if drop (Suc i) input = [] then None else Some (drop (Suc i) input)));
          lead = (take 2 s = ''::'');
          rest = (if lead then drop 2 s else s)
      in case zone of
           None \<Rightarrow> None
         | Some z \<Rightarrow>
             if lead \<and> rest = [] then Some (IPv6 0 z)
             else case groups6 8 rest [] (if lead then Some 0 else None) of
                    None \<Rightarrow> None
                  | Some (gs, ell) \<Rightarrow>
                      let value = (\<lambda>hs. foldl (\<lambda>a g. 65536 * a + g) 0 hs) in
                      if length gs < 8 then
                        (case ell of None \<Rightarrow> None
                         | Some e \<Rightarrow> Some (IPv6 (value (take e gs @ replicate (8 - length gs) 0 @ drop e gs)) z))
                      else if ell \<noteq> None then None
                      else Some (IPv6 (value gs) z))"

definition ParseAddr :: "string \<Rightarrow> addr option" where
  "ParseAddr s =
     (case find (\<lambda>c. c = CHR ''.'' \<or> c = CHR '':'' \<or> c = CHR ''%'') s of
        None \<Rightarrow> None
      | Some c \<Rightarrow>
          if c = CHR ''.'' then map_option IPv4 (parseIPv4 s)
          else if c = CHR '':'' then parseIPv6 s
          else None)"

datatype prefix = Prefix addr nat

definition ParsePrefix :: "string \<Rightarrow> prefix option" where
  "ParsePrefix s =
     (case last_index_of CHR ''/'' s of
        None \<Rightarrow> None
      | Some i \<Rightarrow>
          (case ParseAddr (take i s) of
             None \<Rightarrow> None
           | Some ip \<Rightarrow>
               let bitsStr = drop (Suc i) s in
               if (case ip of IPv4 _ \<Rightarrow> False | IPv6 _ z \<Rightarrow> z \<noteq> []) then None
               else if length bitsStr > 1 \<and> (hd bitsStr = CHR ''0'' \<or> \<not> is_digit (hd bitsStr)) then None
               else case parse_int bitsStr of
                      None \<Rightarrow> None
                    | Some bits \<Rightarrow>
                        if bits < 0 \<or> bits > (case ip of IPv4 _ \<Rightarrow> 32 | IPv6 _ _ \<Rightarrow> 128) then None
                        else Some (Prefix ip (nat bits))))"

fun Contains :: "prefix \<Rightarrow> addr \<Rightarrow> bool" where
  "Contains (Prefix (IPv4 p) bits) (IPv4 a) = (p div 2 ^ (32 - bits) = a div 2 ^ (32 - bits))"
| "Contains (Prefix (IPv6 p _) bits) (IPv6 a zone) = (zone = [] \<and> p div 2 ^ (128 - bits) = a div 2 ^ (128 - bits))"
| "Contains _ _ = False"

section \<open>The caller's address\<close>

text \<open>\<open>None\<close>: a malformed entry fails start-up.\<close>

fun ParseTrustedProxies :: "string list \<Rightarrow> prefix list option" where
  "ParseTrustedProxies [] = Some []"
| "ParseTrustedProxies (c # cs) =
     (case ParsePrefix (TrimSpace c) of
        None \<Rightarrow> None
      | Some p \<Rightarrow> map_option (\<lambda>ps. p # ps) (ParseTrustedProxies cs))"

definition resolveClientIP :: "'b request \<Rightarrow> prefix list \<Rightarrow> string" where
  "resolveClientIP r trustedProxies =
     (let host = (case SplitHostPort (rq_RemoteAddr r) of None \<Rightarrow> rq_RemoteAddr r | Some h \<Rightarrow> h) in
      if trustedProxies = [] then host
      else case ParseAddr host of
             None \<Rightarrow> host
           | Some a \<Rightarrow>
               if \<not> list_ex (\<lambda>p. Contains p a) trustedProxies then host
               else
                 let xff = rq_ForwardedFor r in
                 if xff = [] then host
                 else let first = TrimSpace (takeWhile (\<lambda>c. c \<noteq> CHR '','') xff) in
                      if first = [] then host else first)"

definition withResolvedClientIP :: "prefix list \<Rightarrow> ('k, 'b, 'a) handler \<Rightarrow> ('k, 'b, 'a) handler" where
  "withResolvedClientIP trustedProxies next_handler r =
     next_handler (r\<lparr>rq_Context := (rq_Context r)\<lparr>cx_ClientIP := Some (resolveClientIP r trustedProxies)\<rparr>\<rparr>)"

definition clientIP :: "'b request \<Rightarrow> string" where
  "clientIP r =
     (case cx_ClientIP (rq_Context r) of
        Some ip \<Rightarrow> ip
      | None \<Rightarrow> (case SplitHostPort (rq_RemoteAddr r) of None \<Rightarrow> rq_RemoteAddr r | Some host \<Rightarrow> host))"

end
