(* ===== verification/Http_Store.thy ===== *)
theory Http_Store
  imports Http Qr_Service Loyalty
begin

text \<open>
  The handlers of the register's routes: \<open>transactions.go\<close>, \<open>refund.go\<close>, \<open>clients.go\<close> and the
  resolving half of \<open>qr.go\<close>. The order of the cases on an error is the code's. A nil result
  without an error would make the handler panic, which \<open>recoverMW\<close> turns into a 500. Amounts
  in answers stay numbers; \<open>L\<close> is the environment of the loyalty request the handler makes.
\<close>

section \<open>Accrual\<close>

definition maxExternalTxIDLen :: nat where
  "maxExternalTxIDLen = 255"

definition maxPhoneLen :: nat where
  "maxPhoneLen = 32"

record accrue_body =
  ab_ExternalTxID :: string
  ab_Phone :: string
  ab_Amount :: rat

record transaction_answer =
  ta_ClientID :: int
  ta_PointsEarned :: int
  ta_Balance :: int
  ta_Replayed :: bool

text \<open>\<open>recoverMW\<close>: the answer to a request whose handler panicked.\<close>

definition recovered :: "('s, 'a response) state" where
  "recovered = writeError 500 ''internal server error''"

definition accrue_error :: "err \<Rightarrow> ('s, 'a response) state" where
  "accrue_error e =
     (if e = ErrIdempotencyConflict then writeError 409 ''transaction_id already used with different parameters''
      else writeError 500 ''accrue points'')"

definition handleAccrueTransaction ::
    "decimal_lib \<Rightarrow> loyalty_service \<Rightarrow> db env \<Rightarrow> ('k, accrue_body, transaction_answer) handler" where
  "handleAccrueTransaction D svc L r =
     (case storeFromContext r of
        None \<Rightarrow> writeError 401 ''unauthorized''
      | Some store \<Rightarrow>
          (case rq_Body r of
             None \<Rightarrow> writeError 400 ''invalid request body''
           | Some body \<Rightarrow>
               if ab_ExternalTxID body = [] \<or> length (ab_ExternalTxID body) > maxExternalTxIDLen \<or>
                  ab_Phone body = [] \<or> length (ab_Phone body) > maxPhoneLen \<or> \<not> ab_Amount body > 0
               then writeError 400 ''transaction_id, phone, and a positive amount are required''
               else do {
                 res \<leftarrow> on_db (Accrue D svc L \<lparr>ar_StoreID = st_ID store, ar_ExternalTxID = ab_ExternalTxID body,
                                 ar_Phone = ab_Phone body, ar_Amount = ab_Amount body\<rparr>);
                 case res of
                   Inl e \<Rightarrow> accrue_error e
                 | Inr None \<Rightarrow> recovered
                 | Inr (Some a) \<Rightarrow> writeJSON 200 \<lparr>ta_ClientID = ares_ClientID a, ta_PointsEarned = ares_PointsEarned a,
                                     ta_Balance = ares_Balance a, ta_Replayed = ares_Replayed a\<rparr>
               }))"

section \<open>Redemption\<close>

record redeem_body =
  rb_ExternalTxID :: string
  rb_ClientID :: int
  rb_Points :: int
  rb_Amount :: rat

record redeem_answer_body =
  ra_PointsRedeemed :: int
  ra_Balance :: int
  ra_Replayed :: bool

definition redeem_error_answer :: "err \<Rightarrow> ('s, 'a response) state" where
  "redeem_error_answer e =
     (if e = ErrDailyRedeemLimitExceeded
      then writeErrorCode 422 ''daily_redeem_limit_exceeded'' ''daily redeem limit exceeded''
      else if e = ErrInsufficientBalance then writeError 422 ''insufficient balance''
      else if e = ErrNotFound then writeError 404 ''client not found''
      else if e = ErrIdempotencyConflict then writeError 409 ''transaction_id already used with different parameters''
      else writeError 500 ''redeem points'')"

definition handleRedeemTransaction ::
    "decimal_lib \<Rightarrow> loyalty_service \<Rightarrow> db env \<Rightarrow> ('k, redeem_body, redeem_answer_body) handler" where
  "handleRedeemTransaction D svc L r =
     (case storeFromContext r of
        None \<Rightarrow> writeError 401 ''unauthorized''
      | Some store \<Rightarrow>
          (case rq_Body r of
             None \<Rightarrow> writeError 400 ''invalid request body''
           | Some body \<Rightarrow>
               if rb_ExternalTxID body = [] \<or> length (rb_ExternalTxID body) > maxExternalTxIDLen \<or>
                  rb_ClientID body \<le> 0 \<or> rb_Points body \<le> 0 \<or> \<not> rb_Amount body > 0
               then writeError 400 ''transaction_id, client_id, a positive points value, and a positive amount are required''
               else do {
                 res \<leftarrow> on_db (Redeem D svc L \<lparr>rr_StoreID = st_ID store, rr_ExternalTxID = rb_ExternalTxID body,
                                 rr_ClientID = rb_ClientID body, rr_Points = rb_Points body, rr_Amount = rb_Amount body\<rparr>);
                 case res of
                   Inl e \<Rightarrow> redeem_error_answer e
                 | Inr None \<Rightarrow> recovered
                 | Inr (Some a) \<Rightarrow> writeJSON 200 \<lparr>ra_PointsRedeemed = rres_PointsRedeemed a, ra_Balance = rres_Balance a,
                                     ra_Replayed = rres_Replayed a\<rparr>
               }))"

section \<open>Refund\<close>

record refund_body =
  rfb_ExternalTxID :: string
  rfb_OriginalExternalTxID :: string
  rfb_OriginalType :: string
  rfb_Amount :: rat

text \<open>The refund's answer has the fields of the service's result (\<open>refund_result\<close>).\<close>

definition refund_error_answer :: "err \<Rightarrow> ('s, 'a response) state" where
  "refund_error_answer e =
     (if e = ErrAmbiguousOriginalTransaction
      then writeErrorCode 400 ''ambiguous_original_transaction''
             ''original_transaction_type is required: original_transaction_id matches both an accrual and a redeem''
      else if e = ErrCannotRefundRefund then writeErrorCode 400 ''cannot_refund_refund'' ''cannot refund a refund''
      else if e = ErrNotFound then writeError 404 ''original transaction not found''
      else if e = ErrOverRefund
      then writeErrorCode 422 ''over_refund'' (''refund amount exceeds the original transaction'' @ [CHR 0x27] @ ''s remaining refundable amount'')
      else if e = ErrInsufficientBalance then writeError 422 ''insufficient balance''
      else if e = ErrIdempotencyConflict then writeError 409 ''transaction_id already used with different parameters''
      else writeError 500 ''refund transaction'')"

definition parseOriginalType :: "string \<Rightarrow> transaction_type option option" where
  "parseOriginalType s =
     (if s = [] then Some None
      else if s = show_type TransactionAccrual then Some (Some TransactionAccrual)
      else if s = show_type TransactionRedeem then Some (Some TransactionRedeem)
      else None)"

definition handleRefundTransaction :: "decimal_lib \<Rightarrow> db env \<Rightarrow> ('k, refund_body, refund_result) handler" where
  "handleRefundTransaction D L r =
     (case storeFromContext r of
        None \<Rightarrow> writeError 401 ''unauthorized''
      | Some store \<Rightarrow>
          (case rq_Body r of
             None \<Rightarrow> writeError 400 ''invalid request body''
           | Some body \<Rightarrow>
               if rfb_ExternalTxID body = [] \<or> length (rfb_ExternalTxID body) > maxExternalTxIDLen \<or>
                  rfb_OriginalExternalTxID body = [] \<or> length (rfb_OriginalExternalTxID body) > maxExternalTxIDLen \<or>
                  \<not> rfb_Amount body > 0
               then writeError 400 ''transaction_id, original_transaction_id, and a positive amount are required''
               else case parseOriginalType (rfb_OriginalType body) of
                 None \<Rightarrow> writeError 400 (''original_transaction_type must be \"accrual\" or \"redeem\" if set'')
               | Some originalType \<Rightarrow> do {
                 res \<leftarrow> on_db (Refund D L \<lparr>fr_StoreID = st_ID store, fr_ExternalTxID = rfb_ExternalTxID body,
                                 fr_OriginalExternalTxID = rfb_OriginalExternalTxID body, fr_OriginalType = originalType,
                                 fr_Amount = rfb_Amount body\<rparr>);
                 case res of
                   Inl e \<Rightarrow> refund_error_answer e
                 | Inr None \<Rightarrow> recovered
                 | Inr (Some a) \<Rightarrow> writeJSON 200 a
               }))"

section \<open>Clients\<close>

record balance_body =
  bb_ClientID :: int
  bb_Balance :: int

definition answerBalance :: "'k world env \<Rightarrow> client \<Rightarrow> ('k world, balance_body response) state" where
  "answerBalance E client = do {
     b \<leftarrow> call E (''client.balance'', 0) (on_db (balance_Get (cl_ID client)));
     case b of
       Inl e \<Rightarrow> writeError 500 ''load balance''
     | Inr balance \<Rightarrow> writeJSON 200 \<lparr>bb_ClientID = cl_ID client, bb_Balance = bal_Points balance\<rparr>
   }"

definition handleGetClientBalance :: "'k world env \<Rightarrow> ('k, 'b, balance_body) handler" where
  "handleGetClientBalance E r =
     (case storeFromContext r of
        None \<Rightarrow> writeError 401 ''unauthorized''
      | Some store \<Rightarrow>
          (case parse_int (rq_PathValue r ''id'') of
             None \<Rightarrow> writeError 400 ''invalid client id''
           | Some i \<Rightarrow> do {
               c \<leftarrow> call E (''client.get'', 0) (on_db (client_GetByID i));
               case c of
                 Inl e \<Rightarrow> if e = ErrNotFound then writeError 404 ''client not found'' else writeError 500 ''load client''
               | Inr client \<Rightarrow>
                   if cl_StoreID client \<noteq> st_ID store then writeError 404 ''client not found''
                   else answerBalance E client
             }))"

definition canonicalPhone :: "string \<Rightarrow> string" where
  "canonicalPhone phone = (case NormalizePhone phone of Some p \<Rightarrow> p | None \<Rightarrow> phone)"

definition handleLookupClientByPhone :: "'k world env \<Rightarrow> ('k, 'b, balance_body) handler" where
  "handleLookupClientByPhone E r =
     (case storeFromContext r of
        None \<Rightarrow> writeError 401 ''unauthorized''
      | Some store \<Rightarrow>
          let phone = rq_Query r ''phone'' in
          if phone = [] then writeError 400 ''phone is required''
          else do {
            c \<leftarrow> call E (''client.get'', 0) (on_db (client_GetByPhone (st_ID store) (canonicalPhone phone)));
            case c of
              Inl e \<Rightarrow> if e = ErrNotFound then writeError 404 ''client not found'' else writeError 500 ''lookup client''
            | Inr client \<Rightarrow> answerBalance E client
          })"

section \<open>QR codes at the register\<close>

definition maxQRPayloadLen :: nat where
  "maxQRPayloadLen = 512"

definition resolveQRConsumePrincipal :: "'b request \<Rightarrow> int \<Rightarrow> string" where
  "resolveQRConsumePrincipal r storeID =
     (case storeAPIKeyFromContext r of
        Some (Some apiKey) \<Rightarrow> ''key:'' @ key_KeyID apiKey
      | _ \<Rightarrow> ''store:'' @ show_int storeID)"

definition resolve_error :: "err \<Rightarrow> ('s, 'a response) state" where
  "resolve_error e =
     (if e = ErrQRMalformed then writeErrorCode 400 ''qr_malformed'' ''malformed qr payload''
      else if e = ErrQRConsumeCooldown then writeErrorCode 429 ''qr_consume_cooldown'' ''too many requests, try again later''
      else if e = ErrQRGone then writeErrorCode 410 ''qr_gone'' ''qr code expired or already used''
      else writeError 500 ''resolve qr'')"

text \<open>The body is its payload.\<close>

definition handleResolveQR :: "'k qr_service \<Rightarrow> 'k world env \<Rightarrow> ('k, string, balance_body) handler" where
  "handleResolveQR S E r =
     (case storeFromContext r of
        None \<Rightarrow> writeError 401 ''unauthorized''
      | Some store \<Rightarrow>
          (case rq_Body r of
             None \<Rightarrow> writeErrorCode 400 ''qr_malformed'' ''payload is required''
           | Some payload \<Rightarrow>
               if payload = [] \<or> length payload > maxQRPayloadLen
               then writeErrorCode 400 ''qr_malformed'' ''payload is required''
               else do {
                 res \<leftarrow> ResolveQR S E (st_ID store) payload (resolveQRConsumePrincipal r (st_ID store));
                 case res of
                   Inl e \<Rightarrow> resolve_error e
                 | Inr (client, balance) \<Rightarrow> writeJSON 200 \<lparr>bb_ClientID = cl_ID client, bb_Balance = bal_Points balance\<rparr>
               }))"

end
