(* ===== verification/Http_Customer.thy ===== *)
theory Http_Customer
  imports Http_Store Remote_Addr
begin

text \<open>
  The handlers of the mobile app's and the login routes: \<open>auth_customer.go\<close>, \<open>auth_staff.go\<close>,
  \<open>me.go\<close>, \<open>devices.go\<close> and the issuing half of \<open>qr.go\<close>. Random bytes are arguments; times and
  amounts in answers stay numbers.
\<close>

section \<open>One-time codes\<close>

definition maxOTPPhoneLen :: nat where
  "maxOTPPhoneLen = 32"

definition maxOTPCodeLen :: nat where
  "maxOTPCodeLen = 12"

definition maxRefreshTokenLen :: nat where
  "maxRefreshTokenLen = 512"

definition maxConsentFieldLen :: nat where
  "maxConsentFieldLen = 128"

definition otp_request_error :: "err \<Rightarrow> ('s, 'a response) state" where
  "otp_request_error e =
     (if e = ErrInvalidPhone then writeError 400 ''invalid phone number''
      else if e = ErrOTPCooldown \<or> e = ErrOTPRateLimited then writeError 429 ''too many requests, try again later''
      else writeError 500 ''request otp'')"

text \<open>The body is the phone; the answer the status \<open>sent\<close>.\<close>

definition handleRequestOTP :: "'k customer_auth \<Rightarrow> 'k world env \<Rightarrow> nat option \<Rightarrow> ('k, string, string) handler" where
  "handleRequestOTP S E drawn r =
     (case rq_Body r of
        None \<Rightarrow> writeError 400 ''phone is required''
      | Some phone \<Rightarrow>
          if phone = [] \<or> length phone > maxOTPPhoneLen then writeError 400 ''phone is required''
          else do {
            res \<leftarrow> RequestOTP S E drawn phone (clientIP r);
            case res of Inl e \<Rightarrow> otp_request_error e | Inr _ \<Rightarrow> writeJSON 200 ''sent''
          })"

record otp_verify_body =
  vb_Phone :: string
  vb_Code :: string
  vb_ConsentDocumentVersion :: string
  vb_ConsentSource :: string

record auth_tokens_answer =
  ato_AccessToken :: string
  ato_AccessTokenExpiresAt :: time
  ato_RefreshToken :: string
  ato_RefreshTokenExpiresAt :: time
  ato_CustomerAccountID :: "int option"

definition tokens_answer :: "customer_auth_tokens \<Rightarrow> int option \<Rightarrow> auth_tokens_answer" where
  "tokens_answer t account =
     \<lparr>ato_AccessToken = cat_AccessToken t, ato_AccessTokenExpiresAt = cat_AccessTokenExpiresAt t,
      ato_RefreshToken = cat_RefreshToken t, ato_RefreshTokenExpiresAt = cat_RefreshTokenExpiresAt t,
      ato_CustomerAccountID = account\<rparr>"

definition otp_verify_error :: "err \<Rightarrow> ('s, 'a response) state" where
  "otp_verify_error e =
     (if e = ErrInvalidPhone then writeError 400 ''invalid phone number''
      else if e = ErrOTPInvalid then writeError 401 ''invalid or expired code''
      else if e = ErrOTPLocked then writeError 429 ''too many attempts, request a new code''
      else if e = ErrAccountBlocked then writeError 403 ''account blocked''
      else writeError 500 ''verify otp'')"

definition handleVerifyOTP ::
    "'k customer_auth \<Rightarrow> 'k world env \<Rightarrow> nat list option \<Rightarrow> ('k, otp_verify_body, auth_tokens_answer) handler" where
  "handleVerifyOTP S E drawn r =
     (case rq_Body r of
        None \<Rightarrow> writeError 400 ''invalid request body''
      | Some body \<Rightarrow>
          if vb_Phone body = [] \<or> length (vb_Phone body) > maxOTPPhoneLen \<or>
             vb_Code body = [] \<or> length (vb_Code body) > maxOTPCodeLen \<or>
             length (vb_ConsentDocumentVersion body) > maxConsentFieldLen \<or> length (vb_ConsentSource body) > maxConsentFieldLen
          then writeError 400 ''invalid request body''
          else do {
            res \<leftarrow> VerifyOTP S E drawn \<lparr>vr_Phone = vb_Phone body, vr_Code = vb_Code body, vr_IP = clientIP r,
                     vr_UserAgent = rq_UserAgent r, vr_ConsentDocumentVersion = vb_ConsentDocumentVersion body,
                     vr_ConsentSource = vb_ConsentSource body\<rparr>;
            case res of
              Inl e \<Rightarrow> otp_verify_error e
            | Inr (tokens, account) \<Rightarrow> writeJSON 200 (tokens_answer tokens (Some (acc_ID account)))
          })"

section \<open>Sessions\<close>

text \<open>The bodies of refresh and logout are the refresh token.\<close>

definition handleRefreshCustomerSession ::
    "'k customer_auth \<Rightarrow> 'k world env \<Rightarrow> nat list option \<Rightarrow> ('k, string, auth_tokens_answer) handler" where
  "handleRefreshCustomerSession S E drawn r =
     (case rq_Body r of
        None \<Rightarrow> writeError 400 ''refresh_token is required''
      | Some token \<Rightarrow>
          if token = [] \<or> length token > maxRefreshTokenLen then writeError 400 ''refresh_token is required''
          else do {
            res \<leftarrow> Refresh S E drawn token (clientIP r) (rq_UserAgent r);
            case res of
              Inl e \<Rightarrow> if e = ErrSessionInvalid then writeError 401 ''invalid session'' else writeError 500 ''refresh session''
            | Inr tokens \<Rightarrow> writeJSON 200 (tokens_answer tokens None)
          })"

definition handleCustomerLogout :: "'k customer_auth \<Rightarrow> 'k world env \<Rightarrow> ('k, string, unit) handler" where
  "handleCustomerLogout S E r =
     (case rq_Body r of
        None \<Rightarrow> writeError 400 ''refresh_token is required''
      | Some token \<Rightarrow>
          if token = [] \<or> length token > maxRefreshTokenLen then writeError 400 ''refresh_token is required''
          else do {
            res \<leftarrow> Logout S E token;
            case res of Inl e \<Rightarrow> writeError 500 ''logout'' | Inr _ \<Rightarrow> writeHeader 204
          })"

definition handleCustomerLogoutAll :: "'k world env \<Rightarrow> ('k, 'b, unit) handler" where
  "handleCustomerLogoutAll E r =
     (case customerFromContext r of
        None \<Rightarrow> writeError 401 ''unauthorized''
      | Some customerAccountID \<Rightarrow> do {
          res \<leftarrow> LogoutAll E customerAccountID;
          case res of Inl e \<Rightarrow> writeError 500 ''logout all'' | Inr _ \<Rightarrow> writeHeader 204
        })"

section \<open>The staff's login\<close>

definition maxOIDCTokenLen :: nat where
  "maxOIDCTokenLen = 8192"

text \<open>The body is the ID token, the answer the access token; the step is over the servers and the key cache.\<close>

definition handleStaffOIDCLogin ::
    "staff_auth \<Rightarrow> 'k world env \<Rightarrow> oidc_cache env \<Rightarrow> jwks_reply \<Rightarrow> string request
     \<Rightarrow> ('k world \<times> oidc_cache, string response) state" where
  "handleStaffOIDCLogin S E V reply r =
     (case rq_Body r of
        None \<Rightarrow> writeError 400 ''id_token is required''
      | Some idToken \<Rightarrow>
          if idToken = [] \<or> length idToken > maxOIDCTokenLen then writeError 400 ''id_token is required''
          else do {
            res \<leftarrow> AuthenticateOIDC S E V reply idToken (clientIP r) (rq_UserAgent r);
            case res of
              Inl e \<Rightarrow>
                if e = ErrStaffDisabled then writeError 403 ''account disabled''
                else if e = ErrNoActiveMembership then writeError 403 ''no active organization membership''
                else writeError 401 ''invalid id token''
            | Inr (token, _) \<Rightarrow> writeJSON 200 token
          })"

section \<open>The customer's own data\<close>

record me_answer =
  me_CustomerAccountID :: int
  me_Phone :: string
  me_Status :: customer_account_status
  me_CreatedAt :: time

definition handleGetMe :: "'k world env \<Rightarrow> ('k, 'b, me_answer) handler" where
  "handleGetMe E r =
     (case customerFromContext r of
        None \<Rightarrow> writeError 401 ''unauthorized''
      | Some customerAccountID \<Rightarrow> do {
          a \<leftarrow> call E (''me.account'', 0) (on_db (account_GetByID customerAccountID));
          case a of
            Inl e \<Rightarrow> if e = ErrNotFound then writeError 404 ''account not found'' else writeError 500 ''load account''
          | Inr account \<Rightarrow> writeJSON 200 \<lparr>me_CustomerAccountID = acc_ID account, me_Phone = acc_Phone account,
                             me_Status = acc_Status account, me_CreatedAt = acc_CreatedAt account\<rparr>
        })"

record me_balance_item =
  mb_StoreID :: int
  mb_ClientID :: int
  mb_Balance :: int

fun myBalances :: "'k world env \<Rightarrow> nat \<Rightarrow> client list \<Rightarrow> ('k world, me_balance_item list) op" where
  "myBalances E k [] = ok []"
| "myBalances E k (c # cs) =
     andThen (call E (''me.balance'', k) (on_db (balance_Get (cl_ID c)))) (\<lambda>balance.
     andThen (myBalances E (Suc k) cs) (\<lambda>items.
     ok (\<lparr>mb_StoreID = cl_StoreID c, mb_ClientID = cl_ID c, mb_Balance = bal_Points balance\<rparr> # items)))"

definition handleGetMyBalance :: "'k world env \<Rightarrow> ('k, 'b, me_balance_item list) handler" where
  "handleGetMyBalance E r =
     (case customerFromContext r of
        None \<Rightarrow> writeError 401 ''unauthorized''
      | Some customerAccountID \<Rightarrow> do {
          res \<leftarrow> andThen (call E (''me.clients'', 0) (on_db (client_ListByCustomerAccount customerAccountID))) (myBalances E 0);
          case res of Inl e \<Rightarrow> writeError 500 ''load balance'' | Inr items \<Rightarrow> writeJSON 200 items
        })"

section \<open>The customer's history\<close>

definition defaultTransactionsLimit :: nat where
  "defaultTransactionsLimit = 20"

definition maxTransactionsLimit :: nat where
  "maxTransactionsLimit = 100"

definition parseTransactionsLimit :: "string \<Rightarrow> nat" where
  "parseTransactionsLimit raw =
     (if raw = [] then defaultTransactionsLimit
      else case parse_int raw of
             None \<Rightarrow> defaultTransactionsLimit
           | Some n \<Rightarrow>
               if n \<le> 0 then defaultTransactionsLimit
               else if n > int maxTransactionsLimit then maxTransactionsLimit
               else nat n)"

definition encode_raw :: "string \<Rightarrow> string" where
  "encode_raw s = base64url (map of_char s)"

definition decode_raw :: "string \<Rightarrow> string option" where
  "decode_raw s = map_option bytes (base64url_decode s)"

text \<open>\<open>UnixNano\<close> is the count of nanoseconds modulo \<open>2\<^sup>6\<^sup>4\<close>.\<close>

definition encodeTransactionCursor :: "time \<Rightarrow> int \<Rightarrow> string" where
  "encodeTransactionCursor createdAt i = encode_raw (show_int (wrap64 createdAt) @ ''_'' @ show_int i)"

text \<open>\<open>Inl ()\<close>: malformed; \<open>Inr None\<close>: no cursor, the first page.\<close>

definition decodeTransactionCursor :: "string \<Rightarrow> unit + transaction_cursor option" where
  "decodeTransactionCursor raw =
     (if raw = [] then Inr None
      else case decode_raw raw of
             None \<Rightarrow> Inl ()
           | Some decoded \<Rightarrow>
               (case cut CHR ''_'' decoded of
                  None \<Rightarrow> Inl ()
                | Some (p0, p1) \<Rightarrow>
                    (case parse_int p0 of
                       None \<Rightarrow> Inl ()
                     | Some nanos \<Rightarrow>
                         (case parse_int p1 of
                            None \<Rightarrow> Inl ()
                          | Some i \<Rightarrow> Inr (Some \<lparr>cur_CreatedAt = nanos, cur_ID = i\<rparr>)))))"

record me_transaction_item =
  mt_StoreID :: int
  mt_StoreName :: string
  mt_ClientID :: int
  mt_Type :: transaction_type
  mt_Amount :: rat
  mt_Currency :: string
  mt_PointsDelta :: int
  mt_BalanceAfter :: int
  mt_CreatedAt :: time

definition transaction_item :: "string \<Rightarrow> transaction \<Rightarrow> me_transaction_item" where
  "transaction_item name t =
     \<lparr>mt_StoreID = tx_StoreID t, mt_StoreName = name, mt_ClientID = tx_ClientID t, mt_Type = tx_Type t,
      mt_Amount = tx_Amount t, mt_Currency = tx_Currency t, mt_PointsDelta = tx_PointsDelta t,
      mt_BalanceAfter = tx_BalanceAfter t, mt_CreatedAt = tx_CreatedAt t\<rparr>"

text \<open>The loop that names the stores, with its cache of names.\<close>

fun transactionItems ::
    "'k world env \<Rightarrow> nat \<Rightarrow> (int \<rightharpoonup> string) \<Rightarrow> transaction list \<Rightarrow> ('k world, me_transaction_item list) state" where
  "transactionItems E k storeNames [] = State_Monad.return []"
| "transactionItems E k storeNames (t # ts) = do {
     name \<leftarrow> (case storeNames (tx_StoreID t) of
               Some n \<Rightarrow> State_Monad.return n
             | None \<Rightarrow> do {
                 s \<leftarrow> call E (''me.store'', k) (on_db (store_GetByID (tx_StoreID t)));
                 State_Monad.return (case s of Inl e \<Rightarrow> [] | Inr store \<Rightarrow> st_Name store)
               });
     items \<leftarrow> transactionItems E (Suc k) (storeNames(tx_StoreID t \<mapsto> name)) ts;
     State_Monad.return (transaction_item name t # items)
   }"

text \<open>The rows of a page and, where more follow, the cursor of its last row.\<close>

definition transactionsPage :: "nat \<Rightarrow> transaction list \<Rightarrow> transaction list \<times> string" where
  "transactionsPage limit rows =
     (if length rows > limit
      then let final = rows ! (limit - 1) in (take limit rows, encodeTransactionCursor (tx_CreatedAt final) (tx_ID final))
      else (rows, []))"

definition handleGetMyTransactions :: "'k world env \<Rightarrow> ('k, 'b, me_transaction_item list \<times> string) handler" where
  "handleGetMyTransactions E r =
     (case customerFromContext r of
        None \<Rightarrow> writeError 401 ''unauthorized''
      | Some customerAccountID \<Rightarrow>
          let limit = parseTransactionsLimit (rq_Query r ''limit'') in
          (case decodeTransactionCursor (rq_Query r ''cursor'') of
             Inl _ \<Rightarrow> writeError 400 ''invalid cursor''
           | Inr cursor \<Rightarrow> do {
               cs \<leftarrow> call E (''me.clients'', 0) (on_db (client_ListByCustomerAccount customerAccountID));
               case cs of
                 Inl e \<Rightarrow> writeError 500 ''load transactions''
               | Inr myClients \<Rightarrow>
                   if myClients = [] then writeJSON 200 ([], [])
                   else do {
                     ts \<leftarrow> call E (''me.transactions'', 0) (on_db (tx_ListByClientIDs (map cl_ID myClients) (limit + 1) cursor));
                     case ts of
                       Inl e \<Rightarrow> writeError 500 ''load transactions''
                     | Inr clientTxs \<Rightarrow> do {
                         items \<leftarrow> transactionItems E 0 Map.empty (fst (transactionsPage limit clientTxs));
                         writeJSON 200 (items, snd (transactionsPage limit clientTxs))
                       }
                   }
             }))"

section \<open>Devices\<close>

definition maxPushTokenLen :: nat where
  "maxPushTokenLen = 4096"

definition maxPlatformLen :: nat where
  "maxPlatformLen = 32"

record register_device_body =
  rd_Platform :: string
  rd_PushToken :: string

text \<open>The answer is the device's id.\<close>

definition handleRegisterDevice :: "'k world env \<Rightarrow> ('k, register_device_body, int) handler" where
  "handleRegisterDevice E r =
     (case customerFromContext r of
        None \<Rightarrow> writeError 401 ''unauthorized''
      | Some customerAccountID \<Rightarrow>
          (case rq_Body r of
             None \<Rightarrow> writeError 400 ''platform and push_token are required''
           | Some body \<Rightarrow>
               if rd_Platform body = [] \<or> length (rd_Platform body) > maxPlatformLen \<or>
                  rd_PushToken body = [] \<or> length (rd_PushToken body) > maxPushTokenLen
               then writeError 400 ''platform and push_token are required''
               else do {
                 let l = (''device.upsert'', 0);
                 d \<leftarrow> call E l (on_db (device_Upsert (env_now E l)
                   \<lparr>dev_ID = 0, dev_CustomerAccountID = customerAccountID, dev_Platform = rd_Platform body,
                    dev_PushToken = rd_PushToken body, dev_CreatedAt = 0, dev_UpdatedAt = 0, dev_RevokedAt = None\<rparr>));
                 case d of Inl e \<Rightarrow> writeError 500 ''register device'' | Inr device \<Rightarrow> writeJSON 200 (dev_ID device)
               }))"

definition handleRevokeDevice :: "'k world env \<Rightarrow> ('k, 'b, unit) handler" where
  "handleRevokeDevice E r =
     (case customerFromContext r of
        None \<Rightarrow> writeError 401 ''unauthorized''
      | Some customerAccountID \<Rightarrow>
          (case parse_int (rq_PathValue r ''deviceID'') of
             None \<Rightarrow> writeError 400 ''invalid device id''
           | Some deviceID \<Rightarrow>
               if deviceID \<le> 0 then writeError 400 ''invalid device id''
               else do {
                 let l = (''device.revoke'', 0);
                 d \<leftarrow> call E l (on_db (device_Revoke (env_now E l) deviceID customerAccountID));
                 case d of
                   Inl e \<Rightarrow> if e = ErrNotFound then writeError 404 ''device not found'' else writeError 500 ''revoke device''
                 | Inr _ \<Rightarrow> writeHeader 204
               }))"

section \<open>Issuing a QR code\<close>

text \<open>\<open>d.Round(time.Second) / time.Second\<close>, half away from zero.\<close>

definition roundedSeconds :: "duration \<Rightarrow> int" where
  "roundedSeconds d =
     (if d < 0 then - ((- d + 500000000) div 1000000000) else (d + 500000000) div 1000000000)"

record issue_qr_answer =
  iq_Payload :: string
  iq_ExpiresAt :: time
  iq_ExpiresIn :: int

text \<open>The \<open>Retry-After\<close> of a refusal stands beside the answer.\<close>

definition handleIssueQR ::
    "'k qr_service \<Rightarrow> 'k world env \<Rightarrow> nat list option \<Rightarrow> 'b request
     \<Rightarrow> ('k world, int option \<times> issue_qr_answer response) state" where
  "handleIssueQR S E drawn r =
     (let plain = (\<lambda>m. State_Monad.bind m (\<lambda>a. State_Monad.return (None, a))) in
      case customerFromContext r of
        None \<Rightarrow> plain (writeError 401 ''unauthorized'')
      | Some customerAccountID \<Rightarrow> do {
          res \<leftarrow> IssueQR S E drawn customerAccountID;
          case res of
            Inl e \<Rightarrow> plain (writeError 500 ''issue qr'')
          | Inr (IssueCooldown retryAfter) \<Rightarrow>
              State_Monad.bind (writeErrorCode 429 ''qr_issue_cooldown'' ''too many requests, try again later'')
                (\<lambda>a. State_Monad.return (Some (roundedSeconds retryAfter), a))
          | Inr (Issued payload expiresAt) \<Rightarrow>
              plain (writeJSON 200 \<lparr>iq_Payload = payload, iq_ExpiresAt = expiresAt,
                       iq_ExpiresIn = roundedSeconds (expiresAt - env_now E (''qr.until'', 0))\<rparr>)
        })"

end
