(* ===== verification/Http_Keys.thy ===== *)
theory Http_Keys
  imports Remote_Addr
begin

text \<open>
  \<open>admin_apikeys.go\<close>: the handlers that list, create and revoke a store's API keys. The bytes of
  a new key are arguments (\<open>None\<close> where the source of randomness fails).
\<close>

definition AuditActionAPIKeyCreated :: string where
  "AuditActionAPIKeyCreated = ''api_key.created''"

definition AuditActionAPIKeyRevoked :: string where
  "AuditActionAPIKeyRevoked = ''api_key.revoked''"

record api_key_body =
  kb_ID :: int
  kb_KeyID :: string
  kb_Name :: string
  kb_Scopes :: "string list"
  kb_CreatedAt :: time
  kb_ExpiresAt :: "time option"
  kb_RevokedAt :: "time option"
  kb_LastUsedAt :: "time option"

definition apiKeyToBody :: "store_api_key \<Rightarrow> api_key_body" where
  "apiKeyToBody k =
     \<lparr>kb_ID = key_ID k, kb_KeyID = key_KeyID k, kb_Name = key_Name k, kb_Scopes = key_Scopes k,
      kb_CreatedAt = key_CreatedAt k, kb_ExpiresAt = key_ExpiresAt k, kb_RevokedAt = key_RevokedAt k,
      kb_LastUsedAt = key_LastUsedAt k\<rparr>"

definition handleListStoreAPIKeys :: "'k world env \<Rightarrow> ('k, 'b, api_key_body list) handler" where
  "handleListStoreAPIKeys E =
     resolveScopedStore E (\<lambda>store _. do {
       ks \<leftarrow> call E (''keys.list'', 0) (on_db (key_ListByStore (st_ID store)));
       case ks of Inl e \<Rightarrow> writeError 500 ''list api keys'' | Inr list \<Rightarrow> writeJSON 200 (map apiKeyToBody list)
     })"

section \<open>Creation\<close>

record create_key_body =
  ck_Name :: string
  ck_Scopes :: "string list"
  ck_ExpiresAt :: "time option"

definition validAPIKeyScopes :: "string list" where
  "validAPIKeyScopes = [ScopeTransactionsWrite, ScopeClientsLookup, ScopeBalancesRead]"

text \<open>The loop over the scopes: \<open>Inl\<close> is the first invalid one, \<open>scopes\<close> those seen so far.\<close>

fun checkScopes :: "string list \<Rightarrow> string list \<Rightarrow> string + string list" where
  "checkScopes scopes [] = Inr scopes"
| "checkScopes scopes (s # ss) =
     (if s \<notin> set validAPIKeyScopes then Inl s
      else if s \<notin> set scopes then checkScopes (scopes @ [s]) ss
      else checkScopes scopes ss)"

record created_key_answer =
  cka_Key :: api_key_body
  cka_PlaintextKey :: string

text \<open>From a valid body on.\<close>

definition createKey ::
    "hash \<Rightarrow> 'k world env \<Rightarrow> nat list option \<Rightarrow> nat list option \<Rightarrow> 'b request \<Rightarrow> store \<Rightarrow> int \<Rightarrow> string \<Rightarrow> string list
     \<Rightarrow> time option \<Rightarrow> ('k world, created_key_answer response) state" where
  "createKey sha E idBuf secretBuf r store orgID name scopes expiresAt =
     (case GenerateAPIKey sha idBuf secretBuf of
        None \<Rightarrow> writeError 500 ''generate api key''
      | Some (plaintext, keyID, h) \<Rightarrow> do {
          let createdBy = actorStaffUserID r;
          let l = (''keys.create'', 0);
          res \<leftarrow> call E l (on_db (key_Create (env_now E l)
            \<lparr>key_ID = 0, key_StoreID = st_ID store, key_KeyID = keyID, key_KeyHash = h, key_Name = name, key_Scopes = scopes,
             key_CreatedAt = 0, key_ExpiresAt = expiresAt, key_RevokedAt = None, key_LastUsedAt = None, key_CreatedBy = createdBy\<rparr>));
          case res of
            Inl e \<Rightarrow> writeError 500 ''create api key''
          | Inr key \<Rightarrow> do {
              _ \<leftarrow> auditCreate E 0 AuditActorStaff createdBy AuditActionAPIKeyCreated (Some orgID) (Some (st_ID store))
                    ''store_api_key'' (Some (key_ID key)) (clientIP r) (rq_UserAgent r);
              writeJSON 201 \<lparr>cka_Key = apiKeyToBody key, cka_PlaintextKey = plaintext\<rparr>
            }
        })"

definition handleCreateStoreAPIKey ::
    "hash \<Rightarrow> 'k world env \<Rightarrow> nat list option \<Rightarrow> nat list option \<Rightarrow> ('k, create_key_body, created_key_answer) handler" where
  "handleCreateStoreAPIKey sha E idBuf secretBuf r =
     resolveScopedStore E (\<lambda>store orgID.
       case rq_Body r of
         None \<Rightarrow> writeError 400 ''name and at least one scope are required''
       | Some body \<Rightarrow>
           if ck_Scopes body = [] then writeError 400 ''name and at least one scope are required''
           else case normalizeName (ck_Name body) of
             None \<Rightarrow> writeError 400 ''name and at least one scope are required''
           | Some name \<Rightarrow>
               (case checkScopes [] (ck_Scopes body) of
                  Inl scope \<Rightarrow> writeError 400 (''invalid scope: '' @ scope)
                | Inr scopes \<Rightarrow>
                    if (case ck_ExpiresAt body of None \<Rightarrow> False | Some e \<Rightarrow> \<not> e > env_now E (''keys.now'', 0))
                    then writeError 400 ''expires_at must be in the future''
                    else createKey sha E idBuf secretBuf r store orgID name scopes (ck_ExpiresAt body))) r"

section \<open>Revocation\<close>

text \<open>The list of keys is only read for the name in the audit record's metadata.\<close>

definition handleRevokeStoreAPIKey :: "'k world env \<Rightarrow> ('k, 'b, unit) handler" where
  "handleRevokeStoreAPIKey E r =
     resolveScopedStore E (\<lambda>store orgID.
       case parse_int (rq_PathValue r ''keyID'') of
         None \<Rightarrow> writeError 400 ''invalid key id''
       | Some keyID \<Rightarrow> do {
           _ \<leftarrow> logged (call E (''keys.list'', 0) (on_db (key_ListByStore (st_ID store))));
           let l = (''keys.revoke'', 0);
           res \<leftarrow> call E l (on_db (key_Revoke (env_now E l) (st_ID store) keyID));
           case res of
             Inl e \<Rightarrow> if e = ErrNotFound then writeError 404 ''api key not found'' else writeError 500 ''revoke api key''
           | Inr _ \<Rightarrow> do {
               _ \<leftarrow> auditCreate E 0 AuditActorStaff (actorStaffUserID r) AuditActionAPIKeyRevoked (Some orgID) (Some (st_ID store))
                     ''store_api_key'' (Some keyID) (clientIP r) (rq_UserAgent r);
               writeHeader 204
             }
         }) r"

end
