(* ===== verification/Http_Staff.thy ===== *)
theory Http_Staff
  imports Remote_Addr
begin

text \<open>
  \<open>admin_staff.go\<close> and \<open>admin_staff_me.go\<close>: the handlers that list, grant and change staff
  memberships and tell a staff user about themselves.
\<close>

definition AuditActionStaffMembershipAdded :: string where
  "AuditActionStaffMembershipAdded = ''staff.membership_added''"

definition AuditActionStaffRoleChanged :: string where
  "AuditActionStaffRoleChanged = ''staff.role_changed''"

definition AuditActionStaffStatusChanged :: string where
  "AuditActionStaffStatusChanged = ''staff.status_changed''"

definition principalIsPlatformAdmin :: "staff_principal option \<Rightarrow> bool" where
  "principalIsPlatformAdmin p = (case p of None \<Rightarrow> False | Some q \<Rightarrow> IsPlatformAdmin q)"

text \<open>The role a string names, as \<open>validRole\<close> accepts it, and the status.\<close>

definition validRole :: "string \<Rightarrow> role option" where
  "validRole s =
     (if s = ''platform_admin'' then Some RolePlatformAdmin
      else if s = ''retailer_admin'' then Some RoleRetailerAdmin
      else if s = ''store_manager'' then Some RoleStoreManager
      else if s = ''support_viewer'' then Some RoleSupportViewer
      else None)"

definition validStatus :: "string \<Rightarrow> staff_status option" where
  "validStatus s = (if s = ''active'' then Some StaffActive else if s = ''disabled'' then Some StaffDisabled else None)"

section \<open>Listing\<close>

text \<open>A membership with its user's profile; \<open>membershipToBody\<close> copies all its fields.\<close>

record membership_body =
  mbd_Membership :: staff_membership
  mbd_ExternalSubject :: string
  mbd_Email :: string
  mbd_DisplayName :: string

definition membershipToBody :: "staff_membership \<Rightarrow> staff_user \<Rightarrow> membership_body" where
  "membershipToBody m u =
     \<lparr>mbd_Membership = m, mbd_ExternalSubject = su_ExternalSubject u, mbd_Email = su_Email u, mbd_DisplayName = su_DisplayName u\<rparr>"

text \<open>The loop of the listing with its cache of users.\<close>

fun membershipBodies ::
    "'k world env \<Rightarrow> nat \<Rightarrow> (int \<rightharpoonup> staff_user) \<Rightarrow> staff_membership list \<Rightarrow> ('k world, membership_body list) op" where
  "membershipBodies E k userCache [] = ok []"
| "membershipBodies E k userCache (m # ms) =
     andThen (case userCache (mem_StaffUserID m) of
                Some u \<Rightarrow> ok u
              | None \<Rightarrow> call E (''staff.list.user'', k) (on_db (staff_GetByID (mem_StaffUserID m)))) (\<lambda>u.
     andThen (membershipBodies E (Suc k) (userCache(mem_StaffUserID m \<mapsto> u)) ms) (\<lambda>bodies.
     ok (membershipToBody m u # bodies)))"

definition handleListStaffMemberships :: "'k world env \<Rightarrow> ('k, 'b, membership_body list) handler" where
  "handleListStaffMemberships E r =
     (case parse_int (rq_PathValue r ''orgID'') of
        None \<Rightarrow> writeError 400 ''invalid organization id''
      | Some orgID \<Rightarrow> do {
          res \<leftarrow> andThen (call E (''staff.list'', 0) (on_db (membership_ListByOrganization orgID))) (membershipBodies E 0 Map.empty);
          case res of Inl e \<Rightarrow> writeError 500 ''list staff memberships'' | Inr bodies \<Rightarrow> writeJSON 200 bodies
        })"

section \<open>Granting\<close>

definition maxExternalSubjectLen :: nat where
  "maxExternalSubjectLen = 255"

record create_membership_body =
  cm_ExternalSubject :: string
  cm_StoreID :: "int option"
  cm_Role :: string

text \<open>The store a membership is to be limited to: the refusal, or nothing.\<close>

definition checkStoreInOrganization :: "'k world env \<Rightarrow> int \<Rightarrow> int option \<Rightarrow> ('k world, (int \<times> string) option) state" where
  "checkStoreInOrganization E orgID storeID =
     (case storeID of
        None \<Rightarrow> State_Monad.return None
      | Some s \<Rightarrow> do {
          res \<leftarrow> call E (''staff.store'', 0) (on_db (store_GetByID s));
          State_Monad.return (case res of
            Inl e \<Rightarrow> if e = ErrNotFound then Some (400, ''store does not belong to this organization'') else Some (500, ''load store'')
          | Inr store \<Rightarrow>
              if st_OrganizationID store \<noteq> orgID then Some (400, ''store does not belong to this organization'') else None)
        })"

text \<open>The user of the subject, created where there is none; the refusal carries its message.\<close>

definition resolveTargetUser :: "'k world env \<Rightarrow> string \<Rightarrow> ('k world, string + staff_user) state" where
  "resolveTargetUser E subject = do {
     res \<leftarrow> call E (''staff.subject'', 0) (on_db (staff_GetByExternalSubject subject));
     case res of
       Inr u \<Rightarrow> State_Monad.return (Inr u)
     | Inl e \<Rightarrow>
         if e \<noteq> ErrNotFound then State_Monad.return (Inl ''load staff user'')
         else do {
           let l = (''staff.create'', 0);
           c \<leftarrow> call E l (on_db (staff_Create (env_now E l)
             \<lparr>su_ID = 0, su_ExternalSubject = subject, su_Email = [], su_DisplayName = [], su_Status = StaffActive, su_CreatedAt = 0\<rparr>));
           State_Monad.return (case c of Inl e2 \<Rightarrow> Inl ''create staff user'' | Inr u \<Rightarrow> Inr u)
         }
   }"

text \<open>From a valid and permitted body on.\<close>

definition grantMembership ::
    "'k world env \<Rightarrow> 'b request \<Rightarrow> int \<Rightarrow> string \<Rightarrow> int option \<Rightarrow> role \<Rightarrow> ('k world, membership_body response) state" where
  "grantMembership E r orgID subject storeID new_role = do {
     refused \<leftarrow> checkStoreInOrganization E orgID storeID;
     case refused of
       Some (status, message) \<Rightarrow> writeError status message
     | None \<Rightarrow> do {
         u \<leftarrow> resolveTargetUser E subject;
         case u of
           Inl message \<Rightarrow> writeError 500 message
         | Inr user \<Rightarrow> do {
             let l = (''staff.grant'', 0);
             res \<leftarrow> call E l (on_db (membership_Create (env_now E l)
               \<lparr>mem_ID = 0, mem_StaffUserID = su_ID user, mem_OrganizationID = orgID, mem_StoreID = storeID, mem_Role = new_role,
                mem_Status = StaffActive, mem_CreatedAt = 0, mem_UpdatedAt = 0\<rparr>));
             case res of
               Inl e \<Rightarrow>
                 if e = ErrConflict then writeError 409 ''membership already exists''
                 else writeError 500 ''create staff membership''
             | Inr m \<Rightarrow> do {
                 _ \<leftarrow> auditCreate E 0 AuditActorStaff (actorStaffUserID r) AuditActionStaffMembershipAdded (Some orgID)
                       (mem_StoreID m) ''staff_membership'' (Some (mem_ID m)) (clientIP r) (rq_UserAgent r);
                 writeJSON 201 (membershipToBody m user)
               }
           }
       }
   }"

definition handleCreateStaffMembership :: "'k world env \<Rightarrow> ('k, create_membership_body, membership_body) handler" where
  "handleCreateStaffMembership E r =
     (case parse_int (rq_PathValue r ''orgID'') of
        None \<Rightarrow> writeError 400 ''invalid organization id''
      | Some orgID \<Rightarrow>
          (case rq_Body r of
             None \<Rightarrow> writeError 400 ''external_subject and a valid role are required''
           | Some body \<Rightarrow>
               let subject = TrimSpace (cm_ExternalSubject body) in
               if subject = [] \<or> length subject > maxExternalSubjectLen
               then writeError 400 ''external_subject and a valid role are required''
               else case validRole (cm_Role body) of
                 None \<Rightarrow> writeError 400 ''external_subject and a valid role are required''
               | Some new_role \<Rightarrow>
                   if new_role = RolePlatformAdmin \<and> \<not> principalIsPlatformAdmin (staffFromContext r)
                   then writeError 403 ''only a platform admin can grant platform_admin''
                   else grantMembership E r orgID subject (cm_StoreID body) new_role))"

section \<open>Changing\<close>

record update_membership_body =
  um_Role :: string
  um_Status :: string

text \<open>The checks on the body; \<open>Inl\<close> is the refusal.\<close>

definition parseUpdate :: "update_membership_body \<Rightarrow> string + role option \<times> staff_status option" where
  "parseUpdate body =
     (if um_Role body = [] \<and> um_Status body = [] then Inl ''role or status is required''
      else if um_Role body \<noteq> [] \<and> validRole (um_Role body) = None then Inl ''invalid role''
      else if um_Status body \<noteq> [] \<and> validStatus (um_Status body) = None then Inl ''invalid status''
      else Inr (validRole (um_Role body), validStatus (um_Status body)))"

text \<open>The write of the role and then of the status, each with its audit record.\<close>

definition writeRole ::
    "'k world env \<Rightarrow> 'b request \<Rightarrow> int \<Rightarrow> staff_membership \<Rightarrow> role option \<Rightarrow> ('k world, unit) op" where
  "writeRole E r orgID target new_role =
     (case new_role of
        None \<Rightarrow> ok ()
      | Some ro \<Rightarrow>
          let l = (''staff.role'', 0) in
          andThen (call E l (on_db (membership_UpdateRole (env_now E l) (mem_ID target) ro))) (\<lambda>_.
          auditCreate E 0 AuditActorStaff (actorStaffUserID r) AuditActionStaffRoleChanged (Some orgID) (mem_StoreID target)
            ''staff_membership'' (Some (mem_ID target)) (clientIP r) (rq_UserAgent r)))"

definition writeStatus ::
    "'k world env \<Rightarrow> 'b request \<Rightarrow> int \<Rightarrow> staff_membership \<Rightarrow> staff_status option \<Rightarrow> ('k world, unit) op" where
  "writeStatus E r orgID target new_status =
     (case new_status of
        None \<Rightarrow> ok ()
      | Some st \<Rightarrow>
          let l = (''staff.status'', 0) in
          andThen (call E l (on_db (membership_UpdateStatus (env_now E l) (mem_ID target) st))) (\<lambda>_.
          auditCreate E 1 AuditActorStaff (actorStaffUserID r) AuditActionStaffStatusChanged (Some orgID) (mem_StoreID target)
            ''staff_membership'' (Some (mem_ID target)) (clientIP r) (rq_UserAgent r)))"

definition changeMembership ::
    "'k world env \<Rightarrow> 'b request \<Rightarrow> int \<Rightarrow> staff_membership \<Rightarrow> role option \<Rightarrow> staff_status option \<Rightarrow> ('k world, unit response) state" where
  "changeMembership E r orgID target new_role new_status =
     (let caller = staffFromContext r in
      if (case caller of None \<Rightarrow> False | Some p \<Rightarrow> sp_StaffUserID p = mem_StaffUserID target)
      then writeError 400 ''cannot modify your own membership''
      else if (new_role = Some RolePlatformAdmin \<or> mem_Role target = RolePlatformAdmin) \<and> \<not> principalIsPlatformAdmin caller
      then writeError 403 ''only a platform admin can grant or modify platform_admin''
      else do {
        res \<leftarrow> andThen (writeRole E r orgID target new_role) (\<lambda>_. writeStatus E r orgID target new_status);
        case res of Inl e \<Rightarrow> writeError 500 ''update membership'' | Inr _ \<Rightarrow> writeHeader 204
      })"

definition handleUpdateStaffMembership :: "'k world env \<Rightarrow> ('k, update_membership_body, unit) handler" where
  "handleUpdateStaffMembership E r =
     (case parse_int (rq_PathValue r ''orgID'') of
        None \<Rightarrow> writeError 400 ''invalid organization id''
      | Some orgID \<Rightarrow>
          (case parse_int (rq_PathValue r ''membershipID'') of
             None \<Rightarrow> writeError 400 ''invalid membership id''
           | Some membershipID \<Rightarrow>
               (case rq_Body r of
                  None \<Rightarrow> writeError 400 ''invalid request body''
                | Some body \<Rightarrow>
                    (case parseUpdate body of
                       Inl message \<Rightarrow> writeError 400 message
                     | Inr (new_role, new_status) \<Rightarrow> do {
                         t \<leftarrow> call E (''staff.target'', 0) (on_db (membership_GetByID membershipID));
                         case t of
                           Inl e \<Rightarrow> if e = ErrNotFound then writeError 404 ''membership not found'' else writeError 500 ''load membership''
                         | Inr target \<Rightarrow>
                             if mem_OrganizationID target \<noteq> orgID then writeError 404 ''membership not found''
                             else changeMembership E r orgID target new_role new_status
                       }))))"

section \<open>The caller's own profile and organizations\<close>

record staff_me_membership =
  smm_OrganizationID :: int
  smm_StoreID :: "int option"
  smm_Role :: role
  smm_Permissions :: "permission list"

record staff_me_answer =
  sme_StaffUserID :: int
  sme_Email :: string
  sme_DisplayName :: string
  sme_Memberships :: "staff_me_membership list"

definition handleGetStaffMe :: "'k world env \<Rightarrow> ('k, 'b, staff_me_answer) handler" where
  "handleGetStaffMe E r =
     (case staffFromContext r of
        None \<Rightarrow> writeError 401 ''unauthorized''
      | Some caller \<Rightarrow> do {
          u \<leftarrow> call E (''staff.me'', 0) (on_db (staff_GetByID (sp_StaffUserID caller)));
          case u of
            Inl e \<Rightarrow> writeError 500 ''load staff user''
          | Inr user \<Rightarrow>
              writeJSON 200 \<lparr>sme_StaffUserID = su_ID user, sme_Email = su_Email user, sme_DisplayName = su_DisplayName user,
                sme_Memberships = map (\<lambda>m. \<lparr>smm_OrganizationID = mem_OrganizationID m, smm_StoreID = mem_StoreID m,
                  smm_Role = mem_Role m, smm_Permissions = RolePermissions (mem_Role m)\<rparr>) (sp_Memberships caller)\<rparr>
        })"

text \<open>The organizations of the memberships, each once, in the order of the memberships.\<close>

fun organizationIDs :: "int list \<Rightarrow> staff_membership list \<Rightarrow> int list" where
  "organizationIDs ids [] = ids"
| "organizationIDs ids (m # ms) =
     organizationIDs (if mem_OrganizationID m \<in> set ids then ids else ids @ [mem_OrganizationID m]) ms"

text \<open>The answer's items have all the fields of an organization.\<close>

definition handleListOrganizations :: "'k world env \<Rightarrow> ('k, 'b, organization list) handler" where
  "handleListOrganizations E r =
     (case staffFromContext r of
        None \<Rightarrow> writeError 401 ''unauthorized''
      | Some caller \<Rightarrow> do {
          res \<leftarrow> call E (''orgs.list'', 0) (on_db
            (if principalIsPlatformAdmin (Some caller) then organization_ListAll
             else organization_ListByIDs (organizationIDs [] (sp_Memberships caller))));
          case res of Inl e \<Rightarrow> writeError 500 ''list organizations'' | Inr orgs \<Rightarrow> writeJSON 200 orgs
        })"

end
