(* ===== verification/Http_Stores.thy ===== *)
theory Http_Stores
  imports Http_Staff
begin

text \<open>
  \<open>admin_organizations.go\<close> and \<open>admin_overview.go\<close>: organizations, stores and a store's overview.
\<close>

definition AuditActionOrganizationCreated :: string where
  "AuditActionOrganizationCreated = ''organization.created''"

definition AuditActionStoreCreated :: string where
  "AuditActionStoreCreated = ''store.created''"

definition AuditActionStoreUpdated :: string where
  "AuditActionStoreUpdated = ''store.updated''"

section \<open>Organizations\<close>

text \<open>The body is the name.\<close>

definition handleCreateOrganization :: "'k world env \<Rightarrow> ('k, string, organization) handler" where
  "handleCreateOrganization E r =
     (case rq_Body r of
        None \<Rightarrow> writeError 400 ''name is required''
      | Some raw \<Rightarrow>
          (case normalizeName raw of
             None \<Rightarrow> writeError 400 ''name is required''
           | Some name \<Rightarrow> do {
               let l = (''orgs.create'', 0);
               res \<leftarrow> call E l (on_db (organization_Create (env_now E l) \<lparr>org_ID = 0, org_Name = name, org_CreatedAt = 0\<rparr>));
               case res of
                 Inl e \<Rightarrow> writeError 500 ''create organization''
               | Inr org \<Rightarrow> do {
                   _ \<leftarrow> auditCreate E 0 AuditActorStaff (actorStaffUserID r) AuditActionOrganizationCreated (Some (org_ID org)) None
                         ''organization'' (Some (org_ID org)) (clientIP r) (rq_UserAgent r);
                   writeJSON 201 org
                 }
             }))"

section \<open>Stores\<close>

definition maxAddressLen :: nat where
  "maxAddressLen = 500"

definition maxExternalCodeLen :: nat where
  "maxExternalCodeLen = 64"

record store_body =
  sb_ID :: int
  sb_OrganizationID :: int
  sb_Name :: string
  sb_Address :: string
  sb_ExternalCode :: "string option"
  sb_SMSInviteEnabled :: bool

definition storeToBody :: "store \<Rightarrow> store_body" where
  "storeToBody s = \<lparr>sb_ID = st_ID s, sb_OrganizationID = st_OrganizationID s, sb_Name = st_Name s, sb_Address = st_Address s,
     sb_ExternalCode = st_ExternalCode s, sb_SMSInviteEnabled = st_SMSInviteEnabled s\<rparr>"

record store_profile_body =
  sp_Name :: "string option"
  sp_Address :: "string option"
  sp_ExternalCode :: "string option"
  sp_SMSInviteEnabled :: "bool option"

text \<open>\<open>applyTo\<close>, field by field; \<open>Inl\<close> is the message.\<close>

definition applyName :: "string option \<Rightarrow> store \<Rightarrow> string + store" where
  "applyName name s =
     (case name of
        None \<Rightarrow> Inr s
      | Some raw \<Rightarrow> (case normalizeName raw of None \<Rightarrow> Inl ''name is required'' | Some n \<Rightarrow> Inr (s\<lparr>st_Name := n\<rparr>)))"

definition applyAddress :: "string option \<Rightarrow> store \<Rightarrow> string + store" where
  "applyAddress addr s =
     (case addr of
        None \<Rightarrow> Inr s
      | Some raw \<Rightarrow>
          if RuneCountInString (TrimSpace raw) > maxAddressLen then Inl ''address is too long''
          else Inr (s\<lparr>st_Address := TrimSpace raw\<rparr>))"

definition applyExternalCode :: "string option \<Rightarrow> store \<Rightarrow> string + store" where
  "applyExternalCode code s =
     (case code of
        None \<Rightarrow> Inr s
      | Some raw \<Rightarrow>
          if RuneCountInString (TrimSpace raw) > maxExternalCodeLen then Inl ''external_code is too long''
          else Inr (s\<lparr>st_ExternalCode := (if TrimSpace raw = [] then None else Some (TrimSpace raw))\<rparr>))"

definition applySMSInvite :: "bool option \<Rightarrow> store \<Rightarrow> string + store" where
  "applySMSInvite b s = Inr (case b of None \<Rightarrow> s | Some v \<Rightarrow> s\<lparr>st_SMSInviteEnabled := v\<rparr>)"

definition applyTo :: "store_profile_body \<Rightarrow> store \<Rightarrow> string + store" where
  "applyTo b s =
     (case applyName (sp_Name b) s of Inl msg \<Rightarrow> Inl msg | Inr s1 \<Rightarrow>
      case applyAddress (sp_Address b) s1 of Inl msg \<Rightarrow> Inl msg | Inr s2 \<Rightarrow>
      case applyExternalCode (sp_ExternalCode b) s2 of Inl msg \<Rightarrow> Inl msg | Inr s3 \<Rightarrow>
      applySMSInvite (sp_SMSInviteEnabled b) s3)"

definition errExternalCodeTaken :: string where
  "errExternalCodeTaken = ''external_code is already used by another store in this organization''"

definition zero_store :: "int \<Rightarrow> store" where
  "zero_store orgID = \<lparr>st_ID = 0, st_OrganizationID = orgID, st_Name = [], st_Address = [], st_ExternalCode = None,
     st_SMSInviteEnabled = False, st_APIKeyHash = []\<rparr>"

definition handleCreateStore :: "'k world env \<Rightarrow> ('k, store_profile_body, store_body) handler" where
  "handleCreateStore E r =
     (case parse_int (rq_PathValue r ''orgID'') of
        None \<Rightarrow> writeError 400 ''invalid organization id''
      | Some orgID \<Rightarrow>
          (case rq_Body r of
             None \<Rightarrow> writeError 400 ''name is required''
           | Some body \<Rightarrow>
               if sp_Name body = None then writeError 400 ''name is required''
               else case applyTo body (zero_store orgID) of
                 Inl msg \<Rightarrow> writeError 400 msg
               | Inr s \<Rightarrow> do {
                   res \<leftarrow> call E (''stores.create'', 0) (on_db (store_Create s));
                   case res of
                     Inl e \<Rightarrow> if e = ErrConflict then writeError 409 errExternalCodeTaken else writeError 500 ''create store''
                   | Inr store \<Rightarrow> do {
                       _ \<leftarrow> auditCreate E 0 AuditActorStaff (actorStaffUserID r) AuditActionStoreCreated (Some orgID) (Some (st_ID store))
                             ''store'' (Some (st_ID store)) (clientIP r) (rq_UserAgent r);
                       writeJSON 201 (storeToBody store)
                     }
                 }))"

definition handleUpdateStore :: "'k world env \<Rightarrow> ('k, store_profile_body, store_body) handler" where
  "handleUpdateStore E r =
     resolveScopedStore E (\<lambda>store orgID.
       case rq_Body r of
         None \<Rightarrow> writeError 400 ''invalid store''
       | Some body \<Rightarrow>
           (case applyTo body store of
              Inl msg \<Rightarrow> writeError 400 msg
            | Inr s \<Rightarrow> do {
                res \<leftarrow> call E (''stores.update'', 0) (on_db (store_UpdateProfile s));
                case res of
                  Inl e \<Rightarrow>
                    if e = ErrConflict then writeError 409 errExternalCodeTaken
                    else if e = ErrNotFound then writeError 404 ''store not found''
                    else writeError 500 ''update store''
                | Inr _ \<Rightarrow> do {
                    _ \<leftarrow> auditCreate E 0 AuditActorStaff (actorStaffUserID r) AuditActionStoreUpdated (Some orgID) (Some (st_ID s))
                          ''store'' (Some (st_ID s)) (clientIP r) (rq_UserAgent r);
                    writeJSON 200 (storeToBody s)
                  }
              })) r"

text \<open>The loop over the memberships: whether one is of the organization, whether one covers all of it, the stores named.\<close>

fun storeVisibility :: "int \<Rightarrow> bool \<times> bool \<times> int list \<Rightarrow> staff_membership list \<Rightarrow> bool \<times> bool \<times> int list" where
  "storeVisibility orgID v [] = v"
| "storeVisibility orgID (matchedOrg, orgWide, allowed) (m # ms) =
     (if mem_OrganizationID m \<noteq> orgID then storeVisibility orgID (matchedOrg, orgWide, allowed) ms
      else case mem_StoreID m of
             None \<Rightarrow> storeVisibility orgID (True, True, allowed) ms
           | Some s \<Rightarrow> storeVisibility orgID (True, orgWide, s # allowed) ms)"

definition handleListStores :: "'k world env \<Rightarrow> ('k, 'b, store_body list) handler" where
  "handleListStores E r =
     (case parse_int (rq_PathValue r ''orgID'') of
        None \<Rightarrow> writeError 400 ''invalid organization id''
      | Some orgID \<Rightarrow>
          (case staffFromContext r of
             None \<Rightarrow> writeError 401 ''unauthorized''
           | Some caller \<Rightarrow>
               let admin = principalIsPlatformAdmin (Some caller);
                   (matchedOrg, orgWide, allowed) = storeVisibility orgID (admin, admin, []) (sp_Memberships caller)
               in if \<not> matchedOrg then writeError 403 ''forbidden''
                  else do {
                    res \<leftarrow> call E (''stores.list'', 0) (on_db (store_ListByOrganization orgID));
                    case res of
                      Inl e \<Rightarrow> writeError 500 ''list stores''
                    | Inr list \<Rightarrow> writeJSON 200 (map storeToBody (List.filter (\<lambda>s. orgWide \<or> st_ID s \<in> set allowed) list))
                  }))"

text \<open>The handler repeats the code of \<open>resolveScopedStore\<close>.\<close>

definition handleGetStore :: "'k world env \<Rightarrow> ('k, 'b, store_body) handler" where
  "handleGetStore E = resolveScopedStore E (\<lambda>store _. writeJSON 200 (storeToBody store))"

section \<open>A store's overview\<close>

record api_keys_overview =
  ako_Active :: nat
  ako_LastUsedAt :: "time option"

record store_overview =
  so_StoreID :: int
  so_ConfigVersion :: "int option"
  so_APIKeys :: "api_keys_overview option"
  so_Activity :: store_activity

text \<open>The loop over the keys.\<close>

definition later :: "time option \<Rightarrow> time option \<Rightarrow> time option" where
  "later seen used =
     (case used of
        None \<Rightarrow> seen
      | Some u \<Rightarrow> (case seen of None \<Rightarrow> Some u | Some v \<Rightarrow> if u > v then Some u else seen))"

fun overviewKeys :: "time \<Rightarrow> api_keys_overview \<Rightarrow> store_api_key list \<Rightarrow> api_keys_overview" where
  "overviewKeys now a [] = a"
| "overviewKeys now a (k # ks) =
     overviewKeys now
       \<lparr>ako_Active = (if key_RevokedAt k = None \<and> (case key_ExpiresAt k of None \<Rightarrow> True | Some e \<Rightarrow> e > now)
                      then Suc (ako_Active a) else ako_Active a),
        ako_LastUsedAt = later (ako_LastUsedAt a) (key_LastUsedAt k)\<rparr> ks"

definition overviewConfig :: "'k world env \<Rightarrow> int \<Rightarrow> ('k world, int option) op" where
  "overviewConfig E storeID = do {
     cfg \<leftarrow> call E (''overview.config'', 0) (on_db (config_GetByStore storeID));
     case cfg of
       Inl e \<Rightarrow> if e = ErrNotFound then ok None else fail e
     | Inr c \<Rightarrow> ok (Some (cfg_Version c))
   }"

definition overviewAPIKeys :: "'k world env \<Rightarrow> time \<Rightarrow> 'b request \<Rightarrow> int \<Rightarrow> int \<Rightarrow> ('k world, api_keys_overview option) op" where
  "overviewAPIKeys E now r orgID storeID =
     (if (case staffFromContext r of None \<Rightarrow> False | Some p \<Rightarrow> principal_HasPermission p PermAPIKeysRead orgID (Some storeID))
      then andThen (call E (''overview.keys'', 0) (on_db (key_ListByStore storeID))) (\<lambda>ks.
           ok (Some (overviewKeys now \<lparr>ako_Active = 0, ako_LastUsedAt = None\<rparr> ks)))
      else ok None)"

definition handleGetStoreOverview :: "'k world env \<Rightarrow> ('k, 'b, store_overview) handler" where
  "handleGetStoreOverview E r =
     resolveScopedStore E (\<lambda>store orgID.
       let now = env_now E (''overview.now'', 0) in do {
       res \<leftarrow> andThen (overviewConfig E (st_ID store)) (\<lambda>v.
             andThen (overviewAPIKeys E now r orgID (st_ID store)) (\<lambda>ks.
             andThen (call E (''overview.activity'', 0) (on_db (activity_StoreActivity (st_ID store) now))) (\<lambda>a.
             ok \<lparr>so_StoreID = st_ID store, so_ConfigVersion = v, so_APIKeys = ks, so_Activity = a\<rparr>)));
       case res of Inl e \<Rightarrow> writeError 500 ''load overview'' | Inr answer \<Rightarrow> writeJSON 200 answer
     }) r"

end
