(* ===== verification/Http_Config.thy ===== *)
theory Http_Config
  imports Remote_Addr Mechanic
begin

text \<open>
  \<open>admin_loyaltyconfig.go\<close>: reading, writing, listing and rolling back a store's loyalty
  configuration. The answers keep decimals and times as numbers.
\<close>

definition AuditActionLoyaltyConfigChanged :: string where
  "AuditActionLoyaltyConfigChanged = ''loyalty_config.changed''"

definition AuditActionLoyaltyConfigRolledBack :: string where
  "AuditActionLoyaltyConfigRolledBack = ''loyalty_config.rolled_back''"

record loyalty_config_body =
  lb_StoreID :: int
  lb_Mechanic :: string
  lb_AccrualPercent :: rat
  lb_MinPurchaseAmount :: rat
  lb_MinBalanceToRedeem :: int
  lb_MaxRedeemPercent :: rat
  lb_PointsExchangeRate :: rat
  lb_Version :: int

definition loyaltyConfigToBody :: "loyalty_config \<Rightarrow> loyalty_config_body" where
  "loyaltyConfigToBody c =
     \<lparr>lb_StoreID = cfg_StoreID c, lb_Mechanic = cfg_Mechanic c, lb_AccrualPercent = cfg_AccrualPercent c,
      lb_MinPurchaseAmount = cfg_MinPurchaseAmount c, lb_MinBalanceToRedeem = cfg_MinBalanceToRedeem c,
      lb_MaxRedeemPercent = cfg_MaxRedeemPercent c, lb_PointsExchangeRate = cfg_PointsExchangeRate c,
      lb_Version = cfg_Version c\<rparr>"

definition handleGetLoyaltyConfig :: "'k world env \<Rightarrow> ('k, 'b, loyalty_config_body) handler" where
  "handleGetLoyaltyConfig E =
     resolveScopedStore E (\<lambda>store _. do {
       res \<leftarrow> call E (''config.get'', 0) (on_db (config_GetByStore (st_ID store)));
       case res of
         Inl e \<Rightarrow> if e = ErrNotFound then writeError 404 ''loyalty config not set'' else writeError 500 ''load loyalty config''
       | Inr cfg \<Rightarrow> writeJSON 200 (loyaltyConfigToBody cfg)
     })"

section \<open>Writing\<close>

record put_config_body =
  pc_Mechanic :: string
  pc_AccrualPercent :: rat
  pc_MinPurchaseAmount :: rat
  pc_MinBalanceToRedeem :: int
  pc_MaxRedeemPercent :: rat
  pc_PointsExchangeRate :: rat
  pc_ExpectedVersion :: "int option"

definition errConfigChanged :: string where
  "errConfigChanged = ''loyalty config was changed by someone else; reload and try again''"

text \<open>\<open>Truncate\<close> cuts decimals off without rounding.\<close>

definition truncate_at :: "nat \<Rightarrow> rat \<Rightarrow> rat" where
  "truncate_at k x = sgn x * of_int \<lfloor>\<bar>x\<bar> * 10 ^ k\<rfloor> / 10 ^ k"

definition fitsNumeric :: "rat \<Rightarrow> nat \<Rightarrow> nat \<Rightarrow> bool" where
  "fitsNumeric d precision scale =
     (if d \<noteq> truncate_at scale d then False
      else \<bar>d\<bar> < 10 ^ (precision - scale))"

definition checkLoyaltyConfigColumns :: "put_config_body \<Rightarrow> string option" where
  "checkLoyaltyConfigColumns b =
     (if \<not> fitsNumeric (pc_AccrualPercent b) 5 2 then Some ''accrual_percent allows at most 2 decimal places''
      else if \<not> fitsNumeric (pc_MinPurchaseAmount b) 20 2
      then Some ''min_purchase_amount allows at most 2 decimal places and 18 integer digits''
      else if \<not> fitsNumeric (pc_MaxRedeemPercent b) 5 2 then Some ''max_redeem_percent allows at most 2 decimal places''
      else if \<not> fitsNumeric (pc_PointsExchangeRate b) 10 4
      then Some ''points_exchange_rate allows at most 4 decimal places and 6 integer digits''
      else None)"

text \<open>The text of \<open>Validate\<close>'s error, in the order of its checks.\<close>

definition validateMessage :: "loyalty_config \<Rightarrow> string" where
  "validateMessage c =
     (if cfg_Mechanic c = [] then ''mechanic is required''
      else if cfg_AccrualPercent c < 0 \<or> cfg_AccrualPercent c > 100 then ''accrual_percent must be between 0 and 100''
      else if cfg_MinPurchaseAmount c < 0 then ''min_purchase_amount must not be negative''
      else if cfg_MinBalanceToRedeem c < 0 then ''min_balance_to_redeem must not be negative''
      else if cfg_MaxRedeemPercent c < 0 \<or> cfg_MaxRedeemPercent c > 100 then ''max_redeem_percent must be between 0 and 100''
      else ''points_exchange_rate must be positive'') @ '': invalid loyalty config''"

definition config_of_body :: "int \<Rightarrow> put_config_body \<Rightarrow> loyalty_config" where
  "config_of_body storeID b =
     \<lparr>cfg_StoreID = storeID, cfg_Mechanic = pc_Mechanic b, cfg_AccrualPercent = pc_AccrualPercent b,
      cfg_MinPurchaseAmount = pc_MinPurchaseAmount b, cfg_MinBalanceToRedeem = pc_MinBalanceToRedeem b,
      cfg_MaxRedeemPercent = pc_MaxRedeemPercent b, cfg_PointsExchangeRate = pc_PointsExchangeRate b,
      cfg_Version = 0, cfg_ExpectedVersion = pc_ExpectedVersion b\<rparr>"

text \<open>The end that writing and rolling back share: the upsert, the audit record and the answer.\<close>

definition saveConfig ::
    "'k world env \<Rightarrow> 'b request \<Rightarrow> store \<Rightarrow> int \<Rightarrow> string \<Rightarrow> string \<Rightarrow> loyalty_config \<Rightarrow> ('k world, loyalty_config_body response) state" where
  "saveConfig E r store orgID action failed cfg = do {
     let actorID = actorStaffUserID r;
     let l = (''config.upsert'', 0);
     res \<leftarrow> call E l (on_db (config_Upsert (env_stmt E l) (env_now E l) cfg actorID));
     case res of
       Inl e \<Rightarrow> if e = ErrConflict then writeError 409 errConfigChanged else writeError 500 failed
     | Inr saved \<Rightarrow> do {
         _ \<leftarrow> auditCreate E 0 AuditActorStaff actorID action (Some orgID) (Some (st_ID store))
               ''loyalty_config'' (Some (st_ID store)) (clientIP r) (rq_UserAgent r);
         writeJSON 200 (loyaltyConfigToBody saved)
       }
   }"

definition handlePutLoyaltyConfig :: "'k world env \<Rightarrow> ('k, put_config_body, loyalty_config_body) handler" where
  "handlePutLoyaltyConfig E r =
     resolveScopedStore E (\<lambda>store orgID.
       case rq_Body r of
         None \<Rightarrow> writeError 400 ''invalid loyalty config''
       | Some body \<Rightarrow>
           let cfg = config_of_body (st_ID store) body in
           if Validate cfg \<noteq> None then writeError 422 (validateMessage cfg)
           else case checkLoyaltyConfigColumns body of
             Some msg \<Rightarrow> writeError 422 msg
           | None \<Rightarrow>
               if Build (cfg_Mechanic cfg) = None then writeError 422 (''unknown mechanic: '' @ cfg_Mechanic cfg)
               else saveConfig E r store orgID AuditActionLoyaltyConfigChanged ''save loyalty config'' cfg) r"

section \<open>History and rollback\<close>

text \<open>The answer's items have all the fields of a version but the store.\<close>

definition handleListLoyaltyConfigHistory :: "'k world env \<Rightarrow> ('k, 'b, loyalty_config_version list) handler" where
  "handleListLoyaltyConfigHistory E =
     resolveScopedStore E (\<lambda>store _. do {
       res \<leftarrow> call E (''config.history'', 0) (on_db (config_ListHistory (st_ID store)));
       case res of Inl e \<Rightarrow> writeError 500 ''list loyalty config history'' | Inr history \<Rightarrow> writeJSON 200 history
     })"

record rollback_body =
  rbk_Version :: int
  rbk_ExpectedVersion :: "int option"

definition config_of_version :: "int \<Rightarrow> loyalty_config_version \<Rightarrow> int option \<Rightarrow> loyalty_config" where
  "config_of_version storeID v expected =
     \<lparr>cfg_StoreID = storeID, cfg_Mechanic = ver_Mechanic v, cfg_AccrualPercent = ver_AccrualPercent v,
      cfg_MinPurchaseAmount = ver_MinPurchaseAmount v, cfg_MinBalanceToRedeem = ver_MinBalanceToRedeem v,
      cfg_MaxRedeemPercent = ver_MaxRedeemPercent v, cfg_PointsExchangeRate = ver_PointsExchangeRate v,
      cfg_Version = 0, cfg_ExpectedVersion = expected\<rparr>"

definition handleRollbackLoyaltyConfig :: "'k world env \<Rightarrow> ('k, rollback_body, loyalty_config_body) handler" where
  "handleRollbackLoyaltyConfig E r =
     resolveScopedStore E (\<lambda>store orgID.
       case rq_Body r of
         None \<Rightarrow> writeError 400 ''version is required''
       | Some body \<Rightarrow>
           if rbk_Version body \<le> 0 then writeError 400 ''version is required''
           else do {
             res \<leftarrow> call E (''config.history'', 0) (on_db (config_ListHistory (st_ID store)));
             case res of
               Inl e \<Rightarrow> writeError 500 ''list loyalty config history''
             | Inr history \<Rightarrow>
                 (case find (\<lambda>v. ver_Version v = rbk_Version body) history of
                    None \<Rightarrow> writeError 404 ''version not found''
                  | Some target \<Rightarrow>
                      saveConfig E r store orgID AuditActionLoyaltyConfigRolledBack ''rollback loyalty config''
                        (config_of_version (st_ID store) target (rbk_ExpectedVersion body)))
           }) r"

end
