(* ===== verification/Http_Clients.thy ===== *)
theory Http_Clients
  imports Http_Customer Http_Stores
begin

text \<open>
  \<open>admin_clients.go\<close> and \<open>admin_audit.go\<close>: what staff see of a store's clients and of the
  organization's audit trail. Metadata of audit events is left out.
\<close>

section \<open>Clients of a store\<close>

definition defaultAdminClientsLimit :: nat where
  "defaultAdminClientsLimit = 50"

definition maxAdminClientsLimit :: nat where
  "maxAdminClientsLimit = 200"

definition parseAdminClientsLimit :: "string \<Rightarrow> nat" where
  "parseAdminClientsLimit raw =
     (if raw = [] then defaultAdminClientsLimit
      else case parse_int raw of
             None \<Rightarrow> defaultAdminClientsLimit
           | Some n \<Rightarrow>
               if n \<le> 0 then defaultAdminClientsLimit
               else if n > int maxAdminClientsLimit then maxAdminClientsLimit
               else nat n)"

definition encodeAdminClientCursor :: "int \<Rightarrow> string" where
  "encodeAdminClientCursor i = encode_raw (show_int i)"

definition decodeAdminClientCursor :: "string \<Rightarrow> int option" where
  "decodeAdminClientCursor raw =
     (if raw = [] then Some 0
      else case decode_raw raw of None \<Rightarrow> None | Some decoded \<Rightarrow> parse_int decoded)"

record admin_client_body =
  ac_ClientID :: int
  ac_Phone :: string
  ac_Balance :: int
  ac_AppConnected :: bool
  ac_CreatedAt :: time

definition newAdminClientResponse :: "client \<Rightarrow> int \<Rightarrow> bool \<Rightarrow> admin_client_body" where
  "newAdminClientResponse c points masked =
     \<lparr>ac_ClientID = cl_ID c, ac_Phone = maskPhoneIf (cl_Phone c) masked, ac_Balance = points,
      ac_AppConnected = (cl_CustomerAccountID c \<noteq> None), ac_CreatedAt = cl_CreatedAt c\<rparr>"

definition maskedFor :: "'b request \<Rightarrow> int \<Rightarrow> int \<Rightarrow> bool" where
  "maskedFor r orgID storeID =
     (case staffFromContext r of None \<Rightarrow> False | Some p \<Rightarrow> IsSupportViewerOnly p orgID (Some storeID))"

definition handleAdminLookupClient :: "'k world env \<Rightarrow> ('k, 'b, admin_client_body) handler" where
  "handleAdminLookupClient E r =
     resolveScopedStore E (\<lambda>store orgID.
       let phone = rq_Query r ''phone'' in
       if phone = [] then writeError 400 ''phone is required''
       else do {
         c \<leftarrow> call E (''client.get'', 0) (on_db (client_GetByPhone (st_ID store) (canonicalPhone phone)));
         case c of
           Inl e \<Rightarrow> if e = ErrNotFound then writeError 404 ''client not found'' else writeError 500 ''lookup client''
         | Inr client \<Rightarrow> do {
             b \<leftarrow> call E (''client.balance'', 0) (on_db (balance_Get (cl_ID client)));
             case b of
               Inl e \<Rightarrow> writeError 500 ''load balance''
             | Inr balance \<Rightarrow>
                 writeJSON 200 (newAdminClientResponse client (bal_Points balance) (maskedFor r orgID (st_ID store)))
           }
       }) r"

fun clientBodies :: "'k world env \<Rightarrow> nat \<Rightarrow> bool \<Rightarrow> client list \<Rightarrow> ('k world, admin_client_body list) op" where
  "clientBodies E k masked [] = ok []"
| "clientBodies E k masked (c # cs) =
     andThen (call E (''client.balance'', k) (on_db (balance_Get (cl_ID c)))) (\<lambda>balance.
     andThen (clientBodies E (Suc k) masked cs) (\<lambda>bodies.
     ok (newAdminClientResponse c (bal_Points balance) masked # bodies)))"

text \<open>The rows of a page and, where more follow, the cursor of its last row.\<close>

definition clientsPage :: "nat \<Rightarrow> client list \<Rightarrow> client list \<times> string" where
  "clientsPage limit rows =
     (if length rows > limit then (take limit rows, encodeAdminClientCursor (cl_ID (rows ! (limit - 1)))) else (rows, []))"

definition handleAdminListClients :: "'k world env \<Rightarrow> ('k, 'b, admin_client_body list \<times> string) handler" where
  "handleAdminListClients E r =
     resolveScopedStore E (\<lambda>store orgID.
       let limit = parseAdminClientsLimit (rq_Query r ''limit'') in
       case decodeAdminClientCursor (rq_Query r ''cursor'') of
         None \<Rightarrow> writeError 400 ''invalid cursor''
       | Some afterID \<Rightarrow> do {
           res \<leftarrow> call E (''clients.list'', 0) (on_db (client_ListByStore (st_ID store) (limit + 1) afterID));
           case res of
             Inl e \<Rightarrow> writeError 500 ''list clients''
           | Inr list \<Rightarrow> do {
               bs \<leftarrow> clientBodies E 0 (maskedFor r orgID (st_ID store)) (fst (clientsPage limit list));
               case bs of
                 Inl e \<Rightarrow> writeError 500 ''load clients''
               | Inr bodies \<Rightarrow> writeJSON 200 (bodies, snd (clientsPage limit list))
             }
         }) r"

record admin_transaction_body =
  at_ID :: int
  at_ExternalTxID :: string
  at_Type :: transaction_type
  at_Amount :: rat
  at_Currency :: string
  at_PointsDelta :: int
  at_BalanceAfter :: int
  at_CreatedAt :: time

definition adminTransaction :: "transaction \<Rightarrow> admin_transaction_body" where
  "adminTransaction t =
     \<lparr>at_ID = tx_ID t, at_ExternalTxID = tx_ExternalTxID t, at_Type = tx_Type t, at_Amount = tx_Amount t,
      at_Currency = tx_Currency t, at_PointsDelta = tx_PointsDelta t, at_BalanceAfter = tx_BalanceAfter t,
      at_CreatedAt = tx_CreatedAt t\<rparr>"

definition handleAdminListClientTransactions :: "'k world env \<Rightarrow> ('k, 'b, admin_transaction_body list) handler" where
  "handleAdminListClientTransactions E r =
     resolveScopedStore E (\<lambda>store _.
       case parse_int (rq_PathValue r ''clientID'') of
         None \<Rightarrow> writeError 400 ''invalid client id''
       | Some clientID \<Rightarrow> do {
           c \<leftarrow> call E (''client.get'', 0) (on_db (client_GetByID clientID));
           case c of
             Inl e \<Rightarrow> if e = ErrNotFound then writeError 404 ''client not found'' else writeError 500 ''load client''
           | Inr client \<Rightarrow>
               if cl_StoreID client \<noteq> st_ID store then writeError 404 ''client not found''
               else do {
                 ts \<leftarrow> call E (''client.transactions'', 0) (on_db (tx_ListByClient (cl_ID client)));
                 case ts of Inl e \<Rightarrow> writeError 500 ''list transactions'' | Inr list \<Rightarrow> writeJSON 200 (map adminTransaction list)
               }
         }) r"

section \<open>The audit trail\<close>

definition defaultAuditListLimit :: nat where
  "defaultAuditListLimit = 50"

definition maxAuditListLimit :: nat where
  "maxAuditListLimit = 200"

definition auditCategories :: "string \<rightharpoonup> string" where
  "auditCategories =
     [''organization'' \<mapsto> ''organization.'', ''store'' \<mapsto> ''store.'', ''staff'' \<mapsto> ''staff.'',
      ''loyalty_config'' \<mapsto> ''loyalty_config.'', ''api_key'' \<mapsto> ''api_key.'']"

text \<open>
  Times count nanoseconds; \<open>UnixMicro\<close> rounds down and wraps around at \<open>2\<^sup>6\<^sup>4\<close>. Without a cursor the
  time is Go's zero time, which the query does not read.
\<close>

definition encodeAuditCursor :: "audit_event \<Rightarrow> string" where
  "encodeAuditCursor e =
     encode_raw (show_int (wrap64 (aud_OccurredAt e div 1000)) @ '':'' @ show_int (aud_ID e))"

definition decodeAuditCursor :: "string \<Rightarrow> (time \<times> int) option" where
  "decodeAuditCursor raw =
     (if raw = [] then Some (- 62135596800000000000, 0)
      else case decode_raw raw of
             None \<Rightarrow> None
           | Some decoded \<Rightarrow>
               (case cut CHR '':'' decoded of
                  None \<Rightarrow> None
                | Some (micros, i) \<Rightarrow>
                    (case parse_int micros of
                       None \<Rightarrow> None
                     | Some us \<Rightarrow>
                         (case parse_int i of
                            None \<Rightarrow> None
                          | Some n \<Rightarrow> if n \<le> 0 then None else Some (us * 1000, n)))))"

definition parseAuditListLimit :: "string \<Rightarrow> nat" where
  "parseAuditListLimit raw =
     (case parse_int raw of
        None \<Rightarrow> defaultAuditListLimit
      | Some n \<Rightarrow> if n \<le> 0 then defaultAuditListLimit else min (nat n) maxAuditListLimit)"

text \<open>\<open>staffNames\<close>: the cache \<open>byUser\<close> is passed along.\<close>

definition staffName :: "staff_user \<Rightarrow> string" where
  "staffName u =
     (if su_DisplayName u \<noteq> [] then su_DisplayName u
      else if su_Email u \<noteq> [] then su_Email u
      else su_ExternalSubject u)"

definition names_user :: "'k world env \<Rightarrow> site \<Rightarrow> (int \<rightharpoonup> string) \<Rightarrow> int \<Rightarrow> ('k world, string \<times> (int \<rightharpoonup> string)) state" where
  "names_user E l byUser i =
     (case byUser i of
        Some name \<Rightarrow> State_Monad.return (name, byUser)
      | None \<Rightarrow> do {
          u \<leftarrow> call E l (on_db (staff_GetByID i));
          let name = (case u of Inl e \<Rightarrow> [] | Inr user \<Rightarrow> staffName user);
          State_Monad.return (name, byUser(i \<mapsto> name))
        })"

definition names_membership ::
    "'k world env \<Rightarrow> nat \<Rightarrow> (int \<rightharpoonup> string) \<Rightarrow> int \<Rightarrow> ('k world, string \<times> (int \<rightharpoonup> string)) state" where
  "names_membership E k byUser i = do {
     m \<leftarrow> call E (''audit.membership'', k) (on_db (membership_GetByID i));
     case m of
       Inl e \<Rightarrow> State_Monad.return ([], byUser)
     | Inr membership \<Rightarrow> names_user E (''audit.target'', k) byUser (mem_StaffUserID membership)
   }"

text \<open>An event of the answer, which shows all of it but organization and user agent, and its two names.\<close>

record audit_event_body =
  aeb_Event :: audit_event
  aeb_ActorName :: string
  aeb_TargetName :: string

definition unnamed :: "(int \<rightharpoonup> string) \<Rightarrow> ('k world, string \<times> (int \<rightharpoonup> string)) state" where
  "unnamed byUser = State_Monad.return ([], byUser)"

fun auditBodies ::
    "'k world env \<Rightarrow> nat \<Rightarrow> (int \<rightharpoonup> string) \<Rightarrow> audit_event list \<Rightarrow> ('k world, audit_event_body list) state" where
  "auditBodies E k byUser [] = State_Monad.return []"
| "auditBodies E k byUser (e # es) = do {
     (actor, byUser1) \<leftarrow> (case aud_ActorID e of
        Some i \<Rightarrow> if aud_ActorType e = AuditActorStaff then names_user E (''audit.actor'', k) byUser i else unnamed byUser
      | None \<Rightarrow> unnamed byUser);
     (target, byUser2) \<leftarrow> (case aud_TargetID e of
        Some i \<Rightarrow> if aud_TargetType e = ''staff_membership'' then names_membership E k byUser1 i else unnamed byUser1
      | None \<Rightarrow> unnamed byUser1);
     bodies \<leftarrow> auditBodies E (Suc k) byUser2 es;
     State_Monad.return (\<lparr>aeb_Event = e, aeb_ActorName = actor, aeb_TargetName = target\<rparr> # bodies)
   }"

definition auditPage :: "nat \<Rightarrow> audit_event list \<Rightarrow> audit_event list \<times> string" where
  "auditPage limit rows =
     (if length rows > limit then (take limit rows, encodeAuditCursor (rows ! (limit - 1))) else (rows, []))"

definition auditQuery :: "'b request \<Rightarrow> string + audit_list_query" where
  "auditQuery r =
     (let category = rq_Query r ''category'' in
      if category \<noteq> [] \<and> auditCategories category = None then Inl ''invalid category''
      else case decodeAuditCursor (rq_Query r ''cursor'') of
             None \<Rightarrow> Inl ''invalid cursor''
           | Some (beforeOccurredAt, beforeID) \<Rightarrow>
               Inr \<lparr>alq_Limit = parseAuditListLimit (rq_Query r ''limit''), alq_BeforeOccurredAt = beforeOccurredAt,
                    alq_BeforeID = beforeID,
                    alq_ActionPrefix = (if category = [] then [] else the (auditCategories category))\<rparr>)"

definition handleListAuditEvents :: "'k world env \<Rightarrow> ('k, 'b, audit_event_body list \<times> string) handler" where
  "handleListAuditEvents E r =
     (case parse_int (rq_PathValue r ''orgID'') of
        None \<Rightarrow> writeError 400 ''invalid organization id''
      | Some orgID \<Rightarrow>
          (case auditQuery r of
             Inl message \<Rightarrow> writeError 400 message
           | Inr query \<Rightarrow> do {
               let limit = alq_Limit query;
               res \<leftarrow> call E (''audit.list'', 0) (on_db (audit_ListByOrganization orgID (query\<lparr>alq_Limit := limit + 1\<rparr>)));
               case res of
                 Inl e \<Rightarrow> writeError 500 ''list audit events''
               | Inr events \<Rightarrow> do {
                   bodies \<leftarrow> auditBodies E 0 Map.empty (fst (auditPage limit events));
                   writeJSON 200 (bodies, snd (auditPage limit events))
                 }
             }))"

end
