(* ===== verification/Routes.thy ===== *)
theory Routes
  imports Http_Clients Http_Keys Http_Stores Http_Config Rate_Limit
begin

text \<open>
  \<open>routes.go\<close>, \<open>ratelimit_rules.go\<close> and \<open>server.go\<close>: the table of routes, the rate-limit rules of
  each profile, and how \<open>New\<close> wraps an operation's handler: the rules on the caller's address
  outermost, then the authentication of the route's contour, then the rules on the principal.
\<close>

section \<open>The table of routes\<close>

datatype contour = contourPublic | contourStoreKey | contourCustomer | contourStaff

datatype staff_scope_kind = staffScopeOrg | staffScopeStore

datatype http_method = MethodGet | MethodPost | MethodPatch | MethodPut | MethodDelete

definition rlProfileStaffLogin :: string where "rlProfileStaffLogin = ''staff_login''"

definition rlProfileAdmin :: string where "rlProfileAdmin = ''admin''"

definition rlProfileClientLookup :: string where "rlProfileClientLookup = ''client_lookup''"

definition rlProfileAccrual :: string where "rlProfileAccrual = ''accrual''"

definition rlProfileQRResolve :: string where "rlProfileQRResolve = ''qr_resolve''"

record route_meta =
  rt_Method :: http_method
  rt_Path :: string
  rt_OperationID :: string
  rt_Contour :: contour
  rt_APIKeyScope :: string
  rt_StaffPermission :: "permission option"
  rt_StaffGlobal :: bool
  rt_StaffScope :: "staff_scope_kind option"
  rt_StaffIdentityOnly :: bool
  rt_RateLimitProfile :: string

definition route :: "http_method \<Rightarrow> string \<Rightarrow> string \<Rightarrow> route_meta" where
  "route m path op = \<lparr>rt_Method = m, rt_Path = path, rt_OperationID = op, rt_Contour = contourPublic, rt_APIKeyScope = [],
     rt_StaffPermission = None, rt_StaffGlobal = False, rt_StaffScope = None, rt_StaffIdentityOnly = False,
     rt_RateLimitProfile = []\<rparr>"

definition routeTable :: "route_meta list" where
  "routeTable =
     [(route MethodGet ''/healthz'' ''getHealthz'')
       \<lparr>rt_Contour := contourPublic\<rparr>,
      (route MethodGet ''/readyz'' ''getReadyz'')
       \<lparr>rt_Contour := contourPublic\<rparr>,
      (route MethodPost ''/api/v1/transactions'' ''createTransaction'')
       \<lparr>rt_Contour := contourStoreKey, rt_APIKeyScope := ScopeTransactionsWrite, rt_RateLimitProfile := rlProfileAccrual\<rparr>,
      (route MethodPost ''/api/v1/transactions/redeem'' ''redeemTransaction'')
       \<lparr>rt_Contour := contourStoreKey, rt_APIKeyScope := ScopeTransactionsWrite, rt_RateLimitProfile := rlProfileAccrual\<rparr>,
      (route MethodPost ''/api/v1/transactions/refund'' ''refundTransaction'')
       \<lparr>rt_Contour := contourStoreKey, rt_APIKeyScope := ScopeTransactionsWrite, rt_RateLimitProfile := rlProfileAccrual\<rparr>,
      (route MethodGet ''/api/v1/clients/lookup'' ''lookupClientByPhone'')
       \<lparr>rt_Contour := contourStoreKey, rt_APIKeyScope := ScopeClientsLookup, rt_RateLimitProfile := rlProfileClientLookup\<rparr>,
      (route MethodGet ''/api/v1/clients/{id}/balance'' ''getClientBalance'')
       \<lparr>rt_Contour := contourStoreKey, rt_APIKeyScope := ScopeBalancesRead, rt_RateLimitProfile := rlProfileClientLookup\<rparr>,
      (route MethodPost ''/api/v1/clients/resolve-qr'' ''resolveQR'')
       \<lparr>rt_Contour := contourStoreKey, rt_APIKeyScope := ScopeClientsLookup, rt_RateLimitProfile := rlProfileQRResolve\<rparr>,
      (route MethodPost ''/api/v1/auth/otp/request'' ''requestOTP'')
       \<lparr>rt_Contour := contourPublic\<rparr>,
      (route MethodPost ''/api/v1/auth/otp/verify'' ''verifyOTP'')
       \<lparr>rt_Contour := contourPublic\<rparr>,
      (route MethodPost ''/api/v1/auth/refresh'' ''refreshCustomerSession'')
       \<lparr>rt_Contour := contourPublic\<rparr>,
      (route MethodPost ''/api/v1/auth/logout'' ''customerLogout'')
       \<lparr>rt_Contour := contourPublic\<rparr>,
      (route MethodPost ''/api/v1/auth/logout-all'' ''customerLogoutAll'')
       \<lparr>rt_Contour := contourCustomer\<rparr>,
      (route MethodGet ''/api/v1/me'' ''getMe'')
       \<lparr>rt_Contour := contourCustomer\<rparr>,
      (route MethodGet ''/api/v1/me/balance'' ''getMyBalance'')
       \<lparr>rt_Contour := contourCustomer, rt_RateLimitProfile := rlProfileClientLookup\<rparr>,
      (route MethodGet ''/api/v1/me/transactions'' ''getMyTransactions'')
       \<lparr>rt_Contour := contourCustomer\<rparr>,
      (route MethodPost ''/api/v1/me/qr'' ''issueQR'')
       \<lparr>rt_Contour := contourCustomer\<rparr>,
      (route MethodPost ''/api/v1/me/devices'' ''registerDevice'')
       \<lparr>rt_Contour := contourCustomer\<rparr>,
      (route MethodDelete ''/api/v1/me/devices/{deviceID}'' ''revokeDevice'')
       \<lparr>rt_Contour := contourCustomer\<rparr>,
      (route MethodPost ''/api/v1/staff/auth/oidc'' ''staffOIDCLogin'')
       \<lparr>rt_Contour := contourPublic, rt_RateLimitProfile := rlProfileStaffLogin\<rparr>,
      (route MethodGet ''/api/v1/staff/me'' ''getStaffMe'')
       \<lparr>rt_Contour := contourStaff, rt_StaffIdentityOnly := True, rt_RateLimitProfile := rlProfileAdmin\<rparr>,
      (route MethodGet ''/api/v1/admin/organizations'' ''listOrganizations'')
       \<lparr>rt_Contour := contourStaff, rt_StaffIdentityOnly := True, rt_RateLimitProfile := rlProfileAdmin\<rparr>,
      (route MethodPost ''/api/v1/admin/organizations'' ''createOrganization'')
       \<lparr>rt_Contour := contourStaff, rt_StaffGlobal := True, rt_StaffPermission := Some PermOrganizationsManage, rt_RateLimitProfile := rlProfileAdmin\<rparr>,
      (route MethodGet ''/api/v1/admin/organizations/{orgID}/stores/{storeID}'' ''getStore'')
       \<lparr>rt_Contour := contourStaff, rt_StaffPermission := Some PermStoresRead, rt_StaffScope := Some staffScopeStore, rt_RateLimitProfile := rlProfileAdmin\<rparr>,
      (route MethodPatch ''/api/v1/admin/organizations/{orgID}/stores/{storeID}'' ''updateStore'')
       \<lparr>rt_Contour := contourStaff, rt_StaffPermission := Some PermStoresManage, rt_StaffScope := Some staffScopeStore, rt_RateLimitProfile := rlProfileAdmin\<rparr>,
      (route MethodGet ''/api/v1/admin/organizations/{orgID}/stores/{storeID}/overview'' ''getStoreOverview'')
       \<lparr>rt_Contour := contourStaff, rt_StaffPermission := Some PermStoresRead, rt_StaffScope := Some staffScopeStore, rt_RateLimitProfile := rlProfileAdmin\<rparr>,
      (route MethodGet ''/api/v1/admin/organizations/{orgID}/stores'' ''listStores'')
       \<lparr>rt_Contour := contourStaff, rt_StaffIdentityOnly := True, rt_RateLimitProfile := rlProfileAdmin\<rparr>,
      (route MethodPost ''/api/v1/admin/organizations/{orgID}/stores'' ''createStore'')
       \<lparr>rt_Contour := contourStaff, rt_StaffPermission := Some PermStoresManage, rt_StaffScope := Some staffScopeOrg, rt_RateLimitProfile := rlProfileAdmin\<rparr>,
      (route MethodGet ''/api/v1/admin/organizations/{orgID}/staff'' ''listStaffMemberships'')
       \<lparr>rt_Contour := contourStaff, rt_StaffPermission := Some PermStaffManage, rt_StaffScope := Some staffScopeOrg, rt_RateLimitProfile := rlProfileAdmin\<rparr>,
      (route MethodPost ''/api/v1/admin/organizations/{orgID}/staff'' ''createStaffMembership'')
       \<lparr>rt_Contour := contourStaff, rt_StaffPermission := Some PermStaffManage, rt_StaffScope := Some staffScopeOrg, rt_RateLimitProfile := rlProfileAdmin\<rparr>,
      (route MethodPatch ''/api/v1/admin/organizations/{orgID}/staff/{membershipID}'' ''updateStaffMembership'')
       \<lparr>rt_Contour := contourStaff, rt_StaffPermission := Some PermStaffManage, rt_StaffScope := Some staffScopeOrg, rt_RateLimitProfile := rlProfileAdmin\<rparr>,
      (route MethodGet ''/api/v1/admin/organizations/{orgID}/stores/{storeID}/clients'' ''adminListClients'')
       \<lparr>rt_Contour := contourStaff, rt_StaffPermission := Some PermClientsRead, rt_StaffScope := Some staffScopeStore, rt_RateLimitProfile := rlProfileAdmin\<rparr>,
      (route MethodGet ''/api/v1/admin/organizations/{orgID}/stores/{storeID}/clients/lookup'' ''adminLookupClient'')
       \<lparr>rt_Contour := contourStaff, rt_StaffPermission := Some PermClientsRead, rt_StaffScope := Some staffScopeStore, rt_RateLimitProfile := rlProfileAdmin\<rparr>,
      (route MethodGet ''/api/v1/admin/organizations/{orgID}/stores/{storeID}/clients/{clientID}/transactions'' ''adminListClientTransactions'')
       \<lparr>rt_Contour := contourStaff, rt_StaffPermission := Some PermTransactionsRead, rt_StaffScope := Some staffScopeStore, rt_RateLimitProfile := rlProfileAdmin\<rparr>,
      (route MethodGet ''/api/v1/admin/organizations/{orgID}/stores/{storeID}/loyalty-config'' ''getLoyaltyConfig'')
       \<lparr>rt_Contour := contourStaff, rt_StaffPermission := Some PermLoyaltyConfigRead, rt_StaffScope := Some staffScopeStore, rt_RateLimitProfile := rlProfileAdmin\<rparr>,
      (route MethodPut ''/api/v1/admin/organizations/{orgID}/stores/{storeID}/loyalty-config'' ''putLoyaltyConfig'')
       \<lparr>rt_Contour := contourStaff, rt_StaffPermission := Some PermLoyaltyConfigWrite, rt_StaffScope := Some staffScopeStore, rt_RateLimitProfile := rlProfileAdmin\<rparr>,
      (route MethodGet ''/api/v1/admin/organizations/{orgID}/stores/{storeID}/loyalty-config/history'' ''listLoyaltyConfigHistory'')
       \<lparr>rt_Contour := contourStaff, rt_StaffPermission := Some PermLoyaltyConfigRead, rt_StaffScope := Some staffScopeStore, rt_RateLimitProfile := rlProfileAdmin\<rparr>,
      (route MethodPost ''/api/v1/admin/organizations/{orgID}/stores/{storeID}/loyalty-config/rollback'' ''rollbackLoyaltyConfig'')
       \<lparr>rt_Contour := contourStaff, rt_StaffPermission := Some PermLoyaltyConfigWrite, rt_StaffScope := Some staffScopeStore, rt_RateLimitProfile := rlProfileAdmin\<rparr>,
      (route MethodGet ''/api/v1/admin/organizations/{orgID}/stores/{storeID}/api-keys'' ''listStoreAPIKeys'')
       \<lparr>rt_Contour := contourStaff, rt_StaffPermission := Some PermAPIKeysRead, rt_StaffScope := Some staffScopeStore, rt_RateLimitProfile := rlProfileAdmin\<rparr>,
      (route MethodPost ''/api/v1/admin/organizations/{orgID}/stores/{storeID}/api-keys'' ''createStoreAPIKey'')
       \<lparr>rt_Contour := contourStaff, rt_StaffPermission := Some PermAPIKeysRotate, rt_StaffScope := Some staffScopeStore, rt_RateLimitProfile := rlProfileAdmin\<rparr>,
      (route MethodPost ''/api/v1/admin/organizations/{orgID}/stores/{storeID}/api-keys/{keyID}/revoke'' ''revokeStoreAPIKey'')
       \<lparr>rt_Contour := contourStaff, rt_StaffPermission := Some PermAPIKeysRotate, rt_StaffScope := Some staffScopeStore, rt_RateLimitProfile := rlProfileAdmin\<rparr>,
      (route MethodGet ''/api/v1/admin/organizations/{orgID}/audit'' ''listAuditEvents'')
       \<lparr>rt_Contour := contourStaff, rt_StaffPermission := Some PermAuditRead, rt_StaffScope := Some staffScopeOrg, rt_RateLimitProfile := rlProfileAdmin\<rparr>]"

section \<open>Rate-limit rules\<close>

record rate_limit_config =
  rl_StaffLoginIPLimit :: int
  rl_StaffLoginIPWindow :: duration
  rl_AdminIPLimit :: int
  rl_AdminIPWindow :: duration
  rl_AdminStaffLimit :: int
  rl_AdminStaffWindow :: duration
  rl_ClientLookupIPLimit :: int
  rl_ClientLookupIPWindow :: duration
  rl_ClientLookupPrincipalLimit :: int
  rl_ClientLookupPrincipalWindow :: duration
  rl_ClientLookupPhoneLimit :: int
  rl_ClientLookupPhoneWindow :: duration
  rl_AccrualIPLimit :: int
  rl_AccrualIPWindow :: duration
  rl_AccrualPrincipalLimit :: int
  rl_AccrualPrincipalWindow :: duration

definition ipRule :: "hash \<Rightarrow> string \<Rightarrow> int \<Rightarrow> duration \<Rightarrow> 'b request rule" where
  "ipRule sha name limit window = \<lparr>rule_Name = name, rule_Limit = limit, rule_Window = window,
     rule_KeyFunc = (\<lambda>r. Some (''ip:'' @ HashOpaqueToken sha (clientIP r)))\<rparr>"

definition staffUserRule :: "string \<Rightarrow> int \<Rightarrow> duration \<Rightarrow> 'b request rule" where
  "staffUserRule name limit window = \<lparr>rule_Name = name, rule_Limit = limit, rule_Window = window,
     rule_KeyFunc = (\<lambda>r. case staffFromContext r of None \<Rightarrow> None
                         | Some caller \<Rightarrow> Some (''staff:'' @ show_int (sp_StaffUserID caller)))\<rparr>"

text \<open>The key of a request that authenticated with a store's key; \<open>None\<close>: it did not.\<close>

definition storePrincipalKey :: "'b request \<Rightarrow> string option option" where
  "storePrincipalKey r =
     (case storeAPIKeyFromContext r of
        None \<Rightarrow> None
      | Some (Some apiKey) \<Rightarrow> Some (Some (''key:'' @ key_KeyID apiKey))
      | Some None \<Rightarrow> (case storeFromContext r of
          Some store \<Rightarrow> Some (Some (''store:'' @ show_int (st_ID store)))
        | None \<Rightarrow> Some None))"

definition storeAPIKeyOrStoreRule :: "string \<Rightarrow> int \<Rightarrow> duration \<Rightarrow> 'b request rule" where
  "storeAPIKeyOrStoreRule name limit window = \<lparr>rule_Name = name, rule_Limit = limit, rule_Window = window,
     rule_KeyFunc = (\<lambda>r. case storePrincipalKey r of None \<Rightarrow> None | Some k \<Rightarrow> k)\<rparr>"

definition principalRule :: "string \<Rightarrow> int \<Rightarrow> duration \<Rightarrow> 'b request rule" where
  "principalRule name limit window = \<lparr>rule_Name = name, rule_Limit = limit, rule_Window = window,
     rule_KeyFunc = (\<lambda>r. case storePrincipalKey r of
         Some (Some k) \<Rightarrow> Some k
       | _ \<Rightarrow> (case customerFromContext r of
           Some customerID \<Rightarrow> Some (''customer:'' @ show_int customerID)
         | None \<Rightarrow> None))\<rparr>"

definition phoneQueryRule :: "hash \<Rightarrow> string \<Rightarrow> int \<Rightarrow> duration \<Rightarrow> 'b request rule" where
  "phoneQueryRule sha name limit window = \<lparr>rule_Name = name, rule_Limit = limit, rule_Window = window,
     rule_KeyFunc = (\<lambda>r. let phone = rq_Query r ''phone'' in
       if phone = [] then None else Some (''phone:'' @ HashOpaqueToken sha (canonicalPhone phone)))\<rparr>"

definition rateLimitRulesFor :: "hash \<Rightarrow> string \<Rightarrow> rate_limit_config \<Rightarrow> 'b request rule list \<times> 'b request rule list" where
  "rateLimitRulesFor sha profile cfg =
     (if profile = rlProfileStaffLogin
      then ([ipRule sha ''ip'' (rl_StaffLoginIPLimit cfg) (rl_StaffLoginIPWindow cfg)], [])
      else if profile = rlProfileAdmin
      then ([ipRule sha ''ip'' (rl_AdminIPLimit cfg) (rl_AdminIPWindow cfg)],
            [staffUserRule ''staff'' (rl_AdminStaffLimit cfg) (rl_AdminStaffWindow cfg)])
      else if profile = rlProfileClientLookup
      then ([],
            [ipRule sha ''ip'' (rl_ClientLookupIPLimit cfg) (rl_ClientLookupIPWindow cfg),
             principalRule ''principal'' (rl_ClientLookupPrincipalLimit cfg) (rl_ClientLookupPrincipalWindow cfg),
             phoneQueryRule sha ''phone'' (rl_ClientLookupPhoneLimit cfg) (rl_ClientLookupPhoneWindow cfg)])
      else if profile = rlProfileAccrual
      then ([ipRule sha ''ip'' (rl_AccrualIPLimit cfg) (rl_AccrualIPWindow cfg)],
            [storeAPIKeyOrStoreRule ''principal'' (rl_AccrualPrincipalLimit cfg) (rl_AccrualPrincipalWindow cfg)])
      else if profile = rlProfileQRResolve
      then ([ipRule sha ''ip'' (rl_ClientLookupIPLimit cfg) (rl_ClientLookupIPWindow cfg)],
            [storeAPIKeyOrStoreRule ''principal'' (rl_ClientLookupPrincipalLimit cfg) (rl_ClientLookupPrincipalWindow cfg)])
      else ([], []))"

section \<open>The dependencies of the server\<close>

text \<open>\<open>dp_Ready\<close>: the message of the dependency that is not ready, if any.\<close>

record 'k deps =
  dp_hash :: hash
  dp_redis :: "'k redis"
  dp_RateLimiter :: bool
  dp_RateLimit :: rate_limit_config
  dp_jwt :: jwt_lib
  dp_CustomerAccessTokenSecret :: string
  dp_StaffAccessTokenSecret :: string
  dp_TrustedProxies :: "prefix list"
  dp_decimal :: decimal_lib
  dp_Loyalty :: loyalty_service
  dp_CustomerAuth :: "'k customer_auth"
  dp_StaffAuth :: staff_auth
  dp_QR :: "'k qr_service"
  dp_Ready :: "string option"

section \<open>The middleware chain\<close>

text \<open>\<open>Wrap\<close> as a guard; \<open>i\<close> tells the rules before authentication from those after it.\<close>

definition limited ::
    "'k deps \<Rightarrow> 'k world env \<Rightarrow> nat \<Rightarrow> string \<Rightarrow> 'b request rule list \<Rightarrow> ('k, 'b, 'a) handler \<Rightarrow> ('k, 'b, 'a) handler" where
  "limited deps E i profile rules next_handler r =
     (if \<not> dp_RateLimiter deps \<or> rules = [] then next_handler r
      else do {
        a \<leftarrow> Wrap (dp_redis deps) E i profile rules r;
        case a of
          Inr Pass \<Rightarrow> next_handler r
        | Inr (TooManyRequests secs) \<Rightarrow> writeError 429 ''rate limit exceeded''
        | _ \<Rightarrow> writeError 503 ''rate limiter unavailable''
      })"

definition scopeFn :: "route_meta \<Rightarrow> 'b request \<Rightarrow> string + staff_scope" where
  "scopeFn rt = (if rt_StaffScope rt = Some staffScopeOrg then orgScopeFromPath else storeScopeFromPath)"

text \<open>Every route that is checked for a permission names one (\<open>routes_name_permissions\<close>), so the default is never used.\<close>

definition permissionOf :: "route_meta \<Rightarrow> permission" where
  "permissionOf rt = (case rt_StaffPermission rt of Some p \<Rightarrow> p | None \<Rightarrow> PermOrganizationsManage)"

definition authenticated :: "'k deps \<Rightarrow> 'k world env \<Rightarrow> route_meta \<Rightarrow> ('k, 'b, 'a) handler \<Rightarrow> ('k, 'b, 'a) handler" where
  "authenticated deps E rt h =
     (case rt_Contour rt of
        contourPublic \<Rightarrow> h
      | contourStoreKey \<Rightarrow> RequireStoreAPIKey (dp_hash deps) E (requireScope (rt_APIKeyScope rt) h)
      | contourCustomer \<Rightarrow> RequireCustomerSession (dp_jwt deps) (dp_CustomerAccessTokenSecret deps) E h
      | contourStaff \<Rightarrow>
          if rt_StaffIdentityOnly rt then RequireStaffIdentity (dp_jwt deps) (dp_StaffAccessTokenSecret deps) E h
          else if rt_StaffGlobal rt
          then RequireGlobalStaffPermission (dp_jwt deps) (dp_StaffAccessTokenSecret deps) E (permissionOf rt) h
          else RequireStaff (dp_jwt deps) (dp_StaffAccessTokenSecret deps) E (permissionOf rt) (scopeFn rt) h)"

text \<open>A route of the server \<open>New\<close> builds, around the operation's handler \<open>h\<close>.\<close>

definition serve :: "'k deps \<Rightarrow> 'k world env \<Rightarrow> route_meta \<Rightarrow> ('k, 'b, 'a) handler \<Rightarrow> ('k, 'b, 'a) handler" where
  "serve deps E rt h =
     (let profile = rt_RateLimitProfile rt;
          (preAuth, postAuth) = rateLimitRulesFor (dp_hash deps) profile (dp_RateLimit deps)
      in withResolvedClientIP (dp_TrustedProxies deps)
           (limited deps E 0 profile preAuth (authenticated deps E rt (limited deps E 10 profile postAuth h))))"

end
