(* ===== verification/Dispatch.thy ===== *)
theory Dispatch
  imports Routes
begin

text \<open>
  \<open>handlerFor\<close> of \<open>routes.go\<close>: from an operation to its handler. Here the request's body is the
  text that was sent; decoding it into an operation's body is the JSON library's (\<open>json_lib\<close>), and
  the answers of all operations are one type.
\<close>

record json_lib =
  js_accrue :: "string \<Rightarrow> accrue_body option"
  js_redeem :: "string \<Rightarrow> redeem_body option"
  js_refund :: "string \<Rightarrow> refund_body option"
  js_payload :: "string \<Rightarrow> string option"
  js_phone :: "string \<Rightarrow> string option"
  js_verify :: "string \<Rightarrow> otp_verify_body option"
  js_refresh :: "string \<Rightarrow> string option"
  js_device :: "string \<Rightarrow> register_device_body option"
  js_id_token :: "string \<Rightarrow> string option"
  js_name :: "string \<Rightarrow> string option"
  js_store :: "string \<Rightarrow> store_profile_body option"
  js_membership :: "string \<Rightarrow> create_membership_body option"
  js_change :: "string \<Rightarrow> update_membership_body option"
  js_config :: "string \<Rightarrow> put_config_body option"
  js_rollback :: "string \<Rightarrow> rollback_body option"
  js_key :: "string \<Rightarrow> create_key_body option"

datatype reply =
    R_Transaction transaction_answer
  | R_Redeem redeem_answer_body
  | R_Refund refund_result
  | R_Balance balance_body
  | R_Status string
  | R_Tokens auth_tokens_answer
  | R_None unit
  | R_Me me_answer
  | R_MyBalance "me_balance_item list"
  | R_MyTransactions "me_transaction_item list \<times> string"
  | R_QR "int option \<times> issue_qr_answer"
  | R_ID int
  | R_StaffMe staff_me_answer
  | R_Organizations "organization list"
  | R_Organization organization
  | R_Store store_body
  | R_Overview store_overview
  | R_Stores "store_body list"
  | R_Memberships "membership_body list"
  | R_Membership membership_body
  | R_AdminClients "admin_client_body list \<times> string"
  | R_AdminClient admin_client_body
  | R_AdminTransactions "admin_transaction_body list"
  | R_Config loyalty_config_body
  | R_History "loyalty_config_version list"
  | R_APIKeys "api_key_body list"
  | R_CreatedKey created_key_answer
  | R_Audit "audit_event_body list \<times> string"

text \<open>What one request draws at random, and its view of the key cache of the identity provider.\<close>

record draws =
  dr_otp :: "nat option"
  dr_token :: "nat list option"
  dr_key_id :: "nat list option"
  dr_key_secret :: "nat list option"
  dr_jwks_env :: "oidc_cache env"
  dr_jwks_reply :: jwks_reply
  dr_jwks_cache :: oidc_cache

definition with_body :: "(string \<Rightarrow> 'c option) \<Rightarrow> string request \<Rightarrow> 'c request" where
  "with_body decode r =
     \<lparr>rq_Context = rq_Context r, rq_Authorization = rq_Authorization r, rq_PathValue = rq_PathValue r, rq_Query = rq_Query r,
      rq_Body = Option.bind (rq_Body r) decode, rq_RemoteAddr = rq_RemoteAddr r, rq_ForwardedFor = rq_ForwardedFor r,
      rq_UserAgent = rq_UserAgent r\<rparr>"

definition answering :: "('a \<Rightarrow> reply) \<Rightarrow> ('s, 'a response) state \<Rightarrow> ('s, reply response) state" where
  "answering f m = State_Monad.bind m (\<lambda>a. State_Monad.return (map_response f a))"

text \<open>\<open>Retry-After\<close> is part of the answer of \<open>issueQR\<close>; a login works on its own view of the key cache.\<close>

definition answeringQR :: "('s, int option \<times> issue_qr_answer response) state \<Rightarrow> ('s, reply response) state" where
  "answeringQR m = State_Monad.bind m (\<lambda>(retryAfter, a). State_Monad.return (map_response (\<lambda>b. R_QR (retryAfter, b)) a))"

definition with_cache :: "oidc_cache \<Rightarrow> ('k world \<times> oidc_cache, 'a) state \<Rightarrow> ('k world, 'a) state" where
  "with_cache v m = State (\<lambda>w. case run_state m (w, v) of (a, (w', _)) \<Rightarrow> (a, w'))"

definition handlerFor ::
    "json_lib \<Rightarrow> 'k deps \<Rightarrow> 'k world env \<Rightarrow> db env \<Rightarrow> draws \<Rightarrow> string \<Rightarrow> ('k, string, reply) handler option" where
  "handlerFor J deps E L draws op =
     (if op = ''getHealthz'' then Some (\<lambda>r. writeHeader 200)
      else if op = ''getReadyz''
      then Some (\<lambda>r. case dp_Ready deps of Some message \<Rightarrow> writeError 503 message | None \<Rightarrow> writeHeader 200)
      else if op = ''createTransaction''
      then Some (\<lambda>r. answering R_Transaction (handleAccrueTransaction (dp_decimal deps) (dp_Loyalty deps) L (with_body (js_accrue J) r)))
      else if op = ''redeemTransaction''
      then Some (\<lambda>r. answering R_Redeem (handleRedeemTransaction (dp_decimal deps) (dp_Loyalty deps) L (with_body (js_redeem J) r)))
      else if op = ''refundTransaction''
      then Some (\<lambda>r. answering R_Refund (handleRefundTransaction (dp_decimal deps) L (with_body (js_refund J) r)))
      else if op = ''lookupClientByPhone''
      then Some (\<lambda>r. answering R_Balance (handleLookupClientByPhone E r))
      else if op = ''getClientBalance''
      then Some (\<lambda>r. answering R_Balance (handleGetClientBalance E r))
      else if op = ''resolveQR''
      then Some (\<lambda>r. answering R_Balance (handleResolveQR (dp_QR deps) E (with_body (js_payload J) r)))
      else if op = ''requestOTP''
      then Some (\<lambda>r. answering R_Status (handleRequestOTP (dp_CustomerAuth deps) E (dr_otp draws) (with_body (js_phone J) r)))
      else if op = ''verifyOTP''
      then Some (\<lambda>r. answering R_Tokens (handleVerifyOTP (dp_CustomerAuth deps) E (dr_token draws) (with_body (js_verify J) r)))
      else if op = ''refreshCustomerSession''
      then Some (\<lambda>r. answering R_Tokens (handleRefreshCustomerSession (dp_CustomerAuth deps) E (dr_token draws) (with_body (js_refresh J) r)))
      else if op = ''customerLogout''
      then Some (\<lambda>r. answering R_None (handleCustomerLogout (dp_CustomerAuth deps) E (with_body (js_refresh J) r)))
      else if op = ''customerLogoutAll''
      then Some (\<lambda>r. answering R_None (handleCustomerLogoutAll E r))
      else if op = ''getMe''
      then Some (\<lambda>r. answering R_Me (handleGetMe E r))
      else if op = ''getMyBalance''
      then Some (\<lambda>r. answering R_MyBalance (handleGetMyBalance E r))
      else if op = ''getMyTransactions''
      then Some (\<lambda>r. answering R_MyTransactions (handleGetMyTransactions E r))
      else if op = ''issueQR''
      then Some (\<lambda>r. answeringQR (handleIssueQR (dp_QR deps) E (dr_token draws) r))
      else if op = ''registerDevice''
      then Some (\<lambda>r. answering R_ID (handleRegisterDevice E (with_body (js_device J) r)))
      else if op = ''revokeDevice''
      then Some (\<lambda>r. answering R_None (handleRevokeDevice E r))
      else if op = ''staffOIDCLogin''
      then Some (\<lambda>r. answering R_Status (with_cache (dr_jwks_cache draws)
             (handleStaffOIDCLogin (dp_StaffAuth deps) E (dr_jwks_env draws) (dr_jwks_reply draws) (with_body (js_id_token J) r))))
      else if op = ''getStaffMe''
      then Some (\<lambda>r. answering R_StaffMe (handleGetStaffMe E r))
      else if op = ''listOrganizations''
      then Some (\<lambda>r. answering R_Organizations (handleListOrganizations E r))
      else if op = ''createOrganization''
      then Some (\<lambda>r. answering R_Organization (handleCreateOrganization E (with_body (js_name J) r)))
      else if op = ''getStore''
      then Some (\<lambda>r. answering R_Store (handleGetStore E r))
      else if op = ''updateStore''
      then Some (\<lambda>r. answering R_Store (handleUpdateStore E (with_body (js_store J) r)))
      else if op = ''getStoreOverview''
      then Some (\<lambda>r. answering R_Overview (handleGetStoreOverview E r))
      else if op = ''listStores''
      then Some (\<lambda>r. answering R_Stores (handleListStores E r))
      else if op = ''createStore''
      then Some (\<lambda>r. answering R_Store (handleCreateStore E (with_body (js_store J) r)))
      else if op = ''listStaffMemberships''
      then Some (\<lambda>r. answering R_Memberships (handleListStaffMemberships E r))
      else if op = ''createStaffMembership''
      then Some (\<lambda>r. answering R_Membership (handleCreateStaffMembership E (with_body (js_membership J) r)))
      else if op = ''updateStaffMembership''
      then Some (\<lambda>r. answering R_None (handleUpdateStaffMembership E (with_body (js_change J) r)))
      else if op = ''adminListClients''
      then Some (\<lambda>r. answering R_AdminClients (handleAdminListClients E r))
      else if op = ''adminLookupClient''
      then Some (\<lambda>r. answering R_AdminClient (handleAdminLookupClient E r))
      else if op = ''adminListClientTransactions''
      then Some (\<lambda>r. answering R_AdminTransactions (handleAdminListClientTransactions E r))
      else if op = ''getLoyaltyConfig''
      then Some (\<lambda>r. answering R_Config (handleGetLoyaltyConfig E r))
      else if op = ''putLoyaltyConfig''
      then Some (\<lambda>r. answering R_Config (handlePutLoyaltyConfig E (with_body (js_config J) r)))
      else if op = ''listLoyaltyConfigHistory''
      then Some (\<lambda>r. answering R_History (handleListLoyaltyConfigHistory E r))
      else if op = ''rollbackLoyaltyConfig''
      then Some (\<lambda>r. answering R_Config (handleRollbackLoyaltyConfig E (with_body (js_rollback J) r)))
      else if op = ''listStoreAPIKeys''
      then Some (\<lambda>r. answering R_APIKeys (handleListStoreAPIKeys E r))
      else if op = ''createStoreAPIKey''
      then Some (\<lambda>r. answering R_CreatedKey (handleCreateStoreAPIKey (dp_hash deps) E (dr_key_id draws) (dr_key_secret draws) (with_body (js_key J) r)))
      else if op = ''revokeStoreAPIKey''
      then Some (\<lambda>r. answering R_None (handleRevokeStoreAPIKey E r))
      else if op = ''listAuditEvents''
      then Some (\<lambda>r. answering R_Audit (handleListAuditEvents E r))
      else None)"

text \<open>A whole request: the route's handler behind its guards; an operation without a handler stops the start-up.\<close>

definition handle ::
    "json_lib \<Rightarrow> 'k deps \<Rightarrow> 'k world env \<Rightarrow> db env \<Rightarrow> draws \<Rightarrow> route_meta \<Rightarrow> ('k, string, reply) handler option" where
  "handle J deps E L draws rt = map_option (serve deps E rt) (handlerFor J deps E L draws (rt_OperationID rt))"

end
