(* ===== verification/Http_Rules.thy ===== *)
theory Http_Rules
  imports Routes Staff_Theorems
begin

text \<open>
  How the guards behave in an undisturbed run: each either refuses, changing no table, or runs
  the next handler with the context it filled in.
\<close>

section \<open>Answers\<close>

lemma run_write [simp]:
  "run_state (writeJSON status v) w = (Reply status v, w)"
  "run_state (writeHeader status) w = (Header status, w)"
  "run_state (writeError status message) w = (Refuse status message, w)"
  "run_state (writeErrorCode status code message) w = (RefuseCode status code message, w)"
  by (simp_all add: writeJSON_def writeHeader_def writeError_def writeErrorCode_def)

fun refused :: "'a response \<Rightarrow> bool" where
  "refused (Refuse status message) = (400 \<le> status)"
| "refused _ = False"

lemma refused_cases: "refused a \<longleftrightarrow> (\<exists>status message. a = Refuse status message \<and> 400 \<le> status)"
  by (cases a) auto

section \<open>The rate limiter\<close>

lemma Allow_db: "w_db (after (Allow R (quiet t) l k limit window) w) = w_db w"
  by (auto simp: Allow_def run_andThen run_on_kv split: sum.split prod.split)

lemma Wrap_db: "w_db (after (Wrap R (quiet t) i profile rules r) w) = w_db w"
proof (induction rules arbitrary: i w)
  case (Cons a rules)
  have "w_db (after (Allow R (quiet t) l k limit window) w) = w_db w" for l k limit window by (rule Allow_db)
  then show ?case
    using Cons by (auto split: option.split prod.split sum.split) (metis snd_conv)+
qed simp

lemma limited_cases:
  assumes "run_state (limited deps (quiet t) i profile rules h r) w = (a, w')"
  shows "refused a \<and> w_db w' = w_db w \<or> (\<exists>w1. w_db w1 = w_db w \<and> run_state (h r) w1 = (a, w'))"
proof (cases "\<not> dp_RateLimiter deps \<or> rules = []")
  case True
  with assms show ?thesis by (auto simp: limited_def)
next
  case False
  obtain x w1 where w1: "run_state (Wrap (dp_redis deps) (quiet t) i profile rules r) w = (x, w1)" by fastforce
  moreover from w1 Wrap_db [of "dp_redis deps" t i profile rules r w] have "w_db w1 = w_db w" by simp
  ultimately show ?thesis
    using assms False by (auto simp: limited_def split: sum.splits limit_answer.splits)
qed

definition resolved :: "'k deps \<Rightarrow> 'b request \<Rightarrow> 'b request" where
  "resolved deps r = r\<lparr>rq_Context := (rq_Context r)\<lparr>cx_ClientIP := Some (resolveClientIP r (dp_TrustedProxies deps))\<rparr>\<rparr>"

lemma resolved_sel [simp]:
  "rq_Authorization (resolved deps r) = rq_Authorization r" "rq_PathValue (resolved deps r) = rq_PathValue r"
  "rq_Query (resolved deps r) = rq_Query r" "rq_Body (resolved deps r) = rq_Body r"
  "bearer (resolved deps r) = bearer r"
  by (simp_all add: resolved_def bearer_def)

lemma serve_cases:
  fixes r :: "'b request"
  assumes "run_state (serve deps (quiet t) rt h r) w = (a, w')"
  obtains "refused a" "w_db w' = w_db w"
  | w1 h1 where "w_db w1 = w_db w" "run_state (authenticated deps (quiet t) rt h1 (resolved deps r)) w1 = (a, w')"
      "\<And>r1 w2. run_state (h1 r1) w2 = (a, w') \<Longrightarrow>
         refused a \<and> w_db w' = w_db w2 \<or> (\<exists>w3. w_db w3 = w_db w2 \<and> run_state (h r1) w3 = (a, w'))"
proof -
  obtain pre post :: "'b request rule list" where rules: "rateLimitRulesFor (dp_hash deps) (rt_RateLimitProfile rt) (dp_RateLimit deps) = (pre, post)"
    by (metis surj_pair)
  let ?h1 = "limited deps (quiet t) 10 (rt_RateLimitProfile rt) post h"
  from assms have "run_state (limited deps (quiet t) 0 (rt_RateLimitProfile rt) pre (authenticated deps (quiet t) rt ?h1) (resolved deps r)) w = (a, w')"
    by (simp add: serve_def rules withResolvedClientIP_def resolved_def Let_def)
  from limited_cases [OF this] show thesis
  proof (elim disjE conjE exE)
    fix w1 assume "w_db w1 = w_db w" "run_state (authenticated deps (quiet t) rt ?h1 (resolved deps r)) w1 = (a, w')"
    then show thesis using limited_cases by (intro that(2) [of w1 ?h1]) blast+
  qed (rule that(1))
qed

section \<open>The guards\<close>

lemma resolveScopedStore_quiet:
  "run_state (resolveScopedStore (quiet t) found r) w =
     (case parse_int (rq_PathValue r ''orgID'') of
        None \<Rightarrow> (Refuse 400 ''invalid organization id'', w)
      | Some orgID \<Rightarrow>
          (case parse_int (rq_PathValue r ''storeID'') of
             None \<Rightarrow> (Refuse 400 ''invalid store id'', w)
           | Some storeID \<Rightarrow>
               (case find (\<lambda>s. st_ID s = storeID) (db_stores (w_db w)) of
                  None \<Rightarrow> (Refuse 404 ''store not found'', w)
                | Some store \<Rightarrow>
                    if st_OrganizationID store \<noteq> orgID then (Refuse 404 ''store not found'', w)
                    else run_state (found store orgID) w)))"
  by (auto simp: resolveScopedStore_def run_on_db store_GetByID_def select_one_def split: option.split)

definition entering :: "staff_principal \<Rightarrow> 'b request \<Rightarrow> 'b request" where
  "entering p r = r\<lparr>rq_Context := (rq_Context r)\<lparr>cx_Staff := Some p\<rparr>\<rparr>"

lemma entering_sel [simp]:
  "staffFromContext (entering p r) = Some p" "rq_PathValue (entering p r) = rq_PathValue r"
  "rq_Query (entering p r) = rq_Query r" "rq_Body (entering p r) = rq_Body r"
  by (simp_all add: entering_def staffFromContext_def)

lemma RequireStaff_cases:
  assumes "run_state (RequireStaff J secret (quiet t) perm scopeOf h r) w = (a, w')"
  shows "refused a \<and> w' = w \<or>
    (\<exists>staffUserID p w1 scope. ParseStaffAccessToken J t secret (bearer r) = Inr staffUserID \<and>
       run_state (ResolvePrincipal (quiet t) staffUserID) w = (Inr p, w1) \<and> scopeOf r = Inr scope \<and>
       principal_HasPermission p perm (sc_OrganizationID scope) (sc_StoreID scope) \<and>
       run_state (h (entering p r)) w1 = (a, w'))"
proof (cases "bearer r = [] \<or> (\<exists>e. ParseStaffAccessToken J t secret (bearer r) = Inl e)")
  case True
  with assms show ?thesis by (auto simp: RequireStaff_def Let_def split: if_splits)
next
  case False
  then obtain i where i: "bearer r \<noteq> []" "ParseStaffAccessToken J t secret (bearer r) = Inr i"
    by (metis sum.exhaust)
  obtain x w1 where x: "run_state (ResolvePrincipal (quiet t) i) w = (x, w1)" by fastforce
  have "w1 = w" using x by (auto simp: ResolvePrincipal_quiet loadPrincipal_quiet split: option.splits if_splits)
  with assms i x show ?thesis
    by (cases x) (auto simp: RequireStaff_def Let_def entering_def split: sum.splits if_splits)
qed

text \<open>The store a register's key opens, and the key; the legacy key of a store has no scopes.\<close>

definition opens :: "hash \<Rightarrow> time \<Rightarrow> db \<Rightarrow> string \<Rightarrow> store \<Rightarrow> store_api_key option \<Rightarrow> bool" where
  "opens sha now d token s key \<longleftrightarrow> s \<in> set (db_stores d) \<and>
     (case key of
        Some k \<Rightarrow> k \<in> set (db_api_keys d) \<and> key_StoreID k = st_ID s \<and> Domain.Active k now \<and>
          (\<exists>secret. parseMultiKeyAPIKey token = Some (key_KeyID k, secret) \<and> sha secret = key_KeyHash k)
      | None \<Rightarrow> st_APIKeyHash s \<noteq> [] \<and> st_APIKeyHash s = sha token)"

definition storeRequest :: "store \<Rightarrow> store_api_key option \<Rightarrow> 'b request \<Rightarrow> 'b request" where
  "storeRequest s key r = r\<lparr>rq_Context := (rq_Context r)\<lparr>cx_Store := Some s, cx_APIKey := Some key\<rparr>\<rparr>"

lemma storeRequest_sel [simp]:
  "storeFromContext (storeRequest s key r) = Some s" "storeAPIKeyFromContext (storeRequest s key r) = Some key"
  "rq_Body (storeRequest s key r) = rq_Body r" "rq_Query (storeRequest s key r) = rq_Query r"
  "rq_PathValue (storeRequest s key r) = rq_PathValue r"
  by (simp_all add: storeRequest_def storeFromContext_def storeAPIKeyFromContext_def)

definition touched :: "time \<Rightarrow> store_api_key option \<Rightarrow> db \<Rightarrow> db" where
  "touched now key d = (case key of None \<Rightarrow> d | Some k \<Rightarrow> snd (run_state (key_TouchLastUsed (key_ID k) now) d))"

lemma touched_None: "touched now None d = d"
  by (simp add: touched_def)

lemma run_select_one_cases [simp]:
  "run_state (select_one P f) d = (case find P (f d) of None \<Rightarrow> (Inl ErrNotFound, d) | Some x \<Rightarrow> (Inr x, d))"
  by (simp add: select_one_def split: option.split)

lemma RequireStoreAPIKey_cases:
  assumes "run_state (RequireStoreAPIKey sha (quiet t) h r) w = (a, w')"
  shows "refused a \<and> w' = w \<or>
    (\<exists>s key. opens sha t (w_db w) (bearer r) s key \<and>
       run_state (h (storeRequest s key r)) (w\<lparr>w_db := touched t key (w_db w)\<rparr>) = (a, w'))"
proof -
  let ?legacy = "find (\<lambda>s. st_APIKeyHash s \<noteq> [] \<and> st_APIKeyHash s = sha (bearer r)) (db_stores (w_db w))"
  let ?no_key = "parseMultiKeyAPIKey (bearer r) = None \<or>
    (\<exists>keyID secret. parseMultiKeyAPIKey (bearer r) = Some (keyID, secret) \<and> find (\<lambda>k. key_KeyID k = keyID) (db_api_keys (w_db w)) = None)"
  consider "bearer r = []" | "bearer r \<noteq> []" ?no_key
    | keyID secret k where "bearer r \<noteq> []" "parseMultiKeyAPIKey (bearer r) = Some (keyID, secret)"
        "find (\<lambda>k. key_KeyID k = keyID) (db_api_keys (w_db w)) = Some k"
    by (metis not_Some_eq surj_pair)
  then show ?thesis
  proof cases
    case 1
    with assms show ?thesis by (auto simp: RequireStoreAPIKey_def)
  next
    case 2
    with assms have run: "run_state (case ?legacy of None \<Rightarrow> writeError 401 ''invalid api key''
        | Some s \<Rightarrow> h (storeRequest s None r)) w = (a, w')"
      by (auto simp: RequireStoreAPIKey_def Let_def run_on_db store_GetByAPIKeyHash_def hashAPIKey_def key_GetByKeyID_def
          storeRequest_def split: option.splits)
    show ?thesis
    proof (cases ?legacy)
      case None
      with run show ?thesis by auto
    next
      case (Some s)
      with find_SomeD [OF Some] have "opens sha t (w_db w) (bearer r) s None" by (auto simp: opens_def)
      with run Some show ?thesis by (intro disjI2 exI [of _ s] exI [of _ None]) (simp add: touched_def)
    qed
  next
    case 3
    show ?thesis
    proof (cases "sha secret = key_KeyHash k \<and> Domain.Active k t \<and> find (\<lambda>s. st_ID s = key_StoreID k) (db_stores (w_db w)) \<noteq> None")
      case True
      then obtain s where s: "find (\<lambda>s. st_ID s = key_StoreID k) (db_stores (w_db w)) = Some s" by blast
      with assms 3 True have "run_state (h (storeRequest s (Some k) r)) (w\<lparr>w_db := touched t (Some k) (w_db w)\<rparr>) = (a, w')"
        by (simp add: RequireStoreAPIKey_def Let_def run_on_db key_GetByKeyID_def constantTimeHashEqual_def hashAPIKey_def
            store_GetByID_def storeRequest_def touched_def)
      moreover from find_SomeD [OF s] find_SomeD [OF 3(3)] 3(2) True
      have "opens sha t (w_db w) (bearer r) s (Some k)" by (auto simp: opens_def)
      ultimately show ?thesis by blast
    next
      case False
      with assms 3 show ?thesis
        by (auto simp: RequireStoreAPIKey_def Let_def run_on_db key_GetByKeyID_def constantTimeHashEqual_def hashAPIKey_def
            store_GetByID_def split: option.splits if_splits)
    qed
  qed
qed

text \<open>
  A request to a route of the register's contour. A refused one may have marked the key it came
  with as used.
\<close>

lemma store_route_outcome:
  assumes "rt_Contour rt = contourStoreKey" "run_state (serve deps (quiet t) rt h r) w = (a, w')"
  shows "refused a \<and> (w_db w' = w_db w \<or>
      (\<exists>s key. opens (dp_hash deps) t (w_db w) (bearer r) s key \<and> w_db w' = touched t key (w_db w))) \<or>
    (\<exists>s key w1. opens (dp_hash deps) t (w_db w) (bearer r) s key \<and>
       (\<exists>k. key = None \<or> key = Some k \<and> HasScope k (rt_APIKeyScope rt)) \<and>
       w_db w1 = touched t key (w_db w) \<and> run_state (h (storeRequest s key (resolved deps r))) w1 = (a, w'))"
    (is "?refused \<or> ?run")
  using assms(2)
proof (cases rule: serve_cases)
  case 1
  then show ?thesis by blast
next
  case (2 w1 h1)
  from 2(2) assms(1) have "run_state (RequireStoreAPIKey (dp_hash deps) (quiet t) (requireScope (rt_APIKeyScope rt) h1) (resolved deps r)) w1 = (a, w')"
    by (simp add: authenticated_def)
  from RequireStoreAPIKey_cases [OF this] show ?thesis
  proof (elim disjE conjE exE)
    fix s key
    assume open_key: "opens (dp_hash deps) t (w_db w1) (bearer (resolved deps r)) s key" and
      run: "run_state (requireScope (rt_APIKeyScope rt) h1 (storeRequest s key (resolved deps r))) (w1\<lparr>w_db := touched t key (w_db w1)\<rparr>) = (a, w')"
    let ?w2 = "w1\<lparr>w_db := touched t key (w_db w1)\<rparr>"
    show ?thesis
    proof (cases "\<exists>k. key = None \<or> key = Some k \<and> HasScope k (rt_APIKeyScope rt)")
      case True
      with run have "run_state (h1 (storeRequest s key (resolved deps r))) ?w2 = (a, w')"
        by (auto simp: requireScope_def split: option.splits if_splits)
      from 2(3) [OF this] True open_key 2(1) show ?thesis by auto
    next
      case False
      with run have "refused a" "w_db w' = touched t key (w_db w)" using 2(1) by (auto simp: requireScope_def split: option.splits)
      with open_key 2(1) show ?thesis by auto
    qed
  qed (use 2(1) in simp)
qed

lemma store_route_cases:
  assumes "rt_Contour rt = contourStoreKey" "run_state (serve deps (quiet t) rt h r) w = (a, w')"
  shows "refused a \<and> (\<exists>key. w_db w' = touched t key (w_db w)) \<or>
    (\<exists>s key w1. opens (dp_hash deps) t (w_db w) (bearer r) s key \<and>
       (\<exists>k. key = None \<or> key = Some k \<and> HasScope k (rt_APIKeyScope rt)) \<and>
       w_db w1 = touched t key (w_db w) \<and> run_state (h (storeRequest s key (resolved deps r))) w1 = (a, w'))"
  using store_route_outcome [OF assms] by (metis touched_None)

end
