(* ===== verification/Http_Demo.thy ===== *)
theory Http_Demo
  imports Http_Rules Customer_Theorems
begin

text \<open>A concrete server, database and requests, on which the properties of the HTTP server are applied.\<close>

definition demo_limits :: rate_limit_config where
  "demo_limits = \<lparr>rl_StaffLoginIPLimit = 10, rl_StaffLoginIPWindow = 60000000000, rl_AdminIPLimit = 120, rl_AdminIPWindow = 60000000000,
     rl_AdminStaffLimit = 120, rl_AdminStaffWindow = 60000000000, rl_ClientLookupIPLimit = 60, rl_ClientLookupIPWindow = 60000000000,
     rl_ClientLookupPrincipalLimit = 60, rl_ClientLookupPrincipalWindow = 60000000000, rl_ClientLookupPhoneLimit = 10,
     rl_ClientLookupPhoneWindow = 60000000000, rl_AccrualIPLimit = 300, rl_AccrualIPWindow = 60000000000,
     rl_AccrualPrincipalLimit = 300, rl_AccrualPrincipalWindow = 60000000000\<rparr>"

definition demo_deps :: "keyspace deps" where
  "demo_deps = \<lparr>dp_hash = id, dp_redis = kv, dp_RateLimiter = False, dp_RateLimit = demo_limits, dp_jwt = plain_jwt,
     dp_CustomerAccessTokenSecret = ''secret'', dp_StaffAccessTokenSecret = ''secret'', dp_TrustedProxies = [],
     dp_decimal = go_decimal,
     dp_Loyalty = \<lparr>svc_antiFraud = \<lparr>af_DailyRedeemPointsLimit = 0, af_DailyRedeemWindow = 0\<rparr>,
       svc_invites = \<lparr>inv_AppURL = [], inv_DailyStoreLimit = 0, inv_Stores = False, inv_CustomerAccounts = False, inv_Outbox = False\<rparr>\<rparr>,
     dp_CustomerAuth = demo_auth, dp_StaffAuth = demo_staff,
     dp_QR = \<lparr>qs_redis = kv, qs_hash = id, qs_cfg = \<lparr>qr_TTL = 60000000000, qr_IssueCooldown = 0, qr_ConsumeCooldown = 0\<rparr>, qs_audit = True\<rparr>,
     dp_Ready = None\<rparr>"

definition demo_request :: "string \<Rightarrow> (string \<Rightarrow> string) \<Rightarrow> 'b option \<Rightarrow> 'b request" where
  "demo_request token path body =
     \<lparr>rq_Context = \<lparr>cx_Store = None, cx_APIKey = None, cx_Customer = None, cx_Staff = None, cx_ClientIP = None\<rparr>,
      rq_Authorization = ''Bearer '' @ token, rq_PathValue = path, rq_Query = (\<lambda>_. []), rq_Body = body,
      rq_RemoteAddr = ''10.0.0.1:5000'', rq_ForwardedFor = [], rq_UserAgent = []\<rparr>"

lemma bearer_demo [simp]: "bearer (demo_request token path body) = token"
  by (simp add: bearer_def demo_request_def TrimPrefix_def)

lemma demo_request_sel [simp]:
  "rq_PathValue (demo_request token path body) = path" "rq_Body (demo_request token path body) = body"
  by (simp_all add: demo_request_def)

definition demo_store :: store where
  "demo_store = \<lparr>st_ID = 3, st_OrganizationID = 2, st_Name = ''Store'', st_Address = [], st_ExternalCode = None,
     st_SMSInviteEnabled = False, st_APIKeyHash = []\<rparr>"

definition demo_key :: store_api_key where
  "demo_key = \<lparr>key_ID = 1, key_StoreID = 3, key_KeyID = ''k'', key_KeyHash = ''s'', key_Name = [],
     key_Scopes = [ScopeTransactionsWrite], key_CreatedAt = 0, key_ExpiresAt = None, key_RevokedAt = None,
     key_LastUsedAt = None, key_CreatedBy = None\<rparr>"

definition demo_world :: "keyspace world" where
  "demo_world = \<lparr>w_db = empty_db\<lparr>db_stores := [demo_store], db_api_keys := [demo_key],
     db_organizations := [\<lparr>org_ID = 2, org_Name = ''Org'', org_CreatedAt = 0\<rparr>],
     db_staff_users := [\<lparr>su_ID = 4, su_ExternalSubject = ''sub'', su_Email = [], su_DisplayName = [], su_Status = StaffActive, su_CreatedAt = 0\<rparr>],
     db_memberships := [manager]\<rparr>, w_kv = Map.empty\<rparr>"

lemma demo_deps_sel [simp]:
  "dp_RateLimiter demo_deps = False" "dp_hash demo_deps = id" "dp_jwt demo_deps = plain_jwt"
  "dp_StaffAccessTokenSecret demo_deps = ''secret''" "dp_TrustedProxies demo_deps = []"
  by (simp_all add: demo_deps_def)

text \<open>Without a rate limiter a request meets its contour's guard at once.\<close>

lemma serve_unlimited:
  "\<not> dp_RateLimiter deps \<Longrightarrow> serve deps E rt h r = authenticated deps E rt (limited deps E 10 (rt_RateLimitProfile rt)
     (snd (rateLimitRulesFor (dp_hash deps) (rt_RateLimitProfile rt) (dp_RateLimit deps))) h) (resolved deps r)"
  by (simp add: serve_def withResolvedClientIP_def resolved_def limited_def Let_def split: prod.split)

lemma limited_off: "\<not> dp_RateLimiter deps \<Longrightarrow> limited deps E i profile rules h = h"
  by (simp add: limited_def fun_eq_iff)

lemma store_key_opens:
  "parseMultiKeyAPIKey ''k.s'' = Some (''k'', ''s'')"
  by (simp add: parseMultiKeyAPIKey_def)

lemma demo_staff_token:
  obtains tok where "IssueStaffAccessToken plain_jwt 0 ''secret'' 4 900000000000 = Some tok"
    "ParseStaffAccessToken plain_jwt 0 ''secret'' tok = Inr 4"
proof -
  obtain tok where tok: "IssueStaffAccessToken plain_jwt 0 ''secret'' 4 900000000000 = Some tok"
    using show_int_no_newline [of 4]
    by (auto simp: IssueStaffAccessToken_def issueAccessToken_def plain_jwt_def tokenTypeStaffAccess_def)
  moreover from tok have "ParseStaffAccessToken plain_jwt 0 ''secret'' tok = Inr 4"
    by (simp add: IssueStaffAccessToken_def ParseStaffAccessToken_def plain_jwt.parse_issued seconds_def in_i64_def)
  ultimately show thesis using that by blast
qed

definition store_path :: "string \<Rightarrow> string" where
  "store_path = (\<lambda>_. [])(''orgID'' := ''2'', ''storeID'' := ''3'')"

lemma store_path_eval [simp]: "parse_int (store_path ''orgID'') = Some 2" "parse_int (store_path ''storeID'') = Some 3"
  by (simp_all add: store_path_def parse_int_def is_digit_def digits_val_def digit_val_def in_i64_def)

text \<open>A name of printable ASCII characters is taken as it is.\<close>

definition printable :: "char \<Rightarrow> bool" where
  "printable c \<longleftrightarrow> 32 < (of_char c :: nat) \<and> (of_char c :: nat) < 128"

lemma space_runes_printable: "list_all (\<lambda>u. u \<noteq> [] \<and> \<not> printable (hd u) \<and> \<not> printable (last u)) space_runes"
  by (simp add: space_runes_def bytes_def printable_def upt_rec)

lemma trim_left_printable:
  assumes "list_all (\<lambda>u. u \<noteq> [] \<and> \<not> printable (hd u)) runes" "printable c"
  shows "trim_left runes (c # s) = c # s"
proof -
  have "find (\<lambda>u. take (length u) (c # s) = u) runes = None"
  proof (unfold find_None, rule ballI)
    fix u assume "u \<in> set runes"
    with assms have "u \<noteq> []" "hd u \<noteq> c" by (auto simp: list_all_iff)
    then show "take (length u) (c # s) \<noteq> u" by (cases u) auto
  qed
  then show ?thesis by (subst trim_left.simps) (simp add: leading_space_def)
qed

lemma TrimSpace_printable:
  assumes "list_all printable s"
  shows "TrimSpace s = s"
proof (cases s)
  case Nil
  then show ?thesis by (simp add: TrimSpace_def trim_left.simps)
next
  case (Cons c cs)
  have fwd: "list_all (\<lambda>u. u \<noteq> [] \<and> \<not> printable (hd u)) space_runes"
    and bwd: "list_all (\<lambda>u. u \<noteq> [] \<and> \<not> printable (hd u)) (map rev space_runes)"
    using space_runes_printable by (auto simp: list_all_iff hd_rev)
  have "trim_left space_runes s = s" using trim_left_printable [OF fwd] assms Cons by simp
  moreover have "trim_left (map rev space_runes) (rev s) = rev s"
  proof (cases "rev s")
    case (Cons x xs)
    then have "x \<in> set s" by (metis list.set_intros(1) set_rev)
    with assms have "printable x" by (simp add: list_all_iff)
    with trim_left_printable [OF bwd] Cons show ?thesis by simp
  qed (simp add: Cons)
  ultimately show ?thesis by (simp add: TrimSpace_def)
qed

lemma count_runes_ascii: "list_all (\<lambda>k. k < 128) ks \<Longrightarrow> count_runes ks = length ks"
proof (induction ks)
  case Nil
  then show ?case by (simp add: count_runes.simps)
next
  case (Cons k ks)
  then have "rune_size (k # ks) = 1" by (auto simp: rune_size_def Let_def)
  with Cons show ?case by (subst count_runes.simps) simp
qed

lemma normalizeName_printable:
  assumes "list_all printable s" "s \<noteq> []" "length s \<le> maxNameLen"
  shows "normalizeName s = Some s"
proof -
  have "list_all (\<lambda>k. k < 128) (map of_char s :: nat list)"
    using assms(1) by (auto simp: list_all_iff printable_def)
  from count_runes_ascii [OF this] assms show ?thesis
    by (simp add: normalizeName_def TrimSpace_printable RuneCountInString_def Let_def)
qed

end
