(* ===== verification/Http_Theorems.thy ===== *)
theory Http_Theorems
  imports Http_Demo
begin

text \<open>The properties of the HTTP server's guards.\<close>

section \<open>Contours\<close>

text \<open>
  C28: no store route without a key. Undisturbed, and whatever the operation, a request to a
  route of the register's contour is refused, at most noting when its key was used, or the operation runs for
  a store that is in the database and that the bearer opens: with the id and secret of one of
  its keys, active now and granted the route's scope, or with the store's legacy key.
\<close>

theorem store_route_needs_key:
  assumes "rt_Contour rt = contourStoreKey" "run_state (serve deps (quiet t) rt h r) w = (a, w')"
  shows "refused a \<and> (\<exists>key. w_db w' = touched t key (w_db w)) \<or>
    (\<exists>s key w1. opens (dp_hash deps) t (w_db w) (bearer r) s key \<and>
       (\<exists>k. key = None \<or> key = Some k \<and> HasScope k (rt_APIKeyScope rt)) \<and>
       w_db w1 = touched t key (w_db w) \<and> run_state (h (storeRequest s key (resolved deps r))) w1 = (a, w'))"
  by (rule store_route_cases [OF assms])

theorem store_route_needs_key_witness:
  "\<exists>w' s key. run_state (serve demo_deps (quiet 0) (routeTable ! 2) (\<lambda>r. writeJSON 200 (map_option st_ID (storeFromContext r)))
       (demo_request ''k.s'' (\<lambda>_. []) (None :: unit option))) demo_world = (Reply 200 (Some 3), w') \<and>
     opens id 0 (w_db demo_world) ''k.s'' s key"
proof -
  let ?h = "\<lambda>r :: unit request. writeJSON 200 (map_option st_ID (storeFromContext r))"
  have rt: "rt_Contour (routeTable ! 2) = contourStoreKey" by (simp add: routeTable_def route_def)
  obtain w' where run: "run_state (serve demo_deps (quiet 0) (routeTable ! 2) ?h (demo_request ''k.s'' (\<lambda>_. []) None)) demo_world
      = (Reply 200 (Some 3), w')"
    by (simp add: serve_unlimited limited_off authenticated_def routeTable_def route_def RequireStoreAPIKey_def store_key_opens
        run_on_db key_GetByKeyID_def store_GetByID_def demo_world_def demo_key_def demo_store_def constantTimeHashEqual_def hashAPIKey_def
        Domain.Active_def requireScope_def storeAPIKeyFromContext_def storeFromContext_def HasScope_def Let_def)
  from store_route_needs_key [OF rt run] show ?thesis using run by auto
qed

text \<open>A request to a staff route that is checked for a permission in the scope of its path.\<close>

lemma staff_route_cases:
  assumes "rt_Contour rt = contourStaff" "\<not> rt_StaffIdentityOnly rt" "\<not> rt_StaffGlobal rt"
    and "run_state (serve deps (quiet t) rt h r) w = (a, w')"
  shows "refused a \<and> w_db w' = w_db w \<or>
    (\<exists>staffUserID p scope w1. ParseStaffAccessToken (dp_jwt deps) t (dp_StaffAccessTokenSecret deps) (bearer r) = Inr staffUserID \<and>
       run_state (ResolvePrincipal (quiet t) staffUserID) w1 = (Inr p, w1) \<and> scopeFn rt (resolved deps r) = Inr scope \<and>
       principal_HasPermission p (permissionOf rt) (sc_OrganizationID scope) (sc_StoreID scope) \<and>
       w_db w1 = w_db w \<and> run_state (h (entering p (resolved deps r))) w1 = (a, w'))"
  using assms(4)
proof (cases rule: serve_cases)
  case (2 w1 h1)
  from 2(2) assms(1-3) have "run_state (RequireStaff (dp_jwt deps) (dp_StaffAccessTokenSecret deps) (quiet t) (permissionOf rt)
      (scopeFn rt) h1 (resolved deps r)) w1 = (a, w')"
    by (simp add: authenticated_def)
  from RequireStaff_cases [OF this] 2(1) show ?thesis
  proof (elim disjE conjE exE)
    fix i p w2 scope
    assume p: "run_state (ResolvePrincipal (quiet t) i) w1 = (Inr p, w2)" and run: "run_state (h1 (entering p (resolved deps r))) w2 = (a, w')"
      and rest: "ParseStaffAccessToken (dp_jwt deps) t (dp_StaffAccessTokenSecret deps) (bearer (resolved deps r)) = Inr i"
        "scopeFn rt (resolved deps r) = Inr scope" "principal_HasPermission p (permissionOf rt) (sc_OrganizationID scope) (sc_StoreID scope)"
    from 2(3) [OF run] show ?thesis
    proof (elim disjE conjE exE)
      fix w3 assume w3: "w_db w3 = w_db w2" "run_state (h (entering p (resolved deps r))) w3 = (a, w')"
      have "run_state (ResolvePrincipal (quiet t) i) w3 = (Inr p, w3)"
        using p w3(1) by (auto simp: ResolvePrincipal_quiet loadPrincipal_quiet split: option.splits if_splits)
      moreover have "w_db w3 = w_db w" using principal_rows [OF p] w3(1) 2(1) by simp
      ultimately show ?thesis using w3(2) rest by auto
    qed (use principal_rows [OF p] 2(1) in auto)
  qed auto
qed simp

text \<open>
  C30: staff stay in their stores. Undisturbed, a request to a store-scoped admin route is
  refused without changing a table, or its operation runs on a store that is in the database
  under the organization and the store id of the path, for an active staff user whose access
  token it carries and one of whose active memberships grants the route's permission in that
  organization and store.
\<close>

theorem admin_store_route_isolated:
  assumes "rt_Contour rt = contourStaff" "\<not> rt_StaffIdentityOnly rt" "\<not> rt_StaffGlobal rt" "rt_StaffScope rt = Some staffScopeStore"
    "run_state (serve deps (quiet t) rt (\<lambda>r. resolveScopedStore (quiet t) (f r) r) r) w = (a, w')"
  shows "refused a \<and> w_db w' = w_db w \<or>
    (\<exists>staffUserID p store w1. ParseStaffAccessToken (dp_jwt deps) t (dp_StaffAccessTokenSecret deps) (bearer r) = Inr staffUserID \<and>
       list_ex (\<lambda>u. su_ID u = staffUserID \<and> su_Status u = StaffActive) (db_staff_users (w_db w)) \<and> sp_StaffUserID p = staffUserID \<and>
       store \<in> set (db_stores (w_db w)) \<and> parse_int (rq_PathValue r ''storeID'') = Some (st_ID store) \<and>
       parse_int (rq_PathValue r ''orgID'') = Some (st_OrganizationID store) \<and>
       list_ex (grants staffUserID (permissionOf rt) (st_OrganizationID store) (Some (st_ID store))) (db_memberships (w_db w)) \<and>
       w_db w1 = w_db w \<and>
       run_state (f (entering p (resolved deps r)) store (st_OrganizationID store)) w1 = (a, w'))"
  using staff_route_cases [OF assms(1-3,5)]
proof (elim disjE conjE exE)
  fix i p scope w1
  assume parse: "ParseStaffAccessToken (dp_jwt deps) t (dp_StaffAccessTokenSecret deps) (bearer r) = Inr i"
    and p: "run_state (ResolvePrincipal (quiet t) i) w1 = (Inr p, w1)" and scope: "scopeFn rt (resolved deps r) = Inr scope"
    and perm: "principal_HasPermission p (permissionOf rt) (sc_OrganizationID scope) (sc_StoreID scope)" and db: "w_db w1 = w_db w"
    and run: "run_state (resolveScopedStore (quiet t) (f (entering p (resolved deps r))) (entering p (resolved deps r))) w1 = (a, w')"
  from scope assms(4) obtain orgID storeID where path: "parse_int (rq_PathValue r ''orgID'') = Some orgID"
      "parse_int (rq_PathValue r ''storeID'') = Some storeID" "scope = \<lparr>sc_OrganizationID = orgID, sc_StoreID = Some storeID\<rparr>"
    by (auto simp: scopeFn_def storeScopeFromPath_def split: option.splits)
  note rows = principal_rows [OF p]
  show ?thesis
  proof (cases "\<exists>s. find (\<lambda>s. st_ID s = storeID) (db_stores (w_db w1)) = Some s \<and> st_OrganizationID s = orgID")
    case True
    then obtain s where s: "find (\<lambda>s. st_ID s = storeID) (db_stores (w_db w1)) = Some s" "st_OrganizationID s = orgID" by blast
    with run path have "run_state (f (entering p (resolved deps r)) s orgID) w1 = (a, w')" by (simp add: resolveScopedStore_quiet)
    with find_SomeD [OF s(1)] parse s(2) path db rows perm show ?thesis
      by (intro disjI2 exI [of _ i] exI [of _ p] exI [of _ s] exI [of _ w1]) auto
  next
    case False
    with run path db show ?thesis by (auto simp: resolveScopedStore_quiet split: option.splits)
  qed
qed simp

theorem admin_store_route_isolated_witness:
  "\<exists>tok w'. run_state (serve demo_deps (quiet 0) (routeTable ! 23)
       (\<lambda>r. resolveScopedStore (quiet 0) (\<lambda>store _. writeJSON 200 (st_ID store)) r) (demo_request tok store_path (None :: unit option)))
       demo_world = (Reply 200 3, w') \<and>
     list_ex (grants 4 PermStoresRead 2 (Some 3)) (db_memberships (w_db demo_world))"
proof -
  obtain tok where tok: "IssueStaffAccessToken plain_jwt 0 ''secret'' 4 900000000000 = Some tok"
      "ParseStaffAccessToken plain_jwt 0 ''secret'' tok = Inr 4"
    by (rule demo_staff_token)
  have "tok \<noteq> []" using tok(1) by (auto simp: IssueStaffAccessToken_def issueAccessToken_def plain_jwt_def split: if_splits)
  let ?h = "\<lambda>(p :: unit request) store (org :: int). writeJSON 200 (st_ID store) :: (keyspace world, int response) state"
  have rt: "rt_Contour (routeTable ! 23) = contourStaff" "\<not> rt_StaffIdentityOnly (routeTable ! 23)" "\<not> rt_StaffGlobal (routeTable ! 23)"
    "rt_StaffScope (routeTable ! 23) = Some staffScopeStore" "permissionOf (routeTable ! 23) = PermStoresRead"
    by (simp_all add: routeTable_def route_def permissionOf_def)
  obtain w' where run: "run_state (serve demo_deps (quiet 0) (routeTable ! 23) (\<lambda>r. resolveScopedStore (quiet 0) (?h r) r)
      (demo_request tok store_path None)) demo_world = (Reply 200 3, w')"
    using tok(2) \<open>tok \<noteq> []\<close> rt
    by (simp add: serve_unlimited limited_off authenticated_def RequireStaff_def Let_def ResolvePrincipal_quiet loadPrincipal_quiet
        scopeFn_def storeScopeFromPath_def resolveScopedStore_quiet demo_world_def demo_store_def manager_def
        principal_HasPermission_def IsPlatformAdmin_def HasPermission_def)
  from admin_store_route_isolated [OF rt(1-4) run] rt(5) tok(2) show ?thesis using run by auto
qed

end
