(* ===== verification/Key_Theorems.thy ===== *)
theory Key_Theorems
  imports Http_Demo Http_Keys Token_Theorems
begin

text \<open>The life of a store's API key, from the handler that creates it to the guard that checks it.\<close>

section \<open>Creation\<close>

lemma checkScopes_Inr:
  "checkScopes acc ss = Inr scopes \<Longrightarrow> set scopes = set acc \<union> set ss \<and> set ss \<subseteq> set validAPIKeyScopes"
  by (induction acc ss rule: checkScopes.induct) (auto split: if_splits)

lemma audit_keeps [simp]:
  "db_api_keys (snd (run_state (audit_Create now e) d)) = db_api_keys d"
  "db_stores (snd (run_state (audit_Create now e) d)) = db_stores d"
  "db_memberships (snd (run_state (audit_Create now e) d)) = db_memberships d"
  "db_loyalty_configs (snd (run_state (audit_Create now e) d)) = db_loyalty_configs d"
  "db_staff_users (snd (run_state (audit_Create now e) d)) = db_staff_users d"
  by (simp_all add: audit_Create_def run_andThen Let_def)

lemma run_auditCreate:
  "run_state (auditCreate (quiet t) k ty actor act org st tt ti ip ua) w =
     (Inr (), w\<lparr>w_db := snd (run_state (audit_Create t
        ((audit_of ty actor act ip ua)\<lparr>aud_OrganizationID := org, aud_StoreID := st, aud_TargetType := tt, aud_TargetID := ti\<rparr>)) (w_db w))\<rparr>)"
  by (simp add: auditCreate_def Let_def run_on_db)

definition stored_key :: "hash \<Rightarrow> nat list \<Rightarrow> store \<Rightarrow> create_key_body \<Rightarrow> string list \<Rightarrow> store_api_key \<Rightarrow> bool" where
  "stored_key sha s store body scopes k \<longleftrightarrow> key_StoreID k = st_ID store \<and> key_KeyHash k = sha (base64url s) \<and>
     key_Scopes k = scopes \<and> key_ExpiresAt k = ck_ExpiresAt body \<and> key_RevokedAt k = None"

lemma created_key_state:
  assumes "run_state (handleCreateStoreAPIKey sha (quiet t) (Some i) (Some s) r) w = (Reply 201 ans, w')" "rq_Body r = Some body"
  obtains store scopes k where "find (\<lambda>s. st_ID s = st_ID store) (db_stores (w_db w)) = Some store"
    "parse_int (rq_PathValue r ''storeID'') = Some (st_ID store)" "parse_int (rq_PathValue r ''orgID'') = Some (st_OrganizationID store)"
    "set scopes = set (ck_Scopes body)" "set (ck_Scopes body) \<subseteq> set validAPIKeyScopes"
    "cka_PlaintextKey ans = base64url i @ CHR ''.'' # base64url s" "stored_key sha s store body scopes k"
    "find (\<lambda>k. key_KeyID k = base64url i) (db_api_keys (w_db w')) = Some k" "db_stores (w_db w') = db_stores (w_db w)"
proof -
  from assms(1) obtain orgID storeID store where
    store: "parse_int (rq_PathValue r ''orgID'') = Some orgID" "parse_int (rq_PathValue r ''storeID'') = Some storeID"
      "find (\<lambda>s. st_ID s = storeID) (db_stores (w_db w)) = Some store" "st_OrganizationID store = orgID"
    by (auto simp: handleCreateStoreAPIKey_def resolveScopedStore_quiet split: option.splits if_splits)
  from find_SomeD [OF store(3)] have storeID: "storeID = st_ID store" by simp
  from assms store obtain name scopes where
    scopes: "checkScopes [] (ck_Scopes body) = Inr scopes" and
    run: "run_state (createKey sha (quiet t) (Some i) (Some s) r store orgID name scopes (ck_ExpiresAt body)) w = (Reply 201 ans, w')"
    by (auto simp: handleCreateStoreAPIKey_def resolveScopedStore_quiet split: option.splits sum.splits if_splits)
  let ?k = "\<lparr>key_ID = 0, key_StoreID = st_ID store, key_KeyID = base64url i, key_KeyHash = sha (base64url s), key_Name = name,
    key_Scopes = scopes, key_CreatedAt = 0, key_ExpiresAt = ck_ExpiresAt body, key_RevokedAt = None, key_LastUsedAt = None,
    key_CreatedBy = actorStaffUserID r\<rparr>"
  obtain res d where res: "run_state (key_Create t ?k) (w_db w) = (res, d)" by fastforce
  with run obtain key where key: "res = Inr key" "cka_PlaintextKey ans = base64url i @ CHR ''.'' # base64url s"
      "db_api_keys (w_db w') = db_api_keys d" "db_stores (w_db w') = db_stores d"
    by (cases res) (auto simp: createKey_def GenerateAPIKey_def Let_def run_on_db HashOpaqueToken_def run_auditCreate)
  from res key(1) obtain row where row: "db_api_keys d = db_api_keys (w_db w) @ [row]" "db_stores d = db_stores (w_db w)"
      "stored_key sha s store body scopes row" "key_KeyID row = base64url i"
      "find (\<lambda>k. key_KeyID k = base64url i) (db_api_keys (w_db w)) = None"
    by (auto simp: key_Create_def run_andThen Let_def stored_key_def find_None list_ex_iff split: if_splits)
  show thesis
  proof (rule that)
    show "find (\<lambda>s. st_ID s = st_ID store) (db_stores (w_db w)) = Some store" using store(3) storeID by simp
    show "find (\<lambda>k. key_KeyID k = base64url i) (db_api_keys (w_db w')) = Some row" using row key by (simp add: find_append)
    show "set scopes = set (ck_Scopes body)" "set (ck_Scopes body) \<subseteq> set validAPIKeyScopes" using checkScopes_Inr [OF scopes] by auto
  qed (use store storeID row key in auto)
qed

text \<open>
  C31: a created key opens its store with its scopes. Undisturbed, the plaintext key that the
  creating handler answers lets a request through as the store of the handler's path, exactly
  for the scopes that were asked for, all of them valid, and until it expires; then it is refused.
\<close>

theorem created_key_grants_scopes:
  assumes "run_state (handleCreateStoreAPIKey sha (quiet t) (Some i) (Some s) r) w = (Reply 201 ans, w')"
    "rq_Body r = Some body" "list_all is_byte i" "i \<noteq> []" "s \<noteq> []" "bearer r' = cka_PlaintextKey ans"
  shows "\<exists>store key w1. store \<in> set (db_stores (w_db w)) \<and> parse_int (rq_PathValue r ''storeID'') = Some (st_ID store) \<and>
    parse_int (rq_PathValue r ''orgID'') = Some (st_OrganizationID store) \<and> key_StoreID key = st_ID store \<and>
    set (key_Scopes key) = set (ck_Scopes body) \<and> set (ck_Scopes body) \<subseteq> set validAPIKeyScopes \<and>
    run_state (RequireStoreAPIKey sha (quiet t') (requireScope scope h) r') w' =
      (if (case ck_ExpiresAt body of None \<Rightarrow> False | Some e \<Rightarrow> e < t') then (Refuse 401 ''invalid api key'', w')
       else if scope \<in> set (ck_Scopes body) then run_state (h (storeRequest store (Some key) r')) w1
       else (Refuse 403 (''api key missing required scope: '' @ scope), w1))"
  using assms(1,2)
proof (rule created_key_state)
  fix store scopes k
  assume store: "find (\<lambda>s. st_ID s = st_ID store) (db_stores (w_db w)) = Some store"
      "parse_int (rq_PathValue r ''storeID'') = Some (st_ID store)" "parse_int (rq_PathValue r ''orgID'') = Some (st_OrganizationID store)"
    and scopes: "set scopes = set (ck_Scopes body)" "set (ck_Scopes body) \<subseteq> set validAPIKeyScopes"
    and key: "cka_PlaintextKey ans = base64url i @ CHR ''.'' # base64url s" "stored_key sha s store body scopes k"
      "find (\<lambda>k. key_KeyID k = base64url i) (db_api_keys (w_db w')) = Some k" "db_stores (w_db w') = db_stores (w_db w)"
  let ?w1 = "w'\<lparr>w_db := touched t' (Some k) (w_db w')\<rparr>"
  have token: "bearer r' \<noteq> []" "parseMultiKeyAPIKey (bearer r') = Some (base64url i, base64url s)"
    using assms(3-6) key(1) by (simp_all add: parseMultiKeyAPIKey_def cut_append base64url_no_dot base64url_Nil)
  have active: "Domain.Active k t' \<longleftrightarrow> \<not> (case ck_ExpiresAt body of None \<Rightarrow> False | Some e \<Rightarrow> e < t')"
    using key(2) by (auto simp: stored_key_def Domain.Active_def split: option.split)
  have scope: "HasScope k scope \<longleftrightarrow> scope \<in> set (ck_Scopes body)"
    using key(2) scopes(1) by (simp add: HasScope_iff stored_key_def)
  have "find (\<lambda>s. st_ID s = key_StoreID k) (db_stores (w_db w')) = Some store"
    using store(1) key(2,4) by (simp add: stored_key_def)
  then have run: "run_state (RequireStoreAPIKey sha (quiet t') (requireScope scope h) r') w' =
      (if \<not> Domain.Active k t' then (Refuse 401 ''invalid api key'', w')
       else run_state (requireScope scope h (storeRequest store (Some k) r')) ?w1)"
    using token key(2,3)
    by (simp add: RequireStoreAPIKey_def Let_def run_on_db key_GetByKeyID_def constantTimeHashEqual_def hashAPIKey_def
        stored_key_def store_GetByID_def storeRequest_def touched_def)
  have "run_state (requireScope scope h (storeRequest store (Some k) r')) ?w1 =
      (if scope \<in> set (ck_Scopes body) then run_state (h (storeRequest store (Some k) r')) ?w1
       else (Refuse 403 (''api key missing required scope: '' @ scope), ?w1))"
    by (simp add: requireScope_def scope)
  with run active have "run_state (RequireStoreAPIKey sha (quiet t') (requireScope scope h) r') w' =
      (if (case ck_ExpiresAt body of None \<Rightarrow> False | Some e \<Rightarrow> e < t') then (Refuse 401 ''invalid api key'', w')
       else if scope \<in> set (ck_Scopes body) then run_state (h (storeRequest store (Some k) r')) ?w1
       else (Refuse 403 (''api key missing required scope: '' @ scope), ?w1))"
    by simp
  moreover from find_SomeD [OF store(1)] have "store \<in> set (db_stores (w_db w))" by simp
  ultimately show ?thesis using store(2,3) scopes key(2)
    by (intro exI [of _ store] exI [of _ k] exI [of _ ?w1]) (simp add: stored_key_def)
qed

definition new_key :: create_key_body where
  "new_key = \<lparr>ck_Name = ''Till'', ck_Scopes = [ScopeClientsLookup], ck_ExpiresAt = None\<rparr>"

lemma till_name: "normalizeName ''Till'' = Some ''Till''"
  by (rule normalizeName_printable) (simp_all add: printable_def maxNameLen_def)

lemma demo_store_found: "find (\<lambda>s. st_ID s = 3) (db_stores (w_db demo_world)) = Some demo_store" "st_OrganizationID demo_store = 2"
  by (simp_all add: demo_world_def demo_store_def)

lemma demo_created:
  "\<exists>ans w'. run_state (createKey id (quiet 0) (Some [1]) (Some [2]) (demo_request [] store_path (Some new_key)) demo_store 2 ''Till''
     [ScopeClientsLookup] None) demo_world = (Reply 201 ans, w')"
proof -
  let ?k = "\<lparr>key_ID = 0, key_StoreID = 3, key_KeyID = base64url [1], key_KeyHash = base64url [2], key_Name = ''Till'',
    key_Scopes = [ScopeClientsLookup], key_CreatedAt = 0, key_ExpiresAt = None, key_RevokedAt = None, key_LastUsedAt = None,
    key_CreatedBy = None\<rparr>"
  have "\<exists>key d. run_state (key_Create 0 ?k) (w_db demo_world) = (Inr key, d)"
    by (simp add: key_Create_def run_andThen demo_world_def demo_key_def demo_store_def Let_def base64_char_def)
  moreover have "actorStaffUserID (demo_request [] store_path (Some new_key)) = None" "st_ID demo_store = 3"
    by (simp_all add: actorStaffUserID_def staffFromContext_def demo_request_def demo_store_def)
  ultimately show ?thesis
    by (auto simp: createKey_def GenerateAPIKey_def Let_def run_on_db HashOpaqueToken_def run_auditCreate simp del: base64url.simps)
qed

theorem created_key_grants_scopes_witness:
  "\<exists>ans w'. run_state (handleCreateStoreAPIKey id (quiet 0) (Some [1]) (Some [2]) (demo_request [] store_path (Some new_key))) demo_world
       = (Reply 201 ans, w') \<and>
     fst (run_state (RequireStoreAPIKey id (quiet 5) (requireScope ScopeClientsLookup (\<lambda>r. writeJSON 200 (map_option st_ID (storeFromContext r))))
       (demo_request (cka_PlaintextKey ans) (\<lambda>_. []) (None :: unit option))) w') = Reply 200 (Some 3)"
proof -
  let ?r = "demo_request [] store_path (Some new_key)"
  obtain ans w' where run: "run_state (handleCreateStoreAPIKey id (quiet 0) (Some [1]) (Some [2]) ?r) demo_world = (Reply 201 ans, w')"
    using demo_created
    by (auto simp: handleCreateStoreAPIKey_def resolveScopedStore_quiet demo_store_found new_key_def till_name validAPIKeyScopes_def)
  let ?h = "\<lambda>r :: unit request. writeJSON 200 (map_option st_ID (storeFromContext r)) :: (keyspace world, int option response) state"
  let ?q = "demo_request (cka_PlaintextKey ans) (\<lambda>_. []) (None :: unit option)"
  have prems: "rq_Body ?r = Some new_key" "list_all is_byte [1]" "[1] \<noteq> ([] :: nat list)" "[2] \<noteq> ([] :: nat list)" "bearer ?q = cka_PlaintextKey ans"
    by (simp_all add: is_byte_def)
  obtain store key w1 where "parse_int (rq_PathValue ?r ''storeID'') = Some (st_ID store)" and
    served: "run_state (RequireStoreAPIKey id (quiet 5) (requireScope ScopeClientsLookup ?h) ?q) w' =
      (if (case ck_ExpiresAt new_key of None \<Rightarrow> False | Some e \<Rightarrow> e < 5) then (Refuse 401 ''invalid api key'', w')
       else if ScopeClientsLookup \<in> set (ck_Scopes new_key) then run_state (?h (storeRequest store (Some key) ?q)) w1
       else (Refuse 403 (''api key missing required scope: '' @ ScopeClientsLookup), w1))"
    using created_key_grants_scopes [OF run prems, of 5 ScopeClientsLookup ?h] by blast
  then have "st_ID store = 3" by simp
  with served run show ?thesis by (intro exI [of _ ans] exI [of _ w']) (simp add: new_key_def)
qed

section \<open>Revocation\<close>

definition key_dead :: "string \<Rightarrow> db \<Rightarrow> bool" where
  "key_dead keyID d \<longleftrightarrow> list_ex (\<lambda>k. key_KeyID k = keyID \<and> key_RevokedAt k \<noteq> None) (db_api_keys d)"

lemma key_dead_same: "db_api_keys d' = db_api_keys d \<Longrightarrow> key_dead i d \<Longrightarrow> key_dead i d'"
  by (simp add: key_dead_def)

lemma key_dead_map:
  assumes "key_dead i d" "db_api_keys d' = map f (db_api_keys d)"
    "\<And>k. key_KeyID (f k) = key_KeyID k" "\<And>k. key_RevokedAt k \<noteq> None \<Longrightarrow> key_RevokedAt (f k) \<noteq> None"
  shows "key_dead i d'"
  using assms by (auto simp: key_dead_def list_ex_iff)

lemma keys_kept:
  "db_api_keys (after (session_Create now s) d) = db_api_keys d"
  "db_api_keys (after (revoke_sessions now P) d) = db_api_keys d"
  "db_api_keys (after (device_Upsert now v) d) = db_api_keys d"
  "db_api_keys (after (revoke_devices now Q) d) = db_api_keys d"
  "db_api_keys (after (membership_Create now m) d) = db_api_keys d"
  "db_api_keys (after (update_membership i f) d) = db_api_keys d"
  by (auto simp: session_Create_def revoke_sessions_def device_Upsert_def revoke_devices_def membership_Create_def
      update_membership_def run_andThen Let_def split: option.split)

lemma device_kept:
  "db_api_keys (after (device_Revoke now i acc) d) = db_api_keys d"
  "db_api_keys (after (device_RevokeByToken now token) d) = db_api_keys d"
  by (simp_all add: device_Revoke_def device_RevokeByToken_def revoke_devices_def run_andThen)

lemma claim_keeps_keys: "db_api_keys (after (session_ClaimForRotation tf clock now h s) d) = db_api_keys d"
proof (cases rule: ClaimForRotation_cases [of tf clock now h s d])
  case (rotated old new d1)
  let ?n = "s\<lparr>ses_CustomerAccountID := ses_CustomerAccountID old\<rparr>"
  have "d1 = after (session_Create now ?n) d" by (simp add: rotated(4))
  then have "db_api_keys d1 = db_api_keys d" by (simp add: keys_kept(1))
  then show ?thesis by (simp add: rotated(5) session_link_def)
next
  case (failed e d')
  then show ?thesis by (simp add: identity_tables_def)
next
  case (reused old)
  then show ?thesis by simp
qed

definition revoking :: "time \<Rightarrow> int \<Rightarrow> int \<Rightarrow> store_api_key \<Rightarrow> store_api_key" where
  "revoking now s i k = (if key_ID k = i \<and> key_StoreID k = s \<and> key_RevokedAt k = None then k\<lparr>key_RevokedAt := Some now\<rparr> else k)"

lemma revoking_sel [simp]: "key_KeyID (revoking now s i k) = key_KeyID k"
  by (simp add: revoking_def)

lemma run_key_Revoke:
  "run_state (key_Revoke now s i) d =
     (if list_ex (\<lambda>k. key_ID k = i \<and> key_StoreID k = s \<and> key_RevokedAt k = None) (db_api_keys d)
      then (Inr (), d\<lparr>db_api_keys := map (revoking now s i) (db_api_keys d)\<rparr>) else (Inl ErrNotFound, d))"
  by (simp add: key_Revoke_def Let_def revoking_def)

lemma key_Revoke_dead: "key_dead x d \<Longrightarrow> key_dead x (after (key_Revoke now s i) d)"
  by (auto simp: run_key_Revoke intro!: key_dead_map [of x d _ "revoking now s i"]) (simp add: revoking_def)

lemma identity_step_dead: "identity_step d d' \<Longrightarrow> key_dead i d \<Longrightarrow> key_dead i d'"
proof (induction rule: identity_step.induct)
  case (create_key d now k)
  then show ?case by (auto simp: key_dead_def key_Create_def run_andThen Let_def)
next
  case (revoke_key d now s i)
  then show ?case by (simp add: key_Revoke_dead)
next
  case (touch_key d i now)
  then show ?case
    by (rule key_dead_map [where f = "\<lambda>k. if key_ID k = i then k\<lparr>key_LastUsedAt := Some now\<rparr> else k"])
      (auto simp: key_TouchLastUsed_def)
next
  case revoke_device
  then show ?case by (rule key_dead_same [OF device_kept(1)])
next
  case revoke_token
  then show ?case by (rule key_dead_same [OF device_kept(2)])
next
  case (other d' d)
  then show ?case by (auto simp: identity_tables_def intro: key_dead_same)
next
  case create_session
  then show ?case by (rule key_dead_same [OF keys_kept(1)])
next
  case claim_session
  then show ?case by (rule key_dead_same [OF claim_keeps_keys])
next
  case revoke_session
  then show ?case unfolding session_Revoke_def by (rule key_dead_same [OF keys_kept(2)])
next
  case revoke_account
  then show ?case unfolding session_RevokeAllForAccount_def by (rule key_dead_same [OF keys_kept(2)])
next
  case upsert_device
  then show ?case by (rule key_dead_same [OF keys_kept(3)])
next
  case create_membership
  then show ?case by (rule key_dead_same [OF keys_kept(5)])
next
  case update_status
  then show ?case unfolding membership_UpdateStatus_def by (rule key_dead_same [OF keys_kept(6)])
next
  case update_role
  then show ?case unfolding membership_UpdateRole_def by (rule key_dead_same [OF keys_kept(6)])
qed

lemma identity_steps_dead: "identity_step\<^sup>*\<^sup>* d d' \<Longrightarrow> key_dead i d \<Longrightarrow> key_dead i d'"
  by (induction rule: rtranclp_induct) (auto intro: identity_step_dead)

lemma identity_steps_wf: "identity_step\<^sup>*\<^sup>* d d' \<Longrightarrow> identity_wf d \<Longrightarrow> identity_wf d'"
  by (induction rule: rtranclp_induct) (auto intro: identity_step_wf)

lemma audit_step: "identity_step d (after (audit_Create now e) d)"
  by (rule identity_step.other) (simp_all add: audit_Create_def run_andThen Let_def identity_tables_def)

lemma revoked_state:
  assumes "run_state (handleRevokeStoreAPIKey (quiet t) r) w = (Header 204, w')"
    "k \<in> set (db_api_keys (w_db w))" "parse_int (rq_PathValue r ''keyID'') = Some (key_ID k)"
    "parse_int (rq_PathValue r ''storeID'') = Some (key_StoreID k)"
  shows "key_dead (key_KeyID k) (w_db w') \<and> identity_step\<^sup>*\<^sup>* (w_db w) (w_db w')"
proof -
  obtain res d where res: "run_state (key_Revoke t (key_StoreID k) (key_ID k)) (w_db w) = (res, d)" by fastforce
  from assms(1,3,4) obtain orgID store where store: "parse_int (rq_PathValue r ''orgID'') = Some orgID"
      "find (\<lambda>s. st_ID s = key_StoreID k) (db_stores (w_db w)) = Some store" "st_OrganizationID store = orgID"
    by (auto simp: handleRevokeStoreAPIKey_def resolveScopedStore_quiet split: option.splits if_splits)
  from find_SomeD [OF store(2)] have "st_ID store = key_StoreID k" by simp
  with assms(1,3,4) store res obtain e where ok: "res = Inr ()" "w_db w' = after (audit_Create t e) d"
    by (cases res) (auto simp: handleRevokeStoreAPIKey_def resolveScopedStore_quiet run_on_db run_auditCreate Let_def
        key_ListByStore_def split: if_splits)
  from res have d: "d = after (key_Revoke t (key_StoreID k) (key_ID k)) (w_db w)" by simp
  have "key_dead (key_KeyID k) d"
    using res ok(1) assms(2)
    by (auto simp: run_key_Revoke key_dead_def list_ex_iff revoking_def split: if_splits
        intro!: bexI [of _ "revoking t (key_StoreID k) (key_ID k) k"])
  moreover have "identity_step (w_db w) d" unfolding d by (rule identity_step.revoke_key)
  ultimately show ?thesis
    using ok(2) audit_step [of d t e] by (auto intro: identity_step_dead rtranclp.rtrancl_into_rtrancl)
qed

text \<open>
  C32: a revoked key never opens the store again. Once the revoking handler answered 204 for a
  key, every request whose bearer names that key is refused, at any time, with any secret and
  for any scope, after whatever else happened to sessions, devices, memberships and keys.
\<close>

theorem revoked_key_stays_refused:
  assumes "identity_wf (w_db w)" "run_state (handleRevokeStoreAPIKey (quiet t) r) w = (Header 204, w')"
    "k \<in> set (db_api_keys (w_db w))" "parse_int (rq_PathValue r ''keyID'') = Some (key_ID k)"
    "parse_int (rq_PathValue r ''storeID'') = Some (key_StoreID k)"
    "identity_step\<^sup>*\<^sup>* (w_db w') (w_db v)" "parseMultiKeyAPIKey (bearer r') = Some (key_KeyID k, secret)"
  shows "run_state (RequireStoreAPIKey sha (quiet t') h r') v = (Refuse 401 ''invalid api key'', v)"
proof -
  note revoked = revoked_state [OF assms(2-5)]
  have dead: "key_dead (key_KeyID k) (w_db v)" using identity_steps_dead [OF assms(6)] revoked by blast
  have "identity_step\<^sup>*\<^sup>* (w_db w) (w_db v)" using assms(6) revoked by auto
  then have "identity_wf (w_db v)" using assms(1) by (rule identity_steps_wf)
  then have "distinct (map key_KeyID (db_api_keys (w_db v)))" by (simp add: identity_wf_def)
  moreover from dead obtain row where row: "row \<in> set (db_api_keys (w_db v))" "key_KeyID row = key_KeyID k" "key_RevokedAt row \<noteq> None"
    by (auto simp: key_dead_def list_ex_iff)
  ultimately have found: "find (\<lambda>x. key_KeyID x = key_KeyID k) (db_api_keys (w_db v)) = Some row"
    using find_key [of key_KeyID "db_api_keys (w_db v)" row] by simp
  have "bearer r' \<noteq> []" using assms(7) by (auto simp: parseMultiKeyAPIKey_def)
  with row(3) found assms(7) show ?thesis
    by (auto simp: RequireStoreAPIKey_def Let_def run_on_db key_GetByKeyID_def Domain.Active_def)
qed

lemma demo_world_wf: "identity_wf (w_db demo_world)"
  by (simp add: identity_wf_def demo_world_def empty_db_def one_active_def)

lemma demo_key_row: "demo_key \<in> set (db_api_keys (w_db demo_world))" "key_ID demo_key = 1" "key_StoreID demo_key = 3"
    "key_KeyID demo_key = ''k''"
  by (simp_all add: demo_world_def demo_key_def)

definition revoke_path :: "string \<Rightarrow> string" where
  "revoke_path = store_path(''keyID'' := ''1'')"

theorem revoked_key_stays_refused_witness:
  "\<exists>w'. run_state (handleRevokeStoreAPIKey (quiet 7) (demo_request [] revoke_path (None :: unit option))) demo_world = (Header 204, w') \<and>
     fst (run_state (RequireStoreAPIKey id (quiet 9) (\<lambda>_. writeHeader 200) (demo_request ''k.s'' (\<lambda>_. []) (None :: unit option))) w')
       = (Refuse 401 ''invalid api key'' :: unit response)"
proof -
  have path: "parse_int (revoke_path ''orgID'') = Some 2" "parse_int (revoke_path ''storeID'') = Some 3" "parse_int (revoke_path ''keyID'') = Some 1"
    by (simp_all add: revoke_path_def) (simp add: parse_int_def is_digit_def digits_val_def digit_val_def in_i64_def)
  obtain w' where run: "run_state (handleRevokeStoreAPIKey (quiet 7) (demo_request [] revoke_path (None :: unit option))) demo_world = (Header 204, w')"
    by (simp add: handleRevokeStoreAPIKey_def resolveScopedStore_quiet demo_store_found path run_on_db run_key_Revoke run_auditCreate
        key_ListByStore_def demo_world_def demo_key_def demo_store_def Let_def)
  have "run_state (RequireStoreAPIKey id (quiet 9) (\<lambda>_. writeHeader 200) (demo_request ''k.s'' (\<lambda>_. []) (None :: unit option))) w'
      = (Refuse 401 ''invalid api key'' :: unit response, w')"
    by (rule revoked_key_stays_refused [OF demo_world_wf run demo_key_row(1)])
      (simp_all add: demo_key_row store_key_opens path)
  with run show ?thesis by (intro exI [of _ w']) simp
qed

end
