(* ===== verification/Mux.thy ===== *)
theory Mux
  imports Dispatch
begin

text \<open>
  The router of \<open>New\<close>: Go's \<open>http.ServeMux\<close> with one pattern \<open>METHOD path\<close> per route. A request's
  path is the list of its segments, decoded and cleaned as the mux does before it matches; a path
  with a trailing slash ends in an empty segment. A wildcard \<open>{name}\<close> takes one segment, but neither
  the empty one nor one that decodes to a slash, which the mux takes for the trailing slash.
  \<open>HEAD\<close> requests are served as \<open>GET\<close>. The one pattern outside the route table, \<open>GET /metrics\<close>, is not part of the model.
\<close>

section \<open>Patterns\<close>

datatype segment = Literal string | Wildcard string

definition parse_segment :: "string \<Rightarrow> segment" where
  "parse_segment s =
     (if s \<noteq> [] \<and> hd s = CHR ''{'' \<and> last s = CHR ''}'' then Wildcard (butlast (tl s)) else Literal s)"

text \<open>A pattern begins with a slash, so its first piece is empty.\<close>

definition pattern_of :: "string \<Rightarrow> segment list" where
  "pattern_of path = map parse_segment (tl (split_on CHR ''/'' path))"

fun match_segments :: "segment list \<Rightarrow> string list \<Rightarrow> (string \<rightharpoonup> string) option" where
  "match_segments [] [] = Some Map.empty"
| "match_segments (Literal l # ps) (s # ss) = (if l = s then match_segments ps ss else None)"
| "match_segments (Wildcard n # ps) (s # ss) =
     (if s = [] \<or> s = ''/'' then None else map_option (\<lambda>m. m(n \<mapsto> s)) (match_segments ps ss))"
| "match_segments _ _ = None"

definition route_match :: "route_meta \<Rightarrow> string list \<Rightarrow> (string \<rightharpoonup> string) option" where
  "route_match rt path = match_segments (pattern_of (rt_Path rt)) path"

section \<open>Dispatch\<close>

datatype dispatched = Matched route_meta "string \<rightharpoonup> string" | MethodNotAllowed | NoRoute

definition mux :: "http_method \<Rightarrow> string list \<Rightarrow> dispatched" where
  "mux meth path =
     (case find (\<lambda>rt. rt_Method rt = meth \<and> route_match rt path \<noteq> None) routeTable of
        Some rt \<Rightarrow> Matched rt (the (route_match rt path))
      | None \<Rightarrow> if list_ex (\<lambda>rt. route_match rt path \<noteq> None) routeTable then MethodNotAllowed else NoRoute)"

text \<open>\<open>PathValue\<close> of a name without a wildcard is empty. Every route has a handler (\<open>routes_handled\<close>), so the inner 404 is never answered.\<close>

definition with_path :: "(string \<rightharpoonup> string) \<Rightarrow> 'b request \<Rightarrow> 'b request" where
  "with_path vals r = r\<lparr>rq_PathValue := (\<lambda>n. case vals n of None \<Rightarrow> [] | Some v \<Rightarrow> v)\<rparr>"

definition serveHTTP ::
    "json_lib \<Rightarrow> 'k deps \<Rightarrow> 'k world env \<Rightarrow> db env \<Rightarrow> draws \<Rightarrow> http_method \<Rightarrow> string list \<Rightarrow> ('k, string, reply) handler" where
  "serveHTTP J deps E L draws meth path r =
     (case mux meth path of
        NoRoute \<Rightarrow> writeError 404 ''404 page not found''
      | MethodNotAllowed \<Rightarrow> writeError 405 ''Method Not Allowed''
      | Matched rt vals \<Rightarrow>
          (case handle J deps E L draws rt of
             None \<Rightarrow> writeError 404 ''404 page not found''
           | Some h \<Rightarrow> h (with_path vals r)))"

section \<open>No request has two routes\<close>

fun overlap :: "segment list \<Rightarrow> segment list \<Rightarrow> bool" where
  "overlap [] [] = True"
| "overlap (Literal l # ps) (Literal k # qs) = (l = k \<and> overlap ps qs)"
| "overlap (_ # ps) (_ # qs) = overlap ps qs"
| "overlap _ _ = False"

lemma match_tail: "match_segments (p # ps) (s # ss) = Some m \<Longrightarrow> \<exists>n. match_segments ps ss = Some n"
  by (cases p) (auto split: if_splits)

lemma match_overlap: "match_segments ps ss \<noteq> None \<Longrightarrow> match_segments qs ss \<noteq> None \<Longrightarrow> overlap ps qs"
  by (induction ps qs arbitrary: ss rule: overlap.induct; (rename_tac ss, case_tac ss))
    (auto split: if_splits dest!: match_tail)

fun separate :: "(http_method \<times> segment list) list \<Rightarrow> bool" where
  "separate [] = True"
| "separate ((m, p) # rs) = (list_all (\<lambda>(n, q). m = n \<longrightarrow> \<not> overlap p q) rs \<and> separate rs)"

definition pattern :: "route_meta \<Rightarrow> http_method \<times> segment list" where
  "pattern rt = (rt_Method rt, pattern_of (rt_Path rt))"

lemma find_separate:
  "separate (map pattern rts) \<Longrightarrow> rt \<in> set rts \<Longrightarrow> route_match rt path \<noteq> None \<Longrightarrow>
   find (\<lambda>r. rt_Method r = rt_Method rt \<and> route_match r path \<noteq> None) rts = Some rt"
proof (induction rts)
  case (Cons r rts)
  have sep: "list_all (\<lambda>(n, q). rt_Method r = n \<longrightarrow> \<not> overlap (pattern_of (rt_Path r)) q) (map pattern rts)"
    "separate (map pattern rts)"
    using Cons.prems(1) by (simp_all add: pattern_def [of r])
  show ?case
  proof (cases "rt = r")
    case False
    with Cons.prems(2) have rt: "rt \<in> set rts" by simp
    have "\<not> (rt_Method r = rt_Method rt \<and> route_match r path \<noteq> None)"
    proof
      assume m: "rt_Method r = rt_Method rt \<and> route_match r path \<noteq> None"
      with Cons.prems(3) have "overlap (pattern_of (rt_Path r)) (pattern_of (rt_Path rt))"
        by (auto simp: route_match_def intro: match_overlap)
      with sep(1) rt m show False by (auto simp: list_all_iff pattern_def)
    qed
    with Cons.IH [OF sep(2) rt Cons.prems(3)] show ?thesis by auto
  qed (use Cons.prems(3) in simp)
qed simp

lemma routes_separate: "separate (map pattern routeTable)"
  by code_simp

text \<open>So the order of the table does not matter: a request goes to the one route it matches.\<close>

lemma mux_matched:
  "rt \<in> set routeTable \<Longrightarrow> route_match rt path = Some vals \<Longrightarrow> mux (rt_Method rt) path = Matched rt vals"
  using find_separate [OF routes_separate, of rt path] by (simp add: mux_def)

end
