(* ===== verification/Pos_Client.thy ===== *)
theory Pos_Client
  imports Http
begin

text \<open>
  \<open>cmd/possim/client.go\<close>: how a register talks to the server's store contour. The server is a
  parameter: an operation on its world that answers a request; the register imports nothing of
  it. The encoding of the bodies is \<open>encoding/json\<close>'s, also a parameter. A till counts the
  outside actions it has taken; the network decides by that count what becomes of a request,
  what others did to the server before it, and whether the caller has given up by then. A redirect,
  which \<open>http.Client\<close> would follow by itself and which no store route answers with, is not
  followed here: a request gets one answer.
\<close>

section \<open>Requests and answers\<close>

record pos_request =
  pq_Method :: string
  pq_URL :: string
  pq_Key :: string
  pq_Body :: "string option"

record http_answer =
  ha_Status :: int
  ha_RetryAfter :: string
  ha_Body :: string

type_synonym 's server = "nat \<Rightarrow> pos_request \<Rightarrow> ('s, http_answer) state"

text \<open>A request arrives and is answered, or it fails, before the server saw it or after; with the error's text.\<close>

datatype network = Reached | Unreachable string | ReplyLost string

record 's link =
  ln_net :: "nat \<Rightarrow> network"
  ln_other :: "nat \<Rightarrow> 's \<Rightarrow> 's"
  ln_ended :: "nat \<Rightarrow> string option"

record 's till =
  tl_World :: 's
  tl_Clock :: nat
  tl_Waited :: duration

definition ask :: "'s server \<Rightarrow> 's link \<Rightarrow> pos_request \<Rightarrow> (('s, 'z) till_scheme, string + http_answer) state" where
  "ask srv N q =
     State (\<lambda>s. let n = tl_Clock s;
                    w = ln_other N n (tl_World s);
                    (a, w') = run_state (srv n q) w
                in case ln_net N n of
                     Reached \<Rightarrow> (Inr a, s\<lparr>tl_World := w', tl_Clock := Suc n\<rparr>)
                   | Unreachable message \<Rightarrow> (Inl message, s\<lparr>tl_World := w, tl_Clock := Suc n\<rparr>)
                   | ReplyLost message \<Rightarrow> (Inl message, s\<lparr>tl_World := w', tl_Clock := Suc n\<rparr>))"

section \<open>Errors\<close>

record api_error =
  ae_Status :: int
  ae_Message :: string
  ae_Code :: string
  ae_Transient :: bool

datatype client_error = ApiError api_error | OtherError string

definition errorText :: "client_error \<Rightarrow> string" where
  "errorText e =
     (case e of
        OtherError message \<Rightarrow> message
      | ApiError a \<Rightarrow> ''HTTP '' @ show_int (ae_Status a) @ '': '' @ ae_Message a @
          (if ae_Code a \<noteq> [] then '' ('' @ ae_Code a @ '')'' else []))"

fun isTransient :: "client_error \<Rightarrow> bool" where
  "isTransient (ApiError a) = ae_Transient a"
| "isTransient (OtherError message) = True"

section \<open>The client\<close>

record till_client =
  tc_baseURL :: string
  tc_apiKey :: string
  tc_attempts :: nat
  tc_backoff :: "nat \<Rightarrow> duration"
  tc_maxRetryAfter :: duration

definition trimRightSlash :: "string \<Rightarrow> string" where
  "trimRightSlash s = rev (dropWhile (\<lambda>c. c = CHR ''/'') (rev s))"

definition newClient :: "string \<Rightarrow> string \<Rightarrow> till_client" where
  "newClient baseURL apiKey =
     \<lparr>tc_baseURL = trimRightSlash baseURL, tc_apiKey = apiKey, tc_attempts = 3,
      tc_backoff = (\<lambda>n. int n * 500000000), tc_maxRetryAfter = 10000000000\<rparr>"

text \<open>A refusal: the server's message and code, or its body; the wait it asks for only with 429.\<close>

definition refusal :: "(string \<Rightarrow> (string \<times> string) option) \<Rightarrow> int \<Rightarrow> string \<Rightarrow> api_error" where
  "refusal json_error status raw =
     (let (message, code) = (case json_error raw of
            Some (m, c) \<Rightarrow> if m \<noteq> [] then (m, c) else (TrimSpace raw, [])
          | None \<Rightarrow> (TrimSpace raw, []))
      in \<lparr>ae_Status = status, ae_Message = message, ae_Code = code, ae_Transient = (status = 429 \<or> status \<ge> 500)\<rparr>)"

definition retryAfter :: "till_client \<Rightarrow> http_answer \<Rightarrow> duration" where
  "retryAfter c a =
     (if ha_Status a = 429
      then case parse_int (ha_RetryAfter a) of
             Some secs \<Rightarrow> if secs > 0 then min (wrap64 (secs * 1000000000)) (tc_maxRetryAfter c) else 0
           | None \<Rightarrow> 0
      else 0)"

definition readAnswer ::
    "(string \<Rightarrow> (string \<times> string) option) \<Rightarrow> till_client \<Rightarrow> (string \<Rightarrow> string + 'a) \<Rightarrow> http_answer \<Rightarrow> duration \<times> (client_error + 'a)" where
  "readAnswer json_error c decode a =
     (let raw = take 1048576 (ha_Body a) in
      if 200 \<le> ha_Status a \<and> ha_Status a < 300
      then (0, case decode raw of Inl message \<Rightarrow> Inl (OtherError (''decode response: '' @ message)) | Inr out \<Rightarrow> Inr out)
      else (retryAfter c a, Inl (ApiError (refusal json_error (ha_Status a) raw))))"

definition once ::
    "(string \<Rightarrow> (string \<times> string) option) \<Rightarrow> 's server \<Rightarrow> 's link \<Rightarrow> till_client \<Rightarrow> pos_request \<Rightarrow> (string \<Rightarrow> string + 'a) \<Rightarrow>
     (('s, 'z) till_scheme, duration \<times> (client_error + 'a)) state" where
  "once json_error srv N c q decode = do {
     r \<leftarrow> ask srv N q;
     State_Monad.return (case r of Inl message \<Rightarrow> (0, Inl (OtherError message)) | Inr a \<Rightarrow> readAnswer json_error c decode a)
   }"

text \<open>The pause between two attempts: it ends early when the caller gives up.\<close>

definition pause :: "'s link \<Rightarrow> duration \<Rightarrow> (('s, 'z) till_scheme, string option) state" where
  "pause N wait =
     State (\<lambda>s. case ln_ended N (tl_Clock s) of
                  Some message \<Rightarrow> (Some message, s)
                | None \<Rightarrow> (None, s\<lparr>tl_Waited := tl_Waited s + wait\<rparr>))"

text \<open>The loop of \<open>do\<close> from one attempt on, with the last error so far; no error and nothing read without an attempt.\<close>

fun attempts_from ::
    "(string \<Rightarrow> (string \<times> string) option) \<Rightarrow> 's server \<Rightarrow> 's link \<Rightarrow> till_client \<Rightarrow> pos_request \<Rightarrow> (string \<Rightarrow> string + 'a) \<Rightarrow>
     nat \<Rightarrow> nat \<Rightarrow> client_error + 'a \<Rightarrow> (('s, 'z) till_scheme, client_error + 'a) state" where
  "attempts_from json_error srv N c q decode 0 attempt latest = State_Monad.return latest"
| "attempts_from json_error srv N c q decode (Suc left) attempt latest = do {
     (hint, r) \<leftarrow> once json_error srv N c q decode;
     case r of
       Inr out \<Rightarrow> State_Monad.return r
     | Inl e \<Rightarrow>
         if \<not> isTransient e then State_Monad.return r
         else if left = 0 then State_Monad.return r
         else do {
           ended \<leftarrow> pause N (if hint \<le> 0 then tc_backoff c attempt else hint);
           case ended of
             Some message \<Rightarrow> State_Monad.return (Inl (OtherError message))
           | None \<Rightarrow> attempts_from json_error srv N c q decode left (Suc attempt) r
         }
   }"

definition client_do ::
    "(string \<Rightarrow> (string \<times> string) option) \<Rightarrow> 's server \<Rightarrow> 's link \<Rightarrow> till_client \<Rightarrow> string \<Rightarrow> string \<Rightarrow> string option \<Rightarrow>
     (string \<Rightarrow> string + 'a) \<Rightarrow> 'a \<Rightarrow> (('s, 'z) till_scheme, client_error + 'a) state" where
  "client_do json_error srv N c verb path body decode zero =
     attempts_from json_error srv N c
       \<lparr>pq_Method = verb, pq_URL = tc_baseURL c @ path, pq_Key = tc_apiKey c, pq_Body = body\<rparr>
       decode (tc_attempts c) 1 (Inr zero)"

section \<open>The operations of the store contour\<close>

record sale_request =
  sq_TransactionID :: string
  sq_Phone :: string
  sq_Amount :: string

record sale_answer =
  sa_ClientID :: int
  sa_PointsEarned :: int
  sa_Balance :: int
  sa_Replayed :: bool

record redeem_order =
  ro_TransactionID :: string
  ro_ClientID :: int
  ro_Points :: int
  ro_Amount :: string

record redeem_outcome =
  rs_PointsRedeemed :: int
  rs_Balance :: int
  rs_Replayed :: bool

record refund_order =
  fo_TransactionID :: string
  fo_OriginalTransactionID :: string
  fo_OriginalTransactionType :: string
  fo_Amount :: string

record refund_outcome =
  fs_ClientID :: int
  fs_PointsReversed :: int
  fs_Balance :: int
  fs_RefundedAmountTotal :: string
  fs_FullyRefunded :: bool
  fs_Replayed :: bool

record client_balance =
  cb_ClientID :: int
  cb_Balance :: int

record pos_json =
  pj_sale :: "sale_request \<Rightarrow> string"
  pj_redeem :: "redeem_order \<Rightarrow> string"
  pj_refund :: "refund_order \<Rightarrow> string"
  pj_payload :: "string \<Rightarrow> string"
  pj_sale_answer :: "string \<Rightarrow> string + sale_answer"
  pj_redeem_answer :: "string \<Rightarrow> string + redeem_outcome"
  pj_refund_answer :: "string \<Rightarrow> string + refund_outcome"
  pj_balance :: "string \<Rightarrow> string + client_balance"
  pj_error :: "string \<Rightarrow> (string \<times> string) option"

definition client_sale :: "pos_json \<Rightarrow> 's server \<Rightarrow> 's link \<Rightarrow> till_client \<Rightarrow> sale_request \<Rightarrow> (('s, 'z) till_scheme, client_error + sale_answer) state" where
  "client_sale J srv N c req =
     client_do (pj_error J) srv N c ''POST'' ''/api/v1/transactions'' (Some (pj_sale J req)) (pj_sale_answer J)
       \<lparr>sa_ClientID = 0, sa_PointsEarned = 0, sa_Balance = 0, sa_Replayed = False\<rparr>"

definition client_redeem :: "pos_json \<Rightarrow> 's server \<Rightarrow> 's link \<Rightarrow> till_client \<Rightarrow> redeem_order \<Rightarrow> (('s, 'z) till_scheme, client_error + redeem_outcome) state" where
  "client_redeem J srv N c req =
     client_do (pj_error J) srv N c ''POST'' ''/api/v1/transactions/redeem'' (Some (pj_redeem J req)) (pj_redeem_answer J)
       \<lparr>rs_PointsRedeemed = 0, rs_Balance = 0, rs_Replayed = False\<rparr>"

definition client_refund :: "pos_json \<Rightarrow> 's server \<Rightarrow> 's link \<Rightarrow> till_client \<Rightarrow> refund_order \<Rightarrow> (('s, 'z) till_scheme, client_error + refund_outcome) state" where
  "client_refund J srv N c req =
     client_do (pj_error J) srv N c ''POST'' ''/api/v1/transactions/refund'' (Some (pj_refund J req)) (pj_refund_answer J)
       \<lparr>fs_ClientID = 0, fs_PointsReversed = 0, fs_Balance = 0, fs_RefundedAmountTotal = [], fs_FullyRefunded = False, fs_Replayed = False\<rparr>"

text \<open>\<open>url.QueryEscape\<close>.\<close>

definition unreserved :: "char \<Rightarrow> bool" where
  "unreserved c =
     (let k = of_char c :: nat in
      48 \<le> k \<and> k \<le> 57 \<or> 65 \<le> k \<and> k \<le> 90 \<or> 97 \<le> k \<and> k \<le> 122 \<or> c = CHR ''-'' \<or> c = CHR ''_'' \<or> c = CHR ''.'' \<or> c = CHR ''~'')"

definition hex_upper :: "nat \<Rightarrow> char" where
  "hex_upper d = ''0123456789ABCDEF'' ! (d mod 16)"

definition QueryEscape :: "string \<Rightarrow> string" where
  "QueryEscape s =
     concat (map (\<lambda>c. if c = CHR '' '' then ''+''
                      else if unreserved c then [c]
                      else [CHR ''%'', hex_upper (of_char c div 16), hex_upper (of_char c mod 16)]) s)"

text \<open>Found, with the balance; an unknown phone is not an error.\<close>

definition client_lookup :: "pos_json \<Rightarrow> 's server \<Rightarrow> 's link \<Rightarrow> till_client \<Rightarrow> string \<Rightarrow> (('s, 'z) till_scheme, client_error + client_balance option) state" where
  "client_lookup J srv N c phone = do {
     r \<leftarrow> client_do (pj_error J) srv N c ''GET'' (''/api/v1/clients/lookup?phone='' @ QueryEscape phone) None (pj_balance J)
       \<lparr>cb_ClientID = 0, cb_Balance = 0\<rparr>;
     State_Monad.return (case r of
       Inr b \<Rightarrow> Inr (Some b)
     | Inl (ApiError a) \<Rightarrow> if ae_Status a = 404 then Inr None else Inl (ApiError a)
     | Inl (OtherError message) \<Rightarrow> Inl (OtherError message))
   }"

definition client_resolveQR :: "pos_json \<Rightarrow> 's server \<Rightarrow> 's link \<Rightarrow> till_client \<Rightarrow> string \<Rightarrow> (('s, 'z) till_scheme, client_error + client_balance) state" where
  "client_resolveQR J srv N c payload =
     client_do (pj_error J) srv N c ''POST'' ''/api/v1/clients/resolve-qr'' (Some (pj_payload J payload)) (pj_balance J)
       \<lparr>cb_ClientID = 0, cb_Balance = 0\<rparr>"

end
