(* ===== verification/Pos_Queue.thy ===== *)
theory Pos_Queue
  imports Pos_Client Remote_Addr
begin

text \<open>
  \<open>cmd/possim/queue.go\<close>: the offline queue of a register, a file of one JSON document per
  line, and its replay. The disk decides by the clock of the till whether an action fails and
  what another process did to the file before it. Messages to the cashier are given in English.
\<close>

record queued_op =
  qo_Kind :: string
  qo_Sale :: "sale_request option"
  qo_Refund :: "refund_order option"
  qo_QueuedAt :: time
  qo_LastErr :: string

definition transactionID :: "queued_op \<Rightarrow> string" where
  "transactionID x =
     (case qo_Sale x of
        Some s \<Rightarrow> sq_TransactionID s
      | None \<Rightarrow> (case qo_Refund x of Some f \<Rightarrow> fo_TransactionID f | None \<Rightarrow> []))"

section \<open>The file\<close>

text \<open>\<open>None\<close>: there is no such file. What became of a queued operation is printed.\<close>

datatype outcome = Delivered | AlreadyAccepted | RejectedWith client_error

record 's register = "'s till" +
  rg_File :: "string option"
  rg_Printed :: "(queued_op \<times> outcome) list"

text \<open>An action on the file fails before it has an effect, or a write stops after some bytes.\<close>

datatype disk_result = DiskOk | DiskFails string | DiskTorn nat string

record disk =
  dk_result :: "nat \<Rightarrow> disk_result"
  dk_other :: "nat \<Rightarrow> string option \<Rightarrow> string option"

record op_json =
  oj_write :: "queued_op \<Rightarrow> string"
  oj_read :: "string \<Rightarrow> string + queued_op"

definition newline :: char where
  "newline = CHR 0x0A"

definition on_disk :: "disk \<Rightarrow> (disk_result \<Rightarrow> string option \<Rightarrow> (string + 'a) \<times> string option) \<Rightarrow> ('s register, string + 'a) state" where
  "on_disk K act =
     State (\<lambda>s. let n = tl_Clock s;
                    (r, f) = act (dk_result K n) (dk_other K n (rg_File s))
                in (r, s\<lparr>rg_File := f, tl_Clock := Suc n\<rparr>))"

text \<open>\<open>bufio.Scanner\<close>: the lines without their ends; a line of a mebibyte or more does not fit its buffer.\<close>

definition scanned :: "string \<Rightarrow> string list" where
  "scanned content =
     (let ls = split_on newline content in if last ls = [] then butlast ls else ls)"

definition dropCR :: "string \<Rightarrow> string" where
  "dropCR l = (if l \<noteq> [] \<and> last l = CHR 0x0D then butlast l else l)"

fun read_ops :: "op_json \<Rightarrow> string list \<Rightarrow> string + queued_op list" where
  "read_ops J [] = Inr []"
| "read_ops J (l # ls) =
     (if length l \<ge> 1048576 then Inl ''bufio.Scanner: token too long''
      else if dropCR l = [] then read_ops J ls
      else case oj_read J (dropCR l) of
             Inl message \<Rightarrow> Inl message
           | Inr x \<Rightarrow> (case read_ops J ls of Inl message \<Rightarrow> Inl message | Inr xs \<Rightarrow> Inr (x # xs)))"

definition queue_load :: "op_json \<Rightarrow> disk \<Rightarrow> ('s register, string + queued_op list) state" where
  "queue_load J K = on_disk K (\<lambda>d f.
     (case f of
        None \<Rightarrow> Inr []
      | Some content \<Rightarrow>
          (case d of
             DiskFails message \<Rightarrow> Inl message
           | DiskTorn k message \<Rightarrow> Inl message
           | DiskOk \<Rightarrow> read_ops J (scanned content)), f))"

definition op_line :: "op_json \<Rightarrow> queued_op \<Rightarrow> string" where
  "op_line J x = oj_write J x @ [newline]"

definition written :: "string option \<Rightarrow> string" where
  "written f = (case f of None \<Rightarrow> [] | Some content \<Rightarrow> content)"

definition queue_append :: "op_json \<Rightarrow> disk \<Rightarrow> queued_op \<Rightarrow> ('s register, string + unit) state" where
  "queue_append J K x = on_disk K (\<lambda>d f.
     case d of
       DiskFails message \<Rightarrow> (Inl message, f)
     | DiskTorn k message \<Rightarrow> (Inl message, Some (written f @ take k (op_line J x)))
     | DiskOk \<Rightarrow> (Inr (), Some (written f @ op_line J x)))"

text \<open>The file is replaced as a whole, or not at all: a temporary file is renamed over it.\<close>

definition queue_save :: "op_json \<Rightarrow> disk \<Rightarrow> queued_op list \<Rightarrow> ('s register, string + unit) state" where
  "queue_save J K xs = on_disk K (\<lambda>d f.
     if xs = [] \<and> f = None then (Inr (), None)
     else case d of
       DiskFails message \<Rightarrow> (Inl message, f)
     | DiskTorn k message \<Rightarrow> (Inl message, f)
     | DiskOk \<Rightarrow> (Inr (), if xs = [] then None else Some (concat (map (op_line J) xs))))"

section \<open>Replay\<close>

record replay_result =
  rr_Delivered :: nat
  rr_Replayed :: nat
  rr_Rejected :: nat
  rr_Left :: nat

definition deliver_op :: "pos_json \<Rightarrow> 's server \<Rightarrow> 's link \<Rightarrow> till_client \<Rightarrow> queued_op \<Rightarrow> ('s register, client_error + bool) state" where
  "deliver_op P srv N c x =
     (case qo_Sale x of
        Some req \<Rightarrow> do {
          r \<leftarrow> client_sale P srv N c req;
          State_Monad.return (case r of Inl e \<Rightarrow> Inl e | Inr a \<Rightarrow> Inr (sa_Replayed a))
        }
      | None \<Rightarrow>
          (case qo_Refund x of
             Some req \<Rightarrow> do {
               r \<leftarrow> client_refund P srv N c req;
               State_Monad.return (case r of Inl e \<Rightarrow> Inl e | Inr a \<Rightarrow> Inr (fs_Replayed a))
             }
           | None \<Rightarrow> State_Monad.return (Inl (ApiError \<lparr>ae_Status = 0, ae_Message = ''empty entry in the queue (kind='' @ qo_Kind x @ '')'',
               ae_Code = [], ae_Transient = False\<rparr>))))"

definition report :: "queued_op \<Rightarrow> outcome \<Rightarrow> ('s register, unit) state" where
  "report x what = State (\<lambda>s. ((), s\<lparr>rg_Printed := rg_Printed s @ [(x, what)]\<rparr>))"

text \<open>The error of a replay: of the queue file, or the one of the operation it stopped at.\<close>

datatype replay_error = FileError string | Stopped client_error

fun replay_ops ::
    "pos_json \<Rightarrow> op_json \<Rightarrow> 's server \<Rightarrow> 's link \<Rightarrow> disk \<Rightarrow> till_client \<Rightarrow> queued_op list \<Rightarrow> replay_result \<Rightarrow>
     ('s register, replay_result \<times> replay_error option) state" where
  "replay_ops P J srv N K c [] res = do {
     saved \<leftarrow> queue_save J K [];
     State_Monad.return (res, case saved of Inl message \<Rightarrow> Some (FileError message) | Inr _ \<Rightarrow> None)
   }"
| "replay_ops P J srv N K c (x # xs) res = do {
     r \<leftarrow> deliver_op P srv N c x;
     case r of
       Inr replayed \<Rightarrow>
         if replayed then do {
           _ \<leftarrow> report x AlreadyAccepted;
           replay_ops P J srv N K c xs (res\<lparr>rr_Replayed := rr_Replayed res + 1\<rparr>)
         }
         else do {
           _ \<leftarrow> report x Delivered;
           replay_ops P J srv N K c xs (res\<lparr>rr_Delivered := rr_Delivered res + 1\<rparr>)
         }
     | Inl e \<Rightarrow>
         if isTransient e then do {
           let rest = x\<lparr>qo_LastErr := errorText e\<rparr> # xs;
           saved \<leftarrow> queue_save J K rest;
           State_Monad.return (res\<lparr>rr_Left := length rest\<rparr>,
             case saved of Inl message \<Rightarrow> Some (FileError message) | Inr _ \<Rightarrow> Some (Stopped e))
         }
         else do {
           _ \<leftarrow> report x (RejectedWith e);
           replay_ops P J srv N K c xs (res\<lparr>rr_Rejected := rr_Rejected res + 1\<rparr>)
         }
   }"

definition replay ::
    "pos_json \<Rightarrow> op_json \<Rightarrow> 's server \<Rightarrow> 's link \<Rightarrow> disk \<Rightarrow> till_client \<Rightarrow> ('s register, replay_result \<times> replay_error option) state" where
  "replay P J srv N K c = do {
     let nothing = \<lparr>rr_Delivered = 0, rr_Replayed = 0, rr_Rejected = 0, rr_Left = 0\<rparr>;
     ops \<leftarrow> queue_load J K;
     case ops of
       Inl message \<Rightarrow> State_Monad.return (nothing, Some (FileError message))
     | Inr xs \<Rightarrow> replay_ops P J srv N K c xs nothing
   }"

end
