(* ===== verification/Dotenv.thy ===== *)
theory Dotenv
  imports Pos_Queue Tokens
begin

text \<open>
  \<open>loadDotEnv\<close> of \<open>internal/config/config.go\<close>: the variables of a \<open>.env\<close> file, which fill the
  environment where it is silent; with \<open>strconv.Unquote\<close>, which takes the quotes off a value.
\<close>

section \<open>Quoted strings\<close>

definition utf8_codes :: "string \<Rightarrow> nat list" where
  "utf8_codes s = map of_char s"

text \<open>The bytes of the first rune; a byte that begins none reads as the replacement character.\<close>

definition first_rune :: "string \<Rightarrow> string" where
  "first_rune s = take (rune_size (utf8_codes s)) s"

definition malformed :: "string \<Rightarrow> bool" where
  "malformed s \<longleftrightarrow> s \<noteq> [] \<and> rune_size (utf8_codes s) = 1 \<and> 128 \<le> (of_char (hd s) :: nat)"

function valid_utf8 :: "string \<Rightarrow> bool" where
  "valid_utf8 s = (if s = [] then True else if malformed s then False else valid_utf8 (drop (rune_size (utf8_codes s)) s))"
  by pat_completeness auto
termination
  by (relation "measure length") (simp_all add: rune_size_pos utf8_codes_def)

declare valid_utf8.simps [simp del]

definition replacement :: string where
  "replacement = bytes [239, 191, 189]"

definition encode_rune :: "nat \<Rightarrow> string" where
  "encode_rune v = bytes
     (if v < 128 then [v]
      else if v < 2048 then [192 + v div 64, 128 + v mod 64]
      else if v < 65536 then [224 + v div 4096, 128 + v div 64 mod 64, 128 + v mod 64]
      else [240 + v div 262144, 128 + v div 4096 mod 64, 128 + v div 64 mod 64, 128 + v mod 64])"

definition valid_rune :: "nat \<Rightarrow> bool" where
  "valid_rune v \<longleftrightarrow> v < 55296 \<or> 57344 \<le> v \<and> v \<le> 1114111"

definition octal_digit :: "char \<Rightarrow> nat option" where
  "octal_digit c = (let k = of_char c :: nat in if 48 \<le> k \<and> k \<le> 55 then Some (k - 48) else None)"

text \<open>A run of exactly \<open>n\<close> digits, and what follows.\<close>

fun digits_of :: "(char \<Rightarrow> nat option) \<Rightarrow> nat \<Rightarrow> nat \<Rightarrow> nat \<Rightarrow> string \<Rightarrow> (nat \<times> string) option" where
  "digits_of digit base 0 v s = Some (v, s)"
| "digits_of digit base (Suc n) v [] = None"
| "digits_of digit base (Suc n) v (c # s) =
     (case digit c of None \<Rightarrow> None | Some d \<Rightarrow> digits_of digit base n (base * v + d) s)"

definition simple_escape :: "char \<Rightarrow> nat option" where
  "simple_escape c =
     map_of [(CHR ''a'', 7), (CHR ''b'', 8), (CHR ''f'', 12), (CHR ''n'', 10), (CHR ''r'', 13), (CHR ''t'', 9), (CHR ''v'', 11),
       (CHR 0x5C, 92)] c"

text \<open>\<open>UnquoteChar\<close>: the bytes the next character stands for, and the rest.\<close>

definition UnquoteChar :: "char \<Rightarrow> string \<Rightarrow> (string \<times> string) option" where
  "UnquoteChar quote s =
     (case s of
        [] \<Rightarrow> None
      | c # t \<Rightarrow>
          if c = quote then None
          else if 128 \<le> (of_char c :: nat)
          then Some (if malformed s then replacement else first_rune s, drop (rune_size (utf8_codes s)) s)
          else if c \<noteq> CHR 0x5C then Some ([c], t)
          else case t of
                 [] \<Rightarrow> None
               | e # u \<Rightarrow>
                   (case simple_escape e of
                      Some k \<Rightarrow> Some ([char_of k], u)
                    | None \<Rightarrow>
                        if e = CHR ''x'' then map_option (\<lambda>(v, r). ([char_of v], r)) (digits_of hex_digit 16 2 0 u)
                        else if e = CHR ''u'' \<or> e = CHR ''U'' then
                          (case digits_of hex_digit 16 (if e = CHR ''u'' then 4 else 8) 0 u of
                             None \<Rightarrow> None
                           | Some (v, r) \<Rightarrow> if valid_rune v then Some (encode_rune v, r) else None)
                        else if octal_digit e \<noteq> None then
                          (case digits_of octal_digit 8 3 0 t of
                             None \<Rightarrow> None
                           | Some (v, r) \<Rightarrow> if v > 255 then None else Some ([char_of v], r))
                        else if (e = CHR 0x27 \<or> e = CHR 0x22) \<and> e = quote then Some ([e], u)
                        else None))"

text \<open>The loop over the characters of a quoted string; a single-quoted one has at most one.\<close>

fun unquote_from :: "char \<Rightarrow> nat \<Rightarrow> string \<Rightarrow> (string \<times> string) option" where
  "unquote_from quote 0 s = Some ([], s)"
| "unquote_from quote (Suc n) s =
     (if s = [] \<or> hd s = quote then Some ([], s)
      else if hd s = newline then None
      else case UnquoteChar quote s of
             None \<Rightarrow> None
           | Some (out, r) \<Rightarrow>
               if quote = CHR 0x27 then Some (out, r)
               else map_option (\<lambda>(outs, rest). (out @ outs, rest)) (unquote_from quote n r))"

definition Unquote :: "string \<Rightarrow> string option" where
  "Unquote s =
     (if length s < 2 then None
      else
        let quote = hd s; rest = tl s in
        if quote \<notin> set rest then None
        else
          let inner = takeWhile (\<lambda>c. c \<noteq> quote) rest; tail = drop (Suc (length inner)) rest in
          if quote = CHR 0x60 then (if tail = [] then Some (List.filter (\<lambda>c. c \<noteq> CHR 0x0D) inner) else None)
          else if quote = CHR 0x22 \<or> quote = CHR 0x27 then
            (if CHR 0x5C \<notin> set inner \<and> newline \<notin> set inner \<and>
                (if quote = CHR 0x22 then valid_utf8 inner
                 else length (first_rune inner) = length inner \<and> \<not> malformed inner)
             then (if tail = [] then Some inner else None)
             else case unquote_from quote (length rest) rest of
                    None \<Rightarrow> None
                  | Some (out, r) \<Rightarrow> if r = [quote] then Some out else None)
          else None)"

section \<open>The file\<close>

type_synonym environment = "string \<rightharpoonup> string"

definition byte_order_mark :: string where
  "byte_order_mark = bytes [239, 187, 191]"

text \<open>The variable a line sets, if it sets one.\<close>

definition dotenv_line :: "string \<Rightarrow> (string \<times> string) option" where
  "dotenv_line raw =
     (let line = TrimSpace (TrimPrefix raw byte_order_mark) in
      if line = [] \<or> hd line = CHR ''#'' then None
      else case cut CHR ''='' (TrimSpace (TrimPrefix line ''export '')) of
             None \<Rightarrow> None
           | Some (k, v) \<Rightarrow>
               let key = TrimSpace k; value = TrimSpace v in
               if key = [] then None
               else Some (key, if length value \<ge> 2 then (case Unquote value of Some u \<Rightarrow> u | None \<Rightarrow> value) else value))"

text \<open>\<open>os.Setenv\<close> refuses a zero byte.\<close>

definition Setenv :: "string \<Rightarrow> string \<Rightarrow> environment \<Rightarrow> environment option" where
  "Setenv key value env = (if CHR 0x00 \<in> set key \<or> CHR 0x00 \<in> set value then None else Some (env(key \<mapsto> value)))"

text \<open>A line of 64 kibibytes or more does not fit the scanner; the lines before it count.\<close>

fun dotenv_lines :: "string list \<Rightarrow> environment \<Rightarrow> environment \<times> string option" where
  "dotenv_lines [] env = (env, None)"
| "dotenv_lines (raw # ls) env =
     (if length raw \<ge> 65536 then (env, Some ''bufio.Scanner: token too long'')
      else case dotenv_line (dropCR raw) of
             None \<Rightarrow> dotenv_lines ls env
           | Some (key, value) \<Rightarrow>
               if env key \<noteq> None then dotenv_lines ls env
               else case Setenv key value env of
                      None \<Rightarrow> (env, Some ''setenv: invalid argument'')
                    | Some env' \<Rightarrow> dotenv_lines ls env')"

text \<open>\<open>None\<close>: there is no such file. \<open>Some (Inl _)\<close>: it cannot be opened.\<close>

definition loadDotEnv :: "(string + string) option \<Rightarrow> environment \<Rightarrow> environment \<times> string option" where
  "loadDotEnv file env =
     (case file of
        None \<Rightarrow> (env, None)
      | Some (Inl message) \<Rightarrow> (env, Some message)
      | Some (Inr content) \<Rightarrow> dotenv_lines (scanned content) env)"

end
