(* ===== verification/Config.thy ===== *)
theory Config
  imports Dotenv Dispatch Notification
begin

text \<open>
  \<open>internal/config/config.go\<close>: the settings, their defaults, the checks \<open>Load\<close> makes, and the
  connection string of PostgreSQL. Reading the YAML file and overlaying the environment is
  viper's: a parameter, given the defaults, the environment and the file's path.
\<close>

section \<open>Settings\<close>

record app_settings =
  as_Name :: string
  as_Env :: string
  as_SkipStartupMigrations :: bool

record http_settings =
  hs_Host :: string
  hs_Port :: int
  hs_TrustedProxies :: "string list"

record postgres_settings =
  pg_Host :: string
  pg_Port :: int
  pg_User :: string
  pg_Password :: string
  pg_DBName :: string
  pg_SSLMode :: string
  pg_MaxConns :: int

record redis_settings =
  rd_Addr :: string
  rd_Password :: string
  rd_DB :: int
  rd_TLSEnabled :: bool

record logger_settings =
  lg_Level :: string
  lg_Format :: string

record fcm_settings =
  fcm_CredentialsJSON :: string

record sms_settings =
  sm_Provider :: string
  sm_Endpoint :: string
  sm_Token :: string
  sm_Sender :: string
  sm_Timeout :: duration

record anti_fraud_settings =
  fr_DailyRedeemPointsLimit :: int
  fr_DailyRedeemWindow :: duration
  fr_QRTTL :: duration
  fr_QRIssueCooldown :: duration
  fr_QRConsumeCooldown :: duration

record invite_settings =
  iv_AppURL :: string
  iv_DailyStoreLimit :: int

record auth_settings =
  au_AccessTokenSecret :: string
  au_AccessTokenTTL :: duration
  au_RefreshTokenTTL :: duration
  au_OTPTTL :: duration
  au_OTPResendCooldown :: duration
  au_OTPMaxAttempts :: int
  au_OTPRateLimitWindow :: duration
  au_OTPMaxRequestsPerPhone :: int
  au_OTPMaxRequestsPerIP :: int

record oidc_settings =
  od_IssuerURL :: string
  od_Audience :: string
  od_JWKSURL :: string
  od_JWKSCacheTTL :: duration

record config =
  c_App :: app_settings
  c_HTTP :: http_settings
  c_Postgres :: postgres_settings
  c_Redis :: redis_settings
  c_Logger :: logger_settings
  c_FCM :: fcm_settings
  c_SMS :: sms_settings
  c_Auth :: auth_settings
  c_OIDC :: oidc_settings
  c_RateLimit :: rate_limit_config
  c_AntiFraud :: anti_fraud_settings
  c_Invite :: invite_settings

section \<open>Defaults\<close>

datatype setting = Text string | Number int | Flag bool | Span duration

definition minute :: duration where "minute = 60000000000"

text \<open>\<open>setDefaults\<close>: the keys that have a default, in every environment.\<close>

definition setDefaults :: "(string \<times> setting) list" where
  "setDefaults =
     [(''app.name'', Text ''promogo''), (''app.env'', Text ''development''), (''app.skip_startup_migrations'', Flag False),
      (''http.host'', Text ''0.0.0.0''), (''http.port'', Number 8080),
      (''postgres.host'', Text ''localhost''), (''postgres.port'', Number 5432), (''postgres.sslmode'', Text ''disable''),
      (''postgres.max_conns'', Number 10),
      (''redis.addr'', Text ''localhost:6379''), (''redis.db'', Number 0), (''redis.tls_enabled'', Flag False),
      (''logger.level'', Text ''info''), (''logger.format'', Text ''json''),
      (''auth.access_token_ttl'', Span (15 * minute)), (''auth.refresh_token_ttl'', Span (30 * 24 * 60 * minute)),
      (''auth.otp_ttl'', Span (5 * minute)), (''auth.otp_resend_cooldown'', Span minute), (''auth.otp_max_attempts'', Number 5),
      (''auth.otp_rate_limit_window'', Span (60 * minute)), (''auth.otp_max_requests_per_phone'', Number 5),
      (''auth.otp_max_requests_per_ip'', Number 20),
      (''oidc.jwks_cache_ttl'', Span (10 * minute)),
      (''ratelimit.staff_login_ip_limit'', Number 20), (''ratelimit.staff_login_ip_window'', Span (5 * minute)),
      (''ratelimit.admin_ip_limit'', Number 120), (''ratelimit.admin_ip_window'', Span minute),
      (''ratelimit.admin_staff_limit'', Number 300), (''ratelimit.admin_staff_window'', Span minute),
      (''ratelimit.client_lookup_ip_limit'', Number 120), (''ratelimit.client_lookup_ip_window'', Span minute),
      (''ratelimit.client_lookup_principal_limit'', Number 300), (''ratelimit.client_lookup_principal_window'', Span minute),
      (''ratelimit.client_lookup_phone_limit'', Number 30), (''ratelimit.client_lookup_phone_window'', Span minute),
      (''ratelimit.accrual_ip_limit'', Number 300), (''ratelimit.accrual_ip_window'', Span minute),
      (''ratelimit.accrual_principal_limit'', Number 600), (''ratelimit.accrual_principal_window'', Span minute),
      (''sms.provider'', Text ''log''), (''sms.timeout'', Span 5000000000),
      (''invite.app_url'', Text []), (''invite.daily_store_limit'', Number 200),
      (''antifraud.daily_redeem_points_limit'', Number 1000), (''antifraud.daily_redeem_window'', Span (24 * 60 * minute)),
      (''antifraud.qr_ttl'', Span (2 * minute)), (''antifraud.qr_issue_cooldown'', Span 30000000000),
      (''antifraud.qr_consume_cooldown'', Span 1000000000)]"

section \<open>Checks\<close>

text \<open>The messages are shortened: without the offending value and the hints on how to set it.\<close>

definition development :: "config \<Rightarrow> bool" where
  "development c \<longleftrightarrow> as_Env (c_App c) = ''development''"

definition validateAuth :: "config \<Rightarrow> string option" where
  "validateAuth c =
     (if development c then None
      else if length (au_AccessTokenSecret (c_Auth c)) < 32
      then Some ''auth.access_token_secret must be set (>= 32 bytes) via PROMOGO_AUTH_ACCESS_TOKEN_SECRET outside development''
      else None)"

definition validateAntiFraud :: "config \<Rightarrow> string option" where
  "validateAntiFraud c =
     (if development c then None
      else if fr_DailyRedeemPointsLimit (c_AntiFraud c) \<le> 0
      then Some ''antifraud.daily_redeem_points_limit must be set (> 0) via PROMOGO_ANTIFRAUD_DAILY_REDEEM_POINTS_LIMIT outside development''
      else None)"

definition https :: "string \<Rightarrow> bool" where
  "https url = has_prefix url ''https://''"

definition validateInvite :: "config \<Rightarrow> string option" where
  "validateInvite c =
     (let iv = c_Invite c in
      if iv_AppURL iv = [] then None
      else if iv_DailyStoreLimit iv \<le> 0 then Some ''invite.daily_store_limit must be > 0 when invite.app_url is set''
      else if \<not> development c \<and> \<not> https (iv_AppURL iv) then Some ''invite.app_url must use https:// outside development''
      else None)"

definition validSMSProviders :: "string list" where
  "validSMSProviders = [''log'', ''http'']"

definition validateSMS :: "config \<Rightarrow> string option" where
  "validateSMS c =
     (let sm = c_SMS c in
      if sm_Provider sm \<notin> set validSMSProviders then Some ''sms.provider is not a recognized value (must be log or http)''
      else if development c then None
      else if sm_Provider sm = ''log'' then Some ''sms.provider must not be log outside development''
      else if sm_Endpoint sm = [] \<or> sm_Token sm = [] then Some ''sms.endpoint and sms.token must be set when sms.provider=http''
      else if \<not> https (sm_Endpoint sm) then Some ''sms.endpoint must use https:// outside development''
      else None)"

definition validateFCM :: "config \<Rightarrow> string option" where
  "validateFCM c =
     (if development c then None
      else if fcm_CredentialsJSON (c_FCM c) = []
      then Some ''fcm.credentials_json must be set via PROMOGO_FCM_CREDENTIALS_JSON outside development''
      else None)"

definition pgSSLModesRequiringTLS :: "string list" where
  "pgSSLModesRequiringTLS = [''require'', ''verify-ca'', ''verify-full'']"

definition validatePostgres :: "config \<Rightarrow> string option" where
  "validatePostgres c =
     (if development c then None
      else if pg_SSLMode (c_Postgres c) \<notin> set pgSSLModesRequiringTLS
      then Some ''postgres.sslmode must be require, verify-ca, or verify-full outside development''
      else None)"

definition validateRedis :: "config \<Rightarrow> string option" where
  "validateRedis c =
     (if development c then None
      else if \<not> rd_TLSEnabled (c_Redis c) then Some ''redis.tls_enabled must be true outside development''
      else None)"

fun first_error :: "string option list \<Rightarrow> string option" where
  "first_error [] = None"
| "first_error (None # es) = first_error es"
| "first_error (Some e # es) = Some e"

section \<open>Loading\<close>

text \<open>viper: reading the file at a path fails with a message, or gives the settings or the message of their decoding.\<close>

record viper =
  vp_ReadInConfig :: "string \<Rightarrow> string option"
  vp_Unmarshal :: "(string \<times> setting) list \<Rightarrow> environment \<Rightarrow> string \<Rightarrow> string + config"

definition Load :: "viper \<Rightarrow> (string + string) option \<Rightarrow> environment \<Rightarrow> string \<Rightarrow> (string + config) \<times> environment" where
  "Load V dotenv env0 path =
     (let (env, failed) = loadDotEnv dotenv env0 in
      (case failed of
         Some message \<Rightarrow> Inl (''load .env: '' @ message)
       | None \<Rightarrow>
           (case vp_ReadInConfig V path of
              Some message \<Rightarrow> Inl (''read config: '' @ message)
            | None \<Rightarrow>
                (case vp_Unmarshal V setDefaults env path of
                   Inl message \<Rightarrow> Inl (''unmarshal config: '' @ message)
                 | Inr cfg \<Rightarrow>
                     (case first_error [validateAuth cfg, validateAntiFraud cfg, validateSMS cfg, validateFCM cfg, validateInvite cfg,
                         validatePostgres cfg, validateRedis cfg] of
                        Some message \<Rightarrow> Inl message
                      | None \<Rightarrow> Inr cfg))),
       env))"

section \<open>The connection string\<close>

text \<open>\<open>net/url\<close>'s escaping: which characters stand for themselves in each part of a URL.\<close>

definition alnum :: "char \<Rightarrow> bool" where
  "alnum c =
     (let k = of_char c :: nat in 48 \<le> k \<and> k \<le> 57 \<or> 65 \<le> k \<and> k \<le> 90 \<or> 97 \<le> k \<and> k \<le> 122)"

definition plain_userinfo :: "char \<Rightarrow> bool" where
  "plain_userinfo c \<longleftrightarrow> alnum c \<or> c \<in> set ''-_.~$&+,;=''"

definition plain_host :: "char \<Rightarrow> bool" where
  "plain_host c \<longleftrightarrow> alnum c \<or> c \<in> set ''-_.~!$&()*+,;=:[]<>'' \<or> c = CHR 0x27 \<or> c = CHR 0x22"

definition plain_path :: "char \<Rightarrow> bool" where
  "plain_path c \<longleftrightarrow> alnum c \<or> c \<in> set ''-_.~$&+,/:;=@''"

definition escape_byte :: "char \<Rightarrow> string" where
  "escape_byte c = [CHR ''%'', hex_upper (of_char c div 16), hex_upper (of_char c mod 16)]"

definition url_escape :: "(char \<Rightarrow> bool) \<Rightarrow> string \<Rightarrow> string" where
  "url_escape plain s = concat (map (\<lambda>c. if plain c then [c] else escape_byte c) s)"

definition Addr :: "http_settings \<Rightarrow> string" where
  "Addr h = hs_Host h @ '':'' @ show_int (hs_Port h)"

definition DSN :: "postgres_settings \<Rightarrow> string" where
  "DSN p =
     ''postgres://'' @ url_escape plain_userinfo (pg_User p) @ '':'' @ url_escape plain_userinfo (pg_Password p) @ ''@'' @
     url_escape plain_host (pg_Host p @ '':'' @ show_int (pg_Port p)) @
     url_escape plain_path (''/'' @ pg_DBName p) @ ''?sslmode='' @ QueryEscape (pg_SSLMode p)"

end
