(* ===== verification/App.thy ===== *)
theory App
  imports Config
begin

text \<open>
  \<open>internal/app/app.go\<close>, \<open>internal/migrate/migrate.go\<close>, \<open>NewPool\<close> and the commands of
  \<open>cmd/promogo\<close>: what start-up opens and closes, how the configuration becomes the server's
  dependencies, and the order and the bounds of the shutdown. The drivers, goose and Firebase are
  parameters: each call of theirs fails with a message or not.
\<close>

section \<open>What a process holds\<close>

record holdings =
  hd_Pools :: nat
  hd_Clients :: nat
  hd_Migrations :: nat

type_synonym 'a startup = "holdings \<Rightarrow> (string + 'a) \<times> holdings"

definition open_pool :: "holdings \<Rightarrow> holdings" where "open_pool h = h\<lparr>hd_Pools := hd_Pools h + 1\<rparr>"

definition close_pool :: "holdings \<Rightarrow> holdings" where "close_pool h = h\<lparr>hd_Pools := hd_Pools h - 1\<rparr>"

definition open_client :: "holdings \<Rightarrow> holdings" where "open_client h = h\<lparr>hd_Clients := hd_Clients h + 1\<rparr>"

definition close_client :: "holdings \<Rightarrow> holdings" where "close_client h = h\<lparr>hd_Clients := hd_Clients h - 1\<rparr>"

definition open_migration :: "holdings \<Rightarrow> holdings" where "open_migration h = h\<lparr>hd_Migrations := hd_Migrations h + 1\<rparr>"

definition close_migration :: "holdings \<Rightarrow> holdings" where "close_migration h = h\<lparr>hd_Migrations := hd_Migrations h - 1\<rparr>"

record redis_options =
  ro_Addr :: string
  ro_Password :: string
  ro_DB :: int
  ro_MinTLS :: "nat option"

definition VersionTLS12 :: nat where "VersionTLS12 = 771"

record 'k platform =
  pf_ParseConfig :: "string \<Rightarrow> string option"
  pf_NewWithConfig :: "string \<Rightarrow> int option \<Rightarrow> string option"
  pf_PingPostgres :: "string \<Rightarrow> string option"
  pf_OpenSQL :: "string \<Rightarrow> string option"
  pf_NewSessionLocker :: "string option"
  pf_NewProvider :: "bool \<Rightarrow> string option"
  pf_Up :: "string option"
  pf_HasPending :: "string + bool"
  pf_PingRedis :: "redis_options \<Rightarrow> string option"
  pf_NewFirebase :: "string \<Rightarrow> string option"
  pf_Messaging :: "string option"
  pf_redis :: "redis_options \<Rightarrow> 'k redis"
  pf_gateway :: "sms_settings \<Rightarrow> string \<Rightarrow> string \<Rightarrow> ('k world, unit) op"
  pf_hash :: hash
  pf_jwt :: jwt_lib
  pf_jose :: jose_lib
  pf_decimal :: decimal_lib

section \<open>PostgreSQL and its schema\<close>

definition NewPool :: "'k platform \<Rightarrow> string \<Rightarrow> int \<Rightarrow> unit startup" where
  "NewPool P dsn maxConns h =
     (case pf_ParseConfig P dsn of
        Some m \<Rightarrow> (Inl (''parse postgres dsn: '' @ m), h)
      | None \<Rightarrow>
          (case pf_NewWithConfig P dsn (if maxConns > 0 then Some maxConns else None) of
             Some m \<Rightarrow> (Inl (''create postgres pool: '' @ m), h)
           | None \<Rightarrow>
               (case pf_PingPostgres P dsn of
                  Some m \<Rightarrow> (Inl (''ping postgres: '' @ m), close_pool (open_pool h))
                | None \<Rightarrow> (Inr (), open_pool h))))"

definition migrate_Run :: "'k platform \<Rightarrow> string \<Rightarrow> unit startup" where
  "migrate_Run P dsn h =
     (case pf_OpenSQL P dsn of
        Some m \<Rightarrow> (Inl (''open migration connection: '' @ m), h)
      | None \<Rightarrow>
          let h = open_migration h in
          (case pf_NewSessionLocker P of
             Some m \<Rightarrow> (Inl (''create migration lock: '' @ m), close_migration h)
           | None \<Rightarrow>
               (case pf_NewProvider P True of
                  Some m \<Rightarrow> (Inl (''create migration provider: '' @ m), close_migration h)
                | None \<Rightarrow>
                    (case pf_Up P of
                       Some m \<Rightarrow> (Inl (''apply migrations: '' @ m), close_migration h)
                     | None \<Rightarrow> (Inr (), close_migration h)))))"

text \<open>\<open>Verify\<close> takes no lock. Both its deferred calls close the connection, the second time without effect.\<close>

definition migrate_Verify :: "'k platform \<Rightarrow> string \<Rightarrow> unit startup" where
  "migrate_Verify P dsn h =
     (case pf_OpenSQL P dsn of
        Some m \<Rightarrow> (Inl (''open migration connection: '' @ m), h)
      | None \<Rightarrow>
          let h = open_migration h in
          (case pf_NewProvider P False of
             Some m \<Rightarrow> (Inl (''create migration provider: '' @ m), close_migration h)
           | None \<Rightarrow>
               (case pf_HasPending P of
                  Inl m \<Rightarrow> (Inl (''check pending migrations: '' @ m), close_migration h)
                | Inr pending \<Rightarrow>
                    if pending
                    then (Inl ''database schema is behind: pending migrations exist (run `promogo migrate` first)'', close_migration h)
                    else (Inr (), close_migration h))))"

text \<open>The schema at start-up: verified where it is brought up to date out of band, and brought up to date otherwise.\<close>

definition startupSchema :: "'k platform \<Rightarrow> config \<Rightarrow> unit startup" where
  "startupSchema P cfg h =
     (let dsn = DSN (c_Postgres cfg) in
      if as_SkipStartupMigrations (c_App cfg)
      then (case migrate_Verify P dsn h of (Inl m, h1) \<Rightarrow> (Inl (''verify migrations: '' @ m), h1) | (Inr u, h1) \<Rightarrow> (Inr u, h1))
      else (case migrate_Run P dsn h of (Inl m, h1) \<Rightarrow> (Inl (''run migrations: '' @ m), h1) | (Inr u, h1) \<Rightarrow> (Inr u, h1)))"

section \<open>The ways out\<close>

datatype 'k sms_sender = GivenSender "string \<Rightarrow> string \<Rightarrow> ('k world, unit) op" | HttpSms sms_settings | LogSms

datatype notifier = FcmChannel string | LogChannel

definition logsms_Send :: "string \<Rightarrow> string \<Rightarrow> ('k world, unit) op" where
  "logsms_Send phone message = ok ()"

fun sms_Send :: "'k platform \<Rightarrow> 'k sms_sender \<Rightarrow> string \<Rightarrow> string \<Rightarrow> ('k world, unit) op" where
  "sms_Send P (GivenSender send) = send"
| "sms_Send P (HttpSms cfg) = pf_gateway P cfg"
| "sms_Send P LogSms = logsms_Send"

definition fcmchannel_New :: "'k platform \<Rightarrow> string \<Rightarrow> string + notifier" where
  "fcmchannel_New P credentials =
     (case pf_NewFirebase P credentials of
        Some m \<Rightarrow> Inl (''init firebase app: '' @ m)
      | None \<Rightarrow>
          (case pf_Messaging P of
             Some m \<Rightarrow> Inl (''init firebase messaging client: '' @ m)
           | None \<Rightarrow> Inr (FcmChannel credentials)))"

section \<open>The application\<close>

record 'k app =
  ap_addr :: string
  ap_deps :: "'k deps"
  ap_worker :: outbox_worker_config
  ap_sms :: "'k sms_sender"
  ap_notifier :: notifier

definition redisOpts :: "redis_settings \<Rightarrow> redis_options" where
  "redisOpts r = \<lparr>ro_Addr = rd_Addr r, ro_Password = rd_Password r, ro_DB = rd_DB r,
     ro_MinTLS = (if rd_TLSEnabled r then Some VersionTLS12 else None)\<rparr>"

definition smsSender :: "(string \<Rightarrow> string \<Rightarrow> ('k world, unit) op) option \<Rightarrow> config \<Rightarrow> 'k sms_sender" where
  "smsSender override cfg =
     (case override of
        Some send \<Rightarrow> GivenSender send
      | None \<Rightarrow> if sm_Provider (c_SMS cfg) = ''http'' then HttpSms (c_SMS cfg) else LogSms)"

definition loyaltyService :: "config \<Rightarrow> loyalty_service" where
  "loyaltyService cfg =
     \<lparr>svc_antiFraud = \<lparr>af_DailyRedeemPointsLimit = fr_DailyRedeemPointsLimit (c_AntiFraud cfg),
        af_DailyRedeemWindow = fr_DailyRedeemWindow (c_AntiFraud cfg)\<rparr>,
      svc_invites = \<lparr>inv_AppURL = iv_AppURL (c_Invite cfg), inv_DailyStoreLimit = iv_DailyStoreLimit (c_Invite cfg),
        inv_Stores = True, inv_CustomerAccounts = True, inv_Outbox = True\<rparr>\<rparr>"

definition second :: duration where "second = 1000000000"

definition outboxWorker :: outbox_worker_config where
  "outboxWorker = \<lparr>ow_PollInterval = 2 * second, ow_BatchSize = 50, ow_MaxConcurrency = 10, ow_MaxAttempts = 5,
     ow_BaseBackoff = 5 * second, ow_MaxBackoff = 5 * minute, ow_DeliverTimeout = 30 * second\<rparr>"

definition qrService :: "'k platform \<Rightarrow> config \<Rightarrow> 'k qr_service" where
  "qrService P cfg =
     \<lparr>qs_redis = pf_redis P (redisOpts (c_Redis cfg)), qs_hash = pf_hash P,
      qs_cfg = \<lparr>qr_TTL = fr_QRTTL (c_AntiFraud cfg), qr_IssueCooldown = fr_QRIssueCooldown (c_AntiFraud cfg),
        qr_ConsumeCooldown = fr_QRConsumeCooldown (c_AntiFraud cfg)\<rparr>,
      qs_audit = True\<rparr>"

definition customerAuthService :: "'k platform \<Rightarrow> 'k sms_sender \<Rightarrow> config \<Rightarrow> 'k customer_auth" where
  "customerAuthService P sms cfg =
     (let a = c_Auth cfg in
      \<lparr>ca_redis = pf_redis P (redisOpts (c_Redis cfg)), ca_hash = pf_hash P, ca_jwt = pf_jwt P, ca_sms = sms_Send P sms,
       ca_cfg = \<lparr>cac_AccessTokenSecret = au_AccessTokenSecret a, cac_AccessTokenTTL = au_AccessTokenTTL a,
         cac_RefreshTokenTTL = au_RefreshTokenTTL a,
         cac_OTP = \<lparr>otp_CodeTTL = au_OTPTTL a, otp_ResendCooldown = au_OTPResendCooldown a,
           otp_MaxAttempts = au_OTPMaxAttempts a, otp_RateLimitWindow = au_OTPRateLimitWindow a,
           otp_MaxRequestsPerPhone = au_OTPMaxRequestsPerPhone a, otp_MaxRequestsPerIP = au_OTPMaxRequestsPerIP a\<rparr>\<rparr>\<rparr>)"

definition staffAuthService :: "'k platform \<Rightarrow> config \<Rightarrow> staff_auth" where
  "staffAuthService P cfg =
     \<lparr>sa_jwt = pf_jwt P, sa_jose = pf_jose P,
      sa_oidc = \<lparr>ov_issuer = od_IssuerURL (c_OIDC cfg), ov_audience = od_Audience (c_OIDC cfg),
        ov_cacheTTL = od_JWKSCacheTTL (c_OIDC cfg)\<rparr>,
      sa_cfg = \<lparr>sac_AccessTokenSecret = au_AccessTokenSecret (c_Auth cfg), sac_AccessTokenTTL = au_AccessTokenTTL (c_Auth cfg)\<rparr>\<rparr>"

text \<open>The readiness check of a request, from its two pings.\<close>

definition Ready :: "string option \<Rightarrow> string option \<Rightarrow> string option" where
  "Ready pg rds =
     (case pg of
        Some m \<Rightarrow> Some (''postgres: '' @ m)
      | None \<Rightarrow> map_option (\<lambda>m. ''redis: '' @ m) rds)"

definition serverDeps :: "'k platform \<Rightarrow> prefix list \<Rightarrow> 'k sms_sender \<Rightarrow> config \<Rightarrow> 'k deps" where
  "serverDeps P proxies sms cfg =
     (let options = redisOpts (c_Redis cfg) in
      \<lparr>dp_hash = pf_hash P, dp_redis = pf_redis P options, dp_RateLimiter = True, dp_RateLimit = c_RateLimit cfg,
       dp_jwt = pf_jwt P, dp_CustomerAccessTokenSecret = au_AccessTokenSecret (c_Auth cfg),
       dp_StaffAccessTokenSecret = au_AccessTokenSecret (c_Auth cfg), dp_TrustedProxies = proxies, dp_decimal = pf_decimal P,
       dp_Loyalty = loyaltyService cfg, dp_CustomerAuth = customerAuthService P sms cfg, dp_StaffAuth = staffAuthService P cfg,
       dp_QR = qrService P cfg, dp_Ready = Ready (pf_PingPostgres P (DSN (c_Postgres cfg))) (pf_PingRedis P options)\<rparr>)"

definition notifierFor :: "'k platform \<Rightarrow> config \<Rightarrow> string + notifier" where
  "notifierFor P cfg =
     (if fcm_CredentialsJSON (c_FCM cfg) \<noteq> [] then fcmchannel_New P (fcm_CredentialsJSON (c_FCM cfg)) else Inr LogChannel)"

definition app_New :: "'k platform \<Rightarrow> (string \<Rightarrow> string \<Rightarrow> ('k world, unit) op) option \<Rightarrow> config \<Rightarrow> 'k app startup" where
  "app_New P override cfg h =
     (case ParseTrustedProxies (hs_TrustedProxies (c_HTTP cfg)) of
        None \<Rightarrow> (Inl ''parse http.trusted_proxies'', h)
      | Some proxies \<Rightarrow>
          (case NewPool P (DSN (c_Postgres cfg)) (pg_MaxConns (c_Postgres cfg)) h of
             (Inl m, h1) \<Rightarrow> (Inl (''connect postgres: '' @ m), h1)
           | (Inr _, h1) \<Rightarrow>
               (case startupSchema P cfg h1 of
                  (Inl m, h2) \<Rightarrow> (Inl m, close_pool h2)
                | (Inr _, h2) \<Rightarrow>
                    (let h3 = open_client h2; sms = smsSender override cfg in
                     case pf_PingRedis P (redisOpts (c_Redis cfg)) of
                       Some m \<Rightarrow> (Inl (''connect redis: '' @ m), close_pool h3)
                     | None \<Rightarrow>
                         (case notifierFor P cfg of
                            Inl m \<Rightarrow> (Inl (''init fcm channel: '' @ m), close_pool h3)
                          | Inr notifier \<Rightarrow>
                              (Inr \<lparr>ap_addr = Addr (c_HTTP cfg), ap_deps = serverDeps P proxies sms cfg, ap_worker = outboxWorker,
                                 ap_sms = sms, ap_notifier = notifier\<rparr>, h3))))))"

definition app_Close :: "holdings \<Rightarrow> holdings" where
  "app_Close h = close_client (close_pool h)"

end
