(* ===== verification/Edge.thy ===== *)
theory Edge
  imports Mux App
begin

text \<open>
  The outside of the handler \<open>New\<close> of \<open>internal/httpserver/server.go\<close> builds, down to the writes on the
  connection: request ids (\<open>middleware_requestid.go\<close>), the access log with its \<open>statusWriter\<close>
  (\<open>middleware_logging.go\<close>), panic recovery (\<open>middleware_recover.go\<close>), the measuring of one route
  (\<open>middleware_metrics.go\<close>) and the timeouts. What a handler does is a list of actions on its writer and whether it
  panics after them; the encoding of JSON is a parameter. Log lines leave out durations and stack traces.
\<close>

section \<open>Response writers\<close>

text \<open>
  \<open>net/http\<close>'s writer: the first status is sent, later ones are ignored; a write without a status sends
  200; a status without a body drops what is written. The code sends no informational status.
\<close>

record response_writer =
  rw_RequestID :: string
  rw_Sent :: "int option"
  rw_Body :: string

definition send_header :: "int \<Rightarrow> 'z response_writer_scheme \<Rightarrow> 'z response_writer_scheme" where
  "send_header status w = (if rw_Sent w = None then w\<lparr>rw_Sent := Some status\<rparr> else w)"

definition send_body :: "string \<Rightarrow> 'z response_writer_scheme \<Rightarrow> 'z response_writer_scheme" where
  "send_body b w =
     (let w1 = send_header 200 w
      in if rw_Sent w1 \<in> {Some 204, Some 304} then w1 else w1\<lparr>rw_Body := rw_Body w1 @ b\<rparr>)"

text \<open>\<open>statusWriter\<close> embeds such a writer and notes every status on its way.\<close>

record status_writer = response_writer +
  sw_status :: int

definition statusWriter_WriteHeader :: "int \<Rightarrow> status_writer \<Rightarrow> status_writer" where
  "statusWriter_WriteHeader status w = send_header status (w\<lparr>sw_status := status\<rparr>)"

datatype action = WriteHeader int | Write string

fun act :: "action \<Rightarrow> status_writer \<Rightarrow> status_writer" where
  "act (WriteHeader status) w = statusWriter_WriteHeader status w"
| "act (Write b) w = send_body b w"

definition perform :: "action list \<Rightarrow> status_writer \<Rightarrow> status_writer" where
  "perform actions w = fold act actions w"

section \<open>Answers\<close>

record 'a encoder =
  en_Value :: "'a \<Rightarrow> string option"
  en_Error :: "string \<Rightarrow> string"
  en_ErrorCode :: "string \<Rightarrow> string \<Rightarrow> string"

text \<open>What \<open>writeJSON\<close> and its variants do; a value that cannot be encoded leaves the body empty.\<close>

fun answer :: "'a encoder \<Rightarrow> 'a response \<Rightarrow> action list" where
  "answer en (response.Reply status v) = WriteHeader status # (case en_Value en v of None \<Rightarrow> [] | Some b \<Rightarrow> [Write b])"
| "answer en (Header status) = [WriteHeader status]"
| "answer en (Refuse status message) = [WriteHeader status, Write (en_Error en message)]"
| "answer en (RefuseCode status code message) = [WriteHeader status, Write (en_ErrorCode en code message)]"

fun status_of :: "'a response \<Rightarrow> int" where
  "status_of (response.Reply status v) = status"
| "status_of (Header status) = status"
| "status_of (Refuse status message) = status"
| "status_of (RefuseCode status code message) = status"

section \<open>The chain\<close>

type_synonym conduct = "action list \<times> bool"

datatype log_line =
    PanicRecovered http_method "string list" string
  | HTTPRequest http_method "string list" int string

definition newRequestID :: "nat list option \<Rightarrow> string" where
  "newRequestID drawn = (case drawn of None \<Rightarrow> [] | Some bs \<Rightarrow> EncodeToString bs)"

definition request_id :: "string \<Rightarrow> nat list option \<Rightarrow> string" where
  "request_id header drawn = (if header = [] \<or> 128 < length header then newRequestID drawn else header)"

definition recoverMW ::
    "'a encoder \<Rightarrow> http_method \<Rightarrow> string list \<Rightarrow> string \<Rightarrow> conduct \<Rightarrow> status_writer \<Rightarrow> status_writer \<times> log_line list" where
  "recoverMW en meth path i c w =
     (let (actions, panicked) = c; w1 = perform actions w
      in if panicked
         then (perform (answer en (Refuse 500 ''internal server error'')) w1, [PanicRecovered meth path i])
         else (w1, []))"

definition loggingMW ::
    "'a encoder \<Rightarrow> http_method \<Rightarrow> string list \<Rightarrow> string \<Rightarrow> conduct \<Rightarrow> response_writer \<Rightarrow> response_writer \<times> log_line list" where
  "loggingMW en meth path i c w =
     (let (sw, log) = recoverMW en meth path i c (response_writer.extend w \<lparr>sw_status = 200\<rparr>)
      in (response_writer.truncate sw, log @ [HTTPRequest meth path (sw_status sw) i]))"

text \<open>A handler that returns without a status has sent 200.\<close>

definition requestIDMW ::
    "'a encoder \<Rightarrow> string \<Rightarrow> nat list option \<Rightarrow> http_method \<Rightarrow> string list \<Rightarrow> conduct \<Rightarrow> response_writer \<times> log_line list" where
  "requestIDMW en header drawn meth path c =
     (let i = request_id header drawn;
          (w, log) = loggingMW en meth path i c \<lparr>rw_RequestID = i, rw_Sent = None, rw_Body = []\<rparr>
      in (send_header 200 w, log))"

text \<open>
  The measuring of a route stands inside its guards, and after the call without a \<open>defer\<close>: it sees
  neither the requests the guards refuse nor those whose handler panics.
\<close>

definition metricsMW :: "string \<Rightarrow> http_method \<Rightarrow> conduct \<Rightarrow> response_writer \<Rightarrow> (string \<times> http_method \<times> string) option" where
  "metricsMW op meth c w =
     (let (actions, panicked) = c
      in if panicked then None
         else Some (op, meth, show_int (sw_status (perform actions (response_writer.extend w \<lparr>sw_status = 200\<rparr>)))))"

definition requestTimeout :: duration where "requestTimeout = 8 * second"

section \<open>What the log tells\<close>

text \<open>An id is the caller's or 32 digits, and never longer than 128 bytes.\<close>

lemma request_id_length:
  assumes "length bs = 16"
  shows "length (request_id header (Some bs)) = (if 1 \<le> length header \<and> length header \<le> 128 then length header else 32)"
  using assms by (cases header) (auto simp: request_id_def newRequestID_def length_EncodeToString)

lemma send_sel [simp]:
  "sw_status (send_header s w) = sw_status w" "sw_status (send_body b w) = sw_status w"
  "rw_RequestID (send_header s v) = rw_RequestID v" "rw_RequestID (send_body b v) = rw_RequestID v"
  by (simp_all add: send_header_def send_body_def Let_def)

lemma rw_Sent_send: "rw_Sent (send_header s w) = Some (case rw_Sent w of None \<Rightarrow> s | Some x \<Rightarrow> x)"
  "rw_Sent (send_body b w) = Some (case rw_Sent w of None \<Rightarrow> 200 | Some x \<Rightarrow> x)"
  by (auto simp: send_header_def send_body_def Let_def split: option.split)

lemma perform_id: "rw_RequestID (perform actions w) = rw_RequestID w"
proof (induction actions arbitrary: w)
  case (Cons x xs)
  then show ?case by (cases x) (simp_all add: perform_def statusWriter_WriteHeader_def)
qed (simp add: perform_def)

fun is_body :: "action \<Rightarrow> bool" where
  "is_body (Write b) = True"
| "is_body (WriteHeader s) = False"

text \<open>A status, if any, comes first and alone.\<close>

fun one_header :: "action list \<Rightarrow> bool" where
  "one_header [] = True"
| "one_header (x # xs) = list_all is_body xs"

lemma perform_bodies:
  assumes "list_all is_body actions" "rw_Sent w = Some (sw_status w)"
  shows "sw_status (perform actions w) = sw_status w" "rw_Sent (perform actions w) = Some (sw_status w)"
proof -
  have "sw_status (perform actions w) = sw_status w \<and> rw_Sent (perform actions w) = Some (sw_status w)"
    using assms
  proof (induction actions arbitrary: w)
    case (Cons x xs)
    then obtain b where "x = Write b" by (cases x) auto
    with Cons show ?case by (simp add: perform_def rw_Sent_send)
  qed (simp add: perform_def)
  then show "sw_status (perform actions w) = sw_status w" "rw_Sent (perform actions w) = Some (sw_status w)" by simp_all
qed

lemma perform_one_header:
  assumes "one_header actions" "actions \<noteq> []" "rw_Sent w = None" "sw_status w = 200"
  shows "rw_Sent (perform actions w) = Some (sw_status (perform actions w))"
proof -
  obtain x xs where actions: "actions = x # xs" "list_all is_body xs" using assms(1,2) by (cases actions) auto
  have "rw_Sent (act x w) = Some (sw_status (act x w))"
    using assms(3,4) by (cases x) (simp_all add: statusWriter_WriteHeader_def rw_Sent_send)
  from perform_bodies [OF actions(2) this] actions(1) show ?thesis by (simp add: perform_def)
qed

lemma answer_one_header: "one_header (answer en a)" "answer en a \<noteq> []"
  by (cases a; simp split: option.split)+

text \<open>
  Every answer leaves one line in the access log, and a panic before anything is written one more;
  the status and the id of that line are those the client gets.
\<close>

theorem log_tells_status:
  assumes "one_header actions" "panicked \<longrightarrow> actions = []"
  shows "\<exists>w status. requestIDMW en header drawn meth path (actions, panicked) =
      (w, (if panicked then [PanicRecovered meth path (request_id header drawn)] else []) @
          [HTTPRequest meth path status (request_id header drawn)]) \<and>
    rw_Sent w = Some status \<and> rw_RequestID w = request_id header drawn"
proof -
  let ?i = "request_id header drawn"
  let ?w = "\<lparr>rw_RequestID = ?i, rw_Sent = None, rw_Body = [], sw_status = 200\<rparr>"
  let ?acts = "if panicked then answer en (Refuse 500 ''internal server error'') else actions"
  let ?v = "perform ?acts ?w"
  have run: "requestIDMW en header drawn meth path (actions, panicked) =
      (send_header 200 (response_writer.truncate ?v),
       (if panicked then [PanicRecovered meth path ?i] else []) @ [HTTPRequest meth path (sw_status ?v) ?i])"
    using assms(2) by (simp add: requestIDMW_def loggingMW_def recoverMW_def Let_def response_writer.defs perform_def)
  have "rw_Sent (send_header 200 (response_writer.truncate ?v)) = Some (sw_status ?v)"
  proof (cases "?acts = []")
    case True
    then show ?thesis by (simp add: perform_def rw_Sent_send response_writer.defs)
  next
    case False
    have "one_header ?acts" using assms(1) by simp
    from perform_one_header [OF this False, of ?w] show ?thesis by (simp add: rw_Sent_send response_writer.defs)
  qed
  moreover have "rw_RequestID (send_header 200 (response_writer.truncate ?v)) = ?i"
    using perform_id [of ?acts ?w] by (simp add: response_writer.defs)
  ultimately show ?thesis using run by blast
qed

text \<open>An answer of the model is sent and logged with its status.\<close>

lemma answer_logged:
  "\<exists>w. requestIDMW en header drawn meth path (answer en a, False) = (w, [HTTPRequest meth path (status_of a) (request_id header drawn)]) \<and>
     rw_Sent w = Some (status_of a)"
  by (cases a)
    (auto simp: requestIDMW_def loggingMW_def recoverMW_def Let_def response_writer.defs perform_def statusWriter_WriteHeader_def
      send_header_def send_body_def split: option.split)

text \<open>
  Not so after a panic that comes once the answer is written: the client keeps its status and gets
  the error document behind its own, and the log says 500.
\<close>

lemma panic_after_answer:
  "requestIDMW en header drawn meth path ([WriteHeader 200, Write body], True) =
     (\<lparr>rw_RequestID = request_id header drawn, rw_Sent = Some 200, rw_Body = body @ en_Error en ''internal server error''\<rparr>,
      [PanicRecovered meth path (request_id header drawn), HTTPRequest meth path 500 (request_id header drawn)])"
  by (simp add: requestIDMW_def loggingMW_def recoverMW_def Let_def response_writer.defs perform_def statusWriter_WriteHeader_def
      send_header_def send_body_def)

end
