(* ===== verification/Route_Theorems.thy ===== *)
theory Route_Theorems
  imports Mux Http_Demo
begin

text \<open>
  What the table of routes promises: every operation has a handler, a request goes to the route
  its method and path match, and each area of the API is behind its own guard.
\<close>

lemma routes_name_permissions:
  "rt \<in> set routeTable \<Longrightarrow> rt_Contour rt = contourStaff \<Longrightarrow> \<not> rt_StaffIdentityOnly rt \<Longrightarrow> rt_StaffPermission rt = Some (permissionOf rt)"
proof -
  have "list_all (\<lambda>rt. rt_Contour rt = contourStaff \<and> \<not> rt_StaffIdentityOnly rt \<longrightarrow> rt_StaffPermission rt \<noteq> None) routeTable"
    by code_simp
  then show "rt \<in> set routeTable \<Longrightarrow> rt_Contour rt = contourStaff \<Longrightarrow> \<not> rt_StaffIdentityOnly rt \<Longrightarrow> ?thesis"
    by (auto simp: list_all_iff permissionOf_def split: option.splits)
qed

lemma operations: "map rt_OperationID routeTable =
   [''getHealthz'', ''getReadyz'', ''createTransaction'', ''redeemTransaction'', ''refundTransaction'', ''lookupClientByPhone'',
    ''getClientBalance'', ''resolveQR'', ''requestOTP'', ''verifyOTP'', ''refreshCustomerSession'', ''customerLogout'',
    ''customerLogoutAll'', ''getMe'', ''getMyBalance'', ''getMyTransactions'', ''issueQR'', ''registerDevice'', ''revokeDevice'',
    ''staffOIDCLogin'', ''getStaffMe'', ''listOrganizations'', ''createOrganization'', ''getStore'', ''updateStore'',
    ''getStoreOverview'', ''listStores'', ''createStore'', ''listStaffMemberships'', ''createStaffMembership'',
    ''updateStaffMembership'', ''adminListClients'', ''adminLookupClient'', ''adminListClientTransactions'', ''getLoyaltyConfig'',
    ''putLoyaltyConfig'', ''listLoyaltyConfigHistory'', ''rollbackLoyaltyConfig'', ''listStoreAPIKeys'', ''createStoreAPIKey'',
    ''revokeStoreAPIKey'', ''listAuditEvents'']"
  by code_simp

lemma operations_handled: "list_all (\<lambda>op. handlerFor J deps E L draws op \<noteq> None) (map rt_OperationID routeTable)"
  unfolding operations by (simp add: handlerFor_def)

lemma routes_handled: "list_all (\<lambda>rt. handle J deps E L draws rt \<noteq> None) routeTable"
  using operations_handled [of J deps E L draws] by (simp add: handle_def list_all_iff)

lemma routes_distinct: "distinct (map rt_OperationID routeTable)"
  unfolding operations by code_simp

text \<open>A request with the method of a route whose pattern matches its path goes to that route's handler.\<close>

lemma request_served:
  assumes "rt \<in> set routeTable" "route_match rt path = Some vals"
  shows "\<exists>h. handle J deps E L draws rt = Some h \<and>
    serveHTTP J deps E L draws (rt_Method rt) path r = h (with_path vals r)"
proof -
  from routes_handled [of J deps E L draws] assms(1) obtain h where "handle J deps E L draws rt = Some h"
    by (auto simp: list_all_iff)
  with mux_matched [OF assms] show ?thesis by (simp add: serveHTTP_def)
qed

section \<open>What a path asks for\<close>

text \<open>The paths that are open to everyone; each has one operation.\<close>

definition public_paths :: "string list list" where
  "public_paths =
     [[''healthz''], [''readyz''], [''api'', ''v1'', ''auth'', ''otp'', ''request''], [''api'', ''v1'', ''auth'', ''otp'', ''verify''],
      [''api'', ''v1'', ''auth'', ''refresh''], [''api'', ''v1'', ''auth'', ''logout''], [''api'', ''v1'', ''staff'', ''auth'', ''oidc'']]"

text \<open>The documented areas of the API, stated on paths alone, whatever the table says.\<close>

definition area :: "string list \<Rightarrow> contour" where
  "area path =
     (if take 3 path = [''api'', ''v1'', ''admin''] \<or> path = [''api'', ''v1'', ''staff'', ''me''] then contourStaff
      else if take 3 path = [''api'', ''v1'', ''me''] \<or> path = [''api'', ''v1'', ''auth'', ''logout-all''] then contourCustomer
      else if take 3 path = [''api'', ''v1'', ''transactions''] \<or> take 3 path = [''api'', ''v1'', ''clients''] then contourStoreKey
      else contourPublic)"

definition credential :: "'k deps \<Rightarrow> time \<Rightarrow> db \<Rightarrow> string \<Rightarrow> string list \<Rightarrow> bool" where
  "credential deps t d token path \<longleftrightarrow>
     (case area path of
        contourPublic \<Rightarrow> path \<in> set public_paths
      | contourStoreKey \<Rightarrow> \<exists>s key. opens (dp_hash deps) t d token s key
      | contourCustomer \<Rightarrow>
          \<exists>i. ParseCustomerAccessToken (dp_jwt deps) t (dp_CustomerAccessTokenSecret deps) token = Inr i \<and>
            list_ex (\<lambda>a. acc_ID a = i \<and> acc_Status a = CustomerAccountActive) (db_accounts d)
      | contourStaff \<Rightarrow>
          \<exists>i. ParseStaffAccessToken (dp_jwt deps) t (dp_StaffAccessTokenSecret deps) token = Inr i \<and>
            list_ex (\<lambda>u. su_ID u = i \<and> su_Status u = StaffActive) (db_staff_users d))"

text \<open>The literal segments a pattern begins with decide the area of every path it matches.\<close>

fun literals :: "segment list \<Rightarrow> string list" where
  "literals (Literal l # ps) = l # literals ps"
| "literals _ = []"

lemma match_literals:
  "match_segments ps path = Some m \<Longrightarrow> take (length (literals ps)) path = literals ps"
proof (induction ps arbitrary: path m rule: literals.induct)
  case (1 l ps)
  then show ?case by (cases path) (auto split: if_splits)
qed auto

lemma match_constant: "match_segments (map Literal ls) path = Some m \<Longrightarrow> path = ls"
proof (induction ls arbitrary: path m)
  case Nil
  then show ?case by (cases path) auto
next
  case (Cons l ls)
  then show ?case by (cases path) (auto split: if_splits)
qed

definition prefixes :: "string list list" where
  "prefixes = [[''api'', ''v1'', ''admin''], [''api'', ''v1'', ''me''], [''api'', ''v1'', ''transactions''], [''api'', ''v1'', ''clients'']]"

lemma area_prefix: "take 3 path \<in> set prefixes \<Longrightarrow> take 3 path = take 3 ls \<Longrightarrow> area path = area ls"
  by (auto simp: prefixes_def area_def)

lemma routes_in_area:
  "list_all (\<lambda>rt. let ps = pattern_of (rt_Path rt); ls = literals ps in
     area ls = rt_Contour rt \<and> (map Literal ls = ps \<or> List.member prefixes (take 3 ls)) \<and>
     (rt_Contour rt = contourPublic \<longrightarrow> map Literal ls = ps \<and> List.member public_paths ls)) routeTable"
  by code_simp

lemma area_of_route:
  assumes "rt \<in> set routeTable" "route_match rt path = Some vals"
  shows "area path = rt_Contour rt" "rt_Contour rt = contourPublic \<Longrightarrow> path \<in> set public_paths"
proof -
  let ?ps = "pattern_of (rt_Path rt)"
  let ?ls = "literals ?ps"
  from assms(2) have match: "match_segments ?ps path = Some vals" by (simp add: route_match_def)
  have ok: "area ?ls = rt_Contour rt" "map Literal ?ls = ?ps \<or> take 3 ?ls \<in> set prefixes"
    "rt_Contour rt = contourPublic \<Longrightarrow> map Literal ?ls = ?ps \<and> ?ls \<in> set public_paths"
    using routes_in_area assms(1) by (auto simp: list_all_iff Let_def)
  have fixed: "path = ?ls" if "map Literal ?ls = ?ps"
    using match match_constant [of ?ls path vals] that by simp
  show "area path = rt_Contour rt"
  proof (cases "map Literal ?ls = ?ps")
    case True
    with fixed ok(1) show ?thesis by metis
  next
    case False
    with ok(2) have pre: "take 3 ?ls \<in> set prefixes" by simp
    then have "3 \<le> length ?ls" by (auto simp: prefixes_def dest: arg_cong [of _ _ length])
    with match_literals [OF match] have "take 3 path = take 3 ?ls" by (metis min.absorb1 take_take)
    with pre ok(1) show ?thesis using area_prefix by metis
  qed
  show "path \<in> set public_paths" if "rt_Contour rt = contourPublic"
    using ok(3) [OF that] fixed by metis
qed

lemma RequireCustomerSession_refused:
  assumes "run_state (RequireCustomerSession J secret (quiet t) h r) w = (a, w')"
    and "\<And>i. ParseCustomerAccessToken J t secret (bearer r) = Inr i \<Longrightarrow>
      \<not> list_ex (\<lambda>a. acc_ID a = i \<and> acc_Status a = CustomerAccountActive) (db_accounts (w_db w))"
  shows "refused a \<and> w' = w"
proof (cases "ParseCustomerAccessToken J t secret (bearer r)")
  case (Inr i)
  note none = assms(2) [OF this]
  show ?thesis
  proof (cases "find (\<lambda>a. acc_ID a = i) (db_accounts (w_db w))")
    case None
    with assms(1) Inr show ?thesis
      by (auto simp: RequireCustomerSession_def Let_def run_on_db account_GetByID_def split: if_splits)
  next
    case (Some acc)
    with none have "acc_Status acc \<noteq> CustomerAccountActive" by (auto simp: list_ex_iff dest!: find_SomeD)
    with Some assms(1) Inr show ?thesis
      by (auto simp: RequireCustomerSession_def Let_def run_on_db account_GetByID_def split: if_splits)
  qed
qed (use assms(1) in \<open>auto simp: RequireCustomerSession_def Let_def split: if_splits\<close>)

lemma staff_guards_refused:
  assumes "\<And>i. ParseStaffAccessToken J t secret (bearer r) = Inr i \<Longrightarrow>
      \<not> list_ex (\<lambda>u. su_ID u = i \<and> su_Status u = StaffActive) (db_staff_users (w_db w))"
    and "m \<in> {RequireStaffIdentity J secret (quiet t) h r, RequireGlobalStaffPermission J secret (quiet t) perm h r,
      RequireStaff J secret (quiet t) perm scopeOf h r}"
    and "run_state m w = (a, w')"
  shows "refused a \<and> w' = w"
proof (cases "ParseStaffAccessToken J t secret (bearer r)")
  case (Inl e)
  with assms(2,3) show ?thesis
    by (auto simp: RequireStaffIdentity_def RequireGlobalStaffPermission_def RequireStaff_def Let_def split: if_splits)
next
  case (Inr i)
  have "\<exists>e. run_state (ResolvePrincipal (quiet t) i) w = (Inl e, w)"
    using assms(1) [OF Inr] by (auto simp: ResolvePrincipal_quiet list_ex_iff dest!: find_SomeD split: option.split)
  with Inr assms(2,3) show ?thesis
    by (auto simp: RequireStaffIdentity_def RequireGlobalStaffPermission_def RequireStaff_def Let_def split: if_splits)
qed

text \<open>Without the credential of its path a request does not get past the guards of its route.\<close>

lemma serve_without_credential:
  assumes "rt \<in> set routeTable" "route_match rt path = Some vals" "\<not> credential deps t (w_db w) (bearer r) path"
    and "run_state (serve deps (quiet t) rt h r) w = (a, w')"
  shows "refused a \<and> w_db w' = w_db w"
proof -
  note area = area_of_route [OF assms(1,2)]
  show ?thesis
  proof (cases "rt_Contour rt = contourStoreKey")
    case True
    with area assms(3) have none: "\<not> opens (dp_hash deps) t (w_db w) (bearer r) s key" for s key
      by (simp add: credential_def)
    show ?thesis using store_route_outcome [OF True assms(4)] none by auto
  next
    case False
    from assms(4) show ?thesis
    proof (cases rule: serve_cases)
      case (2 w1 h1)
      from False area assms(3) consider "rt_Contour rt = contourCustomer" | "rt_Contour rt = contourStaff"
        by (cases "rt_Contour rt") (auto simp: credential_def)
      then have "refused a \<and> w' = w1"
      proof cases
        case 1
        with 2(2) have run: "run_state (RequireCustomerSession (dp_jwt deps) (dp_CustomerAccessTokenSecret deps) (quiet t) h1
            (resolved deps r)) w1 = (a, w')" by (simp add: authenticated_def)
        show ?thesis
          using 1 area assms(3) 2(1) by (intro RequireCustomerSession_refused [OF run]) (auto simp: credential_def)
      next
        case staff: 2
        have "authenticated deps (quiet t) rt h1 (resolved deps r) \<in>
            {RequireStaffIdentity (dp_jwt deps) (dp_StaffAccessTokenSecret deps) (quiet t) h1 (resolved deps r),
             RequireGlobalStaffPermission (dp_jwt deps) (dp_StaffAccessTokenSecret deps) (quiet t) (permissionOf rt) h1 (resolved deps r),
             RequireStaff (dp_jwt deps) (dp_StaffAccessTokenSecret deps) (quiet t) (permissionOf rt) (scopeFn rt) h1 (resolved deps r)}"
          using staff by (simp add: authenticated_def)
        from staff_guards_refused [OF _ this 2(2)] show ?thesis
          using staff area assms(3) 2(1) by (auto simp: credential_def)
      qed
      with 2(1) show ?thesis by simp
    qed simp
  qed
qed


definition no_json :: json_lib where
  "no_json = \<lparr>js_accrue = (\<lambda>_. None), js_redeem = (\<lambda>_. None), js_refund = (\<lambda>_. None),
     js_payload = (\<lambda>_. None), js_phone = (\<lambda>_. None), js_verify = (\<lambda>_. None),
     js_refresh = (\<lambda>_. None), js_device = (\<lambda>_. None), js_id_token = (\<lambda>_. None),
     js_name = (\<lambda>_. None), js_store = (\<lambda>_. None), js_membership = (\<lambda>_. None),
     js_change = (\<lambda>_. None), js_config = (\<lambda>_. None), js_rollback = (\<lambda>_. None),
     js_key = (\<lambda>_. None)\<rparr>"

definition no_draws :: draws where
  "no_draws = \<lparr>dr_otp = None, dr_token = None, dr_key_id = None, dr_key_secret = None, dr_jwks_env = quiet 0,
     dr_jwks_reply = JwksError, dr_jwks_cache = NewOIDCVerifier\<rparr>"


end
