(* ===== verification/Http_Paging.thy ===== *)
theory Http_Paging
  imports Http_Clients Paging Ledger_Theorems Http_Demo
begin

text \<open>
  The paged listings of the HTTP server. A reader who follows \<open>next_cursor\<close> until there is none
  (\<open>crawl\<close>) has seen the whole listing: every row once, in order.
\<close>

section \<open>Following the cursors\<close>

fun crawl :: "(string \<Rightarrow> ('a list \<times> string) option) \<Rightarrow> nat \<Rightarrow> string \<Rightarrow> 'a list option" where
  "crawl get 0 c = None"
| "crawl get (Suc n) c =
     (case get c of
        None \<Rightarrow> None
      | Some (rows, next) \<Rightarrow> if next = [] then Some rows else map_option ((@) rows) (crawl get n next))"

text \<open>
  \<open>pos s\<close> is the cursor that points behind the first \<open>s\<close> rows of the listing; a page of \<open>limit\<close> rows
  carries the cursor of the next one where rows are left.
\<close>

lemma crawl_from:
  assumes "0 < limit"
    and "\<And>s. s < length full \<Longrightarrow> get (pos s) = Some (if s + limit < length full
        then (take limit (drop s full), pos (s + limit)) else (drop s full, []))"
    and "\<And>s. 0 < s \<Longrightarrow> s < length full \<Longrightarrow> pos s \<noteq> []"
    and "s < length full" "length full - s \<le> n"
  shows "crawl get n (pos s) = Some (drop s full)"
  using assms(4,5)
proof (induction n arbitrary: s)
  case (Suc n)
  show ?case
  proof (cases "s + limit < length full")
    case True
    with Suc.prems assms(1) have "crawl get n (pos (s + limit)) = Some (drop (s + limit) full)"
      by (intro Suc.IH) auto
    moreover have "pos (s + limit) \<noteq> []" using assms(1,3) True by simp
    moreover have "take limit (drop s full) @ drop (s + limit) full = drop s full"
      by (metis add.commute append_take_drop_id drop_drop)
    ultimately show ?thesis using True by (simp add: assms(2) [OF Suc.prems(1)])
  next
    case False
    then show ?thesis by (simp add: assms(2) [OF Suc.prems(1)])
  qed
qed simp

lemma crawl_all:
  assumes "0 < limit" "pos 0 = []" "full = [] \<Longrightarrow> get [] = Some ([], [])"
    and "\<And>s. s < length full \<Longrightarrow> get (pos s) = Some (if s + limit < length full
        then (take limit (drop s full), pos (s + limit)) else (drop s full, []))"
    and "\<And>s. 0 < s \<Longrightarrow> s < length full \<Longrightarrow> pos s \<noteq> []"
    and "length full < n"
  shows "crawl get n [] = Some full"
proof (cases "full = []")
  case True
  with assms(3,6) show ?thesis by (cases n) auto
next
  case False
  with crawl_from [OF assms(1,4,5), of 0 n] assms(2,6) show ?thesis by simp
qed

text \<open>Rows behind the row at \<open>j\<close>, and the cut of a page, which is fetched with one row to spare.\<close>

lemma rows_behind:
  fixes key :: "'a \<Rightarrow> 'k :: linorder"
  assumes "distinct (map key rows)" "j < length (sort_key key (filter P rows))"
  shows "sort_key key (filter (\<lambda>r. P r \<and> key (sort_key key (filter P rows) ! j) < key r) rows)
    = drop (Suc j) (sort_key key (filter P rows))"
proof -
  let ?s = "sort_key key (filter P rows)"
  have "sort_key key (filter (\<lambda>r. P r \<and> key (?s ! j) < key r) rows) = filter (\<lambda>r. key (?s ! j) < key r) ?s"
    by (simp add: filter_sort conj_commute)
  moreover have "distinct (map key ?s)" by (rule distinct_map_sort_filter [OF assms(1)])
  ultimately show ?thesis using filter_after_sorted [of key ?s j] assms(2) by simp
qed

definition cut_page :: "('a \<Rightarrow> string) \<Rightarrow> nat \<Rightarrow> 'a list \<Rightarrow> 'a list \<times> string" where
  "cut_page enc limit rows = (if length rows > limit then (take limit rows, enc (rows ! (limit - 1))) else (rows, []))"

definition position :: "('a \<Rightarrow> string) \<Rightarrow> 'a list \<Rightarrow> nat \<Rightarrow> string" where
  "position enc full s = (if s = 0 then [] else enc (full ! (s - 1)))"

lemma cut_page_segment:
  assumes "0 < limit" "s \<le> length full"
  shows "cut_page enc limit (take (limit + 1) (drop s full)) =
    (if s + limit < length full then (take limit (drop s full), position enc full (s + limit)) else (drop s full, []))"
  using assms by (auto simp: cut_page_def position_def min_def add.commute)

text \<open>So a listing is complete when every page is the cut of the rows behind its cursor.\<close>

lemma crawl_pages:
  assumes "0 < limit" "\<And>x. enc x \<noteq> []"
    and page: "\<And>s. s = 0 \<or> s < length h \<Longrightarrow> get (position enc h s) =
      (let (p, next) = cut_page enc limit (take (limit + 1) (drop s h)) in Some (map view p, next))"
  shows "crawl get (Suc (length h)) [] = Some (map view h)"
proof (rule crawl_all [where limit = limit and pos = "position enc h"])
  show "get (position enc h s) = Some (if s + limit < length (map view h)
      then (take limit (drop s (map view h)), position enc h (s + limit)) else (drop s (map view h), []))"
    if "s < length (map view h)" for s
    using page [of s] that cut_page_segment [OF assms(1), of s h enc] by (simp add: take_map drop_map)
  show "get [] = Some ([], [])" if "map view h = []"
    using page [of 0] that by (simp add: position_def cut_page_def)
qed (simp_all add: assms(1,2) position_def)

section \<open>Cursor texts\<close>

lemma decode_encode_raw: "decode_raw (encode_raw s) = Some s"
proof -
  have "list_all is_byte (map (of_char :: char \<Rightarrow> nat) s)" by (simp add: list_all_iff is_byte_def)
  then show ?thesis by (simp add: decode_raw_def encode_raw_def base64url_roundtrip bytes_def comp_def)
qed

lemma encode_raw_Nil: "s \<noteq> [] \<Longrightarrow> encode_raw s \<noteq> []"
  by (simp add: encode_raw_def base64url_Nil)

lemma show_int_no_sep: "CHR ''_'' \<notin> set (show_int i)" "CHR '':'' \<notin> set (show_int i)"
  using show_int_chars [of "CHR ''_''" i] show_int_chars [of "CHR '':''" i] by (auto simp: is_digit_def)

lemma show_int_Nil: "show_int i \<noteq> []"
  using show_int_hd [of i] by auto

section \<open>The customer's history\<close>

definition own_clients :: "db \<Rightarrow> int \<Rightarrow> int list" where
  "own_clients d acc = map cl_ID (List.filter (\<lambda>c. cl_CustomerAccountID c = Some acc) (db_clients d))"

abbreviation newest_first :: "transaction \<Rightarrow> int \<times> int" where
  "newest_first t \<equiv> (- tx_CreatedAt t, - tx_ID t)"

definition history_of :: "db \<Rightarrow> int \<Rightarrow> transaction list" where
  "history_of d acc = sort_key newest_first (List.filter (\<lambda>t. tx_ClientID t \<in> set (own_clients d acc)) (db_transactions d))"

definition store_name :: "db \<Rightarrow> int \<Rightarrow> string" where
  "store_name d i = (case find (\<lambda>s. st_ID s = i) (db_stores d) of None \<Rightarrow> [] | Some s \<Rightarrow> st_Name s)"

definition shown_item :: "db \<Rightarrow> transaction \<Rightarrow> me_transaction_item" where
  "shown_item d t = transaction_item (store_name d (tx_StoreID t)) (scanTransaction t)"

definition with_page :: "string \<Rightarrow> string \<Rightarrow> 'b request \<Rightarrow> 'b request" where
  "with_page limit cursor r = r\<lparr>rq_Query := (\<lambda>_. [])(''limit'' := limit, ''cursor'' := cursor)\<rparr>"

lemma with_page_sel [simp]:
  "rq_Query (with_page l c r) = (\<lambda>_. [])(''limit'' := l, ''cursor'' := c)" "rq_Context (with_page l c r) = rq_Context r"
  "rq_PathValue (with_page l c r) = rq_PathValue r"
  by (simp_all add: with_page_def)

lemma run_transactionItems:
  assumes "\<And>i n. names i = Some n \<Longrightarrow> n = store_name (w_db w) i"
  shows "run_state (transactionItems (quiet t) k names ts) w =
    (map (\<lambda>x. transaction_item (store_name (w_db w) (tx_StoreID x)) x) ts, w)"
  using assms
proof (induction ts arbitrary: k names)
  case (Cons x ts)
  let ?n = "store_name (w_db w) (tx_StoreID x)"
  have "run_state (transactionItems (quiet t) (Suc k) (names(tx_StoreID x \<mapsto> ?n)) ts) w =
      (map (\<lambda>x. transaction_item (store_name (w_db w) (tx_StoreID x)) x) ts, w)"
    using Cons.prems by (intro Cons.IH) (auto split: if_splits)
  then show ?case
    using Cons.prems [of "tx_StoreID x"]
    by (auto simp: run_call run_on_db store_GetByID_def store_name_def split: option.split)
qed simp

text \<open>The rows behind a cursor, and where the cursor of a row leads.\<close>

lemma transactions_behind:
  assumes "distinct (map tx_ID (db_transactions d))" "j < length (history_of d acc)"
  shows "run_state (tx_ListByClientIDs (own_clients d acc) n
      (Some \<lparr>cur_CreatedAt = tx_CreatedAt (history_of d acc ! j), cur_ID = tx_ID (history_of d acc ! j)\<rparr>)) d =
    (Inr (map scanTransaction (take n (drop (Suc j) (history_of d acc)))), d)"
proof -
  let ?P = "\<lambda>t. tx_ClientID t \<in> set (own_clients d acc)"
  let ?s = "sort_key newest_first (List.filter ?P (db_transactions d))"
  have "distinct (map newest_first (db_transactions d))" using assms(1) by (auto simp: distinct_map inj_on_def)
  from rows_behind [OF this, of j ?P] assms(2)
  have behind: "sort_key newest_first (List.filter (\<lambda>r. ?P r \<and> newest_first (?s ! j) < newest_first r) (db_transactions d)) = drop (Suc j) ?s"
    by (simp add: history_of_def)
  have "(\<lambda>t. ?P t \<and> (tx_CreatedAt t, tx_ID t) < (tx_CreatedAt (?s ! j), tx_ID (?s ! j))) = (\<lambda>r. ?P r \<and> newest_first (?s ! j) < newest_first r)"
    by (auto simp: fun_eq_iff less_prod_simp)
  with behind show ?thesis by (simp add: tx_ListByClientIDs_def Let_def history_of_def)
qed

definition row_cursor :: "transaction \<Rightarrow> string" where
  "row_cursor t = encodeTransactionCursor (tx_CreatedAt t) (tx_ID t)"

lemma transaction_cursor_roundtrip:
  assumes "in_i64 c" "in_i64 i"
  shows "decodeTransactionCursor (encodeTransactionCursor c i) = Inr (Some \<lparr>cur_CreatedAt = c, cur_ID = i\<rparr>)"
proof -
  have "encodeTransactionCursor c i \<noteq> []"
    by (simp add: encodeTransactionCursor_def encode_raw_Nil)
  then show ?thesis
    by (simp add: decodeTransactionCursor_def encodeTransactionCursor_def decode_encode_raw cut_append show_int_no_sep
        parse_show_int assms wrap64_id)
qed

lemma transactionsPage_cut: "transactionsPage limit rows = cut_page row_cursor limit rows"
  by (simp add: transactionsPage_def cut_page_def row_cursor_def Let_def)

lemma cut_page_map: "(\<And>x. enc (f x) = enc' x) \<Longrightarrow> 0 < limit \<Longrightarrow>
    cut_page enc limit (map f rows) = (map f (fst (cut_page enc' limit rows)), snd (cut_page enc' limit rows))"
  by (simp add: cut_page_def take_map)

definition answer_of :: "'a response \<Rightarrow> 'a option" where
  "answer_of a = (case a of Reply s b \<Rightarrow> Some b | _ \<Rightarrow> None)"

definition history_page ::
    "time \<Rightarrow> keyspace world \<Rightarrow> 'b request \<Rightarrow> string \<Rightarrow> string \<Rightarrow> (me_transaction_item list \<times> string) option" where
  "history_page t w r limit c = answer_of (fst (run_state (handleGetMyTransactions (quiet t) (with_page limit c r)) w))"

lemma own_clients_Nil: "own_clients d acc = [] \<longleftrightarrow> List.filter (\<lambda>c. cl_CustomerAccountID c = Some acc) (db_clients d) = []"
  by (simp add: own_clients_def)

lemma parseTransactionsLimit_pos: "0 < parseTransactionsLimit raw"
  by (auto simp: parseTransactionsLimit_def defaultTransactionsLimit_def maxTransactionsLimit_def split: option.split)

lemma history_page_rows:
  assumes "customerFromContext r = Some acc" "own_clients (w_db w) acc \<noteq> []" "decodeTransactionCursor c = Inr cur"
    and "run_state (tx_ListByClientIDs (own_clients (w_db w) acc) (parseTransactionsLimit limit + 1) cur) (w_db w) =
      (Inr (map scanTransaction rows), w_db w)"
  shows "history_page t w r limit c =
    (let (page, next) = cut_page row_cursor (parseTransactionsLimit limit) rows in Some (map (shown_item (w_db w)) page, next))"
proof -
  let ?n = "parseTransactionsLimit limit"
  have cut: "transactionsPage ?n (map scanTransaction rows) =
      (map scanTransaction (fst (cut_page row_cursor ?n rows)), snd (cut_page row_cursor ?n rows))"
    unfolding transactionsPage_cut
    by (rule cut_page_map) (simp_all add: row_cursor_def scanTransaction_def parseTransactionsLimit_pos)
  have named: "run_state (transactionItems (quiet t) 0 Map.empty xs) w =
      (map (\<lambda>x. transaction_item (store_name (w_db w) (tx_StoreID x)) x) xs, w)" for xs
    by (rule run_transactionItems) simp
  have "customerFromContext (with_page limit c r) = Some acc" using assms(1) by (simp add: customerFromContext_def)
  then have "run_state (handleGetMyTransactions (quiet t) (with_page limit c r)) w =
      (Reply 200 (map (\<lambda>x. transaction_item (store_name (w_db w) (tx_StoreID x)) x) (map scanTransaction (fst (cut_page row_cursor ?n rows))),
         snd (cut_page row_cursor ?n rows)), w)"
    using assms(2-4) named
    by (simp add: handleGetMyTransactions_def Let_def run_call run_on_db client_ListByCustomerAccount_def own_clients_def writeJSON_def cut)
  then show ?thesis
    by (simp add: history_page_def answer_of_def shown_item_def scanTransaction_def split: prod.split)
qed

lemma history_fetch:
  assumes ids: "distinct (map tx_ID (db_transactions d))"
    and rows: "list_all (\<lambda>t. in_i64 (tx_CreatedAt t) \<and> in_i64 (tx_ID t)) (db_transactions d)"
    and s: "s = 0 \<or> s < length (history_of d acc)"
  obtains cur where "decodeTransactionCursor (position row_cursor (history_of d acc) s) = Inr cur"
    "run_state (tx_ListByClientIDs (own_clients d acc) n cur) d = (Inr (map scanTransaction (take n (drop s (history_of d acc)))), d)"
proof (cases s)
  case 0
  have "run_state (tx_ListByClientIDs (own_clients d acc) n None) d = (Inr (map scanTransaction (take n (history_of d acc))), d)"
    by (simp add: tx_ListByClientIDs_def Let_def history_of_def)
  with 0 show thesis by (intro that) (simp_all add: position_def decodeTransactionCursor_def)
next
  case (Suc j)
  let ?e = "history_of d acc ! j"
  from Suc s have j: "j < length (history_of d acc)" by auto
  then have "?e \<in> set (history_of d acc)" by simp
  then have "?e \<in> set (db_transactions d)" by (auto simp: history_of_def)
  with rows have "in_i64 (tx_CreatedAt ?e)" "in_i64 (tx_ID ?e)" by (auto simp: list_all_iff)
  with transactions_behind [OF ids j, of n] Suc show thesis
    by (intro that) (simp_all add: position_def row_cursor_def transaction_cursor_roundtrip)
qed

lemma history_page_none:
  assumes "customerFromContext r = Some acc" "own_clients (w_db w) acc = []"
  shows "history_page t w r limit [] = Some ([], [])"
  using assms
  by (simp add: history_page_def answer_of_def handleGetMyTransactions_def customerFromContext_def Let_def
      run_call run_on_db client_ListByCustomerAccount_def own_clients_def writeJSON_def decodeTransactionCursor_def)

text \<open>
  C34: a customer sees the whole history, once. Undisturbed, in every state the ledger can reach, a
  customer who follows \<open>next_cursor\<close> from the first page, with whatever limit, gets the transactions
  of the own clients of all stores, newest first, none twice and none left out.
\<close>

theorem my_history_complete:
  assumes "decimal_laws D" "positive_only Q" "reachable D af Q (w_db w)" "customerFromContext r = Some acc"
    and "list_all (\<lambda>t. in_i64 (tx_CreatedAt t) \<and> in_i64 (tx_ID t)) (db_transactions (w_db w))"
  shows "crawl (history_page t w r limit) (Suc (length (history_of (w_db w) acc))) [] =
    Some (map (shown_item (w_db w)) (history_of (w_db w) acc))"
proof (rule crawl_pages [where limit = "parseTransactionsLimit limit" and enc = row_cursor])
  let ?d = "w_db w" and ?n = "parseTransactionsLimit limit"
  let ?h = "history_of ?d acc"
  show "row_cursor x \<noteq> []" for x by (simp add: row_cursor_def encodeTransactionCursor_def encode_raw_Nil)
  fix s assume s: "s = 0 \<or> s < length ?h"
  show "history_page t w r limit (position row_cursor ?h s) =
      (let (p, next) = cut_page row_cursor ?n (take (?n + 1) (drop s ?h)) in Some (map (shown_item ?d) p, next))"
  proof (cases "own_clients ?d acc = []")
    case True
    then have "?h = []" by (simp add: history_of_def)
    with s True show ?thesis by (simp add: position_def cut_page_def history_page_none [OF assms(4)])
  next
    case False
    have "distinct (map tx_ID (db_transactions ?d))" by (rule ledger_wfD(3) [OF reachable_wf [OF assms(1-3)]])
    from history_fetch [OF this assms(5) s] show ?thesis by (metis history_page_rows [OF assms(4) False])
  qed
qed (simp add: parseTransactionsLimit_pos)

definition paging_world :: "keyspace world" where
  "paging_world = \<lparr>w_db = state2\<lparr>db_clients := [demo_client\<lparr>cl_CustomerAccountID := Some 7\<rparr>]\<rparr>, w_kv = Map.empty\<rparr>"

lemma paging_world_reachable: "reachable go_decimal demo_af Q (w_db paging_world)"
proof (rule reachable_steps [OF reach_state2])
  have "unledgered state2 (w_db paging_world)"
    by (simp add: unledgered_def clients_grow_def paging_world_def state2_def state1_def client_key_def)
  then show "steps go_decimal demo_af Q state2 (w_db paging_world)"
    by (auto intro: ledger_step.other)
qed

lemma paging_history: "history_of (w_db paging_world) 7 = [row_r1, row_a1]"
  by (simp add: history_of_def own_clients_def paging_world_def state2_def state1_def demo_client_def row_a1_def row_r1_def zero_transaction_def)

definition customer_request :: "int \<Rightarrow> unit request" where
  "customer_request acc = (demo_request [] (\<lambda>_. []) None)\<lparr>rq_Context :=
     \<lparr>cx_Store = None, cx_APIKey = None, cx_Customer = Some acc, cx_Staff = None, cx_ClientIP = None\<rparr>\<rparr>"

theorem my_history_complete_witness:
  "crawl (history_page 0 paging_world (customer_request 7) ''1'') 3 [] =
     Some (map (shown_item (w_db paging_world)) [row_r1, row_a1])"
proof -
  have "customerFromContext (customer_request 7) = Some 7" by (simp add: customer_request_def customerFromContext_def)
  moreover have "list_all (\<lambda>t. in_i64 (tx_CreatedAt t) \<and> in_i64 (tx_ID t)) (db_transactions (w_db paging_world))"
    by (simp add: paging_world_def state2_def row_a1_def row_r1_def zero_transaction_def in_i64_def)
  ultimately show ?thesis
    using my_history_complete [OF go_dec.decimal_laws_axioms positive_amounts paging_world_reachable, of "customer_request 7" 7 0 "''1''"]
    by (simp add: paging_history eval_nat_numeral)
qed

section \<open>The clients of a store\<close>

definition store_clients :: "db \<Rightarrow> int \<Rightarrow> client list" where
  "store_clients d i = sort_key cl_ID (List.filter (\<lambda>c. cl_StoreID c = i) (db_clients d))"

definition shown_client :: "db \<Rightarrow> bool \<Rightarrow> client \<Rightarrow> admin_client_body" where
  "shown_client d masked c = newAdminClientResponse c (points_of d (cl_ID c)) masked"

definition clients_page_at ::
    "time \<Rightarrow> keyspace world \<Rightarrow> 'b request \<Rightarrow> string \<Rightarrow> string \<Rightarrow> (admin_client_body list \<times> string) option" where
  "clients_page_at t w r limit c = answer_of (fst (run_state (handleAdminListClients (quiet t) (with_page limit c r)) w))"

lemma run_clientBodies: "run_state (clientBodies (quiet t) k masked cs) w = (Inr (map (shown_client (w_db w) masked) cs), w)"
  by (induction cs arbitrary: k) (simp_all add: run_andThen run_call run_on_db balance_Get_def shown_client_def)

lemma parseAdminClientsLimit_pos: "0 < parseAdminClientsLimit raw"
  by (auto simp: parseAdminClientsLimit_def defaultAdminClientsLimit_def maxAdminClientsLimit_def split: option.split)

definition client_cursor :: "client \<Rightarrow> string" where
  "client_cursor c = encodeAdminClientCursor (cl_ID c)"

lemma client_cursor_Nil: "client_cursor c \<noteq> []"
  by (simp add: client_cursor_def encodeAdminClientCursor_def encode_raw_Nil show_int_Nil)

lemma client_cursor_roundtrip: "in_i64 i \<Longrightarrow> decodeAdminClientCursor (encodeAdminClientCursor i) = Some i"
  by (simp add: decodeAdminClientCursor_def encodeAdminClientCursor_def encode_raw_Nil show_int_Nil decode_encode_raw parse_show_int)

lemma clients_fetch:
  assumes ids: "distinct (map cl_ID (db_clients d))" and rows: "list_all (\<lambda>c. 0 < cl_ID c \<and> in_i64 (cl_ID c)) (db_clients d)"
    and s: "s = 0 \<or> s < length (store_clients d i)"
  obtains after where "decodeAdminClientCursor (position client_cursor (store_clients d i) s) = Some after"
    "run_state (client_ListByStore i n after) d = (Inr (take n (drop s (store_clients d i))), d)"
proof (cases s)
  case 0
  have "List.filter (\<lambda>c. cl_StoreID c = i \<and> 0 < cl_ID c) (db_clients d) = List.filter (\<lambda>c. cl_StoreID c = i) (db_clients d)"
    using rows by (auto simp: list_all_iff intro!: filter_cong)
  with 0 show thesis
    by (intro that [of 0]) (simp_all add: position_def decodeAdminClientCursor_def store_clients_def client_ListByStore_def)
next
  case (Suc j)
  let ?e = "store_clients d i ! j"
  from Suc s have j: "j < length (store_clients d i)" by auto
  then have "?e \<in> set (store_clients d i)" by simp
  then have "?e \<in> set (db_clients d)" by (auto simp: store_clients_def)
  with rows have "in_i64 (cl_ID ?e)" by (auto simp: list_all_iff)
  moreover have "sort_key cl_ID (List.filter (\<lambda>c. cl_StoreID c = i \<and> cl_ID ?e < cl_ID c) (db_clients d)) = drop (Suc j) (store_clients d i)"
    using rows_behind [OF ids, of j "\<lambda>c. cl_StoreID c = i"] j by (simp add: store_clients_def)
  ultimately show thesis
    using Suc by (intro that [of "cl_ID ?e"]) (simp_all add: position_def client_cursor_def client_cursor_roundtrip client_ListByStore_def)
qed

text \<open>
  Staff see every client of the store, once. Undisturbed, whoever follows \<open>next_cursor\<close> through
  the client list of a store gets all its clients by ascending id with their balances, every
  phone masked exactly if the caller is only a support viewer there.
\<close>

theorem admin_clients_complete:
  assumes "parse_int (rq_PathValue r ''orgID'') = Some orgID" "parse_int (rq_PathValue r ''storeID'') = Some storeID"
    and "find (\<lambda>s. st_ID s = storeID) (db_stores (w_db w)) = Some store" "st_OrganizationID store = orgID"
    and "distinct (map cl_ID (db_clients (w_db w)))" "list_all (\<lambda>c. 0 < cl_ID c \<and> in_i64 (cl_ID c)) (db_clients (w_db w))"
  shows "crawl (clients_page_at t w r limit) (Suc (length (store_clients (w_db w) storeID))) [] =
    Some (map (shown_client (w_db w) (maskedFor r orgID storeID)) (store_clients (w_db w) storeID))"
proof (rule crawl_pages [where limit = "parseAdminClientsLimit limit" and enc = client_cursor])
  let ?d = "w_db w" and ?n = "parseAdminClientsLimit limit" and ?m = "maskedFor r orgID storeID"
  let ?h = "store_clients ?d storeID"
  have id: "st_ID store = storeID" using find_SomeD [OF assms(3)] by simp
  have masked: "maskedFor (with_page limit c r) orgID storeID = ?m" for c
    by (simp add: maskedFor_def staffFromContext_def)
  have cut: "clientsPage ?n rows = cut_page client_cursor ?n rows" for rows
    by (simp add: clientsPage_def cut_page_def client_cursor_def)
  fix s assume "s = 0 \<or> s < length ?h"
  from clients_fetch [OF assms(5,6) this, of "?n + 1"] obtain i where
    "decodeAdminClientCursor (position client_cursor ?h s) = Some i"
    "run_state (client_ListByStore storeID (?n + 1) i) ?d = (Inr (take (?n + 1) (drop s ?h)), ?d)" .
  then show "clients_page_at t w r limit (position client_cursor ?h s) =
      (let (p, next) = cut_page client_cursor ?n (take (?n + 1) (drop s ?h)) in Some (map (shown_client ?d ?m) p, next))"
    using assms(1-4) id
    by (simp add: clients_page_at_def answer_of_def handleAdminListClients_def resolveScopedStore_def Let_def run_call run_on_db
        store_GetByID_def run_clientBodies masked cut writeJSON_def split: prod.split)
qed (simp_all add: parseAdminClientsLimit_pos client_cursor_Nil)

definition numbered_client :: "int \<Rightarrow> client" where
  "numbered_client i = \<lparr>cl_ID = i, cl_StoreID = 3, cl_Phone = ''+79001112233'', cl_CustomerAccountID = None, cl_CreatedAt = 0\<rparr>"

definition clients_world :: "keyspace world" where
  "clients_world = demo_world\<lparr>w_db := (w_db demo_world)\<lparr>db_clients := [numbered_client 2, numbered_client 1], db_balances := [2 \<mapsto> 40]\<rparr>\<rparr>"

theorem admin_clients_complete_witness:
  "crawl (clients_page_at 0 clients_world (demo_request [] store_path (None :: unit option)) ''1'') 3 [] =
     Some (map (shown_client (w_db clients_world) False) [numbered_client 1, numbered_client 2])"
proof -
  let ?r = "demo_request [] store_path (None :: unit option)"
  have store: "find (\<lambda>s. st_ID s = 3) (db_stores (w_db clients_world)) = Some demo_store" "st_OrganizationID demo_store = 2"
    by (simp_all add: clients_world_def demo_world_def demo_store_def)
  have rows: "distinct (map cl_ID (db_clients (w_db clients_world)))"
      "list_all (\<lambda>c. 0 < cl_ID c \<and> in_i64 (cl_ID c)) (db_clients (w_db clients_world))"
      "store_clients (w_db clients_world) 3 = [numbered_client 1, numbered_client 2]"
    by (simp_all add: clients_world_def numbered_client_def in_i64_def store_clients_def)
  have "maskedFor ?r 2 3 = False" by (simp add: maskedFor_def staffFromContext_def demo_request_def)
  then show ?thesis
    using admin_clients_complete [OF _ _ store rows(1,2), of ?r 0 "''1''"] by (simp add: rows(3) eval_nat_numeral)
qed

section \<open>The audit trail\<close>

abbreviation latest_first :: "audit_event \<Rightarrow> int \<times> int" where
  "latest_first e \<equiv> (- aud_OccurredAt e, - aud_ID e)"

definition in_category :: "string \<Rightarrow> audit_event \<Rightarrow> bool" where
  "in_category category e \<longleftrightarrow>
     category = [] \<or> (case auditCategories category of None \<Rightarrow> False | Some p \<Rightarrow> like_match (p @ ''%'') (aud_Action e))"

definition trail_of :: "db \<Rightarrow> int \<Rightarrow> string \<Rightarrow> audit_event list" where
  "trail_of d orgID category =
     sort_key latest_first (List.filter (\<lambda>e. aud_OrganizationID e = Some orgID \<and> in_category category e) (db_audit d))"

definition trail_page ::
    "time \<Rightarrow> keyspace world \<Rightarrow> 'b request \<Rightarrow> string \<Rightarrow> string \<Rightarrow> string \<Rightarrow> (audit_event list \<times> string) option" where
  "trail_page t w r category limit c =
     map_option (\<lambda>(bodies, next). (map aeb_Event bodies, next)) (answer_of (fst (run_state (handleListAuditEvents (quiet t)
       (r\<lparr>rq_Query := (\<lambda>_. [])(''category'' := category, ''limit'' := limit, ''cursor'' := c)\<rparr>)) w)))"

lemma run_auditBodies: "run_state (auditBodies E k names es) w = (bodies, w') \<Longrightarrow> map aeb_Event bodies = es"
  by (induction es arbitrary: k names w bodies w') (auto split: prod.splits)

lemma parseAuditListLimit_pos: "0 < parseAuditListLimit raw"
  by (auto simp: parseAuditListLimit_def defaultAuditListLimit_def maxAuditListLimit_def split: option.split)

lemma audit_cursor_roundtrip:
  assumes "aud_OccurredAt e = 1000 * m" "in_i64 m" "0 < aud_ID e" "in_i64 (aud_ID e)"
  shows "decodeAuditCursor (encodeAuditCursor e) = Some (aud_OccurredAt e, aud_ID e)"
proof -
  have "encodeAuditCursor e \<noteq> []" by (simp add: encodeAuditCursor_def encode_raw_Nil)
  then show ?thesis
    using assms by (simp add: decodeAuditCursor_def encodeAuditCursor_def decode_encode_raw cut_append show_int_no_sep
        parse_show_int wrap64_id)
qed

definition prefix_of :: "string \<Rightarrow> string" where
  "prefix_of category = (if category = [] then [] else the (auditCategories category))"

lemma chosen_category:
  assumes "category = [] \<or> auditCategories category \<noteq> None"
  shows "(prefix_of category = [] \<or> like_match (prefix_of category @ ''%'') (aud_Action e)) = in_category category e"
  using assms by (auto simp: prefix_of_def in_category_def auditCategories_def split: if_splits)

lemma trail_fetch:
  assumes category: "category = [] \<or> auditCategories category \<noteq> None" and ids: "distinct (map aud_ID (db_audit d))"
    and rows: "list_all (\<lambda>e. 1000 dvd aud_OccurredAt e \<and> in_i64 (aud_OccurredAt e div 1000) \<and> 0 < aud_ID e \<and> in_i64 (aud_ID e)) (db_audit d)"
    and s: "s = 0 \<or> s < length (trail_of d g category)"
  obtains b i where "decodeAuditCursor (position encodeAuditCursor (trail_of d g category) s) = Some (b, i)"
    "run_state (audit_ListByOrganization g \<lparr>alq_Limit = n, alq_BeforeOccurredAt = b, alq_BeforeID = i, alq_ActionPrefix = prefix_of category\<rparr>) d =
      (Inr (take n (drop s (trail_of d g category))), d)"
proof (cases s)
  case 0
  have "audit_selected g \<lparr>alq_Limit = n, alq_BeforeOccurredAt = b, alq_BeforeID = 0, alq_ActionPrefix = prefix_of category\<rparr> =
      (\<lambda>e. aud_OrganizationID e = Some g \<and> in_category category e)" for b
    by (simp add: fun_eq_iff audit_selected_def chosen_category [OF category])
  with 0 show thesis
    by - (rule that, simp add: position_def decodeAuditCursor_def, simp add: audit_ListByOrganization_def trail_of_def)
next
  case (Suc j)
  let ?h = "trail_of d g category" and ?P = "\<lambda>e. aud_OrganizationID e = Some g \<and> in_category category e"
  let ?e = "?h ! j"
  from Suc s have j: "j < length ?h" by auto
  then have "?e \<in> set ?h" by simp
  then have "?e \<in> set (db_audit d)" by (auto simp: trail_of_def)
  with rows have e: "1000 dvd aud_OccurredAt ?e" "in_i64 (aud_OccurredAt ?e div 1000)" "0 < aud_ID ?e" "in_i64 (aud_ID ?e)"
    by (auto simp: list_all_iff)
  then have decode: "decodeAuditCursor (encodeAuditCursor ?e) = Some (aud_OccurredAt ?e, aud_ID ?e)"
    by (intro audit_cursor_roundtrip [where m = "aud_OccurredAt ?e div 1000"]) simp_all
  have "distinct (map latest_first (db_audit d))" using ids by (auto simp: distinct_map inj_on_def)
  from rows_behind [OF this, of j ?P] j
  have behind: "sort_key latest_first (List.filter (\<lambda>x. ?P x \<and> latest_first ?e < latest_first x) (db_audit d)) = drop (Suc j) ?h"
    by (simp add: trail_of_def)
  have "audit_selected g \<lparr>alq_Limit = n, alq_BeforeOccurredAt = aud_OccurredAt ?e, alq_BeforeID = aud_ID ?e, alq_ActionPrefix = prefix_of category\<rparr> =
      (\<lambda>x. ?P x \<and> latest_first ?e < latest_first x)"
    using e(3) by (auto simp: fun_eq_iff audit_selected_def chosen_category [OF category] less_prod_simp)
  with behind decode Suc show thesis
    by (intro that [of "aud_OccurredAt ?e" "aud_ID ?e"]) (simp_all add: position_def audit_ListByOrganization_def)
qed

text \<open>
  The audit trail is complete. Undisturbed, whoever follows \<open>next_cursor\<close> through the audit
  listing of an organization, filtered by a category or not, gets all its events of the category,
  newest first, none twice and none left out. Times are whole microseconds, as PostgreSQL stores them.
\<close>

theorem audit_trail_complete:
  assumes "parse_int (rq_PathValue r ''orgID'') = Some orgID" "category = [] \<or> auditCategories category \<noteq> None"
    and "distinct (map aud_ID (db_audit (w_db w)))"
    and "list_all (\<lambda>e. 1000 dvd aud_OccurredAt e \<and> in_i64 (aud_OccurredAt e div 1000) \<and> 0 < aud_ID e \<and> in_i64 (aud_ID e)) (db_audit (w_db w))"
  shows "crawl (trail_page t w r category limit) (Suc (length (trail_of (w_db w) orgID category))) [] =
    Some (trail_of (w_db w) orgID category)"
proof -
  let ?d = "w_db w" and ?n = "parseAuditListLimit limit" and ?h = "trail_of (w_db w) orgID category"
  have "crawl (trail_page t w r category limit) (Suc (length ?h)) [] = Some (map (\<lambda>e. e) ?h)"
  proof (rule crawl_pages [where limit = ?n and enc = encodeAuditCursor])
    fix s assume "s = 0 \<or> s < length ?h"
    from trail_fetch [OF assms(2-4) this, of "?n + 1"] obtain b i where
      bi: "decodeAuditCursor (position encodeAuditCursor ?h s) = Some (b, i)"
        "run_state (audit_ListByOrganization orgID \<lparr>alq_Limit = ?n + 1, alq_BeforeOccurredAt = b, alq_BeforeID = i,
           alq_ActionPrefix = prefix_of category\<rparr>) ?d = (Inr (take (?n + 1) (drop s ?h)), ?d)" .
    let ?rows = "take (?n + 1) (drop s ?h)"
    let ?r = "r\<lparr>rq_Query := (\<lambda>_. [])(''category'' := category, ''limit'' := limit, ''cursor'' := position encodeAuditCursor ?h s)\<rparr>"
    have query: "auditQuery ?r = Inr \<lparr>alq_Limit = ?n, alq_BeforeOccurredAt = b, alq_BeforeID = i, alq_ActionPrefix = prefix_of category\<rparr>"
      using assms(2) bi(1) by (auto simp: auditQuery_def prefix_of_def)
    obtain bodies w' where bodies: "run_state (auditBodies (quiet t) 0 Map.empty (fst (cut_page encodeAuditCursor ?n ?rows))) w = (bodies, w')"
      by fastforce
    have "run_state (handleListAuditEvents (quiet t) ?r) w = (Reply 200 (bodies, snd (cut_page encodeAuditCursor ?n ?rows)), w')"
      using assms(1) bi(2) bodies query
      by (simp add: handleListAuditEvents_def Let_def run_call run_on_db writeJSON_def auditPage_def cut_page_def)
    with run_auditBodies [OF bodies] show "trail_page t w r category limit (position encodeAuditCursor ?h s) =
        (let (p, next) = cut_page encodeAuditCursor ?n ?rows in Some (map (\<lambda>e. e) p, next))"
      by (simp add: trail_page_def answer_of_def split: prod.split)
  qed (simp_all add: parseAuditListLimit_pos encodeAuditCursor_def encode_raw_Nil)
  then show ?thesis by simp
qed

definition store_event :: "int \<Rightarrow> time \<Rightarrow> audit_event" where
  "store_event i t = (audit_of AuditActorStaff (Some 4) ''store.updated'' [] [])\<lparr>aud_ID := i, aud_OccurredAt := t, aud_OrganizationID := Some 2\<rparr>"

definition audit_world :: "keyspace world" where
  "audit_world = demo_world\<lparr>w_db := (w_db demo_world)\<lparr>db_audit := [store_event 1 5000, store_event 2 5000,
     (store_event 3 9000)\<lparr>aud_Action := ''staff.login''\<rparr>]\<rparr>\<rparr>"

theorem audit_trail_complete_witness:
  "crawl (trail_page 0 audit_world (demo_request [] store_path (None :: unit option)) ''store'' ''1'') 3 [] =
     Some [store_event 2 5000, store_event 1 5000]"
proof -
  let ?r = "demo_request [] store_path (None :: unit option)"
  have rows: "distinct (map aud_ID (db_audit (w_db audit_world)))"
      "list_all (\<lambda>e. 1000 dvd aud_OccurredAt e \<and> in_i64 (aud_OccurredAt e div 1000) \<and> 0 < aud_ID e \<and> in_i64 (aud_ID e)) (db_audit (w_db audit_world))"
      "trail_of (w_db audit_world) 2 ''store'' = [store_event 2 5000, store_event 1 5000]"
    by (simp_all add: audit_world_def store_event_def audit_of_def in_i64_def trail_of_def in_category_def auditCategories_def)
  have "auditCategories ''store'' \<noteq> None" by (simp add: auditCategories_def)
  then show ?thesis
    using audit_trail_complete [OF _ _ rows(1,2), of ?r 2 "''store''" 0 "''1''"] by (simp add: rows(3) eval_nat_numeral)
qed

end
