(* ===== verification/Admin_Theorems.thy ===== *)
theory Admin_Theorems
  imports Http_Demo Http_Config
begin

text \<open>What the staff's handlers guarantee about the configuration, the stores and the memberships they write.\<close>

section \<open>Loyalty configurations\<close>

lemma truncate_whole: "d = truncate_at k d \<Longrightarrow> whole_at k d"
  by (rule whole_atI [where n = "(if d < 0 then - 1 else if d = 0 then 0 else 1) * \<lfloor>\<bar>d\<bar> * 10 ^ k\<rfloor>"])
    (simp add: truncate_at_def sgn_if split: if_splits)

lemma fits_numeric: "fitsNumeric d p k \<Longrightarrow> numeric p k d = Some d"
  by (auto simp: fitsNumeric_def numeric_def Let_def round_at_whole truncate_whole split: if_splits)

lemma checked_row:
  assumes "checkLoyaltyConfigColumns b = None" "config_row ((config_of_body s b)\<lparr>cfg_Version := v\<rparr>) = Some row"
  shows "row = (config_of_body s b)\<lparr>cfg_Version := v, cfg_ExpectedVersion := None\<rparr>"
  using assms by (auto simp: checkLoyaltyConfigColumns_def config_row_def config_of_body_def fits_numeric split: if_splits)

definition config_version :: "db \<Rightarrow> int \<Rightarrow> int" where
  "config_version d s = (case db_loyalty_configs d s of None \<Rightarrow> 0 | Some c \<Rightarrow> cfg_Version c)"

definition history_entry :: "time \<Rightarrow> int option \<Rightarrow> loyalty_config \<Rightarrow> loyalty_config_version" where
  "history_entry now by row =
     \<lparr>ver_StoreID = cfg_StoreID row, ver_Version = cfg_Version row, ver_Mechanic = cfg_Mechanic row,
      ver_AccrualPercent = cfg_AccrualPercent row, ver_MinPurchaseAmount = cfg_MinPurchaseAmount row,
      ver_MinBalanceToRedeem = cfg_MinBalanceToRedeem row, ver_MaxRedeemPercent = cfg_MaxRedeemPercent row,
      ver_PointsExchangeRate = cfg_PointsExchangeRate row, ver_ChangedByStaffUserID = by, ver_CreatedAt = now\<rparr>"

lemma config_Upsert_saved:
  assumes "run_state (config_Upsert tf now cfg by) d = (Inr saved, d')"
  obtains row where "saved = cfg\<lparr>cfg_Version := wrap64 (config_version d (cfg_StoreID cfg) + 1)\<rparr>" "config_row saved = Some row"
    "case cfg_ExpectedVersion cfg of None \<Rightarrow> True | Some v \<Rightarrow> v = config_version d (cfg_StoreID cfg)"
    "d' = d\<lparr>db_loyalty_configs := (db_loyalty_configs d)(cfg_StoreID cfg \<mapsto> row),
            db_config_history := db_config_history d @ [history_entry now by row]\<rparr>"
  using assms
  by (auto simp: config_Upsert_def run_transaction_of run_andThen Let_def upsertConfig_def insertHistory_def config_version_def
      history_entry_def split: if_splits option.splits prod.splits sum.splits)

lemma audit_keeps_tables:
  "db_loyalty_configs (snd (run_state (audit_Create now e) d)) = db_loyalty_configs d"
  "db_config_history (snd (run_state (audit_Create now e) d)) = db_config_history d"
  "db_stores (snd (run_state (audit_Create now e) d)) = db_stores d"
  "db_memberships (snd (run_state (audit_Create now e) d)) = db_memberships d"
  by (simp_all add: audit_Create_def run_andThen Let_def)

lemma saveConfig_saved:
  assumes "run_state (saveConfig (quiet t) r store orgID action failed cfg) w = (Reply c ans, w')"
  obtains saved row where "c = 200" "ans = loyaltyConfigToBody saved"
    "saved = cfg\<lparr>cfg_Version := wrap64 (config_version (w_db w) (cfg_StoreID cfg) + 1)\<rparr>" "config_row saved = Some row"
    "case cfg_ExpectedVersion cfg of None \<Rightarrow> True | Some v \<Rightarrow> v = config_version (w_db w) (cfg_StoreID cfg)"
    "db_loyalty_configs (w_db w') = (db_loyalty_configs (w_db w))(cfg_StoreID cfg \<mapsto> row)"
    "db_config_history (w_db w') = db_config_history (w_db w) @ [history_entry t (actorStaffUserID r) row]"
    "db_stores (w_db w') = db_stores (w_db w)"
proof -
  obtain res d where up: "run_state (config_Upsert (\<lambda>_. False) t cfg (actorStaffUserID r)) (w_db w) = (res, d)" by fastforce
  have stmt: "env_stmt (quiet t) l = (\<lambda>_. False)" for l by (simp add: fun_eq_iff)
  from assms up obtain saved where saved: "res = Inr saved" "c = 200" "ans = loyaltyConfigToBody saved"
    "db_loyalty_configs (w_db w') = db_loyalty_configs d" "db_config_history (w_db w') = db_config_history d"
    "db_stores (w_db w') = db_stores d"
    by (cases res) (auto simp: saveConfig_def Let_def run_call run_on_db stmt auditCreate_def audit_keeps_tables writeError_def
        writeJSON_def split: if_splits)
  from config_Upsert_saved [OF up [unfolded saved(1)]] obtain row where
    row: "saved = cfg\<lparr>cfg_Version := wrap64 (config_version (w_db w) (cfg_StoreID cfg) + 1)\<rparr>" "config_row saved = Some row"
      "case cfg_ExpectedVersion cfg of None \<Rightarrow> True | Some v \<Rightarrow> v = config_version (w_db w) (cfg_StoreID cfg)"
      "d = (w_db w)\<lparr>db_loyalty_configs := (db_loyalty_configs (w_db w))(cfg_StoreID cfg \<mapsto> row),
            db_config_history := db_config_history (w_db w) @ [history_entry t (actorStaffUserID r) row]\<rparr>" .
  show thesis by (rule that [OF saved(2,3) row(1-3)]) (simp_all add: saved(4-6) row(4))
qed

text \<open>
  C35: what a write of the loyalty configuration answers is what is in force. Undisturbed, a \<open>PUT\<close>
  that succeeds was based on the version it named, if it named one; its answer holds exactly the
  values of its body under the next version; reading the configuration then gives the same
  answer; and the history has grown by this version and lost nothing.
\<close>

theorem config_write_read_back:
  assumes "run_state (handlePutLoyaltyConfig (quiet t) r) w = (Reply c ans, w')" "rq_PathValue r' = rq_PathValue r"
  shows "\<exists>body storeID. rq_Body r = Some body \<and> parse_int (rq_PathValue r ''storeID'') = Some storeID \<and>
    ans = loyaltyConfigToBody ((config_of_body storeID body)\<lparr>cfg_Version := wrap64 (config_version (w_db w) storeID + 1)\<rparr>) \<and>
    (case pc_ExpectedVersion body of None \<Rightarrow> True | Some v \<Rightarrow> v = config_version (w_db w) storeID) \<and>
    run_state (handleGetLoyaltyConfig (quiet t') r') w' = (Reply 200 ans, w') \<and>
    (\<exists>entry. db_config_history (w_db w') = db_config_history (w_db w) @ [entry] \<and> ver_StoreID entry = storeID \<and>
       ver_Version entry = lb_Version ans)"
proof -
  from assms(1) obtain orgID storeID store body where
    path: "parse_int (rq_PathValue r ''orgID'') = Some orgID" "parse_int (rq_PathValue r ''storeID'') = Some storeID"
      "find (\<lambda>s. st_ID s = storeID) (db_stores (w_db w)) = Some store" "st_OrganizationID store = orgID"
    and body: "rq_Body r = Some body" "checkLoyaltyConfigColumns body = None"
    and save: "run_state (saveConfig (quiet t) r store orgID AuditActionLoyaltyConfigChanged ''save loyalty config''
        (config_of_body (st_ID store) body)) w = (Reply c ans, w')"
    by (auto simp: handlePutLoyaltyConfig_def resolveScopedStore_quiet Let_def writeError_def split: option.splits if_splits)
  have id: "st_ID store = storeID" using find_SomeD [OF path(3)] by simp
  let ?v = "wrap64 (config_version (w_db w) storeID + 1)"
  have sel: "cfg_StoreID (config_of_body storeID body) = storeID" "cfg_ExpectedVersion (config_of_body storeID body) = pc_ExpectedVersion body"
    by (simp_all add: config_of_body_def)
  from saveConfig_saved [OF save [unfolded id], unfolded sel] obtain saved row where "c = 200" and s: "ans = loyaltyConfigToBody saved"
    "saved = (config_of_body storeID body)\<lparr>cfg_Version := ?v\<rparr>" "config_row saved = Some row"
    "case pc_ExpectedVersion body of None \<Rightarrow> True | Some v \<Rightarrow> v = config_version (w_db w) storeID"
    "db_loyalty_configs (w_db w') = (db_loyalty_configs (w_db w))(storeID \<mapsto> row)"
    "db_config_history (w_db w') = db_config_history (w_db w) @ [history_entry t (actorStaffUserID r) row]"
    "db_stores (w_db w') = db_stores (w_db w)"
    .
  from checked_row [OF body(2)] s(2,3) have row: "row = (config_of_body storeID body)\<lparr>cfg_Version := ?v, cfg_ExpectedVersion := None\<rparr>"
    by blast
  have "run_state (handleGetLoyaltyConfig (quiet t') r') w' = (Reply 200 (loyaltyConfigToBody row), w')"
    using path s(5,7) by (simp add: handleGetLoyaltyConfig_def resolveScopedStore_quiet assms(2) run_call run_on_db config_GetByStore_def id writeJSON_def)
  moreover have "loyaltyConfigToBody row = ans" by (simp add: s(1,2) row loyaltyConfigToBody_def)
  moreover have "ver_StoreID (history_entry t (actorStaffUserID r) row) = storeID" "ver_Version (history_entry t (actorStaffUserID r) row) = lb_Version ans"
    by (simp_all add: history_entry_def row s(1,2) config_of_body_def loyaltyConfigToBody_def)
  ultimately show ?thesis using body(1) path(2) s(1,2,4,6) by (intro exI [of _ body] exI [of _ storeID]) simp
qed

definition demo_put :: put_config_body where
  "demo_put = \<lparr>pc_Mechanic = ''points'', pc_AccrualPercent = 5, pc_MinPurchaseAmount = 0, pc_MinBalanceToRedeem = 0,
     pc_MaxRedeemPercent = 50, pc_PointsExchangeRate = 1, pc_ExpectedVersion = Some 0\<rparr>"

lemma demo_put_checked: "checkLoyaltyConfigColumns demo_put = None" "Validate (config_of_body 3 demo_put) = None"
    "Build (cfg_Mechanic (config_of_body 3 demo_put)) \<noteq> None" "actorStaffUserID (demo_request token path body) = None"
  by (simp_all add: checkLoyaltyConfigColumns_def fitsNumeric_def truncate_at_def demo_put_def config_of_body_def Validate_def Build_def
      actorStaffUserID_def staffFromContext_def demo_request_def)

lemma demo_saved:
  "\<exists>saved d. run_state (config_Upsert (\<lambda>_. False) t (config_of_body 3 demo_put) None) (w_db demo_world) = (Inr saved, d)"
  by (simp add: config_Upsert_def run_transaction_of run_andThen Let_def upsertConfig_def insertHistory_def config_row_def demo_put_def
      config_of_body_def demo_world_def demo_store_def empty_db_def numeric_def round_at_def)

lemma demo_scope: "find (\<lambda>s. st_ID s = 3) (db_stores (w_db demo_world)) = Some demo_store" "st_OrganizationID demo_store = 2"
    "st_ID demo_store = 3"
  by (simp_all add: demo_world_def demo_store_def)

theorem config_write_read_back_witness:
  "\<exists>ans w'. run_state (handlePutLoyaltyConfig (quiet 9) (demo_request [] store_path (Some demo_put))) demo_world = (Reply 200 ans, w') \<and>
     run_state (handleGetLoyaltyConfig (quiet 10) (demo_request [] store_path (None :: unit option))) w' = (Reply 200 ans, w')"
proof -
  let ?r = "demo_request [] store_path (Some demo_put)"
  have stmt: "env_stmt (quiet 9) l = (\<lambda>_. False)" for l by (simp add: fun_eq_iff)
  obtain saved d where up: "run_state (config_Upsert (\<lambda>_. False) 9 (config_of_body 3 demo_put) None) (w_db demo_world) = (Inr saved, d)"
    using demo_saved by blast
  then have "\<exists>ans w'. run_state (saveConfig (quiet 9) ?r demo_store 2 AuditActionLoyaltyConfigChanged ''save loyalty config''
      (config_of_body 3 demo_put)) demo_world = (Reply 200 ans, w')"
    by (simp add: saveConfig_def Let_def run_call run_on_db stmt auditCreate_def writeJSON_def demo_put_checked)
  then obtain ans w' where run: "run_state (handlePutLoyaltyConfig (quiet 9) ?r) demo_world = (Reply 200 ans, w')"
    using demo_put_checked by (auto simp: handlePutLoyaltyConfig_def resolveScopedStore_quiet demo_scope Let_def)
  have "rq_PathValue (demo_request [] store_path (None :: unit option)) = rq_PathValue ?r" by simp
  from config_write_read_back [OF run this, of 10] run show ?thesis by blast
qed

end
