(* ===== verification/Membership_Theorems.thy ===== *)
theory Membership_Theorems
  imports Http_Demo Http_Staff
begin

text \<open>Changes of staff memberships: who may make them, and what they leave of the administrators.\<close>

section \<open>An undisturbed change\<close>

definition rewritten :: "time \<Rightarrow> role option \<Rightarrow> staff_status option \<Rightarrow> staff_membership \<Rightarrow> staff_membership" where
  "rewritten t new_role new_status m =
     (let m1 = (case new_role of None \<Rightarrow> m | Some ro \<Rightarrow> m\<lparr>mem_Role := ro, mem_UpdatedAt := t\<rparr>)
      in case new_status of None \<Rightarrow> m1 | Some st \<Rightarrow> m1\<lparr>mem_Status := st, mem_UpdatedAt := t\<rparr>)"

lemma rewritten_sel [simp]:
  "mem_ID (rewritten t ro st m) = mem_ID m" "mem_StaffUserID (rewritten t ro st m) = mem_StaffUserID m"
  "mem_OrganizationID (rewritten t ro st m) = mem_OrganizationID m" "mem_StoreID (rewritten t ro st m) = mem_StoreID m"
  by (simp_all add: rewritten_def Let_def split: option.split)

definition rewriting :: "time \<Rightarrow> int \<Rightarrow> role option \<Rightarrow> staff_status option \<Rightarrow> staff_membership list \<Rightarrow> staff_membership list" where
  "rewriting t i ro st ms = map (\<lambda>m. if mem_ID m = i then rewritten t ro st m else m) ms"

lemma rewriting_none: "rewriting t i None None ms = ms"
proof -
  have "(\<lambda>m. if mem_ID m = i then rewritten t None None m else m) = (\<lambda>m. m)"
    by (simp add: fun_eq_iff rewritten_def)
  then show ?thesis by (simp add: rewriting_def)
qed

lemma rewriting_one:
  "rewriting t i (Some ro) None ms = map (\<lambda>m. if mem_ID m = i then m\<lparr>mem_Role := ro, mem_UpdatedAt := t\<rparr> else m) ms"
  "rewriting t i None (Some st) ms = map (\<lambda>m. if mem_ID m = i then m\<lparr>mem_Status := st, mem_UpdatedAt := t\<rparr> else m) ms"
  by (auto simp: rewriting_def rewritten_def)

lemma audit_keeps_staff:
  "db_memberships (snd (run_state (audit_Create now e) d)) = db_memberships d"
  "db_staff_users (snd (run_state (audit_Create now e) d)) = db_staff_users d"
  by (simp_all add: audit_Create_def run_andThen Let_def)

lemma writeRole_quiet:
  "\<exists>w'. run_state (writeRole (quiet t) r orgID target ro) w = (Inr (), w') \<and>
     db_memberships (w_db w') = rewriting t (mem_ID target) ro None (db_memberships (w_db w)) \<and>
     db_staff_users (w_db w') = db_staff_users (w_db w)"
  by (cases ro) (auto simp: writeRole_def Let_def run_andThen run_call run_on_db membership_UpdateRole_def update_membership_def
      auditCreate_def audit_keeps_staff rewriting_one rewriting_none)

lemma writeStatus_quiet:
  "\<exists>w'. run_state (writeStatus (quiet t) r orgID target st) w = (Inr (), w') \<and>
     db_memberships (w_db w') = rewriting t (mem_ID target) None st (db_memberships (w_db w)) \<and>
     db_staff_users (w_db w') = db_staff_users (w_db w)"
  by (cases st) (auto simp: writeStatus_def Let_def run_andThen run_call run_on_db membership_UpdateStatus_def update_membership_def
      auditCreate_def audit_keeps_staff rewriting_one rewriting_none)

lemma rewriting_both: "rewriting t i None st (rewriting t i ro None ms) = rewriting t i ro st ms"
  by (auto simp: rewriting_def rewritten_def Let_def split: option.split)

text \<open>Either nothing changes, or exactly the target's role and status, by a caller who may do it.\<close>

lemma update_cases:
  assumes "run_state (handleUpdateStaffMembership (quiet t) r) w = (a, w')" "staffFromContext r = Some p"
  obtains "refused a" "w' = w"
  | orgID target ro st where "a = Header 204" "parse_int (rq_PathValue r ''orgID'') = Some orgID"
      "target \<in> set (db_memberships (w_db w))" "mem_OrganizationID target = orgID" "mem_StaffUserID target \<noteq> sp_StaffUserID p"
      "mem_Role target = RolePlatformAdmin \<or> ro = Some RolePlatformAdmin \<Longrightarrow> IsPlatformAdmin p"
      "db_memberships (w_db w') = rewriting t (mem_ID target) ro st (db_memberships (w_db w))"
      "db_staff_users (w_db w') = db_staff_users (w_db w)"
proof (cases "refused a \<and> w' = w")
  case True
  then show ?thesis by (intro that(1)) simp_all
next
  case False
  with assms(1) obtain orgID membershipID body ro st target where
    parsed: "parse_int (rq_PathValue r ''orgID'') = Some orgID" "parse_int (rq_PathValue r ''membershipID'') = Some membershipID"
      "rq_Body r = Some body" "parseUpdate body = Inr (ro, st)"
      "find (\<lambda>m. mem_ID m = membershipID) (db_memberships (w_db w)) = Some target" "mem_OrganizationID target = orgID"
    and change: "run_state (changeMembership (quiet t) r orgID target ro st) w = (a, w')"
    by (auto simp: handleUpdateStaffMembership_def run_call run_on_db membership_GetByID_def split: option.splits sum.splits if_splits)
  obtain w1 where w1: "run_state (writeRole (quiet t) r orgID target ro) w = (Inr (), w1)"
      "db_memberships (w_db w1) = rewriting t (mem_ID target) ro None (db_memberships (w_db w))"
      "db_staff_users (w_db w1) = db_staff_users (w_db w)"
    using writeRole_quiet by blast
  obtain w2 where w2: "run_state (writeStatus (quiet t) r orgID target st) w1 = (Inr (), w2)"
      "db_memberships (w_db w2) = rewriting t (mem_ID target) None st (db_memberships (w_db w1))"
      "db_staff_users (w_db w2) = db_staff_users (w_db w1)"
    using writeStatus_quiet by blast
  from find_SomeD [OF parsed(5)] have "target \<in> set (db_memberships (w_db w))" by simp
  moreover from change False assms(2) w1(1) w2(1) have "a = Header 204" "w' = w2" "mem_StaffUserID target \<noteq> sp_StaffUserID p"
      "mem_Role target = RolePlatformAdmin \<or> ro = Some RolePlatformAdmin \<Longrightarrow> IsPlatformAdmin p"
    by (auto simp: changeMembership_def Let_def principalIsPlatformAdmin_def run_andThen split: if_splits)
  ultimately show ?thesis
    using parsed(1,6) w1(2,3) w2(2,3) by (intro that(2) [of orgID target ro st]) (simp_all add: rewriting_both)
qed

section \<open>An administrator always remains\<close>

text \<open>An active user with a membership that lets manage the staff of the organization.\<close>

definition administers :: "db \<Rightarrow> int \<Rightarrow> int \<Rightarrow> bool" where
  "administers d user org \<longleftrightarrow>
     list_ex (\<lambda>u. su_ID u = user \<and> su_Status u = StaffActive) (db_staff_users d) \<and>
     list_ex (grants user PermStaffManage org None) (db_memberships d)"

lemma grants_rewriting:
  assumes "list_ex (grants user perm org st) ms" "\<And>m. m \<in> set ms \<Longrightarrow> grants user perm org st m \<Longrightarrow> mem_ID m \<noteq> i"
  shows "list_ex (grants user perm org st) (rewriting t i ro s ms)"
  using assms by (auto simp: list_ex_iff rewriting_def)

lemma grants_admin: "grants user perm org st m \<Longrightarrow> mem_Role m = RolePlatformAdmin \<Longrightarrow> grants user perm' org' st' m"
  by (simp add: grants_def)

lemma admin_grants:
  assumes "run_state (ResolvePrincipal (quiet t) i) w = (Inr p, w')" "IsPlatformAdmin p"
  shows "list_ex (grants i perm org st) (db_memberships (w_db w))"
proof -
  from assms(1) have "sp_Memberships p = List.filter (\<lambda>m. mem_Status m = StaffActive) (List.filter (\<lambda>m. mem_StaffUserID m = i) (db_memberships (w_db w)))"
    by (auto simp: ResolvePrincipal_quiet loadPrincipal_quiet split: option.splits if_splits)
  with assms(2) show ?thesis by (auto simp: IsPlatformAdmin_def list_ex_iff grants_def)
qed

lemma change_keeps_administrator:
  assumes "run_state (handleUpdateStaffMembership (quiet t) r) w = (a, w')" "staffFromContext r = Some p"
    "run_state (ResolvePrincipal (quiet t) i) w0 = (Inr p, w0')" "w_db w0 = w_db w"
    "parse_int (rq_PathValue r ''orgID'') = Some orgID" "principal_HasPermission p PermStaffManage orgID None"
    "distinct (map mem_ID (db_memberships (w_db w)))" "administers (w_db w) u org"
  shows "\<exists>v. administers (w_db w') v org"
  using assms(1,2)
proof (cases rule: update_cases)
  case 1
  with assms(8) show ?thesis by auto
next
  case (2 orgID' target ro st)
  let ?ms = "db_memberships (w_db w)"
  note caller = principal_rows [OF assms(3)]
  have active: "list_ex (\<lambda>u. su_ID u = i \<and> su_Status u = StaffActive) (db_staff_users (w_db w'))"
    using caller(3) assms(4) 2(8) by simp
  have same: "m = target" if "m \<in> set ?ms" "mem_ID m = mem_ID target" for m
    using assms(7) 2(3) that by (auto simp: distinct_map inj_on_def)
  have mine: "mem_ID m \<noteq> mem_ID target" if "m \<in> set ?ms" "mem_StaffUserID m = i" for m
    using same [OF that(1)] that(2) 2(5) caller(2) by auto
  have stays: "administers (w_db w') i org" if "list_ex (grants i PermStaffManage org None) ?ms"
    using grants_rewriting [OF that] mine active 2(7) by (auto simp: administers_def grants_def)
  from assms(8) obtain m where m: "m \<in> set ?ms" "grants u PermStaffManage org None m"
    "list_ex (\<lambda>x. su_ID x = u \<and> su_Status x = StaffActive) (db_staff_users (w_db w))"
    by (auto simp: administers_def list_ex_iff)
  show ?thesis
  proof (cases "mem_ID m = mem_ID target")
    case False
    with m(1,2) 2(7) have "list_ex (grants u PermStaffManage org None) (db_memberships (w_db w'))"
      by (auto simp: rewriting_def list_ex_iff)
    with m(3) 2(8) show ?thesis by (auto simp: administers_def)
  next
    case True
    with same m(1) have m': "m = target" by blast
    have "list_ex (grants i PermStaffManage org None) ?ms"
    proof (cases "mem_Role target = RolePlatformAdmin")
      case True
      with 2(6) have "IsPlatformAdmin p" by simp
      from admin_grants [OF assms(3) this] assms(4) show ?thesis by simp
    next
      case False
      with m(2) m' have "mem_OrganizationID target = org" by (simp add: grants_def)
      with 2(2,4) assms(5) have "orgID = org" by simp
      with assms(4,6) caller(4) show ?thesis by simp
    qed
    from stays [OF this] show ?thesis by blast
  qed
qed

text \<open>
  C36: an administrator always remains. Undisturbed, no request to change a membership takes the
  last administrator from any organization: whoever may manage its staff before, someone may
  after, since the caller's own membership is out of reach.
\<close>

theorem change_leaves_administrator:
  assumes "rt \<in> set routeTable" "rt_OperationID rt = ''updateStaffMembership''"
    "run_state (serve deps (quiet t) rt (handleUpdateStaffMembership (quiet t)) r) w = (a, w')"
    "distinct (map mem_ID (db_memberships (w_db w)))" "administers (w_db w) u org"
  shows "\<exists>v. administers (w_db w') v org"
  using assms(3)
proof (cases rule: serve_cases)
  case 1
  with assms(5) show ?thesis by auto
next
  case (2 w1 h1)
  have rt: "rt_Contour rt = contourStaff" "\<not> rt_StaffIdentityOnly rt" "\<not> rt_StaffGlobal rt" "rt_StaffScope rt = Some staffScopeOrg"
    "permissionOf rt = PermStaffManage"
    using assms(1,2) by (auto simp: routeTable_def route_def permissionOf_def)
  with 2(2) have "run_state (RequireStaff (dp_jwt deps) (dp_StaffAccessTokenSecret deps) (quiet t) PermStaffManage
      orgScopeFromPath h1 (resolved deps r)) w1 = (a, w')"
    by (simp add: authenticated_def scopeFn_def)
  from RequireStaff_cases [OF this] 2(1) assms(5) show ?thesis
  proof (elim disjE conjE exE)
    fix i p w2 scope
    assume p: "run_state (ResolvePrincipal (quiet t) i) w1 = (Inr p, w2)"
      and scope: "orgScopeFromPath (resolved deps r) = Inr scope"
      and perm: "principal_HasPermission p PermStaffManage (sc_OrganizationID scope) (sc_StoreID scope)"
      and run: "run_state (h1 (entering p (resolved deps r))) w2 = (a, w')"
    from scope obtain orgID where path: "parse_int (rq_PathValue r ''orgID'') = Some orgID" "scope = \<lparr>sc_OrganizationID = orgID, sc_StoreID = None\<rparr>"
      by (auto simp: orgScopeFromPath_def split: option.splits)
    note rows = principal_rows [OF p]
    from 2(3) [OF run] show ?thesis
    proof (elim disjE conjE exE)
      fix w3 assume w3: "w_db w3 = w_db w2"
        "run_state (handleUpdateStaffMembership (quiet t) (entering p (resolved deps r))) w3 = (a, w')"
      have db: "w_db w3 = w_db w1" "w_db w3 = w_db w" using w3(1) rows(1) 2(1) by simp_all
      show ?thesis
        by (rule change_keeps_administrator [OF w3(2) _ p, where u = u and orgID = orgID])
          (use db path perm assms(4,5) in simp_all)
    qed (use rows(1) 2(1) assms(5) in auto)
  qed auto
qed

definition org_admin :: "int \<Rightarrow> int \<Rightarrow> staff_membership" where
  "org_admin i user = \<lparr>mem_ID = i, mem_StaffUserID = user, mem_OrganizationID = 2, mem_StoreID = None, mem_Role = RoleRetailerAdmin,
     mem_Status = StaffActive, mem_CreatedAt = 0, mem_UpdatedAt = 0\<rparr>"

definition staff_row :: "int \<Rightarrow> staff_user" where
  "staff_row i = \<lparr>su_ID = i, su_ExternalSubject = show_int i, su_Email = [], su_DisplayName = [], su_Status = StaffActive, su_CreatedAt = 0\<rparr>"

definition admins_world :: "keyspace world" where
  "admins_world = demo_world\<lparr>w_db := (w_db demo_world)\<lparr>db_staff_users := [staff_row 4, staff_row 5],
     db_memberships := [org_admin 1 4, org_admin 2 5]\<rparr>\<rparr>"

definition member_path :: "string \<Rightarrow> string \<Rightarrow> string" where
  "member_path i = (\<lambda>_. [])(''orgID'' := ''2'', ''membershipID'' := i)"

definition disabling :: update_membership_body where
  "disabling = \<lparr>um_Role = [], um_Status = ''disabled''\<rparr>"

lemma staff_token_of:
  assumes "in_i64 i"
  obtains tok where "tok \<noteq> []" "ParseStaffAccessToken plain_jwt 0 ''secret'' tok = Inr i"
proof -
  obtain tok where tok: "IssueStaffAccessToken plain_jwt 0 ''secret'' i 900000000000 = Some tok"
    using show_int_no_newline [of i]
    by (auto simp: IssueStaffAccessToken_def issueAccessToken_def plain_jwt_def tokenTypeStaffAccess_def)
  moreover from tok have "tok \<noteq> []" by (auto simp: IssueStaffAccessToken_def issueAccessToken_def plain_jwt_def split: if_splits)
  moreover from tok assms have "ParseStaffAccessToken plain_jwt 0 ''secret'' tok = Inr i"
    by (simp add: IssueStaffAccessToken_def ParseStaffAccessToken_def plain_jwt.parse_issued seconds_def in_i64_def)
  ultimately show thesis using that by blast
qed

text \<open>The request by which an administrator disables the membership of a colleague.\<close>

definition disable :: "keyspace world env \<Rightarrow> string \<Rightarrow> string \<Rightarrow> (keyspace world, unit response) state" where
  "disable E tok i = serve demo_deps E (routeTable ! 30) (handleUpdateStaffMembership E) (demo_request tok (member_path i) (Some disabling))"

lemma disable_route:
  "routeTable ! 30 \<in> set routeTable" "rt_OperationID (routeTable ! 30) = ''updateStaffMembership''"
  "rt_Contour (routeTable ! 30) = contourStaff" "\<not> rt_StaffIdentityOnly (routeTable ! 30)" "\<not> rt_StaffGlobal (routeTable ! 30)"
  "rt_StaffScope (routeTable ! 30) = Some staffScopeOrg" "permissionOf (routeTable ! 30) = PermStaffManage"
  by (simp_all add: routeTable_def route_def permissionOf_def)

text \<open>Its course, when something else may happen just before its write.\<close>

definition before_write :: "(keyspace world \<Rightarrow> keyspace world) \<Rightarrow> keyspace world env" where
  "before_write f = (quiet 0)\<lparr>env_other := (\<lambda>l w. if l = (''staff.status'', 0) then f w else w)\<rparr>"

lemma before_write_sel [simp]:
  "env_other (before_write f) l w = (if l = (''staff.status'', 0) then f w else w)" "env_now (before_write f) l = 0"
  "env_fault (before_write f) l = NoFault"
  by (simp_all add: before_write_def quiet_def)

lemma before_write_nothing: "before_write id = quiet 0"
  by (simp add: before_write_def quiet_def fun_eq_iff)

lemma writeStatus_before:
  "\<exists>w'. run_state (writeStatus (before_write f) r orgID target (Some st)) w = (Inr (), w') \<and>
     db_memberships (w_db w') = rewriting 0 (mem_ID target) None (Some st) (db_memberships (w_db (f w))) \<and>
     db_staff_users (w_db w') = db_staff_users (w_db (f w))"
  by (auto simp: writeStatus_def Let_def run_andThen run_call run_on_db membership_UpdateStatus_def update_membership_def
      auditCreate_def audit_keeps_staff rewriting_one)

lemma disable_runs:
  assumes "tok \<noteq> []" "ParseStaffAccessToken plain_jwt 0 ''secret'' tok = Inr u"
    "(u, v, i) = (4, 5, ''2'') \<or> (u, v, i) = (5, 4, ''1'')"
  shows "\<exists>w'. run_state (disable (before_write f) tok i) admins_world = (Header 204, w') \<and>
     db_memberships (w_db w') = rewriting 0 (v - 3) None (Some StaffDisabled) (db_memberships (w_db (f admins_world))) \<and>
     db_staff_users (w_db w') = db_staff_users (w_db (f admins_world))"
proof -
  let ?E = "before_write f"
  let ?r = "demo_request tok (member_path i) (Some disabling)"
  let ?p = "\<lparr>sp_StaffUserID = u, sp_Memberships = [org_admin (u - 3) u]\<rparr>"
  let ?h = "handleUpdateStaffMembership ?E (entering ?p (resolved demo_deps ?r))"
  have path: "parse_int (member_path i ''orgID'') = Some 2" "parse_int (member_path i ''membershipID'') = Some (v - 3)"
    using assms(3) by (auto simp: member_path_def parse_int_def is_digit_def digits_val_def digit_val_def in_i64_def)
  have p: "run_state (ResolvePrincipal ?E u) admins_world = (Inr ?p, admins_world)"
    using assms(3) by (auto simp: ResolvePrincipal_def loadPrincipal_def run_andThen run_call run_on_db staff_GetByID_def
        membership_ListByStaffUser_def admins_world_def staff_row_def org_admin_def)
  have perm: "principal_HasPermission ?p PermStaffManage 2 None"
    by (simp add: principal_HasPermission_def IsPlatformAdmin_def org_admin_def HasPermission_def)
  have found: "find (\<lambda>m. mem_ID m = v - 3) (db_memberships (w_db admins_world)) = Some (org_admin (v - 3) v)"
    using assms(3) by (auto simp: admins_world_def org_admin_def)
  have parsed: "parseUpdate disabling = Inr (None, Some StaffDisabled)"
    by (simp add: parseUpdate_def disabling_def validRole_def validStatus_def)
  obtain w' where w': "run_state (writeStatus ?E (entering ?p (resolved demo_deps ?r)) 2 (org_admin (v - 3) v) (Some StaffDisabled)) admins_world = (Inr (), w')"
      "db_memberships (w_db w') = rewriting 0 (v - 3) None (Some StaffDisabled) (db_memberships (w_db (f admins_world)))"
      "db_staff_users (w_db w') = db_staff_users (w_db (f admins_world))"
    using writeStatus_before [of f _ 2 "org_admin (v - 3) v" StaffDisabled admins_world] by (auto simp: org_admin_def)
  have other: "mem_OrganizationID (org_admin (v - 3) v) = 2" "mem_StaffUserID (org_admin (v - 3) v) = v"
    "mem_Role (org_admin (v - 3) v) = RoleRetailerAdmin" "u \<noteq> v"
    using assms(3) by (auto simp: org_admin_def)
  have "run_state ?h admins_world = (Header 204, w')"
    using w'(1) found parsed path other
    by (simp add: handleUpdateStaffMembership_def run_call run_on_db membership_GetByID_def changeMembership_def Let_def run_andThen writeRole_def)
  then have "run_state (disable ?E tok i) admins_world = (Header 204, w')"
    using p perm path assms(1,2) disable_route(3-7)
    by (simp add: disable_def serve_unlimited limited_off authenticated_def RequireStaff_def Let_def scopeFn_def orgScopeFromPath_def entering_def)
  with w'(2,3) show ?thesis by blast
qed

theorem change_leaves_administrator_witness:
  "\<exists>tok w' v. ParseStaffAccessToken plain_jwt 0 ''secret'' tok = Inr 4 \<and>
     run_state (serve demo_deps (quiet 0) (routeTable ! 30) (handleUpdateStaffMembership (quiet 0))
       (demo_request tok (member_path ''2'') (Some disabling))) admins_world = (Header 204, w') \<and> administers (w_db w') v 2"
proof -
  obtain tok where tok: "tok \<noteq> []" "ParseStaffAccessToken plain_jwt 0 ''secret'' tok = Inr 4"
    by (rule staff_token_of [of 4]) (simp_all add: in_i64_def)
  from disable_runs [OF tok, of 5 "''2''" id] obtain w' where
    run: "run_state (serve demo_deps (quiet 0) (routeTable ! 30) (handleUpdateStaffMembership (quiet 0))
       (demo_request tok (member_path ''2'') (Some disabling))) admins_world = (Header 204, w')"
    by (auto simp: disable_def before_write_nothing)
  have "distinct (map mem_ID (db_memberships (w_db admins_world)))" "administers (w_db admins_world) 5 2"
    by (simp_all add: admins_world_def org_admin_def staff_row_def administers_def grants_def HasPermission_def covers_def)
  from change_leaves_administrator [OF disable_route(1,2) run this] run tok(2) show ?thesis by blast
qed

text \<open>
  A run that the theorem above excludes by asking for an undisturbed request. The two
  administrators of an organization disable each other, one request runs between the checks
  and the write of the other, both are answered with 204, and nobody administers the
  organization any more.
\<close>

lemma administrators_disable_each_other:
  "\<exists>tok4 tok5 w'. administers (w_db admins_world) 4 2 \<and> administers (w_db admins_world) 5 2 \<and>
     fst (run_state (disable (quiet 0) tok5 ''1'') admins_world) = Header 204 \<and>
     run_state (disable (before_write (\<lambda>w. snd (run_state (disable (quiet 0) tok5 ''1'') w))) tok4 ''2'') admins_world = (Header 204, w') \<and>
     (\<forall>v. \<not> administers (w_db w') v 2)"
proof -
  obtain tok4 where tok4: "tok4 \<noteq> []" "ParseStaffAccessToken plain_jwt 0 ''secret'' tok4 = Inr 4"
    by (rule staff_token_of [of 4]) (simp_all add: in_i64_def)
  obtain tok5 where tok5: "tok5 \<noteq> []" "ParseStaffAccessToken plain_jwt 0 ''secret'' tok5 = Inr 5"
    by (rule staff_token_of [of 5]) (simp_all add: in_i64_def)
  from disable_runs [OF tok5, of 4 "''1''" id] obtain w1 where w1:
    "run_state (disable (quiet 0) tok5 ''1'') admins_world = (Header 204, w1)"
    "db_memberships (w_db w1) = rewriting 0 1 None (Some StaffDisabled) (db_memberships (w_db admins_world))"
    by (auto simp: before_write_nothing)
  let ?f = "\<lambda>w. snd (run_state (disable (quiet 0) tok5 ''1'') w)"
  from disable_runs [OF tok4, of 5 "''2''" ?f] w1 obtain w' where w':
    "run_state (disable (before_write ?f) tok4 ''2'') admins_world = (Header 204, w')"
    "db_memberships (w_db w') = rewriting 0 2 None (Some StaffDisabled) (db_memberships (w_db w1))"
    by auto
  have "db_memberships (w_db w') = [(org_admin 1 4)\<lparr>mem_Status := StaffDisabled\<rparr>, (org_admin 2 5)\<lparr>mem_Status := StaffDisabled\<rparr>]"
    by (simp add: w' w1 rewriting_def rewritten_def admins_world_def org_admin_def)
  then have "\<not> administers (w_db w') v 2" for v
    by (simp add: administers_def grants_def org_admin_def)
  moreover have "administers (w_db admins_world) 4 2" "administers (w_db admins_world) 5 2"
    by (simp_all add: admins_world_def org_admin_def staff_row_def administers_def grants_def HasPermission_def covers_def)
  ultimately show ?thesis using w1(1) w'(1) by (intro exI [of _ tok4] exI [of _ tok5] exI [of _ w']) simp
qed

end
