(* ===== verification/Pos_Register.thy ===== *)
theory Pos_Register
  imports Pos_Queue Decimal
begin

text \<open>
  \<open>cmd/possim/main.go\<close> and \<open>flood.go\<close>: the commands of the register. Flags are given parsed;
  what is printed is left out except for the results. Parsing a decimal is the decimal package's.
\<close>

section \<open>What every command needs\<close>

record 's till_env =
  te_json :: pos_json
  te_ops :: op_json
  te_decimal :: decimal_lib
  te_parse :: "string \<Rightarrow> rat option"
  te_server :: "'s server"
  te_link :: "'s link"
  te_disk :: disk
  te_client :: till_client
  te_now :: "nat \<Rightarrow> time"

datatype failure =
    NoKey
  | NoPhone
  | NoPoints
  | NoOriginal
  | BadType
  | NoPayload
  | BadFlood
  | BadAmount string
  | QueueFailed string
  | Unavailable client_error
  | NotKnown string
  | Refused client_error
  | StillOffline replay_error

record common_flags =
  cf_url :: string
  cf_key :: string

definition with_flags :: "common_flags \<Rightarrow> bool \<Rightarrow> 's till_env \<Rightarrow> failure + 's till_env" where
  "with_flags f needKey X =
     (if needKey \<and> cf_key f = [] then Inl NoKey
      else Inr (X\<lparr>te_client := newClient (cf_url f) (cf_key f)\<rparr>))"

definition send_sale :: "'s till_env \<Rightarrow> sale_request \<Rightarrow> ('s register, client_error + sale_answer) state" where
  "send_sale X = client_sale (te_json X) (te_server X) (te_link X) (te_client X)"

definition send_refund :: "'s till_env \<Rightarrow> refund_order \<Rightarrow> ('s register, client_error + refund_outcome) state" where
  "send_refund X = client_refund (te_json X) (te_server X) (te_link X) (te_client X)"

definition look_up :: "'s till_env \<Rightarrow> string \<Rightarrow> ('s register, client_error + client_balance option) state" where
  "look_up X = client_lookup (te_json X) (te_server X) (te_link X) (te_client X)"

definition send_redeem :: "'s till_env \<Rightarrow> redeem_order \<Rightarrow> ('s register, client_error + redeem_outcome) state" where
  "send_redeem X = client_redeem (te_json X) (te_server X) (te_link X) (te_client X)"

text \<open>From the second on the clock and three drawn bytes, which stay zero when the draw fails.\<close>

definition newTransactionID :: "string \<Rightarrow> nat list option \<Rightarrow> string" where
  "newTransactionID stamp drawn =
     ''SIM-'' @ stamp @ ''-'' @ EncodeToString (case drawn of None \<Rightarrow> [0, 0, 0] | Some bs \<Rightarrow> bs)"

definition parseAmount :: "'s till_env \<Rightarrow> string \<Rightarrow> failure + string" where
  "parseAmount X s =
     (case te_parse X (map (\<lambda>c. if c = CHR '','' then CHR ''.'' else c) s) of
        None \<Rightarrow> Inl (BadAmount s)
      | Some d \<Rightarrow> if d > 0 then Inr (dec_StringFixed (te_decimal X) 2 d) else Inl (BadAmount s))"

section \<open>The queue around the operations\<close>

definition load_queue :: "'s till_env \<Rightarrow> ('s register, string + queued_op list) state" where
  "load_queue X = queue_load (te_ops X) (te_disk X)"

definition replay_queue :: "'s till_env \<Rightarrow> ('s register, replay_result \<times> replay_error option) state" where
  "replay_queue X = replay (te_json X) (te_ops X) (te_server X) (te_link X) (te_disk X) (te_client X)"

definition drainFirst :: "'s till_env \<Rightarrow> ('s register, bool) state" where
  "drainFirst X = do {
     ops \<leftarrow> load_queue X;
     case ops of
       Inl message \<Rightarrow> State_Monad.return False
     | Inr xs \<Rightarrow>
         if xs = [] then State_Monad.return True
         else do {
           (res, e) \<leftarrow> replay_queue X;
           State_Monad.return (e = None)
         }
   }"

definition enqueue :: "'s till_env \<Rightarrow> queued_op \<Rightarrow> client_error option \<Rightarrow> ('s register, failure + unit) state" where
  "enqueue X x cause = do {
     now \<leftarrow> State (\<lambda>s. (te_now X (tl_Clock s), s));
     let stamped = x\<lparr>qo_QueuedAt := now, qo_LastErr := (case cause of None \<Rightarrow> qo_LastErr x | Some e \<Rightarrow> errorText e)\<rparr>;
     r \<leftarrow> queue_append (te_ops X) (te_disk X) stamped;
     State_Monad.return (case r of Inl message \<Rightarrow> Inl (QueueFailed message) | Inr _ \<Rightarrow> Inr ())
   }"

definition sale_op :: "sale_request \<Rightarrow> queued_op" where
  "sale_op req = \<lparr>qo_Kind = ''sale'', qo_Sale = Some req, qo_Refund = None, qo_QueuedAt = 0, qo_LastErr = []\<rparr>"

definition refund_op :: "refund_order \<Rightarrow> queued_op" where
  "refund_op req = \<lparr>qo_Kind = ''refund'', qo_Sale = None, qo_Refund = Some req, qo_QueuedAt = 0, qo_LastErr = []\<rparr>"

text \<open>The result of a queueable operation: queued, or done with the answer.\<close>

datatype 'a checkout = Queued | Answered 'a

definition queued_as :: "(failure + unit) \<Rightarrow> failure + 'a checkout" where
  "queued_as r = (case r of Inl e \<Rightarrow> Inl e | Inr _ \<Rightarrow> Inr Queued)"

definition checkoutSale :: "'s till_env \<Rightarrow> sale_request \<Rightarrow> bool \<Rightarrow> ('s register, failure + sale_answer checkout) state" where
  "checkoutSale X req offline = do {
     online \<leftarrow> (if offline then State_Monad.return False else drainFirst X);
     if \<not> online then do {
       r \<leftarrow> enqueue X (sale_op req) None;
       State_Monad.return (queued_as r)
     }
     else do {
       r \<leftarrow> send_sale X req;
       case r of
         Inr a \<Rightarrow> State_Monad.return (Inr (Answered a))
       | Inl e \<Rightarrow>
           if isTransient e then do {
             q \<leftarrow> enqueue X (sale_op req) (Some e);
             State_Monad.return (queued_as q)
           }
           else State_Monad.return (Inl (Refused e))
     }
   }"

definition checkoutRefund :: "'s till_env \<Rightarrow> refund_order \<Rightarrow> bool \<Rightarrow> ('s register, failure + refund_outcome checkout) state" where
  "checkoutRefund X req offline = do {
     online \<leftarrow> (if offline then State_Monad.return False else drainFirst X);
     if \<not> online then do {
       r \<leftarrow> enqueue X (refund_op req) None;
       State_Monad.return (queued_as r)
     }
     else do {
       r \<leftarrow> send_refund X req;
       case r of
         Inr a \<Rightarrow> State_Monad.return (Inr (Answered a))
       | Inl e \<Rightarrow>
           if isTransient e then do {
             q \<leftarrow> enqueue X (refund_op req) (Some e);
             State_Monad.return (queued_as q)
           }
           else State_Monad.return (Inl (Refused e))
     }
   }"

section \<open>The commands\<close>

definition or_new :: "string \<Rightarrow> string \<Rightarrow> string" where
  "or_new given fresh = (if given = [] then fresh else given)"

definition runSale ::
    "'s till_env \<Rightarrow> common_flags \<Rightarrow> string \<Rightarrow> string \<Rightarrow> string \<Rightarrow> bool \<Rightarrow> string \<Rightarrow> nat list option \<Rightarrow>
     ('s register, failure + sale_answer checkout) state" where
  "runSale X0 common phone amount given offline stamp drawn =
     (case with_flags common True X0 of
        Inl e \<Rightarrow> State_Monad.return (Inl e)
      | Inr X \<Rightarrow>
          if phone = [] then State_Monad.return (Inl NoPhone)
          else case parseAmount X amount of
                 Inl e \<Rightarrow> State_Monad.return (Inl e)
               | Inr amt \<Rightarrow> checkoutSale X \<lparr>sq_TransactionID = or_new given (newTransactionID stamp drawn), sq_Phone = phone, sq_Amount = amt\<rparr> offline)"

definition runRedeem ::
    "'s till_env \<Rightarrow> common_flags \<Rightarrow> string \<Rightarrow> int \<Rightarrow> string \<Rightarrow> string \<Rightarrow> string \<Rightarrow> nat list option \<Rightarrow>
     ('s register, failure + redeem_outcome) state" where
  "runRedeem X0 common phone points amount given stamp drawn =
     (case with_flags common True X0 of
        Inl e \<Rightarrow> State_Monad.return (Inl e)
      | Inr X \<Rightarrow>
          if phone = [] \<or> points \<le> 0 then State_Monad.return (Inl NoPoints)
          else case parseAmount X amount of
                 Inl e \<Rightarrow> State_Monad.return (Inl e)
               | Inr amt \<Rightarrow> do {
                   found \<leftarrow> look_up X phone;
                   case found of
                     Inl e \<Rightarrow> State_Monad.return (Inl (if isTransient e then Unavailable e else Refused e))
                   | Inr None \<Rightarrow> State_Monad.return (Inl (NotKnown phone))
                   | Inr (Some cl) \<Rightarrow> do {
                       r \<leftarrow> send_redeem X \<lparr>ro_TransactionID = or_new given (newTransactionID stamp drawn), ro_ClientID = cb_ClientID cl,
                              ro_Points = points, ro_Amount = amt\<rparr>;
                       State_Monad.return (case r of Inl e \<Rightarrow> Inl (Refused e) | Inr a \<Rightarrow> Inr a)
                     }
                 })"

definition runRefund ::
    "'s till_env \<Rightarrow> common_flags \<Rightarrow> string \<Rightarrow> string \<Rightarrow> string \<Rightarrow> string \<Rightarrow> bool \<Rightarrow> nat list option \<Rightarrow>
     ('s register, failure + refund_outcome checkout) state" where
  "runRefund X0 common original ty amount given offline drawn =
     (case with_flags common True X0 of
        Inl e \<Rightarrow> State_Monad.return (Inl e)
      | Inr X \<Rightarrow>
          if original = [] then State_Monad.return (Inl NoOriginal)
          else if ty \<noteq> [] \<and> ty \<noteq> ''accrual'' \<and> ty \<noteq> ''redeem'' then State_Monad.return (Inl BadType)
          else case parseAmount X amount of
                 Inl e \<Rightarrow> State_Monad.return (Inl e)
               | Inr amt \<Rightarrow> checkoutRefund X
                   \<lparr>fo_TransactionID = or_new given (original @ ''-R'' @ EncodeToString (case drawn of None \<Rightarrow> [0, 0] | Some bs \<Rightarrow> bs)),
                    fo_OriginalTransactionID = original, fo_OriginalTransactionType = ty, fo_Amount = amt\<rparr> offline)"

definition runBalance :: "'s till_env \<Rightarrow> common_flags \<Rightarrow> string \<Rightarrow> ('s register, failure + client_balance option) state" where
  "runBalance X0 common phone =
     (case with_flags common True X0 of
        Inl e \<Rightarrow> State_Monad.return (Inl e)
      | Inr X \<Rightarrow>
          if phone = [] then State_Monad.return (Inl NoPhone)
          else do {
            found \<leftarrow> look_up X phone;
            State_Monad.return (case found of Inl e \<Rightarrow> Inl (Refused e) | Inr b \<Rightarrow> Inr b)
          })"

definition runQR :: "'s till_env \<Rightarrow> common_flags \<Rightarrow> string \<Rightarrow> ('s register, failure + client_balance) state" where
  "runQR X0 common payload =
     (case with_flags common True X0 of
        Inl e \<Rightarrow> State_Monad.return (Inl e)
      | Inr X \<Rightarrow>
          if payload = [] then State_Monad.return (Inl NoPayload)
          else do {
            found \<leftarrow> client_resolveQR (te_json X) (te_server X) (te_link X) (te_client X) payload;
            State_Monad.return (case found of Inl e \<Rightarrow> Inl (Refused e) | Inr b \<Rightarrow> Inr b)
          })"

definition runReplay :: "'s till_env \<Rightarrow> common_flags \<Rightarrow> ('s register, failure + replay_result option) state" where
  "runReplay X0 common =
     (case with_flags common True X0 of
        Inl e \<Rightarrow> State_Monad.return (Inl e)
      | Inr X \<Rightarrow> do {
          ops \<leftarrow> load_queue X;
          case ops of
            Inl message \<Rightarrow> State_Monad.return (Inl (QueueFailed message))
          | Inr xs \<Rightarrow>
              if xs = [] then State_Monad.return (Inr None)
              else do {
                (res, e) \<leftarrow> replay_queue X;
                State_Monad.return (case e of None \<Rightarrow> Inr (Some res) | Some e \<Rightarrow> Inl (StillOffline e))
              }
        })"

definition runQueue :: "'s till_env \<Rightarrow> common_flags \<Rightarrow> ('s register, failure + queued_op list) state" where
  "runQueue X0 common =
     (case with_flags common False X0 of
        Inl e \<Rightarrow> State_Monad.return (Inl e)
      | Inr X \<Rightarrow> do {
          ops \<leftarrow> load_queue X;
          State_Monad.return (case ops of Inl message \<Rightarrow> Inl (QueueFailed message) | Inr xs \<Rightarrow> Inr xs)
        })"

end
