(* ===== verification/Pos_Flood.thy ===== *)
theory Pos_Flood
  imports Pos_Register
begin

text \<open>
  \<open>cmd/possim/flood.go\<close>: a stream of checkouts. What the generator draws for each of them is
  given: the customer, the amount rounded to kopecks, whether points pay, and the new id.
\<close>

record flood_stats =
  fl_sales :: nat
  fl_rejected :: nat
  fl_queued :: nat
  fl_salesAmount :: rat
  fl_accrued :: int
  fl_redeems :: nat
  fl_redeemRejected :: nat
  fl_redeemed :: int

definition no_stats :: flood_stats where
  "no_stats = \<lparr>fl_sales = 0, fl_rejected = 0, fl_queued = 0, fl_salesAmount = 0, fl_accrued = 0, fl_redeems = 0,
     fl_redeemRejected = 0, fl_redeemed = 0\<rparr>"

definition payWithPoints ::
    "'s till_env \<Rightarrow> string \<Rightarrow> string \<Rightarrow> rat \<Rightarrow> flood_stats \<Rightarrow> ('s register, flood_stats) state" where
  "payWithPoints X i phone amount st = do {
     found \<leftarrow> look_up X phone;
     case found of
       Inl e \<Rightarrow> State_Monad.return st
     | Inr None \<Rightarrow> State_Monad.return st
     | Inr (Some cl) \<Rightarrow>
         if cb_Balance cl \<le> 0 then State_Monad.return st
         else do {
           let points = min (cb_Balance cl) (max 1 (dec_IntPart (te_decimal X) (dec_Div (te_decimal X) amount 10)));
           r \<leftarrow> send_redeem X \<lparr>ro_TransactionID = i, ro_ClientID = cb_ClientID cl, ro_Points = points,
                  ro_Amount = dec_StringFixed (te_decimal X) 2 amount\<rparr>;
           State_Monad.return (case r of
             Inl (ApiError a) \<Rightarrow> if ae_Status a = 422 then st\<lparr>fl_redeemRejected := fl_redeemRejected st + 1\<rparr> else st
           | Inl (OtherError message) \<Rightarrow> st
           | Inr a \<Rightarrow> st\<lparr>fl_redeems := fl_redeems st + 1, fl_redeemed := wrap64 (fl_redeemed st + rs_PointsRedeemed a)\<rparr>)
         }
   }"

text \<open>The sale itself; \<open>RequireFromString\<close> reads back the amount it was given.\<close>

definition floodSale ::
    "'s till_env \<Rightarrow> sale_request \<Rightarrow> rat \<Rightarrow> bool \<Rightarrow> flood_stats \<Rightarrow> ('s register, failure option \<times> flood_stats) state" where
  "floodSale X req amount offline st = do {
     online \<leftarrow> (if offline then State_Monad.return False else drainFirst X);
     let queued = st\<lparr>fl_queued := fl_queued st + 1\<rparr>;
     if \<not> online then do {
       r \<leftarrow> enqueue X (sale_op req) None;
       State_Monad.return (case r of Inl e \<Rightarrow> Some e | Inr _ \<Rightarrow> None, queued)
     }
     else do {
       r \<leftarrow> send_sale X req;
       case r of
         Inl e \<Rightarrow>
           if isTransient e then do {
             q \<leftarrow> enqueue X (sale_op req) (Some e);
             State_Monad.return (case q of Inl e \<Rightarrow> Some e | Inr _ \<Rightarrow> None, queued)
           }
           else State_Monad.return (None, st\<lparr>fl_rejected := fl_rejected st + 1\<rparr>)
       | Inr a \<Rightarrow> State_Monad.return (None, st\<lparr>fl_sales := fl_sales st + 1, fl_salesAmount := fl_salesAmount st + amount,
             fl_accrued := wrap64 (fl_accrued st + sa_PointsEarned a)\<rparr>)
     }
   }"

record flood_draw =
  fw_client :: nat
  fw_amount :: rat
  fw_redeem :: bool
  fw_stamp :: string
  fw_bytes :: "nat list option"

definition zero_padded :: "nat \<Rightarrow> int \<Rightarrow> string" where
  "zero_padded width k = (let s = show_int k in replicate (width - length s) CHR ''0'' @ s)"

fun flood_from :: "'s till_env \<Rightarrow> bool \<Rightarrow> nat \<Rightarrow> flood_draw list \<Rightarrow> flood_stats \<Rightarrow> ('s register, failure option \<times> flood_stats) state" where
  "flood_from X offline i [] st = State_Monad.return (None, st)"
| "flood_from X offline i (d # ds) st = do {
     ended \<leftarrow> State (\<lambda>s. (ln_ended (te_link X) (tl_Clock s), s));
     if ended \<noteq> None then State_Monad.return (None, st)
     else do {
       let phone = ''+7999'' @ zero_padded 7 (1 + int (fw_client d));
       let txid = newTransactionID (fw_stamp d) (fw_bytes d) @ ''-'' @ zero_padded 3 (int i + 1);
       st1 \<leftarrow> (if \<not> offline \<and> fw_redeem d then payWithPoints X txid phone (fw_amount d) st else State_Monad.return st);
       (e, st2) \<leftarrow> floodSale X \<lparr>sq_TransactionID = txid, sq_Phone = phone, sq_Amount = dec_StringFixed (te_decimal X) 2 (fw_amount d)\<rparr>
                       (fw_amount d) offline st1;
       if e \<noteq> None then State_Monad.return (e, st2) else flood_from X offline (Suc i) ds st2
     }
   }"

definition runFlood ::
    "'s till_env \<Rightarrow> common_flags \<Rightarrow> int \<Rightarrow> int \<Rightarrow> rat \<Rightarrow> rat \<Rightarrow> bool \<Rightarrow> flood_draw list \<Rightarrow>
     ('s register, failure option \<times> flood_stats) state" where
  "runFlood X0 common n clients minAmount maxAmount offline draws =
     (case with_flags common True X0 of
        Inl e \<Rightarrow> State_Monad.return (Some e, no_stats)
      | Inr X \<Rightarrow>
          if n \<le> 0 \<or> clients \<le> 0 \<or> minAmount \<le> 0 \<or> maxAmount < minAmount then State_Monad.return (Some BadFlood, no_stats)
          else flood_from X offline 0 (take (nat n) draws) no_stats)"

end
