(* ===== verification/Pos_Laws.thy ===== *)
theory Pos_Laws
  imports Pos_Flood
begin

text \<open>
  What a register can rely on, over a server of which it knows only that a posting it answered
  with success is recorded, and that what is recorded stays (locale \<open>loyalty_api\<close>).
\<close>

section \<open>One request\<close>

definition settles :: "('s \<Rightarrow> 's \<Rightarrow> bool) \<Rightarrow> ('s, 'z) till_scheme \<Rightarrow> ('s, 'z) till_scheme \<Rightarrow> bool" where
  "settles R s s' \<longleftrightarrow> R (tl_World s) (tl_World s') \<and> till.more s' = till.more s"

lemma settles_refl: "reflp R \<Longrightarrow> reflp (settles R)"
  by (simp add: settles_def reflp_def)

lemma settles_trans: "transp R \<Longrightarrow> transp (settles R)"
  by (auto simp: settles_def transp_def)

lemma run_ask:
  "run_state (ask srv N q) s =
     (let n = tl_Clock s; w = ln_other N n (tl_World s); (a, w') = run_state (srv n q) w
      in case ln_net N n of
           Reached \<Rightarrow> (Inr a, s\<lparr>tl_World := w', tl_Clock := Suc n\<rparr>)
         | Unreachable message \<Rightarrow> (Inl message, s\<lparr>tl_World := w, tl_Clock := Suc n\<rparr>)
         | ReplyLost message \<Rightarrow> (Inl message, s\<lparr>tl_World := w', tl_Clock := Suc n\<rparr>))"
  by (simp add: ask_def)

lemma run_once:
  "run_state (once je srv N c q decode) s =
     (case run_state (ask srv N q) s of
        (Inl message, s') \<Rightarrow> ((0, Inl (OtherError message)), s')
      | (Inr a, s') \<Rightarrow> (readAnswer je c decode a, s'))"
  by (simp add: once_def split: sum.split prod.split)

lemma run_pause:
  "run_state (pause N wait) s = (case ln_ended N (tl_Clock s) of
     Some message \<Rightarrow> (Some message, s) | None \<Rightarrow> (None, s\<lparr>tl_Waited := tl_Waited s + wait\<rparr>))"
  by (simp add: pause_def)

text \<open>Success is read from a 2xx answer, a final error from any other.\<close>

lemma readAnswer_Inr: "readAnswer je c decode a = (h, Inr out) \<Longrightarrow> 200 \<le> ha_Status a \<and> ha_Status a < 300"
  by (auto simp: readAnswer_def Let_def split: if_splits sum.splits)

lemma readAnswer_final:
  "readAnswer je c decode a = (h, Inl e) \<Longrightarrow> \<not> isTransient e \<Longrightarrow> \<not> (200 \<le> ha_Status a \<and> ha_Status a < 300) \<and> ha_Status a \<noteq> 429 \<and> ha_Status a < 500"
  by (auto simp: readAnswer_def Let_def refusal_def split: if_splits sum.splits option.splits prod.splits)

definition link_within :: "('s \<Rightarrow> 's \<Rightarrow> bool) \<Rightarrow> 's link \<Rightarrow> bool" where
  "link_within R N \<longleftrightarrow> (\<forall>n w. R w (ln_other N n w))"

definition serves_within :: "('s \<Rightarrow> 's \<Rightarrow> bool) \<Rightarrow> 's server \<Rightarrow> pos_request \<Rightarrow> bool" where
  "serves_within R srv q \<longleftrightarrow> (\<forall>n w. R w (snd (run_state (srv n q) w)))"

lemma once_settles:
  assumes "transp R" "link_within R N" "serves_within R srv q"
  shows "keeps (settles R) (once je srv N c q decode)"
proof
  show "settles R s (snd (run_state (once je srv N c q decode) s))" for s
  proof -
    let ?w = "ln_other N (tl_Clock s) (tl_World s)"
    obtain a w' where a: "run_state (srv (tl_Clock s) q) ?w = (a, w')" by fastforce
    have w: "R (tl_World s) ?w" using assms(2) by (simp add: link_within_def)
    moreover from assms(3) a have "R ?w w'" unfolding serves_within_def by (metis snd_conv)
    ultimately have "R (tl_World s) w'" using assms(1) by (meson transpD)
    with w a show ?thesis by (auto simp: run_once run_ask Let_def settles_def split: network.split)
  qed
qed

lemma attempts_settles:
  assumes "reflp R" "transp R" "link_within R N" "serves_within R srv q"
  shows "keeps (settles R) (attempts_from je srv N c q decode left attempt latest)"
proof (induction left arbitrary: attempt latest)
  case (Suc left)
  have p: "keeps (settles R) (pause N wait)" for wait
    using assms(1) by (auto simp: keeps_def run_pause settles_def reflp_def split: option.split)
  note ret = keeps_return [OF settles_refl [OF assms(1)]]
  show ?case
    unfolding attempts_from.simps
    by (rule keeps_bind [OF settles_trans [OF assms(2)] once_settles [OF assms(2-4)]])
      (auto split: prod.split sum.split option.split intro!: keeps_bind [OF settles_trans [OF assms(2)]] p Suc ret)
qed (auto intro: keeps_return [OF settles_refl [OF assms(1)]])

definition final_at :: "nat \<Rightarrow> client_error + 'a \<Rightarrow> bool" where
  "final_at left r \<longleftrightarrow> left = 0 \<or> (case r of Inr out \<Rightarrow> True | Inl e \<Rightarrow> \<not> isTransient e)"

text \<open>One turn of the loop.\<close>

lemma attempts_step:
  "run_state (attempts_from je srv N c q decode (Suc left) attempt latest) s =
     (case run_state (once je srv N c q decode) s of ((h, r), s1) \<Rightarrow>
        if final_at left r then (r, s1)
        else case run_state (pause N (if h \<le> 0 then tc_backoff c attempt else h)) s1 of
               (Some message, s2) \<Rightarrow> (Inl (OtherError message), s2)
             | (None, s2) \<Rightarrow> run_state (attempts_from je srv N c q decode left (Suc attempt) r) s2)"
  by (auto simp: final_at_def split: prod.splits sum.splits option.splits if_splits)

declare attempts_from.simps(2) [simp del]

text \<open>How the loop ends: with the answer of one attempt, or because the caller gave up after a transient error.\<close>

lemma attempts_end:
  assumes "run_state (attempts_from je srv N c q decode left attempt latest) s = (r, s')" "0 < left"
    and within: "reflp R" "transp R" "link_within R N" "serves_within R srv q"
  obtains (answered) a h s1 where "settles R s s1" "run_state (ask srv N q) s1 = (Inr a, s')" "readAnswer je c decode a = (h, r)"
  | (failed) e where "r = Inl e" "isTransient e"
  using assms(1,2)
proof (induction left arbitrary: attempt latest s thesis)
  case (Suc left)
  note refl = reflpD [OF settles_refl [OF within(1)]] and trans = transpD [OF settles_trans [OF within(2)]]
  obtain h r1 s1 where once: "run_state (once je srv N c q decode) s = ((h, r1), s1)" by (metis surj_pair)
  show thesis
  proof (cases "final_at left r1")
    case True
    with once Suc.prems(3) have "r = r1" "s' = s1" by (simp_all add: attempts_step)
    with once Suc.prems(1) [OF refl] Suc.prems(2) show thesis by (auto simp: run_once split: prod.splits sum.splits)
  next
    case False
    then have left: "0 < left" by (simp add: final_at_def)
    obtain ended s2 where p: "run_state (pause N (if h \<le> 0 then tc_backoff c attempt else h)) s1 = (ended, s2)" by fastforce
    show thesis
    proof (cases ended)
      case None
      with once p False Suc.prems(3)
      have run: "run_state (attempts_from je srv N c q decode left (Suc attempt) r1) s2 = (r, s')" by (simp add: attempts_step)
      have "settles R s (snd (run_state (once je srv N c q decode) s))" by (rule keepsD [OF once_settles [OF within(2-4)]])
      then have "settles R s s1" by (simp add: once)
      moreover have "settles R s1 s2"
        using p within(1) by (auto simp: run_pause settles_def reflp_def split: option.splits)
      ultimately have s2: "settles R s s2" by (rule trans)
      show thesis
      proof (rule Suc.IH [OF _ _ run left])
        show thesis if "settles R s2 s3" "run_state (ask srv N q) s3 = (Inr a, s')" "readAnswer je c decode a = (h', r)" for a h' s3
          using trans [OF s2 that(1)] that(2,3) by (rule Suc.prems(1))
        show thesis if "r = Inl e" "isTransient e" for e using that by (rule Suc.prems(2))
      qed
    next
      case (Some message)
      with once p False Suc.prems(2,3) show thesis by (auto simp: attempts_step)
    qed
  qed
qed simp

text \<open>A request is repeated at most as often as the client allows.\<close>

lemma attempts_clock:
  assumes "run_state (attempts_from je srv N c q decode left attempt latest) s = (r, s')" "0 < left"
  shows "tl_Clock s < tl_Clock s' \<and> tl_Clock s' \<le> tl_Clock s + left"
  using assms
proof (induction left arbitrary: attempt latest s)
  case (Suc left)
  obtain h r1 s1 where once: "run_state (once je srv N c q decode) s = ((h, r1), s1)" by (metis surj_pair)
  then have s1: "tl_Clock s1 = Suc (tl_Clock s)" by (auto simp: run_once run_ask Let_def split: network.splits prod.splits sum.splits)
  show ?case
  proof (cases "final_at left r1")
    case True
    with Suc.prems(1) once s1 show ?thesis by (simp add: attempts_step)
  next
    case False
    then have left: "0 < left" by (simp add: final_at_def)
    obtain ended s2 where p: "run_state (pause N (if h \<le> 0 then tc_backoff c attempt else h)) s1 = (ended, s2)" by fastforce
    then have s2: "tl_Clock s2 = Suc (tl_Clock s)" using s1 by (auto simp: run_pause split: option.splits)
    show ?thesis
    proof (cases ended)
      case None
      with False once p Suc.prems(1) have "run_state (attempts_from je srv N c q decode left (Suc attempt) r1) s2 = (r, s')"
        by (simp add: attempts_step)
      from Suc.IH [OF this left] s2 show ?thesis by simp
    next
      case (Some message)
      with False once p s2 Suc.prems(1) show ?thesis by (simp add: attempts_step)
    qed
  qed
qed simp

text \<open>Between two attempts it waits at least nothing and at most the larger of its backoff and the cap on the server's wish.\<close>

lemma hint_bounds:
  assumes "run_state (once je srv N c q decode) s = ((h, r), s')" "0 \<le> tc_maxRetryAfter c"
  shows "h \<le> tc_maxRetryAfter c" "tl_Waited s' = tl_Waited s"
  using assms
  by (auto simp: run_once run_ask Let_def readAnswer_def retryAfter_def split: network.splits prod.splits sum.splits if_splits option.splits)

lemma attempts_wait:
  assumes "run_state (attempts_from je srv N c q decode left attempt latest) s = (r, s')"
    "0 \<le> tc_maxRetryAfter c" "\<And>k. 0 \<le> tc_backoff c k" "\<And>k. k < attempt + left - 1 \<Longrightarrow> tc_backoff c k \<le> tc_maxRetryAfter c"
  shows "tl_Waited s \<le> tl_Waited s' \<and> tl_Waited s' \<le> tl_Waited s + int (left - 1) * tc_maxRetryAfter c"
  using assms(1,4)
proof (induction left arbitrary: attempt latest s)
  case (Suc left)
  obtain h r1 s1 where once: "run_state (once je srv N c q decode) s = ((h, r1), s1)" by (metis surj_pair)
  note h = hint_bounds [OF once assms(2)]
  show ?case
  proof (cases "final_at left r1")
    case True
    with Suc.prems(1) once h assms(2) show ?thesis by (simp add: attempts_step)
  next
    case False
    then obtain l where left: "left = Suc l" by (cases left) (auto simp: final_at_def)
    let ?wait = "if h \<le> 0 then tc_backoff c attempt else h"
    have wait: "0 \<le> ?wait" "?wait \<le> tc_maxRetryAfter c" using h assms(3) Suc.prems(2) [of attempt] left by auto
    obtain ended s2 where p: "run_state (pause N ?wait) s1 = (ended, s2)" by fastforce
    show ?thesis
    proof (cases ended)
      case None
      with False once p Suc.prems(1) have "run_state (attempts_from je srv N c q decode left (Suc attempt) r1) s2 = (r, s')"
        by (simp add: attempts_step)
      from Suc.IH [OF this] Suc.prems(2) left
      have "tl_Waited s2 \<le> tl_Waited s' \<and> tl_Waited s' \<le> tl_Waited s2 + int l * tc_maxRetryAfter c" by simp
      moreover from p None have "tl_Waited s2 = tl_Waited s1 + ?wait" by (auto simp: run_pause split: option.splits)
      ultimately show ?thesis using wait h(2) left by (simp add: algebra_simps)
    next
      case (Some message)
      with p have "s2 = s1" by (auto simp: run_pause split: option.splits)
      with Some False once p h(2) Suc.prems(1) assms(2) show ?thesis by (simp add: attempts_step)
    qed
  qed
qed simp

end
