(* ===== verification/Pos_Replay.thy ===== *)
theory Pos_Replay
  imports Pos_Laws
begin

text \<open>
  The offline queue against any server that records what it accepts: reading back what was
  written, replay, and the checkout that queues behind it.
\<close>

section \<open>The file\<close>

definition queue_text :: "op_json \<Rightarrow> queued_op list \<Rightarrow> string" where
  "queue_text J xs = concat (map (op_line J) xs)"

text \<open>What \<open>encoding/json\<close> promises of one operation, and that its line fits the scanner's buffer.\<close>

definition readable :: "op_json \<Rightarrow> queued_op \<Rightarrow> bool" where
  "readable J x \<longleftrightarrow> oj_read J (oj_write J x) = Inr x \<and> oj_write J x \<noteq> [] \<and> newline \<notin> set (oj_write J x) \<and>
     last (oj_write J x) \<noteq> CHR 0x0D \<and> length (oj_write J x) < 1048576"

lemma split_on_line: "c \<notin> set l \<Longrightarrow> split_on c (l @ c # t) = l # split_on c t"
  by (induction l) auto

lemma split_on_ne: "split_on c s \<noteq> []"
  by (induction s) (auto split: list.split)

lemma scanned_line: "newline \<notin> set l \<Longrightarrow> scanned (l @ newline # t) = l # scanned t"
  using split_on_ne [of newline t] by (simp add: scanned_def Let_def split_on_line)

lemma scanned_nil: "scanned [] = []"
  by (simp add: scanned_def)

lemma read_queue: "list_all (readable J) xs \<Longrightarrow> read_ops J (scanned (queue_text J xs)) = Inr xs"
  by (induction xs) (auto simp: queue_text_def scanned_nil op_line_def scanned_line readable_def dropCR_def)

text \<open>No other process uses the file.\<close>

definition alone :: "disk \<Rightarrow> bool" where
  "alone K \<longleftrightarrow> dk_other K = (\<lambda>n f. f)"

lemma run_on_disk:
  "run_state (on_disk K act) s = (let n = tl_Clock s; (r, f) = act (dk_result K n) (dk_other K n (rg_File s))
     in (r, s\<lparr>rg_File := f, tl_Clock := Suc n\<rparr>))"
  by (simp add: on_disk_def)

lemma run_load:
  assumes "alone K" "written (rg_File s) = queue_text J xs" "list_all (readable J) xs" "run_state (queue_load J K) s = (r, s')"
  shows "tl_World s' = tl_World s \<and> rg_File s' = rg_File s \<and> rg_Printed s' = rg_Printed s \<and> (r = Inr xs \<or> (\<exists>message. r = Inl message))"
proof (cases "rg_File s")
  case None
  with assms have "xs = []" by (cases xs) (simp_all add: written_def queue_text_def op_line_def)
  with None assms(1,4) show ?thesis by (auto simp: queue_load_def run_on_disk alone_def Let_def)
next
  case (Some f)
  with assms show ?thesis
    by (auto simp: queue_load_def run_on_disk alone_def Let_def written_def read_queue split: disk_result.splits prod.splits)
qed

lemma run_save:
  assumes "alone K" "run_state (queue_save J K xs) s = (r, s')"
  shows "tl_World s' = tl_World s \<and> rg_Printed s' = rg_Printed s \<and>
    (case r of Inr _ \<Rightarrow> rg_File s' = (if xs = [] then None else Some (queue_text J xs)) | Inl message \<Rightarrow> rg_File s' = rg_File s)"
  using assms by (auto simp: queue_save_def run_on_disk alone_def Let_def queue_text_def split: disk_result.splits if_splits)

lemma run_append:
  assumes "alone K" "run_state (queue_append J K x) s = (r, s')"
  shows "tl_World s' = tl_World s \<and> rg_Printed s' = rg_Printed s \<and>
    (r = Inr () \<longrightarrow> rg_File s' = Some (written (rg_File s) @ op_line J x))"
  using assms by (auto simp: queue_append_def run_on_disk alone_def Let_def split: disk_result.splits)

section \<open>A server that records what it accepts\<close>

definition sale_posting :: "till_client \<Rightarrow> pos_json \<Rightarrow> sale_request \<Rightarrow> pos_request" where
  "sale_posting c P req = \<lparr>pq_Method = ''POST'', pq_URL = tc_baseURL c @ ''/api/v1/transactions'', pq_Key = tc_apiKey c,
     pq_Body = Some (pj_sale P req)\<rparr>"

definition refund_posting :: "till_client \<Rightarrow> pos_json \<Rightarrow> refund_order \<Rightarrow> pos_request" where
  "refund_posting c P req = \<lparr>pq_Method = ''POST'', pq_URL = tc_baseURL c @ ''/api/v1/transactions/refund'', pq_Key = tc_apiKey c,
     pq_Body = Some (pj_refund P req)\<rparr>"

definition posts :: "till_client \<Rightarrow> pos_json \<Rightarrow> pos_request \<Rightarrow> bool" where
  "posts c P q \<longleftrightarrow> (\<exists>req. q = sale_posting c P req) \<or> (\<exists>req. q = refund_posting c P req)"

definition op_post :: "till_client \<Rightarrow> pos_json \<Rightarrow> queued_op \<Rightarrow> pos_request option" where
  "op_post c P x =
     (case qo_Sale x of
        Some req \<Rightarrow> Some (sale_posting c P req)
      | None \<Rightarrow> (case qo_Refund x of Some req \<Rightarrow> Some (refund_posting c P req) | None \<Rightarrow> None))"

lemma op_post_posts: "op_post c P x = Some q \<Longrightarrow> posts c P q"
  by (auto simp: op_post_def posts_def split: option.splits)

definition grows :: "('s \<Rightarrow> bool) \<Rightarrow> (pos_request \<Rightarrow> 's \<Rightarrow> bool) \<Rightarrow> 's \<Rightarrow> 's \<Rightarrow> bool" where
  "grows valid recorded w w' \<longleftrightarrow> (valid w \<longrightarrow> valid w' \<and> (\<forall>q. recorded q w \<longrightarrow> recorded q w'))"

lemma grows_refl: "reflp (grows valid recorded)" and grows_trans: "transp (grows valid recorded)"
  by (auto simp: grows_def reflp_def transp_def)

text \<open>Settled: recorded at the server, or printed as rejected for good.\<close>

definition settled :: "till_client \<Rightarrow> pos_json \<Rightarrow> (pos_request \<Rightarrow> 's \<Rightarrow> bool) \<Rightarrow> 's register \<Rightarrow> queued_op \<Rightarrow> bool" where
  "settled c P recorded s x \<longleftrightarrow>
     (\<exists>q. op_post c P x = Some q \<and> recorded q (tl_World s)) \<or>
     list_ex (\<lambda>(y, what). y = x \<and> (case what of RejectedWith e \<Rightarrow> \<not> isTransient e | _ \<Rightarrow> False)) (rg_Printed s)"

definition later :: "('s \<Rightarrow> 's \<Rightarrow> bool) \<Rightarrow> 's register \<Rightarrow> 's register \<Rightarrow> bool" where
  "later R s s' \<longleftrightarrow> R (tl_World s) (tl_World s') \<and> (\<exists>new. rg_Printed s' = rg_Printed s @ new)"

lemma later_refl: "reflp R \<Longrightarrow> later R s s"
  by (simp add: later_def reflp_def)

lemma later_trans: "transp R \<Longrightarrow> later R s s1 \<Longrightarrow> later R s1 s2 \<Longrightarrow> later R s s2"
  by (auto simp: later_def transp_def)

lemma settled_later:
  assumes "later (grows valid recorded) s s'" "valid (tl_World s)" "settled c P recorded s x"
  shows "settled c P recorded s' x"
  using assms by (auto simp: later_def settled_def grows_def)

definition marked :: "client_error \<Rightarrow> queued_op list \<Rightarrow> queued_op list" where
  "marked e xs = (case xs of [] \<Rightarrow> [] | x # ys \<Rightarrow> x\<lparr>qo_LastErr := errorText e\<rparr> # ys)"

lemma run_report: "run_state (report x what) s = ((), s\<lparr>rg_Printed := rg_Printed s @ [(x, what)]\<rparr>)"
  by (simp add: report_def)

text \<open>What a replay leaves: a settled prefix is gone, the rest is kept in order; or the file could not be written and is untouched.\<close>

definition left_after :: "replay_error option \<Rightarrow> op_json \<Rightarrow> string option \<Rightarrow> queued_op list \<Rightarrow> string option \<Rightarrow> bool" where
  "left_after err J before kept now_there \<longleftrightarrow>
     (case err of
        None \<Rightarrow> kept = [] \<and> now_there = None
      | Some (Stopped e) \<Rightarrow> isTransient e \<and> kept \<noteq> [] \<and> now_there = Some (queue_text J (marked e kept))
      | Some (FileError message) \<Rightarrow> now_there = before)"

definition same_ops :: "queued_op list \<Rightarrow> queued_op list \<Rightarrow> bool" where
  "same_ops xs ys \<longleftrightarrow> map (\<lambda>x. x\<lparr>qo_LastErr := []\<rparr>) xs = map (\<lambda>x. x\<lparr>qo_LastErr := []\<rparr>) ys"

lemma same_ops_refl [simp]: "same_ops xs xs"
  by (simp add: same_ops_def)

lemma same_ops_marked [simp]: "same_ops xs (marked e xs)"
  by (simp add: same_ops_def marked_def split: list.split)

lemma same_ops_nil [simp]: "same_ops [] ys \<longleftrightarrow> ys = []" "same_ops xs [] \<longleftrightarrow> xs = []"
  by (auto simp: same_ops_def)

text \<open>Of the operations that waited, a settled prefix is gone and the rest waits on, in the same order.\<close>

definition queue_kept :: "till_client \<Rightarrow> pos_json \<Rightarrow> (pos_request \<Rightarrow> 's \<Rightarrow> bool) \<Rightarrow> 's register \<Rightarrow> queued_op list \<Rightarrow> queued_op list \<Rightarrow> bool" where
  "queue_kept c P recorded s xs queue \<longleftrightarrow>
     (\<exists>dropped kept. xs = dropped @ kept \<and> list_all (settled c P recorded s) dropped \<and> same_ops kept queue)"

lemma queue_kept_all [simp]: "queue_kept c P recorded s xs xs"
  unfolding queue_kept_def by (rule exI [of _ "[]"], rule exI [of _ xs]) simp

lemma queue_text_snoc: "queue_text J (xs @ [x]) = queue_text J xs @ op_line J x"
  by (simp add: queue_text_def)

lemma queue_text_empty: "queue_text J xs = [] \<longleftrightarrow> xs = []"
  by (cases xs) (simp_all add: queue_text_def op_line_def)

definition uses :: "'s till_env \<Rightarrow> 's server \<Rightarrow> till_client \<Rightarrow> pos_json \<Rightarrow> bool" where
  "uses X srv c P \<longleftrightarrow> te_server X = srv \<and> te_client X = c \<and> te_json X = P"

text \<open>How a checkout may end for the cashier: answered, queued at the end, refused for good, or the file failed.\<close>

definition checked_out :: "op_json \<Rightarrow> queued_op list \<Rightarrow> (queued_op \<Rightarrow> bool) \<Rightarrow> bool \<Rightarrow> string option \<Rightarrow> failure + 'a checkout \<Rightarrow> bool" where
  "checked_out J queue mine recorded_now f r \<longleftrightarrow>
     (case r of
        Inr (Answered a) \<Rightarrow> queue = [] \<and> written f = [] \<and> recorded_now
      | Inr Queued \<Rightarrow> (\<exists>x. mine x \<and> f = Some (queue_text J (queue @ [x])))
      | Inl (Refused e) \<Rightarrow> queue = [] \<and> written f = [] \<and> \<not> isTransient e
      | Inl (QueueFailed message) \<Rightarrow> (\<exists>t. written f = queue_text J queue @ t)
      | Inl _ \<Rightarrow> False)"

lemma queue_kept_later:
  assumes "later (grows valid recorded) s s'" "valid (tl_World s)" "queue_kept c P recorded s xs queue"
  shows "queue_kept c P recorded s' xs queue"
proof -
  from assms(3) obtain dropped kept where k: "xs = dropped @ kept" "list_all (settled c P recorded s) dropped" "same_ops kept queue"
    by (auto simp: queue_kept_def)
  from k(2) have "list_all (settled c P recorded s') dropped"
    by (rule list.pred_mono_strong) (rule settled_later [OF assms(1,2)])
  with k(1,3) show ?thesis unfolding queue_kept_def by blast
qed

text \<open>The course of both queueable operations.\<close>

definition checkout :: "'s till_env \<Rightarrow> queued_op \<Rightarrow> ('s register, client_error + 'a) state \<Rightarrow> bool \<Rightarrow> ('s register, failure + 'a checkout) state" where
  "checkout X x send offline = do {
     online \<leftarrow> (if offline then State_Monad.return False else drainFirst X);
     if \<not> online then State_Monad.bind (enqueue X x None) (\<lambda>r. State_Monad.return (queued_as r))
     else do {
       r \<leftarrow> send;
       case r of
         Inr a \<Rightarrow> State_Monad.return (Inr (Answered a))
       | Inl e \<Rightarrow>
           if isTransient e then State_Monad.bind (enqueue X x (Some e)) (\<lambda>q. State_Monad.return (queued_as q))
           else State_Monad.return (Inl (Refused e))
     }
   }"

lemma checkout_forms:
  "checkoutSale X req offline = checkout X (sale_op req) (send_sale X req) offline"
  "checkoutRefund X fo offline = checkout X (refund_op fo) (send_refund X fo) offline"
  unfolding checkoutSale_def checkoutRefund_def checkout_def by (rule refl)+

definition same_order :: "queued_op \<Rightarrow> queued_op \<Rightarrow> bool" where
  "same_order x y \<longleftrightarrow> qo_Sale y = qo_Sale x \<and> qo_Refund y = qo_Refund x \<and> qo_Kind y = qo_Kind x"

locale loyalty_api =
  fixes srv :: "'s server" and c :: till_client and P :: pos_json
    and valid :: "'s \<Rightarrow> bool" and recorded :: "pos_request \<Rightarrow> 's \<Rightarrow> bool"
  assumes attempts: "0 < tc_attempts c"
    and grows: "posts c P q \<Longrightarrow> grows valid recorded w (snd (run_state (srv n q) w))"
    and accepted: "posts c P q \<Longrightarrow> valid w \<Longrightarrow> run_state (srv n q) w = (a, w') \<Longrightarrow> 200 \<le> ha_Status a \<Longrightarrow> ha_Status a < 300 \<Longrightarrow>
      recorded q w'"
begin

abbreviation R where "R \<equiv> grows valid recorded"

lemma serves: "posts c P q \<Longrightarrow> serves_within R srv q"
  by (simp add: serves_within_def grows)

lemma post_settles:
  assumes "link_within R N" "posts c P q" "run_state (attempts_from je srv N c q decode left attempt latest) s = (r, s')"
  shows "settles R s s'"
proof -
  have "settles R s (snd (run_state (attempts_from je srv N c q decode left attempt latest) s))"
    by (rule keepsD [OF attempts_settles [OF grows_refl grows_trans assms(1) serves [OF assms(2)]]])
  with assms(3) show ?thesis by simp
qed

lemma posted:
  assumes "link_within R N" "posts c P q" "valid (tl_World s)"
    "run_state (attempts_from je srv N c q decode (tc_attempts c) attempt latest) s = (Inr out, s')"
  shows "recorded q (tl_World s')"
  using assms(4) attempts grows_refl grows_trans assms(1) serves [OF assms(2)]
proof (cases rule: attempts_end)
  case (answered a h s1)
  let ?w = "ln_other N (tl_Clock s1) (tl_World s1)"
  obtain b w' where b: "run_state (srv (tl_Clock s1) q) ?w = (b, w')" by fastforce
  with answered(2) have "b = a" "tl_World s' = w'" by (auto simp: run_ask Let_def split: network.splits)
  moreover have "valid ?w" using assms(1,3) answered(1) by (simp add: link_within_def settles_def grows_def)
  ultimately show ?thesis using accepted [OF assms(2) _ b] readAnswer_Inr [OF answered(3)] by simp
qed simp

lemma sale_sent:
  assumes "link_within R N" "valid (tl_World s)" "run_state (client_sale P srv N c req) s = (r, s')"
  shows "settles R s s'" "r = Inr a \<Longrightarrow> recorded (sale_posting c P req) (tl_World s')"
proof -
  have q: "posts c P (sale_posting c P req)" by (auto simp: posts_def)
  note run = assms(3) [unfolded client_sale_def client_do_def, folded sale_posting_def]
  show "settles R s s'" by (rule post_settles [OF assms(1) q run])
  show "recorded (sale_posting c P req) (tl_World s')" if "r = Inr a"
    by (rule posted [OF assms(1) q assms(2) run [unfolded that]])
qed

lemma refund_sent:
  assumes "link_within R N" "valid (tl_World s)" "run_state (client_refund P srv N c req) s = (r, s')"
  shows "settles R s s'" "r = Inr a \<Longrightarrow> recorded (refund_posting c P req) (tl_World s')"
proof -
  have q: "posts c P (refund_posting c P req)" by (auto simp: posts_def)
  note run = assms(3) [unfolded client_refund_def client_do_def, folded refund_posting_def]
  show "settles R s s'" by (rule post_settles [OF assms(1) q run])
  show "recorded (refund_posting c P req) (tl_World s')" if "r = Inr a"
    by (rule posted [OF assms(1) q assms(2) run [unfolded that]])
qed

lemma settles_register: "settles R s s' \<Longrightarrow> rg_File s' = rg_File s \<and> rg_Printed s' = rg_Printed s \<and> R (tl_World s) (tl_World s')"
  unfolding settles_def by (cases s; cases s') simp

lemma delivered:
  assumes "link_within R N" "valid (tl_World s)" "run_state (deliver_op P srv N c x) s = (r, s')"
  shows "R (tl_World s) (tl_World s') \<and> rg_File s' = rg_File s \<and> rg_Printed s' = rg_Printed s \<and>
    (\<forall>replayed. r = Inr replayed \<longrightarrow> (\<exists>q. op_post c P x = Some q \<and> recorded q (tl_World s')))"
proof (cases "qo_Sale x")
  case (Some req)
  obtain r1 where r1: "run_state (client_sale P srv N c req) s = (r1, s')" "\<And>b. r = Inr b \<Longrightarrow> \<exists>a. r1 = Inr a"
    using assms(3) Some by (auto simp: deliver_op_def split: prod.splits sum.splits)
  from sale_sent [OF assms(1,2) r1(1)] r1(2) Some show ?thesis by (auto simp: op_post_def dest!: settles_register)
next
  case None
  show ?thesis
  proof (cases "qo_Refund x")
    case (Some req)
    obtain r1 where r1: "run_state (client_refund P srv N c req) s = (r1, s')" "\<And>b. r = Inr b \<Longrightarrow> \<exists>a. r1 = Inr a"
      using assms(3) None Some by (auto simp: deliver_op_def split: prod.splits sum.splits)
    from refund_sent [OF assms(1,2) r1(1)] r1(2) None Some show ?thesis by (auto simp: op_post_def dest!: settles_register)
  qed (use assms(3) None in \<open>auto simp: deliver_op_def grows_def\<close>)
qed

lemma replayed_ops:
  assumes "link_within R N" "alone K" "valid (tl_World s)" "run_state (replay_ops P J srv N K c xs res) s = ((res', err), s')"
  shows "later R s s' \<and> (\<exists>dropped kept. xs = dropped @ kept \<and> list_all (settled c P recorded s') dropped \<and>
    left_after err J (rg_File s) kept (rg_File s'))"
  using assms(3,4)
proof (induction xs arbitrary: s res)
  case Nil
  then obtain saved where "run_state (queue_save J K []) s = (saved, s')" "err = (case saved of Inl m \<Rightarrow> Some (FileError m) | Inr _ \<Rightarrow> None)"
    by (auto split: prod.splits sum.splits)
  with run_save [OF assms(2)] have "tl_World s' = tl_World s" "rg_Printed s' = rg_Printed s" "left_after err J (rg_File s) [] (rg_File s')"
    by (fastforce simp: left_after_def split: sum.splits)+
  then show ?case by (auto simp: later_def grows_def)
next
  case (Cons x xs)
  obtain r s1 where r: "run_state (deliver_op P srv N c x) s = (r, s1)" by fastforce
  note d = delivered [OF assms(1) Cons.prems(1) r]
  have s1: "later R s s1" "valid (tl_World s1)" using d Cons.prems(1) by (auto simp: later_def grows_def)
  have step: ?case if what: "run_state (do { _ \<leftarrow> report x what; replay_ops P J srv N K c xs res1 }) s1 = ((res', err), s')"
    "settled c P recorded (s1\<lparr>rg_Printed := rg_Printed s1 @ [(x, what)]\<rparr>) x" for what res1
  proof -
    let ?s2 = "s1\<lparr>rg_Printed := rg_Printed s1 @ [(x, what)]\<rparr>"
    from what(1) have run: "run_state (replay_ops P J srv N K c xs res1) ?s2 = ((res', err), s')" by (simp add: run_report)
    from Cons.IH [OF _ run] s1(2) obtain dropped kept where IH: "later R ?s2 s'" "xs = dropped @ kept"
      "list_all (settled c P recorded s') dropped" "left_after err J (rg_File s) kept (rg_File s')"
      using d by auto
    have s2: "later R s1 ?s2" by (simp add: later_def grows_def)
    have "settled c P recorded s' x" using settled_later [OF IH(1) _ what(2)] s1(2) by simp
    with IH(2-4) later_trans [OF grows_trans later_trans [OF grows_trans s1(1) s2] IH(1)] show ?thesis
      by (intro conjI exI [of _ "x # dropped"] exI [of _ kept]) simp_all
  qed
  show ?case
  proof (cases r)
    case (Inr replayed)
    then obtain q where "op_post c P x = Some q" "recorded q (tl_World s1)" using d by blast
    then have s2: "settled c P recorded (s1\<lparr>rg_Printed := rg_Printed s1 @ [(x, what)]\<rparr>) x" for what by (auto simp: settled_def)
    show ?thesis using Cons.prems(2) r Inr step [OF _ s2] by (cases replayed) auto
  next
    case (Inl e)
    show ?thesis
    proof (cases "isTransient e")
      case False
      have "settled c P recorded (s1\<lparr>rg_Printed := rg_Printed s1 @ [(x, RejectedWith e)]\<rparr>) x" using False by (simp add: settled_def)
      with Cons.prems(2) r Inl False step show ?thesis by auto
    next
      case True
      let ?rest = "x\<lparr>qo_LastErr := errorText e\<rparr> # xs"
      obtain saved s2 where saved: "run_state (queue_save J K ?rest) s1 = (saved, s2)" by fastforce
      with Cons.prems(2) r Inl True have s2: "s' = s2" "err = (case saved of Inl m \<Rightarrow> Some (FileError m) | Inr _ \<Rightarrow> Some (Stopped e))"
        by (auto simp: Let_def split: sum.splits)
      from run_save [OF assms(2) saved] d s1(1) s2 True have "later R s s'" "left_after err J (rg_File s) (x # xs) (rg_File s')"
        by (auto simp: left_after_def marked_def later_def split: sum.splits)
      then show ?thesis by (intro conjI exI [of _ "[]"] exI [of _ "x # xs"]) simp_all
    qed
  qed
qed

lemma replayed:
  assumes "link_within R N" "alone K" "valid (tl_World s)" "written (rg_File s) = queue_text J xs" "list_all (readable J) xs"
    "run_state (replay P J srv N K c) s = ((res, err), s')"
  shows "later R s s' \<and> (\<exists>queue. queue_kept c P recorded s' xs queue \<and> written (rg_File s') = queue_text J queue \<and>
    (err = None \<longrightarrow> queue = []))"
proof -
  obtain r s1 where l: "run_state (queue_load J K) s = (r, s1)" by fastforce
  note load = run_load [OF assms(2,4,5) l]
  have s1: "later R s s1" using load by (simp add: later_def grows_def)
  show ?thesis
  proof (cases r)
    case (Inl message)
    with l assms(6) have "s' = s1" "err = Some (FileError message)" by (simp_all add: replay_def Let_def)
    with s1 load assms(4) show ?thesis by (intro conjI exI [of _ xs]) auto
  next
    case (Inr ys)
    with load have ys: "ys = xs" by auto
    with l assms(6) Inr obtain res0 where run: "run_state (replay_ops P J srv N K c xs res0) s1 = ((res, err), s')"
      by (auto simp: replay_def Let_def)
    from replayed_ops [OF assms(1,2) _ run] load assms(3) obtain dropped kept where
      r: "later R s1 s'" "xs = dropped @ kept" "list_all (settled c P recorded s') dropped"
        "left_after err J (rg_File s) kept (rg_File s')" by auto
    have "\<exists>queue. queue_kept c P recorded s' xs queue \<and> written (rg_File s') = queue_text J queue \<and> (err = None \<longrightarrow> queue = [])"
    proof (cases "\<exists>message. err = Some (FileError message)")
      case True
      with r(4) assms(4) have "written (rg_File s') = queue_text J xs" by (auto simp: left_after_def)
      with True show ?thesis by (intro exI [of _ xs]) auto
    next
      case False
      then have "written (rg_File s') = queue_text J (case err of Some (Stopped e) \<Rightarrow> marked e kept | _ \<Rightarrow> [])"
        "same_ops kept (case err of Some (Stopped e) \<Rightarrow> marked e kept | _ \<Rightarrow> [])"
        using r(4) by (auto simp: left_after_def written_def queue_text_def split: option.splits replay_error.splits)
      with r(2,3) False show ?thesis unfolding queue_kept_def
        by (intro exI [of _ "case err of Some (Stopped e) \<Rightarrow> marked e kept | _ \<Rightarrow> []"] conjI exI [of _ dropped] exI [of _ kept]) auto
    qed
    with later_trans [OF grows_trans s1 r(1)] show ?thesis by blast
  qed
qed

lemma drained:
  assumes "uses X srv c P" "link_within R (te_link X)" "alone (te_disk X)" "valid (tl_World s)"
    "written (rg_File s) = queue_text (te_ops X) xs" "list_all (readable (te_ops X)) xs"
    "run_state (drainFirst X) s = (online, s')"
  shows "later R s s' \<and> (\<exists>queue. queue_kept c P recorded s' xs queue \<and> written (rg_File s') = queue_text (te_ops X) queue \<and>
    (online \<longrightarrow> queue = []))"
proof -
  obtain r s1 where l: "run_state (queue_load (te_ops X) (te_disk X)) s = (r, s1)" by fastforce
  note load = run_load [OF assms(3,5,6) l]
  have s1: "later R s s1" using load by (simp add: later_def grows_def)
  show ?thesis
  proof (cases "r = Inr xs \<and> xs \<noteq> []")
    case True
    then obtain res err where run: "run_state (replay P (te_ops X) srv (te_link X) (te_disk X) c) s1 = ((res, err), s')" "online = (err = None)"
      using l assms(1,7) by (auto simp: drainFirst_def load_queue_def replay_queue_def uses_def split: prod.splits)
    from replayed [OF assms(2,3) _ _ assms(6) run(1)] load assms(4,5) run(2) later_trans [OF grows_trans s1] show ?thesis by auto
  next
    case False
    then have "s' = s1" "online \<longrightarrow> xs = []"
      using l load assms(7) by (auto simp: drainFirst_def load_queue_def split: sum.splits)
    with s1 load assms(5) show ?thesis by (intro conjI exI [of _ xs]) auto
  qed
qed

lemma enqueued:
  assumes "alone (te_disk X)" "written (rg_File s) = queue_text (te_ops X) queue" "run_state (enqueue X x cause) s = (r, s')"
  shows "tl_World s' = tl_World s \<and> rg_Printed s' = rg_Printed s \<and>
    (case r of Inr _ \<Rightarrow> \<exists>y. same_order x y \<and> rg_File s' = Some (queue_text (te_ops X) (queue @ [y]))
     | Inl e \<Rightarrow> \<exists>message t. e = QueueFailed message \<and> written (rg_File s') = queue_text (te_ops X) queue @ t)"
proof -
  let ?y = "x\<lparr>qo_QueuedAt := te_now X (tl_Clock s), qo_LastErr := (case cause of None \<Rightarrow> qo_LastErr x | Some e \<Rightarrow> errorText e)\<rparr>"
  obtain q s1 where q: "run_state (queue_append (te_ops X) (te_disk X) ?y) s = (q, s1)" by fastforce
  with assms(3) have r: "s' = s1" "r = (case q of Inl message \<Rightarrow> Inl (QueueFailed message) | Inr _ \<Rightarrow> Inr ())"
    by (auto simp: enqueue_def Let_def)
  note a = run_append [OF assms(1) q]
  show ?thesis
  proof (cases q)
    case (Inl message)
    have "\<exists>t. written (rg_File s1) = written (rg_File s) @ t"
      using q Inl assms(1) by (auto simp: queue_append_def run_on_disk alone_def Let_def written_def split: disk_result.splits)
    with Inl r a assms(2) show ?thesis by auto
  next
    case (Inr u)
    with r a assms(2) show ?thesis by (auto simp: queue_text_snoc same_order_def intro!: exI [of _ ?y])
  qed
qed

lemma checked:
  assumes "uses X srv c P" "link_within R (te_link X)" "alone (te_disk X)" "valid (tl_World s)"
    "written (rg_File s) = queue_text (te_ops X) xs" "list_all (readable (te_ops X)) xs"
    "run_state (checkout X x send offline) s = (r, s')"
    and sent: "\<And>s1 a s2. valid (tl_World s1) \<Longrightarrow> run_state send s1 = (a, s2) \<Longrightarrow> settles R s1 s2"
      "\<And>s1 a s2. valid (tl_World s1) \<Longrightarrow> run_state send s1 = (Inr a, s2) \<Longrightarrow> recorded q (tl_World s2)"
  shows "later R s s' \<and> (\<exists>queue. queue_kept c P recorded s' xs queue \<and>
    checked_out (te_ops X) queue (same_order x) (recorded q (tl_World s')) (rg_File s') r)"
proof -
  obtain online s1 where d: "run_state (if offline then State_Monad.return False else drainFirst X) s = (online, s1)" by fastforce
  then obtain queue where queue: "later R s s1" "queue_kept c P recorded s1 xs queue" "written (rg_File s1) = queue_text (te_ops X) queue"
    "online \<Longrightarrow> queue = []"
  proof (cases offline)
    case True
    with d assms(5) that [of xs] show ?thesis by (simp add: later_refl [OF grows_refl])
  next
    case False
    with d drained [OF assms(1-6), of online s1] that show ?thesis by auto
  qed
  have v1: "valid (tl_World s1)" using queue(1) assms(4) by (simp add: later_def grows_def)
  have stays: "queue_kept c P recorded s2 xs queue" if "later R s1 s2" for s2
    using that v1 queue(2) by (rule queue_kept_later)
  have put: ?thesis if "run_state (enqueue X x cause) s2 = (b, s')" "r = queued_as b" "later R s1 s2"
      "written (rg_File s2) = queue_text (te_ops X) queue" for cause b s2
  proof -
    note e = enqueued [OF assms(3) that(4,1)]
    have "later R s2 s'" using e by (simp add: later_def grows_def)
    then have "later R s1 s'" by (rule later_trans [OF grows_trans that(3)])
    moreover have "checked_out (te_ops X) queue (same_order x) (recorded q (tl_World s')) (rg_File s') r"
      using e that(2) by (auto simp: checked_out_def queued_as_def split: sum.splits)
    ultimately show ?thesis using stays later_trans [OF grows_trans queue(1)] by blast
  qed
  show ?thesis
  proof (cases online)
    case False
    with d assms(7) obtain b where "run_state (enqueue X x None) s1 = (b, s')" "r = queued_as b"
      by (auto simp: checkout_def split: prod.splits)
    then show ?thesis using put queue(3) later_refl [OF grows_refl] by blast
  next
    case True
    obtain a s2 where a: "run_state send s1 = (a, s2)" by fastforce
    have s2: "later R s1 s2" "rg_File s2 = rg_File s1" using settles_register [OF sent(1) [OF v1 a]] by (simp_all add: later_def)
    show ?thesis
    proof (cases a)
      case (Inr b)
      with d True a assms(7) have "s' = s2" "r = Inr (Answered b)" by (simp_all add: checkout_def)
      with sent(2) [OF v1] a Inr queue(3,4) True s2 stays [OF s2(1)] later_trans [OF grows_trans queue(1) s2(1)] show ?thesis
        by (intro conjI exI [of _ queue]) (auto simp: checked_out_def queue_text_def)
    next
      case (Inl e)
      show ?thesis
      proof (cases "isTransient e")
        case transient: True
        with d True a Inl assms(7) obtain b where "run_state (enqueue X x (Some e)) s2 = (b, s')" "r = queued_as b"
          by (auto simp: checkout_def split: prod.splits)
        then show ?thesis using put s2 queue(3) by simp
      next
        case False
        with d True a Inl assms(7) have "s' = s2" "r = Inl (Refused e)" by (simp_all add: checkout_def)
        with False queue(3,4) True s2 stays [OF s2(1)] later_trans [OF grows_trans queue(1) s2(1)] show ?thesis
          by (intro conjI exI [of _ queue]) (auto simp: checked_out_def queue_text_def)
      qed
    qed
  qed
qed

lemma sale_checked:
  assumes "uses X srv c P" "link_within R (te_link X)" "alone (te_disk X)" "valid (tl_World s)"
    "written (rg_File s) = queue_text (te_ops X) xs" "list_all (readable (te_ops X)) xs"
    "run_state (checkoutSale X req offline) s = (r, s')"
  shows "later R s s' \<and> (\<exists>queue. queue_kept c P recorded s' xs queue \<and>
    checked_out (te_ops X) queue (same_order (sale_op req)) (recorded (sale_posting c P req) (tl_World s')) (rg_File s') r)"
proof (rule checked [OF assms(1-6) assms(7) [unfolded checkout_forms]])
  have send: "send_sale X req = client_sale P srv (te_link X) c req" using assms(1) by (simp add: send_sale_def uses_def)
  show "settles R s1 s2" if "valid (tl_World s1)" "run_state (send_sale X req) s1 = (a, s2)" for s1 a s2
    using sale_sent(1) [OF assms(2) that(1)] that(2) send by metis
  show "recorded (sale_posting c P req) (tl_World s2)" if "valid (tl_World s1)" "run_state (send_sale X req) s1 = (Inr a, s2)" for s1 a s2
    using sale_sent(2) [OF assms(2) that(1)] that(2) send by metis
qed

lemma refund_checked:
  assumes "uses X srv c P" "link_within R (te_link X)" "alone (te_disk X)" "valid (tl_World s)"
    "written (rg_File s) = queue_text (te_ops X) xs" "list_all (readable (te_ops X)) xs"
    "run_state (checkoutRefund X req offline) s = (r, s')"
  shows "later R s s' \<and> (\<exists>queue. queue_kept c P recorded s' xs queue \<and>
    checked_out (te_ops X) queue (same_order (refund_op req)) (recorded (refund_posting c P req) (tl_World s')) (rg_File s') r)"
proof (rule checked [OF assms(1-6) assms(7) [unfolded checkout_forms]])
  have send: "send_refund X req = client_refund P srv (te_link X) c req" using assms(1) by (simp add: send_refund_def uses_def)
  show "settles R s1 s2" if "valid (tl_World s1)" "run_state (send_refund X req) s1 = (a, s2)" for s1 a s2
    using refund_sent(1) [OF assms(2) that(1)] that(2) send by metis
  show "recorded (refund_posting c P req) (tl_World s2)" if "valid (tl_World s1)" "run_state (send_refund X req) s1 = (Inr a, s2)" for s1 a s2
    using refund_sent(2) [OF assms(2) that(1)] that(2) send by metis
qed

end

end
