(* ===== verification/Pos_Server.thy ===== *)
theory Pos_Server
  imports Pos_Replay Mux Http_Rules Accrual Refunds
begin

text \<open>
  The register against the server of \<open>internal/httpserver\<close>: a request on the wire is routed,
  guarded and handled like any other, and its answer is written back. The encoding of answers
  is a parameter. On this server the register's interface \<open>loyalty_api\<close> is interpreted.
\<close>

section \<open>The wire\<close>

record wire =
  wi_base :: string
  wi_from :: string
  wi_body :: "reply response \<Rightarrow> string"
  wi_retry :: "reply response \<Rightarrow> string"

fun status_of :: "'a response \<Rightarrow> int" where
  "status_of (Reply status v) = status"
| "status_of (Header status) = status"
| "status_of (Refuse status message) = status"
| "status_of (RefuseCode status code message) = status"

definition wire_path :: "wire \<Rightarrow> pos_request \<Rightarrow> string option" where
  "wire_path W q =
     (let n = length (wi_base W) in if take n (pq_URL q) = wi_base W then Some (drop n (pq_URL q)) else None)"

definition path_part :: "string \<Rightarrow> string" where
  "path_part s = takeWhile (\<lambda>c. c \<noteq> CHR ''?'') s"

definition query_part :: "string \<Rightarrow> string" where
  "query_part s = drop (Suc (length (path_part s))) s"

text \<open>\<open>url.QueryUnescape\<close>, and \<open>Get\<close> of the parsed query: the first readable pair with the key.\<close>

fun QueryUnescape :: "string \<Rightarrow> string option" where
  "QueryUnescape [] = Some []"
| "QueryUnescape (c # s) =
     (if c = CHR ''%'' then
        (case s of
           h # l # t \<Rightarrow>
             (case (hex_digit h, hex_digit l) of
                (Some a, Some b) \<Rightarrow> map_option (\<lambda>r. char_of (16 * a + b) # r) (QueryUnescape t)
              | _ \<Rightarrow> None)
         | _ \<Rightarrow> None)
      else map_option (\<lambda>r. (if c = CHR ''+'' then CHR '' '' else c) # r) (QueryUnescape s))"

definition query_pair :: "string \<Rightarrow> (string \<times> string) option" where
  "query_pair s =
     (let k = takeWhile (\<lambda>c. c \<noteq> CHR ''='') s; v = drop (Suc (length k)) s
      in case (QueryUnescape k, QueryUnescape v) of (Some k', Some v') \<Rightarrow> Some (k', v') | _ \<Rightarrow> None)"

definition query_get :: "string \<Rightarrow> string \<Rightarrow> string" where
  "query_get query name =
     (case find (\<lambda>p. case p of Some (k, v) \<Rightarrow> k = name | None \<Rightarrow> False) (map query_pair (split_on CHR ''&'' query)) of
        Some (Some (k, v)) \<Rightarrow> v
      | _ \<Rightarrow> [])"

definition wire_request :: "wire \<Rightarrow> pos_request \<Rightarrow> string \<Rightarrow> string request" where
  "wire_request W q path =
     \<lparr>rq_Context = \<lparr>cx_Store = None, cx_APIKey = None, cx_Customer = None, cx_Staff = None, cx_ClientIP = None\<rparr>,
      rq_Authorization = ''Bearer '' @ pq_Key q, rq_PathValue = (\<lambda>_. []), rq_Query = query_get (query_part path),
      rq_Body = pq_Body q, rq_RemoteAddr = wi_from W, rq_ForwardedFor = [], rq_UserAgent = []\<rparr>"

definition not_found :: http_answer where
  "not_found = \<lparr>ha_Status = 404, ha_RetryAfter = [], ha_Body = []\<rparr>"

definition promogo ::
    "wire \<Rightarrow> json_lib \<Rightarrow> 'k deps \<Rightarrow> (nat \<Rightarrow> 'k world env) \<Rightarrow> (nat \<Rightarrow> db env) \<Rightarrow> (nat \<Rightarrow> draws) \<Rightarrow> 'k world server" where
  "promogo W J deps E L draws n q =
     (case wire_path W q of
        None \<Rightarrow> State_Monad.return not_found
      | Some path \<Rightarrow> do {
          a \<leftarrow> serveHTTP J deps (E n) (L n) (draws n) (if pq_Method q = ''GET'' then MethodGet else MethodPost)
                 (tl (split_on CHR ''/'' (path_part path))) (wire_request W q path);
          State_Monad.return \<lparr>ha_Status = status_of a, ha_RetryAfter = wi_retry W a, ha_Body = wi_body W a\<rparr>
        })"

section \<open>What the ledger requests leave alone\<close>

definition same_keys :: "db \<Rightarrow> db \<Rightarrow> bool" where
  "same_keys d d' \<longleftrightarrow> db_stores d' = db_stores d \<and> db_api_keys d' = db_api_keys d"

lemma same_keys_refl [simp]: "reflp same_keys" and same_keys_trans [simp]: "transp same_keys"
  by (auto simp: reflp_def transp_def same_keys_def)

definition keyed :: "db env \<Rightarrow> bool" where
  "keyed L \<longleftrightarrow> (\<forall>l s. same_keys s (env_other L l s))"

lemma keys_call: "keyed L \<Longrightarrow> keeps same_keys m \<Longrightarrow> keeps same_keys (call L l m)"
  unfolding keyed_def by (rule keeps_call [OF same_keys_refl same_keys_trans]) blast+

lemma keys_call_tx: "keyed L \<Longrightarrow> (\<And>tf now. keeps same_keys (m tf now)) \<Longrightarrow> keeps same_keys (call_tx L l m)"
  unfolding call_tx_def by (rule keys_call)

lemma keys_call_at: "keyed L \<Longrightarrow> (\<And>now. keeps same_keys (m now)) \<Longrightarrow> keeps same_keys (call_at L l m)"
  unfolding call_at_def by (rule keys_call)

lemma keys_client_Create: "keeps same_keys (client_Create now c)"
  by (auto simp: keeps_def client_Create_def run_andThen Let_def same_keys_def)

lemma keys_Post: "keeps same_keys (Post tf now tx ns)"
proof
  show "same_keys d (snd (run_state (Post tf now tx ns) d))" for d
  proof (cases "run_state (Post tf now tx ns) d")
    case (Pair r d')
    then show ?thesis by (cases r) (auto dest!: Post_Inl Post_Inr simp: post_effect_def Let_def same_keys_def)
  qed
qed

lemma keys_PostRefund: "keeps same_keys (PostRefund D tf now tx bn)"
proof
  show "same_keys d (snd (run_state (PostRefund D tf now tx bn) d))" for d
  proof (cases "run_state (PostRefund D tf now tx bn) d")
    case (Pair r d')
    then show ?thesis by (cases r) (auto dest!: PostRefund_Inl PostRefund_effect simp: refund_effect_def Let_def same_keys_def)
  qed
qed

lemmas keys_intros = keeps_andThen [OF same_keys_refl same_keys_trans] keeps_bind [OF same_keys_trans]
  keys_call keys_call_tx keys_call_at keeps_reads [OF same_keys_refl] keeps_ok [OF same_keys_refl] keeps_fail [OF same_keys_refl]
  keys_client_Create keys_Post keys_PostRefund

lemma keys_parts:
  assumes "keyed L"
  shows "keeps same_keys (replayedAccrue D L k s x ph a)" "keeps same_keys (resolveOrCreateClient L s ph)"
    "keeps same_keys (appInvite i L cl)" "keeps same_keys (accrualPoints D L s tx)"
    "keeps same_keys (replayedRefund D L k s x o' a)" "keeps same_keys (resolveOriginalTransaction L s x ty)"
  unfolding replayedAccrue_def resolveOrCreateClient_def appInvite_def accrualPoints_def replayedRefund_def resolveOriginalTransaction_def Let_def
  using assms by (auto intro!: keys_intros split: sum.split option.split)

lemma keys_Accrue: "keyed L \<Longrightarrow> keeps same_keys (Accrue D svc L req)"
  unfolding Accrue_def Let_def by (auto intro!: keys_intros keys_parts split: sum.split prod.split)

lemma keys_Refund: "keyed L \<Longrightarrow> keeps same_keys (Refund D L req)"
  unfolding Refund_def Let_def by (auto intro!: keys_intros keys_parts split: sum.split prod.split)

section \<open>A store's key\<close>

text \<open>Whenever the register's key opens a store, it opens this one.\<close>

definition opens_only :: "hash \<Rightarrow> string \<Rightarrow> int \<Rightarrow> 'k world \<Rightarrow> bool" where
  "opens_only sha token sid w \<longleftrightarrow> (\<forall>now s key. opens sha now (w_db w) token s key \<longrightarrow> st_ID s = sid)"

lemma touched_rows [simp]:
  "db_stores (touched t key d) = db_stores d" "db_transactions (touched t key d) = db_transactions d"
  "db_clients (touched t key d) = db_clients d"
  by (simp_all add: touched_def key_TouchLastUsed_def split: option.split)

lemma touched_opens: "opens sha now (touched t key d) token s k \<Longrightarrow> \<exists>k'. opens sha now d token s k'"
proof -
  assume o: "opens sha now (touched t key d) token s k"
  show ?thesis
  proof (cases k)
    case None
    with o show ?thesis by (intro exI [of _ None]) (auto simp: opens_def)
  next
    case (Some k1)
    with o obtain k2 where "k2 \<in> set (db_api_keys d)" "k1 = k2 \<or> (\<exists>u. k1 = k2\<lparr>key_LastUsedAt := u\<rparr>)"
      by (auto simp: opens_def touched_def key_TouchLastUsed_def split: option.splits if_splits)
    moreover have "Domain.Active (k2\<lparr>key_LastUsedAt := u\<rparr>) now = Domain.Active k2 now" for u by (simp add: Domain.Active_def)
    ultimately show ?thesis using o Some by (intro exI [of _ "Some k2"]) (auto simp: opens_def)
  qed
qed

lemma same_keys_opens_only:
  assumes "same_keys (touched t key (w_db w)) (w_db w')" "opens_only sha token sid w"
  shows "opens_only sha token sid w'"
  unfolding opens_only_def
proof (intro allI impI)
  fix now s k assume "opens sha now (w_db w') token s k"
  with assms(1) have "opens sha now (touched t key (w_db w)) token s k" by (auto simp: opens_def same_keys_def split: option.splits)
  with touched_opens assms(2) show "st_ID s = sid" unfolding opens_only_def by blast
qed

section \<open>A posting on the server\<close>

definition success :: "'a response \<Rightarrow> bool" where
  "success a \<longleftrightarrow> 200 \<le> status_of a \<and> status_of a < 300"

lemma refused_no_success: "refused a \<Longrightarrow> \<not> success a"
  by (auto simp: refused_cases success_def)

definition accrual_of :: "int \<Rightarrow> accrue_body \<Rightarrow> accrue_request" where
  "accrual_of sid b = \<lparr>ar_StoreID = sid, ar_ExternalTxID = ab_ExternalTxID b, ar_Phone = ab_Phone b, ar_Amount = ab_Amount b\<rparr>"

definition refund_of_body :: "int \<Rightarrow> transaction_type option \<Rightarrow> refund_body \<Rightarrow> refund_request" where
  "refund_of_body sid ty b = \<lparr>fr_StoreID = sid, fr_ExternalTxID = rfb_ExternalTxID b,
     fr_OriginalExternalTxID = rfb_OriginalExternalTxID b, fr_OriginalType = ty, fr_Amount = rfb_Amount b\<rparr>"

lemma no_success [simp]: "400 \<le> status \<Longrightarrow> \<not> success (Refuse status message)" "400 \<le> status \<Longrightarrow> \<not> success (RefuseCode status code message)"
  by (simp_all add: success_def)

lemma accrual_handled:
  assumes "run_state (handleAccrueTransaction D svc L r) w = (a, w')" "storeFromContext r = Some s"
  obtains "w' = w" "\<not> success a"
  | b res where "rq_Body r = Some b" "run_state (Accrue D svc L (accrual_of (st_ID s) b)) (w_db w) = (res, w_db w')"
      "success a \<Longrightarrow> \<exists>ans. res = Inr (Some ans)"
proof (cases "\<exists>b. rq_Body r = Some b \<and> \<not> (ab_ExternalTxID b = [] \<or> length (ab_ExternalTxID b) > maxExternalTxIDLen \<or>
    ab_Phone b = [] \<or> length (ab_Phone b) > maxPhoneLen \<or> \<not> ab_Amount b > 0)")
  case False
  with assms that(1) show thesis by (auto simp: handleAccrueTransaction_def split: option.splits if_splits)
next
  case True
  then obtain b where b: "rq_Body r = Some b" "\<not> (ab_ExternalTxID b = [] \<or> length (ab_ExternalTxID b) > maxExternalTxIDLen \<or>
    ab_Phone b = [] \<or> length (ab_Phone b) > maxPhoneLen \<or> \<not> ab_Amount b > 0)" by blast
  obtain res d' where run: "run_state (Accrue D svc L (accrual_of (st_ID s) b)) (w_db w) = (res, d')" by fastforce
  from assms(1) have "run_state (case res of Inl e \<Rightarrow> accrue_error e | Inr None \<Rightarrow> recovered
      | Inr (Some a) \<Rightarrow> writeJSON 200 \<lparr>ta_ClientID = ares_ClientID a, ta_PointsEarned = ares_PointsEarned a,
            ta_Balance = ares_Balance a, ta_Replayed = ares_Replayed a\<rparr>) (w\<lparr>w_db := d'\<rparr>) = (a, w')"
    using run unfolding handleAccrueTransaction_def assms(2) b(1) option.case if_not_P [OF b(2)]
    by (simp add: run_on_db accrual_of_def)
  then have "w_db w' = d'" "success a \<Longrightarrow> \<exists>ans. res = Inr (Some ans)"
    by (auto simp: accrue_error_def recovered_def split: sum.splits option.splits if_splits)
  with that(2) b(1) run show thesis by blast
qed

lemma refund_handled:
  assumes "run_state (handleRefundTransaction D L r) w = (a, w')" "storeFromContext r = Some s"
  obtains "w' = w" "\<not> success a"
  | b ty res where "rq_Body r = Some b" "parseOriginalType (rfb_OriginalType b) = Some ty"
      "run_state (Refund D L (refund_of_body (st_ID s) ty b)) (w_db w) = (res, w_db w')"
      "success a \<Longrightarrow> \<exists>ans. res = Inr (Some ans)"
proof (cases "\<exists>b ty. rq_Body r = Some b \<and> \<not> (rfb_ExternalTxID b = [] \<or> length (rfb_ExternalTxID b) > maxExternalTxIDLen \<or>
    rfb_OriginalExternalTxID b = [] \<or> length (rfb_OriginalExternalTxID b) > maxExternalTxIDLen \<or> \<not> rfb_Amount b > 0) \<and>
    parseOriginalType (rfb_OriginalType b) = Some ty")
  case False
  with assms that(1) show thesis by (auto simp: handleRefundTransaction_def split: option.splits if_splits)
next
  case True
  then obtain b ty where b: "rq_Body r = Some b" "\<not> (rfb_ExternalTxID b = [] \<or> length (rfb_ExternalTxID b) > maxExternalTxIDLen \<or>
    rfb_OriginalExternalTxID b = [] \<or> length (rfb_OriginalExternalTxID b) > maxExternalTxIDLen \<or> \<not> rfb_Amount b > 0)"
    "parseOriginalType (rfb_OriginalType b) = Some ty" by blast
  obtain res d' where run: "run_state (Refund D L (refund_of_body (st_ID s) ty b)) (w_db w) = (res, d')" by fastforce
  from assms(1) have "run_state (case res of Inl e \<Rightarrow> refund_error_answer e | Inr None \<Rightarrow> recovered
      | Inr (Some a) \<Rightarrow> writeJSON 200 a) (w\<lparr>w_db := d'\<rparr>) = (a, w')"
    using run unfolding handleRefundTransaction_def assms(2) b(1,3) option.case if_not_P [OF b(2)]
    by (simp add: run_on_db refund_of_body_def)
  then have "w_db w' = d'" "success a \<Longrightarrow> \<exists>ans. res = Inr (Some ans)"
    by (auto simp: refund_error_answer_def recovered_def split: sum.splits option.splits if_splits)
  with that(2) b(1,3) run show thesis by blast
qed

section \<open>The register's two routes\<close>

definition saleRoute :: route_meta where
  "saleRoute = the (find (\<lambda>rt. rt_OperationID rt = ''createTransaction'') routeTable)"

definition refundRoute :: route_meta where
  "refundRoute = the (find (\<lambda>rt. rt_OperationID rt = ''refundTransaction'') routeTable)"

lemma register_routes:
  "saleRoute \<in> set routeTable" "rt_Method saleRoute = MethodPost" "rt_OperationID saleRoute = ''createTransaction''"
  "rt_Contour saleRoute = contourStoreKey" "route_match saleRoute [''api'', ''v1'', ''transactions''] = Some Map.empty"
  "refundRoute \<in> set routeTable" "rt_Method refundRoute = MethodPost" "rt_OperationID refundRoute = ''refundTransaction''"
  "rt_Contour refundRoute = contourStoreKey" "route_match refundRoute [''api'', ''v1'', ''transactions'', ''refund''] = Some Map.empty"
  by (simp_all add: saleRoute_def refundRoute_def routeTable_def route_def route_match_def pattern_of_def parse_segment_def)

text \<open>What the till of this server sends, as the server sees it.\<close>

definition till_of :: "wire \<Rightarrow> till_client \<Rightarrow> bool" where
  "till_of W c \<longleftrightarrow> tc_baseURL c = wi_base W \<and> 0 < tc_attempts c"

definition posting_request :: "wire \<Rightarrow> till_client \<Rightarrow> string \<Rightarrow> string request" where
  "posting_request W c body =
     \<lparr>rq_Context = \<lparr>cx_Store = None, cx_APIKey = None, cx_Customer = None, cx_Staff = None, cx_ClientIP = None\<rparr>,
      rq_Authorization = ''Bearer '' @ tc_apiKey c, rq_PathValue = (\<lambda>_. []), rq_Query = query_get [],
      rq_Body = Some body, rq_RemoteAddr = wi_from W, rq_ForwardedFor = [], rq_UserAgent = []\<rparr>"

lemma posting_request_sel [simp]: "rq_Body (posting_request W c body) = Some body" "bearer (posting_request W c body) = tc_apiKey c"
  by (simp_all add: posting_request_def bearer_def TrimPrefix_def)

definition put_answer :: "wire \<Rightarrow> reply response \<Rightarrow> http_answer" where
  "put_answer W a = \<lparr>ha_Status = status_of a, ha_RetryAfter = wi_retry W a, ha_Body = wi_body W a\<rparr>"

lemma sale_served:
  assumes "till_of W c"
  shows "run_state (promogo W J deps E L draws n (sale_posting c P req)) w =
    (let (a, w') = run_state (serve deps (E n) saleRoute
       (\<lambda>r. answering R_Transaction (handleAccrueTransaction (dp_decimal deps) (dp_Loyalty deps) (L n) (with_body (js_accrue J) r)))
       (posting_request W c (pj_sale P req))) w
     in (put_answer W a, w'))"
proof -
  have "wire_path W (sale_posting c P req) = Some ''/api/v1/transactions''"
    using assms by (simp add: wire_path_def sale_posting_def till_of_def)
  moreover have "wire_request W (sale_posting c P req) ''/api/v1/transactions'' = posting_request W c (pj_sale P req)"
    by (simp add: wire_request_def posting_request_def sale_posting_def query_part_def path_part_def)
  moreover have "with_path Map.empty (posting_request W c body) = posting_request W c body" for body
    by (simp add: with_path_def posting_request_def)
  moreover have "mux MethodPost [''api'', ''v1'', ''transactions''] = Matched saleRoute Map.empty"
    using mux_matched [OF register_routes(1,5)] by (simp add: register_routes)
  ultimately show ?thesis
    by (simp add: promogo_def serveHTTP_def handle_def handlerFor_def register_routes path_part_def sale_posting_def put_answer_def
        Let_def split: prod.split)
qed

lemma refund_served:
  assumes "till_of W c"
  shows "run_state (promogo W J deps E L draws n (refund_posting c P req)) w =
    (let (a, w') = run_state (serve deps (E n) refundRoute
       (\<lambda>r. answering R_Refund (handleRefundTransaction (dp_decimal deps) (L n) (with_body (js_refund J) r)))
       (posting_request W c (pj_refund P req))) w
     in (put_answer W a, w'))"
proof -
  have "wire_path W (refund_posting c P req) = Some ''/api/v1/transactions/refund''"
    using assms by (simp add: wire_path_def refund_posting_def till_of_def)
  moreover have "wire_request W (refund_posting c P req) ''/api/v1/transactions/refund'' = posting_request W c (pj_refund P req)"
    by (simp add: wire_request_def posting_request_def refund_posting_def query_part_def path_part_def)
  moreover have "with_path Map.empty (posting_request W c body) = posting_request W c body" for body
    by (simp add: with_path_def posting_request_def)
  moreover have "mux MethodPost [''api'', ''v1'', ''transactions'', ''refund''] = Matched refundRoute Map.empty"
    using mux_matched [OF register_routes(6,10)] by (simp add: register_routes)
  ultimately show ?thesis
    by (simp add: promogo_def serveHTTP_def handle_def handlerFor_def register_routes path_part_def refund_posting_def put_answer_def
        Let_def split: prod.split)
qed

section \<open>Postings are recorded\<close>

definition in_ledger :: "wire \<Rightarrow> json_lib \<Rightarrow> decimal_lib \<Rightarrow> int \<Rightarrow> pos_request \<Rightarrow> 'k world \<Rightarrow> bool" where
  "in_ledger W J D sid q w \<longleftrightarrow>
     (if pq_URL q = wi_base W @ ''/api/v1/transactions''
      then \<exists>body b. pq_Body q = Some body \<and> js_accrue J body = Some b \<and>
        accrue_answer D sid (ab_ExternalTxID b) (canonical_phone (ab_Phone b)) (ab_Amount b) (w_db w) \<noteq> None
      else \<exists>body b ty oid. pq_Body q = Some body \<and> js_refund J body = Some b \<and>
        refund_answer D (refund_of_body sid ty b) oid (w_db w) \<noteq> None)"

lemma in_ledger_extends:
  assumes "extends (w_db w) (w_db w')" "in_ledger W J D sid q w"
  shows "in_ledger W J D sid q w'"
  using assms(2) accrue_answer_extends [OF assms(1)] refund_answer_extends [OF assms(1)]
  by (fastforce simp: in_ledger_def split: if_splits)

lemma run_answering: "run_state (answering f m) w = (let (a, w') = run_state m w in (map_response f a, w'))"
  by (simp add: answering_def split: prod.split)

lemma success_map [simp]: "success (map_response f a) = success a"
  by (cases a) (simp_all add: success_def)

lemma with_body_sel [simp]:
  "rq_Body (with_body decode r) = Option.bind (rq_Body r) decode" "storeFromContext (with_body decode r) = storeFromContext r"
  by (simp_all add: with_body_def storeFromContext_def)

text \<open>
  What every posting does on the server: the ledger grows, the keys stay, and a success is
  recorded. \<open>H\<close> is the handler, \<open>rec\<close> what its success records for a store.
\<close>

lemma posting_on_server:
  assumes "rt_Contour rt = contourStoreKey" "run_state (serve deps (quiet t) rt h r) w = (a, w')"
    and handler: "\<And>s key w1. run_state (h (storeRequest s key (resolved deps r))) w1 = (a, w') \<Longrightarrow>
      extends (w_db w1) (w_db w') \<and> same_keys (w_db w1) (w_db w') \<and> (success a \<longrightarrow> rec (st_ID s) w')"
  shows "extends (w_db w) (w_db w')"
    "opens_only (dp_hash deps) (bearer r) sid w \<Longrightarrow> opens_only (dp_hash deps) (bearer r) sid w'"
    "opens_only (dp_hash deps) (bearer r) sid w \<Longrightarrow> success a \<Longrightarrow> rec sid w'"
proof -
  have touch: "extends d (touched t key d)" for d key by (simp add: extends_same)
  have "extends (w_db w) (w_db w') \<and>
    (opens_only (dp_hash deps) (bearer r) sid w \<longrightarrow> opens_only (dp_hash deps) (bearer r) sid w' \<and> (success a \<longrightarrow> rec sid w'))"
  proof -
    consider key where "refused a" "w_db w' = touched t key (w_db w)"
      | s key w1 where "opens (dp_hash deps) t (w_db w) (bearer r) s key" "w_db w1 = touched t key (w_db w)"
          "run_state (h (storeRequest s key (resolved deps r))) w1 = (a, w')"
      using store_route_cases [OF assms(1,2)] by blast
    then show ?thesis
    proof cases
      case (1 key)
      with touch show ?thesis by (metis refused_no_success same_keys_def same_keys_opens_only)
    next
      case (2 s key w1)
      note h = handler [OF 2(3)]
      have "opens_only (dp_hash deps) (bearer r) sid w \<Longrightarrow> st_ID s = sid" using 2(1) by (auto simp: opens_only_def)
      with h 2(2) touch [of "w_db w" key] show ?thesis by (metis extends_trans same_keys_opens_only)
    qed
  qed
  then show "extends (w_db w) (w_db w')"
    "opens_only (dp_hash deps) (bearer r) sid w \<Longrightarrow> opens_only (dp_hash deps) (bearer r) sid w'"
    "opens_only (dp_hash deps) (bearer r) sid w \<Longrightarrow> success a \<Longrightarrow> rec sid w'"
    by blast+
qed

definition fair_db :: "decimal_lib \<Rightarrow> loyalty_service \<Rightarrow> db env \<Rightarrow> bool" where
  "fair_db D svc L \<longleftrightarrow> fair_env D (svc_antiFraud svc) (\<lambda>_. True) L \<and> keyed L"

lemma accrual_on_server:
  assumes "decimal_laws D" "fair_db D svc L" "storeFromContext r = Some s"
    "run_state (handleAccrueTransaction D svc L r) w = (a, w')"
  shows "extends (w_db w) (w_db w') \<and> same_keys (w_db w) (w_db w') \<and>
    (success a \<longrightarrow> (\<exists>b. rq_Body r = Some b \<and>
       accrue_answer D (st_ID s) (ab_ExternalTxID b) (canonical_phone (ab_Phone b)) (ab_Amount b) (w_db w') \<noteq> None))"
  using assms(4,3)
proof (cases rule: accrual_handled)
  case 1
  then show ?thesis by (simp add: extends_refl same_keys_def)
next
  case (2 b res)
  note fair = assms(2) [unfolded fair_db_def, THEN conjunct1]
  have "extends (w_db w) (w_db w')" by (rule step_keeps [OF steps_Accrue [OF assms(1) fair] 2(2)])
  moreover have "same_keys (w_db w) (snd (run_state (Accrue D svc L (accrual_of (st_ID s) b)) (w_db w)))"
    by (rule keepsD [OF keys_Accrue]) (use assms(2) in \<open>simp add: fair_db_def\<close>)
  moreover have "accrue_answer D (st_ID s) (ab_ExternalTxID b) (canonical_phone (ab_Phone b)) (ab_Amount b) (w_db w') \<noteq> None"
    if res: "res = Inr (Some ans)" for ans
    using accrued_answer [OF fair] 2(2) res by (fastforce simp: accrual_of_def)
  ultimately show ?thesis using 2 by auto
qed

lemma refund_on_server:
  assumes "fair_db D svc L" "storeFromContext r = Some s" "run_state (handleRefundTransaction D L r) w = (a, w')"
  shows "extends (w_db w) (w_db w') \<and> same_keys (w_db w) (w_db w') \<and>
    (success a \<longrightarrow> (\<exists>b ty oid. rq_Body r = Some b \<and> refund_answer D (refund_of_body (st_ID s) ty b) oid (w_db w') \<noteq> None))"
  using assms(3,2)
proof (cases rule: refund_handled)
  case 1
  then show ?thesis by (simp add: extends_refl same_keys_def)
next
  case (2 b ty res)
  note fair = assms(1) [unfolded fair_db_def, THEN conjunct1]
  have "extends (w_db w) (w_db w')" by (rule step_keeps [OF steps_Refund [OF fair] 2(3)]) simp
  moreover have "same_keys (w_db w) (snd (run_state (Refund D L (refund_of_body (st_ID s) ty b)) (w_db w)))"
    by (rule keepsD [OF keys_Refund]) (use assms(1) in \<open>simp add: fair_db_def\<close>)
  moreover have "\<exists>oid. refund_answer D (refund_of_body (st_ID s) ty b) oid (w_db w') \<noteq> None" if "res = Inr (Some ans)" for ans
    using refunded_answer 2(3) that by blast
  ultimately show ?thesis using 2 by auto
qed

text \<open>So the server keeps the register's contract, however its database is shared.\<close>

lemma posting_at_server:
  assumes "decimal_laws (dp_decimal deps)" "\<And>n. fair_db (dp_decimal deps) (dp_Loyalty deps) (L n)" "till_of W c"
    "posts c P q" "run_state (promogo W J deps (\<lambda>n. quiet (tm n)) L draws n q) w = (b, w')"
  shows "extends (w_db w) (w_db w')"
    "opens_only (dp_hash deps) (tc_apiKey c) sid w \<Longrightarrow> opens_only (dp_hash deps) (tc_apiKey c) sid w'"
    "opens_only (dp_hash deps) (tc_apiKey c) sid w \<Longrightarrow> 200 \<le> ha_Status b \<Longrightarrow> ha_Status b < 300 \<Longrightarrow>
     in_ledger W J (dp_decimal deps) sid q w'"
proof -
  have "extends (w_db w) (w_db w') \<and>
    (opens_only (dp_hash deps) (tc_apiKey c) sid w \<longrightarrow> opens_only (dp_hash deps) (tc_apiKey c) sid w' \<and>
       (200 \<le> ha_Status b \<and> ha_Status b < 300 \<longrightarrow> in_ledger W J (dp_decimal deps) sid q w'))"
  proof (cases "\<exists>req. q = sale_posting c P req")
    case True
    then obtain req where q: "q = sale_posting c P req" by blast
    let ?h = "\<lambda>r. answering R_Transaction (handleAccrueTransaction (dp_decimal deps) (dp_Loyalty deps) (L n) (with_body (js_accrue J) r))"
    let ?r = "posting_request W c (pj_sale P req)"
    from assms(5) obtain a where a: "run_state (serve deps (quiet (tm n)) saleRoute ?h ?r) w = (a, w')" "b = put_answer W a"
      by (auto simp: q sale_served [OF assms(3)] Let_def split: prod.splits)
    let ?rec = "\<lambda>i w'. \<exists>b. js_accrue J (pj_sale P req) = Some b \<and>
         accrue_answer (dp_decimal deps) i (ab_ExternalTxID b) (canonical_phone (ab_Phone b)) (ab_Amount b) (w_db w') \<noteq> None"
    have on: "extends (w_db w1) (w_db w') \<and> same_keys (w_db w1) (w_db w') \<and> (success a \<longrightarrow> ?rec (st_ID s) w')"
      if run: "run_state (?h (storeRequest s key (resolved deps ?r))) w1 = (a, w')" for s key w1
    proof -
      obtain a0 where a0: "a = map_response R_Transaction a0" "run_state (handleAccrueTransaction (dp_decimal deps) (dp_Loyalty deps) (L n)
          (with_body (js_accrue J) (storeRequest s key (resolved deps ?r)))) w1 = (a0, w')"
        using run by (auto simp: run_answering Let_def split: prod.splits)
      from accrual_on_server [OF assms(1,2) _ a0(2)] a0(1) show ?thesis by simp
    qed
    note served = posting_on_server(1) [where rec = ?rec, OF register_routes(4) a(1) on]
      posting_on_server(2,3) [where rec = ?rec and sid = sid, OF register_routes(4) a(1) on]
    from served a(2) show ?thesis
      by (auto simp: in_ledger_def q sale_posting_def put_answer_def success_def assms(3) [unfolded till_of_def])
  next
    case False
    with assms(4) obtain req where q: "q = refund_posting c P req" by (auto simp: posts_def)
    let ?h = "\<lambda>r. answering R_Refund (handleRefundTransaction (dp_decimal deps) (L n) (with_body (js_refund J) r))"
    let ?r = "posting_request W c (pj_refund P req)"
    from assms(5) obtain a where a: "run_state (serve deps (quiet (tm n)) refundRoute ?h ?r) w = (a, w')" "b = put_answer W a"
      by (auto simp: q refund_served [OF assms(3)] Let_def split: prod.splits)
    let ?rec = "\<lambda>i w'. \<exists>b ty oid. js_refund J (pj_refund P req) = Some b \<and>
         refund_answer (dp_decimal deps) (refund_of_body i ty b) oid (w_db w') \<noteq> None"
    have on: "extends (w_db w1) (w_db w') \<and> same_keys (w_db w1) (w_db w') \<and> (success a \<longrightarrow> ?rec (st_ID s) w')"
      if run: "run_state (?h (storeRequest s key (resolved deps ?r))) w1 = (a, w')" for s key w1
    proof -
      obtain a0 where a0: "a = map_response R_Refund a0" "run_state (handleRefundTransaction (dp_decimal deps) (L n)
          (with_body (js_refund J) (storeRequest s key (resolved deps ?r)))) w1 = (a0, w')"
        using run by (auto simp: run_answering Let_def split: prod.splits)
      from refund_on_server [OF assms(2) _ a0(2)] a0(1) show ?thesis by simp
    qed
    note served = posting_on_server(1) [where rec = ?rec, OF register_routes(9) a(1) on]
      posting_on_server(2,3) [where rec = ?rec and sid = sid, OF register_routes(9) a(1) on]
    from served a(2) show ?thesis
      by (auto simp: in_ledger_def q refund_posting_def put_answer_def success_def assms(3) [unfolded till_of_def])
  qed
  then show "extends (w_db w) (w_db w')"
    "opens_only (dp_hash deps) (tc_apiKey c) sid w \<Longrightarrow> opens_only (dp_hash deps) (tc_apiKey c) sid w'"
    "opens_only (dp_hash deps) (tc_apiKey c) sid w \<Longrightarrow> 200 \<le> ha_Status b \<Longrightarrow> ha_Status b < 300 \<Longrightarrow>
     in_ledger W J (dp_decimal deps) sid q w'" by blast+
qed

lemma promogo_api:
  assumes "decimal_laws (dp_decimal deps)" "\<And>n. fair_db (dp_decimal deps) (dp_Loyalty deps) (L n)" "till_of W c"
  shows "loyalty_api (promogo W J deps (\<lambda>n. quiet (tm n)) L draws) c P
    (opens_only (dp_hash deps) (tc_apiKey c) sid) (in_ledger W J (dp_decimal deps) sid)"
proof
  show "0 < tc_attempts c" using assms(3) by (simp add: till_of_def)
  fix q n w
  assume q: "posts c P q"
  obtain b w' where run: "run_state (promogo W J deps (\<lambda>n. quiet (tm n)) L draws n q) w = (b, w')" by fastforce
  note p = posting_at_server [OF assms q run]
  show "grows (opens_only (dp_hash deps) (tc_apiKey c) sid) (in_ledger W J (dp_decimal deps) sid) w
      (snd (run_state (promogo W J deps (\<lambda>n. quiet (tm n)) L draws n q) w))"
    using p(2) in_ledger_extends [OF p(1)] by (simp add: run grows_def)
next
  show "in_ledger W J (dp_decimal deps) sid q w'"
    if "posts c P q" "opens_only (dp_hash deps) (tc_apiKey c) sid w"
      "run_state (promogo W J deps (\<lambda>n. quiet (tm n)) L draws n q) w = (a, w')" "200 \<le> ha_Status a" "ha_Status a < 300" for q w n a w'
    using posting_at_server(3) [OF assms that(1,3,2,4,5)] .
qed

lemma fair_db_quiet: "fair_db D svc (quiet t)"
  by (simp add: fair_db_def keyed_def same_keys_def fair_env_def)

text \<open>The contract holds of the undisturbed server with any configuration, clock and key.\<close>

interpretation till: loyalty_api
  "promogo W J (deps\<lparr>dp_decimal := go_decimal\<rparr>) (\<lambda>n. quiet (tm n)) (\<lambda>n. quiet (tm n)) draws"
  "(newClient url key)\<lparr>tc_baseURL := wi_base W\<rparr>" P "opens_only (dp_hash deps) key sid" "in_ledger W J go_decimal sid"
  for W J and deps :: "'k deps" and tm draws url key P sid
  using promogo_api [of "deps\<lparr>dp_decimal := go_decimal\<rparr>" "\<lambda>n. quiet (tm n)" W "(newClient url key)\<lparr>tc_baseURL := wi_base W\<rparr>" J tm draws P sid]
    go_dec.decimal_laws_axioms
  by (simp add: fair_db_quiet till_of_def newClient_def)

end
