(* ===== verification/Pos_Theorems.thy ===== *)
theory Pos_Theorems
  imports Pos_Server Route_Theorems
begin

text \<open>The properties of the register, alone and against the server.\<close>

section \<open>A till\<close>

definition demo_wire :: wire where
  "demo_wire = \<lparr>wi_base = ''http://till'', wi_from = ''10.0.0.1:5000'', wi_body = (\<lambda>_. []), wi_retry = (\<lambda>_. [])\<rparr>"

definition demo_till :: till_client where
  "demo_till = newClient ''http://till/'' ''k.s''"

lemma demo_till_of: "till_of demo_wire demo_till"
  by (simp add: till_of_def demo_wire_def demo_till_def newClient_def trimRightSlash_def)

lemma demo_till_key [simp]: "tc_apiKey demo_till = ''k.s''"
  by (simp add: demo_till_def newClient_def)

definition no_pos_json :: pos_json where
  "no_pos_json = \<lparr>pj_sale = (\<lambda>_. []), pj_redeem = (\<lambda>_. []), pj_refund = (\<lambda>_. []), pj_payload = (\<lambda>_. []), pj_sale_answer = (\<lambda>_. Inl []),
     pj_redeem_answer = (\<lambda>_. Inl []), pj_refund_answer = (\<lambda>_. Inl []), pj_balance = (\<lambda>_. Inl []), pj_error = (\<lambda>_. None)\<rparr>"

definition till_sale :: "string \<Rightarrow> sale_request" where
  "till_sale i = \<lparr>sq_TransactionID = i, sq_Phone = ''+79001112233'', sq_Amount = ''10.00''\<rparr>"

text \<open>Two operations are told apart by their ids.\<close>

definition demo_ops :: op_json where
  "demo_ops = \<lparr>oj_write = transactionID, oj_read = (\<lambda>i. Inr (sale_op (till_sale i)))\<rparr>"

lemma demo_readable: "list_all (readable demo_ops) [sale_op (till_sale ''a'')]"
  by (simp add: readable_def demo_ops_def transactionID_def sale_op_def till_sale_def newline_def)

definition demo_server :: "keyspace world server" where
  "demo_server = promogo demo_wire no_json demo_deps (\<lambda>n. quiet 0) (\<lambda>n. quiet 0) (\<lambda>n. no_draws)"

definition good_disk :: disk where
  "good_disk = \<lparr>dk_result = (\<lambda>n. DiskOk), dk_other = (\<lambda>n f. f)\<rparr>"

definition waiting_register :: "keyspace world \<Rightarrow> keyspace world register" where
  "waiting_register w = \<lparr>tl_World = w, tl_Clock = 0, tl_Waited = 0, rg_File = Some (queue_text demo_ops [sale_op (till_sale ''a'')]), rg_Printed = []\<rparr>"

lemma demo_decimal: "dp_decimal demo_deps = go_decimal"
  by (simp add: demo_deps_def)

section \<open>Retries\<close>

text \<open>
  C37: a request of the register ends. Whatever the network and the server do, one operation of
  a client made by \<open>newClient\<close> sends at least one and at most three requests and pauses for at
  most 20 seconds in all.
\<close>

theorem register_request_bounded:
  "let s' = snd (run_state (client_do je srv N (newClient url key) verb path body decode zero) s) in
   tl_Clock s + 1 \<le> tl_Clock s' \<and> tl_Clock s' \<le> tl_Clock s + 3 \<and>
   tl_Waited s \<le> tl_Waited s' \<and> tl_Waited s' \<le> tl_Waited s + 20000000000"
proof -
  let ?c = "newClient url key"
  obtain r s' where run: "run_state (client_do je srv N ?c verb path body decode zero) s = (r, s')" by fastforce
  note loop = run [unfolded client_do_def]
  have a: "tc_attempts ?c = 3" by (simp add: newClient_def)
  have "0 < tc_attempts ?c" by (simp add: a)
  from attempts_clock [OF loop this] a have clock: "tl_Clock s < tl_Clock s' \<and> tl_Clock s' \<le> tl_Clock s + 3" by simp
  have "tl_Waited s \<le> tl_Waited s' \<and> tl_Waited s' \<le> tl_Waited s + int (tc_attempts ?c - 1) * tc_maxRetryAfter ?c"
  proof (rule attempts_wait [OF loop])
    show "0 \<le> tc_maxRetryAfter ?c" "\<And>k. 0 \<le> tc_backoff ?c k" by (simp_all add: newClient_def)
    show "tc_backoff ?c k \<le> tc_maxRetryAfter ?c" if "k < 1 + tc_attempts ?c - 1" for k
      using that by (simp add: newClient_def)
  qed
  then have "tl_Waited s \<le> tl_Waited s' \<and> tl_Waited s' \<le> tl_Waited s + 20000000000" by (simp add: newClient_def)
  with clock show ?thesis unfolding run Let_def snd_conv by simp
qed

section \<open>No sale is lost\<close>

text \<open>
  C9: a register loses no sale. Whatever the network does and however the server's database is
  shared, after ringing up a sale each of the operations that waited is in the ledger of the
  register's store, was printed as refused for good, or still waits, in the old order; and the
  new sale is in the ledger with nothing waiting, or refused for good with nothing waiting, or
  waits behind all the others, or the cashier is told that the queue could not be written.
\<close>

theorem no_sale_lost:
  assumes "decimal_laws (dp_decimal deps)" "\<And>n. fair_db (dp_decimal deps) (dp_Loyalty deps) (L n)" "till_of W c"
    "uses X (promogo W J deps (\<lambda>n. quiet (tm n)) L draws) c P"
    "link_within (grows (opens_only (dp_hash deps) (tc_apiKey c) sid) (in_ledger W J (dp_decimal deps) sid)) (te_link X)"
    "alone (te_disk X)" "opens_only (dp_hash deps) (tc_apiKey c) sid (tl_World s)"
    "written (rg_File s) = queue_text (te_ops X) xs" "list_all (readable (te_ops X)) xs"
    "run_state (checkoutSale X req offline) s = (r, s')"
  shows "\<exists>queue. queue_kept c P (in_ledger W J (dp_decimal deps) sid) s' xs queue \<and>
    checked_out (te_ops X) queue (same_order (sale_op req)) (in_ledger W J (dp_decimal deps) sid (sale_posting c P req) (tl_World s'))
      (rg_File s') r"
  using loyalty_api.sale_checked [OF promogo_api [OF assms(1-3)] assms(4-10)] by blast

definition no_link :: "'s link" where
  "no_link = \<lparr>ln_net = (\<lambda>n. Unreachable ''down''), ln_other = (\<lambda>n w. w), ln_ended = (\<lambda>n. None)\<rparr>"

definition till_at :: "keyspace world link \<Rightarrow> keyspace world till_env" where
  "till_at N = \<lparr>te_json = no_pos_json, te_ops = demo_ops, te_decimal = go_decimal, te_parse = (\<lambda>_. None), te_server = demo_server,
     te_link = N, te_disk = good_disk, te_client = demo_till, te_now = (\<lambda>_. 0)\<rparr>"

lemma no_link_sale:
  "run_state (client_sale P srv no_link demo_till req) s =
     (Inl (OtherError ''down''), s\<lparr>tl_Clock := tl_Clock s + 3, tl_Waited := tl_Waited s + 1500000000\<rparr>)"
  by (simp add: client_sale_def client_do_def demo_till_def newClient_def numeral_3_eq_3 attempts_step run_once run_ask Let_def run_pause
      no_link_def final_at_def split: prod.split)

lemma load_demo:
  "dk_result K n = DiskOk \<Longrightarrow> dk_other K n (Some (queue_text demo_ops [sale_op (till_sale ''a'')])) = Some (queue_text demo_ops [sale_op (till_sale ''a'')]) \<Longrightarrow>
   rg_File s = Some (queue_text demo_ops [sale_op (till_sale ''a'')]) \<Longrightarrow> tl_Clock s = n \<Longrightarrow>
   run_state (queue_load demo_ops K) s = (Inr [sale_op (till_sale ''a'')], s\<lparr>tl_Clock := Suc n\<rparr>)"
  by (simp add: queue_load_def run_on_disk Let_def read_queue [OF demo_readable])

lemma good_save:
  "run_state (queue_save J good_disk xs) s = (Inr (), s\<lparr>rg_File := if xs = [] then None else Some (queue_text J xs), tl_Clock := Suc (tl_Clock s)\<rparr>)"
  by (auto simp: queue_save_def run_on_disk Let_def good_disk_def queue_text_def)

lemma good_append:
  "run_state (queue_append J good_disk x) s = (Inr (), s\<lparr>rg_File := Some (written (rg_File s) @ op_line J x), tl_Clock := Suc (tl_Clock s)\<rparr>)"
  by (simp add: queue_append_def run_on_disk Let_def good_disk_def)

theorem no_sale_lost_witness:
  "\<exists>s' queue. run_state (checkoutSale (till_at no_link) (till_sale ''b'') False) (waiting_register demo_world) = (Inr Queued, s') \<and>
     queue_kept demo_till no_pos_json (in_ledger demo_wire no_json go_decimal 3) s' [sale_op (till_sale ''a'')] queue \<and>
     checked_out demo_ops queue (same_order (sale_op (till_sale ''b'')))
       (in_ledger demo_wire no_json go_decimal 3 (sale_posting demo_till no_pos_json (till_sale ''b'')) (tl_World s')) (rg_File s')
       (Inr Queued :: failure + sale_answer checkout)"
proof -
  let ?X = "till_at no_link" and ?s = "waiting_register demo_world"
  have load: "run_state (queue_load demo_ops good_disk) ?s = (Inr [sale_op (till_sale ''a'')], ?s\<lparr>tl_Clock := Suc 0\<rparr>)"
    "run_state (queue_load demo_ops good_disk) (?s\<lparr>tl_Clock := Suc 0\<rparr>) = (Inr [sale_op (till_sale ''a'')], ?s\<lparr>tl_Clock := Suc (Suc 0)\<rparr>)"
    by (simp_all add: load_demo good_disk_def waiting_register_def)
  have deliver: "run_state (deliver_op no_pos_json demo_server no_link demo_till (sale_op (till_sale ''a''))) s =
      (Inl (OtherError ''down''), s\<lparr>tl_Clock := tl_Clock s + 3, tl_Waited := tl_Waited s + 1500000000\<rparr>)" for s
    by (simp add: deliver_op_def sale_op_def no_link_sale)
  obtain s' where run: "run_state (checkoutSale ?X (till_sale ''b'') False) ?s = (Inr Queued, s')"
    by (simp add: checkoutSale_def drainFirst_def load_queue_def replay_queue_def replay_def till_at_def load deliver good_save good_append
        enqueue_def queued_as_def Let_def)
  note dec = go_dec.decimal_laws_axioms [folded demo_decimal]
  have key: "opens_only (dp_hash demo_deps) (tc_apiKey demo_till) 3 (tl_World ?s)"
    by (auto simp: waiting_register_def opens_only_def opens_def demo_world_def demo_store_def)
  have queue: "uses ?X demo_server demo_till no_pos_json" "alone (te_disk ?X)"
    "written (rg_File ?s) = queue_text (te_ops ?X) [sale_op (till_sale ''a'')]"
    "list_all (readable (te_ops ?X)) [sale_op (till_sale ''a'')]"
    using demo_readable by (simp_all add: uses_def till_at_def alone_def good_disk_def waiting_register_def written_def)
  have link: "link_within (grows valid recorded) (te_link ?X)" for valid recorded
    by (simp add: till_at_def link_within_def no_link_def grows_def)
  have ops: "te_ops ?X = demo_ops" by (simp add: till_at_def)
  from no_sale_lost [OF dec fair_db_quiet demo_till_of queue(1) [unfolded demo_server_def] link queue(2) key queue(3,4) run]
  show ?thesis using run unfolding ops demo_decimal by blast
qed

text \<open>A refund is queued the same way.\<close>

theorem no_refund_lost:
  assumes "decimal_laws (dp_decimal deps)" "\<And>n. fair_db (dp_decimal deps) (dp_Loyalty deps) (L n)" "till_of W c"
    "uses X (promogo W J deps (\<lambda>n. quiet (tm n)) L draws) c P"
    "link_within (grows (opens_only (dp_hash deps) (tc_apiKey c) sid) (in_ledger W J (dp_decimal deps) sid)) (te_link X)"
    "alone (te_disk X)" "opens_only (dp_hash deps) (tc_apiKey c) sid (tl_World s)"
    "written (rg_File s) = queue_text (te_ops X) xs" "list_all (readable (te_ops X)) xs"
    "run_state (checkoutRefund X req offline) s = (r, s')"
  shows "\<exists>queue. queue_kept c P (in_ledger W J (dp_decimal deps) sid) s' xs queue \<and>
    checked_out (te_ops X) queue (same_order (refund_op req)) (in_ledger W J (dp_decimal deps) sid (refund_posting c P req) (tl_World s'))
      (rg_File s') r"
  using loyalty_api.refund_checked [OF promogo_api [OF assms(1-3)] assms(4-10)] by blast

section \<open>A revoked key\<close>

definition direct :: "'s link \<Rightarrow> bool" where
  "direct N \<longleftrightarrow> ln_net N = (\<lambda>n. Reached) \<and> ln_other N = (\<lambda>n w. w)"

definition revoked_at :: "string \<Rightarrow> db \<Rightarrow> bool" where
  "revoked_at token d \<longleftrightarrow>
     (case parseMultiKeyAPIKey token of
        None \<Rightarrow> False
      | Some (keyID, secret) \<Rightarrow>
          (case find (\<lambda>k. key_KeyID k = keyID) (db_api_keys d) of None \<Rightarrow> False | Some k \<Rightarrow> key_RevokedAt k \<noteq> None))"

lemma revoked_key_refused:
  assumes "revoked_at (bearer r) (w_db w)"
  shows "run_state (RequireStoreAPIKey sha (quiet t) h r) w = (Refuse 401 ''invalid api key'', w)"
proof -
  have "bearer r \<noteq> []" using assms by (auto simp: revoked_at_def parseMultiKeyAPIKey_def split: option.splits)
  then show ?thesis
    using assms by (auto simp: revoked_at_def RequireStoreAPIKey_def Let_def run_on_db key_GetByKeyID_def Domain.Active_def split: option.splits)
qed

lemma revoked_posting:
  assumes "\<not> dp_RateLimiter deps" "till_of W c" "posts c P q" "revoked_at (tc_apiKey c) (w_db w)"
  shows "run_state (promogo W J deps (\<lambda>n. quiet (tm n)) L draws n q) w = (put_answer W (Refuse 401 ''invalid api key''), w)"
proof -
  have "revoked_at (bearer (resolved deps (posting_request W c body))) (w_db w)" for body using assms(4) by simp
  note refused = revoked_key_refused [OF this]
  from assms(3) show ?thesis
    by (auto simp: posts_def sale_served [OF assms(2)] refund_served [OF assms(2)] serve_unlimited [OF assms(1)] limited_off [OF assms(1)]
        authenticated_def register_routes refused Let_def)
qed

definition refused_error :: "pos_json \<Rightarrow> http_answer \<Rightarrow> client_error" where
  "refused_error P a = ApiError (refusal (pj_error P) (ha_Status a) (take 1048576 (ha_Body a)))"

lemma refused_at_once:
  assumes "direct N" "0 < left" "run_state (srv (tl_Clock s) q) (tl_World s) = (a, tl_World s)" "ha_Status a = 401"
  shows "run_state (attempts_from (pj_error P) srv N c q decode left attempt latest) s = (Inl (refused_error P a), s\<lparr>tl_Clock := Suc (tl_Clock s)\<rparr>)"
proof -
  from assms(2) obtain l where left: "left = Suc l" by (cases left) auto
  have e: "readAnswer (pj_error P) c decode a = (0, Inl (refused_error P a))" "\<not> isTransient (refused_error P a)"
    using assms(4) by (simp_all add: readAnswer_def retryAfter_def refused_error_def refusal_def Let_def split: option.split prod.split)
  have "run_state (ask srv N q) s = (Inr a, s\<lparr>tl_Clock := Suc (tl_Clock s)\<rparr>)"
    using assms(1,3) by (simp add: run_ask direct_def)
  with e show ?thesis by (simp add: left attempts_step run_once final_at_def)
qed

lemma revoked_delivery:
  assumes "direct N" "till_of W c" "\<not> dp_RateLimiter deps" "revoked_at (tc_apiKey c) (w_db (tl_World s))"
    "srv = promogo W J deps (\<lambda>n. quiet (tm n)) L draws"
  shows "\<exists>e k. run_state (deliver_op P srv N c x) s = (Inl e, s\<lparr>tl_Clock := k\<rparr>) \<and> \<not> isTransient e"
proof -
  let ?a = "put_answer W (Refuse 401 ''invalid api key'')"
  have e: "\<not> isTransient (refused_error P ?a)" "ha_Status ?a = 401"
    by (simp_all add: refused_error_def refusal_def put_answer_def split: option.split prod.split)
  have sale: "run_state (client_sale P srv N c req) s = (Inl (refused_error P ?a), s\<lparr>tl_Clock := Suc (tl_Clock s)\<rparr>)" for req
  proof -
    have "posts c P (sale_posting c P req)" by (auto simp: posts_def)
    from revoked_posting [OF assms(3,2) this assms(4)] assms(2) show ?thesis
      unfolding client_sale_def client_do_def sale_posting_def [symmetric]
      by (intro refused_at_once [OF assms(1) _ _ e(2)]) (simp_all add: assms(5) till_of_def)
  qed
  have refund: "run_state (client_refund P srv N c req) s = (Inl (refused_error P ?a), s\<lparr>tl_Clock := Suc (tl_Clock s)\<rparr>)" for req
  proof -
    have "posts c P (refund_posting c P req)" by (auto simp: posts_def)
    from revoked_posting [OF assms(3,2) this assms(4)] assms(2) show ?thesis
      unfolding client_refund_def client_do_def refund_posting_def [symmetric]
      by (intro refused_at_once [OF assms(1) _ _ e(2)]) (simp_all add: assms(5) till_of_def)
  qed
  consider req where "qo_Sale x = Some req" | req where "qo_Sale x = None" "qo_Refund x = Some req" | "qo_Sale x = None" "qo_Refund x = None"
    by (cases "qo_Sale x"; cases "qo_Refund x") auto
  then show ?thesis
  proof cases
    case 1
    then show ?thesis using e(1) by (intro exI [of _ "refused_error P ?a"] exI [of _ "Suc (tl_Clock s)"]) (simp add: deliver_op_def sale)
  next
    case 2
    then show ?thesis using e(1) by (intro exI [of _ "refused_error P ?a"] exI [of _ "Suc (tl_Clock s)"]) (simp add: deliver_op_def refund)
  next
    case 3
    then obtain e where "run_state (deliver_op P srv N c x) s = (Inl e, s)" "\<not> isTransient e" by (simp add: deliver_op_def)
    then show ?thesis by (intro exI [of _ e] exI [of _ "tl_Clock s"]) simp
  qed
qed

lemma revoked_replay:
  assumes "direct N" "till_of W c" "\<not> dp_RateLimiter deps" "revoked_at (tc_apiKey c) (w_db (tl_World s))"
    "srv = promogo W J deps (\<lambda>n. quiet (tm n)) L draws" "dk_result K = (\<lambda>n. DiskOk)"
  shows "\<exists>s' new. run_state (replay_ops P F srv N K c xs res) s = ((res\<lparr>rr_Rejected := rr_Rejected res + length xs\<rparr>, None), s') \<and>
    tl_World s' = tl_World s \<and> rg_File s' = None \<and> rg_Printed s' = rg_Printed s @ new \<and> map fst new = xs \<and>
    list_all (\<lambda>(x, what). case what of RejectedWith e \<Rightarrow> \<not> isTransient e | _ \<Rightarrow> False) new"
  using assms(4)
proof (induction xs arbitrary: s res)
  case Nil
  have "run_state (queue_save F K []) s = (Inr (), s\<lparr>rg_File := None, tl_Clock := Suc (tl_Clock s)\<rparr>)"
    using assms(6) by (simp add: queue_save_def run_on_disk Let_def)
  then show ?case by simp
next
  case (Cons x xs)
  obtain e k where e: "run_state (deliver_op P srv N c x) s = (Inl e, s\<lparr>tl_Clock := k\<rparr>)" "\<not> isTransient e"
    using revoked_delivery [OF assms(1-3) Cons.prems assms(5)] by blast
  let ?s1 = "s\<lparr>tl_Clock := k, rg_Printed := rg_Printed s @ [(x, RejectedWith e)]\<rparr>"
  have "revoked_at (tc_apiKey c) (w_db (tl_World ?s1))" using Cons.prems by simp
  from Cons.IH [OF this, of "res\<lparr>rr_Rejected := rr_Rejected res + 1\<rparr>"] obtain s' new where
    IH: "run_state (replay_ops P F srv N K c xs (res\<lparr>rr_Rejected := rr_Rejected res + 1\<rparr>)) ?s1 =
      ((res\<lparr>rr_Rejected := rr_Rejected res + 1 + length xs\<rparr>, None), s')" "tl_World s' = tl_World s" "rg_File s' = None"
      "rg_Printed s' = rg_Printed s @ (x, RejectedWith e) # new" "map fst new = xs"
      "list_all (\<lambda>(x, what). case what of RejectedWith e \<Rightarrow> \<not> isTransient e | _ \<Rightarrow> False) new"
    by auto
  from e IH(1) have "run_state (replay_ops P F srv N K c (x # xs) res) s = ((res\<lparr>rr_Rejected := rr_Rejected res + length (x # xs)\<rparr>, None), s')"
    by (simp add: run_report)
  with IH(2-6) e(2) show ?case by (intro exI [of _ s'] exI [of _ "(x, RejectedWith e) # new"]) simp
qed

text \<open>
  C38: a revoked key empties the queue. When an administrator has revoked the register's API
  key and the link is up, a replay takes the refusal of each waiting sale and refund as final:
  all are printed as rejected and none waits any more, though none reached the ledger.
\<close>

theorem revoked_key_drops_queue:
  assumes "direct N" "till_of W c" "\<not> dp_RateLimiter deps" "revoked_at (tc_apiKey c) (w_db (tl_World s))"
    "alone K" "dk_result K = (\<lambda>n. DiskOk)" "written (rg_File s) = queue_text F xs" "list_all (readable F) xs"
    "run_state (replay P F (promogo W J deps (\<lambda>n. quiet (tm n)) L draws) N K c) s = ((res, err), s')"
  shows "err = None \<and> rr_Rejected res = length xs \<and> rg_File s' = None \<and> tl_World s' = tl_World s \<and>
    (\<exists>new. rg_Printed s' = rg_Printed s @ new \<and> map fst new = xs)"
proof -
  obtain r s1 where l: "run_state (queue_load F K) s = (r, s1)" by fastforce
  note load = run_load [OF assms(5,7,8) l]
  have r: "r = Inr xs"
    using l assms(5-8) by (cases "rg_File s") (auto simp: queue_load_def run_on_disk Let_def alone_def written_def read_queue queue_text_empty
        split: prod.splits dest!: sym [of "[]"])
  have "revoked_at (tc_apiKey c) (w_db (tl_World s1))" using load assms(4) by simp
  from revoked_replay [OF assms(1-3) this refl assms(6)] obtain s2 new where
    run: "run_state (replay_ops P F (promogo W J deps (\<lambda>n. quiet (tm n)) L draws) N K c xs \<lparr>rr_Delivered = 0, rr_Replayed = 0, rr_Rejected = 0, rr_Left = 0\<rparr>) s1 =
      ((\<lparr>rr_Delivered = 0, rr_Replayed = 0, rr_Rejected = length xs, rr_Left = 0\<rparr>, None), s2)" "tl_World s2 = tl_World s1"
      "rg_File s2 = None" "rg_Printed s2 = rg_Printed s1 @ new" "map fst new = xs"
    by (metis (no_types, lifting) add_0 replay_result.simps(3) replay_result.update_convs(3))
  from assms(9) l r run(1) have "res = \<lparr>rr_Delivered = 0, rr_Replayed = 0, rr_Rejected = length xs, rr_Left = 0\<rparr>" "err = None" "s' = s2"
    by (simp_all add: replay_def Let_def)
  with run(2-5) load show ?thesis by auto
qed

definition revoked_world :: "keyspace world" where
  "revoked_world = demo_world\<lparr>w_db := (w_db demo_world)\<lparr>db_api_keys := [demo_key\<lparr>key_RevokedAt := Some 0\<rparr>]\<rparr>\<rparr>"

definition straight_link :: "'s link" where
  "straight_link = \<lparr>ln_net = (\<lambda>n. Reached), ln_other = (\<lambda>n w. w), ln_ended = (\<lambda>n. None)\<rparr>"

lemma straight_direct: "direct straight_link"
  by (simp add: direct_def straight_link_def)

lemma revoked_demo: "revoked_at (tc_apiKey demo_till) (w_db revoked_world)"
  by (simp add: revoked_at_def store_key_opens revoked_world_def demo_key_def)

theorem revoked_key_drops_queue_witness:
  "\<exists>res s'. run_state (replay no_pos_json demo_ops demo_server straight_link good_disk demo_till) (waiting_register revoked_world) = ((res, None), s') \<and>
     rr_Rejected res = 1 \<and> rg_File s' = None \<and> map fst (rg_Printed s') = [sale_op (till_sale ''a'')]"
proof -
  let ?s = "waiting_register revoked_world"
  obtain res err s' where run: "run_state (replay no_pos_json demo_ops demo_server straight_link good_disk demo_till) ?s = ((res, err), s')"
    by (metis surj_pair)
  have s: "revoked_at (tc_apiKey demo_till) (w_db (tl_World ?s))" "written (rg_File ?s) = queue_text demo_ops [sale_op (till_sale ''a'')]"
    "rg_Printed ?s = []"
    using revoked_demo by (simp_all add: waiting_register_def written_def)
  have disk: "alone good_disk" "dk_result good_disk = (\<lambda>n. DiskOk)" by (simp_all add: alone_def good_disk_def)
  from revoked_key_drops_queue [OF straight_direct demo_till_of _ s(1) disk s(2) demo_readable run [unfolded demo_server_def]] run s(3)
  show ?thesis by auto
qed

section \<open>Two registers on one file\<close>

lemma replayed_empties: "run_state (replay_ops P F srv N K c xs res) s = ((res', None), s') \<Longrightarrow> rg_File s' = None"
proof (induction xs arbitrary: s res)
  case Nil
  then show ?case
    by (auto simp: queue_save_def run_on_disk Let_def split: prod.splits sum.splits if_splits disk_result.splits)
next
  case (Cons x xs)
  obtain r s1 where r: "run_state (deliver_op P srv N c x) s = (r, s1)" by fastforce
  from Cons.prems obtain res1 s2 where "run_state (replay_ops P F srv N K c xs res1) s2 = ((res', None), s')"
    by (cases r) (auto simp: r run_report Let_def split: if_splits sum.splits prod.splits)
  then show ?case by (rule Cons.IH)
qed

text \<open>
  A replay that went through removes the queue file, whatever other processes did to it
  meanwhile: an operation another till appended between the reading of the file and its removal
  is lost without a trace.
\<close>

theorem replay_removes_file:
  assumes "run_state (replay P F srv N K c) s = ((res, None), s')"
  shows "rg_File s' = None"
proof -
  obtain r s1 where "run_state (queue_load F K) s = (r, s1)" by fastforce
  with assms obtain xs res0 where "run_state (replay_ops P F srv N K c xs res0) s1 = ((res, None), s')"
    by (cases r) (auto simp: replay_def Let_def)
  then show ?thesis by (rule replayed_empties)
qed

definition shared_disk :: disk where
  "shared_disk = \<lparr>dk_result = (\<lambda>n. DiskOk),
     dk_other = (\<lambda>n f. if n = 2 then Some (written f @ op_line demo_ops (sale_op (till_sale ''b''))) else f)\<rparr>"

theorem replay_removes_file_witness:
  "\<exists>res s'. run_state (replay no_pos_json demo_ops demo_server straight_link shared_disk demo_till) (waiting_register revoked_world) = ((res, None), s') \<and>
     dk_other shared_disk 2 (rg_File (waiting_register revoked_world)) = Some (queue_text demo_ops [sale_op (till_sale ''a''), sale_op (till_sale ''b'')]) \<and>
     rg_File s' = None \<and> list_all (\<lambda>(x, what). transactionID x \<noteq> ''b'') (rg_Printed s')"
proof -
  let ?s = "waiting_register revoked_world"
  let ?none = "\<lparr>rr_Delivered = 0, rr_Replayed = 0, rr_Rejected = 0, rr_Left = 0\<rparr>"
  have load: "run_state (queue_load demo_ops shared_disk) ?s = (Inr [sale_op (till_sale ''a'')], ?s\<lparr>tl_Clock := Suc 0\<rparr>)"
    by (rule load_demo) (simp_all add: shared_disk_def waiting_register_def)
  have "revoked_at (tc_apiKey demo_till) (w_db (tl_World (?s\<lparr>tl_Clock := Suc 0\<rparr>)))" "rg_Printed ?s = []"
    "dk_result shared_disk = (\<lambda>n. DiskOk)" "\<not> dp_RateLimiter demo_deps"
    using revoked_demo by (simp_all add: waiting_register_def shared_disk_def)
  from revoked_replay [OF straight_direct demo_till_of this(4,1) demo_server_def this(3), of no_pos_json demo_ops "[sale_op (till_sale ''a'')]" ?none] this(2)
  obtain res s' where run: "run_state (replay_ops no_pos_json demo_ops demo_server straight_link shared_disk demo_till [sale_op (till_sale ''a'')] ?none)
      (?s\<lparr>tl_Clock := Suc 0\<rparr>) = ((res, None), s')" "map fst (rg_Printed s') = [sale_op (till_sale ''a'')]" by auto
  then have all: "run_state (replay no_pos_json demo_ops demo_server straight_link shared_disk demo_till) ?s = ((res, None), s')"
    by (simp add: replay_def Let_def load)
  have "list_all (\<lambda>x. transactionID x \<noteq> ''b'') (map fst (rg_Printed s'))"
    unfolding run(2) by (simp add: transactionID_def sale_op_def till_sale_def)
  then have "list_all (\<lambda>(x, what). transactionID x \<noteq> ''b'') (rg_Printed s')" by (simp add: list_all_iff case_prod_beta)
  moreover have "dk_other shared_disk 2 (rg_File ?s) = Some (queue_text demo_ops [sale_op (till_sale ''a''), sale_op (till_sale ''b'')])"
    by (simp add: shared_disk_def waiting_register_def written_def queue_text_def)
  ultimately show ?thesis using all replay_removes_file [OF all] by blast
qed

end
