(* ===== verification/Lifecycle.thy ===== *)
theory Lifecycle
  imports App
begin

text \<open>
  The end of the server (\<open>App.Run\<close> of \<open>internal/app/app.go\<close>, on a clock) and the commands of
  \<open>cmd/promogo\<close>. \<open>log.Fatalf\<close> exits without the deferred calls, which the operating system makes up for.
\<close>

section \<open>Shutting down\<close>

definition httpShutdownTimeout :: duration where "httpShutdownTimeout = 5 * second"

definition outboxDrainTimeout :: duration where "outboxDrainTimeout = 35 * second"

definition backgroundDrainTimeout :: duration where "backgroundDrainTimeout = 5 * second"

text \<open>When a wait that starts at \<open>now\<close> and has a limit is over; \<open>None\<close> is an event that never comes.\<close>

definition wait_until :: "time \<Rightarrow> duration \<Rightarrow> time option \<Rightarrow> time" where
  "wait_until now limit event = (case event of None \<Rightarrow> now + limit | Some t \<Rightarrow> min (max now t) (now + limit))"

text \<open>How long a poll takes: its context ends it after the delivery timeout. \<open>None\<close>: it would never end.\<close>

definition poll_length :: "outbox_worker_config \<Rightarrow> duration option \<Rightarrow> duration" where
  "poll_length cfg need = (case need of None \<Rightarrow> deliverTimeout cfg | Some d \<Rightarrow> min (max 0 d) (deliverTimeout cfg))"

text \<open>
  The loop of \<open>OutboxWorker.Run\<close> once its context is cancelled. While a tick waits in the ticker's
  channel both cases of the select are ready and Go picks one at random: the list holds the polls
  picked before the context's case is.
\<close>

fun worker_stops :: "outbox_worker_config \<Rightarrow> time \<Rightarrow> duration option list \<Rightarrow> time" where
  "worker_stops cfg now [] = now"
| "worker_stops cfg now (need # polls) = worker_stops cfg (now + poll_length cfg need) polls"

text \<open>The worker whose context is cancelled at a time, perhaps during a poll that started before.\<close>

definition worker_returns :: "outbox_worker_config \<Rightarrow> time \<Rightarrow> (time \<times> duration option) option \<Rightarrow> duration option list \<Rightarrow> time" where
  "worker_returns cfg cancelled in_flight polls =
     worker_stops cfg
       (case in_flight of None \<Rightarrow> cancelled | Some (started, need) \<Rightarrow> max cancelled (started + poll_length cfg need)) polls"

text \<open>
  What ends the server: its context, cancelled at a time (the requests being drained at another),
  or an error of \<open>ListenAndServe\<close>.
\<close>

datatype stop = Cancelled time "time option" | ServerFailed time string

fun stopped_at :: "stop \<Rightarrow> time" where
  "stopped_at (Cancelled t drained) = t"
| "stopped_at (ServerFailed t m) = t"

fun http_stopped :: "stop \<Rightarrow> time" where
  "http_stopped (Cancelled t drained) = wait_until t httpShutdownTimeout drained"
| "http_stopped (ServerFailed t m) = t"

fun run_error :: "stop \<Rightarrow> string option" where
  "run_error (Cancelled t drained) = None"
| "run_error (ServerFailed t m) = Some (''http server: '' @ m)"

text \<open>
  \<open>BackgroundTracker.Wait\<close>: until the last of the goroutines started with \<open>Go\<close> is done, or the
  deadline. A goroutine is the time at which it ends, \<open>None\<close> if it never does.
\<close>

definition background_Wait :: "time \<Rightarrow> duration \<Rightarrow> time option list \<Rightarrow> time" where
  "background_Wait now limit tracked =
     wait_until now limit (if None \<in> set tracked then None else Some (foldr (\<lambda>t. max (the t)) tracked now))"

text \<open>When and with what \<open>Run\<close> returns; \<open>background\<close> are the tracked goroutines.\<close>

definition app_Run ::
    "outbox_worker_config \<Rightarrow> stop \<Rightarrow> (time \<times> duration option) option \<Rightarrow> duration option list \<Rightarrow> time option list \<Rightarrow> time \<times> string option" where
  "app_Run cfg s in_flight polls background =
     (let t1 = http_stopped s;
          t2 = wait_until t1 outboxDrainTimeout (Some (worker_returns cfg t1 in_flight polls));
          t3 = background_Wait t2 backgroundDrainTimeout background
      in (t3, run_error s))"

section \<open>Commands\<close>

datatype command = Server | BootstrapAdmin "string list" | Migrate | LoadtestSeed "string list" | UnknownCommand string

definition command_of :: "string list \<Rightarrow> command" where
  "command_of arguments =
     (case arguments of
        [] \<Rightarrow> Server
      | name # rest \<Rightarrow>
          if name = ''bootstrap-admin'' then BootstrapAdmin rest
          else if name = ''migrate'' then Migrate
          else if name = ''loadtest-seed'' then LoadtestSeed rest
          else UnknownCommand name)"

definition resolveConfigPath :: "environment \<Rightarrow> string" where
  "resolveConfigPath env =
     (case env ''PROMOGO_CONFIG_FILE'' of
        Some v \<Rightarrow> if v \<noteq> [] then v else ''configs/config.yaml''
      | None \<Rightarrow> ''configs/config.yaml'')"

definition load_config :: "viper \<Rightarrow> (string + string) option \<Rightarrow> environment \<Rightarrow> config startup" where
  "load_config V dotenv env h =
     (case fst (Load V dotenv env (resolveConfigPath env)) of
        Inl m \<Rightarrow> (Inl (''load config: '' @ m), h)
      | Inr cfg \<Rightarrow> (Inr cfg, h))"

definition runServer :: "'k platform \<Rightarrow> viper \<Rightarrow> (string + string) option \<Rightarrow> environment \<Rightarrow> 'k app startup" where
  "runServer P V dotenv env h =
     (case load_config V dotenv env h of
        (Inl m, h1) \<Rightarrow> (Inl m, h1)
      | (Inr cfg, h1) \<Rightarrow>
          (case app_New P None cfg h1 of
             (Inl m, h2) \<Rightarrow> (Inl (''initialize app: '' @ m), h2)
           | (Inr a, h2) \<Rightarrow> (Inr a, h2)))"

definition runMigrate :: "'k platform \<Rightarrow> viper \<Rightarrow> (string + string) option \<Rightarrow> environment \<Rightarrow> unit startup" where
  "runMigrate P V dotenv env h =
     (case load_config V dotenv env h of
        (Inl m, h1) \<Rightarrow> (Inl m, h1)
      | (Inr cfg, h1) \<Rightarrow>
          (case migrate_Run P (DSN (c_Postgres cfg)) h1 of
             (Inl m, h2) \<Rightarrow> (Inl (''apply migrations: '' @ m), h2)
           | (Inr u, h2) \<Rightarrow> (Inr u, h2)))"

text \<open>The start the two tools share: the configuration and a pool.\<close>

definition tool_start :: "'k platform \<Rightarrow> viper \<Rightarrow> (string + string) option \<Rightarrow> environment \<Rightarrow> config startup" where
  "tool_start P V dotenv env h =
     (case load_config V dotenv env h of
        (Inl m, h1) \<Rightarrow> (Inl m, h1)
      | (Inr cfg, h1) \<Rightarrow>
          (case NewPool P (DSN (c_Postgres cfg)) (pg_MaxConns (c_Postgres cfg)) h1 of
             (Inl m, h2) \<Rightarrow> (Inl (''connect postgres: '' @ m), h2)
           | (Inr _, h2) \<Rightarrow> (Inr cfg, h2)))"

datatype 'a finish = Usage | Fatal string "err option" | Finished 'a

text \<open>The flags of \<open>bootstrap-admin\<close> that were not given have their defaults.\<close>

definition bootstrap_defaults :: bootstrap_input where
  "bootstrap_defaults = \<lparr>bs_Subject = [], bs_Email = [], bs_DisplayName = [], bs_OrgName = ''Default Organization'', bs_OrgID = 0\<rparr>"

definition runBootstrapAdmin ::
    "'k platform \<Rightarrow> viper \<Rightarrow> (string + string) option \<Rightarrow> environment \<Rightarrow> nat \<Rightarrow> 'k world env \<Rightarrow> bootstrap_input
     \<Rightarrow> holdings \<times> 'k world \<Rightarrow> bootstrap_result option finish \<times> holdings \<times> 'k world" where
  "runBootstrapAdmin P V dotenv env n E i s =
     (let (h, w) = s in
      if bs_Subject i = [] \<or> bs_Email i = [] \<or> bs_DisplayName i = [] then (Usage, h, w)
      else case tool_start P V dotenv env h of
             (Inl m, h1) \<Rightarrow> (Fatal m None, h1, w)
           | (Inr cfg, h1) \<Rightarrow>
               (case migrate_Run P (DSN (c_Postgres cfg)) h1 of
                  (Inl m, h2) \<Rightarrow> (Fatal (''run migrations: '' @ m) None, h2, w)
                | (Inr _, h2) \<Rightarrow>
                    (case run_state (BootstrapPlatformAdmin n E i) w of
                       (Inl e, w') \<Rightarrow> (Fatal ''bootstrap-admin: '' (Some e), h2, w')
                     | (Inr r, w') \<Rightarrow> (Finished r, close_pool h2, w'))))"

section \<open>Seeding a load test\<close>

record loadtest_seed =
  ls_OrganizationID :: int
  ls_StoreID :: int
  ls_APIKey :: string

definition seed_config :: "int \<Rightarrow> loyalty_config" where
  "seed_config storeID =
     \<lparr>cfg_StoreID = storeID, cfg_Mechanic = ''points'', cfg_AccrualPercent = 5, cfg_MinPurchaseAmount = 0, cfg_MinBalanceToRedeem = 0,
      cfg_MaxRedeemPercent = 50, cfg_PointsExchangeRate = 1, cfg_Version = 0, cfg_ExpectedVersion = None\<rparr>"

definition fatal :: "string \<Rightarrow> ('k world, 'a) op \<Rightarrow> ('a \<Rightarrow> ('k world, 'b finish) state) \<Rightarrow> ('k world, 'b finish) state" where
  "fatal message m next_step =
     State_Monad.bind m (\<lambda>r. case r of Inl e \<Rightarrow> State_Monad.return (Fatal message (Some e)) | Inr x \<Rightarrow> next_step x)"

definition seed ::
    "hash \<Rightarrow> 'k world env \<Rightarrow> nat list option \<Rightarrow> nat list option \<Rightarrow> string \<Rightarrow> ('k world, loadtest_seed finish) state" where
  "seed sha E idBuf secretBuf name =
     fatal ''create organization: ''
       (call E (''seed'', 0) (on_db (organization_Create (env_now E (''seed'', 0)) \<lparr>org_ID = 0, org_Name = name @ '' Org'', org_CreatedAt = 0\<rparr>))) (\<lambda>org.
     fatal ''create store: ''
       (call E (''seed'', 1) (on_db (store_Create \<lparr>st_ID = 0, st_OrganizationID = org_ID org, st_Name = name, st_Address = [],
          st_ExternalCode = None, st_SMSInviteEnabled = False, st_APIKeyHash = []\<rparr>))) (\<lambda>store.
     case GenerateAPIKey sha idBuf secretBuf of
       None \<Rightarrow> State_Monad.return (Fatal ''generate api key: '' None)
     | Some (plaintext, keyID, h) \<Rightarrow>
         fatal ''create store api key: ''
           (call E (''seed'', 2) (on_db (key_Create (env_now E (''seed'', 2))
              \<lparr>key_ID = 0, key_StoreID = st_ID store, key_KeyID = keyID, key_KeyHash = h, key_Name = ''loadtest'',
               key_Scopes = [ScopeTransactionsWrite, ScopeClientsLookup, ScopeBalancesRead], key_CreatedAt = 0, key_ExpiresAt = None,
               key_RevokedAt = None, key_LastUsedAt = None, key_CreatedBy = None\<rparr>))) (\<lambda>key.
         fatal ''create loyalty config: ''
           (call E (''seed'', 3) (on_db (config_Upsert (env_stmt E (''seed'', 3)) (env_now E (''seed'', 3)) (seed_config (st_ID store)) None))) (\<lambda>_.
         State_Monad.return (Finished \<lparr>ls_OrganizationID = org_ID org, ls_StoreID = st_ID store, ls_APIKey = plaintext\<rparr>)))))"

definition runLoadtestSeed ::
    "'k platform \<Rightarrow> viper \<Rightarrow> (string + string) option \<Rightarrow> environment \<Rightarrow> 'k world env \<Rightarrow> nat list option \<Rightarrow> nat list option \<Rightarrow> string
     \<Rightarrow> holdings \<times> 'k world \<Rightarrow> loadtest_seed finish \<times> holdings \<times> 'k world" where
  "runLoadtestSeed P V dotenv env E idBuf secretBuf name s =
     (let (h, w) = s in
      case tool_start P V dotenv env h of
        (Inl m, h1) \<Rightarrow> (Fatal m None, h1, w)
      | (Inr cfg, h1) \<Rightarrow>
          (case run_state (seed (pf_hash P) E idBuf secretBuf name) w of
             (Finished r, w') \<Rightarrow> (Finished r, close_pool h1, w')
           | (other, w') \<Rightarrow> (other, h1, w')))"

end
