(* ===== verification/Startup_Theorems.thy ===== *)
theory Startup_Theorems
  imports Lifecycle Http_Demo
begin

text \<open>The properties of the configuration, of start-up and of the shutdown.\<close>

section \<open>Reading a connection string\<close>

text \<open>How a URL's parts are read: percent-decoding, and the cuts at \<open>@\<close>, \<open>:\<close>, \<open>/\<close> and \<open>?\<close>.\<close>

fun url_unescape :: "string \<Rightarrow> string" where
  "url_unescape [] = []"
| "url_unescape (c # s) =
     (if c = CHR ''%'' then
        (case s of
           a # b # t \<Rightarrow> char_of (16 * the (hex_digit a) + the (hex_digit b) :: nat) # url_unescape t
         | _ \<Rightarrow> [])
      else c # url_unescape s)"

record dsn_parts =
  dsn_User :: string
  dsn_Password :: string
  dsn_Host :: string
  dsn_Database :: string
  dsn_Query :: string

definition read_dsn :: "string \<Rightarrow> dsn_parts option" where
  "read_dsn s =
     (case cut CHR ''@'' (drop (length ''postgres://'') s) of
        None \<Rightarrow> None
      | Some (userinfo, rest) \<Rightarrow>
          (case cut CHR '':'' userinfo of
             None \<Rightarrow> None
           | Some (user, password) \<Rightarrow>
               (case cut CHR ''/'' rest of
                  None \<Rightarrow> None
                | Some (host, tail) \<Rightarrow>
                    (case cut CHR ''?'' tail of
                       None \<Rightarrow> None
                     | Some (path, query) \<Rightarrow>
                         Some \<lparr>dsn_User = url_unescape user, dsn_Password = url_unescape password, dsn_Host = url_unescape host,
                           dsn_Database = url_unescape path, dsn_Query = query\<rparr>))))"

lemma hex_digit_upper: "d < 16 \<Longrightarrow> hex_digit (hex_upper d) = Some d"
proof -
  assume "d < 16"
  then have "d \<in> {0, 1, 2, 3, 4, 5, 6, 7, 8, 9, 10, 11, 12, 13, 14, 15}" by (simp, presburger)
  then show ?thesis by (auto simp: hex_digit_def hex_upper_def)
qed

lemma of_char_byte: "(of_char c :: nat) < 256"
  by (metis of_char_mod_256 mod_less_divisor zero_less_numeral)

lemma url_escape_simps [simp]:
  "url_escape plain [] = []"
  "url_escape plain (c # s) = (if plain c then [c] else escape_byte c) @ url_escape plain s"
  by (simp_all add: url_escape_def)

lemma unescape_byte: "url_unescape (escape_byte c @ t) = c # url_unescape t"
proof -
  let ?k = "of_char c :: nat"
  have k: "?k div 16 < 16" using of_char_byte [of c] by (simp add: less_mult_imp_div_less)
  moreover have "16 * (?k div 16) + ?k mod 16 = ?k" by simp
  ultimately show ?thesis by (simp add: escape_byte_def hex_digit_upper)
qed

lemma unescape_escape: "\<not> plain CHR ''%'' \<Longrightarrow> url_unescape (url_escape plain s @ t) = s @ url_unescape t"
  by (induction s) (auto simp: unescape_byte)

lemma unescape_escape_all: "\<not> plain CHR ''%'' \<Longrightarrow> url_unescape (url_escape plain s) = s"
  using unescape_escape [of plain s "[]"] by simp

text \<open>A character that is neither plain nor part of an escape does not occur in an escaped string.\<close>

lemma escape_byte_chars: "set (escape_byte c) \<subseteq> set ''%0123456789ABCDEF''"
proof -
  have "hex_upper n \<in> set ''0123456789ABCDEF''" for n
    unfolding hex_upper_def by (rule nth_mem) simp
  then show ?thesis by (auto simp: escape_byte_def)
qed

lemma escape_avoids:
  assumes "\<not> plain x" "x \<notin> set ''%0123456789ABCDEF''"
  shows "x \<notin> set (url_escape plain s)"
proof (induction s)
  case (Cons c s)
  moreover have "x \<notin> set (escape_byte c)" using assms(2) escape_byte_chars [of c] by blast
  ultimately show ?case using assms(1) by auto
qed simp

lemma cut_at: "x \<notin> set a \<Longrightarrow> cut x (a @ x # b) = Some (a, b)"
  by (induction a) auto

text \<open>
  A round trip. Whatever characters the user, the password and the database name consist of,
  the connection string is read back as exactly these, as the host with its port, and as a query
  that is the escaped TLS mode.
\<close>

theorem dsn_roundtrip:
  "read_dsn (DSN p) = Some \<lparr>dsn_User = pg_User p, dsn_Password = pg_Password p, dsn_Host = pg_Host p @ '':'' @ show_int (pg_Port p),
     dsn_Database = pg_DBName p, dsn_Query = ''sslmode='' @ QueryEscape (pg_SSLMode p)\<rparr>"
proof -
  let ?u = "url_escape plain_userinfo (pg_User p)" and ?w = "url_escape plain_userinfo (pg_Password p)"
  let ?h = "url_escape plain_host (pg_Host p @ '':'' @ show_int (pg_Port p))" and ?d = "url_escape plain_path (pg_DBName p)"
  let ?q = "''sslmode='' @ QueryEscape (pg_SSLMode p)"
  have path: "plain_path CHR ''/''" by (simp add: plain_path_def)
  have percent: "\<not> plain_userinfo CHR ''%''" "\<not> plain_host CHR ''%''" "\<not> plain_path CHR ''%''"
    by (simp_all add: plain_userinfo_def plain_host_def plain_path_def alnum_def)
  have at_sign: "CHR ''@'' \<notin> set ?u" "CHR ''@'' \<notin> set ?w"
    by (rule escape_avoids; simp add: plain_userinfo_def alnum_def)+
  have colon: "CHR '':'' \<notin> set ?u" by (rule escape_avoids) (simp_all add: plain_userinfo_def alnum_def)
  have slash: "CHR ''/'' \<notin> set ?h" by (rule escape_avoids) (simp_all add: plain_host_def alnum_def)
  have question: "CHR ''?'' \<notin> set ?d" by (rule escape_avoids) (simp_all add: plain_path_def alnum_def)
  have "drop (length ''postgres://'') (DSN p) = (?u @ CHR '':'' # ?w) @ CHR ''@'' # ?h @ CHR ''/'' # ?d @ CHR ''?'' # ?q"
    by (simp add: DSN_def path)
  moreover have "cut CHR ''@'' \<dots> = Some (?u @ CHR '':'' # ?w, ?h @ CHR ''/'' # ?d @ CHR ''?'' # ?q)"
    by (rule cut_at) (use at_sign in simp)
  ultimately show ?thesis
    using cut_at [OF colon] cut_at [OF slash] cut_at [OF question]
    by (simp add: read_dsn_def unescape_escape_all percent)
qed

section \<open>Start-up\<close>

lemma close_open [simp]:
  "close_pool (open_pool h) = h" "close_client (open_client h) = h" "close_migration (open_migration h) = h"
  "close_pool (open_client (open_pool h)) = open_client h"
  by (simp_all add: close_pool_def open_pool_def close_client_def open_client_def close_migration_def open_migration_def)

lemma NewPool_holds: "NewPool P dsn n h = (r, h') \<Longrightarrow> h' = (case r of Inl _ \<Rightarrow> h | Inr _ \<Rightarrow> open_pool h)"
  by (auto simp: NewPool_def split: option.splits)

lemma migrate_holds [simp]: "snd (migrate_Run P dsn h) = h" "snd (migrate_Verify P dsn h) = h"
  by (simp_all add: migrate_Run_def migrate_Verify_def Let_def split: option.split sum.split)

lemma migrate_ends: "migrate_Run P dsn h = (r, h') \<Longrightarrow> h' = h" "migrate_Verify P dsn h = (r, h') \<Longrightarrow> h' = h"
  by (metis migrate_holds snd_conv)+

lemma startupSchema_holds: "startupSchema P cfg h = (r, h') \<Longrightarrow> h' = h"
  by (auto simp: startupSchema_def Let_def split: if_splits prod.splits sum.splits dest: migrate_ends)

text \<open>What \<open>New\<close> leaves open: nothing but, where the ping of Redis or Firebase failed, the client of Redis.\<close>

lemma app_New_cases:
  assumes "app_New P override cfg h = (r, h')"
  obtains (failed) m where "r = Inl m" "h' = h \<or> h' = open_client h"
    | (started) proxies notifier where "ParseTrustedProxies (hs_TrustedProxies (c_HTTP cfg)) = Some proxies" "notifierFor P cfg = Inr notifier"
        "r = Inr \<lparr>ap_addr = Addr (c_HTTP cfg), ap_deps = serverDeps P proxies (smsSender override cfg) cfg, ap_worker = outboxWorker,
           ap_sms = smsSender override cfg, ap_notifier = notifier\<rparr>"
        "h' = open_client (open_pool h)"
proof (cases "ParseTrustedProxies (hs_TrustedProxies (c_HTTP cfg))")
  case None
  then show ?thesis using assms by (auto simp: app_New_def intro: failed)
next
  case (Some proxies)
  obtain r1 h1 where pool: "NewPool P (DSN (c_Postgres cfg)) (pg_MaxConns (c_Postgres cfg)) h = (r1, h1)" by fastforce
  obtain r2 h2 where schema: "startupSchema P cfg h1 = (r2, h2)" by fastforce
  note h2 = startupSchema_holds [OF schema]
  note h1 = NewPool_holds [OF pool]
  let ?a = "\<lambda>n. \<lparr>ap_addr = Addr (c_HTTP cfg), ap_deps = serverDeps P proxies (smsSender override cfg) cfg, ap_worker = outboxWorker,
     ap_sms = smsSender override cfg, ap_notifier = n\<rparr>"
  have "(\<exists>m. r = Inl m) \<and> (h' = h \<or> h' = open_client h) \<or>
    (\<exists>n. notifierFor P cfg = Inr n \<and> r = Inr (?a n)) \<and> h' = open_client (open_pool h)"
  proof (cases r1)
    case (Inl m)
    then show ?thesis using assms h1 by (auto simp: app_New_def Some pool)
  next
    case (Inr u)
    then have h1: "h1 = open_pool h" using h1 by simp
    note schema = schema [unfolded this]
    show ?thesis
    proof (cases r2)
      case (Inl m)
      then show ?thesis using assms h1 h2 \<open>r1 = Inr u\<close>
        by (auto simp: app_New_def Some pool schema)
    next
      case (Inr v)
      then show ?thesis using assms h1 h2 \<open>r1 = Inr u\<close>
        by (cases "notifierFor P cfg") (auto simp: app_New_def Some pool schema Let_def split: option.splits)
    qed
  qed
  then show ?thesis using failed started Some by blast
qed

text \<open>
  C39: start-up and shutdown balance. A start that fails leaves no connection pool and no migration
  connection open; one that succeeds opens one pool and one Redis client, and \<open>Close\<close> gives back
  exactly these.
\<close>

theorem start_and_close_balance:
  "case app_New P override cfg h of
     (Inl message, h') \<Rightarrow> hd_Pools h' = hd_Pools h \<and> hd_Migrations h' = hd_Migrations h
   | (Inr a, h') \<Rightarrow> hd_Pools h' = hd_Pools h + 1 \<and> hd_Clients h' = hd_Clients h + 1 \<and> app_Close h' = h"
proof -
  obtain r h' where new: "app_New P override cfg h = (r, h')" by fastforce
  then show ?thesis
  proof (cases rule: app_New_cases)
    case (failed m)
    then show ?thesis using new by (auto simp: open_client_def)
  next
    case (started proxies notifier)
    then show ?thesis using new by (simp add: app_Close_def open_client_def open_pool_def close_pool_def close_client_def)
  qed
qed

text \<open>Redis that does not answer the ping: the client stays open.\<close>

lemma failed_ping_leaks_client:
  assumes "ParseTrustedProxies (hs_TrustedProxies (c_HTTP cfg)) \<noteq> None" "NewPool P (DSN (c_Postgres cfg)) (pg_MaxConns (c_Postgres cfg)) h = (Inr (), h1)"
    "startupSchema P cfg h1 = (Inr (), h2)"
    "pf_PingRedis P (redisOpts (c_Redis cfg)) = Some m"
  shows "app_New P override cfg h = (Inl (''connect redis: '' @ m), open_client h)"
  using assms(1,2,4) assms(3) [unfolded startupSchema_holds [OF assms(3)]] NewPool_holds [OF assms(2)] by (auto simp: app_New_def)

section \<open>A concrete start\<close>

definition demo_platform :: "keyspace platform" where
  "demo_platform = \<lparr>pf_ParseConfig = (\<lambda>_. None), pf_NewWithConfig = (\<lambda>_ _. None), pf_PingPostgres = (\<lambda>_. None), pf_OpenSQL = (\<lambda>_. None),
     pf_NewSessionLocker = None, pf_NewProvider = (\<lambda>_. None), pf_Up = None, pf_HasPending = Inr False, pf_PingRedis = (\<lambda>_. None),
     pf_NewFirebase = (\<lambda>_. None), pf_Messaging = None, pf_redis = (\<lambda>_. kv), pf_gateway = (\<lambda>_ _ _. ok ()), pf_hash = id,
     pf_jwt = plain_jwt, pf_jose = plain_jose, pf_decimal = go_decimal\<rparr>"

definition production_config :: "string \<Rightarrow> config" where
  "production_config secret =
     \<lparr>c_App = \<lparr>as_Name = ''promogo'', as_Env = ''production'', as_SkipStartupMigrations = True\<rparr>,
      c_HTTP = \<lparr>hs_Host = ''0.0.0.0'', hs_Port = 8080, hs_TrustedProxies = []\<rparr>,
      c_Postgres = \<lparr>pg_Host = ''db'', pg_Port = 5432, pg_User = ''promogo'', pg_Password = ''p@ss:w/rd'', pg_DBName = ''promogo'',
        pg_SSLMode = ''verify-full'', pg_MaxConns = 10\<rparr>,
      c_Redis = \<lparr>rd_Addr = ''redis:6379'', rd_Password = [], rd_DB = 0, rd_TLSEnabled = True\<rparr>,
      c_Logger = \<lparr>lg_Level = ''info'', lg_Format = ''json''\<rparr>, c_FCM = \<lparr>fcm_CredentialsJSON = ''{}''\<rparr>,
      c_SMS = \<lparr>sm_Provider = ''http'', sm_Endpoint = ''https://sms'', sm_Token = ''t'', sm_Sender = [], sm_Timeout = 5 * second\<rparr>,
      c_Auth = \<lparr>au_AccessTokenSecret = secret, au_AccessTokenTTL = 15 * minute, au_RefreshTokenTTL = 43200 * minute, au_OTPTTL = 5 * minute,
        au_OTPResendCooldown = minute, au_OTPMaxAttempts = 5, au_OTPRateLimitWindow = 60 * minute, au_OTPMaxRequestsPerPhone = 5,
        au_OTPMaxRequestsPerIP = 20\<rparr>,
      c_OIDC = \<lparr>od_IssuerURL = ''https://id'', od_Audience = ''promogo'', od_JWKSURL = ''https://id/keys'', od_JWKSCacheTTL = 10 * minute\<rparr>,
      c_RateLimit = demo_limits,
      c_AntiFraud = \<lparr>fr_DailyRedeemPointsLimit = 500, fr_DailyRedeemWindow = 1440 * minute, fr_QRTTL = 2 * minute,
        fr_QRIssueCooldown = 30 * second, fr_QRConsumeCooldown = second\<rparr>,
      c_Invite = \<lparr>iv_AppURL = [], iv_DailyStoreLimit = 200\<rparr>\<rparr>"

text \<open>A viper whose file sets everything but the secret, which the environment gives.\<close>

definition demo_viper :: viper where
  "demo_viper = \<lparr>vp_ReadInConfig = (\<lambda>_. None),
     vp_Unmarshal = (\<lambda>defaults env path. Inr (production_config
       (case env ''PROMOGO_AUTH_ACCESS_TOKEN_SECRET'' of None \<Rightarrow> [] | Some v \<Rightarrow> v)))\<rparr>"

definition production_env :: environment where
  "production_env = [''PROMOGO_AUTH_ACCESS_TOKEN_SECRET'' \<mapsto> ''0123456789abcdef0123456789abcdef'']"

definition no_holdings :: holdings where
  "no_holdings = \<lparr>hd_Pools = 0, hd_Clients = 0, hd_Migrations = 0\<rparr>"

definition production_server :: "string \<Rightarrow> keyspace app" where
  "production_server secret = \<lparr>ap_addr = Addr (c_HTTP (production_config secret)), ap_deps = serverDeps demo_platform [] (HttpSms (c_SMS (production_config secret)))
     (production_config secret), ap_worker = outboxWorker, ap_sms = HttpSms (c_SMS (production_config secret)), ap_notifier = FcmChannel ''{}''\<rparr>"

lemma demo_viper_reads: "vp_Unmarshal demo_viper setDefaults (fst (loadDotEnv None production_env)) (resolveConfigPath production_env) =
    Inr (production_config ''0123456789abcdef0123456789abcdef'')"
  by (simp add: demo_viper_def loadDotEnv_def production_env_def)

lemma production_not_development: "\<not> development (production_config secret)"
  by (simp add: development_def production_config_def)

lemma production_starts:
  "app_New demo_platform None (production_config secret) no_holdings = (Inr (production_server secret), open_client (open_pool no_holdings))"
  by (simp add: app_New_def NewPool_def startupSchema_def migrate_Verify_def notifierFor_def fcmchannel_New_def production_server_def
    demo_platform_def production_config_def smsSender_def Let_def)

lemma production_accepted:
  assumes "32 \<le> length secret"
  shows "validateAuth (production_config secret) = None" "validateAntiFraud (production_config secret) = None"
    "validateSMS (production_config secret) = None" "validateFCM (production_config secret) = None"
    "validateInvite (production_config secret) = None" "validatePostgres (production_config secret) = None"
    "validateRedis (production_config secret) = None"
proof -
  show "validateAuth (production_config secret) = None"
    using assms by (simp add: validateAuth_def production_config_def)
  show "validateSMS (production_config secret) = None"
    by (simp add: validateSMS_def validSMSProviders_def production_config_def https_def has_prefix_def Let_def)
qed (simp_all add: validateAntiFraud_def validateFCM_def validateInvite_def validatePostgres_def pgSSLModesRequiringTLS_def
  validateRedis_def production_config_def)

lemma production_runs:
  "runServer demo_platform demo_viper None production_env no_holdings =
     (Inr (production_server ''0123456789abcdef0123456789abcdef''), open_client (open_pool no_holdings))"
proof -
  have "vp_ReadInConfig demo_viper path = None" for path by (simp add: demo_viper_def)
  moreover have "loadDotEnv None production_env = (production_env, None)" by (simp add: loadDotEnv_def)
  moreover note demo_viper_reads
  ultimately have "fst (Load demo_viper None production_env (resolveConfigPath production_env)) =
      Inr (production_config ''0123456789abcdef0123456789abcdef'')"
    by (simp add: Load_def production_accepted)
  then show ?thesis by (simp add: runServer_def load_config_def production_starts)
qed

section \<open>What an accepted configuration promises\<close>

lemma first_error_None: "first_error es = None \<longleftrightarrow> (\<forall>e\<in>set es. e = None)"
  by (induction es rule: first_error.induct) auto

lemma Load_accepts:
  assumes "fst (Load V dotenv env path) = Inr cfg"
  shows "vp_Unmarshal V setDefaults (fst (loadDotEnv dotenv env)) path = Inr cfg"
    and "validateAuth cfg = None" "validateAntiFraud cfg = None" "validateSMS cfg = None" "validateFCM cfg = None"
      "validateInvite cfg = None" "validatePostgres cfg = None" "validateRedis cfg = None"
  using assms
  by (simp_all add: Load_def first_error_None split: prod.splits option.splits sum.splits)

text \<open>
  C29: a server that starts outside development is configured safely. Its tokens are signed with a
  secret of at least 32 bytes, the daily redemption limit and the rate limiter are on, text
  messages leave through an HTTPS gateway with a token, pushes through Firebase, PostgreSQL is
  reached in a TLS mode and Redis over TLS 1.2 or later, and invitations, where they are on, point
  to an HTTPS address and are limited per store.
\<close>

theorem production_start_safe:
  assumes "runServer P V dotenv env h = (Inr a, h')"
    and "vp_Unmarshal V setDefaults (fst (loadDotEnv dotenv env)) (resolveConfigPath env) = Inr cfg" "\<not> development cfg"
  shows "32 \<le> length (dp_CustomerAccessTokenSecret (ap_deps a)) \<and> 32 \<le> length (dp_StaffAccessTokenSecret (ap_deps a)) \<and>
    0 < af_DailyRedeemPointsLimit (svc_antiFraud (dp_Loyalty (ap_deps a))) \<and> dp_RateLimiter (ap_deps a) \<and>
    (\<exists>sms. ap_sms a = HttpSms sms \<and> https (sm_Endpoint sms) \<and> sm_Token sms \<noteq> []) \<and>
    ap_notifier a = FcmChannel (fcm_CredentialsJSON (c_FCM cfg)) \<and>
    pg_SSLMode (c_Postgres cfg) \<in> {''require'', ''verify-ca'', ''verify-full''} \<and>
    ro_MinTLS (redisOpts (c_Redis cfg)) = Some VersionTLS12 \<and>
    (let i = svc_invites (dp_Loyalty (ap_deps a)) in invites_enabled i \<longrightarrow> https (inv_AppURL i) \<and> 0 < inv_DailyStoreLimit i)"
proof -
  from assms(1) obtain c where load: "fst (Load V dotenv env (resolveConfigPath env)) = Inr c" and new: "app_New P None c h = (Inr a, h')"
    by (auto simp: runServer_def load_config_def split: sum.splits prod.splits)
  have c: "c = cfg" using Load_accepts(1) [OF load] assms(2) by simp
  note checks = Load_accepts(2-) [OF load, unfolded c]
  from new [unfolded c] obtain proxies notifier where notifier: "notifierFor P cfg = Inr notifier" and
    a: "a = \<lparr>ap_addr = Addr (c_HTTP cfg), ap_deps = serverDeps P proxies (smsSender None cfg) cfg, ap_worker = outboxWorker,
           ap_sms = smsSender None cfg, ap_notifier = notifier\<rparr>"
    by (cases rule: app_New_cases) auto
  have auth: "32 \<le> length (au_AccessTokenSecret (c_Auth cfg))"
    using checks(1) assms(3) by (auto simp: validateAuth_def split: if_splits)
  have limit: "0 < fr_DailyRedeemPointsLimit (c_AntiFraud cfg)"
    using checks(2) assms(3) by (auto simp: validateAntiFraud_def split: if_splits)
  have sms: "sm_Provider (c_SMS cfg) = ''http''" "https (sm_Endpoint (c_SMS cfg))" "sm_Token (c_SMS cfg) \<noteq> []"
    using checks(3) assms(3) by (auto simp: validateSMS_def validSMSProviders_def Let_def split: if_splits)
  have fcm: "fcm_CredentialsJSON (c_FCM cfg) \<noteq> []"
    using checks(4) assms(3) by (auto simp: validateFCM_def split: if_splits)
  have push: "notifier = FcmChannel (fcm_CredentialsJSON (c_FCM cfg))"
    using notifier fcm by (auto simp: notifierFor_def fcmchannel_New_def split: option.splits)
  have invite: "iv_AppURL (c_Invite cfg) \<noteq> [] \<Longrightarrow> https (iv_AppURL (c_Invite cfg)) \<and> 0 < iv_DailyStoreLimit (c_Invite cfg)"
    using checks(5) assms(3) by (auto simp: validateInvite_def Let_def split: if_splits)
  have postgres: "pg_SSLMode (c_Postgres cfg) \<in> {''require'', ''verify-ca'', ''verify-full''}"
    using checks(6) assms(3) by (auto simp: validatePostgres_def pgSSLModesRequiringTLS_def split: if_splits)
  have redis: "rd_TLSEnabled (c_Redis cfg)"
    using checks(7) assms(3) by (auto simp: validateRedis_def split: if_splits)
  show ?thesis
    using auth limit sms push invite postgres redis
    by (simp add: a serverDeps_def Let_def loyaltyService_def smsSender_def redisOpts_def invites_enabled_def)
qed

lemma production_start_safe_witness:
  "runServer demo_platform demo_viper None production_env no_holdings =
     (Inr (production_server ''0123456789abcdef0123456789abcdef''), open_client (open_pool no_holdings)) \<and>
   (\<exists>sms. ap_sms (production_server ''0123456789abcdef0123456789abcdef'') = HttpSms sms \<and> https (sm_Endpoint sms) \<and> sm_Token sms \<noteq> [])"
  using production_runs production_start_safe [OF production_runs demo_viper_reads production_not_development] by blast

text \<open>The default of the limit passes the check outside development, where nothing sets it.\<close>

lemma default_limit_accepted:
  "\<exists>n. map_of setDefaults ''antifraud.daily_redeem_points_limit'' = Some (Number n) \<and>
     (\<forall>cfg. fr_DailyRedeemPointsLimit (c_AntiFraud cfg) = n \<longrightarrow> validateAntiFraud cfg = None)"
  by (simp add: setDefaults_def validateAntiFraud_def)

text \<open>A variable of the environment is never overridden by the \<open>.env\<close> file.\<close>

lemma dotenv_lines_keep: "env k = Some v \<Longrightarrow> fst (dotenv_lines ls env) k = Some v"
proof (induction ls arbitrary: env)
  case (Cons raw ls)
  show ?case
  proof (cases "length raw \<ge> 65536 \<or> dotenv_line (dropCR raw) = None")
    case True
    then show ?thesis using Cons by auto
  next
    case False
    then obtain key w where line: "length raw < 65536" "dotenv_line (dropCR raw) = Some (key, w)" by auto
    show ?thesis
    proof (cases "env key = None")
      case True
      then have "key \<noteq> k" using Cons.prems by auto
      then have "fst (dotenv_lines ls (env(key \<mapsto> w))) k = Some v" by (intro Cons.IH) (simp add: Cons.prems)
      then show ?thesis using Cons.prems line True by (simp add: Setenv_def)
    qed (use Cons line in auto)
  qed
qed simp

lemma loadDotEnv_keeps: "env k = Some v \<Longrightarrow> fst (loadDotEnv dotenv env) k = Some v"
  by (simp add: loadDotEnv_def dotenv_lines_keep split: option.split sum.split)

section \<open>Shutting down\<close>

lemma wait_until_bounds: "0 \<le> limit \<Longrightarrow> now \<le> wait_until now limit e \<and> wait_until now limit e \<le> now + limit"
  by (auto simp: wait_until_def split: option.split)

lemma wait_until_reaches: "t \<le> now + limit \<Longrightarrow> t \<le> wait_until now limit (Some t)"
  by (simp add: wait_until_def)

lemma http_stopped_bounds: "stopped_at s \<le> http_stopped s \<and> http_stopped s \<le> stopped_at s + httpShutdownTimeout"
  by (cases s) (simp_all add: wait_until_bounds httpShutdownTimeout_def second_def)

lemma poll_length_bounds: "0 \<le> deliverTimeout cfg \<Longrightarrow> 0 \<le> poll_length cfg need \<and> poll_length cfg need \<le> deliverTimeout cfg"
  by (auto simp: poll_length_def split: option.split)

text \<open>
  C40: the shutdown is bounded and does not run into a delivery. \<open>Run\<close> returns at most 45 seconds
  after the server was stopped; and the outbox worker of the application, whose poll may have been
  in flight, has returned by then, provided it begins no further poll after its context was cancelled.
\<close>

theorem shutdown_bounded:
  assumes "app_New P override cfg h = (Inr a, h')"
    and "case in_flight of None \<Rightarrow> True | Some (started, need) \<Rightarrow> started \<le> http_stopped s"
  shows "stopped_at s \<le> fst (app_Run (ap_worker a) s in_flight polls background) \<and>
    fst (app_Run (ap_worker a) s in_flight polls background) \<le> stopped_at s + 45 * second \<and>
    (polls = [] \<longrightarrow> worker_returns (ap_worker a) (http_stopped s) in_flight polls \<le> fst (app_Run (ap_worker a) s in_flight polls background))"
proof -
  let ?t1 = "http_stopped s" and ?r = "worker_returns outboxWorker (http_stopped s) in_flight polls"
  let ?t2 = "wait_until ?t1 outboxDrainTimeout (Some ?r)"
  have worker: "ap_worker a = outboxWorker" using assms(1) by (cases rule: app_New_cases) auto
  have deliver: "deliverTimeout outboxWorker = 30 * second" by (simp add: deliverTimeout_def outboxWorker_def second_def)
  have t2: "?t1 \<le> ?t2 \<and> ?t2 \<le> ?t1 + outboxDrainTimeout" by (rule wait_until_bounds) (simp add: outboxDrainTimeout_def second_def)
  have t3: "?t2 \<le> background_Wait ?t2 backgroundDrainTimeout background \<and>
      background_Wait ?t2 backgroundDrainTimeout background \<le> ?t2 + backgroundDrainTimeout"
    unfolding background_Wait_def by (rule wait_until_bounds) (simp add: backgroundDrainTimeout_def second_def)
  have "?r \<le> ?t1 + 30 * second" if "polls = []"
  proof (cases in_flight)
    case None
    then show ?thesis using that by (simp add: worker_returns_def second_def)
  next
    case (Some p)
    then show ?thesis
      using that assms(2) poll_length_bounds [of outboxWorker "snd p"]
      by (cases p) (simp add: worker_returns_def deliver second_def)
  qed
  then have drained: "polls = [] \<longrightarrow> ?r \<le> background_Wait ?t2 backgroundDrainTimeout background"
    using wait_until_reaches [of ?r ?t1 outboxDrainTimeout] t3 by (auto simp: outboxDrainTimeout_def second_def)
  moreover have "fst (app_Run (ap_worker a) s in_flight polls background) = background_Wait ?t2 backgroundDrainTimeout background"
    by (simp add: app_Run_def worker Let_def)
  moreover have "stopped_at s \<le> background_Wait ?t2 backgroundDrainTimeout background \<and>
      background_Wait ?t2 backgroundDrainTimeout background \<le> stopped_at s + 45 * second"
    using t2 t3 http_stopped_bounds [of s]
    by (simp add: httpShutdownTimeout_def outboxDrainTimeout_def backgroundDrainTimeout_def second_def)
  ultimately show ?thesis by (cases "polls = []") (simp_all add: worker)
qed

lemma shutdown_bounded_witness:
  "app_New demo_platform None (production_config []) no_holdings = (Inr (production_server []), open_client (open_pool no_holdings)) \<and>
   worker_returns (ap_worker (production_server [])) (http_stopped (Cancelled 0 (Some second))) (Some (0, None)) [] \<le>
   fst (app_Run (ap_worker (production_server [])) (Cancelled 0 (Some second)) (Some (0, None)) [] [Some 0])"
  using production_starts [of "[]"]
    shutdown_bounded [where h' = "open_client (open_pool no_holdings)" and P = demo_platform and override = None and
      cfg = "production_config []" and h = no_holdings and a = "production_server []" and in_flight = "Some (0, None)" and s = "Cancelled 0 (Some second)" and polls = "[]" and background = "[Some 0]"]
  by (simp add: wait_until_def background_Wait_def second_def httpShutdownTimeout_def)

text \<open>
  The proviso matters: a tick that waits while the last poll runs may be picked over the
  cancelled context, and \<open>Run\<close> returns, and the pool is closed, while that poll delivers.
\<close>

lemma late_poll_outlives_run:
  "fst (app_Run outboxWorker (Cancelled 0 (Some 0)) (Some (- second, None)) [None] [Some 0]) <
   worker_returns outboxWorker 0 (Some (- second, None)) [None]"
  by (simp add: app_Run_def worker_returns_def poll_length_def deliverTimeout_def outboxWorker_def second_def wait_until_def background_Wait_def
    httpShutdownTimeout_def outboxDrainTimeout_def backgroundDrainTimeout_def)

end
