(* ===== verification/Tenancy.thy ===== *)
theory Tenancy
  imports Pos_Server Redemption Qr_Theorems
begin

text \<open>
  The walls between stores, on the side of writing: what a request that comes with a store's
  key can change. The stores share their tables; a row belongs to a store by its \<open>store_id\<close>, a
  balance by its client's. Every route of the register's contour is shown to leave the rows of the
  other stores as they were, along the code of the loyalty service and of the resolve of a QR.
\<close>

section \<open>The rows of the other stores\<close>

text \<open>The primary keys of the tables that the register's requests write to.\<close>

definition primary_keys :: "db \<Rightarrow> bool" where
  "primary_keys d \<longleftrightarrow>
     distinct (map cl_ID (db_clients d)) \<and> (\<forall>c\<in>set (db_clients d). cl_ID c \<le> db_seq d T_clients) \<and>
     distinct (map tx_ID (db_transactions d)) \<and> (\<forall>t\<in>set (db_transactions d). tx_ID t \<le> db_seq d T_transactions) \<and>
     distinct (map key_ID (db_api_keys d))"

definition foreign :: "int \<Rightarrow> db \<Rightarrow> client list \<times> transaction list \<times> store_api_key list" where
  "foreign s d = (List.filter (\<lambda>c. cl_StoreID c \<noteq> s) (db_clients d),
     List.filter (\<lambda>t. tx_StoreID t \<noteq> s) (db_transactions d), List.filter (\<lambda>k. key_StoreID k \<noteq> s) (db_api_keys d))"

definition foreign_balances :: "int \<Rightarrow> db \<Rightarrow> (int \<times> int option) list" where
  "foreign_balances s d = map (\<lambda>c. (cl_ID c, db_balances d (cl_ID c))) (fst (foreign s d))"

definition untouched :: "db \<Rightarrow> db \<Rightarrow> bool" where
  "untouched d d' \<longleftrightarrow>
     db_organizations d' = db_organizations d \<and> db_stores d' = db_stores d \<and>
     db_loyalty_configs d' = db_loyalty_configs d \<and> db_config_history d' = db_config_history d \<and>
     db_accounts d' = db_accounts d \<and> db_sessions d' = db_sessions d \<and> db_consents d' = db_consents d \<and>
     db_devices d' = db_devices d \<and> db_staff_users d' = db_staff_users d \<and> db_memberships d' = db_memberships d"

text \<open>
  \<open>spares s d d'\<close>: nothing of another store than \<open>s\<close> is different in \<open>d'\<close>; queued notifications
  and audit records are only added.
\<close>

definition spares :: "int \<Rightarrow> db \<Rightarrow> db \<Rightarrow> bool" where
  "spares s d d' \<longleftrightarrow> foreign s d' = foreign s d \<and> foreign_balances s d' = foreign_balances s d \<and> untouched d d' \<and>
     (\<exists>es. db_outbox d' = db_outbox d @ es) \<and> (\<exists>es. db_audit d' = db_audit d @ es)"

definition confined :: "int \<Rightarrow> db \<Rightarrow> db \<Rightarrow> bool" where
  "confined s d d' \<longleftrightarrow> (primary_keys d \<longrightarrow> primary_keys d' \<and> spares s d d')"

lemma spares_trans: "spares s d1 d2 \<Longrightarrow> spares s d2 d3 \<Longrightarrow> spares s d1 d3"
  unfolding spares_def untouched_def by force

lemma confined_refl [simp]: "reflp (confined s)"
  by (simp add: reflp_def confined_def spares_def untouched_def)

lemma confined_trans [simp]: "transp (confined s)"
  unfolding transp_def confined_def by (blast intro: spares_trans)

lemma confined_then: "confined s d1 d2 \<Longrightarrow> confined s d2 d3 \<Longrightarrow> confined s d1 d3"
  using confined_trans [of s] by (rule transpD)

lemma confined_self [simp]: "confined s d d"
  using confined_refl [of s] by (simp add: reflp_def)

text \<open>Requests of the same store may run between the calls of a request of store \<open>s\<close>.\<close>

definition store_only :: "int \<Rightarrow> db env \<Rightarrow> bool" where
  "store_only s L \<longleftrightarrow> (\<forall>l d. confined s d (env_other L l d))"

lemma store_only_quiet [simp]: "store_only s (quiet t)"
  by (simp add: store_only_def)

section \<open>Statements\<close>

text \<open>A client of the store is not a client of another store.\<close>

lemma own_client:
  assumes "primary_keys d" "c \<in> set (db_clients d)" "cl_StoreID c = s" "i = cl_ID c"
  shows "i \<notin> cl_ID ` set (fst (foreign s d))"
proof
  assume "i \<in> cl_ID ` set (fst (foreign s d))"
  then obtain c' where c': "c' \<in> set (db_clients d)" "cl_StoreID c' \<noteq> s" "cl_ID c' = i" by (auto simp: foreign_def)
  have "distinct (map cl_ID (db_clients d))" using assms(1) by (simp add: primary_keys_def)
  from distinct_map_inj [OF this c'(1) assms(2)] c' assms(3,4) show False by simp
qed

text \<open>What a posting does: the balance of a client of the store moves and rows of the store are marked or added.\<close>

lemma posting_confined:
  assumes row: "insertable d row" "tx_StoreID row = s"
    and mark: "\<And>t. tx_ID (mark t) = tx_ID t" "\<And>t. tx_StoreID (mark t) = tx_StoreID t"
      "\<And>t. t \<in> set (db_transactions d) \<Longrightarrow> primary_keys d \<Longrightarrow> tx_StoreID t \<noteq> s \<Longrightarrow> mark t = t"
    and d': "d' = d\<lparr>db_seq := (db_seq d)(T_transactions := db_seq d T_transactions + 1, T_outbox := q),
        db_balances := (db_balances d)(tx_ClientID row \<mapsto> points),
        db_transactions := map mark (db_transactions d) @ [row], db_outbox := db_outbox d @ es\<rparr>"
  shows "confined s d d'"
  unfolding confined_def
proof (intro impI conjI)
  assume pk: "primary_keys d"
  from row have i: "tx_ID row = db_seq d T_transactions + 1" by (simp add: insertable_def)
  obtain c where c: "c \<in> set (db_clients d)" "cl_ID c = tx_ClientID row" "cl_StoreID c = s"
    using row by (auto simp: insertable_def)
  have "tx_ID row \<notin> tx_ID ` set (db_transactions d)" using pk i by (force simp: primary_keys_def)
  with pk i show "primary_keys d'" by (auto simp: primary_keys_def d' mark comp_def)
  have "List.filter (\<lambda>t. tx_StoreID t \<noteq> s) (map mark (db_transactions d)) = List.filter (\<lambda>t. tx_StoreID t \<noteq> s) (db_transactions d)"
    using mark(3) [OF _ pk] by (simp add: filter_map comp_def mark(2)) (rule map_idI, simp)
  then have "foreign s d' = foreign s d" using row by (simp add: foreign_def d')
  moreover have "foreign_balances s d' = foreign_balances s d"
    unfolding foreign_balances_def calculation using own_client [OF pk c(1,3) c(2) [symmetric]]
    by (auto simp: d' image_iff)
  ultimately show "spares s d d'" by (simp add: spares_def untouched_def d')
qed

lemma confined_seq:
  assumes "\<forall>t. db_seq d t \<le> q t"
  shows "confined s d (d\<lparr>db_seq := q\<rparr>)"
  using assms
  by (auto simp: confined_def primary_keys_def spares_def foreign_def foreign_balances_def untouched_def intro: order_trans)

lemma confined_Post: "tx_StoreID tx = s \<Longrightarrow> keeps (confined s) (Post tf now tx ns)"
proof
  fix d assume s: "tx_StoreID tx = s"
  obtain r d' where run: "run_state (Post tf now tx ns) d = (r, d')" by fastforce
  show "confined s d (snd (run_state (Post tf now tx ns) d))"
  proof (cases r)
    case (Inl e)
    with run show ?thesis by (auto dest!: Post_Inl intro: confined_seq)
  next
    case (Inr x)
    with run have "post_effect now tx ns d x d'" by (simp add: Post_Inr)
    then show ?thesis
      unfolding run snd_conv post_effect_def Let_def
      by (elim exE conjE) (rule posting_confined [where mark = "\<lambda>t. t"], assumption, simp_all add: s)
  qed
qed

lemma confined_PostRedeemChecked: "tx_StoreID tx = s \<Longrightarrow> keeps (confined s) (PostRedeemChecked tf now tx mb dl w n)"
proof
  fix d assume s: "tx_StoreID tx = s"
  obtain r d' where run: "run_state (PostRedeemChecked tf now tx mb dl w n) d = (r, d')" by fastforce
  show "confined s d (snd (run_state (PostRedeemChecked tf now tx mb dl w n) d))"
  proof (cases r)
    case (Inl e)
    with run show ?thesis by (auto dest!: PostRedeemChecked_Inl intro: confined_seq)
  next
    case (Inr x)
    with run have "post_effect now tx [n] d x d'" by (blast dest: PostRedeemChecked_effect)
    then show ?thesis
      unfolding run snd_conv post_effect_def Let_def
      by (elim exE conjE) (rule posting_confined [where mark = "\<lambda>t. t"], assumption, simp_all add: s)
  qed
qed

lemma confined_PostRefund: "tx_StoreID tx = s \<Longrightarrow> keeps (confined s) (PostRefund D tf now tx bn)"
proof
  fix d assume s: "tx_StoreID tx = s"
  obtain r d' where run: "run_state (PostRefund D tf now tx bn) d = (r, d')" by fastforce
  show "confined s d (snd (run_state (PostRefund D tf now tx bn) d))"
  proof (cases r)
    case (Inl e)
    with run show ?thesis by (auto dest!: PostRefund_Inl intro: confined_seq)
  next
    case (Inr x)
    with run have "refund_effect D now tx bn d x d'" by (simp add: PostRefund_effect)
    then show ?thesis
    proof (cases rule: refund_effect_parts)
      case (1 orig a ca q es cum cp delta points row)
      have orig: "orig \<in> set (db_transactions d)" "tx_StoreID orig = s" using find_SomeD [OF 1(1)] s by auto
      have "mark_refunded (tx_ID orig) ca cp t = t"
        if "t \<in> set (db_transactions d)" "primary_keys d" "tx_StoreID t \<noteq> s" for t
      proof (rule mark_refunded_other)
        have "distinct (map tx_ID (db_transactions d))" using that(2) by (simp add: primary_keys_def)
        from distinct_map_inj [OF this that(1) orig(1)] that(3) orig(2) show "tx_ID t \<noteq> tx_ID orig" by blast
      qed
      with 1 s show ?thesis
        unfolding run snd_conv
        by (intro posting_confined [where mark = "mark_refunded (tx_ID orig) ca cp" and row = row]) simp_all
    qed
  qed
qed

lemma confined_client_Create: "cl_StoreID c = s \<Longrightarrow> keeps (confined s) (client_Create now c)"
  by (auto simp: keeps_def client_Create_def run_andThen Let_def confined_def primary_keys_def spares_def foreign_def
      foreign_balances_def untouched_def image_iff)

lemma confined_call: "store_only s L \<Longrightarrow> keeps (confined s) m \<Longrightarrow> keeps (confined s) (call L l m)"
  unfolding store_only_def by (rule keeps_call [OF confined_refl confined_trans]) blast+

lemma confined_call_tx: "store_only s L \<Longrightarrow> (\<And>tf now. keeps (confined s) (m tf now)) \<Longrightarrow> keeps (confined s) (call_tx L l m)"
  unfolding call_tx_def by (rule confined_call)

lemma confined_call_at: "store_only s L \<Longrightarrow> (\<And>now. keeps (confined s) (m now)) \<Longrightarrow> keeps (confined s) (call_at L l m)"
  unfolding call_at_def by (rule confined_call)

lemmas confined_intros = keeps_andThen [OF confined_refl confined_trans] keeps_bind [OF confined_trans]
  confined_call confined_call_tx confined_call_at keeps_reads [OF confined_refl] keeps_ok [OF confined_refl] keeps_fail [OF confined_refl]
  confined_client_Create confined_Post confined_PostRedeemChecked confined_PostRefund

section \<open>The requests of the loyalty service\<close>

lemma confined_parts:
  assumes "store_only s L"
  shows "keeps (confined s) (replayedAccrue D L k s x ph a)" "keeps (confined s) (resolveOrCreateClient L s ph)"
    "keeps (confined s) (appInvite i L cl)" "keeps (confined s) (accrualPoints D L s tx)"
    "keeps (confined s) (replayedRedeem D L k s x c a p)"
    "keeps (confined s) (replayedRefund D L k s x o' a)" "keeps (confined s) (resolveOriginalTransaction L s x ty)"
  unfolding replayedAccrue_def resolveOrCreateClient_def appInvite_def accrualPoints_def replayedRedeem_def replayedRefund_def
    resolveOriginalTransaction_def Let_def
  using assms by (auto intro!: confined_intros split: sum.split option.split)

lemma confined_accrual:
  assumes "store_only s L" "tx_StoreID tx0 = s" "\<And>tx. tx_StoreID tx = s \<Longrightarrow> keeps (confined s) (f tx)"
  shows "keeps (confined s) (andThen (accrualPoints D L s tx0) f)"
  by (rule keeps_andThen_result [OF confined_trans confined_parts(4) [OF assms(1)], where P = "\<lambda>tx. tx_StoreID tx = s"])
    (use accrualPoints_keeps_key assms(2) in blast, rule assms(3))

lemma confined_Accrue:
  assumes "store_only (ar_StoreID req) L"
  shows "keeps (confined (ar_StoreID req)) (Accrue D svc L req)"
proof -
  let ?s = "ar_StoreID req"
  note first = keeps_andThen [OF confined_refl confined_trans confined_parts(1) [OF assms]]
    keeps_andThen [OF confined_refl confined_trans confined_parts(2) [OF assms]]
  have invite: "keeps (confined ?s) (andThen (if b then appInvite i L c else ok None) f)"
    if "\<And>x. keeps (confined ?s) (f x)" for b i c and f :: "outbox_entry option \<Rightarrow> (db, accrue_result option) op"
    using that by (auto intro!: confined_intros confined_parts assms)
  have post: "keeps (confined ?s) (do { r \<leftarrow> call_tx L l (\<lambda>tf now. Post tf now tx ns); g r })"
    if "tx_StoreID tx = ?s" "\<And>r. keeps (confined ?s) (g r)" for l tx ns
      and g :: "err + transaction \<times> balance \<Rightarrow> (db, accrue_result option) op"
    using that by (auto intro!: confined_intros assms)
  show ?thesis
    unfolding Accrue_def Let_def
    by (auto intro!: first invite confined_accrual [OF assms] post keeps_ok keeps_fail confined_parts assms split: sum.split)
qed

lemma confined_Redeem: "store_only (rr_StoreID req) L \<Longrightarrow> keeps (confined (rr_StoreID req)) (Redeem D svc L req)"
  unfolding Redeem_def Let_def by (auto intro!: confined_intros confined_parts split: sum.split prod.split)

lemma confined_Refund: "store_only (fr_StoreID req) L \<Longrightarrow> keeps (confined (fr_StoreID req)) (Refund D L req)"
  unfolding Refund_def Let_def by (auto intro!: confined_intros confined_parts split: sum.split prod.split)

section \<open>The handlers\<close>

definition confined_world :: "int \<Rightarrow> 'k world \<Rightarrow> 'k world \<Rightarrow> bool" where
  "confined_world s w w' \<longleftrightarrow> confined s (w_db w) (w_db w')"

lemma confined_world_refl [simp]: "reflp (confined_world s)" and confined_world_trans [simp]: "transp (confined_world s)"
  using confined_trans [of s] by (auto simp: reflp_def transp_def confined_world_def)

lemma confined_on_db: "keeps (confined s) m \<Longrightarrow> keeps (confined_world s) (on_db m)"
  by (simp add: keeps_def confined_world_def run_on_db)

lemma confined_on_kv: "keeps (confined_world s) (on_kv m)"
  by (simp add: keeps_def confined_world_def run_on_kv)

lemma confined_quiet: "keeps (confined_world s) m \<Longrightarrow> keeps (confined_world s) (call (quiet t) l m)"
  by (rule keeps_call [OF confined_world_refl confined_world_trans]) (simp_all add: confined_world_def)

lemma confined_logged: "keeps (confined_world s) m \<Longrightarrow> keeps (confined_world s) (logged m)"
  by (simp add: keeps_def)

lemma confined_answering: "keeps R m \<Longrightarrow> keeps R (answering f m)"
  by (auto simp: keeps_def run_answering Let_def split: prod.split) (metis snd_conv)

lemma keeps_write:
  assumes "reflp R"
  shows "keeps R (writeJSON status v)" "keeps R (writeError status message)" "keeps R (writeErrorCode status code message)"
    "keeps R recovered" "keeps R (accrue_error e)" "keeps R (redeem_error_answer e)" "keeps R (refund_error_answer e)"
    "keeps R (resolve_error e)"
  using assms
  by (auto simp: keeps_def reflp_def recovered_def accrue_error_def redeem_error_answer_def refund_error_answer_def resolve_error_def)

lemmas world_intros = keeps_andThen [OF confined_world_refl confined_world_trans] keeps_bind [OF confined_world_trans]
  confined_quiet confined_on_db confined_on_kv confined_logged keeps_ok [OF confined_world_refl] keeps_fail [OF confined_world_refl]
  keeps_write [OF confined_world_refl] keeps_return [OF confined_world_refl]

lemma confined_handlers:
  assumes "store_only (st_ID s) L" "storeFromContext r = Some s"
  shows "keeps (confined_world (st_ID s)) (handleAccrueTransaction D svc L (with_body f r))"
    and "keeps (confined_world (st_ID s)) (handleRedeemTransaction D svc L (with_body g r))"
    and "keeps (confined_world (st_ID s)) (handleRefundTransaction D L (with_body h r))"
    and "keeps (confined_world (st_ID s)) (handleLookupClientByPhone (quiet t) r)"
    and "keeps (confined_world (st_ID s)) (handleGetClientBalance (quiet t) r)"
proof -
  note store = assms(2)
  have reads: "keeps (confined_world (st_ID s)) (answerBalance (quiet t) c)" for c
    unfolding answerBalance_def by (auto intro!: world_intros keeps_reads split: sum.split)
  show "keeps (confined_world (st_ID s)) (handleAccrueTransaction D svc L (with_body f r))"
    using confined_Accrue [where req = "\<lparr>ar_StoreID = st_ID s, ar_ExternalTxID = x, ar_Phone = p, ar_Amount = a\<rparr>" for x p a] assms(1)
    by (auto simp: handleAccrueTransaction_def store intro!: world_intros split: option.split sum.split)
  show "keeps (confined_world (st_ID s)) (handleRedeemTransaction D svc L (with_body g r))"
    using confined_Redeem [where req = "\<lparr>rr_StoreID = st_ID s, rr_ExternalTxID = x, rr_ClientID = c, rr_Points = p, rr_Amount = a\<rparr>" for x c p a] assms(1)
    by (auto simp: handleRedeemTransaction_def store intro!: world_intros split: option.split sum.split)
  show "keeps (confined_world (st_ID s)) (handleRefundTransaction D L (with_body h r))"
    using confined_Refund [where req = "\<lparr>fr_StoreID = st_ID s, fr_ExternalTxID = x, fr_OriginalExternalTxID = y, fr_OriginalType = z, fr_Amount = a\<rparr>" for x y z a] assms(1)
    by (auto simp: handleRefundTransaction_def store intro!: world_intros split: option.split sum.split)
  show "keeps (confined_world (st_ID s)) (handleLookupClientByPhone (quiet t) r)"
    by (auto simp: handleLookupClientByPhone_def store Let_def intro!: world_intros keeps_reads reads split: sum.split)
  show "keeps (confined_world (st_ID s)) (handleGetClientBalance (quiet t) r)"
    by (auto simp: handleGetClientBalance_def store intro!: world_intros keeps_reads reads split: option.split sum.split)
qed

section \<open>The resolve of a QR\<close>

definition own :: "int \<Rightarrow> int \<Rightarrow> db \<Rightarrow> bool" where
  "own s i d \<longleftrightarrow> (\<exists>c\<in>set (db_clients d). cl_ID c = i \<and> cl_StoreID c = s)"

lemma confined_link:
  assumes "own s i d"
  shows "confined s d (snd (run_state (client_LinkCustomerAccount i a) d))"
  unfolding confined_def
proof (intro impI)
  assume pk: "primary_keys d"
  let ?link = "\<lambda>c. if cl_ID c = i then c\<lparr>cl_CustomerAccountID := Some a\<rparr> else c"
  obtain c1 where c1: "c1 \<in> set (db_clients d)" "cl_StoreID c1 = s" "i = cl_ID c1" using assms by (auto simp: own_def)
  have keep: "?link c = c" if "c \<in> set (db_clients d)" "cl_StoreID c \<noteq> s" for c
    using own_client [OF pk c1] that by (auto simp: foreign_def)
  have same: "cl_StoreID (?link c) = cl_StoreID c" for c by simp
  have "List.filter (\<lambda>c. cl_StoreID c \<noteq> s) (map ?link (db_clients d)) = List.filter (\<lambda>c. cl_StoreID c \<noteq> s) (db_clients d)"
    unfolding filter_map comp_def same by (rule map_idI) (use keep in auto)
  then have "foreign s (d\<lparr>db_clients := map ?link (db_clients d)\<rparr>) = foreign s d" by (simp add: foreign_def)
  moreover have "primary_keys (d\<lparr>db_clients := map ?link (db_clients d)\<rparr>)"
    using pk by (auto simp: primary_keys_def comp_def if_distrib cong: if_cong)
  ultimately show "primary_keys (snd (run_state (client_LinkCustomerAccount i a) d)) \<and>
      spares s d (snd (run_state (client_LinkCustomerAccount i a) d))"
    using pk by (auto simp: client_LinkCustomerAccount_def spares_def untouched_def foreign_balances_def)
qed

text \<open>A client that was just found or created in the store is linked.\<close>

lemma confined_linking:
  assumes "keeps (confined s) m" "\<And>d c d'. run_state m d = (Inr c, d') \<Longrightarrow> own s (cl_ID c) d'"
    "\<And>e. keeps (confined_world s) (g e)"
  shows "keeps (confined_world s) (State_Monad.bind (call (quiet t) l (on_db m))
    (\<lambda>r. case r of Inl e \<Rightarrow> g e | Inr c \<Rightarrow> linkTo (quiet t) k c a))"
proof
  fix w :: "'a world"
  obtain r d' where m: "run_state m (w_db w) = (r, d')" by fastforce
  have 1: "confined s (w_db w) d'" using keepsD [OF assms(1), of "w_db w"] m by simp
  show "confined_world s w (snd (run_state (State_Monad.bind (call (quiet t) l (on_db m))
      (\<lambda>r. case r of Inl e \<Rightarrow> g e | Inr c \<Rightarrow> linkTo (quiet t) k c a)) w))"
  proof (cases r)
    case (Inl e)
    have "confined_world s (w\<lparr>w_db := d'\<rparr>) (snd (run_state (g e) (w\<lparr>w_db := d'\<rparr>)))" by (rule keepsD [OF assms(3)])
    with 1 m Inl show ?thesis by (auto simp: run_on_db confined_world_def intro: confined_then)
  next
    case (Inr c)
    have "confined s d' (snd (run_state (client_LinkCustomerAccount (cl_ID c) (acc_ID a)) d'))"
      using assms(2) m Inr by (intro confined_link) simp
    with 1 m Inr show ?thesis
      by (auto simp: run_on_db confined_world_def linkTo_def run_andThen split: sum.split prod.split intro: confined_then)
  qed
qed

lemma own_GetByPhone: "run_state (client_GetByPhone s p) d = (Inr c, d') \<Longrightarrow> own s (cl_ID c) d'"
  by (auto simp: client_GetByPhone_def own_def split: option.splits dest!: find_SomeD)

lemma own_Create:
  "run_state (client_Create now \<lparr>cl_ID = 0, cl_StoreID = s, cl_Phone = p, cl_CustomerAccountID = None, cl_CreatedAt = t\<rparr>) d = (Inr c, d') \<Longrightarrow>
    own s (cl_ID c) d'"
  by (auto simp: client_Create_def run_andThen Let_def own_def split: if_splits)

lemma confined_resolveClient: "keeps (confined_world s) (resolveOrCreateClientForAccount (quiet t) s a)"
  unfolding resolveOrCreateClientForAccount_def Let_def
proof (rule keeps_andThen [OF confined_world_refl confined_world_trans])
  show "keeps (confined_world s) (call (quiet t) (''qr.client'', 0) (on_db (client_ListByCustomerAccount (acc_ID a))))"
    by (intro confined_quiet confined_on_db) (simp add: client_ListByCustomerAccount_def keeps_def)
  note link = confined_linking [OF keeps_reads(3) [OF confined_refl] own_GetByPhone]
  have again: "keeps (confined_world s) (andThen (call (quiet t) l (on_db (client_GetByPhone s p))) (\<lambda>c. linkTo (quiet t) k c a))" for l p k
    unfolding andThen_def by (rule link) (auto intro: keeps_fail)
  show "keeps (confined_world s) (case find (\<lambda>c. cl_StoreID c = s) cs of Some c \<Rightarrow> ok c | None \<Rightarrow>
      State_Monad.bind (call (quiet t) (''qr.client'', 1) (on_db (client_GetByPhone s (acc_Phone a)))) (\<lambda>r.
         case r of Inl e \<Rightarrow> if e \<noteq> ErrNotFound then fail e
             else State_Monad.bind (call (quiet t) (''qr.client'', 2) (on_db (client_Create (env_now (quiet t) (''qr.client'', 2))
                 \<lparr>cl_ID = 0, cl_StoreID = s, cl_Phone = acc_Phone a, cl_CustomerAccountID = None,
                  cl_CreatedAt = env_now (quiet t) (''qr.client'', 2)\<rparr>))) (\<lambda>r2.
               case r2 of Inl e2 \<Rightarrow> if e2 = ErrConflict
                   then andThen (call (quiet t) (''qr.client'', 3) (on_db (client_GetByPhone s (acc_Phone a)))) (\<lambda>c. linkTo (quiet t) 1 c a)
                   else fail e2
               | Inr c \<Rightarrow> linkTo (quiet t) 1 c a)
         | Inr c \<Rightarrow> linkTo (quiet t) 0 c a))" for cs
    by (auto intro!: link confined_linking [OF confined_client_Create own_Create] again keeps_ok keeps_fail split: option.split)
qed

lemma confined_audit: "keeps (confined s) (audit_Create now e)"
  by (auto simp: keeps_def audit_Create_def run_andThen Let_def confined_def primary_keys_def spares_def foreign_def
      foreign_balances_def untouched_def)

lemma confined_ResolveQR: "keeps (confined_world s) (ResolveQR S (quiet t) s payload who)"
  unfolding ResolveQR_def checkConsumeCooldown_def qr_claim_def resolveClaimed_def resolveForAccount_def auditResolved_def
    qr_release_def qr_finalize_def account_GetByID_def Let_def
  by (auto intro!: world_intros keeps_reads confined_resolveClient confined_audit split: option.split sum.split prod.split)

lemma confined_handleResolveQR:
  assumes "storeFromContext r = Some s"
  shows "keeps (confined_world (st_ID s)) (handleResolveQR S (quiet t) (with_body f r))"
  using assms by (auto simp: handleResolveQR_def intro!: world_intros confined_ResolveQR split: option.split sum.split prod.split)

section \<open>Routes\<close>

lemma confined_touched:
  assumes "opens sha now d token s key"
  shows "confined (st_ID s) d (touched now key d)"
proof (cases key)
  case (Some k)
  let ?touch = "\<lambda>x :: store_api_key. if key_ID x = key_ID k then x\<lparr>key_LastUsedAt := Some now\<rparr> else x"
  from assms Some have k: "k \<in> set (db_api_keys d)" "key_StoreID k = st_ID s" by (auto simp: opens_def)
  show ?thesis
    unfolding confined_def
  proof (intro impI)
    assume pk: "primary_keys d"
    then have ids: "distinct (map key_ID (db_api_keys d))" by (simp add: primary_keys_def)
    have keep: "?touch x = x" if "x \<in> set (db_api_keys d)" "key_StoreID x \<noteq> st_ID s" for x
      using distinct_map_inj [OF ids that(1) k(1)] that(2) k(2) by auto
    have same: "key_StoreID (?touch x) = key_StoreID x" "key_ID (?touch x) = key_ID x" for x by simp_all
    have "List.filter (\<lambda>x. key_StoreID x \<noteq> st_ID s) (map ?touch (db_api_keys d)) = List.filter (\<lambda>x. key_StoreID x \<noteq> st_ID s) (db_api_keys d)"
      unfolding filter_map comp_def same by (rule map_idI) (use keep in auto)
    then have foreign: "foreign (st_ID s) (d\<lparr>db_api_keys := map ?touch (db_api_keys d)\<rparr>) = foreign (st_ID s) d" by (simp add: foreign_def)
    have "key_ID \<circ> ?touch = key_ID" by (simp add: fun_eq_iff)
    with pk foreign show "primary_keys (touched now key d) \<and> spares (st_ID s) d (touched now key d)"
      unfolding primary_keys_def Some touched_def option.case key_TouchLastUsed_def run_modify snd_conv
      by (simp add: spares_def untouched_def foreign_balances_def)
  qed
qed (simp add: touched_def)

text \<open>The operations behind a store's key.\<close>

lemma store_operations:
  "rt \<in> set routeTable \<Longrightarrow> rt_Contour rt = contourStoreKey \<Longrightarrow>
   rt_OperationID rt \<in> {''createTransaction'', ''redeemTransaction'', ''refundTransaction'', ''lookupClientByPhone'',
     ''getClientBalance'', ''resolveQR''}"
  by (auto simp: routeTable_def route_def)

lemma store_context [simp]: "storeFromContext (with_body f r) = storeFromContext r"
  by (simp add: with_body_def storeFromContext_def)

lemma confined_operation:
  assumes "rt \<in> set routeTable" "rt_Contour rt = contourStoreKey" "handlerFor J deps (quiet t) L draws (rt_OperationID rt) = Some h"
    "store_only (st_ID s) L" "storeFromContext r = Some s"
  shows "keeps (confined_world (st_ID s)) (h r)"
  using store_operations [OF assms(1,2)] assms(3) confined_handlers [OF assms(4,5)] confined_handleResolveQR [OF assms(5)]
  by (auto simp: handlerFor_def intro!: confined_answering)

end
