(* ===== verification/Tenancy_Staff.thy ===== *)
theory Tenancy_Staff
  imports Tenancy Http_Theorems
begin

text \<open>
  The walls between organizations and stores on the side of staff: what a request to a staff route
  can change, whose scope is the organization or the store of its path.
\<close>

section \<open>The rows outside a scope\<close>

definition alien_store :: "staff_scope \<Rightarrow> store \<Rightarrow> bool" where
  "alien_store sc s = (case sc_StoreID sc of Some i \<Rightarrow> st_ID s \<noteq> i | None \<Rightarrow> st_OrganizationID s \<noteq> sc_OrganizationID sc)"

text \<open>Configurations and keys are only written under a store of the path, memberships only under an organization.\<close>

definition alien_id :: "staff_scope \<Rightarrow> int \<Rightarrow> bool" where
  "alien_id sc i \<longleftrightarrow> sc_StoreID sc \<noteq> Some i"

definition alien_membership :: "staff_scope \<Rightarrow> staff_membership \<Rightarrow> bool" where
  "alien_membership sc m \<longleftrightarrow> sc_StoreID sc \<noteq> None \<or> mem_OrganizationID m \<noteq> sc_OrganizationID sc"

definition customers_untouched :: "db \<Rightarrow> db \<Rightarrow> bool" where
  "customers_untouched d d' \<longleftrightarrow>
     db_clients d' = db_clients d \<and> db_balances d' = db_balances d \<and> db_transactions d' = db_transactions d \<and>
     db_outbox d' = db_outbox d \<and> db_accounts d' = db_accounts d \<and> db_sessions d' = db_sessions d \<and>
     db_consents d' = db_consents d \<and> db_devices d' = db_devices d \<and> db_organizations d' = db_organizations d"

text \<open>
  \<open>scope_spares sc d d'\<close>: nothing outside the scope is different in \<open>d'\<close>, nor anything of a customer;
  staff users are only added, and audit records of the organization.
\<close>

definition scope_spares :: "staff_scope \<Rightarrow> db \<Rightarrow> db \<Rightarrow> bool" where
  "scope_spares sc d d' \<longleftrightarrow>
     List.filter (alien_store sc) (db_stores d') = List.filter (alien_store sc) (db_stores d) \<and>
     List.filter (alien_membership sc) (db_memberships d') = List.filter (alien_membership sc) (db_memberships d) \<and>
     List.filter (\<lambda>k. alien_id sc (key_StoreID k)) (db_api_keys d') = List.filter (\<lambda>k. alien_id sc (key_StoreID k)) (db_api_keys d) \<and>
     List.filter (\<lambda>v. alien_id sc (ver_StoreID v)) (db_config_history d') = List.filter (\<lambda>v. alien_id sc (ver_StoreID v)) (db_config_history d) \<and>
     (\<forall>i. alien_id sc i \<longrightarrow> db_loyalty_configs d' i = db_loyalty_configs d i) \<and>
     customers_untouched d d' \<and> (\<exists>us. db_staff_users d' = db_staff_users d @ us) \<and>
     (\<exists>es. db_audit d' = db_audit d @ es \<and> list_all (\<lambda>e. aud_OrganizationID e = Some (sc_OrganizationID sc)) es)"

lemma scope_spares_refl [simp]: "scope_spares sc d d"
  by (simp add: scope_spares_def customers_untouched_def)

lemma scope_spares_trans: "scope_spares sc d1 d2 \<Longrightarrow> scope_spares sc d2 d3 \<Longrightarrow> scope_spares sc d1 d3"
  unfolding scope_spares_def customers_untouched_def by (elim conjE exE) simp

text \<open>Under a condition on the memberships that the request keeps.\<close>

definition bounded :: "staff_scope \<Rightarrow> (staff_membership list \<Rightarrow> bool) \<Rightarrow> 'k world \<Rightarrow> 'k world \<Rightarrow> bool" where
  "bounded sc Q w w' \<longleftrightarrow>
     (Q (db_memberships (w_db w)) \<longrightarrow> Q (db_memberships (w_db w')) \<and> scope_spares sc (w_db w) (w_db w'))"

lemma bounded_refl [simp]: "reflp (bounded sc Q)" and bounded_trans [simp]: "transp (bounded sc Q)"
  by (auto simp: reflp_def transp_def bounded_def intro: scope_spares_trans)

lemma bounded_stmt:
  assumes "\<And>d. Q (db_memberships d) \<Longrightarrow> Q (db_memberships (after m d)) \<and> scope_spares sc d (after m d)"
  shows "keeps (bounded sc Q) (call (quiet t) l (on_db m))"
  using assms by (simp add: keeps_def bounded_def run_on_db)

lemma bounded_read: "(\<And>d. after m d = d) \<Longrightarrow> keeps (bounded sc Q) (call (quiet t) l (on_db m))"
  by (rule bounded_stmt) simp

lemma reads [simp]:
  "after (select_one P f) d = d" "after (select_all P f) d = d" "after (key_ListByStore s) d = d" "after (config_GetByStore s) d = d"
  "after (config_ListHistory s) d = d" "after (balance_Get c) d = d" "after (client_GetByPhone s p) d = d" "after (client_GetByID i) d = d"
  "after (client_ListByStore s n i) d = d" "after (tx_ListByClient c) d = d" "after (activity_StoreActivity s now) d = d"
  "after (store_GetByID i) d = d" "after (staff_GetByID i) d = d" "after (membership_GetByID i) d = d"
  "after (staff_GetByExternalSubject x) d = d" "after (membership_ListByOrganization g) d = d" "after (audit_ListByOrganization g q) d = d"
  by (simp_all add: select_all_def key_ListByStore_def config_GetByStore_def config_ListHistory_def balance_Get_def client_GetByPhone_def
      client_GetByID_def client_ListByStore_def tx_ListByClient_def activity_StoreActivity_def store_GetByID_def staff_GetByID_def
      membership_GetByID_def staff_GetByExternalSubject_def membership_ListByOrganization_def audit_ListByOrganization_def
      split: option.split)

lemma bounded_logged: "keeps R m \<Longrightarrow> keeps R (logged m)"
  by (simp add: keeps_def)

lemma bounded_writes:
  assumes "reflp R"
  shows "keeps R (writeJSON status v)" "keeps R (writeError status message)" "keeps R (writeHeader status)"
  using assms by (simp_all add: keeps_def reflp_def)

lemma bounded_audit:
  assumes "g = sc_OrganizationID sc"
  shows "keeps (bounded sc Q) (auditCreate (quiet t) k actor i action (Some g) st ty ti ip ua)"
  unfolding auditCreate_def Let_def
  by (intro bounded_logged bounded_stmt)
    (auto simp: audit_Create_def run_andThen Let_def scope_spares_def customers_untouched_def audit_of_def assms)

lemmas bounded_intros = keeps_andThen [OF bounded_refl bounded_trans] keeps_bind [OF bounded_trans] bounded_logged bounded_audit
  keeps_ok [OF bounded_refl] keeps_fail [OF bounded_refl] bounded_writes [OF bounded_refl] keeps_return [OF bounded_refl]

section \<open>The routes of a store\<close>

abbreviation store_scope :: "int \<Rightarrow> int \<Rightarrow> staff_scope" where
  "store_scope g i \<equiv> \<lparr>sc_OrganizationID = g, sc_StoreID = Some i\<rparr>"

lemma bounded_scoped:
  assumes "parse_int (rq_PathValue r ''orgID'') = Some g" "parse_int (rq_PathValue r ''storeID'') = Some i"
    and "\<And>s. st_ID s = i \<Longrightarrow> st_OrganizationID s = g \<Longrightarrow> keeps R (found s g)" "reflp R"
  shows "keeps R (resolveScopedStore (quiet t) found r)"
proof
  fix w
  show "R w (after (resolveScopedStore (quiet t) found r) w)"
  proof (cases "\<exists>s. find (\<lambda>s. st_ID s = i) (db_stores (w_db w)) = Some s \<and> st_OrganizationID s = g")
    case True
    then obtain s where s: "find (\<lambda>s. st_ID s = i) (db_stores (w_db w)) = Some s" "st_OrganizationID s = g" by blast
    from find_SomeD [OF s(1)] assms(3) s(2) have "keeps R (found s g)" by blast
    with s assms(1,2) show ?thesis by (simp add: resolveScopedStore_quiet keeps_def)
  next
    case False
    with assms(1,2,4) show ?thesis by (auto simp: resolveScopedStore_quiet reflp_def split: option.split)
  qed
qed

lemma update_within: "scope_spares (store_scope g (st_ID s)) d (after (store_UpdateProfile s) d)"
proof -
  let ?f = "\<lambda>r. if st_ID r = st_ID s then r\<lparr>st_Name := st_Name s, st_Address := st_Address s, st_ExternalCode := st_ExternalCode s,
    st_SMSInviteEnabled := st_SMSInviteEnabled s\<rparr> else r"
  have same: "st_ID (?f r) = st_ID r" for r by simp
  have "List.filter (\<lambda>r. st_ID r \<noteq> st_ID s) (map ?f (db_stores d)) = List.filter (\<lambda>r. st_ID r \<noteq> st_ID s) (db_stores d)"
    unfolding filter_map comp_def same by (rule map_idI) auto
  then show ?thesis
    by (auto simp: store_UpdateProfile_def scope_spares_def customers_untouched_def alien_store_def [abs_def] split: option.split)
qed

lemma upsertConfig_InrE:
  assumes "run_state (upsertConfig c) d = (Inr u, d')"
  obtains row where "d' = d\<lparr>db_loyalty_configs := (db_loyalty_configs d)(cfg_StoreID c \<mapsto> row)\<rparr>"
  using assms by (auto simp: upsertConfig_def split: option.splits if_splits)

lemma insertHistory_InrE:
  assumes "run_state (insertHistory now c who) d = (Inr u, d')"
  obtains v where "ver_StoreID v = cfg_StoreID c" "d' = d\<lparr>db_config_history := db_config_history d @ [v]\<rparr>"
proof -
  obtain r where r: "config_row c = Some r" using assms by (auto simp: insertHistory_def split: option.splits)
  then have "cfg_StoreID r = cfg_StoreID c" by (auto simp: config_row_def split: option.splits if_splits)
  with assms r show thesis
    by (intro that [of "last (db_config_history d')"]) (auto simp: insertHistory_def split: if_splits)
qed

lemma config_Upsert_effect:
  obtains q where "after (config_Upsert tf now cfg who) d = d\<lparr>db_seq := q\<rparr>"
  | row v where "after (config_Upsert tf now cfg who) d =
      d\<lparr>db_loyalty_configs := (db_loyalty_configs d)(cfg_StoreID cfg \<mapsto> row), db_config_history := db_config_history d @ [v]\<rparr>"
      "ver_StoreID v = cfg_StoreID cfg"
proof -
  obtain r d' where run: "run_state (config_Upsert tf now cfg who) d = (r, d')" by fastforce
  show thesis
  proof (cases r)
    case (Inl e)
    with run have "\<exists>q. d' = d\<lparr>db_seq := q\<rparr>" unfolding config_Upsert_def by (intro transaction_of_Inl) simp
    with run that(1) show thesis by auto
  next
    case (Inr c)
    have "\<exists>row v. d' = d\<lparr>db_loyalty_configs := (db_loyalty_configs d)(cfg_StoreID cfg \<mapsto> row),
        db_config_history := db_config_history d @ [v]\<rparr> \<and> ver_StoreID v = cfg_StoreID cfg"
      using run [unfolded Inr] unfolding config_Upsert_def Let_def
      by (elim op_elims) (elim upsertConfig_InrE insertHistory_InrE, auto)
    with run that(2) show thesis by auto
  qed
qed

lemma upsert_within:
  assumes "cfg_StoreID cfg = i"
  shows "scope_spares (store_scope g i) d (after (config_Upsert tf now cfg who) d)"
    and "db_memberships (after (config_Upsert tf now cfg who) d) = db_memberships d"
  using assms
  by (cases rule: config_Upsert_effect [of tf now cfg who d]; simp add: scope_spares_def customers_untouched_def alien_id_def)+

lemma create_key_within: "key_StoreID k = i \<Longrightarrow> scope_spares (store_scope g i) d (after (key_Create now k) d)"
  by (auto simp: key_Create_def run_andThen Let_def scope_spares_def customers_untouched_def alien_id_def)

lemma revoke_key_within: "scope_spares (store_scope g i) d (after (key_Revoke now i k) d)"
proof -
  let ?f = "\<lambda>x. if key_ID x = k \<and> key_StoreID x = i \<and> key_RevokedAt x = None then x\<lparr>key_RevokedAt := Some now\<rparr> else x"
  have same: "key_StoreID (?f x) = key_StoreID x" for x by simp
  have "List.filter (\<lambda>x. key_StoreID x \<noteq> i) (map ?f (db_api_keys d)) = List.filter (\<lambda>x. key_StoreID x \<noteq> i) (db_api_keys d)"
    unfolding filter_map comp_def same by (rule map_idI) auto
  then show ?thesis by (auto simp: key_Revoke_def Let_def scope_spares_def customers_untouched_def alien_id_def eq_commute [of i])
qed

lemma applied_id: "applyTo b s = Inr s' \<Longrightarrow> st_ID s' = st_ID s \<and> st_OrganizationID s' = st_OrganizationID s"
  by (auto simp: applyTo_def applyName_def applyAddress_def applyExternalCode_def applySMSInvite_def split: option.splits sum.splits if_splits)

lemma bounded_clientBodies: "keeps (bounded sc Q) (clientBodies (quiet t) k masked cs)"
  by (induction cs arbitrary: k) (auto intro!: bounded_intros bounded_read)

lemma bounded_save:
  assumes "cfg_StoreID cfg = i" "st_ID s = i"
  shows "keeps (bounded (store_scope g i) Q) (saveConfig (quiet t) r s g action failed cfg)"
  unfolding saveConfig_def Let_def
  by (auto intro!: bounded_intros bounded_stmt simp: upsert_within [OF assms(1)] split: sum.split)

lemma with_body_path [simp]: "rq_PathValue (with_body f r) = rq_PathValue r"
  by (simp add: with_body_def)

lemma bounded_store_reads:
  assumes "parse_int (rq_PathValue r ''orgID'') = Some g" "parse_int (rq_PathValue r ''storeID'') = Some i"
  shows "keeps (bounded (store_scope g i) Q) (handleGetStore (quiet t) r)"
    "keeps (bounded (store_scope g i) Q) (handleGetStoreOverview (quiet t) r)"
    "keeps (bounded (store_scope g i) Q) (handleAdminListClients (quiet t) r)"
    "keeps (bounded (store_scope g i) Q) (handleAdminLookupClient (quiet t) r)"
    "keeps (bounded (store_scope g i) Q) (handleAdminListClientTransactions (quiet t) r)"
    "keeps (bounded (store_scope g i) Q) (handleGetLoyaltyConfig (quiet t) r)"
    "keeps (bounded (store_scope g i) Q) (handleListLoyaltyConfigHistory (quiet t) r)"
    "keeps (bounded (store_scope g i) Q) (handleListStoreAPIKeys (quiet t) r)"
  unfolding handleGetStore_def handleGetStoreOverview_def overviewConfig_def overviewAPIKeys_def handleAdminListClients_def
    handleAdminLookupClient_def handleAdminListClientTransactions_def handleGetLoyaltyConfig_def handleListLoyaltyConfigHistory_def
    handleListStoreAPIKeys_def Let_def
  by (auto intro!: bounded_scoped [OF assms] bounded_intros bounded_read bounded_clientBodies split: sum.split option.split)

lemma store_stmts_memberships [simp]:
  "db_memberships (after (store_UpdateProfile s) d) = db_memberships d" "db_memberships (after (key_Create now k) d) = db_memberships d"
  "db_memberships (after (key_Revoke now i n) d) = db_memberships d"
  by (simp_all add: store_UpdateProfile_def key_Create_def key_Revoke_def run_andThen Let_def split: option.split)

lemma bounded_store_stmts:
  "st_ID s = i \<Longrightarrow> keeps (bounded (store_scope g i) Q) (call (quiet t) l (on_db (store_UpdateProfile s)))"
  "key_StoreID k = i \<Longrightarrow> keeps (bounded (store_scope g i) Q) (call (quiet t) l (on_db (key_Create now k)))"
  "keeps (bounded (store_scope g i) Q) (call (quiet t) l (on_db (key_Revoke now i n)))"
  by (auto intro!: bounded_stmt simp: update_within create_key_within revoke_key_within)

lemma bounded_store_writes:
  assumes "parse_int (rq_PathValue r ''orgID'') = Some g" "parse_int (rq_PathValue r ''storeID'') = Some i"
  shows "keeps (bounded (store_scope g i) Q) (handlePutLoyaltyConfig (quiet t) (with_body f1 r))"
    "keeps (bounded (store_scope g i) Q) (handleRollbackLoyaltyConfig (quiet t) (with_body f2 r))"
    "keeps (bounded (store_scope g i) Q) (handleUpdateStore (quiet t) (with_body f3 r))"
    "keeps (bounded (store_scope g i) Q) (handleCreateStoreAPIKey sha (quiet t) kb sb (with_body f4 r))"
    "keeps (bounded (store_scope g i) Q) (handleRevokeStoreAPIKey (quiet t) r)"
proof -
  show "keeps (bounded (store_scope g i) Q) (handlePutLoyaltyConfig (quiet t) (with_body f1 r))"
    unfolding handlePutLoyaltyConfig_def Let_def
    by (auto intro!: bounded_scoped [where g = g and i = i] bounded_intros bounded_save simp: assms config_of_body_def split: option.split)
  show "keeps (bounded (store_scope g i) Q) (handleRollbackLoyaltyConfig (quiet t) (with_body f2 r))"
    unfolding handleRollbackLoyaltyConfig_def
    by (auto intro!: bounded_scoped [where g = g and i = i] bounded_intros bounded_read bounded_save simp: assms config_of_version_def split: option.split sum.split)
  show "keeps (bounded (store_scope g i) Q) (handleUpdateStore (quiet t) (with_body f3 r))"
    unfolding handleUpdateStore_def
    by (auto intro!: bounded_scoped [where g = g and i = i] bounded_intros bounded_store_stmts simp: assms dest!: applied_id split: option.split sum.split)
  show "keeps (bounded (store_scope g i) Q) (handleCreateStoreAPIKey sha (quiet t) kb sb (with_body f4 r))"
    unfolding handleCreateStoreAPIKey_def createKey_def Let_def
    by (auto intro!: bounded_scoped [where g = g and i = i] bounded_intros bounded_store_stmts simp: assms split: option.split sum.split prod.split)
  show "keeps (bounded (store_scope g i) Q) (handleRevokeStoreAPIKey (quiet t) r)"
    unfolding handleRevokeStoreAPIKey_def Let_def
    by (auto intro!: bounded_scoped [OF assms] bounded_intros bounded_read bounded_store_stmts split: option.split sum.split)
qed

text \<open>Unless the store of the path is one of the organization of the path, nothing changes at all.\<close>

definition in_org :: "int \<Rightarrow> int \<Rightarrow> db \<Rightarrow> bool" where
  "in_org g i d \<longleftrightarrow> list_ex (\<lambda>s. st_ID s = i \<and> st_OrganizationID s = g) (db_stores d)"

definition idle :: "int \<Rightarrow> int \<Rightarrow> 'k world \<Rightarrow> 'k world \<Rightarrow> bool" where
  "idle g i w w' \<longleftrightarrow> in_org g i (w_db w) \<or> w_db w' = w_db w"

lemma idle_refl: "reflp (idle g i)"
  by (simp add: reflp_def idle_def)

lemma idle_scoped:
  assumes "parse_int (rq_PathValue r ''orgID'') = Some g" "parse_int (rq_PathValue r ''storeID'') = Some i"
  shows "keeps (idle g i) (resolveScopedStore (quiet t) found r)"
  using assms
  by (auto simp: keeps_def idle_def resolveScopedStore_quiet in_org_def list_ex_iff dest!: find_SomeD split: option.split)

lemma idle_store_routes:
  assumes "parse_int (rq_PathValue r ''orgID'') = Some g" "parse_int (rq_PathValue r ''storeID'') = Some i"
  shows "keeps (idle g i) (handleGetStore (quiet t) r)"
    "keeps (idle g i) (handleGetStoreOverview (quiet t) r)"
    "keeps (idle g i) (handleAdminListClients (quiet t) r)"
    "keeps (idle g i) (handleAdminLookupClient (quiet t) r)"
    "keeps (idle g i) (handleAdminListClientTransactions (quiet t) r)"
    "keeps (idle g i) (handleGetLoyaltyConfig (quiet t) r)"
    "keeps (idle g i) (handleListLoyaltyConfigHistory (quiet t) r)"
    "keeps (idle g i) (handleListStoreAPIKeys (quiet t) r)"
    "keeps (idle g i) (handlePutLoyaltyConfig (quiet t) (with_body f1 r))"
    "keeps (idle g i) (handleRollbackLoyaltyConfig (quiet t) (with_body f2 r))"
    "keeps (idle g i) (handleUpdateStore (quiet t) (with_body f3 r))"
    "keeps (idle g i) (handleCreateStoreAPIKey sha (quiet t) kb sb (with_body f4 r))"
    "keeps (idle g i) (handleRevokeStoreAPIKey (quiet t) r)"
  unfolding handleGetStore_def handleGetStoreOverview_def handleAdminListClients_def handleAdminLookupClient_def
    handleAdminListClientTransactions_def handleGetLoyaltyConfig_def handleListLoyaltyConfigHistory_def handleListStoreAPIKeys_def
    handlePutLoyaltyConfig_def handleRollbackLoyaltyConfig_def handleUpdateStore_def handleCreateStoreAPIKey_def
    handleRevokeStoreAPIKey_def Let_def
  by (auto intro!: idle_scoped bounded_writes [OF idle_refl] simp: assms split: option.split)

section \<open>The routes of an organization\<close>

abbreviation org_scope :: "int \<Rightarrow> staff_scope" where
  "org_scope g \<equiv> \<lparr>sc_OrganizationID = g, sc_StoreID = None\<rparr>"

lemma create_store_within: "st_OrganizationID s = g \<Longrightarrow> scope_spares (org_scope g) d (after (store_Create s) d)"
  by (auto simp: store_Create_def run_andThen Let_def scope_spares_def customers_untouched_def alien_store_def)

lemma create_staff_within: "scope_spares sc d (after (staff_Create now u) d)"
  by (auto simp: staff_Create_def run_andThen Let_def scope_spares_def customers_untouched_def)

lemma create_membership_within: "mem_OrganizationID m = g \<Longrightarrow> scope_spares (org_scope g) d (after (membership_Create now m) d)"
  by (auto simp: membership_Create_def run_andThen Let_def scope_spares_def customers_untouched_def alien_membership_def)

text \<open>The memberships with id \<open>i\<close> are the organization's.\<close>

definition owned :: "int \<Rightarrow> int \<Rightarrow> staff_membership list \<Rightarrow> bool" where
  "owned g i ms \<longleftrightarrow> list_all (\<lambda>m. mem_ID m = i \<longrightarrow> mem_OrganizationID m = g) ms"

lemma update_membership_within:
  assumes "owned g i (db_memberships d)" "\<And>m. mem_ID (f m) = mem_ID m" "\<And>m. mem_OrganizationID (f m) = mem_OrganizationID m"
  shows "owned g i (db_memberships (after (update_membership i f) d)) \<and> scope_spares (org_scope g) d (after (update_membership i f) d)"
proof -
  let ?f = "\<lambda>m. if mem_ID m = i then f m else m"
  have same: "mem_OrganizationID (?f m) = mem_OrganizationID m" for m by (simp add: assms(3))
  have "List.filter (\<lambda>m. mem_OrganizationID m \<noteq> g) (map ?f (db_memberships d)) = List.filter (\<lambda>m. mem_OrganizationID m \<noteq> g) (db_memberships d)"
    unfolding filter_map comp_def same by (rule map_idI) (use assms(1) in \<open>auto simp: owned_def list_all_iff\<close>)
  moreover have "owned g i (map ?f (db_memberships d))"
    using assms by (auto simp: owned_def list_all_iff)
  ultimately show ?thesis
    by (simp add: update_membership_def scope_spares_def customers_untouched_def alien_membership_def [abs_def])
qed

lemma bounded_update: "keeps (bounded (org_scope g) (owned g i)) (call (quiet t) l (on_db (membership_UpdateRole now i ro)))"
  "keeps (bounded (org_scope g) (owned g i)) (call (quiet t) l (on_db (membership_UpdateStatus now i st)))"
  unfolding membership_UpdateRole_def membership_UpdateStatus_def
  by (intro bounded_stmt update_membership_within; simp)+

lemma bounded_change:
  "keeps (bounded (org_scope g) (owned g (mem_ID target))) (changeMembership (quiet t) r g target ro st)"
  unfolding changeMembership_def writeRole_def writeStatus_def Let_def
  by (auto intro!: bounded_intros bounded_update split: option.split sum.split)

lemma update_membership_bounded:
  assumes "parse_int (rq_PathValue r ''orgID'') = Some g" "distinct (map mem_ID (db_memberships (w_db w)))"
  shows "scope_spares (org_scope g) (w_db w) (w_db (after (handleUpdateStaffMembership (quiet t) r) w))"
proof (cases "\<exists>i body ro st target. parse_int (rq_PathValue r ''membershipID'') = Some i \<and> rq_Body r = Some body \<and>
    parseUpdate body = Inr (ro, st) \<and> find (\<lambda>m. mem_ID m = i) (db_memberships (w_db w)) = Some target \<and> mem_OrganizationID target = g")
  case True
  then obtain i body ro st target where parsed: "parse_int (rq_PathValue r ''membershipID'') = Some i" "rq_Body r = Some body"
    "parseUpdate body = Inr (ro, st)" "find (\<lambda>m. mem_ID m = i) (db_memberships (w_db w)) = Some target" "mem_OrganizationID target = g" by blast
  from find_SomeD [OF parsed(4)] have target: "target \<in> set (db_memberships (w_db w))" "mem_ID target = i" by auto
  have "owned g (mem_ID target) (db_memberships (w_db w))"
    unfolding owned_def list_all_iff
  proof (intro ballI impI)
    fix m assume "m \<in> set (db_memberships (w_db w))" "mem_ID m = mem_ID target"
    from distinct_map_inj [OF assms(2) this(1) target(1) this(2)] parsed(5) show "mem_OrganizationID m = g" by simp
  qed
  with keepsD [OF bounded_change, of g target w t r ro st] parsed assms(1) show ?thesis
    by (simp add: handleUpdateStaffMembership_def run_on_db membership_GetByID_def bounded_def)
next
  case False
  then have "w_db (after (handleUpdateStaffMembership (quiet t) r) w) = w_db w"
    using assms(1) by (auto simp: handleUpdateStaffMembership_def run_on_db membership_GetByID_def split: option.split sum.split)
  then show ?thesis by simp
qed

lemma bounded_org_stmts:
  "st_OrganizationID s = g \<Longrightarrow> keeps (bounded (org_scope g) (\<lambda>_. True)) (call (quiet t) l (on_db (store_Create s)))"
  "keeps (bounded sc (\<lambda>_. True)) (call (quiet t) l (on_db (staff_Create now u)))"
  "mem_OrganizationID m = g \<Longrightarrow> keeps (bounded (org_scope g) (\<lambda>_. True)) (call (quiet t) l (on_db (membership_Create now m)))"
  by (auto intro!: bounded_stmt simp: create_store_within create_staff_within create_membership_within)

lemma bounded_membershipBodies: "keeps (bounded sc Q) (membershipBodies (quiet t) k names ms)"
  by (induction ms arbitrary: k names) (auto intro!: bounded_intros bounded_read split: option.split)

lemma bounded_names:
  "keeps (bounded sc Q) (names_user (quiet t) l names i)" "keeps (bounded sc Q) (names_membership (quiet t) k names i)"
  "keeps (bounded sc Q) (unnamed names)"
  unfolding names_membership_def names_user_def unnamed_def Let_def
  by (auto intro!: bounded_intros bounded_read split: option.split sum.split)

lemma bounded_auditBodies: "keeps (bounded sc Q) (auditBodies (quiet t) k names es)"
  by (induction es arbitrary: k names) (auto intro!: bounded_intros bounded_names split: option.split prod.split)

lemma bounded_org:
  assumes "parse_int (rq_PathValue r ''orgID'') = Some g"
  shows "keeps (bounded (org_scope g) (\<lambda>_. True)) (handleCreateStore (quiet t) (with_body f1 r))"
    "keeps (bounded (org_scope g) (\<lambda>_. True)) (handleCreateStaffMembership (quiet t) (with_body f2 r))"
    "keeps (bounded (org_scope g) (\<lambda>_. True)) (handleListStaffMemberships (quiet t) r)"
    "keeps (bounded (org_scope g) (\<lambda>_. True)) (handleListAuditEvents (quiet t) r)"
proof -
  show "keeps (bounded (org_scope g) (\<lambda>_. True)) (handleCreateStore (quiet t) (with_body f1 r))"
    unfolding handleCreateStore_def
    by (auto intro!: bounded_intros bounded_org_stmts simp: assms zero_store_def dest!: applied_id split: option.split sum.split)
  show "keeps (bounded (org_scope g) (\<lambda>_. True)) (handleCreateStaffMembership (quiet t) (with_body f2 r))"
    unfolding handleCreateStaffMembership_def grantMembership_def checkStoreInOrganization_def resolveTargetUser_def Let_def
    by (auto intro!: bounded_intros bounded_read bounded_org_stmts simp: assms split: option.split sum.split prod.split)
  show "keeps (bounded (org_scope g) (\<lambda>_. True)) (handleListStaffMemberships (quiet t) r)"
    unfolding handleListStaffMemberships_def
    by (auto intro!: bounded_intros bounded_read bounded_membershipBodies simp: assms split: sum.split)
  show "keeps (bounded (org_scope g) (\<lambda>_. True)) (handleListAuditEvents (quiet t) r)"
    unfolding handleListAuditEvents_def Let_def
    by (auto intro!: bounded_intros bounded_read bounded_auditBodies simp: assms split: sum.split)
qed

section \<open>Any staff route with a scope\<close>

lemma staff_operations:
  "rt \<in> set routeTable \<Longrightarrow> rt_Contour rt = contourStaff \<Longrightarrow> \<not> rt_StaffIdentityOnly rt \<Longrightarrow> \<not> rt_StaffGlobal rt \<Longrightarrow>
   rt_StaffScope rt = Some staffScopeStore \<and>
     rt_OperationID rt \<in> {''getStore'', ''updateStore'', ''getStoreOverview'', ''adminListClients'', ''adminLookupClient'',
       ''adminListClientTransactions'', ''getLoyaltyConfig'', ''putLoyaltyConfig'', ''listLoyaltyConfigHistory'',
       ''rollbackLoyaltyConfig'', ''listStoreAPIKeys'', ''createStoreAPIKey'', ''revokeStoreAPIKey''} \<or>
   rt_StaffScope rt = Some staffScopeOrg \<and>
     rt_OperationID rt \<in> {''createStore'', ''listStaffMemberships'', ''createStaffMembership'', ''updateStaffMembership'',
       ''listAuditEvents''}"
  by (auto simp: routeTable_def route_def)

text \<open>The store of the path, if the route names one, is the organization's.\<close>

definition names_own_store :: "staff_scope \<Rightarrow> db \<Rightarrow> bool" where
  "names_own_store sc d \<longleftrightarrow> (case sc_StoreID sc of Some i \<Rightarrow> in_org (sc_OrganizationID sc) i d | None \<Rightarrow> True)"

lemma store_operation_within:
  assumes "rt_OperationID rt \<in> {''getStore'', ''updateStore'', ''getStoreOverview'', ''adminListClients'', ''adminLookupClient'',
       ''adminListClientTransactions'', ''getLoyaltyConfig'', ''putLoyaltyConfig'', ''listLoyaltyConfigHistory'',
       ''rollbackLoyaltyConfig'', ''listStoreAPIKeys'', ''createStoreAPIKey'', ''revokeStoreAPIKey''}"
    and "parse_int (rq_PathValue r ''orgID'') = Some g" "parse_int (rq_PathValue r ''storeID'') = Some i"
    and "handlerFor J deps (quiet t) L draws (rt_OperationID rt) = Some h"
  shows "keeps (bounded (store_scope g i) (\<lambda>_. True)) (h r)" "keeps (idle g i) (h r)"
  using assms(1,4) bounded_store_reads [OF assms(2,3)] bounded_store_writes [OF assms(2,3)] idle_store_routes [OF assms(2,3)]
  by (auto simp: handlerFor_def intro!: confined_answering)

lemma after_answering: "after (answering f m) w = after m w"
  by (simp add: run_answering Let_def split: prod.split)

lemma org_operation_within:
  assumes "rt_OperationID rt \<in> {''createStore'', ''listStaffMemberships'', ''createStaffMembership'', ''updateStaffMembership'',
       ''listAuditEvents''}"
    and "parse_int (rq_PathValue r ''orgID'') = Some g" "distinct (map mem_ID (db_memberships (w_db w)))"
    and "handlerFor J deps (quiet t) L draws (rt_OperationID rt) = Some h"
  shows "scope_spares (org_scope g) (w_db w) (w_db (after (h r) w))"
proof (cases "rt_OperationID rt = ''updateStaffMembership''")
  case True
  with assms(2-4) show ?thesis by (auto simp: handlerFor_def after_answering intro!: update_membership_bounded)
next
  case False
  with assms(1,4) bounded_org [OF assms(2)] have "keeps (bounded (org_scope g) (\<lambda>_. True)) (h r)"
    by (auto simp: handlerFor_def intro!: confined_answering)
  from keepsD [OF this, of w] show ?thesis by (simp add: bounded_def)
qed

lemma operation_within:
  assumes "rt \<in> set routeTable" "rt_Contour rt = contourStaff" "\<not> rt_StaffIdentityOnly rt" "\<not> rt_StaffGlobal rt"
    and "handlerFor J deps (quiet t) L draws (rt_OperationID rt) = Some h" "scopeFn rt r = Inr sc"
    and "distinct (map mem_ID (db_memberships (w_db w)))"
  shows "scope_spares sc (w_db w) (w_db (after (h r) w)) \<and> (names_own_store sc (w_db w) \<or> w_db (after (h r) w) = w_db w)"
  using staff_operations [OF assms(1-4)]
proof (elim disjE conjE)
  assume "rt_StaffScope rt = Some staffScopeStore" and op: "rt_OperationID rt \<in> {''getStore'', ''updateStore'', ''getStoreOverview'',
    ''adminListClients'', ''adminLookupClient'', ''adminListClientTransactions'', ''getLoyaltyConfig'', ''putLoyaltyConfig'',
    ''listLoyaltyConfigHistory'', ''rollbackLoyaltyConfig'', ''listStoreAPIKeys'', ''createStoreAPIKey'', ''revokeStoreAPIKey''}"
  with assms(6) obtain g i where path: "parse_int (rq_PathValue r ''orgID'') = Some g" "parse_int (rq_PathValue r ''storeID'') = Some i"
    and sc: "sc = store_scope g i"
    by (auto simp: scopeFn_def storeScopeFromPath_def split: option.splits)
  note kept = store_operation_within [OF op path assms(5)]
  from keepsD [OF kept(1), of w] keepsD [OF kept(2), of w] show ?thesis
    by (auto simp: sc names_own_store_def bounded_def idle_def)
next
  assume "rt_StaffScope rt = Some staffScopeOrg" and op: "rt_OperationID rt \<in> {''createStore'', ''listStaffMemberships'',
    ''createStaffMembership'', ''updateStaffMembership'', ''listAuditEvents''}"
  with assms(6) obtain g where path: "parse_int (rq_PathValue r ''orgID'') = Some g" and sc: "sc = org_scope g"
    by (auto simp: scopeFn_def orgScopeFromPath_def split: option.splits)
  from org_operation_within [OF op path assms(7,5)] show ?thesis by (simp add: sc names_own_store_def)
qed

text \<open>The scope is the path's, so it is the same once the staff user is known.\<close>

lemma scopeFn_path [simp]: "scopeFn rt (entering p r) = scopeFn rt r" "scopeFn rt (resolved deps r) = scopeFn rt r"
  by (simp_all add: scopeFn_def orgScopeFromPath_def storeScopeFromPath_def split: option.split)

end
