(* ===== verification/Tenancy_Theorems.thy ===== *)
theory Tenancy_Theorems
  imports Tenancy_Staff Route_Theorems
begin

text \<open>
  The properties of \<open>Tenancy\<close> on the routes of the register, with a database of two stores, and of
  \<open>Tenancy_Staff\<close> on the admin routes, with a manager of one store.
\<close>

text \<open>
  C10: a store's key changes nothing of another store. Whatever a request to a route of the
  register's contour asks, whichever of the loyalty service's calls fail and whatever other requests of the same
  store run between them: the clients, balances, transactions and keys of every other store are as
  they were, and so are the stores, their loyalty configurations, the accounts and sessions of the
  customers and the staff; the notification queue and the audit trail are only added to.
\<close>

theorem store_key_writes_own_store:
  assumes "rt \<in> set routeTable" "rt_Contour rt = contourStoreKey" "handle J deps (quiet t) L draws rt = Some h"
    and "opens_only (dp_hash deps) (bearer r) sid w" "primary_keys (w_db w)" "store_only sid L"
  shows "spares sid (w_db w) (w_db (after (h r) w))"
proof -
  obtain h0 where h0: "handlerFor J deps (quiet t) L draws (rt_OperationID rt) = Some h0" "h = serve deps (quiet t) rt h0"
    using assms(3) by (auto simp: handle_def)
  obtain a w' where run: "run_state (serve deps (quiet t) rt h0 r) w = (a, w')" by fastforce
  have touch: "confined sid (w_db w) (touched t key (w_db w)) \<and> st_ID s = sid"
    if "opens (dp_hash deps) t (w_db w) (bearer r) s key" for s key
    using confined_touched [OF that] assms(4) that by (auto simp: opens_only_def)
  consider "w_db w' = w_db w"
    | s key where "opens (dp_hash deps) t (w_db w) (bearer r) s key" "w_db w' = touched t key (w_db w)"
    | s key w1 where "opens (dp_hash deps) t (w_db w) (bearer r) s key" "w_db w1 = touched t key (w_db w)"
        "run_state (h0 (storeRequest s key (resolved deps r))) w1 = (a, w')"
    using store_route_outcome [OF assms(2) run] by blast
  then have "confined sid (w_db w) (w_db w')"
  proof cases
    case (3 s key w1)
    note s = 3(1) and w1 = 3(2) and h = 3(3)
    have "keeps (confined_world (st_ID s)) (h0 (storeRequest s key (resolved deps r)))"
      using touch [OF s] assms(6) by (intro confined_operation [OF assms(1,2) h0(1)]) simp_all
    from keepsD [OF this, of w1] have "confined (st_ID s) (w_db w1) (w_db w')" by (simp add: h confined_world_def)
    with w1 touch [OF s] show ?thesis by (metis confined_then)
  qed (use touch in auto)
  with run assms(5) show ?thesis by (simp add: h0(2) confined_def)
qed

section \<open>Two stores\<close>

text \<open>The register of store 3 asks to redeem the points of a client of store 8, with a key that opens store 3.\<close>

definition client_of :: "int \<Rightarrow> int \<Rightarrow> client" where
  "client_of i s = \<lparr>cl_ID = i, cl_StoreID = s, cl_Phone = ''+79001112233'', cl_CustomerAccountID = None, cl_CreatedAt = 0\<rparr>"

definition two_stores :: "keyspace world" where
  "two_stores = demo_world\<lparr>w_db := (w_db demo_world)\<lparr>db_stores := [demo_store, demo_store\<lparr>st_ID := 8\<rparr>],
     db_clients := [client_of 1 3, client_of 2 8], db_balances := [1 \<mapsto> 50, 2 \<mapsto> 70], db_seq := (\<lambda>_. 2)\<rparr>\<rparr>"

definition redeem_json :: json_lib where
  "redeem_json = no_json\<lparr>js_redeem := \<lambda>_. Some \<lparr>rb_ExternalTxID = ''x'', rb_ClientID = 2, rb_Points = 10, rb_Amount = 100\<rparr>\<rparr>"

definition redeemRoute :: route_meta where
  "redeemRoute = the (find (\<lambda>rt. rt_OperationID rt = ''redeemTransaction'') routeTable)"

lemma redeem_route:
  "redeemRoute \<in> set routeTable" "rt_Contour redeemRoute = contourStoreKey" "rt_OperationID redeemRoute = ''redeemTransaction''"
  by (simp_all add: redeemRoute_def routeTable_def route_def)

theorem store_key_writes_own_store_witness:
  "\<exists>h. handle redeem_json demo_deps (quiet 0) (quiet 0) no_draws redeemRoute = Some h \<and>
     db_balances (w_db (after (h (demo_request ''k.s'' store_path (Some []))) two_stores)) 2 = Some 70"
proof -
  let ?r = "demo_request ''k.s'' store_path (Some []) :: string request"
  obtain h where h: "handle redeem_json demo_deps (quiet 0) (quiet 0) no_draws redeemRoute = Some h"
    by (simp add: handle_def handlerFor_def redeem_route)
  have key: "opens_only (dp_hash demo_deps) (bearer ?r) 3 two_stores"
    by (auto simp: opens_only_def opens_def two_stores_def demo_world_def demo_store_def demo_key_def split: option.splits)
  have keys: "primary_keys (w_db two_stores)"
    by (simp add: primary_keys_def two_stores_def demo_world_def client_of_def empty_db_def)
  let ?d = "w_db (after (h ?r) two_stores)"
  have "spares 3 (w_db two_stores) ?d"
    by (rule store_key_writes_own_store [OF redeem_route(1,2) h key keys]) simp
  then have "foreign 3 ?d = foreign 3 (w_db two_stores)" "foreign_balances 3 ?d = foreign_balances 3 (w_db two_stores)"
    by (simp_all add: spares_def)
  then have "(2, db_balances ?d 2) = (2, Some 70)"
    by (simp add: foreign_balances_def foreign_def two_stores_def client_of_def)
  with h show ?thesis by simp
qed

section \<open>The staff\<close>

text \<open>
  C11: staff change nothing outside the organization or store of the path. Undisturbed, whatever a
  request to an admin route with a scope asks: stores, memberships, keys and loyalty configurations
  outside the scope of its path are as they were, and so is everything of the customers; staff users are only added, and
  audit records of the organization of the path. Anything changes at all only if the request carries the
  token of an active staff user, one of whose memberships grants the route's permission in that
  scope, and if the store of the path, when there is one, is a store of the organization of the path.
\<close>

theorem staff_writes_within_scope:
  assumes "rt \<in> set routeTable" "rt_Contour rt = contourStaff" "\<not> rt_StaffIdentityOnly rt" "\<not> rt_StaffGlobal rt"
    and "handle J deps (quiet t) L draws rt = Some h" "scopeFn rt r = Inr sc" "distinct (map mem_ID (db_memberships (w_db w)))"
  shows "scope_spares sc (w_db w) (w_db (after (h r) w)) \<and>
    (w_db (after (h r) w) = w_db w \<or>
     (\<exists>i. ParseStaffAccessToken (dp_jwt deps) t (dp_StaffAccessTokenSecret deps) (bearer r) = Inr i \<and>
        list_ex (\<lambda>u. su_ID u = i \<and> su_Status u = StaffActive) (db_staff_users (w_db w)) \<and>
        list_ex (grants i (permissionOf rt) (sc_OrganizationID sc) (sc_StoreID sc)) (db_memberships (w_db w)) \<and>
        names_own_store sc (w_db w)))"
proof -
  obtain h0 where h0: "handlerFor J deps (quiet t) L draws (rt_OperationID rt) = Some h0" "h = serve deps (quiet t) rt h0"
    using assms(5) by (auto simp: handle_def)
  obtain a w' where run: "run_state (serve deps (quiet t) rt h0 r) w = (a, w')" by fastforce
  from staff_route_cases [OF assms(2-4) run] have "scope_spares sc (w_db w) (w_db w') \<and> (w_db w' = w_db w \<or>
     (\<exists>i. ParseStaffAccessToken (dp_jwt deps) t (dp_StaffAccessTokenSecret deps) (bearer r) = Inr i \<and>
        list_ex (\<lambda>u. su_ID u = i \<and> su_Status u = StaffActive) (db_staff_users (w_db w)) \<and>
        list_ex (grants i (permissionOf rt) (sc_OrganizationID sc) (sc_StoreID sc)) (db_memberships (w_db w)) \<and>
        names_own_store sc (w_db w)))"
  proof (elim disjE conjE exE)
    fix i p scope w1
    assume token: "ParseStaffAccessToken (dp_jwt deps) t (dp_StaffAccessTokenSecret deps) (bearer r) = Inr i"
      and p: "run_state (ResolvePrincipal (quiet t) i) w1 = (Inr p, w1)" and scope: "scopeFn rt (resolved deps r) = Inr scope"
      and perm: "principal_HasPermission p (permissionOf rt) (sc_OrganizationID scope) (sc_StoreID scope)" and db: "w_db w1 = w_db w"
      and h: "run_state (h0 (entering p (resolved deps r))) w1 = (a, w')"
    from scope assms(6) have sc: "scope = sc" "scopeFn rt (entering p (resolved deps r)) = Inr sc" by simp_all
    from operation_within [OF assms(1-4) h0(1) sc(2), of w1] assms(7)
    show ?thesis using token perm principal_rows [OF p] by (auto simp: sc(1) h db)
  qed simp
  with run show ?thesis by (simp add: h0(2))
qed

text \<open>A manager of store 3 revokes a key of store 8, by the path of store 3.\<close>

definition key_of :: "int \<Rightarrow> int \<Rightarrow> store_api_key" where
  "key_of i s = demo_key\<lparr>key_ID := i, key_StoreID := s\<rparr>"

definition two_keys :: "keyspace world" where
  "two_keys = demo_world\<lparr>w_db := (w_db demo_world)\<lparr>db_api_keys := [key_of 1 3, key_of 2 8]\<rparr>\<rparr>"

definition revokeRoute :: route_meta where
  "revokeRoute = the (find (\<lambda>rt. rt_OperationID rt = ''revokeStoreAPIKey'') routeTable)"

lemma revoke_route:
  "revokeRoute \<in> set routeTable" "rt_Contour revokeRoute = contourStaff" "\<not> rt_StaffIdentityOnly revokeRoute"
  "\<not> rt_StaffGlobal revokeRoute" "rt_OperationID revokeRoute = ''revokeStoreAPIKey''" "rt_StaffScope revokeRoute = Some staffScopeStore"
  by (simp_all add: revokeRoute_def routeTable_def route_def)

theorem staff_writes_within_scope_witness:
  "\<exists>h. handle no_json demo_deps (quiet 0) (quiet 0) no_draws revokeRoute = Some h \<and>
     (\<forall>token. key_of 2 8 \<in> set (db_api_keys (w_db (after (h (demo_request token (store_path(''keyID'' := ''2'')) None)) two_keys))))"
proof -
  let ?r = "\<lambda>token. demo_request token (store_path(''keyID'' := ''2'')) None :: string request"
  obtain h where h: "handle no_json demo_deps (quiet 0) (quiet 0) no_draws revokeRoute = Some h"
    by (simp add: handle_def handlerFor_def revoke_route)
  have "parse_int ((store_path(''keyID'' := ''2'')) ''orgID'') = Some 2" "parse_int ((store_path(''keyID'' := ''2'')) ''storeID'') = Some 3"
    by simp_all
  then have scope: "scopeFn revokeRoute (?r token) = Inr (store_scope 2 3)" for token
    by (simp add: scopeFn_def storeScopeFromPath_def revoke_route)
  have keys: "distinct (map mem_ID (db_memberships (w_db two_keys)))"
    by (simp add: two_keys_def demo_world_def)
  have "key_of 2 8 \<in> set (db_api_keys (w_db (after (h (?r token)) two_keys)))" for token
  proof -
    from staff_writes_within_scope [OF revoke_route(1-4) h scope keys, of token]
    have "List.filter (\<lambda>k. alien_id (store_scope 2 3) (key_StoreID k)) (db_api_keys (w_db (after (h (?r token)) two_keys))) =
        List.filter (\<lambda>k. alien_id (store_scope 2 3) (key_StoreID k)) (db_api_keys (w_db two_keys))"
      by (simp add: scope_spares_def)
    moreover have "key_of 2 8 \<in> set (List.filter (\<lambda>k. alien_id (store_scope 2 3) (key_StoreID k)) (db_api_keys (w_db two_keys)))"
      by (simp add: two_keys_def alien_id_def key_of_def)
    ultimately show ?thesis by (metis (no_types, lifting) mem_Collect_eq set_filter)
  qed
  with h show ?thesis by auto
qed

end
