(* ===== verification/Spec2Isabelle.thy ===== *)
theory Spec2Isabelle
  imports Prelude Decimal Domain Database Phone Mechanic Ledger Repositories Refund_Split Loyalty
    Ledger_Steps Scenario Requests Outcomes Accrual Redemption Refunds Ledger_Theorems Loyalty_Theorems
    Identity Identity_Steps Paging Identity_Theorems Notification Delivery Delivery_Theorems
    Redis Tokens Otp_Store Qr_Store Rate_Limit Token_Theorems Customer_Auth Customer_Steps Customer_Theorems
    Qr_Service Qr_Theorems
    Oidc Staff_Auth Staff_Theorems Http Remote_Addr Http_Store Http_Customer Http_Keys Http_Staff Http_Stores
    Http_Config Http_Clients Routes Dispatch Http_Rules Http_Demo Http_Theorems
    Key_Theorems Mux Edge Route_Theorems Http_Paging Admin_Theorems Membership_Theorems
    Pos_Client Pos_Queue Pos_Register Pos_Flood Pos_Laws Pos_Replay Pos_Server Pos_Theorems
    Dotenv Config App Lifecycle Startup_Theorems Tenancy Tenancy_Staff
    Tenancy_Theorems
begin

text \<open>
  PromoGo is a loyalty server: registers (1C) post sales, redemptions and refunds of points for
  clients identified by phone or QR; stores, staff and customers manage the rest over HTTP;
  PostgreSQL holds everything durable and Redis the short-lived tokens; a worker delivers the
  queued notifications. \<open>possim\<close> is the register's side: a client with an offline queue.

  A request passes the router (\<open>Mux\<close>), the rate limits and the guard of its route (\<open>Routes\<close>), its
  handler (\<open>Http_*\<close>), a service (\<open>Loyalty\<close>, \<open>Customer_Auth\<close>, \<open>Staff_Auth\<close>, \<open>Qr_Service\<close>) and the
  repositories (\<open>Ledger\<close>, \<open>Repositories\<close>, \<open>Identity\<close>) and key space (\<open>Otp_Store\<close>, \<open>Qr_Store\<close>,
  \<open>Rate_Limit\<close>); every definition keeps the name of its Go function where that is unambiguous.

  The model.

  \<^item> \<open>Prelude\<close>, \<open>Decimal\<close>: int64 arithmetic (\<open>wrap64\<close>, \<open>in_i64\<close>), decimal strings, sums over
    rows; the third-party \<open>shopspring/decimal\<close> as a parameter \<open>decimal_lib\<close> with its documented
    behaviour (\<open>decimal_laws\<close>) and a concrete instance \<open>go_decimal\<close>.
  \<^item> \<open>Domain\<close>: \<open>internal/domain\<close>, entities, errors, pure rules. \<open>Phone\<close>: \<open>internal/auth/phone.go\<close>.
    \<open>Mechanic\<close>: \<open>internal/mechanic\<close>, \<open>mechanicbuild\<close>, \<open>notifytemplates\<close>.
  \<^item> \<open>Database\<close>: the tables as a record \<open>db\<close>; an operation is a state transformer that returns an
    error or a result; \<open>transaction_of\<close> rolls back on an error; \<open>call\<close> issues a repository call
    through an environment that may fail it before or after its effect and lets other requests
    run in between. A call itself is atomic: each repository method is one SQL statement or one
    transaction whose rows are locked before they are read (\<open>SELECT ... FOR UPDATE\<close>, or an
    \<open>UPDATE\<close> of the balance row).
  \<^item> \<open>Ledger\<close>: \<open>internal/repository/postgres/ledger_repository.go\<close>, the three operations that move
    points, statement by statement. \<open>Repositories\<close>, \<open>Identity\<close>: the other repositories.
  \<^item> \<open>Loyalty\<close>: \<open>internal/service/loyalty.go\<close>, accrual, redemption and refund requests with
    their idempotency handling, invitation and notification rules.
  \<^item> \<open>Notification\<close>: \<open>internal/service/outbox_worker.go\<close> and the senders of \<open>internal/notification\<close>.
  \<^item> \<open>Redis\<close>, \<open>Otp_Store\<close>, \<open>Qr_Store\<close>, \<open>Rate_Limit\<close>: the key space (a parameter under the laws
    \<open>redis_store\<close>) and the scripts and counters on it; a \<open>world\<close> is the database and the key space.
  \<^item> \<open>Tokens\<close>, \<open>Oidc\<close>: \<open>internal/auth\<close>; the signing libraries are parameters (\<open>jwt_laws\<close>, \<open>jose_laws\<close>).
  \<^item> \<open>Customer_Auth\<close>, \<open>Staff_Auth\<close>, \<open>Qr_Service\<close>: the services of those names, with \<open>bootstrap.go\<close>.
  \<^item> \<open>Http\<close>, \<open>Remote_Addr\<close>, \<open>Http_Store\<close>, \<open>Http_Customer\<close>, \<open>Http_Keys\<close>, \<open>Http_Staff\<close>, \<open>Http_Stores\<close>,
    \<open>Http_Config\<close>, \<open>Http_Clients\<close>: \<open>internal/httpserver\<close>, the guards and one handler per operation.
    \<open>Routes\<close>, \<open>Dispatch\<close>, \<open>Mux\<close>: the route table, the middleware chain, the handler of an operation
    and the matching of a request. \<open>Edge\<close>: the middleware around the router, with request ids, the
    access log and recovered panics, over \<open>net/http\<close>'s writer.
  \<^item> \<open>Pos_Client\<close>, \<open>Pos_Queue\<close>, \<open>Pos_Register\<close>, \<open>Pos_Flood\<close>: \<open>cmd/possim\<close>, over a server that is any
    state transformer, a network that may lose a request or its answer, and a disk that may fail.
  \<^item> \<open>Dotenv\<close>, \<open>Config\<close>: \<open>internal/config\<close>. \<open>App\<close>, \<open>Lifecycle\<close>: \<open>internal/app\<close>, \<open>internal/migrate\<close>
    and \<open>cmd/promogo\<close>, from the settings to the server's dependencies, and back to nothing open.

  The lemmas.

  \<^item> \<open>Ledger\<close> and \<open>Outcomes\<close> give, per posting operation, the specification of its effect
    (\<open>post_effect\<close>, \<open>refund_effect\<close>) and of its errors (\<open>post_error\<close>, \<open>redeem_error\<close>,
    \<open>refund_error\<close>), and prove that the statements implement them.
  \<^item> \<open>Ledger_Steps\<close> makes the operations steps of a transition relation, proves its invariant
    (\<open>ledger_wf\<close>: balances are sums of deltas, keys are unique, refunds stay within their
    originals), the exact proportional split of refunds (\<open>Refund_Split\<close>) and the rolling
    redemption limit, and that every request, under faults and interleaving, is a sequence of
    steps. \<open>Identity_Steps\<close> does the same for sessions, devices, memberships and keys.
  \<^item> \<open>Requests\<close>, \<open>Accrual\<close>, \<open>Redemption\<close>, \<open>Refunds\<close> analyse the runs of each request; a success leaves
    an answer that every replay reads back. \<open>Paging\<close> is keyset pagination, \<open>Delivery\<close> the work left
    in the outbox, \<open>Customer_Steps\<close> the login.
  \<^item> \<open>Http_Rules\<close>: what each guard lets through. \<open>Http_Paging\<close>: a reader who follows the cursors sees
    the whole listing once. \<open>Pos_Laws\<close>, \<open>Pos_Replay\<close>: what a register may rely on
    (\<open>loyalty_api\<close>) and what its queue then guarantees; \<open>Pos_Server\<close> discharges these laws for the
    server's own model, from the router down to the ledger.
  \<^item> \<open>Tenancy\<close>: which rows belong to which store, and that every statement behind a store's key leaves
    those of the other stores alone; \<open>spares\<close> composes along the code like the steps of the ledger.
    \<open>Tenancy_Staff\<close>: the same for the admin routes and the organization or store of their path.
  \<^item> The properties are in the theories \<open>*_Theorems\<close> and \<open>Http_Paging\<close>, with witnesses on the runs of
    \<open>Scenario\<close>, \<open>Http_Demo\<close> and the demonstrations beside them.

  Bounds: Go integers are mathematical integers kept in range by \<open>wrap64\<close> where the code
  computes with them and by a range check where PostgreSQL does; money is rational, rounded
  where a column or \<open>Div\<close> rounds; time is an integer of nanoseconds. Strings are strings of bytes.

  Fuel: the bootstrap's recursion takes its number of rounds, and two are proved enough; \<open>crawl\<close>
  one more than the pages there are; unquoting a \<open>.env\<close> value its length. All other loops are
  structural or have a measure; a register's request ends after three attempts.

  Not modelled: what is logged beside the access log; the counters of \<open>internal/metrics\<close> with the route
  \<open>GET /metrics\<close>; the embedded SQL files; printing; the limit of 1 MiB on a body;
  JSON, whose decoders and encoders are parameters or whose bodies are records; parsing of flags;
  what a migration does (its constraints are part of the operations); the drivers of PostgreSQL,
  Redis, Firebase and the message gateway, which are environments; the transport of HTTP.
\<close>

end
